(* ===== verification/Py_Prelude.thy ===== *)
theory Py_Prelude
  imports Main "HOL-Library.AList" "HOL-Library.List_Lexorder" "HOL-Library.Char_ord"
    "HOL-Library.Product_Lexorder" "HOL-Library.Sublist" "HOL-Library.Multiset"
begin

text \<open>
  Shared vocabulary of the development: the result type of fallible Python code, slices and
  keep-first duplicate removal, the insertion-ordered dictionary, the ASCII part of the string
  operations the program uses, and the stable sort by a key.  Text is a list of characters; the
  case operations cover ASCII, where casefold is lower-casing.
\<close>

section \<open>Collections of rules\<close>

named_theorems slice_simps \<open>length and membership of Python slices\<close>
named_theorems dict_simps \<open>lookup and keys of insertion-ordered dictionaries\<close>
named_theorems text_simps \<open>string operations\<close>

section \<open>Results of fallible code\<close>

type_synonym ('e, 'a) result = "'e + 'a"

abbreviation Raise :: "'e \<Rightarrow> ('e, 'a) result" where "Raise \<equiv> Inl"
abbreviation Return :: "'a \<Rightarrow> ('e, 'a) result" where "Return \<equiv> Inr"

fun bind_result :: "('e, 'a) result \<Rightarrow> ('a \<Rightarrow> ('e, 'b) result) \<Rightarrow> ('e, 'b) result" where
  "bind_result (Inl e) f = Inl e"
| "bind_result (Inr x) f = f x"

fun guard_result :: "bool \<Rightarrow> 'e \<Rightarrow> ('e, unit) result" where
  "guard_result True e = Inr ()"
| "guard_result False e = Inl e"

lemma bind_result_Inr [simp]:
  "bind_result m f = Inr y \<longleftrightarrow> (\<exists>x. m = Inr x \<and> f x = Inr y)"
  by (cases m) auto

lemma bind_result_Inl:
  "bind_result m f = Inl e \<longleftrightarrow> m = Inl e \<or> (\<exists>x. m = Inr x \<and> f x = Inl e)"
  by (cases m) auto

lemma guard_result_Inr [simp]: "guard_result b e = Inr u \<longleftrightarrow> b"
  by (cases b) auto

lemma guard_result_Inl [simp]: "guard_result b e = Inl e' \<longleftrightarrow> \<not> b \<and> e = e'"
  by (cases b) auto

section \<open>Slices and duplicate removal\<close>

text \<open>\<open>xs[-n:]\<close>: for \<open>n = 0\<close> Python returns the whole sequence.\<close>

definition last_n :: "nat \<Rightarrow> 'a list \<Rightarrow> 'a list" where
  "last_n n xs = (if n = 0 then xs else drop (length xs - n) xs)"

lemma length_last_n [slice_simps]: "0 < n \<Longrightarrow> length (last_n n xs) = min n (length xs)"
  by (simp add: last_n_def)

lemma set_last_n: "set (last_n n xs) \<subseteq> set xs"
  by (simp add: last_n_def set_drop_subset)

lemma last_n_all [slice_simps]: "length xs \<le> n \<Longrightarrow> last_n n xs = xs"
  by (simp add: last_n_def)

lemma last_n_suffix: "\<exists>ys. xs = ys @ last_n n xs"
  by (cases "n = 0") (auto simp: last_n_def intro!: exI [of _ "take (length xs - n) xs"])

lemma last_n_last: "xs \<noteq> [] \<Longrightarrow> last (last_n n xs) = last xs"
  by (simp add: last_n_def)

text \<open>The loop \<open>for item in right: if item not in result: result.append(item)\<close>.\<close>

fun append_new :: "'a list \<Rightarrow> 'a list \<Rightarrow> 'a list" where
  "append_new acc [] = acc"
| "append_new acc (x # xs) = append_new (if x \<in> set acc then acc else acc @ [x]) xs"

text \<open>\<open>dict.fromkeys(xs)\<close> as a tuple: the first occurrence of every item, in order.\<close>

definition unique_first :: "'a list \<Rightarrow> 'a list" where
  "unique_first xs = append_new [] xs"

lemma set_append_new [simp]: "set (append_new acc xs) = set acc \<union> set xs"
  by (induction acc xs rule: append_new.induct) auto

lemma distinct_append_new: "distinct acc \<Longrightarrow> distinct (append_new acc xs)"
  by (induction acc xs rule: append_new.induct) auto

lemma append_new_prefix: "\<exists>zs. append_new acc xs = acc @ zs \<and> set zs \<subseteq> set xs"
proof (induction acc xs rule: append_new.induct)
  case (1 acc)
  then show ?case by simp
next
  case (2 acc x xs)
  then show ?case by (cases "x \<in> set acc") auto
qed

lemma length_append_new: "length (append_new acc xs) \<le> length acc + length xs"
  by (induction acc xs rule: append_new.induct) auto

lemma append_new_subset: "set xs \<subseteq> set acc \<Longrightarrow> append_new acc xs = acc"
  by (induction acc xs rule: append_new.induct) auto

lemma set_unique_first [simp]: "set (unique_first xs) = set xs"
  by (simp add: unique_first_def)

lemma distinct_unique_first [simp]: "distinct (unique_first xs)"
  by (simp add: unique_first_def distinct_append_new)

lemma length_unique_first: "length (unique_first xs) \<le> length xs"
  using length_append_new [of "[]" xs] by (simp add: unique_first_def)

text \<open>The first element a generator with a condition yields: \<open>next((x for x in xs if p x), None)\<close>
  is \<open>List.find\<close>.\<close>

lemma find_Some_set: "List.find p xs = Some x \<Longrightarrow> x \<in> set xs \<and> p x"
  by (induction xs) (auto split: if_splits)

lemma find_None_all: "List.find p xs = None \<longleftrightarrow> (\<forall>x \<in> set xs. \<not> p x)"
  by (induction xs) auto

section \<open>Insertion-ordered dictionaries\<close>

text \<open>A Python \<open>dict\<close> whose order matters is an association list; assignment keeps the position of
  an existing key (\<open>AList.update\<close>), \<open>pop\<close> removes it.\<close>

type_synonym ('k, 'v) dict = "('k \<times> 'v) list"

abbreviation dict_set :: "'k \<Rightarrow> 'v \<Rightarrow> ('k, 'v) dict \<Rightarrow> ('k, 'v) dict" where
  "dict_set \<equiv> AList.update"

abbreviation dict_pop :: "'k \<Rightarrow> ('k, 'v) dict \<Rightarrow> ('k, 'v) dict" where
  "dict_pop \<equiv> AList.delete"

abbreviation dict_keys :: "('k, 'v) dict \<Rightarrow> 'k list" where
  "dict_keys d \<equiv> map fst d"

definition dict_setdefault :: "'k \<Rightarrow> 'v \<Rightarrow> ('k, 'v) dict \<Rightarrow> ('k, 'v) dict" where
  "dict_setdefault k v d = (case map_of d k of None \<Rightarrow> dict_set k v d | Some _ \<Rightarrow> d)"

lemma dict_get_set [dict_simps]:
  "map_of (dict_set k v d) k' = (if k' = k then Some v else map_of d k')"
  by (simp add: update_conv')

lemma dict_get_pop [dict_simps]:
  "map_of (dict_pop k d) k' = (if k' = k then None else map_of d k')"
  by (simp add: delete_conv')

lemma dict_keys_set [dict_simps]: "set (dict_keys (dict_set k v d)) = insert k (set (dict_keys d))"
  by (induction d) auto

lemma dict_keys_pop [dict_simps]: "set (dict_keys (dict_pop k d)) = set (dict_keys d) - {k}"
  by (auto simp: delete_keys)

lemma dict_distinct_set [intro]: "distinct (dict_keys d) \<Longrightarrow> distinct (dict_keys (dict_set k v d))"
  by (rule distinct_update)

lemma dict_distinct_pop [intro]: "distinct (dict_keys d) \<Longrightarrow> distinct (dict_keys (dict_pop k d))"
  by (rule distinct_delete)

lemma dict_length_set:
  "distinct (dict_keys d) \<Longrightarrow>
   length (dict_set k v d) = (if k \<in> set (dict_keys d) then length d else Suc (length d))"
  by (induction d) auto

lemma dict_length_pop_le: "length (dict_pop k d) \<le> length d"
  by (rule length_delete_le)

lemma dict_length_pop: "k \<in> set (dict_keys d) \<Longrightarrow> length (dict_pop k d) < length d"
proof (induction d)
  case (Cons p d)
  then show ?case
    using length_delete_le [of k d] by (cases "fst p = k") auto
qed simp

lemma dict_setdefault_get [dict_simps]:
  "map_of (dict_setdefault k v d) k' =
   (if k' = k then (case map_of d k of None \<Rightarrow> Some v | Some w \<Rightarrow> Some w) else map_of d k')"
  by (auto simp: dict_setdefault_def dict_simps split: option.splits)

section \<open>ASCII text\<close>

definition code_point :: "char \<Rightarrow> nat" where "code_point c = of_char c"

definition is_upper :: "char \<Rightarrow> bool" where
  "is_upper c = (65 \<le> code_point c \<and> code_point c \<le> 90)"

definition is_lower :: "char \<Rightarrow> bool" where
  "is_lower c = (97 \<le> code_point c \<and> code_point c \<le> 122)"

definition is_digit :: "char \<Rightarrow> bool" where
  "is_digit c = (48 \<le> code_point c \<and> code_point c \<le> 57)"

definition is_alnum :: "char \<Rightarrow> bool" where
  "is_alnum c = (is_upper c \<or> is_lower c \<or> is_digit c)"

definition is_word :: "char \<Rightarrow> bool" where
  "is_word c = (is_alnum c \<or> c = CHR ''_'')"

definition is_space :: "char \<Rightarrow> bool" where
  "is_space c = (code_point c = 32 \<or> (9 \<le> code_point c \<and> code_point c \<le> 13) \<or>
     (28 \<le> code_point c \<and> code_point c \<le> 31))"

definition lower_char :: "char \<Rightarrow> char" where
  "lower_char c = (if is_upper c then char_of (code_point c + 32) else c)"

definition upper_char :: "char \<Rightarrow> char" where
  "upper_char c = (if is_lower c then char_of (code_point c - 32) else c)"

definition casefold :: "string \<Rightarrow> string" where
  "casefold s = map lower_char s"

definition upper_text :: "string \<Rightarrow> string" where
  "upper_text s = map upper_char s"

definition strip :: "string \<Rightarrow> string" where
  "strip s = rev (dropWhile is_space (rev (dropWhile is_space s)))"

fun contains_text :: "string \<Rightarrow> string \<Rightarrow> bool" where
  "contains_text u [] = (u = [])"
| "contains_text u (c # s) = (prefix u (c # s) \<or> contains_text u s)"

text \<open>\<open>sep.join(parts)\<close>.\<close>

fun join_text :: "string \<Rightarrow> string list \<Rightarrow> string" where
  "join_text sep [] = []"
| "join_text sep [x] = x"
| "join_text sep (x # y # xs) = x @ sep @ join_text sep (y # xs)"

text \<open>\<open>s.split(c)\<close> at a single character.\<close>

fun split_on :: "char \<Rightarrow> string \<Rightarrow> string list" where
  "split_on c [] = [[]]"
| "split_on c (x # s) =
     (if x = c then [] # split_on c s
      else case split_on c s of [] \<Rightarrow> [[x]] | w # ws \<Rightarrow> (x # w) # ws)"

text \<open>\<open>s.split()\<close> with no separator: the maximal runs of non-space characters.\<close>

fun split_words_acc :: "string \<Rightarrow> string \<Rightarrow> string list" where
  "split_words_acc w [] = (if w = [] then [] else [w])"
| "split_words_acc w (c # s) =
     (if is_space c then (if w = [] then split_words_acc [] s else w # split_words_acc [] s)
      else split_words_acc (w @ [c]) s)"

definition split_words :: "string \<Rightarrow> string list" where
  "split_words s = split_words_acc [] s"

text \<open>\<open>str(n)\<close> for a non-negative integer.\<close>

fun show_nat :: "nat \<Rightarrow> string" where
  "show_nat n = (if n < 10 then [char_of (48 + n)] else show_nat (n div 10) @ [char_of (48 + n mod 10)])"

declare show_nat.simps [simp del]

lemma code_point_char_of [text_simps]: "n < 256 \<Longrightarrow> code_point (char_of n) = n"
  by (simp add: code_point_def)

lemma lower_char_idem [simp]: "lower_char (lower_char c) = lower_char c"
  by (auto simp: lower_char_def is_upper_def text_simps)

lemma casefold_idem [simp]: "casefold (casefold s) = casefold s"
  by (simp add: casefold_def)

lemma length_casefold [simp]: "length (casefold s) = length s"
  by (simp add: casefold_def)

lemma dropWhile_rstrip:
  "dropWhile p (rev (dropWhile p (rev (dropWhile p t)))) = rev (dropWhile p (rev (dropWhile p t)))"
proof (cases "dropWhile p t")
  case Nil
  show ?thesis unfolding Nil by simp
next
  case (Cons x xs)
  then have "\<not> p x" by (metis hd_dropWhile list.sel(1) list.simps(3))
  then show ?thesis using Cons by (simp add: dropWhile_append3)
qed

lemma dropWhile_twice: "dropWhile p (dropWhile p t) = dropWhile p t"
  by (induction t) auto

lemma strip_strip [simp]: "strip (strip s) = strip s"
  by (simp add: strip_def dropWhile_rstrip dropWhile_twice)

lemma strip_empty_iff: "strip s = [] \<longleftrightarrow> (\<forall>c \<in> set s. is_space c)"
proof
  assume "strip s = []"
  then have *: "\<forall>c \<in> set (dropWhile is_space s). is_space c"
    by (simp add: strip_def)
  show "\<forall>c \<in> set s. is_space c"
  proof
    fix c assume "c \<in> set s"
    then have "c \<in> set (takeWhile is_space s) \<or> c \<in> set (dropWhile is_space s)"
      by (metis Un_iff set_append takeWhile_dropWhile_id)
    then show "is_space c" using * by (auto dest: set_takeWhileD)
  qed
next
  assume "\<forall>c \<in> set s. is_space c"
  then have e: "dropWhile is_space s = []" by simp
  show "strip s = []" unfolding strip_def e by simp
qed

section \<open>Stable sort by a key\<close>

text \<open>\<open>sorted(xs, key=f)\<close> is Isabelle's \<open>sort_key f xs\<close>: both are stable.\<close>

lemma sorted_take_prefix: "sorted (map f xs) \<Longrightarrow> sorted (map f (take n xs))"
  by (metis sorted_wrt_take take_map)

lemma set_take_sort: "set (take n (sort_key f xs)) \<subseteq> set xs"
  using set_take_subset by fastforce

section \<open>Lists\<close>

lemma list_all2_right: "list_all2 P xs ys \<Longrightarrow> y \<in> set ys \<Longrightarrow> \<exists>x \<in> set xs. P x y"
  by (induction rule: list_all2_induct) auto

lemma distinct_map_sort: "distinct (map f xs) \<Longrightarrow> distinct (map f (sort_key g xs))"
  by (simp add: distinct_map)

lemma distinct_map_inj: "distinct xs \<Longrightarrow> inj f \<Longrightarrow> distinct (map f xs)"
  by (simp add: distinct_map inj_on_def inj_def)

lemma subseq_mem: "subseq xs ys \<Longrightarrow> x \<in> set xs \<Longrightarrow> x \<in> set ys"
  by (metis notin_set_nthsI subseq_conv_nths)

lemma subseq_map_distinct: "subseq xs ys \<Longrightarrow> distinct (map f ys) \<Longrightarrow> distinct (map f xs)"
  by (metis subseq_map subseq_conv_nths distinct_nthsI)

lemma subseq_map_sorted: "subseq xs ys \<Longrightarrow> sorted (map f ys) \<Longrightarrow> sorted (map f xs)"
proof (induction rule: list_emb.induct)
  case (list_emb_Cons2 x y xs ys)
  then show ?case using subseq_mem [of xs ys] by auto
qed auto

lemma append_new_disjoint: "distinct ys \<Longrightarrow> set ys \<inter> set xs = {} \<Longrightarrow> append_new xs ys = xs @ ys"
  by (induction xs ys rule: append_new.induct) auto

lemma sum_list_update_add:
  "k < length xs \<Longrightarrow> sum_list (map f (xs[k := x])) + f (xs ! k) = sum_list (map f xs) + (f x :: nat)"
  by (induction xs arbitrary: k) (auto split: nat.splits)

text \<open>Distinct keys make a sort independent of the order of its input.\<close>

lemma sort_key_unique:
  assumes "mset xs = mset ys" "distinct (map f xs)"
  shows "sort_key f xs = sort_key f ys"
proof (rule map_sorted_distinct_set_unique [where f = f])
  have "set xs = set ys" using assms(1) by (metis set_mset_mset)
  then show "inj_on f (set (sort_key f xs) \<union> set (sort_key f ys))" using assms(2) by (simp add: distinct_map)
  show "distinct (map f (sort_key f xs))" using assms(2) by (rule distinct_map_sort)
  have "mset (map f xs) = mset (map f ys)" using assms(1) by simp
  then have "distinct (map f ys)" using assms(2) by (metis mset_eq_imp_distinct_iff)
  then show "distinct (map f (sort_key f ys))" by (rule distinct_map_sort)
  show "set (sort_key f xs) = set (sort_key f ys)" using \<open>set xs = set ys\<close> by simp
qed simp_all

end
