(* ===== verification/Py_Regex.thy ===== *)
theory Py_Regex
  imports Py_Prelude
begin

text \<open>
  The fragment of Python's \<open>re\<close> the program's patterns use, as a backtracking matcher.  A position
  is the previous character (if any) and the remaining text; \<open>rx_ends\<close> lists the end positions of
  a match in the order the Python engine tries them, so its first element is the match the engine
  reports.  A repetition carries fuel, one more than the remaining characters: every iteration
  of a body consumes a character, so the fuel never runs out before the text does.
\<close>

datatype catom = COne char | CRange char char | CDigit | CWord | CSpace | CAny

datatype rx =
    Eps
  | Cls bool "catom list"
  | Seq rx rx
  | Alt rx rx
  | Rep nat "nat option" bool rx
  | Boundary
  | AtStart
  | AtEnd
  | NotAhead "catom list"
  | NotBehind "catom list"
  | Behind "catom list"

type_synonym position = "char option \<times> string"

fun catom_in :: "char \<Rightarrow> catom \<Rightarrow> bool" where
  "catom_in c (COne d) = (c = d)"
| "catom_in c (CRange a b) = (code_point a \<le> code_point c \<and> code_point c \<le> code_point b)"
| "catom_in c CDigit = is_digit c"
| "catom_in c CWord = is_word c"
| "catom_in c CSpace = is_space c"
| "catom_in c CAny = (c \<noteq> CHR 10)"

text \<open>Under \<open>re.I\<close> a character matches when it or its other case is in the set.\<close>

definition cls_in :: "bool \<Rightarrow> catom list \<Rightarrow> char \<Rightarrow> bool" where
  "cls_in ci as c =
     (list_ex (catom_in c) as \<or>
      ci \<and> (list_ex (catom_in (lower_char c)) as \<or> list_ex (catom_in (upper_char c)) as))"

definition word_at_boundary :: "position \<Rightarrow> bool" where
  "word_at_boundary p =
     ((case fst p of None \<Rightarrow> False | Some c \<Rightarrow> is_word c) \<noteq>
      (case snd p of [] \<Rightarrow> False | c # _ \<Rightarrow> is_word c))"

fun rep_ends ::
  "(position \<Rightarrow> position list) \<Rightarrow> nat \<Rightarrow> nat \<Rightarrow> nat option \<Rightarrow> bool \<Rightarrow> position \<Rightarrow> position list" where
  "rep_ends step 0 lo hi greedy p = (if lo = 0 then [p] else [])"
| "rep_ends step (Suc fuel) lo hi greedy p =
     (if 0 < lo then
        concat (map (rep_ends step fuel (lo - 1) (map_option (\<lambda>h. h - 1) hi) greedy) (step p))
      else
        (let more =
           (if hi = Some 0 then []
            else concat (map (rep_ends step fuel 0 (map_option (\<lambda>h. h - 1) hi) greedy)
                   (filter (\<lambda>q. length (snd q) < length (snd p)) (step p))))
         in if greedy then more @ [p] else p # more))"

fun rx_ends :: "bool \<Rightarrow> rx \<Rightarrow> position \<Rightarrow> position list" where
  "rx_ends ci Eps p = [p]"
| "rx_ends ci (Cls neg as) (prev, []) = []"
| "rx_ends ci (Cls neg as) (prev, c # s) = (if cls_in ci as c \<noteq> neg then [(Some c, s)] else [])"
| "rx_ends ci (Seq a b) p = concat (map (rx_ends ci b) (rx_ends ci a p))"
| "rx_ends ci (Alt a b) p = rx_ends ci a p @ rx_ends ci b p"
| "rx_ends ci (Rep lo hi greedy r) p =
     rep_ends (rx_ends ci r) (Suc (length (snd p))) lo hi greedy p"
| "rx_ends ci Boundary p = (if word_at_boundary p then [p] else [])"
| "rx_ends ci AtStart p = (if fst p = None then [p] else [])"
| "rx_ends ci AtEnd p = (if snd p = [] \<or> snd p = [CHR 10] then [p] else [])"
| "rx_ends ci (NotAhead as) p =
     (case snd p of [] \<Rightarrow> [p] | c # _ \<Rightarrow> if cls_in ci as c then [] else [p])"
| "rx_ends ci (NotBehind as) p =
     (case fst p of None \<Rightarrow> [p] | Some c \<Rightarrow> if cls_in ci as c then [] else [p])"
| "rx_ends ci (Behind as) p =
     (case fst p of None \<Rightarrow> [] | Some c \<Rightarrow> if cls_in ci as c then [p] else [])"

section \<open>Pattern notation as functions\<close>

abbreviation lit_char :: "char \<Rightarrow> rx" where "lit_char c \<equiv> Cls False [COne c]"

fun Lit :: "string \<Rightarrow> rx" where
  "Lit [] = Eps"
| "Lit (c # s) = Seq (lit_char c) (Lit s)"

fun seqs :: "rx list \<Rightarrow> rx" where
  "seqs [] = Eps"
| "seqs (r # rs) = Seq r (seqs rs)"

fun alts :: "rx list \<Rightarrow> rx" where
  "alts [] = Cls False []"
| "alts [r] = r"
| "alts (r # q # rs) = Alt r (alts (q # rs))"

abbreviation rx_opt :: "rx \<Rightarrow> rx" where "rx_opt r \<equiv> Rep 0 (Some 1) True r"
abbreviation rx_many :: "rx \<Rightarrow> rx" where "rx_many r \<equiv> Rep 0 None True r"
abbreviation rx_some :: "rx \<Rightarrow> rx" where "rx_some r \<equiv> Rep 1 None True r"
abbreviation any_upto :: "nat \<Rightarrow> rx" where "any_upto n \<equiv> Rep 0 (Some n) True (Cls False [CAny])"
abbreviation lits :: "string list \<Rightarrow> rx" where "lits ws \<equiv> alts (map Lit ws)"

section \<open>match, search, finditer\<close>

definition rx_match :: "bool \<Rightarrow> rx \<Rightarrow> string \<Rightarrow> bool" where
  "rx_match ci r s = (rx_ends ci r (None, s) \<noteq> [])"

text \<open>\<open>re.fullmatch\<close>: some way of matching ends at the end of the text.\<close>

definition rx_fullmatch :: "bool \<Rightarrow> rx \<Rightarrow> string \<Rightarrow> bool" where
  "rx_fullmatch ci r s = list_ex (\<lambda>q. snd q = []) (rx_ends ci r (None, s))"

text \<open>The leftmost position with a match: the skipped position and the end of the match.\<close>

fun rx_find :: "bool \<Rightarrow> rx \<Rightarrow> char option \<Rightarrow> string \<Rightarrow> (position \<times> position) option" where
  "rx_find ci r prev s =
     (case rx_ends ci r (prev, s) of
        q # _ \<Rightarrow> Some ((prev, s), q)
      | [] \<Rightarrow> (case s of [] \<Rightarrow> None | c # t \<Rightarrow> rx_find ci r (Some c) t))"

declare rx_find.simps [simp del]

definition rx_search :: "bool \<Rightarrow> rx \<Rightarrow> string \<Rightarrow> bool" where
  "rx_search ci r s = (rx_find ci r None s \<noteq> None)"

text \<open>\<open>finditer\<close> for patterns that match no empty text: the matched texts, left to right.  An
  iteration that would not advance ends the list.\<close>

fun rx_findall_fuel :: "nat \<Rightarrow> bool \<Rightarrow> rx \<Rightarrow> char option \<Rightarrow> string \<Rightarrow> string list" where
  "rx_findall_fuel 0 ci r prev s = []"
| "rx_findall_fuel (Suc n) ci r prev s =
     (case rx_find ci r prev s of
        None \<Rightarrow> []
      | Some (p, q) \<Rightarrow>
          take (length (snd p) - length (snd q)) (snd p) # rx_findall_fuel n ci r (fst q) (snd q))"

definition rx_findall :: "bool \<Rightarrow> rx \<Rightarrow> string \<Rightarrow> string list" where
  "rx_findall ci r s = rx_findall_fuel (Suc (length s)) ci r None s"

text \<open>\<open>pattern.sub(repl, text)\<close> for patterns that match no empty text.\<close>

fun rx_sub_fuel :: "nat \<Rightarrow> bool \<Rightarrow> rx \<Rightarrow> string \<Rightarrow> char option \<Rightarrow> string \<Rightarrow> string" where
  "rx_sub_fuel 0 ci r repl prev s = s"
| "rx_sub_fuel (Suc n) ci r repl prev s =
     (case rx_find ci r prev s of
        None \<Rightarrow> s
      | Some (p, q) \<Rightarrow>
          take (length s - length (snd p)) s @ repl @ rx_sub_fuel n ci r repl (fst q) (snd q))"

definition rx_sub :: "bool \<Rightarrow> rx \<Rightarrow> string \<Rightarrow> string \<Rightarrow> string" where
  "rx_sub ci r repl s = rx_sub_fuel (Suc (length s)) ci r repl None s"

text \<open>\<open>pattern.split(text)\<close> for a pattern without capturing groups that matches no empty text.\<close>

fun rx_split_fuel :: "nat \<Rightarrow> bool \<Rightarrow> rx \<Rightarrow> char option \<Rightarrow> string \<Rightarrow> string list" where
  "rx_split_fuel 0 ci r prev s = [s]"
| "rx_split_fuel (Suc n) ci r prev s =
     (case rx_find ci r prev s of
        None \<Rightarrow> [s]
      | Some (p, q) \<Rightarrow> take (length s - length (snd p)) s # rx_split_fuel n ci r (fst q) (snd q))"

definition rx_split :: "bool \<Rightarrow> rx \<Rightarrow> string \<Rightarrow> string list" where
  "rx_split ci r s = rx_split_fuel (Suc (length s)) ci r None s"

text \<open>The matches of \<open>finditer\<close>, each with the text skipped before it, and the text after the last one.\<close>

fun rx_pieces_fuel :: "nat \<Rightarrow> bool \<Rightarrow> rx \<Rightarrow> char option \<Rightarrow> string \<Rightarrow> (string \<times> string) list \<times> string" where
  "rx_pieces_fuel 0 ci r prev s = ([], s)"
| "rx_pieces_fuel (Suc n) ci r prev s =
     (case rx_find ci r prev s of
        None \<Rightarrow> ([], s)
      | Some (p, q) \<Rightarrow>
          (case rx_pieces_fuel n ci r (fst q) (snd q) of
             (pieces, rest) \<Rightarrow>
               ((take (length s - length (snd p)) s, take (length (snd p) - length (snd q)) (snd p)) # pieces, rest)))"

definition rx_pieces :: "bool \<Rightarrow> rx \<Rightarrow> string \<Rightarrow> (string \<times> string) list \<times> string" where
  "rx_pieces ci r s = rx_pieces_fuel (Suc (length s)) ci r None s"

text \<open>\<open>findall\<close> for a pattern that ends in its only capturing group: \<open>a\<close> before the group \<open>g\<close>.\<close>

fun rx_find_group :: "bool \<Rightarrow> rx \<Rightarrow> rx \<Rightarrow> char option \<Rightarrow> string \<Rightarrow> (position \<times> position) option" where
  "rx_find_group ci a g prev s =
     (case concat (map (\<lambda>m. map (Pair m) (rx_ends ci g m)) (rx_ends ci a (prev, s))) of
        found # _ \<Rightarrow> Some found
      | [] \<Rightarrow> (case s of [] \<Rightarrow> None | c # t \<Rightarrow> rx_find_group ci a g (Some c) t))"

declare rx_find_group.simps [simp del]

fun rx_groups_fuel :: "nat \<Rightarrow> bool \<Rightarrow> rx \<Rightarrow> rx \<Rightarrow> char option \<Rightarrow> string \<Rightarrow> string list" where
  "rx_groups_fuel 0 ci a g prev s = []"
| "rx_groups_fuel (Suc n) ci a g prev s =
     (case rx_find_group ci a g prev s of
        None \<Rightarrow> []
      | Some (m, q) \<Rightarrow>
          take (length (snd m) - length (snd q)) (snd m) # rx_groups_fuel n ci a g (fst q) (snd q))"

definition rx_groups :: "bool \<Rightarrow> rx \<Rightarrow> rx \<Rightarrow> string \<Rightarrow> string list" where
  "rx_groups ci a g s = rx_groups_fuel (Suc (length s)) ci a g None s"

section \<open>A match ends at a suffix of its start\<close>

lemma rep_ends_suffix:
  assumes "\<And>p q. q \<in> set (step p) \<Longrightarrow> suffix (snd q) (snd p)"
    and "q \<in> set (rep_ends step fuel lo hi greedy p)"
  shows "suffix (snd q) (snd p)"
  using assms(2)
proof (induction fuel arbitrary: lo hi p q)
  case 0
  then show ?case by (auto split: if_splits)
next
  case (Suc fuel)
  have step: "suffix (snd q) (snd p)"
    if "r \<in> set (step p)" "q \<in> set (rep_ends step fuel lo' hi' greedy r)" for r lo' hi'
    using Suc.IH [OF that(2)] assms(1) [OF that(1)] by (rule suffix_order.trans)
  show ?case
    using Suc.prems by (auto simp: Let_def split: if_splits intro: step)
qed

lemma rx_ends_suffix: "q \<in> set (rx_ends ci r p) \<Longrightarrow> suffix (snd q) (snd p)"
proof (induction r arbitrary: p q)
  case (Cls neg as)
  then show ?case
    by (cases p; cases "snd p") (auto split: if_splits intro: suffix_ConsI)
next
  case (Seq a b)
  then obtain m where "m \<in> set (rx_ends ci a p)" "q \<in> set (rx_ends ci b m)" by auto
  then show ?case using Seq.IH by (meson suffix_order.trans)
next
  case (Rep lo hi greedy r)
  have "q \<in> set (rep_ends (rx_ends ci r) (Suc (length (snd p))) lo hi greedy p)"
    using Rep.prems by (simp del: rep_ends.simps)
  with Rep.IH show ?case by (rule rep_ends_suffix)
qed (auto split: if_splits list.splits option.splits)

lemma rx_find_suffix:
  "rx_find ci r prev s = Some (p, q) \<Longrightarrow> suffix (snd p) s \<and> suffix (snd q) (snd p)"
proof (induction s arbitrary: prev)
  case Nil
  then have "p = (prev, [])" "q \<in> set (rx_ends ci r (prev, []))"
    by (subst (asm) rx_find.simps, simp split: list.splits)+
  then show ?case using rx_ends_suffix by fastforce
next
  case (Cons c s)
  show ?case
  proof (cases "rx_ends ci r (prev, c # s)")
    case Nil
    then have "rx_find ci r (Some c) s = Some (p, q)"
      using Cons.prems by (subst (asm) rx_find.simps) simp
    then show ?thesis using Cons.IH by (auto intro: suffix_ConsI)
  next
    case (Cons e es)
    then have "p = (prev, c # s)" "q = e"
      using Cons.prems by (subst (asm) rx_find.simps, simp)+
    moreover have "suffix (snd e) (c # s)"
      using rx_ends_suffix [of e ci r "(prev, c # s)"] Cons by simp
    ultimately show ?thesis by simp
  qed
qed

text \<open>Every text \<open>finditer\<close> reports is a contiguous part of the searched text.\<close>

lemma rx_findall_fuel_sublist: "t \<in> set (rx_findall_fuel n ci r prev s) \<Longrightarrow> sublist t s"
proof (induction n arbitrary: prev s)
  case (Suc n)
  then obtain p q where f: "rx_find ci r prev s = Some (p, q)"
    by (cases "rx_find ci r prev s") auto
  from rx_find_suffix [OF this] have p: "suffix (snd p) s" and q: "suffix (snd q) (snd p)" by auto
  consider "t = take (length (snd p) - length (snd q)) (snd p)"
    | "t \<in> set (rx_findall_fuel n ci r (fst q) (snd q))"
    using Suc.prems f by auto
  then show ?case
  proof cases
    case 1
    then show ?thesis using p by (metis sublist_order.order.trans suffix_imp_sublist sublist_take)
  next
    case 2
    then show ?thesis
      using Suc.IH p q by (meson sublist_order.order.trans suffix_imp_sublist)
  qed
qed simp

lemma rx_findall_sublist: "t \<in> set (rx_findall ci r s) \<Longrightarrow> sublist t s"
  unfolding rx_findall_def by (rule rx_findall_fuel_sublist)

end
