(* ===== verification/Contracts.thy ===== *)
theory Contracts
  imports Py_Prelude
begin

text \<open>
  The shared data contracts (backend models/identity.py, common.py, tools.py, graph.py,
  retrieval.py, errors.py, validation.py and security/exceptions.py).  Enumerations keep the
  source's members, with their wire value as a function; a Pydantic model is a record together
  with the predicate its validators decide, so constructing the Python object succeeds exactly
  when the predicate holds.  UUIDs are natural numbers, calendar dates are day ordinals, instants
  are integers (microseconds) and finite floats are rational numbers.
\<close>

type_synonym uuid = nat
type_synonym instant = int
type_synonym date = int

section \<open>Text validation\<close>

datatype text_error = Blank_text | Length_out_of_range nat nat

definition reject_blank_text :: "string \<Rightarrow> (text_error, string) result" where
  "reject_blank_text s = (if strip s = [] then Raise Blank_text else Return s)"

definition validate_text_length :: "nat \<Rightarrow> nat \<Rightarrow> string \<Rightarrow> (text_error, string) result" where
  "validate_text_length minimum maximum s =
     bind_result (reject_blank_text s) (\<lambda>t.
       if minimum \<le> length t \<and> length t \<le> maximum then Return t
       else Raise (Length_out_of_range minimum maximum))"

definition text_ok :: "nat \<Rightarrow> string \<Rightarrow> bool" where
  "text_ok maximum s = (case validate_text_length 1 maximum s of Inl _ \<Rightarrow> False | Inr _ \<Rightarrow> True)"

lemma reject_blank_text_Inr [simp]: "reject_blank_text s = Inr t \<longleftrightarrow> t = s \<and> strip s \<noteq> []"
  by (auto simp: reject_blank_text_def)

lemma validate_text_length_Inr:
  "validate_text_length lo hi s = Inr t \<longleftrightarrow> t = s \<and> strip s \<noteq> [] \<and> lo \<le> length s \<and> length s \<le> hi"
  by (auto simp: validate_text_length_def)

lemma text_ok_iff: "text_ok hi s \<longleftrightarrow> strip s \<noteq> [] \<and> 1 \<le> length s \<and> length s \<le> hi"
  by (auto simp: text_ok_def validate_text_length_Inr split: sum.splits)
     (auto simp: validate_text_length_def reject_blank_text_def split: if_splits)

text \<open>A Python \<open>datetime\<close>: a naive wall-clock reading, or one with its UTC offset.\<close>

datatype py_datetime = Naive int | Aware (wall: int) (offset: int)

definition ensure_utc_aware :: "py_datetime \<Rightarrow> (unit, py_datetime) result" where
  "ensure_utc_aware d = (case d of Naive _ \<Rightarrow> Raise () | Aware w off \<Rightarrow> Return (Aware (w - off) 0))"

section \<open>Identity\<close>

datatype user_role = VIEWER | ANALYST | ADMINISTRATOR

datatype access_level = PUBLIC | INTERNAL | CONFIDENTIAL | RESTRICTED

datatype tool_permission = Perm_knowledge_search | Perm_python_analysis | Perm_mcp_tools
  | Perm_administrative_tools | Perm_ingestion_management | Perm_human_approval

fun user_role_text :: "user_role \<Rightarrow> string" where
  "user_role_text VIEWER = ''viewer''"
| "user_role_text ANALYST = ''analyst''"
| "user_role_text ADMINISTRATOR = ''administrator''"

fun access_level_text :: "access_level \<Rightarrow> string" where
  "access_level_text PUBLIC = ''public''"
| "access_level_text INTERNAL = ''internal''"
| "access_level_text CONFIDENTIAL = ''confidential''"
| "access_level_text RESTRICTED = ''restricted''"

fun tool_permission_text :: "tool_permission \<Rightarrow> string" where
  "tool_permission_text Perm_knowledge_search = ''knowledge_search''"
| "tool_permission_text Perm_python_analysis = ''python_analysis''"
| "tool_permission_text Perm_mcp_tools = ''mcp_tools''"
| "tool_permission_text Perm_administrative_tools = ''administrative_tools''"
| "tool_permission_text Perm_ingestion_management = ''ingestion_management''"
| "tool_permission_text Perm_human_approval = ''human_approval''"

definition access_levels :: "access_level list" where
  "access_levels = [PUBLIC, INTERNAL, CONFIDENTIAL, RESTRICTED]"

definition user_roles :: "user_role list" where
  "user_roles = [VIEWER, ANALYST, ADMINISTRATOR]"

definition tool_permissions :: "tool_permission list" where
  "tool_permissions = [Perm_knowledge_search, Perm_python_analysis, Perm_mcp_tools,
     Perm_administrative_tools, Perm_ingestion_management, Perm_human_approval]"

text \<open>\<open>list(type(self)).index(self)\<close>.\<close>

fun access_level_rank :: "access_level \<Rightarrow> nat" where
  "access_level_rank PUBLIC = 0"
| "access_level_rank INTERNAL = 1"
| "access_level_rank CONFIDENTIAL = 2"
| "access_level_rank RESTRICTED = 3"

lemma set_access_levels [simp]: "set access_levels = UNIV"
  by (auto simp: access_levels_def) (metis access_level.exhaust)

lemma set_user_roles [simp]: "set user_roles = UNIV"
  by (auto simp: user_roles_def) (metis user_role.exhaust)

lemma set_tool_permissions [simp]: "set tool_permissions = UNIV"
  by (auto simp: tool_permissions_def) (metis tool_permission.exhaust)

lemma access_level_rank_nth: "access_levels ! access_level_rank l = l"
  by (cases l) (simp_all add: access_levels_def)

lemma user_role_text_inject [simp]: "user_role_text a = user_role_text b \<longleftrightarrow> a = b"
  by (cases a; cases b) simp_all

lemma access_level_text_inject [simp]: "access_level_text a = access_level_text b \<longleftrightarrow> a = b"
  by (cases a; cases b) simp_all

lemma tool_permission_text_inject [simp]:
  "tool_permission_text a = tool_permission_text b \<longleftrightarrow> a = b"
  by (cases a; cases b) simp_all

text \<open>\<open>sorted\<close> on \<open>StrEnum\<close> members compares their values.\<close>

instantiation tool_permission :: linorder
begin

definition less_eq_tool_permission :: "tool_permission \<Rightarrow> tool_permission \<Rightarrow> bool" where
  "a \<le> b \<longleftrightarrow> tool_permission_text a \<le> tool_permission_text b"

definition less_tool_permission :: "tool_permission \<Rightarrow> tool_permission \<Rightarrow> bool" where
  "a < b \<longleftrightarrow> tool_permission_text a < tool_permission_text b"

instance
proof
  fix a b :: tool_permission
  show "a \<le> b \<Longrightarrow> b \<le> a \<Longrightarrow> a = b"
    by (simp add: less_eq_tool_permission_def)
qed (auto simp: less_eq_tool_permission_def less_tool_permission_def order.strict_iff_order)

end

instantiation access_level :: linorder
begin

definition less_eq_access_level :: "access_level \<Rightarrow> access_level \<Rightarrow> bool" where
  "a \<le> b \<longleftrightarrow> access_level_text a \<le> access_level_text b"

definition less_access_level :: "access_level \<Rightarrow> access_level \<Rightarrow> bool" where
  "a < b \<longleftrightarrow> access_level_text a < access_level_text b"

instance
proof
  fix a b :: access_level
  show "a \<le> b \<Longrightarrow> b \<le> a \<Longrightarrow> a = b"
    by (simp add: less_eq_access_level_def)
qed (auto simp: less_eq_access_level_def less_access_level_def order.strict_iff_order)

end

instantiation user_role :: linorder
begin

definition less_eq_user_role :: "user_role \<Rightarrow> user_role \<Rightarrow> bool" where
  "a \<le> b \<longleftrightarrow> user_role_text a \<le> user_role_text b"

definition less_user_role :: "user_role \<Rightarrow> user_role \<Rightarrow> bool" where
  "a < b \<longleftrightarrow> user_role_text a < user_role_text b"

instance
proof
  fix a b :: user_role
  show "a \<le> b \<Longrightarrow> b \<le> a \<Longrightarrow> a = b"
    by (simp add: less_eq_user_role_def)
qed (auto simp: less_eq_user_role_def less_user_role_def order.strict_iff_order)

end

record user_identity =
  ui_user_id :: uuid
  ui_username :: string
  ui_display_name :: string
  ui_role :: user_role

definition user_identity_ok :: "user_identity \<Rightarrow> bool" where
  "user_identity_ok u =
     (length (ui_username u) \<le> 128 \<and> length (ui_display_name u) \<le> 200 \<and>
      text_ok 200 (ui_username u) \<and> text_ok 200 (ui_display_name u))"

record authenticated_principal =
  pr_identity :: user_identity
  pr_permissions :: "tool_permission set"
  pr_authenticated_at :: instant
  pr_expires_at :: instant

definition principal_ok :: "authenticated_principal \<Rightarrow> bool" where
  "principal_ok p = (user_identity_ok (pr_identity p) \<and> pr_authenticated_at p < pr_expires_at p)"

abbreviation principal_role :: "authenticated_principal \<Rightarrow> user_role" where
  "principal_role p \<equiv> ui_role (pr_identity p)"

record authorization_decision =
  ad_allowed :: bool
  ad_reason_code :: string
  ad_public_explanation :: string
  ad_required_permission :: tool_permission

section \<open>Tools\<close>

datatype tool_name = Tool_knowledge_search | Tool_python_analysis | Tool_employee_directory
  | Tool_service_catalog | Tool_incident_records | Tool_administrative_ingestion

definition tool_names :: "tool_name list" where
  "tool_names = [Tool_knowledge_search, Tool_python_analysis, Tool_employee_directory,
     Tool_service_catalog, Tool_incident_records, Tool_administrative_ingestion]"

lemma set_tool_names [simp]: "set tool_names = UNIV"
  by (auto simp: tool_names_def) (metis tool_name.exhaust)

record tool_authorization_decision =
  td_tool_call_id :: uuid
  td_allowed :: bool
  td_reason_code :: string
  td_public_explanation :: string
  td_required_permission :: "tool_permission option"

section \<open>Processing status, intents and routes\<close>

datatype processing_status = PS_accepted | PS_running | PS_waiting_for_approval
  | PS_partial_success | PS_completed | PS_denied | PS_failed

datatype intent = Intent_security_denial | Intent_conversational | Intent_knowledge_lookup
  | Intent_cross_document_research | Intent_structured_analysis | Intent_enterprise_tool_lookup
  | Intent_administrative | Intent_unsupported

datatype route = Route_direct_response | Route_simple_retrieval | Route_recursive_research
  | Route_python_analysis | Route_mcp_tool | Route_human_approval | Route_deny
  | Route_unsupported | Route_failure

datatype validation_result = VR_passed | VR_failed | VR_warning | VR_skipped

record validation_finding =
  vf_code :: string
  vf_result :: validation_result
  vf_public_message :: string

record validation_report =
  vrep_result :: validation_result
  vrep_findings :: "validation_finding list"

record graph_error =
  ge_code :: string
  ge_safe_message :: string
  ge_retryable :: bool
  ge_node :: "string option"

definition graph_error_ok :: "graph_error \<Rightarrow> bool" where
  "graph_error_ok e =
     (1 \<le> length (ge_code e) \<and> length (ge_code e) \<le> 100 \<and>
      1 \<le> length (ge_safe_message e) \<and> length (ge_safe_message e) \<le> 500 \<and>
      (case ge_node e of None \<Rightarrow> True | Some n \<Rightarrow> length n \<le> 100))"

section \<open>Documents and evidence\<close>

datatype document_type = DT_policy | DT_architecture | DT_runbook | DT_incident
  | DT_product_specification | DT_meeting_note

fun document_type_text :: "document_type \<Rightarrow> string" where
  "document_type_text DT_policy = ''policy''"
| "document_type_text DT_architecture = ''architecture''"
| "document_type_text DT_runbook = ''runbook''"
| "document_type_text DT_incident = ''incident''"
| "document_type_text DT_product_specification = ''product_specification''"
| "document_type_text DT_meeting_note = ''meeting_note''"

record document_metadata =
  dm_document_id :: uuid
  dm_title :: string
  dm_source :: string
  dm_department :: string
  dm_document_type :: document_type
  dm_access_level :: access_level
  dm_allowed_roles :: "user_role set"
  dm_created_date :: date
  dm_updated_date :: date
  dm_version :: string
  dm_content_hash :: string

definition is_hex :: "char \<Rightarrow> bool" where
  "is_hex c = (is_digit c \<or> (97 \<le> code_point c \<and> code_point c \<le> 102) \<or>
     (65 \<le> code_point c \<and> code_point c \<le> 70))"

definition content_hash_ok :: "string \<Rightarrow> bool" where
  "content_hash_ok h = (length h = 64 \<and> list_all is_hex h)"

definition document_metadata_ok :: "document_metadata \<Rightarrow> bool" where
  "document_metadata_ok m =
     (length (dm_title m) \<le> 500 \<and> length (dm_source m) \<le> 2048 \<and> length (dm_department m) \<le> 200 \<and>
      length (dm_version m) \<le> 100 \<and> content_hash_ok (dm_content_hash m) \<and>
      text_ok 2048 (dm_title m) \<and> text_ok 2048 (dm_source m) \<and> text_ok 2048 (dm_department m) \<and>
      text_ok 2048 (dm_version m) \<and>
      dm_created_date m \<le> dm_updated_date m \<and> dm_allowed_roles m \<noteq> {})"

section \<open>Security exceptions\<close>

datatype security_error =
    AuthenticationError string
  | AuthenticationRequiredError
  | AuthorizationError string

fun security_status :: "security_error \<Rightarrow> nat" where
  "security_status (AuthenticationError _) = 401"
| "security_status AuthenticationRequiredError = 401"
| "security_status (AuthorizationError _) = 403"

fun security_reason :: "security_error \<Rightarrow> string" where
  "security_reason (AuthenticationError r) = r"
| "security_reason AuthenticationRequiredError = ''authentication.missing''"
| "security_reason (AuthorizationError r) = r"

end
