(* ===== verification/Settings.thy ===== *)
theory Settings
  imports Complex_Main Contracts
begin

text \<open>
  The validated configuration of the backend (retrieval/config.py), restricted to the fields the
  modelled components read.  Counts are natural numbers, second and weight values are reals.
\<close>

datatype retrieval_mode = Mode_sparse | Mode_pinecone_hybrid

datatype llm_provider_name = Provider_fake | Provider_ollama | Provider_openai

record retrieval_settings =
  pinecone_enabled :: bool
  pinecone_api_key :: "string option"
  pinecone_metric :: string
  pinecone_query_top_k :: nat
  pinecone_max_retries :: nat
  bm25_k1 :: real
  bm25_b :: real
  bm25_max_query_tokens :: nat
  bm25_max_vocabulary_size :: nat
  bm25_max_indexed_chunks :: nat
  bm25_max_terms_per_chunk :: nat
  pinecone_retry_base_seconds :: real
  hybrid_dense_weight :: real
  hybrid_sparse_weight :: real
  hybrid_overfetch_factor :: nat
  hybrid_max_candidates :: nat
  hybrid_allow_partial_results :: bool
  graph_max_steps :: nat
  graph_max_recursion_depth :: nat
  graph_timeout_micros :: int
  graph_max_message_characters :: nat
  graph_max_evidence_items :: nat
  graph_max_warnings :: nat
  setting_retrieval_mode :: retrieval_mode
  memory_enabled :: bool
  memory_max_sessions :: nat
  memory_max_turns_per_session :: nat
  memory_max_total_characters :: nat
  memory_max_user_message_characters :: nat
  memory_max_assistant_message_characters :: nat
  memory_max_evidence_references :: nat
  memory_session_ttl_seconds :: nat
  memory_max_context_topics :: nat
  memory_max_context_identifiers :: nat
  memory_followup_context_enabled :: bool
  memory_redact_sensitive_patterns :: bool
  python_analysis_enabled :: bool
  python_analysis_max_rows :: nat
  python_analysis_max_groups :: nat
  python_analysis_max_result_items :: nat
  python_analysis_max_filter_values :: nat
  python_analysis_max_text_field_characters :: nat
  python_analysis_max_distinct_values :: nat
  python_analysis_allow_partial_rows :: bool
  llm_enabled :: bool
  llm_provider :: llm_provider_name
  ollama_model :: string
  ollama_num_predict :: nat
  openai_response_model :: string
  openai_response_max_output_tokens :: nat
  openai_api_key :: "string option"
  llm_max_evidence_items :: nat
  llm_max_evidence_characters :: nat
  llm_max_evidence_item_characters :: nat
  llm_max_prompt_characters :: nat
  llm_max_answer_characters :: nat
  llm_max_citations :: nat
  llm_citation_repair_attempts :: nat
  llm_allow_deterministic_fallback :: bool
  research_enabled :: bool
  research_max_depth :: nat
  research_max_initial_tasks :: nat
  research_max_total_tasks :: nat
  research_max_child_tasks_per_worker :: nat
  research_max_parallel_workers :: nat
  research_max_retrieval_calls :: nat
  research_max_analysis_calls :: nat
  research_max_llm_calls :: nat
  research_max_evidence_items :: nat
  research_max_total_evidence_characters :: nat
  research_max_query_characters :: nat
  research_max_queries_per_task :: nat
  research_max_plan_characters :: nat
  research_allow_partial_results :: bool

abbreviation in_range :: "nat \<Rightarrow> nat \<Rightarrow> nat \<Rightarrow> bool" where
  "in_range lo n hi \<equiv> lo \<le> n \<and> n \<le> hi"

text \<open>The field bounds of the settings class, for the retrieval and graph groups.\<close>

definition retrieval_fields_ok :: "retrieval_settings \<Rightarrow> bool" where
  "retrieval_fields_ok s =
     (in_range 1 (pinecone_query_top_k s) 100 \<and> pinecone_max_retries s \<le> 10 \<and>
      0 < bm25_k1 s \<and> bm25_k1 s \<le> 10 \<and> 0 \<le> bm25_b s \<and> bm25_b s \<le> 1 \<and>
      in_range 1 (bm25_max_query_tokens s) 1000 \<and> 1 \<le> bm25_max_vocabulary_size s \<and>
      1 \<le> bm25_max_indexed_chunks s \<and> 1 \<le> bm25_max_terms_per_chunk s \<and>
      0 < pinecone_retry_base_seconds s \<and> pinecone_retry_base_seconds s \<le> 30 \<and>
      0 \<le> hybrid_dense_weight s \<and> hybrid_dense_weight s \<le> 1 \<and>
      0 \<le> hybrid_sparse_weight s \<and> hybrid_sparse_weight s \<le> 1 \<and>
      in_range 1 (hybrid_overfetch_factor s) 20 \<and> in_range 1 (hybrid_max_candidates s) 500 \<and>
      in_range 1 (graph_max_steps s) 100 \<and> graph_max_recursion_depth s \<le> 3 \<and>
      0 < graph_timeout_micros s \<and> graph_timeout_micros s \<le> 300000000 \<and>
      in_range 1 (graph_max_message_characters s) 100000 \<and>
      in_range 1 (graph_max_evidence_items s) 100 \<and> in_range 1 (graph_max_warnings s) 100)"

definition memory_fields_ok :: "retrieval_settings \<Rightarrow> bool" where
  "memory_fields_ok s =
     (in_range 1 (memory_max_sessions s) 100000 \<and> in_range 1 (memory_max_turns_per_session s) 100 \<and>
      in_range 1 (memory_max_total_characters s) 1000000 \<and>
      in_range 1 (memory_max_user_message_characters s) 4000 \<and>
      in_range 1 (memory_max_assistant_message_characters s) 32000 \<and>
      in_range 1 (memory_max_evidence_references s) 1000 \<and>
      in_range 1 (memory_session_ttl_seconds s) 604800 \<and>
      in_range 1 (memory_max_context_topics s) 100 \<and>
      in_range 1 (memory_max_context_identifiers s) 200 \<and>
      in_range 1 (python_analysis_max_rows s) 10000 \<and> in_range 1 (python_analysis_max_groups s) 1000 \<and>
      in_range 1 (python_analysis_max_result_items s) 500 \<and>
      in_range 1 (python_analysis_max_filter_values s) 500 \<and>
      in_range 1 (python_analysis_max_text_field_characters s) 10000 \<and>
      in_range 1 (python_analysis_max_distinct_values s) 5000)"

definition selected_llm_model :: "retrieval_settings \<Rightarrow> string" where
  "selected_llm_model s = (if llm_provider s = Provider_ollama then ollama_model s else openai_response_model s)"

definition selected_llm_max_output_tokens :: "retrieval_settings \<Rightarrow> nat" where
  "selected_llm_max_output_tokens s =
     (if llm_provider s = Provider_ollama then ollama_num_predict s else openai_response_max_output_tokens s)"

definition llm_fields_ok :: "retrieval_settings \<Rightarrow> bool" where
  "llm_fields_ok s =
     (in_range 1 (llm_max_evidence_items s) 20 \<and> in_range 1 (llm_max_evidence_characters s) 100000 \<and>
      in_range 1 (llm_max_evidence_item_characters s) 16000 \<and>
      in_range 1 (llm_max_prompt_characters s) 200000 \<and> in_range 1 (llm_max_answer_characters s) 32000 \<and>
      in_range 1 (llm_max_citations s) 100 \<and> llm_citation_repair_attempts s \<le> 2 \<and>
      in_range 64 (ollama_num_predict s) 4096 \<and> in_range 64 (openai_response_max_output_tokens s) 16000)"

definition research_fields_ok :: "retrieval_settings \<Rightarrow> bool" where
  "research_fields_ok s =
     (research_max_depth s \<le> 5 \<and> in_range 1 (research_max_initial_tasks s) 20 \<and>
      in_range 1 (research_max_total_tasks s) 50 \<and> research_max_child_tasks_per_worker s \<le> 5 \<and>
      in_range 1 (research_max_parallel_workers s) 16 \<and>
      in_range 1 (research_max_retrieval_calls s) 100 \<and> research_max_analysis_calls s \<le> 20 \<and>
      in_range 1 (research_max_llm_calls s) 30 \<and> in_range 1 (research_max_evidence_items s) 100 \<and>
      in_range 1 (research_max_total_evidence_characters s) 500000 \<and>
      in_range 1 (research_max_query_characters s) 4000 \<and>
      in_range 1 (research_max_queries_per_task s) 20 \<and>
      in_range 1 (research_max_plan_characters s) 100000)"

text \<open>The model validator, for the checks that do not concern an external endpoint.\<close>

definition validate_enabled :: "retrieval_settings \<Rightarrow> bool" where
  "validate_enabled s =
     (\<not> hybrid_dense_weight s + hybrid_sparse_weight s \<le> 0 \<and>
      \<not> (pinecone_enabled s \<and> (case pinecone_api_key s of None \<Rightarrow> True | Some k \<Rightarrow> k = [])) \<and>
      \<not> (setting_retrieval_mode s = Mode_pinecone_hybrid \<and> \<not> pinecone_enabled s) \<and>
      \<not> (llm_enabled s \<and> llm_provider s = Provider_openai \<and>
         (case openai_api_key s of None \<Rightarrow> True | Some k \<Rightarrow> k = [])))"

definition settings_ok :: "retrieval_settings \<Rightarrow> bool" where
  "settings_ok s = (retrieval_fields_ok s \<and> memory_fields_ok s \<and> llm_fields_ok s \<and>
     research_fields_ok s \<and> validate_enabled s)"

text \<open>The defaults of the class.\<close>

definition default_settings :: retrieval_settings where
  "default_settings =
     \<lparr> pinecone_enabled = False, pinecone_api_key = None, pinecone_metric = ''cosine'',
       pinecone_query_top_k = 10, pinecone_max_retries = 3,
       bm25_k1 = 3 / 2, bm25_b = 3 / 4, bm25_max_query_tokens = 128,
       bm25_max_vocabulary_size = 100000, bm25_max_indexed_chunks = 10000,
       bm25_max_terms_per_chunk = 10000, pinecone_retry_base_seconds = 1 / 4,
       hybrid_dense_weight = 65 / 100, hybrid_sparse_weight = 35 / 100,
       hybrid_overfetch_factor = 4, hybrid_max_candidates = 100, hybrid_allow_partial_results = True,
       graph_max_steps = 20, graph_max_recursion_depth = 2, graph_timeout_micros = 30000000,
       graph_max_message_characters = 20000, graph_max_evidence_items = 20, graph_max_warnings = 20,
       setting_retrieval_mode = Mode_sparse,
       memory_enabled = True, memory_max_sessions = 1000, memory_max_turns_per_session = 12,
       memory_max_total_characters = 20000, memory_max_user_message_characters = 4000,
       memory_max_assistant_message_characters = 8000, memory_max_evidence_references = 50,
       memory_session_ttl_seconds = 7200, memory_max_context_topics = 20,
       memory_max_context_identifiers = 30, memory_followup_context_enabled = True,
       memory_redact_sensitive_patterns = True,
       python_analysis_enabled = True, python_analysis_max_rows = 1000,
       python_analysis_max_groups = 100, python_analysis_max_result_items = 50,
       python_analysis_max_filter_values = 50, python_analysis_max_text_field_characters = 2000,
       python_analysis_max_distinct_values = 500, python_analysis_allow_partial_rows = True,
       llm_enabled = True, llm_provider = Provider_fake, ollama_model = ''qwen3:4b-instruct'', ollama_num_predict = 800,
       openai_response_model = ''gpt-5.4-mini'', openai_response_max_output_tokens = 1500, openai_api_key = None,
       llm_max_evidence_items = 8, llm_max_evidence_characters = 24000,
       llm_max_evidence_item_characters = 4000, llm_max_prompt_characters = 32000,
       llm_max_answer_characters = 8000, llm_max_citations = 20, llm_citation_repair_attempts = 1,
       llm_allow_deterministic_fallback = True,
       research_enabled = True, research_max_depth = 2, research_max_initial_tasks = 5,
       research_max_total_tasks = 12, research_max_child_tasks_per_worker = 2,
       research_max_parallel_workers = 4, research_max_retrieval_calls = 16,
       research_max_analysis_calls = 2, research_max_llm_calls = 6, research_max_evidence_items = 30,
       research_max_total_evidence_characters = 60000, research_max_query_characters = 1000,
       research_max_queries_per_task = 4, research_max_plan_characters = 12000,
       research_allow_partial_results = True \<rparr>"

lemma default_settings_ok: "settings_ok default_settings"
  unfolding settings_ok_def retrieval_fields_ok_def memory_fields_ok_def llm_fields_ok_def
    research_fields_ok_def validate_enabled_def default_settings_def
  by simp

end
