(* ===== verification/Access_Control.thy ===== *)
theory Access_Control
  imports Contracts
begin

text \<open>
  Role, tool and document policies (backend security/policies.py) and the authorization service
  that reads them (security/authorization.py).  The locale \<open>document_gate\<close> is the contract
  retrieval, research and memory rely on.
\<close>

section \<open>Policies\<close>

fun ROLE_PERMISSIONS :: "user_role \<Rightarrow> tool_permission set" where
  "ROLE_PERMISSIONS VIEWER = {Perm_knowledge_search}"
| "ROLE_PERMISSIONS ANALYST = {Perm_knowledge_search, Perm_python_analysis, Perm_mcp_tools}"
| "ROLE_PERMISSIONS ADMINISTRATOR = set tool_permissions"

fun TOOL_PERMISSIONS :: "tool_name \<Rightarrow> tool_permission" where
  "TOOL_PERMISSIONS Tool_knowledge_search = Perm_knowledge_search"
| "TOOL_PERMISSIONS Tool_python_analysis = Perm_python_analysis"
| "TOOL_PERMISSIONS Tool_employee_directory = Perm_mcp_tools"
| "TOOL_PERMISSIONS Tool_service_catalog = Perm_mcp_tools"
| "TOOL_PERMISSIONS Tool_incident_records = Perm_mcp_tools"
| "TOOL_PERMISSIONS Tool_administrative_ingestion = Perm_ingestion_management"

fun ROLE_ACCESS_LEVELS :: "user_role \<Rightarrow> access_level set" where
  "ROLE_ACCESS_LEVELS VIEWER = {PUBLIC, INTERNAL}"
| "ROLE_ACCESS_LEVELS ANALYST = {PUBLIC, INTERNAL, CONFIDENTIAL}"
| "ROLE_ACCESS_LEVELS ADMINISTRATOR = set access_levels"


lemma TOOL_PERMISSIONS_cases:
  "TOOL_PERMISSIONS t = Perm_knowledge_search \<longleftrightarrow> t = Tool_knowledge_search"
  "TOOL_PERMISSIONS t = Perm_python_analysis \<longleftrightarrow> t = Tool_python_analysis"
  "TOOL_PERMISSIONS t = Perm_ingestion_management \<longleftrightarrow> t = Tool_administrative_ingestion"
  by (cases t; simp)+

section \<open>The authorization service\<close>

text \<open>Arguments of Python type \<open>X | object\<close> are options: \<open>None\<close> is a object of another type.\<close>

definition permissions_for_role :: "user_role option \<Rightarrow> tool_permission set" where
  "permissions_for_role r = (case r of None \<Rightarrow> {} | Some role \<Rightarrow> ROLE_PERMISSIONS role)"

definition has_permission :: "authenticated_principal \<Rightarrow> tool_permission option \<Rightarrow> bool" where
  "has_permission p perm =
     (case perm of None \<Rightarrow> False
      | Some q \<Rightarrow> q \<in> permissions_for_role (Some (principal_role p)))"

definition permission_decision ::
  "authenticated_principal \<Rightarrow> tool_permission \<Rightarrow> authorization_decision" where
  "permission_decision p perm =
     (let allowed = has_permission p (Some perm) in
      \<lparr> ad_allowed = allowed,
        ad_reason_code = (if allowed then ''authorization.allowed''
                          else ''authorization.missing_permission''),
        ad_public_explanation = (if allowed then ''The operation is permitted.''
                                 else ''Your role does not permit this operation.''),
        ad_required_permission = perm \<rparr>)"

definition require_permission ::
  "authenticated_principal \<Rightarrow> tool_permission \<Rightarrow> (security_error, unit) result" where
  "require_permission p perm =
     (if has_permission p (Some perm) then Return ()
      else Raise (AuthorizationError ''authorization.missing_permission''))"

text \<open>\<open>tool_call_id or uuid4()\<close>: the fresh identifier is an argument.\<close>

definition authorize_tool ::
  "uuid \<Rightarrow> authenticated_principal \<Rightarrow> tool_name option \<Rightarrow> uuid option \<Rightarrow> tool_authorization_decision"
where
  "authorize_tool fresh p tool call_id =
     (let cid = (case call_id of None \<Rightarrow> fresh | Some c \<Rightarrow> c) in
      case tool of
        None \<Rightarrow>
          \<lparr> td_tool_call_id = cid, td_allowed = False,
            td_reason_code = ''authorization.unknown_tool'',
            td_public_explanation = ''The requested tool is not permitted.'',
            td_required_permission = None \<rparr>
      | Some t \<Rightarrow>
          (let permission = TOOL_PERMISSIONS t; allowed = has_permission p (Some permission) in
          \<lparr> td_tool_call_id = cid, td_allowed = allowed,
            td_reason_code = (if allowed then ''authorization.allowed''
                              else ''authorization.missing_permission''),
            td_public_explanation = (if allowed then ''The tool is permitted.''
                                     else ''Your role does not permit this tool.''),
            td_required_permission = Some permission \<rparr>))"

definition allowed_access_levels :: "authenticated_principal \<Rightarrow> access_level set" where
  "allowed_access_levels p = ROLE_ACCESS_LEVELS (principal_role p)"

definition allowed_document_roles :: "authenticated_principal \<Rightarrow> user_role set" where
  "allowed_document_roles p = {principal_role p}"

definition is_document_authorized ::
  "authenticated_principal \<Rightarrow> document_metadata option \<Rightarrow> bool" where
  "is_document_authorized p meta =
     (case meta of None \<Rightarrow> False
      | Some m \<Rightarrow> dm_access_level m \<in> allowed_access_levels p \<and>
                 principal_role p \<in> dm_allowed_roles m)"

lemma has_permission_Some [simp]:
  "has_permission p (Some q) \<longleftrightarrow> q \<in> ROLE_PERMISSIONS (principal_role p)"
  by (simp add: has_permission_def permissions_for_role_def)

lemma require_permission_Inr [simp]:
  "require_permission p q = Inr u \<longleftrightarrow> q \<in> ROLE_PERMISSIONS (principal_role p)"
  by (simp add: require_permission_def)

text \<open>The access levels grow with the role: viewer, analyst, administrator.\<close>

fun role_rank :: "user_role \<Rightarrow> nat" where
  "role_rank VIEWER = 0"
| "role_rank ANALYST = 1"
| "role_rank ADMINISTRATOR = 2"

lemma ROLE_ACCESS_LEVELS_rank:
  "l \<in> ROLE_ACCESS_LEVELS r \<longleftrightarrow> access_level_rank l \<le> role_rank r + 1"
  by (cases r; cases l) simp_all

lemma ROLE_PERMISSIONS_mono:
  "role_rank r \<le> role_rank r' \<Longrightarrow> ROLE_PERMISSIONS r \<subseteq> ROLE_PERMISSIONS r'"
  by (cases r; cases r') auto

section \<open>The contract of the document check\<close>

text \<open>
  What the components that hand documents to a principal rely on: a decision on the metadata, and
  that it only grants documents whose level the role may read and that list the role.
\<close>

locale document_gate =
  fixes gate :: "authenticated_principal \<Rightarrow> document_metadata \<Rightarrow> bool"
  assumes gate_level: "gate p m \<Longrightarrow> dm_access_level m \<in> ROLE_ACCESS_LEVELS (principal_role p)"
    and gate_role: "gate p m \<Longrightarrow> principal_role p \<in> dm_allowed_roles m"
    and gate_identity: "principal_role p = principal_role q \<Longrightarrow> gate p m = gate q m"
begin

lemma gate_rank: "gate p m \<Longrightarrow> access_level_rank (dm_access_level m) \<le> role_rank (principal_role p) + 1"
  using gate_level [of p m] by (simp add: ROLE_ACCESS_LEVELS_rank)

lemma filter_gate_levels:
  "dm_access_level ` dm_of ` set (filter (\<lambda>x. gate p (dm_of x)) xs) \<subseteq> ROLE_ACCESS_LEVELS (principal_role p)"
  using gate_level by auto

lemma restricted_needs_administrator:
  "gate p m \<Longrightarrow> dm_access_level m = RESTRICTED \<Longrightarrow> principal_role p = ADMINISTRATOR"
  using gate_rank [of p m] by (cases "principal_role p") auto

end

definition document_authorized :: "authenticated_principal \<Rightarrow> document_metadata \<Rightarrow> bool" where
  "document_authorized p m = is_document_authorized p (Some m)"

lemma document_authorized_iff:
  "document_authorized p m \<longleftrightarrow>
   dm_access_level m \<in> ROLE_ACCESS_LEVELS (principal_role p) \<and> principal_role p \<in> dm_allowed_roles m"
  by (simp add: document_authorized_def is_document_authorized_def allowed_access_levels_def)

interpretation service_gate: document_gate document_authorized
  by unfold_locales (auto simp: document_authorized_iff)


section \<open>Concrete principals for the witnesses\<close>

definition sample_principal :: "uuid \<Rightarrow> user_role \<Rightarrow> authenticated_principal" where
  "sample_principal uid role =
     \<lparr> pr_identity = \<lparr> ui_user_id = uid, ui_username = ''demo'', ui_display_name = ''Demo'', ui_role = role \<rparr>,
       pr_permissions = ROLE_PERMISSIONS role, pr_authenticated_at = 0, pr_expires_at = 3600000000 \<rparr>"

lemma sample_principal_simps [simp]:
  "principal_role (sample_principal uid role) = role"
  "ui_user_id (pr_identity (sample_principal uid role)) = uid"
  "pr_permissions (sample_principal uid role) = ROLE_PERMISSIONS role"
  by (simp_all add: sample_principal_def)

end
