(* ===== verification/Evidence.thy ===== *)
theory Evidence
  imports Settings Access_Control
begin

text \<open>
  The data retrieval exchanges: the caller's filters (retrieval/filters.py), an ingested chunk
  (ingestion models.py), sparse, dense and fused evidence (retrieval/sparse/retriever.py,
  retrieval/dense_retriever.py, retrieval/hybrid/models.py) and the retrieval exceptions.
\<close>

datatype retrieval_error =
    RetrievalConfigurationError string
  | RetrievalValidationError string
  | RetrievalAuthenticationError string
  | RetrievalAuthorizationError string
  | RetrievalTimeoutError string
  | RetrievalTransientError string
  | RetrievalDependencyError string
  | RetrievalDataIntegrityError string
  | PyValueError string
  | Foreign_error string

record dense_query_filters =
  qf_departments :: "string list"
  qf_document_types :: "document_type list"
  qf_statuses :: "string list"
  qf_created_from :: "date option"
  qf_created_to :: "date option"
  qf_updated_from :: "date option"
  qf_updated_to :: "date option"
  qf_document_ids :: "uuid list"
  qf_tags :: "string list"
  qf_access_levels :: "access_level list"

definition no_filters :: dense_query_filters where
  "no_filters = \<lparr> qf_departments = [], qf_document_types = [], qf_statuses = [],
     qf_created_from = None, qf_created_to = None, qf_updated_from = None, qf_updated_to = None,
     qf_document_ids = [], qf_tags = [], qf_access_levels = [] \<rparr>"

text \<open>A calendar date is never falsy, so \<open>if a and b\<close> on optional dates tests presence.\<close>

fun ordered_range :: "date option \<Rightarrow> date option \<Rightarrow> bool" where
  "ordered_range (Some lo) (Some hi) = (\<not> hi < lo)"
| "ordered_range _ _ = True"

definition dense_query_filters_ok :: "dense_query_filters \<Rightarrow> bool" where
  "dense_query_filters_ok f =
     (length (qf_departments f) \<le> 50 \<and> list_all (\<lambda>s. in_range 1 (length s) 200) (qf_departments f) \<and>
      length (qf_document_types f) \<le> 20 \<and>
      length (qf_statuses f) \<le> 50 \<and> list_all (\<lambda>s. in_range 1 (length s) 100) (qf_statuses f) \<and>
      length (qf_document_ids f) \<le> 100 \<and>
      length (qf_tags f) \<le> 50 \<and> list_all (\<lambda>s. in_range 1 (length s) 100) (qf_tags f) \<and>
      length (qf_access_levels f) \<le> 4 \<and>
      ordered_range (qf_created_from f) (qf_created_to f) \<and>
      ordered_range (qf_updated_from f) (qf_updated_to f))"

record chunk_record =
  ck_chunk_id :: uuid
  ck_document_id :: uuid
  ck_chunk_index :: nat
  ck_evidence_id :: uuid
  ck_title :: string
  ck_source :: string
  ck_source_file :: string
  ck_department :: string
  ck_document_type :: document_type
  ck_access_level :: access_level
  ck_allowed_roles :: "user_role list"
  ck_created_date :: date
  ck_updated_date :: date
  ck_version :: string
  ck_owner :: string
  ck_status :: string
  ck_tags :: "string list"
  ck_related_document_ids :: "uuid list"
  ck_section :: string
  ck_section_path :: "string list"
  ck_source_line_start :: nat
  ck_source_line_end :: nat
  ck_text :: string
  ck_search_text :: string
  ck_approximate_token_count :: nat
  ck_overlap_token_count :: nat
  ck_chunk_content_hash :: string
  ck_original_document_hash :: string
  ck_normalized_document_hash :: string

text \<open>The pattern \<open>^[a-f0-9]{64}$\<close>.\<close>

definition lower_hash_ok :: "string \<Rightarrow> bool" where
  "lower_hash_ok h = (length h = 64 \<and> list_all (\<lambda>c. is_digit c \<or> (97 \<le> code_point c \<and> code_point c \<le> 102)) h)"

definition chunk_record_ok :: "chunk_record \<Rightarrow> bool" where
  "chunk_record_ok c =
     (1 \<le> ck_source_line_start c \<and> 1 \<le> ck_source_line_end c \<and> 1 \<le> length (ck_text c) \<and>
      1 \<le> length (ck_search_text c) \<and> 1 \<le> ck_approximate_token_count c \<and>
      lower_hash_ok (ck_chunk_content_hash c) \<and> lower_hash_ok (ck_original_document_hash c) \<and>
      lower_hash_ok (ck_normalized_document_hash c) \<and>
      ck_source_line_start c \<le> ck_source_line_end c)"

record dense_evidence =
  de_record_id :: string
  de_dense_score :: real
  de_chunk_id :: uuid
  de_evidence_id :: uuid
  de_document_id :: uuid
  de_title :: string
  de_source :: string
  de_source_file :: string
  de_section :: string
  de_section_path :: "string list"
  de_source_line_start :: nat
  de_source_line_end :: nat
  de_version :: string
  de_updated_date :: date
  de_access_level :: access_level
  de_allowed_roles :: "user_role set"
  de_document_type :: document_type
  de_department :: string
  de_status :: string
  de_text :: string
  de_chunk_content_hash :: string
  de_build_fingerprint :: string

record sparse_evidence =
  se_sparse_score :: real
  se_chunk_id :: uuid
  se_evidence_id :: uuid
  se_document_id :: uuid
  se_title :: string
  se_source :: string
  se_source_file :: string
  se_section :: string
  se_section_path :: "string list"
  se_source_line_start :: nat
  se_source_line_end :: nat
  se_version :: string
  se_updated_date :: date
  se_access_level :: access_level
  se_allowed_roles :: "user_role set"
  se_document_type :: document_type
  se_department :: string
  se_status :: string
  se_text :: string
  se_chunk_content_hash :: string
  se_build_fingerprint :: string
  se_sparse_build_fingerprint :: string
  se_salient_query_terms :: "string list"
  se_matched_query_terms :: "string list"
  se_salient_term_coverage :: real

record dense_retrieval_result =
  drr_evidence :: "dense_evidence list"
  drr_total_provider_matches :: nat
  drr_dropped_unauthorized :: nat
  drr_malformed_results :: nat

record sparse_retrieval_result =
  srr_evidence :: "sparse_evidence list"
  srr_total_candidates :: nat

datatype completion_status = CS_complete | CS_partial_success

record hybrid_evidence =
  he_evidence :: dense_evidence
  he_raw_dense_score :: "real option"
  he_raw_sparse_score :: "real option"
  he_normalized_dense_score :: real
  he_normalized_sparse_score :: real
  he_hybrid_score :: real
  he_dense_rank :: "nat option"
  he_sparse_rank :: "nat option"
  he_final_rank :: nat
  he_retrieval_modes :: "string set"

definition hybrid_evidence_ok :: "hybrid_evidence \<Rightarrow> bool" where
  "hybrid_evidence_ok h =
     ((case he_raw_sparse_score h of None \<Rightarrow> True | Some x \<Rightarrow> 0 \<le> x) \<and>
      0 \<le> he_normalized_dense_score h \<and> he_normalized_dense_score h \<le> 1 \<and>
      0 \<le> he_normalized_sparse_score h \<and> he_normalized_sparse_score h \<le> 1 \<and>
      0 \<le> he_hybrid_score h \<and> he_hybrid_score h \<le> 1 \<and> 1 \<le> he_final_rank h)"

record hybrid_retrieval_result =
  hrr_evidence :: "hybrid_evidence list"
  hrr_completion_status :: completion_status
  hrr_warnings :: "string list"
  hrr_failed_branches :: "string list"

text \<open>The document check applied to a piece of evidence: the two conditions
  \<open>access_level in allowed_levels\<close> and \<open>role in allowed_roles\<close>.\<close>

definition evidence_authorized :: "authenticated_principal \<Rightarrow> dense_evidence \<Rightarrow> bool" where
  "evidence_authorized p e =
     (de_access_level e \<in> allowed_access_levels p \<and> principal_role p \<in> de_allowed_roles e)"

definition sparse_authorized :: "authenticated_principal \<Rightarrow> sparse_evidence \<Rightarrow> bool" where
  "sparse_authorized p e =
     (se_access_level e \<in> allowed_access_levels p \<and> principal_role p \<in> se_allowed_roles e)"

section \<open>Concrete evidence for the witnesses\<close>

definition dense_item :: "uuid \<Rightarrow> access_level \<Rightarrow> user_role set \<Rightarrow> string \<Rightarrow> dense_evidence" where
  "dense_item chunk level roles t = \<lparr> de_record_id = ''record'', de_dense_score = 1 / 2,
     de_chunk_id = chunk, de_evidence_id = chunk, de_document_id = 7, de_title = ''Leave policy'',
     de_source = ''corpus'', de_source_file = ''leave.md'', de_section = ''Scope'',
     de_section_path = [''Scope''], de_source_line_start = 3, de_source_line_end = 9,
     de_version = ''2'', de_updated_date = 0, de_access_level = level, de_allowed_roles = roles,
     de_document_type = DT_policy, de_department = ''HR'', de_status = ''approved'', de_text = t,
     de_chunk_content_hash = ''hash'', de_build_fingerprint = ''build'' \<rparr>"

definition hybrid_item :: "nat \<Rightarrow> dense_evidence \<Rightarrow> hybrid_evidence" where
  "hybrid_item rank e = \<lparr> he_evidence = e, he_raw_dense_score = Some (1 / 2),
     he_raw_sparse_score = None, he_normalized_dense_score = 1 / 2, he_normalized_sparse_score = 0,
     he_hybrid_score = 13 / 40, he_dense_rank = Some rank, he_sparse_rank = None,
     he_final_rank = rank, he_retrieval_modes = {''dense''} \<rparr>"

lemma dense_item_simps [simp]:
  "de_chunk_id (dense_item c l rs t) = c" "de_access_level (dense_item c l rs t) = l"
  "de_allowed_roles (dense_item c l rs t) = rs" "de_text (dense_item c l rs t) = t"
  "de_build_fingerprint (dense_item c l rs t) = ''build''"
  "de_source_line_start (dense_item c l rs t) = 3" "de_source_line_end (dense_item c l rs t) = 9"
  "he_evidence (hybrid_item k e) = e"
  by (simp_all add: dense_item_def hybrid_item_def)

end
