(* ===== verification/Text_Rules.thy ===== *)
theory Text_Rules
  imports Py_Regex Evidence
begin

text \<open>
  The deterministic text rules: security guardrails (security/guardrails.py), enterprise
  identifiers (retrieval/identifiers.py), aggregate intent (tools/python_analysis/intent.py) and
  intent classification with the supervisor's routing table (graph/routing.py).  Every pattern is
  transcribed into the regular expressions of \<open>Py_Regex\<close>; \<open>re.I\<close> is the flag of the matcher.
\<close>

abbreviation word_then :: "rx list \<Rightarrow> rx" where "word_then rs \<equiv> Seq Boundary (seqs (rs @ [Boundary]))"

text \<open>\<open>(?:all |any )?\<close> and the like.\<close>

abbreviation opt_of :: "string list \<Rightarrow> rx" where "opt_of ws \<equiv> rx_opt (lits ws)"
abbreviation plural :: "string \<Rightarrow> rx" where "plural w \<equiv> Seq (Lit w) (rx_opt (Lit ''s''))"

section \<open>Security guardrails\<close>

datatype security_denial = Credential_exfiltration | Instruction_extraction
  | Privilege_escalation | Session_exfiltration | Tool_abuse

definition security_denials :: "(security_denial \<times> rx) list" where
  "security_denials =
   [ (Instruction_extraction,
        word_then [Lit ''ignore '', opt_of [''all '', ''any ''],
          lits [''previous'', ''prior'', ''system''], Lit '' instruction'', rx_opt (Lit ''s'')]),
     (Privilege_escalation,
        word_then [Lit ''act as '', rx_opt (Seq (Lit ''a'') (Seq (rx_opt (Lit ''n'')) (Lit '' ''))),
          lits [''administrator'', ''admin'', ''system'']]),
     (Instruction_extraction,
        seqs [word_then [lits [''reveal'', ''show'', ''print'', ''return'', ''provide'']], any_upto 120,
          word_then [alts [Lit ''system prompt'', plural ''developer instruction'',
            plural ''hidden instruction'', Lit ''security policies'', Lit ''chain of thought'',
            Lit ''private reasoning'']]]),
     (Tool_abuse,
        word_then [Lit ''call '', lits [''every'', ''all''], Lit '' '', opt_of [''available ''],
          plural ''tool'']),
     (Privilege_escalation,
        alts [word_then [lits [''all'', ''every''], Lit '' access level'', rx_opt (Lit ''s'')],
          word_then [lits [''upgrade'', ''change'', ''elevate''], Lit '' '',
            opt_of [''my '', ''the ''], Lit ''role''],
          word_then [lits [''bypass'', ''override''], Lit '' '',
            alts [Lit ''access'', Lit ''authorization'', plural ''permission'']],
          seqs [word_then [Lit ''I am '',
              rx_opt (Alt (Lit ''the '') (Seq (Lit ''a'') (Seq (rx_opt (Lit ''n'')) (Lit '' '')))),
              lits [''administrator'', ''admin'']], any_upto 100,
            word_then [lits [''restricted'', ''upgrade'', ''elevate'']]]]),
     (Credential_exfiltration,
        seqs [word_then [lits [''reveal'', ''show'', ''return'', ''dump'', ''print'', ''expose'',
              ''list'', ''read'']], any_upto 240,
          word_then [alts [plural ''credential'', plural ''api key'', plural ''environment variable'',
            plural ''secret'', plural ''password'', plural ''access token'',
            Seq (Lit ''jwt '') (alts [plural ''claim'', plural ''secret'', Lit ''signing material'']),
            plural ''connection string'', Lit ''private configuration'',
            Seq (Lit ''.env'') (rx_opt (Seq (Lit ''.'')
              (rx_some (Cls False [CRange CHR ''a'' CHR ''z'', CRange CHR ''0'' CHR ''9'',
                 COne CHR ''_'', COne CHR ''-''])))),
            Lit ''filesystem'', Lit ''file path'']]]),
     (Session_exfiltration,
        word_then [lits [''other'', ''another''], Lit '' user'',
          rx_opt (Alt (Lit [CHR 0x27, CHR ''s'']) (Lit [CHR ''s'', CHR 0x27])),
          Lit '' session'', rx_opt (Lit ''s'')]),
     (Credential_exfiltration,
        word_then [alts [Lit ''hack'', Seq (Lit ''steal '') (plural ''credential'')]]) ]"

definition direct_attacks :: "rx list" where
  "direct_attacks = map snd security_denials"

definition untrusted_instructions :: "rx list" where
  "untrusted_instructions = direct_attacks @
   [ word_then [Lit ''override '', alts [Lit ''authorization'', plural ''permission'', Lit ''policy'',
       Lit ''identity'']],
     word_then [Lit ''change '', opt_of [''the ''],
       lits [''user'', ''identity'', ''role'', ''system policy'']],
     word_then [Lit ''fabricate '', opt_of [''a ''], plural ''citation''],
     seqs [word_then [Lit ''cite''], any_upto 80, word_then [Lit ''without evidence'']],
     word_then [lits [''execute'', ''invoke''], Lit '' '',
       rx_opt (Seq (Lit ''a'') (Seq (rx_opt (Lit ''n'')) (Lit '' ''))), opt_of [''unapproved ''],
       lits [''tool'', ''command'', ''shell'', ''python'']] ]"

definition public_response_violations :: "(string \<times> rx) list" where
  "public_response_violations =
   [ (''executable_content'',
        alts [seqs [Lit ''<'', rx_many (Cls False [CSpace]), Lit ''script''], Lit ''javascript:'',
          seqs [Lit ''http'', rx_opt (Lit ''s''), Lit ''://'']]),
     (''false_guarantee'',
        alts [word_then [lits [''we'', ''I'', ''the bank''], Lit '' guarantee'',
            rx_opt (Alt (Lit ''s'') (Lit ''d''))],
          word_then [Lit ''guaranteed '', lits [''approval'', ''return'', ''availability'', ''outcome'']]]),
     (''false_identity'',
        word_then [Lit ''I am '', rx_opt (Seq (Lit ''a'') (Seq (rx_opt (Lit ''n'')) (Lit '' ''))),
          opt_of [''bank ''], lits [''employee'', ''officer'', ''advisor'', ''representative'']]),
     (''invented_customer_fact'',
        word_then [Lit ''your '', lits [''account balance'', ''account number'', ''credit score'',
          ''loan balance'', ''customer record'']]),
     (''unsupported_legal_certainty'',
        word_then [lits [''legally guaranteed'', ''definitely compliant'', ''certainly lawful'',
          ''binding legal advice'']]),
     (''evidence_overclaim'',
        seqs [word_then [Lit ''confirmed fact''], any_upto 80,
          word_then [lits [''incomplete'', ''insufficient''], Lit '' evidence'']]) ]"

definition is_direct_prompt_attack :: "string \<Rightarrow> bool" where
  "is_direct_prompt_attack text = list_ex (\<lambda>r. rx_search True r text) direct_attacks"

definition security_denial_category :: "string \<Rightarrow> security_denial option" where
  "security_denial_category text =
     (let bounded = take 4000 text in
      map_option fst (List.find (\<lambda>cr. rx_search True (snd cr) bounded) security_denials))"

definition contains_untrusted_instruction :: "string \<Rightarrow> bool" where
  "contains_untrusted_instruction text = list_ex (\<lambda>r. rx_search True r text) untrusted_instructions"

definition response_policy_violations :: "string \<Rightarrow> string list" where
  "response_policy_violations text =
     map fst (filter (\<lambda>cr. rx_search True (snd cr) text) public_response_violations)"

lemma direct_attack_is_untrusted:
  "is_direct_prompt_attack text \<Longrightarrow> contains_untrusted_instruction text"
  by (simp add: is_direct_prompt_attack_def contains_untrusted_instruction_def
      untrusted_instructions_def)

lemma security_denial_category_None:
  "security_denial_category text = None \<longleftrightarrow> \<not> is_direct_prompt_attack (take 4000 text)"
  by (auto simp: security_denial_category_def is_direct_prompt_attack_def direct_attacks_def
      find_None_all list_ex_iff Let_def)

section \<open>Enterprise identifiers\<close>

definition MAX_ENTERPRISE_IDENTIFIERS :: nat where "MAX_ENTERPRISE_IDENTIFIERS = 4"

record enterprise_identifier =
  eid_normalized :: string
  eid_original :: string

abbreviation alnum_upper :: "catom list" where
  "alnum_upper \<equiv> [CRange CHR ''A'' CHR ''Z'', CRange CHR ''0'' CHR ''9'']"

definition incident_pattern :: rx where
  "incident_pattern =
     seqs [NotBehind alnum_upper, Lit ''INC-'', Rep 2 (Some 12) True (Cls False alnum_upper), Lit ''-'',
       lits [''19'', ''20''], Rep 2 (Some 2) True (Cls False [CDigit]), Lit ''-'',
       Rep 3 (Some 6) True (Cls False [CDigit]), NotAhead (alnum_upper @ [COne CHR ''-''])]"

text \<open>The loop over the matches, with \<open>seen\<close> and \<open>found\<close>; it stops when four were found.\<close>

fun extract_loop ::
  "string list \<Rightarrow> string list \<Rightarrow> enterprise_identifier list \<Rightarrow> enterprise_identifier list" where
  "extract_loop [] seen found = found"
| "extract_loop (original # rest) seen found =
     (let normalized = upper_text original in
      if normalized \<in> set seen then extract_loop rest seen found
      else (let found' = found @ [\<lparr> eid_normalized = normalized, eid_original = original \<rparr>] in
        if MAX_ENTERPRISE_IDENTIFIERS \<le> length found' then found'
        else extract_loop rest (normalized # seen) found'))"

definition extract_enterprise_identifiers :: "string \<Rightarrow> enterprise_identifier list" where
  "extract_enterprise_identifiers text =
     extract_loop (rx_findall True incident_pattern (take 4000 text)) [] []"

definition identifier_document_ids ::
  "chunk_record list \<Rightarrow> enterprise_identifier list \<Rightarrow> (string \<times> uuid set) list" where
  "identifier_document_ids chunks ids =
     (let requested = unique_first (map eid_normalized ids) in
      map (\<lambda>i. (i, set (map ck_document_id (filter (\<lambda>c.
             i \<in> set (map eid_normalized (extract_enterprise_identifiers (ck_search_text c))))
             chunks)))) requested)"

definition matching_document_ids ::
  "chunk_record list \<Rightarrow> enterprise_identifier list \<Rightarrow> uuid set" where
  "matching_document_ids chunks ids = \<Union> (set (map snd (identifier_document_ids chunks ids)))"

lemma extract_loop_invariant:
  assumes "set seen = set (map eid_normalized found)" "distinct (map eid_normalized found)"
    "length found < MAX_ENTERPRISE_IDENTIFIERS"
    "\<forall>i \<in> set found. eid_original i \<in> ms \<and> eid_normalized i = upper_text (eid_original i)"
    "set originals \<subseteq> ms"
  shows "let r = extract_loop originals seen found in
     distinct (map eid_normalized r) \<and> length r \<le> MAX_ENTERPRISE_IDENTIFIERS \<and>
     (\<forall>i \<in> set r. eid_original i \<in> ms \<and> eid_normalized i = upper_text (eid_original i))"
  using assms
proof (induction originals seen found rule: extract_loop.induct)
  case (1 seen found)
  then show ?case by simp
next
  case (2 original rest seen found)
  show ?case
  proof (cases "upper_text original \<in> set seen")
    case True
    then show ?thesis using 2 by (simp add: Let_def)
  next
    case False
    let ?f = "found @ [\<lparr> eid_normalized = upper_text original, eid_original = original \<rparr>]"
    show ?thesis
    proof (cases "MAX_ENTERPRISE_IDENTIFIERS \<le> length ?f")
      case True
      then show ?thesis using False 2(3-) by (auto simp: Let_def)
    next
      case stop: False
      have "extract_loop (original # rest) seen found
          = extract_loop rest (upper_text original # seen) ?f"
        using False stop by (simp add: Let_def)
      moreover have "upper_text original \<notin> set (map eid_normalized found)"
        using False 2(3) by simp
      ultimately show ?thesis
        using "2.IH"(2) [OF refl False refl stop] 2(3-) stop by (simp add: Let_def)
    qed
  qed
qed

lemma extract_enterprise_identifiers_all:
  "distinct (map eid_normalized (extract_enterprise_identifiers text)) \<and>
   length (extract_enterprise_identifiers text) \<le> MAX_ENTERPRISE_IDENTIFIERS \<and>
   (\<forall>i \<in> set (extract_enterprise_identifiers text).
      eid_original i \<in> set (rx_findall True incident_pattern (take 4000 text)) \<and>
      eid_normalized i = upper_text (eid_original i))"
proof -
  have "0 < MAX_ENTERPRISE_IDENTIFIERS" by (simp add: MAX_ENTERPRISE_IDENTIFIERS_def)
  then show ?thesis
    using extract_loop_invariant [of "[]" "[]" "set (rx_findall True incident_pattern (take 4000 text))"
        "rx_findall True incident_pattern (take 4000 text)"]
    by (simp only: Let_def extract_enterprise_identifiers_def) simp
qed

lemma extract_enterprise_identifiers_ok:
  "distinct (map eid_normalized (extract_enterprise_identifiers text))"
  "length (extract_enterprise_identifiers text) \<le> MAX_ENTERPRISE_IDENTIFIERS"
  "i \<in> set (extract_enterprise_identifiers text) \<Longrightarrow>
     sublist (eid_original i) (take 4000 text) \<and> eid_normalized i = upper_text (eid_original i)"
  using extract_enterprise_identifiers_all [of "text"] rx_findall_sublist by blast+

lemma UN_image_filter_iff:
  "d \<in> (\<Union>i \<in> A. f ` {c \<in> C. i \<in> present c}) \<longleftrightarrow> (\<exists>c \<in> C. f c = d \<and> present c \<inter> A \<noteq> {})"
  by blast

lemma matching_document_ids_iff:
  "d \<in> matching_document_ids chunks ids \<longleftrightarrow>
   (\<exists>c \<in> set chunks. ck_document_id c = d \<and>
      set (map eid_normalized (extract_enterprise_identifiers (ck_search_text c))) \<inter>
      set (map eid_normalized ids) \<noteq> {})"
proof -
  define present where
    "present (c :: chunk_record) = set (map eid_normalized (extract_enterprise_identifiers (ck_search_text c)))" for c :: chunk_record
  have "matching_document_ids chunks ids =
    (\<Union>i \<in> set (map eid_normalized ids). ck_document_id ` {c \<in> set chunks. i \<in> present c})"
    by (simp add: matching_document_ids_def identifier_document_ids_def present_def Let_def image_image)
  then have "d \<in> matching_document_ids chunks ids \<longleftrightarrow>
    (\<exists>c \<in> set chunks. ck_document_id c = d \<and> present c \<inter> set (map eid_normalized ids) \<noteq> {})"
    by (simp only: UN_image_filter_iff)
  then show ?thesis by (simp only: present_def)
qed

lemma matching_document_ids_none [simp]: "matching_document_ids chunks [] = {}"
  by (simp add: matching_document_ids_def identifier_document_ids_def unique_first_def)

section \<open>Aggregate intent\<close>

definition aggregate_intent_patterns :: "rx list" where
  "aggregate_intent_patterns =
   [ word_then [Lit ''count''],
     word_then [Lit ''how many''],
     word_then [lits [''distribution'', ''frequency'', ''statistics'']],
     word_then [plural ''recurring root cause''],
     word_then [Lit ''group by''],
     word_then [plural ''trend'', Lit '' across''],
     seqs [word_then [Lit ''compare''], any_upto 80, word_then [alts [plural ''count'', plural ''total'']]],
     word_then [lits [''average'', ''maximum'', ''minimum'']],
     word_then [Lit ''summari'', Cls False [COne CHR ''s'', COne CHR ''z''], Lit ''e categories''],
     word_then [Lit ''most often''],
     word_then [lits [''per month'', ''monthly'']],
     word_then [lits [''calculate'', ''statistical analysis'', ''spreadsheet'', ''python analysis'']] ]"

definition has_explicit_aggregate_intent :: "string \<Rightarrow> bool" where
  "has_explicit_aggregate_intent text =
     (let bounded = take 4000 text in list_ex (\<lambda>r. rx_search True r bounded) aggregate_intent_patterns)"

section \<open>Classification and routing\<close>

definition greeting_pattern :: rx where
  "greeting_pattern =
     seqs [AtStart, alts [Lit ''hi'', Lit ''hello'', Lit ''hey'',
         Seq (Lit ''good '') (lits [''morning'', ''afternoon'', ''evening''])],
       rx_many (Cls False [COne CHR ''!'', COne CHR ''.'', COne CHR '' '']), AtEnd]"

definition requested_access_levels :: "string \<Rightarrow> access_level set" where
  "requested_access_levels text =
     set (filter (\<lambda>l. rx_search False (word_then [Lit (access_level_text l)]) (casefold text))
       access_levels)"

definition requests_inaccessible_access :: "string \<Rightarrow> authenticated_principal \<Rightarrow> bool" where
  "requests_inaccessible_access text p =
     (requested_access_levels text - allowed_access_levels p \<noteq> {})"

abbreviation mentions_any :: "string list \<Rightarrow> string \<Rightarrow> bool" where
  "mentions_any ws text \<equiv> list_ex (\<lambda>w. contains_text w text) ws"

definition classify :: "string \<Rightarrow> intent \<times> string" where
  "classify text =
     (let folded = casefold text;
          identifiers = extract_enterprise_identifiers text;
          aggregate = has_explicit_aggregate_intent text in
      if security_denial_category text \<noteq> None then (Intent_security_denial, ''security_rejected'')
      else if identifiers \<noteq> [] then
        (if 1 < length identifiers \<and> aggregate
         then (Intent_unsupported, ''identifier_scoped_aggregate_unavailable'')
         else (Intent_knowledge_lookup, ''exact_lookup''))
      else if rx_match True greeting_pattern (strip text) \<or> contains_text ''what can you do'' folded
      then (Intent_conversational, ''simple'')
      else if aggregate then (Intent_structured_analysis, ''tool_required'')
      else if mentions_any [''all incidents'', ''compare'', ''recurring root causes'',
          ''across departments'', ''summarize reports'', ''last year''] folded
      then (Intent_cross_document_research, ''cross_document'')
      else if mentions_any [''employee directory'', ''service owner'', ''employee lookup''] folded
      then (Intent_enterprise_tool_lookup, ''tool_required'')
      else if mentions_any [''who owns the '', ''owning team'', ''service tier'',
          ''service criticality'', ''support hours'', ''p95 latency'', ''availability'', ''error rate'',
          ''request count'', ''planned change'', ''change window'', ''release window''] folded
      then (Intent_enterprise_tool_lookup, ''tool_required'')
      else if mentions_any [''delete index'', ''admin operation'', ''reindex namespace''] folded
      then (Intent_administrative, ''tool_required'')
      else if mentions_any [''generate a video'', ''create an animation'', ''compose a song''] folded
      then (Intent_unsupported, ''simple'')
      else (Intent_knowledge_lookup, ''simple''))"

fun supervise :: "intent \<Rightarrow> authenticated_principal \<Rightarrow> route" where
  "supervise Intent_security_denial p = Route_deny"
| "supervise Intent_conversational p = Route_direct_response"
| "supervise Intent_knowledge_lookup p =
     (if has_permission p (Some Perm_knowledge_search) then Route_simple_retrieval else Route_deny)"
| "supervise Intent_cross_document_research p = Route_recursive_research"
| "supervise Intent_structured_analysis p =
     (if has_permission p (Some Perm_python_analysis) then Route_python_analysis else Route_deny)"
| "supervise Intent_enterprise_tool_lookup p =
     (if has_permission p (Some Perm_mcp_tools) then Route_mcp_tool else Route_deny)"
| "supervise Intent_administrative p =
     (if principal_role p = ADMINISTRATOR then Route_unsupported else Route_deny)"
| "supervise Intent_unsupported p = Route_unsupported"

lemma classify_security:
  "fst (classify text) = Intent_security_denial \<longleftrightarrow> security_denial_category text \<noteq> None"
  by (simp add: classify_def Let_def)

end
