(* ===== verification/Result_Models.thy ===== *)
theory Result_Models
  imports Text_Rules
begin

text \<open>
  The results the graph passes between its services: structured analysis
  (tools/python_analysis/models.py), grounded responses and citations (llm/models.py), fictional
  enterprise data over MCP (mcp_tools/models.py) and recursive research (research/models.py), each
  with the predicate its validators decide.
\<close>

section \<open>Structured analysis\<close>

datatype analysis_operation = AO_count_records | AO_group_count | AO_top_values
  | AO_severity_distribution | AO_status_distribution | AO_department_distribution
  | AO_document_type_distribution | AO_date_histogram | AO_duration_statistics
  | AO_recurring_root_causes | AO_corrective_action_summary | AO_compare_groups
  | AO_missing_value_summary

fun operation_text :: "analysis_operation \<Rightarrow> string" where
  "operation_text AO_count_records = ''count_records''"
| "operation_text AO_group_count = ''group_count''"
| "operation_text AO_top_values = ''top_values''"
| "operation_text AO_severity_distribution = ''severity_distribution''"
| "operation_text AO_status_distribution = ''status_distribution''"
| "operation_text AO_department_distribution = ''department_distribution''"
| "operation_text AO_document_type_distribution = ''document_type_distribution''"
| "operation_text AO_date_histogram = ''date_histogram''"
| "operation_text AO_duration_statistics = ''duration_statistics''"
| "operation_text AO_recurring_root_causes = ''recurring_root_causes''"
| "operation_text AO_corrective_action_summary = ''corrective_action_summary''"
| "operation_text AO_compare_groups = ''compare_groups''"
| "operation_text AO_missing_value_summary = ''missing_value_summary''"

datatype date_interval = Interval_day | Interval_month | Interval_quarter | Interval_year

record analysis_filters =
  af_document_ids :: "uuid list"
  af_departments :: "string list"
  af_statuses :: "string list"
  af_severities :: "string list"
  af_root_cause_categories :: "string list"
  af_affected_service :: "string option"
  af_start_date :: "date option"
  af_end_date :: "date option"

definition no_analysis_filters :: analysis_filters where
  "no_analysis_filters = \<lparr> af_document_ids = [], af_departments = [], af_statuses = [],
     af_severities = [], af_root_cause_categories = [], af_affected_service = None,
     af_start_date = None, af_end_date = None \<rparr>"

definition analysis_filters_ok :: "analysis_filters \<Rightarrow> bool" where
  "analysis_filters_ok f = ordered_range (af_start_date f) (af_end_date f)"

record analysis_request =
  ar_operation :: analysis_operation
  ar_filters :: analysis_filters
  ar_group_by :: "string option"
  ar_field :: "string option"
  ar_limit :: nat
  ar_minimum_count :: nat
  ar_interval :: date_interval
  ar_left_value :: "string option"
  ar_right_value :: "string option"

definition optional_length :: "nat \<Rightarrow> string option \<Rightarrow> bool" where
  "optional_length n s = (case s of None \<Rightarrow> True | Some t \<Rightarrow> length t \<le> n)"

definition analysis_request_ok :: "analysis_request \<Rightarrow> bool" where
  "analysis_request_ok r =
     (analysis_filters_ok (ar_filters r) \<and> optional_length 100 (ar_group_by r) \<and>
      optional_length 100 (ar_field r) \<and> in_range 1 (ar_limit r) 50 \<and>
      in_range 1 (ar_minimum_count r) 1000 \<and> optional_length 200 (ar_left_value r) \<and>
      optional_length 200 (ar_right_value r))"

record incident_row =
  ir_document_id :: uuid
  ir_incident_id :: "string option"
  ir_title :: string
  ir_department :: string
  ir_access_level :: access_level
  ir_allowed_roles :: "user_role set"
  ir_status :: string
  ir_created_date :: date
  ir_source_file :: string
  ir_severity :: "string option"
  ir_start_time :: "py_datetime option"
  ir_end_time :: "py_datetime option"
  ir_duration_minutes :: "real option"
  ir_affected_services :: "string list"
  ir_root_cause_category :: string
  ir_corrective_action_status :: "string option"

record analysis_item =
  ai_key :: string
  ai_count :: nat
  ai_incident_ids :: "string list"

record analysis_provenance =
  ap_source_document_ids :: "uuid list"
  ap_supporting_incident_ids :: "string list"
  ap_formula :: string
  ap_taxonomy_version :: "string option"
  ap_algorithm_version :: string

record analysis_result =
  an_operation :: analysis_operation
  an_row_count_considered :: nat
  an_row_count_excluded :: nat
  an_items :: "analysis_item list"
  an_scalar_value :: "real option"
  an_statistics :: "(string, real) dict"
  an_summary :: string
  an_provenance :: analysis_provenance
  an_warnings :: "string list"
  an_request_id :: uuid
  an_trace_id :: uuid

section \<open>Grounded responses\<close>

datatype response_mode = RM_grounded_retrieval | RM_research_synthesis | RM_structured_analysis
  | RM_direct

datatype confidence = Confidence_high | Confidence_medium | Confidence_low

datatype fallback_reason = FR_provider_unavailable | FR_provider_timeout | FR_provider_http_error
  | FR_invalid_structured_output | FR_prohibited_reasoning | FR_citation_validation_failed
  | FR_entity_alignment_validation_failed | FR_research_dimension_validation_failed
  | FR_response_policy_rejected | FR_provider_call_budget_exhausted | FR_unknown_provider_failure

fun fallback_reason_text :: "fallback_reason \<Rightarrow> string" where
  "fallback_reason_text FR_provider_unavailable = ''provider_unavailable''"
| "fallback_reason_text FR_provider_timeout = ''provider_timeout''"
| "fallback_reason_text FR_provider_http_error = ''provider_http_error''"
| "fallback_reason_text FR_invalid_structured_output = ''invalid_structured_output''"
| "fallback_reason_text FR_prohibited_reasoning = ''prohibited_reasoning''"
| "fallback_reason_text FR_citation_validation_failed = ''citation_validation_failed''"
| "fallback_reason_text FR_entity_alignment_validation_failed = ''entity_alignment_validation_failed''"
| "fallback_reason_text FR_research_dimension_validation_failed = ''research_dimension_validation_failed''"
| "fallback_reason_text FR_response_policy_rejected = ''response_policy_rejected''"
| "fallback_reason_text FR_provider_call_budget_exhausted = ''provider_call_budget_exhausted''"
| "fallback_reason_text FR_unknown_provider_failure = ''unknown_provider_failure''"

text \<open>The identifier patterns: a letter, a non-zero digit, at most two more digits.\<close>

definition indexed_id :: "char \<Rightarrow> string \<Rightarrow> bool" where
  "indexed_id letter s =
     (case s of c # d # rest \<Rightarrow>
        c = letter \<and> is_digit d \<and> d \<noteq> CHR ''0'' \<and> length rest \<le> 2 \<and> list_all is_digit rest
      | _ \<Rightarrow> False)"

record grounded_claim =
  gc_claim_id :: string
  gc_text :: string
  gc_supporting_evidence_ids :: "string list"
  gc_factual :: bool
  gc_confidence :: confidence
  gc_qualification :: "string option"

definition grounded_claim_ok :: "grounded_claim \<Rightarrow> bool" where
  "grounded_claim_ok c =
     (indexed_id CHR ''C'' (gc_claim_id c) \<and> in_range 1 (length (gc_text c)) 2000 \<and>
      list_all (indexed_id CHR ''E'') (gc_supporting_evidence_ids c) \<and>
      optional_length 500 (gc_qualification c) \<and>
      \<not> (gc_factual c \<and> gc_supporting_evidence_ids c = []))"

record answer_draft =
  dr_answer_summary :: string
  dr_claims :: "grounded_claim list"
  dr_warnings :: "string list"
  dr_insufficient_evidence :: bool
  dr_clarification_needed :: bool

definition answer_draft_ok :: "answer_draft \<Rightarrow> bool" where
  "answer_draft_ok d =
     (in_range 1 (length (dr_answer_summary d)) 8000 \<and> length (dr_claims d) \<le> 20 \<and>
      list_all grounded_claim_ok (dr_claims d) \<and> list_all (\<lambda>w. length w \<le> 500) (dr_warnings d))"

record context_item =
  ec_model_id :: string
  ec_evidence_id :: uuid
  ec_chunk_id :: uuid
  ec_document_id :: uuid
  ec_title :: string
  ec_document_type :: document_type
  ec_department :: string
  ec_status :: string
  ec_version :: string
  ec_updated_date :: date
  ec_section :: string
  ec_source_file :: string
  ec_source_line_start :: nat
  ec_source_line_end :: nat
  ec_access_level :: access_level
  ec_text :: string
  ec_build_fingerprint :: string

record verified_citation =
  vc_marker :: string
  vc_evidence_id :: uuid
  vc_chunk_id :: uuid
  vc_document_id :: uuid
  vc_title :: string
  vc_section :: string
  vc_source_file :: string
  vc_source_line_start :: nat
  vc_source_line_end :: nat
  vc_version :: string
  vc_updated_date :: date
  vc_access_level :: access_level
  vc_department :: string
  vc_document_type :: document_type

record citation_validation =
  cv_valid :: bool
  cv_errors :: "string list"
  cv_citations :: "verified_citation list"

record grounded_response =
  gr_answer_text :: string
  gr_citations :: "verified_citation list"
  gr_provider :: string
  gr_model :: string
  gr_prompt_version :: string
  gr_deterministic_fallback_used :: bool
  gr_deterministic_analysis_rendering_used :: bool
  gr_fallback_reason :: "fallback_reason option"
  gr_insufficient_evidence :: bool
  gr_uncertainty :: "string option"

definition grounded_response_ok :: "grounded_response \<Rightarrow> bool" where
  "grounded_response_ok g =
     (\<not> (gr_deterministic_analysis_rendering_used g \<and>
         (gr_deterministic_fallback_used g \<or> gr_fallback_reason g \<noteq> None)))"

section \<open>Enterprise data over MCP\<close>

definition SERVER_NAME :: string where "SERVER_NAME = ''enterprise-fictional-data''"

datatype mcp_tool = Mcp_service_profile | Mcp_operational_metrics | Mcp_change_windows

fun mcp_tool_text :: "mcp_tool \<Rightarrow> string" where
  "mcp_tool_text Mcp_service_profile = ''get_service_profile''"
| "mcp_tool_text Mcp_operational_metrics = ''get_operational_metrics''"
| "mcp_tool_text Mcp_change_windows = ''get_change_windows''"

abbreviation service_chars :: "catom list" where
  "service_chars \<equiv> [CRange CHR ''a'' CHR ''z'', CRange CHR ''0'' CHR ''9'']"

definition service_pattern :: rx where
  "service_pattern = seqs [AtStart, rx_some (Cls False service_chars),
     rx_many (Seq (Lit ''-'') (rx_some (Cls False service_chars))), AtEnd]"

definition unsafe_text :: rx where
  "unsafe_text = alts [Cls False [CRange (CHR 0x00) (CHR 0x1F), COne (CHR 0x7F)], Lit ''..'',
     Cls False (map COne [CHR 0x5C, CHR 0x2F, CHR 0x3A, CHR 0x2A, CHR 0x3F, CHR 0x22, CHR 0x3C,
       CHR 0x3E, CHR 0x7C, CHR 0x24, CHR 0x60, CHR 0x28, CHR 0x29, CHR 0x7B, CHR 0x7D, CHR 0x5B,
       CHR 0x5D, CHR 0x3B, CHR 0x26])]"

definition normalize_service_name :: "string \<Rightarrow> (unit, string) result" where
  "normalize_service_name text =
     (let normalized = casefold (strip text) in
      if normalized = [] \<or> 80 < length normalized then Raise ()
      else if rx_search False unsafe_text normalized \<or> \<not> rx_fullmatch False service_pattern normalized
      then Raise ()
      else Return normalized)"

datatype service_tier = Tier_1 | Tier_2 | Tier_3
datatype business_criticality = Crit_critical | Crit_high | Crit_moderate
datatype lifecycle_status = Life_active | Life_maintenance | Life_retiring
datatype change_status = Change_planned | Change_approved | Change_completed
datatype metric_period = Period_current | Period_24h | Period_7d

record service_profile =
  sp_service_name :: string
  sp_owning_team :: string
  sp_department :: string
  sp_tier :: service_tier
  sp_criticality :: business_criticality
  sp_support_hours :: string
  sp_lifecycle_status :: lifecycle_status

record operational_metrics =
  om_service_name :: string
  om_period :: metric_period
  om_availability_percentage :: real
  om_request_count :: nat
  om_error_rate_percentage :: real
  om_p95_latency_ms :: nat
  om_active_incidents :: nat
  om_snapshot_timestamp :: instant

record change_window =
  cw_change_id :: string
  cw_change_type :: string
  cw_start_time :: instant
  cw_end_time :: instant
  cw_status :: change_status
  cw_affected_service :: string
  cw_owning_team :: string

definition change_window_ok :: "change_window \<Rightarrow> bool" where
  "change_window_ok c =
     (length (cw_change_id c) = 8 \<and> take 4 (cw_change_id c) = ''CHG-'' \<and>
      list_all is_digit (drop 4 (cw_change_id c)) \<and>
      in_range 1 (length (cw_change_type c)) 100 \<and> in_range 1 (length (cw_owning_team c)) 100 \<and>
      in_range 1 (length (cw_affected_service c)) 80 \<and>
      normalize_service_name (cw_affected_service c) = Inr (cw_affected_service c) \<and>
      \<not> cw_end_time c \<le> cw_start_time c)"

record service_record =
  sr_profile :: service_profile
  sr_last_deployment_date :: date
  sr_metrics :: "operational_metrics list"
  sr_change_windows :: "change_window list"

text \<open>The validator compares the set of periods, so a repeated period is accepted although its
  message asks for exactly one of each.\<close>

definition service_record_ok :: "service_record \<Rightarrow> bool" where
  "service_record_ok r =
     (set (map om_period (sr_metrics r)) = {Period_current, Period_24h, Period_7d} \<and>
      list_all (\<lambda>m. om_service_name m = sp_service_name (sr_profile r)) (sr_metrics r) \<and>
      list_all (\<lambda>c. cw_affected_service c = sp_service_name (sr_profile r)) (sr_change_windows r))"

datatype mcp_result =
    Result_profile service_profile
  | Result_metrics operational_metrics
  | Result_windows (rw_service_name: string) (rw_windows: "change_window list")

definition change_window_range_ok :: "date option \<Rightarrow> date option \<Rightarrow> bool" where
  "change_window_range_ok a b =
     (case (a, b) of (Some lo, Some hi) \<Rightarrow> \<not> hi < lo \<and> \<not> 90 < hi - lo | _ \<Rightarrow> True)"

record mcp_provenance =
  mp_tool_name :: mcp_tool
  mp_record_identifier :: string
  mp_snapshot_timestamp :: "instant option"

record mcp_execution =
  mx_tool_name :: mcp_tool
  mx_result :: mcp_result
  mx_provenance :: mcp_provenance
  mx_response_text :: string

record selected_mcp_tool =
  sm_tool_name :: mcp_tool
  sm_service_name :: string
  sm_period :: "metric_period option"
  sm_start_date :: "date option"
  sm_end_date :: "date option"

section \<open>Recursive research\<close>

datatype research_task_type = RT_targeted_lookup | RT_policy_lookup | RT_incident_lookup
  | RT_architecture_lookup | RT_runbook_lookup | RT_timeline_lookup | RT_comparison_dimension
  | RT_root_cause_analysis | RT_frequency_analysis | RT_gap_investigation

datatype research_task_status = RS_pending | RS_completed | RS_partial | RS_failed | RS_blocked

datatype coverage_status = Cov_sufficient | Cov_partially_sufficient | Cov_insufficient
  | Cov_blocked_by_authorization | Cov_budget_exhausted | Cov_failed

fun task_type_text :: "research_task_type \<Rightarrow> string" where
  "task_type_text RT_targeted_lookup = ''targeted_lookup''"
| "task_type_text RT_policy_lookup = ''policy_lookup''"
| "task_type_text RT_incident_lookup = ''incident_lookup''"
| "task_type_text RT_architecture_lookup = ''architecture_lookup''"
| "task_type_text RT_runbook_lookup = ''runbook_lookup''"
| "task_type_text RT_timeline_lookup = ''timeline_lookup''"
| "task_type_text RT_comparison_dimension = ''comparison_dimension''"
| "task_type_text RT_root_cause_analysis = ''root_cause_analysis''"
| "task_type_text RT_frequency_analysis = ''frequency_analysis''"
| "task_type_text RT_gap_investigation = ''gap_investigation''"

fun coverage_status_text :: "coverage_status \<Rightarrow> string" where
  "coverage_status_text Cov_sufficient = ''sufficient''"
| "coverage_status_text Cov_partially_sufficient = ''partially_sufficient''"
| "coverage_status_text Cov_insufficient = ''insufficient''"
| "coverage_status_text Cov_blocked_by_authorization = ''blocked_by_authorization''"
| "coverage_status_text Cov_budget_exhausted = ''budget_exhausted''"
| "coverage_status_text Cov_failed = ''failed''"

record search_strategy =
  rq_queries :: "string list"
  rq_filters :: dense_query_filters
  rq_top_k :: nat

record research_task =
  tk_task_id :: string
  tk_parent_task_id :: "string option"
  tk_depth :: nat
  tk_task_type :: research_task_type
  tk_research_question :: string
  tk_search :: search_strategy
  tk_dependency_task_ids :: "string list"
  tk_priority :: nat
  tk_analysis_may_be_useful :: bool
  tk_comparison_dimension :: "string option"
  tk_comparison_terms :: "string list"
  tk_completion_criteria :: "string list"

definition research_task_ok :: "research_task \<Rightarrow> bool" where
  "research_task_ok t =
     (tk_depth t \<le> 5 \<and> in_range 1 (length (tk_research_question t)) 2000 \<and> tk_priority t \<le> 100 \<and>
      list_all (\<lambda>q. in_range 1 (length q) 1000) (rq_queries (tk_search t)) \<and>
      in_range 1 (rq_top_k (tk_search t)) 20)"

record collection_catalog =
  cc_build_fingerprint :: string
  cc_document_count :: nat
  cc_departments :: "string list"
  cc_document_types :: "string list"
  cc_statuses :: "string list"
  cc_earliest_date :: "date option"
  cc_latest_date :: "date option"
  cc_tags :: "string list"
  cc_incident_count :: nat
  cc_policy_count :: nat
  cc_runbook_count :: nat
  cc_architecture_document_count :: nat

record research_request =
  rr_question :: string
  rr_principal :: authenticated_principal
  rr_request_id :: uuid
  rr_trace_id :: uuid
  rr_session_id :: uuid

record research_plan =
  pl_plan_id :: string
  pl_original_question :: string
  pl_normalized_objective :: string
  pl_research_scope :: string
  pl_catalog :: collection_catalog
  pl_tasks :: "research_task list"
  pl_expected_synthesis_dimensions :: "string list"
  pl_required_comparison_dimensions :: "string list"
  pl_date_from :: "date option"
  pl_date_to :: "date option"
  pl_completion_criteria :: "string list"
  pl_planner_version :: string
  pl_maximum_depth :: nat
  pl_maximum_tasks :: nat
  pl_warnings :: "string list"

record child_task_proposal =
  cp_parent_task_id :: string
  cp_task_type :: research_task_type
  cp_research_question :: string
  cp_queries :: "string list"
  cp_reason :: string
  cp_comparison_dimension :: "string option"
  cp_comparison_terms :: "string list"

record worker_result =
  wr_task_id :: string
  wr_parent_task_id :: "string option"
  wr_depth :: nat
  wr_status :: research_task_status
  wr_queries_executed :: "string list"
  wr_retrieval_modes :: "string list"
  wr_evidence :: "hybrid_evidence list"
  wr_coverage_status :: coverage_status
  wr_gaps :: "string list"
  wr_child_task_proposals :: "child_task_proposal list"
  wr_warnings :: "string list"
  wr_error_category :: "string option"
  wr_retrieval_calls :: nat
  wr_analysis_calls :: nat
  wr_analysis_result :: "analysis_result option"
  wr_comparison_dimension :: "string option"

record evidence_entry =
  en_evidence :: hybrid_evidence
  en_task_ids :: "string list"

record evidence_ledger =
  el_entries :: "evidence_entry list"
  el_total_characters :: nat
  el_dropped_items :: nat

record research_gap =
  rg_dimension :: string
  rg_reason :: string
  rg_task_id :: "string option"

record research_conflict =
  rc_conflict_type :: string
  rc_evidence_ids :: "uuid list"
  rc_description :: string
  rc_preferred_evidence_id :: "uuid option"

record coverage_assessment =
  ca_status :: coverage_status
  ca_covered_dimensions :: "string list"
  ca_missing_dimensions :: "string list"
  ca_unsupported_requested_claims :: "string list"
  ca_evidence_diversity :: nat
  ca_source_authority_distribution :: "(string \<times> nat) list"
  ca_conflicts :: "research_conflict list"
  ca_another_round_justified :: bool

record research_budget =
  rb_maximum_depth :: nat
  rb_maximum_total_tasks :: nat
  rb_maximum_retrieval_calls :: nat
  rb_maximum_analysis_calls :: nat
  rb_maximum_llm_calls :: nat
  rb_maximum_evidence_items :: nat
  rb_maximum_evidence_characters :: nat

record budget_usage =
  bu_tasks :: nat
  bu_retrieval_calls :: nat
  bu_analysis_calls :: nat
  bu_llm_calls :: nat
  bu_evidence_items :: nat
  bu_evidence_characters :: nat
  bu_exhausted :: bool

record research_result =
  rs_plan :: research_plan
  rs_worker_results :: "worker_result list"
  rs_evidence_ledger :: evidence_ledger
  rs_coverage :: coverage_assessment
  rs_gaps :: "research_gap list"
  rs_conflicts :: "research_conflict list"
  rs_budget_usage :: budget_usage
  rs_provenance_fingerprint :: string
  rs_warnings :: "string list"
  rs_analysis_results :: "analysis_result list"

end
