(* ===== verification/Conversation_Context.thy ===== *)
theory Conversation_Context
  imports Text_Rules
begin

text \<open>
  Conversation memory, the data and the pure part: the contracts of memory/models.py, ownership
  (memory/policies.py), redaction (memory/sanitizer.py), and the structured context with its
  follow-up resolution (memory/context.py).  \<open>uuid5\<close> and SHA-256 are arguments.
\<close>

section \<open>Contracts\<close>

datatype memory_error =
    MemoryOwnershipError
  | MemoryIntegrityError
  | MemoryCapacityError
  | TurnValidationError  \<comment> \<open>Pydantic's error for a turn; it is not a \<open>MemoryError\<close>\<close>

fun is_memory_error :: "memory_error \<Rightarrow> bool" where
  "is_memory_error TurnValidationError = False"
| "is_memory_error _ = True"

record session_ownership =
  so_session_id :: uuid
  so_user_id :: uuid
  so_role :: user_role
  so_permissions :: "tool_permission set"
  so_policy_fingerprint :: string

record evidence_reference =
  er_evidence_id :: uuid
  er_chunk_id :: uuid
  er_document_id :: uuid
  er_title :: string
  er_source_file :: string
  er_section_path :: "string list"
  er_document_type :: document_type
  er_department :: string
  er_access_level :: access_level
  er_version :: string
  er_updated_date :: date
  er_final_rank :: nat

definition evidence_reference_ok :: "evidence_reference \<Rightarrow> bool" where
  "evidence_reference_ok r =
     (in_range 1 (length (er_title r)) 500 \<and> in_range 1 (length (er_source_file r)) 2048 \<and>
      list_all (\<lambda>s. length s \<le> 500) (er_section_path r) \<and>
      in_range 1 (length (er_department r)) 200 \<and> in_range 1 (length (er_version r)) 100 \<and>
      1 \<le> er_final_rank r)"

record memory_update =
  mu_request_id :: uuid
  mu_session_id :: uuid
  mu_user_id :: uuid
  mu_user_message :: string
  mu_assistant_message :: string
  mu_intent :: intent
  mu_selected_route :: route
  mu_completion_status :: processing_status
  mu_evidence_references :: "evidence_reference list"
  mu_warnings :: "string list"
  mu_created_at :: instant

record conversation_turn =
  ct_turn_id :: uuid
  ct_sequence_number :: nat
  ct_update :: memory_update

definition conversation_turn_ok :: "conversation_turn \<Rightarrow> bool" where
  "conversation_turn_ok t =
     (1 \<le> ct_sequence_number t \<and>
      in_range 1 (length (mu_user_message (ct_update t))) 4000 \<and>
      in_range 1 (length (mu_assistant_message (ct_update t))) 8000 \<and>
      list_all (\<lambda>w. length w \<le> 500) (mu_warnings (ct_update t)))"

record memory_context =
  mc_last_user_question :: "string option"
  mc_last_intent :: "intent option"
  mc_last_route :: "route option"
  mc_recent_document_titles :: "string list"
  mc_recent_document_ids :: "uuid list"
  mc_recent_incident_ids :: "string list"
  mc_recent_service_names :: "string list"
  mc_recent_departments :: "string list"
  mc_recent_document_types :: "document_type list"
  mc_recent_evidence_ids :: "uuid list"
  mc_recent_warnings :: "string list"
  mc_turn_count :: nat

definition empty_context :: memory_context where
  "empty_context = \<lparr> mc_last_user_question = None, mc_last_intent = None, mc_last_route = None,
     mc_recent_document_titles = [], mc_recent_document_ids = [], mc_recent_incident_ids = [],
     mc_recent_service_names = [], mc_recent_departments = [], mc_recent_document_types = [],
     mc_recent_evidence_ids = [], mc_recent_warnings = [], mc_turn_count = 0 \<rparr>"

record memory_snapshot =
  sn_session_id :: uuid
  sn_turn_count :: nat
  sn_total_characters :: nat
  sn_evidence_reference_count :: nat
  sn_turns :: "conversation_turn list"
  sn_context :: memory_context
  sn_expires_at :: instant

record memory_load_result =
  ml_enabled :: bool
  ml_found :: bool
  ml_snapshot :: "memory_snapshot option"

record memory_write_result =
  mw_stored :: bool
  mw_duplicate :: bool
  mw_sequence_number :: "nat option"
  mw_evicted_turns :: nat

section \<open>Ownership\<close>

definition permission_list :: "tool_permission set \<Rightarrow> tool_permission list" where
  "permission_list s = sorted_list_of_set s"

definition ownership_for ::
  "(string \<Rightarrow> string) \<Rightarrow> uuid \<Rightarrow> authenticated_principal \<Rightarrow> session_ownership" where
  "ownership_for sha256 session_id p =
     (let policy = join_text ''|'' (user_role_text (principal_role p) #
            map tool_permission_text (permission_list (pr_permissions p))) in
      \<lparr> so_session_id = session_id, so_user_id = ui_user_id (pr_identity p),
        so_role = principal_role p, so_permissions = pr_permissions p,
        so_policy_fingerprint = sha256 policy \<rparr>)"

lemma ownership_for_fields [simp]:
  "so_session_id (ownership_for h sid p) = sid"
  "so_user_id (ownership_for h sid p) = ui_user_id (pr_identity p)"
  "so_role (ownership_for h sid p) = principal_role p"
  "so_permissions (ownership_for h sid p) = pr_permissions p"
  by (simp_all add: ownership_for_def Let_def)

text \<open>Two principals own a session together exactly when user, role and permissions agree,
  whatever the hash.\<close>

lemma ownership_for_eq_iff:
  "ownership_for h sid p = ownership_for h sid q \<longleftrightarrow>
   ui_user_id (pr_identity p) = ui_user_id (pr_identity q) \<and> principal_role p = principal_role q \<and>
   pr_permissions p = pr_permissions q"
  by (auto simp: ownership_for_def Let_def)

section \<open>Redaction\<close>

definition REDACTED :: string where "REDACTED = ''[REDACTED]''"

definition jwt_part :: rx where
  "jwt_part = rx_some (Cls False [CRange CHR ''a'' CHR ''z'', CRange CHR ''A'' CHR ''Z'',
     CRange CHR ''0'' CHR ''9'', COne CHR ''_'', COne CHR ''-''])"

definition key_marker :: "string \<Rightarrow> rx" where
  "key_marker w = seqs [Lit ''-----'', Lit w, rx_opt (lits [''RSA '', ''EC '', ''OPENSSH '']),
     Lit ''PRIVATE KEY-----'']"

definition sanitizer_patterns :: "(bool \<times> rx) list" where
  "sanitizer_patterns =
   [ (True, seqs [Boundary, Lit ''bearer'', rx_some (Cls False [CSpace]),
        rx_some (Cls False [CRange CHR ''a'' CHR ''z'', CRange CHR ''0'' CHR ''9'', COne CHR ''.'',
          COne CHR ''_'', COne CHR ''~'', COne CHR ''+'', COne CHR ''/'', COne CHR ''='', COne CHR ''-''])]),
     (False, seqs [Boundary, Lit ''eyJ'', jwt_part, Lit ''.'', jwt_part, Lit ''.'', jwt_part, Boundary]),
     (True, seqs [Boundary, alts [Lit ''password'', Lit ''passwd'',
          seqs [Lit ''api'', rx_opt (Cls False [COne CHR ''_'', COne CHR ''-'']), Lit ''key''],
          Lit ''authorization''],
        rx_many (Cls False [CSpace]), Cls False [COne CHR '':'', COne CHR ''=''],
        rx_many (Cls False [CSpace]), rx_some (Cls True [CSpace])]),
     (False, seqs [key_marker ''BEGIN '', Rep 0 None False (Cls True []), key_marker ''END '']) ]"

definition sanitize_text :: "bool \<Rightarrow> string \<Rightarrow> string" where
  "sanitize_text enabled text =
     (if \<not> enabled then text
      else fold (\<lambda>(ci, r) t. rx_sub ci r REDACTED t) sanitizer_patterns text)"

section \<open>Structured context\<close>

definition context_incident :: rx where
  "context_incident = seqs [Boundary, Lit ''INC-'', rx_some (Cls False alnum_upper),
     rx_some (Seq (Lit ''-'') (rx_some (Cls False alnum_upper))), Boundary]"

definition known_services :: "string list" where
  "known_services = [''HorizonPay Gateway'', ''LedgerBridge'', ''CardAuth Hub'', ''OpsPulse'']"

definition followup_pattern :: rx where
  "followup_pattern = Alt (word_then [lits [''that'', ''those'', ''these'', ''previous'', ''same'',
     ''them'', ''first'', ''second'', ''again'']]) (Lit ''which runbook did you use'')"

definition context_unique :: "nat \<Rightarrow> 'a list \<Rightarrow> 'a list" where
  "context_unique maximum xs = last_n maximum (unique_first xs)"

abbreviation turn_references :: "conversation_turn \<Rightarrow> evidence_reference list" where
  "turn_references t \<equiv> mu_evidence_references (ct_update t)"

definition build_context ::
  "nat \<Rightarrow> nat \<Rightarrow> conversation_turn list \<Rightarrow> memory_context" where
  "build_context maximum_topics maximum_identifiers turns =
     (let references = concat (map turn_references turns);
          messages = join_text '' '' (map (\<lambda>t. mu_user_message (ct_update t)) turns);
          incidents = rx_findall True context_incident messages;
          services = filter (\<lambda>s. contains_text (casefold s) (casefold messages)) known_services;
          lastup = (if turns = [] then None else Some (ct_update (last turns))) in
      \<lparr> mc_last_user_question = map_option mu_user_message lastup,
        mc_last_intent = map_option mu_intent lastup,
        mc_last_route = map_option mu_selected_route lastup,
        mc_recent_document_titles = context_unique maximum_topics (map er_title references),
        mc_recent_document_ids = context_unique maximum_topics (map er_document_id references),
        mc_recent_incident_ids = context_unique maximum_identifiers incidents,
        mc_recent_service_names = context_unique maximum_topics services,
        mc_recent_departments = context_unique maximum_topics (map er_department references),
        mc_recent_document_types = context_unique maximum_topics (map er_document_type references),
        mc_recent_evidence_ids = context_unique maximum_identifiers (map er_evidence_id references),
        mc_recent_warnings =
          context_unique maximum_topics (concat (map (\<lambda>t. mu_warnings (ct_update t)) turns)),
        mc_turn_count = length turns \<rparr>)"

section \<open>Follow-up resolution\<close>

definition followup_additions :: "string \<Rightarrow> memory_context \<Rightarrow> string list" where
  "followup_additions lowered c =
     (if contains_text ''second'' lowered \<and> 2 \<le> length (mc_recent_document_titles c)
      then [mc_recent_document_titles c ! 1]
      else if contains_text ''first'' lowered \<and> mc_recent_document_titles c \<noteq> []
      then [mc_recent_document_titles c ! 0]
      else if contains_text ''runbook'' lowered
      then (let runbooks = filter (\<lambda>t. contains_text ''runbook'' (casefold t))
                  (mc_recent_document_titles c) in
            if length runbooks = 1 then runbooks else [])
      else if contains_text ''incident'' lowered \<and> mc_recent_incident_ids c \<noteq> []
      then mc_recent_incident_ids c
      else if contains_text ''same service'' lowered \<and> mc_recent_service_names c \<noteq> []
      then mc_recent_service_names c
      else [])"

definition explain_prefix :: string where
  "explain_prefix = ''Explain again, in simpler terms, the answer to this prior user question: ''"

definition repeatable_question :: "string \<Rightarrow> memory_context \<Rightarrow> string option" where
  "repeatable_question lowered c =
     (case mc_last_user_question c of
        None \<Rightarrow> None
      | Some q \<Rightarrow>
          (if q \<noteq> [] \<and> mentions_any [''that'', ''previous'', ''again''] lowered \<and>
              \<not> contains_untrusted_instruction q
           then Some q else None))"

text \<open>The triple \<open>(query, detected, used)\<close>.\<close>

definition resolve_followup :: "nat \<Rightarrow> string \<Rightarrow> memory_context \<Rightarrow> string \<times> bool \<times> bool" where
  "resolve_followup maximum query c =
     (let detected = rx_search True followup_pattern query; lowered = casefold query in
      if extract_enterprise_identifiers query \<noteq> [] then (query, detected, False)
      else if \<not> detected \<or> mc_turn_count c = 0 then (query, detected, False)
      else case repeatable_question lowered c of
        Some q \<Rightarrow> (take maximum (explain_prefix @ q), True, True)
      | None \<Rightarrow>
          (let additions = followup_additions lowered c in
           if additions = [] then (query, True, False)
           else (take maximum (query @ '' Context references: '' @ join_text ''; '' additions),
                 True, True)))"

lemma resolve_followup_cases:
  "resolve_followup n q c = (q, rx_search True followup_pattern q, False) \<or>
   (rx_search True followup_pattern q \<and> 0 < mc_turn_count c \<and>
    extract_enterprise_identifiers q = [] \<and>
    (resolve_followup n q c = (q, True, False) \<or>
     (\<exists>r. resolve_followup n q c = (take n r, True, True))))"
  unfolding resolve_followup_def Let_def
  by (cases "extract_enterprise_identifiers q = []"; cases "rx_search True followup_pattern q";
      cases "mc_turn_count c = 0"; cases "repeatable_question (casefold q) c";
      cases "followup_additions (casefold q) c = []") (simp_all only: if_True if_False not_True_eq_False not_False_eq_True simp_thms option.case, blast+)

lemma resolve_followup_unused:
  assumes "resolve_followup n q c = (r, d, False)" shows "r = q"
  using resolve_followup_cases [of n q c] assms by fastforce

lemma resolve_followup_used:
  assumes "resolve_followup n q c = (r, d, True)"
  shows "length r \<le> n \<and> d \<and> 0 < mc_turn_count c \<and> extract_enterprise_identifiers q = []"
  using resolve_followup_cases [of n q c] assms by fastforce

lemma context_unique_length: "0 < n \<Longrightarrow> length (context_unique n xs) \<le> n"
  by (simp add: context_unique_def slice_simps)

lemma context_unique_subset: "set (context_unique n xs) \<subseteq> set xs"
  using set_last_n [of n "unique_first xs"] by (simp add: context_unique_def)

lemma context_unique_distinct: "distinct (context_unique n xs)"
  by (simp add: context_unique_def last_n_def distinct_drop)

lemmas context_unique_facts = context_unique_length context_unique_subset context_unique_distinct

lemma build_context_bounded:
  fixes turns :: "conversation_turn list"
  assumes "0 < topics" "0 < ids"
  defines "c \<equiv> build_context topics ids turns"
  shows "length (mc_recent_document_titles c) \<le> topics" "length (mc_recent_document_ids c) \<le> topics"
    "length (mc_recent_incident_ids c) \<le> ids" "length (mc_recent_service_names c) \<le> topics"
    "length (mc_recent_departments c) \<le> topics" "length (mc_recent_document_types c) \<le> topics"
    "length (mc_recent_evidence_ids c) \<le> ids" "length (mc_recent_warnings c) \<le> topics"
    "mc_turn_count c = length turns"
  using assms by (simp_all add: build_context_def Let_def context_unique_length)

lemma build_context_empty: "build_context topics ids [] = empty_context"
  by (simp add: build_context_def empty_context_def Let_def context_unique_def unique_first_def
      last_n_def rx_findall_def) (simp add: context_incident_def known_services_def casefold_def
      rx_find.simps word_at_boundary_def)

end
