(* ===== verification/Memory_Store.thy ===== *)
theory Memory_Store
  imports Conversation_Context
begin

text \<open>
  The process-local memory store (memory/in_memory.py).  The state is the session dictionary in
  insertion order, the keys of the lock dictionary and the expiry counter; every operation takes
  its lock and then runs without suspending, so it is one atomic step.  The clock reading is an
  argument.  The locale \<open>conversation_store\<close> is the protocol of memory/store.py with the laws its
  clients rely on.
\<close>

section \<open>State\<close>

record memory_env =
  me_settings :: retrieval_settings
  me_turn_id :: "uuid \<Rightarrow> uuid \<Rightarrow> uuid"

record session =
  ss_ownership :: session_ownership
  ss_turns :: "conversation_turn list"
  ss_next_sequence :: nat
  ss_expires_at :: instant
  ss_last_accessed :: instant

record memory_store =
  ms_sessions :: "(uuid, session) dict"
  ms_locks :: "uuid list"
  ms_expired_removed :: nat

definition empty_memory_store :: memory_store where
  "empty_memory_store = \<lparr> ms_sessions = [], ms_locks = [], ms_expired_removed = 0 \<rparr>"

definition turn_characters :: "conversation_turn \<Rightarrow> nat" where
  "turn_characters t =
     length (mu_user_message (ct_update t)) + length (mu_assistant_message (ct_update t))"

definition total_references :: "conversation_turn list \<Rightarrow> nat" where
  "total_references ts = sum_list (map (\<lambda>t. length (turn_references t)) ts)"

definition total_characters :: "conversation_turn list \<Rightarrow> nat" where
  "total_characters ts = sum_list (map turn_characters ts)"

definition ttl_micros :: "retrieval_settings \<Rightarrow> int" where
  "ttl_micros s = int (memory_session_ttl_seconds s) * 1000000"

definition lock_for :: "uuid \<Rightarrow> memory_store \<Rightarrow> memory_store" where
  "lock_for sid s =
     (if sid \<in> set (ms_locks s) then s else s\<lparr> ms_locks := ms_locks s @ [sid] \<rparr>)"

definition snapshot_of :: "retrieval_settings \<Rightarrow> session \<Rightarrow> memory_snapshot" where
  "snapshot_of cfg ss =
     (let ts = ss_turns ss in
      \<lparr> sn_session_id = so_session_id (ss_ownership ss),
        sn_turn_count = length ts,
        sn_total_characters = total_characters ts,
        sn_evidence_reference_count = total_references ts,
        sn_turns = ts,
        sn_context = build_context (memory_max_context_topics cfg) (memory_max_context_identifiers cfg) ts,
        sn_expires_at = ss_expires_at ss \<rparr>)"

section \<open>Operations\<close>

definition drop_session :: "uuid \<Rightarrow> memory_store \<Rightarrow> memory_store" where
  "drop_session sid s = s\<lparr> ms_sessions := dict_pop sid (ms_sessions s) \<rparr>"

definition expire_session :: "uuid \<Rightarrow> memory_store \<Rightarrow> memory_store" where
  "expire_session sid s =
     (drop_session sid s)\<lparr> ms_expired_removed := ms_expired_removed s + 1 \<rparr>"

definition memory_load ::
  "memory_env \<Rightarrow> instant \<Rightarrow> session_ownership \<Rightarrow> memory_store \<Rightarrow>
   (memory_error, memory_snapshot option) result \<times> memory_store" where
  "memory_load env now ow s0 =
     (let sid = so_session_id ow; s = lock_for sid s0 in
      case map_of (ms_sessions s) sid of
        None \<Rightarrow> (Return None, s)
      | Some ss \<Rightarrow>
          (if ss_ownership ss \<noteq> ow then (Raise MemoryOwnershipError, s)
           else if ss_expires_at ss \<le> now then (Return None, expire_session sid s)
           else (let ss' = ss\<lparr> ss_last_accessed := now \<rparr> in
             (Return (Some (snapshot_of (me_settings env) ss')),
              s\<lparr> ms_sessions := dict_set sid ss' (ms_sessions s) \<rparr>))))"

definition make_turn ::
  "memory_env \<Rightarrow> memory_update \<Rightarrow> nat \<Rightarrow> (memory_error, conversation_turn) result" where
  "make_turn env u n =
     (let t = \<lparr> ct_turn_id = me_turn_id env (mu_session_id u) (mu_request_id u),
                ct_sequence_number = n, ct_update = u \<rparr> in
      if conversation_turn_ok t then Return t else Raise TurnValidationError)"

definition limits_hold :: "retrieval_settings \<Rightarrow> conversation_turn list \<Rightarrow> bool" where
  "limits_hold cfg ts =
     (length ts \<le> memory_max_turns_per_session cfg \<and>
      total_characters ts \<le> memory_max_total_characters cfg \<and>
      total_references ts \<le> memory_max_evidence_references cfg)"

text \<open>The loop of \<open>_evict_turns\<close>: the remaining turns and how many were dropped.\<close>

fun evict_turns :: "retrieval_settings \<Rightarrow> conversation_turn list \<Rightarrow> conversation_turn list \<times> nat" where
  "evict_turns cfg [] = ([], 0)"
| "evict_turns cfg (t # ts) =
     (if limits_hold cfg (t # ts) then (t # ts, 0)
      else (fst (evict_turns cfg ts), Suc (snd (evict_turns cfg ts))))"

definition expired_keys :: "instant \<Rightarrow> nat \<Rightarrow> memory_store \<Rightarrow> uuid list" where
  "expired_keys now limit s =
     take limit (map fst (filter (\<lambda>kv. ss_expires_at (snd kv) \<le> now) (ms_sessions s)))"

definition make_capacity :: "retrieval_settings \<Rightarrow> instant \<Rightarrow> memory_store \<Rightarrow> memory_store" where
  "make_capacity cfg now s0 =
     (let s = fold expire_session (expired_keys now 100 s0) s0 in
      if memory_max_sessions cfg \<le> length (ms_sessions s) then
        drop_session (fst (arg_min_list (\<lambda>kv. ss_last_accessed (snd kv)) (ms_sessions s))) s
      else s)"

text \<open>\<open>upsert_turn\<close> after the session to write to has been found or created.\<close>

definition write_turn ::
  "memory_env \<Rightarrow> instant \<Rightarrow> session_ownership \<Rightarrow> memory_update \<Rightarrow> session \<Rightarrow> memory_store \<Rightarrow>
   (memory_error, memory_write_result) result \<times> memory_store" where
  "write_turn env now ow u ss s =
     (if ss_ownership ss \<noteq> ow then (Raise MemoryOwnershipError, s)
      else case List.find (\<lambda>t. mu_request_id (ct_update t) = mu_request_id u) (ss_turns ss) of
        Some t \<Rightarrow>
          (case make_turn env u (ct_sequence_number t) of
             Inl e \<Rightarrow> (Raise e, s)
           | Inr candidate \<Rightarrow>
               (if t \<noteq> candidate then (Raise MemoryIntegrityError, s)
                else (Return \<lparr> mw_stored = False, mw_duplicate = True,
                        mw_sequence_number = Some (ct_sequence_number t), mw_evicted_turns = 0 \<rparr>, s)))
      | None \<Rightarrow>
          (case make_turn env u (ss_next_sequence ss) of
             Inl e \<Rightarrow> (Raise e, s)
           | Inr t \<Rightarrow>
               (if memory_max_total_characters (me_settings env) < turn_characters t
                then (Raise MemoryCapacityError, s)
                else (let r = evict_turns (me_settings env) (ss_turns ss @ [t]);
                          ss' = ss\<lparr> ss_turns := fst r, ss_next_sequence := ss_next_sequence ss + 1,
                            ss_last_accessed := now, ss_expires_at := now + ttl_micros (me_settings env) \<rparr>
                      in (Return \<lparr> mw_stored = True, mw_duplicate = False,
                            mw_sequence_number = Some (ct_sequence_number t), mw_evicted_turns = snd r \<rparr>,
                          s\<lparr> ms_sessions := dict_set (so_session_id ow) ss' (ms_sessions s) \<rparr>)))))"

definition new_session :: "retrieval_settings \<Rightarrow> instant \<Rightarrow> session_ownership \<Rightarrow> session" where
  "new_session cfg now ow = \<lparr> ss_ownership = ow, ss_turns = [], ss_next_sequence = 1,
     ss_expires_at = now + ttl_micros cfg, ss_last_accessed = now \<rparr>"

definition discard_expired :: "instant \<Rightarrow> uuid \<Rightarrow> memory_store \<Rightarrow> memory_store" where
  "discard_expired now sid s =
     (case map_of (ms_sessions s) sid of
        None \<Rightarrow> s
      | Some ss \<Rightarrow> if ss_expires_at ss \<le> now then expire_session sid s else s)"

definition upsert_turn ::
  "memory_env \<Rightarrow> instant \<Rightarrow> session_ownership \<Rightarrow> memory_update \<Rightarrow> memory_store \<Rightarrow>
   (memory_error, memory_write_result) result \<times> memory_store" where
  "upsert_turn env now ow u s0 =
     (if mu_session_id u \<noteq> so_session_id ow \<or> mu_user_id u \<noteq> so_user_id ow
      then (Raise MemoryOwnershipError, s0)
      else (let sid = so_session_id ow; s = discard_expired now sid (lock_for sid s0) in
        case map_of (ms_sessions s) sid of
          Some ss \<Rightarrow> write_turn env now ow u ss s
        | None \<Rightarrow>
            (let s1 = make_capacity (me_settings env) now s;
                 ss = new_session (me_settings env) now ow
             in write_turn env now ow u ss (s1\<lparr> ms_sessions := dict_set sid ss (ms_sessions s1) \<rparr>))))"

definition memory_delete ::
  "session_ownership \<Rightarrow> memory_store \<Rightarrow> (memory_error, bool) result \<times> memory_store" where
  "memory_delete ow s0 =
     (let sid = so_session_id ow; s = lock_for sid s0 in
      case map_of (ms_sessions s) sid of
        None \<Rightarrow> (Return False, s)
      | Some ss \<Rightarrow> (if ss_ownership ss \<noteq> ow then (Raise MemoryOwnershipError, s)
                   else (Return True, drop_session sid s)))"

definition cleanup_expired :: "instant \<Rightarrow> nat \<Rightarrow> memory_store \<Rightarrow> nat \<times> memory_store" where
  "cleanup_expired now maximum s =
     (let expired = expired_keys now maximum s in
      (length expired, fold expire_session expired s))"

definition memory_statistics :: "memory_store \<Rightarrow> nat \<times> nat \<times> nat" where
  "memory_statistics s =
     (length (ms_sessions s), sum_list (map (\<lambda>kv. length (ss_turns (snd kv))) (ms_sessions s)),
      ms_expired_removed s)"

record memory_inspection =
  mi_session_id :: uuid
  mi_owner_id :: uuid
  mi_turn_count :: nat
  mi_sequence_numbers :: "nat list"
  mi_character_count :: nat
  mi_evidence_reference_count :: nat

definition memory_inspect ::
  "memory_env \<Rightarrow> instant \<Rightarrow> session_ownership \<Rightarrow> memory_store \<Rightarrow>
   (memory_error, memory_inspection option) result \<times> memory_store" where
  "memory_inspect env now ow s =
     (case memory_load env now ow s of
        (Inl e, s') \<Rightarrow> (Inl e, s')
      | (Inr None, s') \<Rightarrow> (Inr None, s')
      | (Inr (Some sn), s') \<Rightarrow>
          (Inr (Some \<lparr> mi_session_id = so_session_id ow, mi_owner_id = so_user_id ow,
             mi_turn_count = sn_turn_count sn,
             mi_sequence_numbers = map ct_sequence_number (sn_turns sn),
             mi_character_count = sn_total_characters sn,
             mi_evidence_reference_count = sn_evidence_reference_count sn \<rparr>), s'))"

definition memory_owns :: "uuid \<Rightarrow> session_ownership \<Rightarrow> memory_store \<Rightarrow> bool \<times> memory_store" where
  "memory_owns sid ow s0 =
     (let s = lock_for sid s0 in
      (case map_of (ms_sessions s) sid of None \<Rightarrow> True | Some ss \<Rightarrow> ss_ownership ss = ow, s))"


section \<open>Eviction\<close>

lemma limits_hold_Nil [simp]: "limits_hold cfg []"
  by (simp add: limits_hold_def total_characters_def total_references_def)

lemma limits_hold_tl: "limits_hold cfg (t # ts) \<Longrightarrow> limits_hold cfg ts"
  by (simp add: limits_hold_def total_characters_def total_references_def)

lemma evict_turns_drop: "fst (evict_turns cfg ts) = drop (snd (evict_turns cfg ts)) ts"
  by (induction ts) auto

lemma evict_turns_limits [simp]: "limits_hold cfg (fst (evict_turns cfg ts))"
  by (induction ts) auto

lemma evict_turns_count: "snd (evict_turns cfg ts) \<le> length ts"
  by (induction ts) auto

lemma evict_turns_fewest: "k < snd (evict_turns cfg ts) \<Longrightarrow> \<not> limits_hold cfg (drop k ts)"
proof (induction ts arbitrary: k)
  case (Cons t ts)
  then show ?case by (cases k) (auto split: if_splits)
qed simp

lemma evict_turns_id: "limits_hold cfg ts \<Longrightarrow> evict_turns cfg ts = (ts, 0)"
  by (cases ts) auto

lemma evict_turns_last:
  "limits_hold cfg [t] \<Longrightarrow> \<exists>us. fst (evict_turns cfg (ts @ [t])) = us @ [t]"
  by (induction ts) auto

section \<open>Invariant\<close>

definition session_inv :: "retrieval_settings \<Rightarrow> session \<Rightarrow> bool" where
  "session_inv cfg ss =
     (limits_hold cfg (ss_turns ss) \<and> 1 \<le> ss_next_sequence ss \<and>
      sorted_wrt (<) (map ct_sequence_number (ss_turns ss)) \<and>
      distinct (map (\<lambda>t. mu_request_id (ct_update t)) (ss_turns ss)) \<and>
      (\<forall>t \<in> set (ss_turns ss).
         conversation_turn_ok t \<and> ct_sequence_number t < ss_next_sequence ss \<and>
         mu_session_id (ct_update t) = so_session_id (ss_ownership ss) \<and>
         mu_user_id (ct_update t) = so_user_id (ss_ownership ss)))"

definition memory_inv :: "retrieval_settings \<Rightarrow> memory_store \<Rightarrow> bool" where
  "memory_inv cfg s =
     (distinct (dict_keys (ms_sessions s)) \<and> length (ms_sessions s) \<le> memory_max_sessions cfg \<and>
      (\<forall>sid ss. map_of (ms_sessions s) sid = Some ss \<longrightarrow>
         so_session_id (ss_ownership ss) = sid \<and> session_inv cfg ss))"

lemma memory_invI:
  assumes "distinct (dict_keys (ms_sessions s))" "length (ms_sessions s) \<le> memory_max_sessions cfg"
    "\<And>sid ss. map_of (ms_sessions s) sid = Some ss \<Longrightarrow>
       so_session_id (ss_ownership ss) = sid \<and> session_inv cfg ss"
  shows "memory_inv cfg s"
  using assms by (simp add: memory_inv_def)

lemma memory_invD:
  assumes "memory_inv cfg s"
  shows "distinct (dict_keys (ms_sessions s))" "length (ms_sessions s) \<le> memory_max_sessions cfg"
    "map_of (ms_sessions s) sid = Some ss \<Longrightarrow> so_session_id (ss_ownership ss) = sid"
    "map_of (ms_sessions s) sid = Some ss \<Longrightarrow> session_inv cfg ss"
  using assms by (simp_all add: memory_inv_def)

lemma empty_memory_inv: "memory_inv cfg empty_memory_store"
  by (simp add: memory_inv_def empty_memory_store_def)

lemma lock_for_fields [simp]:
  "ms_sessions (lock_for sid s) = ms_sessions s"
  "ms_expired_removed (lock_for sid s) = ms_expired_removed s"
  by (simp_all add: lock_for_def)

lemma memory_inv_lock [simp]: "memory_inv cfg (lock_for sid s) \<longleftrightarrow> memory_inv cfg s"
  by (simp add: memory_inv_def)

lemma drop_session_fields [simp]:
  "ms_sessions (drop_session sid s) = dict_pop sid (ms_sessions s)"
  "ms_sessions (expire_session sid s) = dict_pop sid (ms_sessions s)"
  by (simp_all add: drop_session_def expire_session_def)

lemma memory_inv_pop:
  assumes "memory_inv cfg s" "ms_sessions s' = dict_pop sid (ms_sessions s)"
  shows "memory_inv cfg s'"
proof (rule memory_invI)
  show "distinct (dict_keys (ms_sessions s'))"
    using memory_invD(1) [OF assms(1)] by (simp add: assms(2) dict_distinct_pop)
  show "length (ms_sessions s') \<le> memory_max_sessions cfg"
    using memory_invD(2) [OF assms(1)] dict_length_pop_le [of sid "ms_sessions s"]
    by (simp add: assms(2))
  show "so_session_id (ss_ownership ss) = k \<and> session_inv cfg ss"
    if "map_of (ms_sessions s') k = Some ss" for k ss
    using that memory_invD(3,4) [OF assms(1)] by (auto simp: assms(2) dict_simps split: if_splits)
qed

lemma memory_inv_set:
  assumes "memory_inv cfg s" "ms_sessions s' = dict_set sid ss (ms_sessions s)"
    and "sid \<in> set (dict_keys (ms_sessions s)) \<or> length (ms_sessions s) < memory_max_sessions cfg"
    and "so_session_id (ss_ownership ss) = sid" "session_inv cfg ss"
  shows "memory_inv cfg s'"
proof (rule memory_invI)
  show "distinct (dict_keys (ms_sessions s'))"
    using memory_invD(1) [OF assms(1)] by (simp add: assms(2) dict_distinct_set)
  show "length (ms_sessions s') \<le> memory_max_sessions cfg"
    using assms(3) memory_invD(1,2) [OF assms(1)] by (auto simp: assms(2) dict_length_set)
  show "so_session_id (ss_ownership tt) = k \<and> session_inv cfg tt"
    if "map_of (ms_sessions s') k = Some tt" for k tt
    using that assms(4,5) memory_invD(3,4) [OF assms(1)]
    by (auto simp: assms(2) dict_simps split: if_splits)
qed

lemma memory_inv_expire: "memory_inv cfg s \<Longrightarrow> memory_inv cfg (expire_session sid s)"
  by (erule memory_inv_pop) simp

lemma memory_inv_fold_expire: "memory_inv cfg s \<Longrightarrow> memory_inv cfg (fold expire_session ks s)"
  by (induction ks arbitrary: s) (simp_all add: memory_inv_expire)

lemma memory_inv_discard: "memory_inv cfg s \<Longrightarrow> memory_inv cfg (discard_expired now sid s)"
  by (simp add: discard_expired_def memory_inv_expire split: option.splits)

lemma fold_expire_get:
  "map_of (ms_sessions (fold expire_session ks s)) k =
   (if k \<in> set ks then None else map_of (ms_sessions s) k)"
  by (induction ks arbitrary: s) (auto simp: dict_simps)

lemma arg_min_list_key:
  assumes "ms_sessions s \<noteq> []"
  shows "fst (arg_min_list f (ms_sessions s)) \<in> set (dict_keys (ms_sessions s))"
  using arg_min_list_in [OF assms, of f] by simp

lemma make_capacity_inv:
  assumes "memory_inv cfg s" "0 < memory_max_sessions cfg"
  shows "memory_inv cfg (make_capacity cfg now s)"
    and "length (ms_sessions (make_capacity cfg now s)) < memory_max_sessions cfg"
proof -
  let ?s = "fold expire_session (expired_keys now 100 s) s"
  let ?k = "fst (arg_min_list (\<lambda>kv. ss_last_accessed (snd kv)) (ms_sessions ?s))"
  have inv: "memory_inv cfg ?s" using assms(1) by (rule memory_inv_fold_expire)
  show "memory_inv cfg (make_capacity cfg now s)"
    using inv memory_inv_pop [OF inv, of "drop_session ?k ?s" ?k] by (simp add: make_capacity_def Let_def)
  show "length (ms_sessions (make_capacity cfg now s)) < memory_max_sessions cfg"
  proof (cases "memory_max_sessions cfg \<le> length (ms_sessions ?s)")
    case True
    then have "ms_sessions ?s \<noteq> []" using assms(2) by auto
    from dict_length_pop [OF arg_min_list_key [OF this, of "\<lambda>kv. ss_last_accessed (snd kv)"]]
    show ?thesis
      using True memory_invD(2) [OF inv] by (simp add: make_capacity_def Let_def)
  qed (simp add: make_capacity_def Let_def)
qed

text \<open>Making room never touches a session other than by removing it.\<close>

lemma make_capacity_get:
  "map_of (ms_sessions (make_capacity cfg now s)) k = Some ss \<Longrightarrow> map_of (ms_sessions s) k = Some ss"
  by (auto simp: make_capacity_def Let_def fold_expire_get dict_simps split: if_splits)

lemma new_session_inv: "session_inv cfg (new_session cfg now ow)"
  by (simp add: session_inv_def new_session_def)

lemma make_turn_Inr:
  "make_turn env u n = Inr t \<longleftrightarrow>
   t = \<lparr> ct_turn_id = me_turn_id env (mu_session_id u) (mu_request_id u),
         ct_sequence_number = n, ct_update = u \<rparr> \<and> conversation_turn_ok t"
  by (auto simp: make_turn_def Let_def)

lemma session_inv_append:
  assumes inv: "session_inv cfg ss"
    and t: "conversation_turn_ok t" "ct_sequence_number t = ss_next_sequence ss"
      "mu_session_id (ct_update t) = so_session_id (ss_ownership ss)"
      "mu_user_id (ct_update t) = so_user_id (ss_ownership ss)"
      "\<forall>t' \<in> set (ss_turns ss). mu_request_id (ct_update t') \<noteq> mu_request_id (ct_update t)"
    and ss': "ss_ownership ss' = ss_ownership ss" "ss_next_sequence ss' = ss_next_sequence ss + 1"
      "ss_turns ss' = fst (evict_turns cfg (ss_turns ss @ [t]))"
  shows "session_inv cfg ss'"
proof -
  let ?ts = "ss_turns ss @ [t]" and ?n = "snd (evict_turns cfg (ss_turns ss @ [t]))"
  have d: "ss_turns ss' = drop ?n ?ts" by (simp add: ss' evict_turns_drop)
  have sorted: "sorted_wrt (<) (map ct_sequence_number ?ts)"
    using inv t(2) by (auto simp: session_inv_def sorted_wrt_append)
  have dist: "distinct (map (\<lambda>t. mu_request_id (ct_update t)) ?ts)"
    using inv t(5) by (auto simp: session_inv_def)
  have all: "\<forall>t' \<in> set ?ts. conversation_turn_ok t' \<and> ct_sequence_number t' < ss_next_sequence ss' \<and>
      mu_session_id (ct_update t') = so_session_id (ss_ownership ss') \<and>
      mu_user_id (ct_update t') = so_user_id (ss_ownership ss')"
    using inv t ss' by (auto simp: session_inv_def)
  have "limits_hold cfg (ss_turns ss')" by (simp add: ss')
  moreover have "sorted_wrt (<) (map ct_sequence_number (ss_turns ss'))"
    unfolding d drop_map [symmetric] using sorted by (rule sorted_wrt_drop)
  moreover have "distinct (map (\<lambda>t. mu_request_id (ct_update t)) (ss_turns ss'))"
    unfolding d drop_map [symmetric] using dist by (rule distinct_drop)
  moreover have "set (ss_turns ss') \<subseteq> set ?ts" unfolding d by (rule set_drop_subset)
  ultimately show ?thesis using all ss'(2) by (auto simp: session_inv_def)
qed


section \<open>Every operation keeps the invariant\<close>

lemma memory_load_inv:
  assumes "memory_inv cfg s" "cfg = me_settings env"
  shows "memory_inv cfg (snd (memory_load env now ow s))"
proof (cases "map_of (ms_sessions s) (so_session_id ow)")
  case (Some ss)
  have t: "memory_inv cfg (lock_for (so_session_id ow) s\<lparr> ms_sessions :=
      dict_set (so_session_id ow) (ss\<lparr> ss_last_accessed := now \<rparr>) (ms_sessions s) \<rparr>)"
    using memory_invD(3,4) [OF assms(1) Some] map_of_SomeD [OF Some]
    by (intro memory_inv_set [OF assms(1), where sid = "so_session_id ow"
          and ss = "ss\<lparr> ss_last_accessed := now \<rparr>"])
       (force simp: session_inv_def)+
  show ?thesis
    using assms(1) Some t by (simp add: memory_load_def Let_def memory_inv_expire)
qed (use assms(1) in \<open>simp add: memory_load_def Let_def\<close>)

lemma write_turn_inv:
  assumes inv: "memory_inv (me_settings env) s"
    and ss: "map_of (ms_sessions s) (so_session_id ow) = Some ss"
    and u: "mu_session_id u = so_session_id ow" "mu_user_id u = so_user_id ow"
  shows "memory_inv (me_settings env) (snd (write_turn env now ow u ss s))"
proof (cases "ss_ownership ss = ow \<and>
    List.find (\<lambda>t. mu_request_id (ct_update t) = mu_request_id u) (ss_turns ss) = None")
  case True
  then have own: "ss_ownership ss = ow"
    and new: "\<forall>t' \<in> set (ss_turns ss). mu_request_id (ct_update t') \<noteq> mu_request_id u"
    by (simp_all add: find_None_all)
  have key: "so_session_id ow \<in> set (dict_keys (ms_sessions s))"
    using map_of_SomeD [OF ss] by force
  have "memory_inv (me_settings env) (s\<lparr> ms_sessions := dict_set (so_session_id ow)
      (ss\<lparr> ss_turns := fst (evict_turns (me_settings env) (ss_turns ss @ [t])),
          ss_next_sequence := ss_next_sequence ss + 1, ss_last_accessed := now,
          ss_expires_at := now + ttl_micros (me_settings env) \<rparr>) (ms_sessions s) \<rparr>)"
    if "make_turn env u (ss_next_sequence ss) = Inr t" for t
  proof (rule memory_inv_set [OF inv])
    from that have t: "conversation_turn_ok t" "ct_sequence_number t = ss_next_sequence ss"
      "ct_update t = u"
      by (auto simp: make_turn_Inr)
    show "session_inv (me_settings env)
      (ss\<lparr> ss_turns := fst (evict_turns (me_settings env) (ss_turns ss @ [t])),
          ss_next_sequence := ss_next_sequence ss + 1, ss_last_accessed := now,
          ss_expires_at := now + ttl_micros (me_settings env) \<rparr>)"
      by (rule session_inv_append [OF memory_invD(4) [OF inv ss], of t])
         (use t u own new in simp_all)
  qed (use key own in simp_all)
  then show ?thesis
    using True inv by (auto simp: write_turn_def Let_def split: sum.splits)
next
  case False
  then show ?thesis
    using inv by (auto simp: write_turn_def split: option.splits sum.splits)
qed

lemma upsert_turn_inv:
  assumes inv: "memory_inv (me_settings env) s" and pos: "0 < memory_max_sessions (me_settings env)"
  shows "memory_inv (me_settings env) (snd (upsert_turn env now ow u s))"
proof (cases "mu_session_id u = so_session_id ow \<and> mu_user_id u = so_user_id ow")
  case True
  let ?s = "discard_expired now (so_session_id ow) (lock_for (so_session_id ow) s)"
  have i: "memory_inv (me_settings env) ?s" using inv by (simp add: memory_inv_discard)
  show ?thesis
  proof (cases "map_of (ms_sessions ?s) (so_session_id ow)")
    case None
    let ?m = "make_capacity (me_settings env) now ?s"
    let ?n = "new_session (me_settings env) now ow"
    have "memory_inv (me_settings env)
        (?m\<lparr> ms_sessions := dict_set (so_session_id ow) ?n (ms_sessions ?m) \<rparr>)"
      by (rule memory_inv_set [OF make_capacity_inv(1) [OF i pos, where now = now],
            where sid = "so_session_id ow" and ss = ?n])
         (use make_capacity_inv(2) [OF i pos] new_session_inv in \<open>simp_all add: new_session_def\<close>)
    then have "memory_inv (me_settings env) (snd (write_turn env now ow u ?n
        (?m\<lparr> ms_sessions := dict_set (so_session_id ow) ?n (ms_sessions ?m) \<rparr>)))"
      by (rule write_turn_inv) (use True in \<open>simp_all add: dict_simps\<close>)
    then show ?thesis using True None by (simp add: upsert_turn_def Let_def)
  next
    case (Some ss)
    then show ?thesis
      using True write_turn_inv [OF i Some] by (simp add: upsert_turn_def Let_def)
  qed
qed (use inv in \<open>auto simp: upsert_turn_def\<close>)

lemma memory_delete_inv: "memory_inv cfg s \<Longrightarrow> memory_inv cfg (snd (memory_delete ow s))"
  using memory_inv_pop [of cfg "lock_for (so_session_id ow) s" _ "so_session_id ow"]
  by (auto simp: memory_delete_def Let_def split: option.splits)

lemma cleanup_expired_inv: "memory_inv cfg s \<Longrightarrow> memory_inv cfg (snd (cleanup_expired now n s))"
  by (simp add: cleanup_expired_def Let_def memory_inv_fold_expire)

section \<open>Ownership\<close>

text \<open>The owner of the session that is live at a time.\<close>

definition live_owner :: "memory_store \<Rightarrow> instant \<Rightarrow> uuid \<Rightarrow> session_ownership option" where
  "live_owner s now sid =
     (case map_of (ms_sessions s) sid of
        None \<Rightarrow> None
      | Some ss \<Rightarrow> if ss_expires_at ss \<le> now then None else Some (ss_ownership ss))"

lemma live_owner_Some:
  "live_owner s now sid = Some ow \<longleftrightarrow>
   (\<exists>ss. map_of (ms_sessions s) sid = Some ss \<and> now < ss_expires_at ss \<and> ss_ownership ss = ow)"
  by (auto simp: live_owner_def split: option.splits)

lemma memory_load_foreign:
  assumes "live_owner s now (so_session_id ow) = Some own" "own \<noteq> ow"
  shows "fst (memory_load env now ow s) = Inl MemoryOwnershipError"
    and "ms_sessions (snd (memory_load env now ow s)) = ms_sessions s"
  using assms by (auto simp: live_owner_Some memory_load_def Let_def)

lemma upsert_turn_foreign:
  assumes "live_owner s now (so_session_id ow) = Some own" "own \<noteq> ow"
  shows "fst (upsert_turn env now ow u s) = Inl MemoryOwnershipError"
    and "ms_sessions (snd (upsert_turn env now ow u s)) = ms_sessions s"
  using assms
  by (auto simp: live_owner_Some upsert_turn_def Let_def discard_expired_def write_turn_def)

lemma memory_load_own:
  assumes "fst (memory_load env now ow s) = Inr (Some sn)"
  shows "live_owner s now (so_session_id ow) = Some ow"
    and "\<exists>ss. map_of (ms_sessions s) (so_session_id ow) = Some ss \<and> sn_turns sn = ss_turns ss"
  using assms
  by (auto simp: memory_load_def Let_def live_owner_Some snapshot_of_def split: option.splits if_splits)

text \<open>Loading a session never changes another one; nor does writing to it, except by evicting it.\<close>

lemma memory_load_frame:
  "k \<noteq> so_session_id ow \<Longrightarrow>
   map_of (ms_sessions (snd (memory_load env now ow s))) k = map_of (ms_sessions s) k"
  by (auto simp: memory_load_def Let_def dict_simps split: option.splits)

lemma discard_expired_get:
  "map_of (ms_sessions (discard_expired now sid s)) k = Some ss \<Longrightarrow> map_of (ms_sessions s) k = Some ss"
  by (auto simp: discard_expired_def dict_simps split: option.splits if_splits)

lemma write_turn_frame:
  "k \<noteq> so_session_id ow \<Longrightarrow>
   map_of (ms_sessions (snd (write_turn env now ow u ss s))) k = map_of (ms_sessions s) k"
  by (auto simp: write_turn_def Let_def dict_simps split: option.splits sum.splits)

lemma upsert_turn_frame:
  assumes "k \<noteq> so_session_id ow"
    and "map_of (ms_sessions (snd (upsert_turn env now ow u s))) k = Some ss"
  shows "map_of (ms_sessions s) k = Some ss"
  using assms
  by (auto simp: upsert_turn_def Let_def write_turn_frame dict_simps split: if_splits option.splits
      dest!: make_capacity_get discard_expired_get)


section \<open>What a write leaves behind\<close>

lemma write_turn_stored:
  assumes w: "fst (write_turn env now ow u ss s) = Inr w" and st: "mw_stored w"
    and refs: "length (mu_evidence_references u) \<le> memory_max_evidence_references (me_settings env)"
    and turns: "1 \<le> memory_max_turns_per_session (me_settings env)"
  obtains us t ss' where
    "map_of (ms_sessions (snd (write_turn env now ow u ss s))) (so_session_id ow) = Some ss'"
    "ss_turns ss' = us @ [t]" "ct_update t = u" "ss_ownership ss' = ow"
    "ss_expires_at ss' = now + ttl_micros (me_settings env)"
    "make_turn env u (ct_sequence_number t) = Inr t"
    "mw_sequence_number w = Some (ct_sequence_number t)"
proof -
  let ?cfg = "me_settings env"
  have own: "ss_ownership ss = ow" using w by (auto simp: write_turn_def split: if_splits)
  have new: "List.find (\<lambda>t. mu_request_id (ct_update t) = mu_request_id u) (ss_turns ss) = None"
    using w st own by (auto simp: write_turn_def split: option.splits sum.splits if_splits)
  obtain t where t: "make_turn env u (ss_next_sequence ss) = Inr t"
    using w own new by (cases "make_turn env u (ss_next_sequence ss)") (auto simp: write_turn_def)
  have fits: "\<not> memory_max_total_characters ?cfg < turn_characters t"
    using w own new t by (auto simp: write_turn_def)
  have tt: "ct_update t = u" "ct_sequence_number t = ss_next_sequence ss"
    using t by (auto simp: make_turn_Inr)
  have "limits_hold ?cfg [t]"
    using fits refs turns tt by (simp add: limits_hold_def total_characters_def total_references_def)
  then obtain us where us: "fst (evict_turns ?cfg (ss_turns ss @ [t])) = us @ [t]"
    using evict_turns_last by blast
  let ?ss = "ss\<lparr> ss_turns := us @ [t], ss_next_sequence := ss_next_sequence ss + 1,
      ss_last_accessed := now, ss_expires_at := now + ttl_micros ?cfg \<rparr>"
  show ?thesis
    by (rule that [of ?ss us t])
       (use w own new t fits tt us in \<open>auto simp: write_turn_def Let_def dict_simps\<close>)
qed

lemma upsert_turn_stored:
  assumes w: "fst (upsert_turn env now ow u s) = Inr w" and st: "mw_stored w"
    and refs: "length (mu_evidence_references u) \<le> memory_max_evidence_references (me_settings env)"
    and turns: "1 \<le> memory_max_turns_per_session (me_settings env)"
  obtains us t ss' where
    "map_of (ms_sessions (snd (upsert_turn env now ow u s))) (so_session_id ow) = Some ss'"
    "ss_turns ss' = us @ [t]" "ct_update t = u" "ss_ownership ss' = ow"
    "ss_expires_at ss' = now + ttl_micros (me_settings env)"
    "make_turn env u (ct_sequence_number t) = Inr t"
    "mw_sequence_number w = Some (ct_sequence_number t)"
proof -
  have "\<exists>ss s'. upsert_turn env now ow u s = write_turn env now ow u ss s'"
    using w by (auto simp: upsert_turn_def Let_def split: if_splits option.splits)
  then obtain ss s' where e: "upsert_turn env now ow u s = write_turn env now ow u ss s'"
    by blast
  show ?thesis
    using write_turn_stored [OF w [unfolded e] st refs turns] that unfolding e by blast
qed

text \<open>Repeating a stored write before it expires is reported as a duplicate and changes nothing.\<close>

lemma upsert_turn_repeat:
  assumes inv: "memory_inv (me_settings env) s" and cap: "0 < memory_max_sessions (me_settings env)"
    and w: "fst (upsert_turn env now ow u s) = Inr w" and st: "mw_stored w"
    and refs: "length (mu_evidence_references u) \<le> memory_max_evidence_references (me_settings env)"
    and turns: "1 \<le> memory_max_turns_per_session (me_settings env)"
    and live: "now' < now + ttl_micros (me_settings env)"
  defines "s' \<equiv> snd (upsert_turn env now ow u s)"
  shows "fst (upsert_turn env now' ow u s') = Inr \<lparr> mw_stored = False, mw_duplicate = True,
      mw_sequence_number = mw_sequence_number w, mw_evicted_turns = 0 \<rparr>"
    and "ms_sessions (snd (upsert_turn env now' ow u s')) = ms_sessions s'"
proof -
  from upsert_turn_stored [OF w st refs turns] obtain us t ss where
    ss: "map_of (ms_sessions s') (so_session_id ow) = Some ss" "ss_turns ss = us @ [t]"
      "ct_update t = u" "ss_ownership ss = ow" "ss_expires_at ss = now + ttl_micros (me_settings env)"
      "make_turn env u (ct_sequence_number t) = Inr t"
      "mw_sequence_number w = Some (ct_sequence_number t)"
    unfolding s'_def by metis
  have ids: "mu_session_id u = so_session_id ow" "mu_user_id u = so_user_id ow"
    using w by (auto simp: upsert_turn_def split: if_splits)
  have "memory_inv (me_settings env) s'" unfolding s'_def using inv cap by (rule upsert_turn_inv)
  from memory_invD(4) [OF this ss(1)]
  have "distinct (map (\<lambda>t. mu_request_id (ct_update t)) (us @ [t]))"
    by (simp add: session_inv_def ss(2))
  then have "List.find (\<lambda>t. mu_request_id (ct_update t) = mu_request_id u) us = None"
    by (force simp: find_None_all ss(3))
  then have f: "List.find (\<lambda>t. mu_request_id (ct_update t) = mu_request_id u) (ss_turns ss) = Some t"
    unfolding ss(2) by (induction us) (auto simp: ss(3) split: if_splits)
  have d: "discard_expired now' (so_session_id ow) (lock_for (so_session_id ow) s')
      = lock_for (so_session_id ow) s'"
    using ss(1,5) live by (simp add: discard_expired_def)
  show "fst (upsert_turn env now' ow u s') = Inr \<lparr> mw_stored = False, mw_duplicate = True,
      mw_sequence_number = mw_sequence_number w, mw_evicted_turns = 0 \<rparr>"
    and "ms_sessions (snd (upsert_turn env now' ow u s')) = ms_sessions s'"
    using ids ss f d by (simp_all add: upsert_turn_def Let_def write_turn_def)
qed

section \<open>Runs of interleaved operations\<close>

inductive store_step :: "memory_env \<Rightarrow> memory_store \<Rightarrow> memory_store \<Rightarrow> bool" for env where
  step_load: "store_step env s (snd (memory_load env now ow s))"
| step_upsert: "store_step env s (snd (upsert_turn env now ow u s))"
| step_delete: "store_step env s (snd (memory_delete ow s))"
| step_cleanup: "store_step env s (snd (cleanup_expired now n s))"
| step_owns: "store_step env s (snd (memory_owns sid ow s))"

inductive_cases store_step_cases: "store_step env s s'"

inductive store_reachable :: "memory_env \<Rightarrow> memory_store \<Rightarrow> bool" for env where
  reach_empty: "store_reachable env empty_memory_store"
| reach_step: "store_reachable env s \<Longrightarrow> store_step env s s' \<Longrightarrow> store_reachable env s'"

lemma store_step_inv:
  assumes "store_step env s s'" "memory_inv (me_settings env) s"
    "0 < memory_max_sessions (me_settings env)"
  shows "memory_inv (me_settings env) s'"
  using assms
  by (auto elim!: store_step_cases simp: memory_owns_def Let_def
      intro: memory_load_inv upsert_turn_inv memory_delete_inv cleanup_expired_inv)

lemma store_reachable_inv:
  assumes "store_reachable env s" "0 < memory_max_sessions (me_settings env)"
  shows "memory_inv (me_settings env) s"
  using assms by (induction rule: store_reachable.induct) (auto intro: store_step_inv empty_memory_inv)


section \<open>The store protocol\<close>

text \<open>
  The protocol \<open>ConversationMemoryStore\<close>, for the two operations the service calls.  \<open>owner\<close> is the
  ownership a live session is bound to.  The laws: both operations keep the invariant and touch
  only their own session's owner, a foreign ownership is refused by both, and what an operation
  hands out or accepts belongs to the caller.
\<close>

locale conversation_store =
  fixes ok :: "'s \<Rightarrow> bool"
    and owner :: "'s \<Rightarrow> instant \<Rightarrow> uuid \<Rightarrow> session_ownership option"
    and load :: "instant \<Rightarrow> session_ownership \<Rightarrow> 's \<Rightarrow> (memory_error, memory_snapshot option) result \<times> 's"
    and upsert :: "instant \<Rightarrow> session_ownership \<Rightarrow> memory_update \<Rightarrow> 's \<Rightarrow>
       (memory_error, memory_write_result) result \<times> 's"
  assumes load_ok: "ok s \<Longrightarrow> ok (snd (load now ow s))"
    and upsert_ok: "ok s \<Longrightarrow> ok (snd (upsert now ow u s))"
    and load_foreign: "owner s now (so_session_id ow) = Some own \<Longrightarrow> own \<noteq> ow \<Longrightarrow>
      fst (load now ow s) = Inl MemoryOwnershipError"
    and upsert_foreign: "owner s now (so_session_id ow) = Some own \<Longrightarrow> own \<noteq> ow \<Longrightarrow>
      fst (upsert now ow u s) = Inl MemoryOwnershipError"
    and load_own: "fst (load now ow s) = Inr (Some sn) \<Longrightarrow> owner s now (so_session_id ow) = Some ow"
    and load_turns: "ok s \<Longrightarrow> fst (load now ow s) = Inr (Some sn) \<Longrightarrow> t \<in> set (sn_turns sn) \<Longrightarrow>
      mu_session_id (ct_update t) = so_session_id ow \<and> mu_user_id (ct_update t) = so_user_id ow"
    and upsert_owner: "fst (upsert now ow u s) = Inr w \<Longrightarrow>
      owner (snd (upsert now ow u s)) now (so_session_id ow) = Some ow"
begin

lemma written_session_is_private:
  assumes "fst (upsert now ow u s) = Inr w" "so_session_id ow' = so_session_id ow" "ow' \<noteq> ow"
  shows "fst (load now ow' (snd (upsert now ow u s))) = Inl MemoryOwnershipError"
    and "fst (upsert now ow' u' (snd (upsert now ow u s))) = Inl MemoryOwnershipError"
  using assms upsert_owner [OF assms(1)] by (auto intro: load_foreign upsert_foreign)

lemma loaded_turns_are_own:
  assumes "ok s" "fst (load now ow s) = Inr (Some sn)" "t \<in> set (sn_turns sn)"
  shows "mu_user_id (ct_update t) = so_user_id ow"
  using load_turns [OF assms] by simp

end

lemma memory_load_turns:
  assumes "memory_inv (me_settings env) s" "fst (memory_load env now ow s) = Inr (Some sn)"
    "t \<in> set (sn_turns sn)"
  shows "mu_session_id (ct_update t) = so_session_id ow \<and> mu_user_id (ct_update t) = so_user_id ow"
proof -
  from memory_load_own [OF assms(2)] obtain ss where ss:
    "map_of (ms_sessions s) (so_session_id ow) = Some ss" "sn_turns sn = ss_turns ss"
    "ss_ownership ss = ow"
    by (auto simp: live_owner_Some)
  show ?thesis
    using memory_invD(4) [OF assms(1) ss(1)] assms(3) ss(2,3) by (simp add: session_inv_def)
qed

lemma upsert_turn_owner:
  assumes w: "fst (upsert_turn env now ow u s) = Inr w"
    and ttl: "0 < memory_session_ttl_seconds (me_settings env)"
  shows "live_owner (snd (upsert_turn env now ow u s)) now (so_session_id ow) = Some ow"
proof -
  have pos: "now < now + ttl_micros (me_settings env)" using ttl by (simp add: ttl_micros_def)
  have wrote: "live_owner (snd (write_turn env now ow u ss s')) now (so_session_id ow) = Some ow"
    if "fst (write_turn env now ow u ss s') = Inr w" "now < ss_expires_at ss"
      "map_of (ms_sessions s') (so_session_id ow) = Some ss" for ss s'
    using that pos
    by (auto simp: write_turn_def live_owner_Some Let_def dict_simps
        split: if_splits option.splits sum.splits)
  let ?s = "discard_expired now (so_session_id ow) (lock_for (so_session_id ow) s)"
  have live: "now < ss_expires_at ss" if "map_of (ms_sessions ?s) (so_session_id ow) = Some ss" for ss
    using that by (auto simp: discard_expired_def dict_simps split: option.splits if_splits)
  show ?thesis
  proof (cases "map_of (ms_sessions ?s) (so_session_id ow)")
    case None
    then show ?thesis
      using w pos by (auto simp: upsert_turn_def Let_def split: if_splits
          intro!: wrote simp: dict_simps new_session_def)
  next
    case (Some ss)
    then show ?thesis
      using w live [OF Some] by (auto simp: upsert_turn_def Let_def split: if_splits intro!: wrote)
  qed
qed

text \<open>The in-memory store of any valid settings is a conversation store; the settings are those
  of the defaults here and of an arbitrary environment in \<open>in_memory_store_laws\<close>.\<close>

definition default_memory_env :: memory_env where
  "default_memory_env = \<lparr> me_settings = default_settings, me_turn_id = (\<lambda>a b. a + b) \<rparr>"

lemma in_memory_store_laws:
  assumes "memory_fields_ok (me_settings env)"
  shows "conversation_store (memory_inv (me_settings env)) live_owner
    (memory_load env) (upsert_turn env)"
proof
  have pos: "0 < memory_max_sessions (me_settings env)"
    "0 < memory_session_ttl_seconds (me_settings env)"
    using assms by (simp_all add: memory_fields_ok_def)
  show "memory_inv (me_settings env) (snd (upsert_turn env now ow u s))"
    if "memory_inv (me_settings env) s" for s now ow u
    using that pos(1) by (rule upsert_turn_inv)
  show "live_owner (snd (upsert_turn env now ow u s)) now (so_session_id ow) = Some ow"
    if "fst (upsert_turn env now ow u s) = Inr w" for now ow u s w
    using that pos(2) by (rule upsert_turn_owner)
  show "mu_session_id (ct_update t) = so_session_id ow \<and> mu_user_id (ct_update t) = so_user_id ow"
    if "memory_inv (me_settings env) s" "fst (memory_load env now ow s) = Inr (Some sn)"
      "t \<in> set (sn_turns sn)" for s now ow sn t
    using that by (rule memory_load_turns)
qed (blast intro: memory_load_inv memory_load_foreign upsert_turn_foreign memory_load_own)+

interpretation mem: conversation_store "memory_inv default_settings" live_owner
  "memory_load default_memory_env" "upsert_turn default_memory_env"
proof -
  have "me_settings default_memory_env = default_settings" by (simp add: default_memory_env_def)
  then show "conversation_store (memory_inv default_settings) live_owner
      (memory_load default_memory_env) (upsert_turn default_memory_env)"
    using in_memory_store_laws [of default_memory_env] default_settings_ok
    by (simp add: settings_ok_def)
qed

end
