(* ===== verification/Memory_Service.thy ===== *)
theory Memory_Service
  imports Memory_Store
begin

text \<open>
  The graph-facing memory service (memory/service.py) over an injected store: loading, the
  selection of evidence references, and the update with its redaction, truncation and skipping.
  The store's operations are arguments, as the constructor's \<open>store\<close> is.
\<close>

definition service_load ::
  "retrieval_settings \<Rightarrow> (string \<Rightarrow> string) \<Rightarrow>
   (session_ownership \<Rightarrow> 's \<Rightarrow> (memory_error, memory_snapshot option) result \<times> 's) \<Rightarrow>
   uuid \<Rightarrow> authenticated_principal \<Rightarrow> 's \<Rightarrow> (memory_error, memory_load_result) result \<times> 's" where
  "service_load cfg sha256 load sid p s =
     (if \<not> memory_enabled cfg
      then (Return \<lparr> ml_enabled = False, ml_found = False, ml_snapshot = None \<rparr>, s)
      else (case load (ownership_for sha256 sid p) s of
        (Inl e, s') \<Rightarrow> (Inl e, s')
      | (Inr sn, s') \<Rightarrow> (Inr \<lparr> ml_enabled = True, ml_found = (sn \<noteq> None), ml_snapshot = sn \<rparr>, s')))"

definition reference_of :: "hybrid_evidence \<Rightarrow> evidence_reference" where
  "reference_of item =
     (let source = he_evidence item in
      \<lparr> er_evidence_id = de_evidence_id source, er_chunk_id = de_chunk_id source,
        er_document_id = de_document_id source, er_title = de_title source,
        er_source_file = de_source_file source, er_section_path = de_section_path source,
        er_document_type = de_document_type source, er_department = de_department source,
        er_access_level = de_access_level source, er_version = de_version source,
        er_updated_date = de_updated_date source, er_final_rank = he_final_rank item \<rparr>)"

text \<open>The loop of \<open>evidence_references\<close>; building a reference may fail its field checks.\<close>

fun reference_loop ::
  "authenticated_principal \<Rightarrow> uuid list \<Rightarrow> hybrid_evidence list \<Rightarrow>
   (memory_error, evidence_reference list) result" where
  "reference_loop p seen [] = Return []"
| "reference_loop p seen (item # rest) =
     (let source = he_evidence item in
      if de_chunk_id source \<in> set seen \<or> principal_role p \<notin> de_allowed_roles source \<or>
         de_access_level source \<notin> allowed_access_levels p
      then reference_loop p seen rest
      else if \<not> evidence_reference_ok (reference_of item) then Raise TurnValidationError
      else bind_result (reference_loop p (de_chunk_id source # seen) rest)
             (\<lambda>rs. Return (reference_of item # rs)))"

definition evidence_references ::
  "retrieval_settings \<Rightarrow> hybrid_evidence list \<Rightarrow> authenticated_principal \<Rightarrow>
   (memory_error, evidence_reference list) result" where
  "evidence_references cfg items p =
     bind_result (reference_loop p [] items)
       (\<lambda>rs. Return (take (memory_max_evidence_references cfg) rs))"

record update_request =
  ur_request_id :: uuid
  ur_session_id :: uuid
  ur_user_message :: string
  ur_assistant_message :: string
  ur_intent :: intent
  ur_selected_route :: route
  ur_completion_status :: processing_status
  ur_evidence :: "hybrid_evidence list"
  ur_warnings :: "string list"
  ur_created_at :: instant

definition skipped_write :: memory_write_result where
  "skipped_write = \<lparr> mw_stored = False, mw_duplicate = False, mw_sequence_number = None,
     mw_evicted_turns = 0 \<rparr>"

definition memory_update_of ::
  "retrieval_settings \<Rightarrow> authenticated_principal \<Rightarrow> update_request \<Rightarrow> evidence_reference list \<Rightarrow>
   memory_update" where
  "memory_update_of cfg p r refs =
     (let clean = sanitize_text (memory_redact_sensitive_patterns cfg) in
      \<lparr> mu_request_id = ur_request_id r, mu_session_id = ur_session_id r,
        mu_user_id = ui_user_id (pr_identity p),
        mu_user_message =
          take (memory_max_user_message_characters cfg) (clean (ur_user_message r)),
        mu_assistant_message =
          take (memory_max_assistant_message_characters cfg) (clean (ur_assistant_message r)),
        mu_intent = ur_intent r, mu_selected_route = ur_selected_route r,
        mu_completion_status = ur_completion_status r, mu_evidence_references = refs,
        mu_warnings = take (graph_max_warnings cfg) (unique_first (ur_warnings r)),
        mu_created_at = ur_created_at r \<rparr>)"

definition service_update ::
  "retrieval_settings \<Rightarrow> (string \<Rightarrow> string) \<Rightarrow>
   (session_ownership \<Rightarrow> memory_update \<Rightarrow> 's \<Rightarrow> (memory_error, memory_write_result) result \<times> 's) \<Rightarrow>
   authenticated_principal \<Rightarrow> update_request \<Rightarrow> 's \<Rightarrow> (memory_error, memory_write_result) result \<times> 's"
where
  "service_update cfg sha256 upsert p r s =
     (if \<not> memory_enabled cfg \<or> ur_completion_status r = PS_failed then (Return skipped_write, s)
      else case (if ur_completion_status r = PS_denied then Return []
                 else evidence_references cfg (ur_evidence r) p) of
        Inl e \<Rightarrow> (Inl e, s)
      | Inr refs \<Rightarrow> upsert (ownership_for sha256 (ur_session_id r) p) (memory_update_of cfg p r refs) s)"

section \<open>References point only at what the principal may read\<close>

lemma reference_loop_ok:
  assumes "reference_loop p seen items = Inr rs"
  shows "distinct (map er_chunk_id rs) \<and> set (map er_chunk_id rs) \<inter> set seen = {} \<and>
    (\<forall>r \<in> set rs. evidence_reference_ok r \<and> er_access_level r \<in> allowed_access_levels p) \<and>
    set rs \<subseteq> reference_of ` {h \<in> set items. evidence_authorized p (he_evidence h)}"
  using assms
proof (induction p seen items arbitrary: rs rule: reference_loop.induct)
  case (2 p seen item rest)
  let ?src = "he_evidence item"
  show ?case
  proof (cases "de_chunk_id ?src \<in> set seen \<or> principal_role p \<notin> de_allowed_roles ?src \<or>
      de_access_level ?src \<notin> allowed_access_levels p")
    case True
    then have "reference_loop p seen rest = Inr rs" using 2(3) by (simp add: Let_def)
    note IH = "2.IH"(1) [OF refl True this]
    have "{h \<in> set rest. evidence_authorized p (he_evidence h)} \<subseteq>
        {h \<in> set (item # rest). evidence_authorized p (he_evidence h)}" by auto
    with IH show ?thesis by (meson image_mono subset_trans)
  next
    case False
    then have ok: "evidence_reference_ok (reference_of item)"
      using 2(3) by (auto simp: Let_def split: if_splits)
    then obtain rs' where rs: "reference_loop p (de_chunk_id ?src # seen) rest = Inr rs'"
      "rs = reference_of item # rs'"
      using 2(3) False by (auto simp: Let_def)
    have chunk: "er_chunk_id (reference_of item) = de_chunk_id ?src"
      and level: "er_access_level (reference_of item) = de_access_level ?src"
      by (simp_all add: reference_of_def Let_def)
    have auth: "evidence_authorized p ?src" using False by (simp add: evidence_authorized_def)
    have IH: "distinct (map er_chunk_id rs')" "set (map er_chunk_id rs') \<inter> set (de_chunk_id ?src # seen) = {}"
      "\<forall>r \<in> set rs'. evidence_reference_ok r \<and> er_access_level r \<in> allowed_access_levels p"
      "set rs' \<subseteq> reference_of ` {h \<in> set rest. evidence_authorized p (he_evidence h)}"
      using "2.IH"(2) [OF refl False _ rs(1)] ok by blast+
    have "set rs \<subseteq> reference_of ` {h \<in> set (item # rest). evidence_authorized p (he_evidence h)}"
      using IH(4) auth unfolding rs(2) by (auto simp: image_iff)
    moreover have "distinct (map er_chunk_id rs)" using IH(1,2) by (auto simp: rs(2) chunk)
    moreover have "set (map er_chunk_id rs) \<inter> set seen = {}"
      using IH(2) False by (auto simp: rs(2) chunk)
    moreover have "\<forall>r \<in> set rs. evidence_reference_ok r \<and> er_access_level r \<in> allowed_access_levels p"
      using IH(3) ok False by (simp add: rs(2) level)
    ultimately show ?thesis by blast
  qed
qed simp

lemma evidence_references_ok:
  assumes "evidence_references cfg items p = Inr rs"
  shows "length rs \<le> memory_max_evidence_references cfg" "distinct (map er_chunk_id rs)"
    "r \<in> set rs \<Longrightarrow> er_access_level r \<in> allowed_access_levels p"
    "set rs \<subseteq> reference_of ` {h \<in> set items. evidence_authorized p (he_evidence h)}"
proof -
  obtain qs where qs: "reference_loop p [] items = Inr qs"
    "rs = take (memory_max_evidence_references cfg) qs"
    using assms by (auto simp: evidence_references_def)
  note * = reference_loop_ok [OF qs(1)]
  show "length rs \<le> memory_max_evidence_references cfg" by (simp add: qs(2))
  show "distinct (map er_chunk_id rs)" using * by (simp add: qs(2) take_map [symmetric])
  show "r \<in> set rs \<Longrightarrow> er_access_level r \<in> allowed_access_levels p"
    using * in_set_takeD unfolding qs(2) by fast
  show "set rs \<subseteq> reference_of ` {h \<in> set items. evidence_authorized p (he_evidence h)}"
    using * set_take_subset [of _ qs] unfolding qs(2) by (meson subset_trans)
qed

section \<open>What the service passes to the store\<close>

lemma service_update_cases:
  "service_update cfg sha256 upsert p r s = (Return skipped_write, s) \<or>
   (\<exists>e. service_update cfg sha256 upsert p r s = (Inl e, s)) \<or>
   (\<exists>refs. service_update cfg sha256 upsert p r s =
      upsert (ownership_for sha256 (ur_session_id r) p) (memory_update_of cfg p r refs) s \<and>
      length refs \<le> memory_max_evidence_references cfg \<and>
      (\<forall>q \<in> set refs. er_access_level q \<in> allowed_access_levels p) \<and>
      (ur_completion_status r = PS_denied \<longrightarrow> refs = []))"
proof (cases "\<not> memory_enabled cfg \<or> ur_completion_status r = PS_failed")
  case False
  show ?thesis
  proof (cases "if ur_completion_status r = PS_denied then Return []
      else evidence_references cfg (ur_evidence r) p")
    case (Inr refs)
    have "length refs \<le> memory_max_evidence_references cfg \<and>
      (\<forall>q \<in> set refs. er_access_level q \<in> allowed_access_levels p) \<and>
      (ur_completion_status r = PS_denied \<longrightarrow> refs = [])"
      using Inr evidence_references_ok(1,3) [of cfg "ur_evidence r" p refs]
      by (auto split: if_splits)
    moreover have "service_update cfg sha256 upsert p r s =
      upsert (ownership_for sha256 (ur_session_id r) p) (memory_update_of cfg p r refs) s"
      unfolding service_update_def Inr using False by simp
    ultimately show ?thesis by blast
  qed (use False in \<open>simp add: service_update_def\<close>)
qed (simp add: service_update_def)

lemma memory_update_of_fields [simp]:
  "mu_request_id (memory_update_of cfg p r refs) = ur_request_id r"
  "mu_session_id (memory_update_of cfg p r refs) = ur_session_id r"
  "mu_user_id (memory_update_of cfg p r refs) = ui_user_id (pr_identity p)"
  "mu_evidence_references (memory_update_of cfg p r refs) = refs"
  by (simp_all add: memory_update_of_def Let_def)

lemma memory_update_of_bounds:
  "length (mu_user_message (memory_update_of cfg p r refs)) \<le> memory_max_user_message_characters cfg"
  "length (mu_assistant_message (memory_update_of cfg p r refs))
     \<le> memory_max_assistant_message_characters cfg"
  "length (mu_warnings (memory_update_of cfg p r refs)) \<le> graph_max_warnings cfg"
  "distinct (mu_warnings (memory_update_of cfg p r refs))"
  by (simp_all add: memory_update_of_def Let_def)


section \<open>Properties\<close>

text \<open>C1: however loads, writes, deletions and clean-ups of any callers interleave, the store holds at
  most the configured number of sessions, every session stays within its turn, character and
  reference limits, its sequence numbers strictly increase, and all its turns belong to its owner.\<close>

theorem memory_store_bounded:
  assumes "memory_fields_ok (me_settings env)" "store_reachable env s"
  shows "length (ms_sessions s) \<le> memory_max_sessions (me_settings env) \<and>
    (\<forall>sid ss. map_of (ms_sessions s) sid = Some ss \<longrightarrow>
       so_session_id (ss_ownership ss) = sid \<and>
       length (ss_turns ss) \<le> memory_max_turns_per_session (me_settings env) \<and>
       total_characters (ss_turns ss) \<le> memory_max_total_characters (me_settings env) \<and>
       total_references (ss_turns ss) \<le> memory_max_evidence_references (me_settings env) \<and>
       sorted_wrt (<) (map ct_sequence_number (ss_turns ss)) \<and>
       (\<forall>t \<in> set (ss_turns ss). mu_session_id (ct_update t) = sid \<and>
          mu_user_id (ct_update t) = so_user_id (ss_ownership ss)))"
proof -
  have "memory_inv (me_settings env) s"
    using assms by (intro store_reachable_inv) (simp_all add: memory_fields_ok_def)
  then show ?thesis
    by (auto simp: memory_inv_def session_inv_def limits_hold_def)
qed

definition sample_request :: "uuid \<Rightarrow> uuid \<Rightarrow> update_request" where
  "sample_request rid sid = \<lparr> ur_request_id = rid, ur_session_id = sid,
     ur_user_message = ''Which runbook?'', ur_assistant_message = ''The payments runbook.'',
     ur_intent = Intent_knowledge_lookup, ur_selected_route = Route_simple_retrieval,
     ur_completion_status = PS_completed, ur_evidence = [], ur_warnings = [], ur_created_at = 0 \<rparr>"

definition sample_update :: "uuid \<Rightarrow> uuid \<Rightarrow> uuid \<Rightarrow> memory_update" where
  "sample_update uid rid sid = \<lparr> mu_request_id = rid, mu_session_id = sid, mu_user_id = uid,
     mu_user_message = ''Which runbook?'', mu_assistant_message = ''The payments runbook.'',
     mu_intent = Intent_knowledge_lookup, mu_selected_route = Route_simple_retrieval,
     mu_completion_status = PS_completed, mu_evidence_references = [], mu_warnings = [],
     mu_created_at = 0 \<rparr>"

definition sample_owner :: "uuid \<Rightarrow> uuid \<Rightarrow> session_ownership" where
  "sample_owner uid sid = ownership_for (\<lambda>s. s) sid (sample_principal uid VIEWER)"

definition sample_store :: memory_store where
  "sample_store = snd (upsert_turn default_memory_env 0 (sample_owner 2 7) (sample_update 2 100 7)
     empty_memory_store)"

lemma sample_owner_fields [simp]:
  "so_session_id (sample_owner uid sid) = sid" "so_user_id (sample_owner uid sid) = uid"
  by (simp_all add: sample_owner_def)

lemma sample_upsert:
  "upsert_turn default_memory_env 0 (sample_owner 2 7) (sample_update 2 100 7) empty_memory_store =
   (Inr \<lparr> mw_stored = True, mw_duplicate = False, mw_sequence_number = Some 1, mw_evicted_turns = 0 \<rparr>,
    \<lparr> ms_sessions = [(7, \<lparr> ss_ownership = sample_owner 2 7,
        ss_turns = [\<lparr> ct_turn_id = 107, ct_sequence_number = 1, ct_update = sample_update 2 100 7 \<rparr>],
        ss_next_sequence = 2, ss_expires_at = 7200000000, ss_last_accessed = 0 \<rparr>)],
      ms_locks = [7], ms_expired_removed = 0 \<rparr>)"
proof -
  have t: "make_turn default_memory_env (sample_update 2 100 7) 1 =
      Inr \<lparr> ct_turn_id = 107, ct_sequence_number = 1, ct_update = sample_update 2 100 7 \<rparr>"
    by (simp add: make_turn_def Let_def default_memory_env_def conversation_turn_ok_def sample_update_def)
  show ?thesis
    using t by (simp add: upsert_turn_def write_turn_def sample_update_def Let_def
        empty_memory_store_def lock_for_def discard_expired_def make_capacity_def expired_keys_def
        new_session_def turn_characters_def limits_hold_def total_characters_def total_references_def
        default_memory_env_def default_settings_def ttl_micros_def)
qed

lemma memory_store_bounded_witness:
  "length (ms_sessions sample_store) \<le> 1000 \<and> map_of (ms_sessions sample_store) 7 \<noteq> None"
proof -
  have r: "store_reachable default_memory_env sample_store"
    unfolding sample_store_def by (intro reach_step [OF reach_empty] step_upsert)
  have e: "me_settings default_memory_env = default_settings"
    by (simp add: default_memory_env_def)
  have f: "memory_fields_ok (me_settings default_memory_env)"
    using default_settings_ok by (simp add: e settings_ok_def)
  show ?thesis
    using memory_store_bounded [OF f r] by (simp add: e) (simp add: default_settings_def sample_store_def sample_upsert)
qed

text \<open>C2: session memory is private.  While a session is live, a principal whose user, role or
  permissions differ from the owner's gets an ownership error from both loading and writing, and the
  sessions stay exactly as they were.\<close>

theorem memory_session_private:
  fixes p q :: authenticated_principal
  assumes "live_owner s now sid = Some (ownership_for sha256 sid p)"
    and "ui_user_id (pr_identity p) \<noteq> ui_user_id (pr_identity q) \<or>
      principal_role p \<noteq> principal_role q \<or> pr_permissions p \<noteq> pr_permissions q"
    and "ow = ownership_for sha256 sid q"
  shows "fst (memory_load env now ow s) = Inl MemoryOwnershipError \<and>
    fst (upsert_turn env now ow u s) = Inl MemoryOwnershipError \<and>
    ms_sessions (snd (memory_load env now ow s)) = ms_sessions s \<and>
    ms_sessions (snd (upsert_turn env now ow u s)) = ms_sessions s"
proof -
  have l: "live_owner s now (so_session_id ow) = Some (ownership_for sha256 sid p)"
    using assms(1,3) by simp
  have n: "ownership_for sha256 sid p \<noteq> ow"
    using assms(2) by (auto simp: assms(3) ownership_for_eq_iff)
  show ?thesis
    using memory_load_foreign [OF l n] upsert_turn_foreign [OF l n] by simp
qed

lemma memory_session_private_witness:
  "fst (memory_load default_memory_env 5 (sample_owner 3 7) sample_store) = Inl MemoryOwnershipError"
proof -
  have "live_owner sample_store 5 7 = Some (ownership_for (\<lambda>s. s) 7 (sample_principal 2 VIEWER))"
    unfolding live_owner_def sample_store_def sample_upsert by (simp add: sample_owner_def)
  from memory_session_private [OF this, of "sample_principal 3 VIEWER" "sample_owner 3 7"]
  show ?thesis by (simp add: sample_owner_def)
qed



text \<open>C4: writes are idempotent per request.  Repeating a stored write as the next operation, before the session
  expires and with no more references than configured (every write of the service is cut to that number), is
  reported as a duplicate with the original sequence number and leaves all sessions unchanged.\<close>

theorem memory_write_idempotent:
  assumes "memory_fields_ok (me_settings env)" "store_reachable env s"
    and w: "upsert_turn env now ow u s = (Inr w, s')" and st: "mw_stored w"
    and refs: "length (mu_evidence_references u) \<le> memory_max_evidence_references (me_settings env)"
    and live: "now' < now + ttl_micros (me_settings env)"
  shows "fst (upsert_turn env now' ow u s') = Inr \<lparr> mw_stored = False, mw_duplicate = True,
      mw_sequence_number = mw_sequence_number w, mw_evicted_turns = 0 \<rparr> \<and>
    ms_sessions (snd (upsert_turn env now' ow u s')) = ms_sessions s'"
proof -
  have pos: "0 < memory_max_sessions (me_settings env)"
    "1 \<le> memory_max_turns_per_session (me_settings env)"
    using assms(1) by (simp_all add: memory_fields_ok_def)
  have inv: "memory_inv (me_settings env) s" using assms(2) pos(1) by (rule store_reachable_inv)
  have f: "fst (upsert_turn env now ow u s) = Inr w" and s': "s' = snd (upsert_turn env now ow u s)"
    using w by simp_all
  show ?thesis
    using upsert_turn_repeat [OF inv pos(1) f st refs pos(2) live] by (simp add: s')
qed

lemma memory_write_idempotent_witness:
  "fst (upsert_turn default_memory_env 60 (sample_owner 2 7) (sample_update 2 100 7) sample_store) =
     Inr \<lparr> mw_stored = False, mw_duplicate = True, mw_sequence_number = Some 1, mw_evicted_turns = 0 \<rparr>"
proof -
  have e: "me_settings default_memory_env = default_settings" by (simp add: default_memory_env_def)
  have f: "memory_fields_ok (me_settings default_memory_env)"
    using default_settings_ok by (simp add: e settings_ok_def)
  have u: "upsert_turn default_memory_env 0 (sample_owner 2 7) (sample_update 2 100 7)
      empty_memory_store = (Inr \<lparr> mw_stored = True, mw_duplicate = False, mw_sequence_number = Some 1,
        mw_evicted_turns = 0 \<rparr>, sample_store)"
    by (simp add: sample_store_def sample_upsert)
  show ?thesis
    using memory_write_idempotent [OF f reach_empty u, of 60]
    by (simp add: e default_settings_def ttl_micros_def sample_update_def)
qed

text \<open>C5: the memory service stores references only to documents the principal may read, at most the
  configured number, none for a denied request, and it does not touch the store for a failed one.\<close>

theorem memory_update_references_authorized:
  "if \<not> memory_enabled cfg \<or> ur_completion_status r = PS_failed
   then service_update cfg sha256 upsert p r s = (Return skipped_write, s)
   else case (if ur_completion_status r = PS_denied then Return []
              else evidence_references cfg (ur_evidence r) p) of
     Inl e \<Rightarrow> service_update cfg sha256 upsert p r s = (Raise e, s)
   | Inr refs \<Rightarrow>
       service_update cfg sha256 upsert p r s =
         upsert (ownership_for sha256 (ur_session_id r) p) (memory_update_of cfg p r refs) s \<and>
       mu_evidence_references (memory_update_of cfg p r refs) = refs \<and>
       length refs \<le> memory_max_evidence_references cfg \<and>
       distinct (map er_chunk_id refs) \<and>
       er_access_level ` set refs \<subseteq> allowed_access_levels p \<and>
       set refs \<subseteq> reference_of ` {h \<in> set (ur_evidence r). evidence_authorized p (he_evidence h)}"
proof (cases "ur_completion_status r = PS_failed \<or> \<not> memory_enabled cfg")
  case True
  then show ?thesis by (auto simp: service_update_def)
next
  case enabled: False
  show ?thesis
  proof (cases "if ur_completion_status r = PS_denied then Return []
      else evidence_references cfg (ur_evidence r) p")
    case (Inl e)
    then show ?thesis using enabled by (simp add: service_update_def)
  next
    case (Inr refs)
    have "length refs \<le> memory_max_evidence_references cfg \<and> distinct (map er_chunk_id refs) \<and>
      er_access_level ` set refs \<subseteq> allowed_access_levels p \<and>
      set refs \<subseteq> reference_of ` {h \<in> set (ur_evidence r). evidence_authorized p (he_evidence h)}"
      using Inr evidence_references_ok [of cfg "ur_evidence r" p refs] by (auto split: if_splits)
    then show ?thesis using enabled Inr by (simp add: service_update_def)
  qed
qed

definition sample_hybrid :: "uuid \<Rightarrow> access_level \<Rightarrow> hybrid_evidence" where
  "sample_hybrid cid level = \<lparr> he_evidence = \<lparr> de_record_id = ''r'', de_dense_score = 0,
       de_chunk_id = cid, de_evidence_id = cid + 1, de_document_id = cid + 2, de_title = ''Runbook'',
       de_source = ''s'', de_source_file = ''f.md'', de_section = ''Intro'', de_section_path = [''Intro''],
       de_source_line_start = 1, de_source_line_end = 4, de_version = ''1'', de_updated_date = 0,
       de_access_level = level, de_allowed_roles = {VIEWER, ANALYST, ADMINISTRATOR},
       de_document_type = DT_runbook, de_department = ''Ops'', de_status = ''approved'',
       de_text = ''Restart the gateway.'', de_chunk_content_hash = ''a'', de_build_fingerprint = ''b'' \<rparr>,
     he_raw_dense_score = None, he_raw_sparse_score = Some 1, he_normalized_dense_score = 0,
     he_normalized_sparse_score = 1, he_hybrid_score = 1, he_dense_rank = None,
     he_sparse_rank = Some 1, he_final_rank = 1, he_retrieval_modes = {''sparse''} \<rparr>"

lemma memory_update_references_authorized_witness:
  "er_access_level ` set [reference_of (sample_hybrid 50 INTERNAL)] \<subseteq>
     allowed_access_levels (sample_principal 2 VIEWER)"
proof -
  let ?p = "sample_principal 2 VIEWER"
  let ?r = "(sample_request 100 7)\<lparr> ur_evidence := [sample_hybrid 40 RESTRICTED, sample_hybrid 50 INTERNAL] \<rparr>"
  have "evidence_references default_settings (ur_evidence ?r) ?p =
      Inr [reference_of (sample_hybrid 50 INTERNAL)]"
    by (simp add: evidence_references_def sample_hybrid_def allowed_access_levels_def
        evidence_reference_ok_def reference_of_def default_settings_def Let_def)
  then show ?thesis
    using memory_update_references_authorized [of default_settings ?r "\<lambda>s. s"
        "upsert_turn default_memory_env 0" ?p empty_memory_store]
    by (simp add: default_settings_def sample_request_def)
qed

end
