(* ===== verification/Graph_State.thy ===== *)
theory Graph_State
  imports Result_Models Memory_Service
begin

text \<open>
  The state of the graph and its public events: event contracts (models/events.py), the reducers
  (graph/reducers.py), the typed state with the merge of a partial update (graph/state.py), the
  event journal (graph/events.py) and the output contract (graph/schemas.py).
\<close>

section \<open>Events\<close>

datatype event_type = Ev_request_accepted | Ev_graph_started | Ev_node_started | Ev_node_completed
  | Ev_node_failed | Ev_route_selected | Ev_retrieval_started | Ev_retrieval_completed
  | Ev_tool_authorization_started | Ev_tool_authorized | Ev_tool_denied | Ev_tool_started
  | Ev_tool_completed | Ev_tool_failed | Ev_mcp_started | Ev_mcp_tool_selected | Ev_mcp_completed
  | Ev_mcp_denied | Ev_mcp_failed | Ev_research_batch_started | Ev_research_batch_completed
  | Ev_research_started | Ev_research_catalog_completed | Ev_research_planning_started
  | Ev_research_plan_created | Ev_research_plan_validated | Ev_research_worker_dispatched
  | Ev_research_worker_started | Ev_research_retrieval_completed | Ev_research_analysis_completed
  | Ev_research_worker_completed | Ev_research_worker_failed | Ev_research_round_completed
  | Ev_research_coverage_assessed | Ev_research_child_tasks_created
  | Ev_research_aggregation_completed | Ev_research_partial | Ev_research_budget_exhausted
  | Ev_research_completed | Ev_research_failed | Ev_validation_completed | Ev_memory_updated
  | Ev_memory_load_started | Ev_memory_loaded | Ev_memory_context_resolved
  | Ev_memory_update_started | Ev_memory_evicted | Ev_memory_failed | Ev_response_token
  | Ev_response_completed | Ev_response_failed | Ev_response_generation_started
  | Ev_response_generation_completed | Ev_response_generation_failed
  | Ev_citation_validation_started | Ev_citation_validation_completed
  | Ev_citation_validation_failed | Ev_response_repair_started | Ev_response_repair_completed
  | Ev_response_fallback_used

datatype event_status = ES_accepted | ES_started | ES_running | ES_completed | ES_warning
  | ES_denied | ES_failed

text \<open>The payload fields the graph sets, and the tool name, which it leaves \<open>None\<close> but a client may show; every
  other field of the class stays \<open>None\<close>.\<close>

record event_payload =
  ep_route :: "route option"
  ep_tool_name :: "tool_name option"
  ep_result_count :: "nat option"
  ep_error_code :: "string option"
  ep_turn_count :: "nat option"
  ep_evidence_reference_count :: "nat option"
  ep_context_used :: "bool option"
  ep_exact_identifier_present :: "bool option"
  ep_aggregate_intent_present :: "bool option"
  ep_identifier_constraint_active :: "bool option"
  ep_security_denial_category :: "security_denial option"
  ep_evicted_turn_count :: "nat option"
  ep_plan_id :: "string option"
  ep_task_id :: "string option"
  ep_parent_task_id :: "string option"
  ep_round_number :: "nat option"
  ep_depth :: "nat option"
  ep_worker_count :: "nat option"
  ep_evidence_count :: "nat option"
  ep_gap_count :: "nat option"
  ep_conflict_count :: "nat option"
  ep_mcp_tool_name :: "mcp_tool option"
  ep_server_identifier :: "string option"
  ep_duration_category :: "string option"

definition empty_payload :: event_payload where
  "empty_payload = \<lparr> ep_route = None, ep_tool_name = None, ep_result_count = None, ep_error_code = None,
     ep_turn_count = None, ep_evidence_reference_count = None, ep_context_used = None,
     ep_exact_identifier_present = None, ep_aggregate_intent_present = None,
     ep_identifier_constraint_active = None, ep_security_denial_category = None,
     ep_evicted_turn_count = None, ep_plan_id = None, ep_task_id = None, ep_parent_task_id = None,
     ep_round_number = None, ep_depth = None, ep_worker_count = None, ep_evidence_count = None,
     ep_gap_count = None, ep_conflict_count = None, ep_mcp_tool_name = None,
     ep_server_identifier = None, ep_duration_category = None \<rparr>"

record agent_event =
  ae_event_type :: event_type
  ae_sequence_number :: nat
  ae_request_id :: uuid
  ae_session_id :: uuid
  ae_trace_id :: uuid
  ae_node :: "string option"
  ae_status :: event_status
  ae_public_message :: string
  ae_payload :: event_payload

section \<open>Reducers\<close>

definition MAX_RETAINED_ACTIVITY_EVENTS :: nat where "MAX_RETAINED_ACTIVITY_EVENTS = 200"

definition append_unique :: "'a list \<Rightarrow> 'a list \<Rightarrow> 'a list" where
  "append_unique left right = (if right = [] then [] else append_new left right)"

definition append_text :: "'a list \<Rightarrow> 'a list \<Rightarrow> 'a list" where
  "append_text left right = (if right = [] then [] else left @ right)"

definition append_events :: "agent_event list \<Rightarrow> agent_event list \<Rightarrow> agent_event list" where
  "append_events left right =
     (if right \<noteq> [] \<and> ae_sequence_number (hd right) = 0
      then last_n MAX_RETAINED_ACTIVITY_EVENTS right
      else last_n MAX_RETAINED_ACTIVITY_EVENTS (append_unique left right))"

lemma append_unique_Nil [simp]: "append_unique left [] = []"
  by (simp add: append_unique_def)

lemma append_text_Nil [simp]: "append_text left [] = []"
  by (simp add: append_text_def)

lemma append_unique_from_Nil: "append_unique [] xs = unique_first xs"
  by (simp add: append_unique_def unique_first_def)

lemma set_append_unique: "right \<noteq> [] \<Longrightarrow> set (append_unique left right) = set left \<union> set right"
  by (simp add: append_unique_def)

lemma append_unique_absorbed:
  "right \<noteq> [] \<Longrightarrow> set right \<subseteq> set left \<Longrightarrow> append_unique left right = left"
  by (simp add: append_unique_def append_new_subset)

lemma length_append_events: "length (append_events left right) \<le> MAX_RETAINED_ACTIVITY_EVENTS"
  by (simp add: append_events_def MAX_RETAINED_ACTIVITY_EVENTS_def slice_simps)

section \<open>Outputs\<close>

record evidence_attribution =
  ea_evidence_id :: uuid
  ea_chunk_id :: uuid
  ea_document_id :: uuid
  ea_title :: string
  ea_source_file :: string
  ea_section :: string
  ea_source_line_start :: nat
  ea_source_line_end :: nat
  ea_access_level :: access_level
  ea_hybrid_score :: real
  ea_final_rank :: nat
  ea_retrieval_modes :: "string set"

definition from_hybrid :: "hybrid_evidence \<Rightarrow> evidence_attribution" where
  "from_hybrid item =
     (let e = he_evidence item in
      \<lparr> ea_evidence_id = de_evidence_id e, ea_chunk_id = de_chunk_id e,
        ea_document_id = de_document_id e, ea_title = de_title e, ea_source_file = de_source_file e,
        ea_section = de_section e, ea_source_line_start = de_source_line_start e,
        ea_source_line_end = de_source_line_end e, ea_access_level = de_access_level e,
        ea_hybrid_score = he_hybrid_score item, ea_final_rank = he_final_rank item,
        ea_retrieval_modes = he_retrieval_modes item \<rparr>)"

record graph_output =
  go_request_id :: uuid
  go_trace_id :: uuid
  go_session_id :: uuid
  go_completion_status :: processing_status
  go_selected_route :: route
  go_intent :: intent
  go_evidence :: "evidence_attribution list"
  go_warnings :: "string list"
  go_response_text :: string
  go_validation_reports :: "validation_report list"
  go_memory_used :: bool
  go_context_resolved :: bool
  go_turn_sequence :: "nat option"
  go_memory_update_status :: string
  go_analysis_result :: "analysis_result option"
  go_citations :: "verified_citation list"
  go_deterministic_fallback_used :: bool
  go_deterministic_analysis_rendering_used :: bool
  go_fallback_reason :: "fallback_reason option"
  go_insufficient_evidence :: bool
  go_mcp_execution :: "mcp_execution option"

definition graph_output_ok :: "graph_output \<Rightarrow> bool" where
  "graph_output_ok out =
     (\<not> (go_deterministic_analysis_rendering_used out \<and>
         (go_analysis_result out = None \<or> go_deterministic_fallback_used out \<or>
          go_fallback_reason out \<noteq> None)))"

section \<open>State\<close>

text \<open>Fields that the initial state always holds are plain; a field some node may still have to
  write is an option, \<open>None\<close> when the key is absent.\<close>

record graph_state =
  gs_request_id :: uuid
  gs_trace_id :: uuid
  gs_session_id :: uuid
  gs_principal :: authenticated_principal
  gs_user_message :: string
  gs_original_query :: string
  gs_retrieval_filters :: dense_query_filters
  gs_requested_top_k :: nat
  gs_invocation_timestamp :: instant
  gs_retrieved_evidence :: "hybrid_evidence list"
  gs_validation_reports :: "validation_report list"
  gs_warnings :: "string list"
  gs_errors :: "graph_error list"
  gs_visited_nodes :: "string list"
  gs_activity_events :: "agent_event list"
  gs_resolved_query :: "string option"
  gs_normalized_query :: "string option"
  gs_requested_identifiers :: "enterprise_identifier list option"
  gs_aggregate_intent_present :: "bool option"
  gs_security_denial_category :: "security_denial option"
  gs_detected_intent :: "intent option"
  gs_task_complexity :: "string option"
  gs_selected_route :: "route option"
  gs_response_text :: "string option"
  gs_processing_status :: "processing_status option"
  gs_execution_step_count :: "nat option"
  gs_maximum_execution_steps :: "nat option"
  gs_retrieval_status :: "string option"
  gs_failure :: "bool option"
  gs_final_output :: "graph_output option"
  gs_conversation_context :: "memory_context option"
  gs_memory_used :: "bool option"
  gs_context_reference_detected :: "bool option"
  gs_context_used :: "bool option"
  gs_memory_update_status :: "string option"
  gs_memory_eviction_count :: "nat option"
  gs_current_turn_sequence :: "nat option"
  gs_analysis_request :: "analysis_request option"
  gs_analysis_result :: "analysis_result option"
  gs_response_mode :: "response_mode option"
  gs_grounded_answer_draft :: "answer_draft option"
  gs_citation_validation :: "citation_validation option"
  gs_grounded_response :: "grounded_response option"
  gs_response_repair_count :: "nat option"
  gs_provider_status :: "string option"
  gs_deterministic_fallback_used :: "bool option"
  gs_deterministic_analysis_rendering_used :: "bool option"
  gs_fallback_reason :: "fallback_reason option"
  gs_research_result :: "research_result option"
  gs_mcp_execution :: "mcp_execution option"

text \<open>One entry of the dictionary a node returns.  Keys whose Python value may be \<open>None\<close> carry an
  option.  \<open>deadline\<close>, \<open>execution_started_at\<close>, \<open>active_node\<close> and \<open>maximum_recursion_depth\<close> are
  not read by the modelled code and have no constructor.\<close>

datatype channel_write =
    W_normalized_query string
  | W_resolved_query string
  | W_requested_identifiers "enterprise_identifier list"
  | W_aggregate_intent_present bool
  | W_security_denial_category "security_denial option"
  | W_detected_intent intent
  | W_task_complexity string
  | W_selected_route route
  | W_retrieved_evidence "hybrid_evidence list"
  | W_validation_reports "validation_report list"
  | W_warnings "string list"
  | W_errors "graph_error list"
  | W_visited_nodes "string list"
  | W_activity_events "agent_event list"
  | W_response_text string
  | W_processing_status processing_status
  | W_execution_step_count nat
  | W_maximum_execution_steps nat
  | W_retrieval_status string
  | W_failure bool
  | W_final_output graph_output
  | W_conversation_context memory_context
  | W_memory_used bool
  | W_context_reference_detected bool
  | W_context_used bool
  | W_memory_update_status string
  | W_memory_eviction_count nat
  | W_current_turn_sequence "nat option"
  | W_analysis_request analysis_request
  | W_analysis_result analysis_result
  | W_response_mode response_mode
  | W_grounded_answer_draft answer_draft
  | W_citation_validation citation_validation
  | W_grounded_response grounded_response
  | W_response_repair_count nat
  | W_provider_status string
  | W_deterministic_fallback_used bool
  | W_deterministic_analysis_rendering_used bool
  | W_fallback_reason "fallback_reason option"
  | W_research_result research_result
  | W_mcp_execution mcp_execution

fun apply_write :: "channel_write \<Rightarrow> graph_state \<Rightarrow> graph_state" where
  "apply_write (W_normalized_query q) st = st\<lparr> gs_normalized_query := Some q \<rparr>"
| "apply_write (W_resolved_query q) st = st\<lparr> gs_resolved_query := Some q \<rparr>"
| "apply_write (W_requested_identifiers i) st = st\<lparr> gs_requested_identifiers := Some i \<rparr>"
| "apply_write (W_aggregate_intent_present b) st = st\<lparr> gs_aggregate_intent_present := Some b \<rparr>"
| "apply_write (W_security_denial_category c) st = st\<lparr> gs_security_denial_category := c \<rparr>"
| "apply_write (W_detected_intent i) st = st\<lparr> gs_detected_intent := Some i \<rparr>"
| "apply_write (W_task_complexity c) st = st\<lparr> gs_task_complexity := Some c \<rparr>"
| "apply_write (W_selected_route r) st = st\<lparr> gs_selected_route := Some r \<rparr>"
| "apply_write (W_retrieved_evidence es) st =
     st\<lparr> gs_retrieved_evidence := append_unique (gs_retrieved_evidence st) es \<rparr>"
| "apply_write (W_validation_reports rs) st =
     st\<lparr> gs_validation_reports := append_unique (gs_validation_reports st) rs \<rparr>"
| "apply_write (W_warnings ws) st = st\<lparr> gs_warnings := append_text (gs_warnings st) ws \<rparr>"
| "apply_write (W_errors es) st = st\<lparr> gs_errors := append_unique (gs_errors st) es \<rparr>"
| "apply_write (W_visited_nodes ns) st =
     st\<lparr> gs_visited_nodes := append_text (gs_visited_nodes st) ns \<rparr>"
| "apply_write (W_activity_events es) st =
     st\<lparr> gs_activity_events := append_events (gs_activity_events st) es \<rparr>"
| "apply_write (W_response_text t) st = st\<lparr> gs_response_text := Some t \<rparr>"
| "apply_write (W_processing_status p) st = st\<lparr> gs_processing_status := Some p \<rparr>"
| "apply_write (W_execution_step_count n) st = st\<lparr> gs_execution_step_count := Some n \<rparr>"
| "apply_write (W_maximum_execution_steps n) st = st\<lparr> gs_maximum_execution_steps := Some n \<rparr>"
| "apply_write (W_retrieval_status r) st = st\<lparr> gs_retrieval_status := Some r \<rparr>"
| "apply_write (W_failure b) st = st\<lparr> gs_failure := Some b \<rparr>"
| "apply_write (W_final_output out) st = st\<lparr> gs_final_output := Some out \<rparr>"
| "apply_write (W_conversation_context c) st = st\<lparr> gs_conversation_context := Some c \<rparr>"
| "apply_write (W_memory_used b) st = st\<lparr> gs_memory_used := Some b \<rparr>"
| "apply_write (W_context_reference_detected b) st = st\<lparr> gs_context_reference_detected := Some b \<rparr>"
| "apply_write (W_context_used b) st = st\<lparr> gs_context_used := Some b \<rparr>"
| "apply_write (W_memory_update_status m) st = st\<lparr> gs_memory_update_status := Some m \<rparr>"
| "apply_write (W_memory_eviction_count n) st = st\<lparr> gs_memory_eviction_count := Some n \<rparr>"
| "apply_write (W_current_turn_sequence n) st = st\<lparr> gs_current_turn_sequence := n \<rparr>"
| "apply_write (W_analysis_request r) st = st\<lparr> gs_analysis_request := Some r \<rparr>"
| "apply_write (W_analysis_result r) st = st\<lparr> gs_analysis_result := Some r \<rparr>"
| "apply_write (W_response_mode m) st = st\<lparr> gs_response_mode := Some m \<rparr>"
| "apply_write (W_grounded_answer_draft d) st = st\<lparr> gs_grounded_answer_draft := Some d \<rparr>"
| "apply_write (W_citation_validation v) st = st\<lparr> gs_citation_validation := Some v \<rparr>"
| "apply_write (W_grounded_response g) st = st\<lparr> gs_grounded_response := Some g \<rparr>"
| "apply_write (W_response_repair_count n) st = st\<lparr> gs_response_repair_count := Some n \<rparr>"
| "apply_write (W_provider_status p) st = st\<lparr> gs_provider_status := Some p \<rparr>"
| "apply_write (W_deterministic_fallback_used b) st = st\<lparr> gs_deterministic_fallback_used := Some b \<rparr>"
| "apply_write (W_deterministic_analysis_rendering_used b) st =
     st\<lparr> gs_deterministic_analysis_rendering_used := Some b \<rparr>"
| "apply_write (W_fallback_reason r) st = st\<lparr> gs_fallback_reason := r \<rparr>"
| "apply_write (W_research_result r) st = st\<lparr> gs_research_result := Some r \<rparr>"
| "apply_write (W_mcp_execution m) st = st\<lparr> gs_mcp_execution := Some m \<rparr>"

definition apply_update :: "channel_write list \<Rightarrow> graph_state \<Rightarrow> graph_state" where
  "apply_update ws st = fold apply_write ws st"

lemma apply_update_Nil [simp]: "apply_update [] st = st"
  by (simp add: apply_update_def)

lemma apply_update_Cons [simp]: "apply_update (w # ws) st = apply_update ws (apply_write w st)"
  by (simp add: apply_update_def)

lemma apply_update_append [simp]: "apply_update (ws @ vs) st = apply_update vs (apply_update ws st)"
  by (simp add: apply_update_def)

section \<open>The event journal\<close>

record event_journal =
  ej_request_id :: uuid
  ej_trace_id :: uuid
  ej_session_id :: uuid
  ej_next_sequence :: nat
  ej_emitted :: "agent_event list"

definition journal_append :: "agent_event \<Rightarrow> event_journal \<Rightarrow> (unit, event_journal) result" where
  "journal_append item j =
     (if ae_request_id item \<noteq> ej_request_id j \<or> ae_trace_id item \<noteq> ej_trace_id j \<or>
         ae_session_id item \<noteq> ej_session_id j \<or> ae_sequence_number item \<noteq> ej_next_sequence j
      then Raise ()
      else Return (j\<lparr> ej_emitted := ej_emitted j @ [item], ej_next_sequence := ej_next_sequence j + 1 \<rparr>))"

definition history_sequence :: "graph_state \<Rightarrow> nat" where
  "history_sequence st =
     (case gs_activity_events st of [] \<Rightarrow> 0 | es \<Rightarrow> ae_sequence_number (last es) + 1)"

definition open_journal :: "graph_state \<Rightarrow> event_journal" where
  "open_journal st = \<lparr> ej_request_id = gs_request_id st, ej_trace_id = gs_trace_id st,
     ej_session_id = gs_session_id st, ej_next_sequence = history_sequence st, ej_emitted = [] \<rparr>"

text \<open>What a call of \<open>event\<close> says besides the state and the journal.\<close>

record event_draft =
  ed_type :: event_type
  ed_status :: event_status
  ed_message :: string
  ed_node :: "string option"
  ed_payload :: event_payload

definition build_event :: "graph_state \<Rightarrow> nat \<Rightarrow> event_draft \<Rightarrow> agent_event" where
  "build_event st n d = \<lparr> ae_event_type = ed_type d, ae_sequence_number = n,
     ae_request_id = gs_request_id st, ae_session_id = gs_session_id st, ae_trace_id = gs_trace_id st,
     ae_node = ed_node d, ae_status = ed_status d, ae_public_message = ed_message d,
     ae_payload = ed_payload d \<rparr>"

text \<open>\<open>event\<close> inside a guarded node (an active journal) and outside of one.\<close>

definition journal_event :: "graph_state \<Rightarrow> event_draft \<Rightarrow> event_journal \<Rightarrow> (unit, event_journal) result"
where
  "journal_event st d j = journal_append (build_event st (ej_next_sequence j) d) j"

fun journal_events ::
  "graph_state \<Rightarrow> event_draft list \<Rightarrow> event_journal \<Rightarrow> (unit, event_journal) result" where
  "journal_events st [] j = Return j"
| "journal_events st (d # ds) j = bind_result (journal_event st d j) (journal_events st ds)"

text \<open>Outside a journal each event extends a private copy of the history.\<close>

fun history_events :: "graph_state \<Rightarrow> nat \<Rightarrow> event_draft list \<Rightarrow> agent_event list" where
  "history_events st n [] = []"
| "history_events st n (d # ds) = build_event st n d # history_events st (Suc n) ds"

definition journal_for :: "graph_state \<Rightarrow> event_journal \<Rightarrow> bool" where
  "journal_for st j =
     (ej_request_id j = gs_request_id st \<and> ej_trace_id j = gs_trace_id st \<and>
      ej_session_id j = gs_session_id st)"

lemma open_journal_for [simp]: "journal_for st (open_journal st)"
  by (simp add: journal_for_def open_journal_def)

text \<open>The correlation check never fires on events built from the journal's own state, and the
  emitted events are exactly the drafts numbered from the journal's next sequence number.\<close>

lemma journal_events_total:
  assumes "journal_for st j"
  shows "journal_events st ds j = Inr (j\<lparr>
      ej_emitted := ej_emitted j @ history_events st (ej_next_sequence j) ds,
      ej_next_sequence := ej_next_sequence j + length ds \<rparr>)"
  using assms
proof (induction ds arbitrary: j)
  case (Cons d ds)
  then show ?case
    by (simp add: journal_event_def journal_append_def build_event_def journal_for_def)
qed simp

lemma length_history_events [simp]: "length (history_events st n ds) = length ds"
  by (induction ds arbitrary: n) auto

lemma history_events_append:
  "history_events st n (ds @ es) = history_events st n ds @ history_events st (n + length ds) es"
  by (induction ds arbitrary: n) auto

lemma history_events_sequences:
  "map ae_sequence_number (history_events st n ds) = [n ..< n + length ds]"
  by (induction ds arbitrary: n) (simp_all add: build_event_def upt_conv_Cons del: upt_Suc)

lemma history_events_types: "map ae_event_type (history_events st n ds) = map ed_type ds"
  by (induction ds arbitrary: n) (simp_all add: build_event_def)

lemma history_events_ids:
  "e \<in> set (history_events st n ds) \<Longrightarrow> ae_request_id e = gs_request_id st \<and>
     ae_session_id e = gs_session_id st \<and> ae_trace_id e = gs_trace_id st"
  by (induction ds arbitrary: n) (auto simp: build_event_def)

text \<open>New events, numbered on from the history, are appended to it.\<close>

lemma last_n_append_last_n: "0 < n \<Longrightarrow> last_n n (last_n n xs @ ys) = last_n n (xs @ ys)"
  by (cases "n \<le> length xs") (simp_all add: last_n_def add.commute)

lemma sequences_bound:
  "map ae_sequence_number es = [a ..< b] \<Longrightarrow> e \<in> set es \<Longrightarrow> a \<le> ae_sequence_number e \<and> ae_sequence_number e < b"
  by (metis atLeastLessThan_iff image_eqI list.set_map set_upt)

text \<open>\<open>log_state st es\<close>: the state holds the last events of the log \<open>es\<close> of this invocation, which
  is numbered from zero and carries the ids of the invocation.\<close>

definition log_state :: "graph_state \<Rightarrow> agent_event list \<Rightarrow> bool" where
  "log_state st es =
     (gs_activity_events st = last_n MAX_RETAINED_ACTIVITY_EVENTS es \<and>
      map ae_sequence_number es = [0 ..< length es] \<and>
      (\<forall>e \<in> set es. ae_request_id e = gs_request_id st \<and> ae_session_id e = gs_session_id st \<and>
         ae_trace_id e = gs_trace_id st))"

lemma log_state_sequence:
  assumes "log_state st es" shows "history_sequence st = length es"
proof (cases "es = []")
  case True
  then show ?thesis using assms by (simp add: log_state_def history_sequence_def last_n_def)
next
  case False
  have "last_n MAX_RETAINED_ACTIVITY_EVENTS es \<noteq> []"
    using False by (simp add: last_n_def MAX_RETAINED_ACTIVITY_EVENTS_def not_le)
  moreover have "ae_sequence_number (last es) = length es - 1"
    using assms False by (metis log_state_def last_map last_upt length_greater_0_conv)
  moreover have "gs_activity_events st = last_n MAX_RETAINED_ACTIVITY_EVENTS es"
    using assms by (simp add: log_state_def)
  moreover have "history_sequence st = ae_sequence_number (last (gs_activity_events st)) + 1"
    if "gs_activity_events st \<noteq> []"
    using that by (simp add: history_sequence_def split: list.splits)
  ultimately show ?thesis
    using False last_n_last [OF False, of MAX_RETAINED_ACTIVITY_EVENTS] by simp
qed

lemma append_events_log:
  assumes log: "log_state st es"
    and new: "map ae_sequence_number new = [length es ..< length es + length new]"
  shows "append_events (gs_activity_events st) new =
    (if new = [] then [] else last_n MAX_RETAINED_ACTIVITY_EVENTS (es @ new))"
proof (cases "new = []")
  case True
  then show ?thesis by (simp add: append_events_def last_n_def)
next
  case False
  note old = log [unfolded log_state_def]
  have d: "distinct new" using new by (metis distinct_map distinct_upt)
  have "set new \<inter> set es = {}"
  proof -
    have "e \<notin> set es" if "e \<in> set new" for e
      using sequences_bound [OF new that] sequences_bound [of es 0 "length es" e] old by auto
    then show ?thesis by auto
  qed
  then have disj: "set new \<inter> set (last_n MAX_RETAINED_ACTIVITY_EVENTS es) = {}"
    using set_last_n by fastforce
  have hd: "ae_sequence_number (hd new) = length es"
    using new False by (cases new) (auto simp: upt_conv_Cons simp del: upt_Suc)
  show ?thesis
  proof (cases "es = []")
    case True
    then show ?thesis using False hd by (simp add: append_events_def)
  next
    case es: False
    then show ?thesis
      using False hd append_new_disjoint [OF d disj] old
      by (simp add: append_events_def append_unique_def last_n_append_last_n
          MAX_RETAINED_ACTIVITY_EVENTS_def)
  qed
qed

end
