(* ===== verification/Enterprise_Tools.thy ===== *)
theory Enterprise_Tools
  imports Result_Models
begin

text \<open>
  The two tool routes of the graph that need no index: the planner of the structured analysis
  (tools/python_analysis/service.py) and the fictional enterprise data over MCP, from the selection
  of a tool (mcp_tools/service.py) over the catalog (mcp_tools/data.py) to the handlers of the
  server (mcp_tools/server.py) and the rendered answer.  The MCP transport of the SDK is an
  argument of the service.
\<close>

section \<open>Dates\<close>

text \<open>The proleptic Gregorian calendar; a date is the number of days since 1970-01-01.\<close>

definition days_from_civil :: "int \<Rightarrow> int \<Rightarrow> int \<Rightarrow> date" where
  "days_from_civil y m d =
     (let y' = (if m \<le> 2 then y - 1 else y); era = y' div 400; yoe = y' mod 400;
          mp = (m + 9) mod 12; doy = (153 * mp + 2) div 5 + d - 1;
          doe = yoe * 365 + yoe div 4 - yoe div 100 + doy
      in era * 146097 + doe - 719468)"

definition civil_from_days :: "date \<Rightarrow> int \<times> int \<times> int" where
  "civil_from_days n =
     (let z = n + 719468; era = z div 146097; doe = z mod 146097;
          yoe = (doe - doe div 1460 + doe div 36524 - doe div 146096) div 365;
          doy = doe - (365 * yoe + yoe div 4 - yoe div 100);
          mp = (5 * doy + 2) div 153; d = doy - (153 * mp + 2) div 5 + 1;
          m = (if mp < 10 then mp + 3 else mp - 9)
      in (yoe + era * 400 + (if m \<le> 2 then 1 else 0), m, d))"

definition leap_year :: "int \<Rightarrow> bool" where
  "leap_year y = (y mod 4 = 0 \<and> (y mod 100 \<noteq> 0 \<or> y mod 400 = 0))"

definition days_in_month :: "int \<Rightarrow> int \<Rightarrow> int" where
  "days_in_month y m =
     (if m = 2 then (if leap_year y then 29 else 28)
      else if m \<in> {4, 6, 9, 11} then 30 else 31)"

definition digits_value :: "string \<Rightarrow> int" where
  "digits_value ds = foldl (\<lambda>n c. 10 * n + int (code_point c) - 48) 0 ds"

text \<open>\<open>date.fromisoformat\<close> on a text of the shape \<open>dddd-dd-dd\<close>.\<close>

definition date_from_iso :: "string \<Rightarrow> date option" where
  "date_from_iso s =
     (let y = digits_value (take 4 s); m = digits_value (take 2 (drop 5 s));
          d = digits_value (drop 8 s) in
      if 1 \<le> y \<and> 1 \<le> m \<and> m \<le> 12 \<and> 1 \<le> d \<and> d \<le> days_in_month y m
      then Some (days_from_civil y m d) else None)"

definition pad_digits :: "nat \<Rightarrow> int \<Rightarrow> string" where
  "pad_digits n i = (let s = show_nat (nat i) in replicate (n - length s) CHR ''0'' @ s)"

definition date_text :: "date \<Rightarrow> string" where
  "date_text n =
     (case civil_from_days n of (y, m, d) \<Rightarrow>
        pad_digits 4 y @ ''-'' @ pad_digits 2 m @ ''-'' @ pad_digits 2 d)"

text \<open>\<open>isoformat\<close> of an aware UTC instant at a whole second.\<close>

definition instant_text :: "instant \<Rightarrow> string" where
  "instant_text t =
     (let seconds = t div 1000000; sod = seconds mod 86400 in
      date_text (seconds div 86400) @ ''T'' @ pad_digits 2 (sod div 3600) @ '':'' @
      pad_digits 2 (sod div 60 mod 60) @ '':'' @ pad_digits 2 (sod mod 60) @ ''+00:00'')"

definition instant_date :: "instant \<Rightarrow> date" where
  "instant_date t = t div 86400000000"

definition date_instant :: "date \<Rightarrow> int \<Rightarrow> instant" where
  "date_instant d hour = (d * 86400 + hour * 3600) * 1000000"

text \<open>The format \<open>.2f\<close> of a value with at most two decimals.\<close>

definition format_2f :: "real \<Rightarrow> string" where
  "format_2f x = (let c = \<lfloor>x * 100\<rfloor> in pad_digits 1 (c div 100) @ ''.'' @ pad_digits 2 (c mod 100))"

section \<open>Planning a structured analysis\<close>

definition plan_analysis :: "string \<Rightarrow> (unit, analysis_request) result" where
  "plan_analysis query =
     (let folded = casefold query;
          mentions = (\<lambda>w. contains_text w folded);
          filters = no_analysis_filters\<lparr>
            af_departments := (if mentions ''payment'' then [''payments''] else []),
            af_start_date := (if mentions ''last year'' then Some (days_from_civil 2025 7 1) else None),
            af_end_date := (if mentions ''last year'' then Some (days_from_civil 2026 6 30) else None) \<rparr>;
          request = (\<lambda>operation. \<lparr> ar_operation = operation, ar_filters = filters, ar_group_by = None,
            ar_field = None, ar_limit = 10, ar_minimum_count = 1, ar_interval = Interval_month,
            ar_left_value = None, ar_right_value = None \<rparr>) in
      if \<not> has_explicit_aggregate_intent query then Raise ()
      else if mentions ''recurring'' \<or> mentions ''root cause''
      then Return (request AO_recurring_root_causes)
      else if mentions ''severity'' then Return (request AO_severity_distribution)
      else if mentions ''per month'' \<or> mentions ''monthly'' then Return (request AO_date_histogram)
      else if mentions ''duration'' then Return (request AO_duration_statistics)
      else if mentions ''how many'' \<or> mentions ''count'' then Return (request AO_count_records)
      else if mentions ''status'' then Return (request AO_status_distribution)
      else Raise ())"

definition analysis_permitted :: "retrieval_settings \<Rightarrow> authenticated_principal \<Rightarrow> bool" where
  "analysis_permitted cfg p =
     (python_analysis_enabled cfg \<and> has_permission p (Some Perm_python_analysis))"

lemma plan_analysis_ok:
  "plan_analysis query = Inr r \<Longrightarrow> analysis_request_ok r \<and> has_explicit_aggregate_intent query"
  by (auto simp: plan_analysis_def Let_def analysis_request_ok_def analysis_filters_ok_def
      no_analysis_filters_def optional_length_def days_from_civil_def split: if_splits)

section \<open>The service catalog\<close>

definition service_rows :: "(string \<times> string \<times> string \<times> service_tier \<times> real \<times> nat) list" where
  "service_rows =
   [ (''payment-gateway'', ''Payments Platform'', ''Digital Payments'', Tier_1, 9998 / 100, 142),
     (''card-settlement'', ''Settlement Systems'', ''Payments Operations'', Tier_1, 9995 / 100, 188),
     (''mobile-banking-api'', ''Mobile Experience'', ''Digital Channels'', Tier_1, 9997 / 100, 126),
     (''customer-notification'', ''Customer Messaging'', ''Customer Experience'', Tier_2, 9991 / 100, 215),
     (''identity-access'', ''Identity Platform'', ''Cybersecurity'', Tier_1, 9999 / 100, 84),
     (''fraud-screening'', ''Fraud Technology'', ''Risk'', Tier_1, 9996 / 100, 164),
     (''customer-profile'', ''Customer Data Platform'', ''Customer Experience'', Tier_2, 9993 / 100, 201) ]"

definition SNAPSHOT_TIME :: instant where
  "SNAPSHOT_TIME = date_instant (days_from_civil 2026 7 20) 6"

definition make_record ::
  "nat \<Rightarrow> string \<times> string \<times> string \<times> service_tier \<times> real \<times> nat \<Rightarrow> service_record" where
  "make_record index row =
     (case row of (name, team, department, tier, availability, latency) \<Rightarrow>
      (let start = date_instant (days_from_civil 2026 7 (25 + int index)) 1 in
      \<lparr> sr_profile = \<lparr> sp_service_name = name, sp_owning_team = team, sp_department = department,
          sp_tier = tier, sp_criticality = (if tier = Tier_1 then Crit_critical else Crit_high),
          sp_support_hours = (if tier = Tier_1 then ''24x7'' else ''06:00-22:00 UTC daily''),
          sp_lifecycle_status = Life_active \<rparr>,
        sr_last_deployment_date = days_from_civil 2026 7 (10 + int index),
        sr_metrics = map (\<lambda>(period, multiplier, offset).
          \<lparr> om_service_name = name, om_period = period,
            om_availability_percentage = availability - of_nat offset / 100,
            om_request_count = (index + 2) * multiplier,
            om_error_rate_percentage = 100 - availability + of_nat offset / 100,
            om_p95_latency_ms = latency + offset * 9,
            om_active_incidents = index mod 2,
            om_snapshot_timestamp = SNAPSHOT_TIME \<rparr>)
          [(Period_current, 13000, 0), (Period_24h, 260000, 1), (Period_7d, 1820000, 2)],
        sr_change_windows =
          [\<lparr> cw_change_id = ''CHG-'' @ show_nat (2100 + index),
             cw_change_type = ''Routine platform maintenance'',
             cw_start_time = start, cw_end_time = start + 7200000000,
             cw_status = (if index mod 2 = 0 then Change_approved else Change_planned),
             cw_affected_service = name, cw_owning_team = team \<rparr>] \<rparr>))"

definition service_catalog :: "(string, service_record) dict" where
  "service_catalog =
     map (\<lambda>(i, row). (sp_service_name (sr_profile (make_record i row)), make_record i row))
       (enumerate 0 service_rows)"

definition SERVICE_NAMES :: "string list" where "SERVICE_NAMES = dict_keys service_catalog"

definition get_record :: "string \<Rightarrow> (unit, service_record) result" where
  "get_record name =
     bind_result (normalize_service_name name) (\<lambda>n.
       case map_of service_catalog n of None \<Rightarrow> Raise () | Some r \<Rightarrow> Return r)"

section \<open>The handlers of the server\<close>

definition get_service_profile :: "string \<Rightarrow> (unit, mcp_result) result" where
  "get_service_profile name =
     bind_result (normalize_service_name name) (\<lambda>n.
     bind_result (get_record n) (\<lambda>r. Return (Result_profile (sr_profile r))))"

definition get_operational_metrics :: "string \<Rightarrow> metric_period \<Rightarrow> (unit, mcp_result) result" where
  "get_operational_metrics name period =
     bind_result (normalize_service_name name) (\<lambda>n.
     bind_result (get_record n) (\<lambda>r.
       case List.find (\<lambda>m. om_period m = period) (sr_metrics r) of
         None \<Rightarrow> Raise () | Some m \<Rightarrow> Return (Result_metrics m)))"

definition get_change_windows ::
  "string \<Rightarrow> date option \<Rightarrow> date option \<Rightarrow> (unit, mcp_result) result" where
  "get_change_windows name from_date to_date =
     bind_result (normalize_service_name name) (\<lambda>n.
     bind_result (guard_result (change_window_range_ok from_date to_date) ()) (\<lambda>_.
     bind_result (get_record n) (\<lambda>r.
       Return (Result_windows n (filter (\<lambda>w.
         (case from_date of None \<Rightarrow> True | Some lo \<Rightarrow> lo \<le> instant_date (cw_end_time w)) \<and>
         (case to_date of None \<Rightarrow> True | Some hi \<Rightarrow> instant_date (cw_start_time w) \<le> hi))
         (sr_change_windows r))))))"

definition result_count :: "mcp_result \<Rightarrow> nat" where
  "result_count r = (case r of Result_windows _ ws \<Rightarrow> length ws | _ \<Rightarrow> 1)"

section \<open>Selecting a tool\<close>

datatype mcp_error = MCPAuthorizationError | MCPInputError | MCPProtocolError
  | MCPUnavailableError | MCPTimeoutError | MCPOtherError  \<comment> \<open>not an \<open>MCPEnterpriseError\<close>\<close>

definition unsafe_query :: rx where
  "unsafe_query = alts [Cls False [CRange (CHR 0x00) (CHR 0x1F), COne (CHR 0x7F)],
     Seq (Lit ''..'') (Cls False [COne (CHR 0x5C), COne CHR ''/'']),
     seqs [Lit ''http'', rx_opt (Lit ''s''), Lit ''://''], Lit ''$('',
     seqs [Lit ''role'', rx_many (Cls False [CSpace]), Lit ''=''],
     seqs [plural ''permission'', rx_many (Cls False [CSpace]), Lit ''=''],
     Lit ''allowed_roles'', Lit ''ignore previous instructions'']"

definition iso_date_pattern :: rx where
  "iso_date_pattern = seqs [Boundary, Rep 4 (Some 4) True (Cls False [CDigit]), Lit ''-'',
     Rep 2 (Some 2) True (Cls False [CDigit]), Lit ''-'', Rep 2 (Some 2) True (Cls False [CDigit]), Boundary]"

fun parse_dates :: "string list \<Rightarrow> date list option" where
  "parse_dates [] = Some []"
| "parse_dates (s # ss) =
     (case date_from_iso s of None \<Rightarrow> None | Some d \<Rightarrow> map_option ((#) d) (parse_dates ss))"

definition matched_services :: "string \<Rightarrow> string list" where
  "matched_services folded = filter (\<lambda>n. rx_search False (word_then [Lit n]) folded) SERVICE_NAMES"

definition select_mcp_tool :: "string \<Rightarrow> (mcp_error, selected_mcp_tool) result" where
  "select_mcp_tool query =
     (let folded = casefold query; matched = matched_services folded;
          select = (\<lambda>tool period a b. Return \<lparr> sm_tool_name = tool, sm_service_name = hd matched,
            sm_period = period, sm_start_date = a, sm_end_date = b \<rparr>) in
      if 4000 < length query \<or> rx_search True unsafe_query query then Raise MCPInputError
      else if length matched \<noteq> 1 then Raise MCPInputError
      else if mentions_any [''p95'', ''latency'', ''availability'', ''error rate'', ''request count'',
          ''metrics''] folded
      then select Mcp_operational_metrics
             (Some (if mentions_any [''7d'', ''7 day''] folded then Period_7d
                    else if contains_text ''current'' folded then Period_current else Period_24h)) None None
      else if mentions_any [''change'', ''deployment'', ''maintenance'', ''release window''] folded
      then (case parse_dates (rx_findall False iso_date_pattern folded) of
          None \<Rightarrow> Raise MCPInputError
        | Some dates \<Rightarrow>
            (if 2 < length dates then Raise MCPInputError
             else select Mcp_change_windows None
               (if dates = [] then None else Some (dates ! 0))
               (if length dates = 2 then Some (dates ! 1) else None)))
      else if mentions_any [''who owns'', ''owner'', ''team'', ''department'', ''tier'', ''criticality'',
          ''support''] folded
      then select Mcp_service_profile None None None
      else Raise MCPInputError)"

section \<open>Executing a selection\<close>

text \<open>What the server answers to a selection.\<close>

definition serve :: "selected_mcp_tool \<Rightarrow> (unit, mcp_result) result" where
  "serve sel =
     (case sm_tool_name sel of
        Mcp_service_profile \<Rightarrow> get_service_profile (sm_service_name sel)
      | Mcp_operational_metrics \<Rightarrow>
          get_operational_metrics (sm_service_name sel)
            (case sm_period sel of None \<Rightarrow> Period_24h | Some p \<Rightarrow> p)
      | Mcp_change_windows \<Rightarrow>
          get_change_windows (sm_service_name sel) (sm_start_date sel) (sm_end_date sel))"

text \<open>Building the argument model on the client side, which may already fail.\<close>

definition client_arguments_ok :: "selected_mcp_tool \<Rightarrow> bool" where
  "client_arguments_ok sel =
     ((case normalize_service_name (sm_service_name sel) of Inl _ \<Rightarrow> False | Inr _ \<Rightarrow> True) \<and>
      (sm_tool_name sel = Mcp_change_windows \<longrightarrow>
         change_window_range_ok (sm_start_date sel) (sm_end_date sel)))"

fun tier_text :: "service_tier \<Rightarrow> string" where
  "tier_text Tier_1 = ''tier_1''" | "tier_text Tier_2 = ''tier_2''" | "tier_text Tier_3 = ''tier_3''"

fun criticality_text :: "business_criticality \<Rightarrow> string" where
  "criticality_text Crit_critical = ''critical''" | "criticality_text Crit_high = ''high''"
| "criticality_text Crit_moderate = ''moderate''"

fun lifecycle_text :: "lifecycle_status \<Rightarrow> string" where
  "lifecycle_text Life_active = ''active''" | "lifecycle_text Life_maintenance = ''maintenance''"
| "lifecycle_text Life_retiring = ''retiring''"

fun change_status_text :: "change_status \<Rightarrow> string" where
  "change_status_text Change_planned = ''planned''" | "change_status_text Change_approved = ''approved''"
| "change_status_text Change_completed = ''completed''"

fun period_text :: "metric_period \<Rightarrow> string" where
  "period_text Period_current = ''current''" | "period_text Period_24h = ''24h''"
| "period_text Period_7d = ''7d''"

definition source_notice :: string where "source_notice = ''Source: Fictional enterprise MCP data.''"

fun mcp_response :: "mcp_result \<Rightarrow> string" where
  "mcp_response (Result_profile p) =
     sp_service_name p @ '' is owned by '' @ sp_owning_team p @ '' in '' @ sp_department p @
     ''; tier '' @ tier_text (sp_tier p) @ '', criticality '' @ criticality_text (sp_criticality p) @
     '', support '' @ sp_support_hours p @ '', lifecycle '' @ lifecycle_text (sp_lifecycle_status p) @
     ''. '' @ source_notice"
| "mcp_response (Result_metrics m) =
     om_service_name m @ '' '' @ period_text (om_period m) @ '' metrics: availability '' @
     format_2f (om_availability_percentage m) @ ''%, error rate '' @
     format_2f (om_error_rate_percentage m) @ ''%, p95 latency '' @ show_nat (om_p95_latency_ms m) @
     '' ms, request count '' @ show_nat (om_request_count m) @ '', active incidents '' @
     show_nat (om_active_incidents m) @ ''. '' @ source_notice"
| "mcp_response (Result_windows n ws) =
     (if ws = [] then ''No matching change windows were found for '' @ n @ ''. '' @ source_notice
      else n @ '' change windows: '' @ join_text ''; '' (map (\<lambda>w.
        cw_change_id w @ '' '' @ cw_change_type w @ '' from '' @ instant_text (cw_start_time w) @
        '' to '' @ instant_text (cw_end_time w) @ '' ('' @ change_status_text (cw_status w) @ '')'') ws) @
        ''. '' @ source_notice)"

text \<open>\<open>transport\<close> is the SDK session: it runs the selected handler or raises.\<close>

definition mcp_execute ::
  "(selected_mcp_tool \<Rightarrow> (mcp_error, mcp_result) result) \<Rightarrow> authenticated_principal \<Rightarrow>
   selected_mcp_tool \<Rightarrow> (mcp_error, mcp_execution) result" where
  "mcp_execute transport p sel =
     (if \<not> has_permission p (Some Perm_mcp_tools) then Raise MCPAuthorizationError
      else if \<not> client_arguments_ok sel then Raise MCPOtherError
      else bind_result (transport sel) (\<lambda>r.
        let text = mcp_response r in
        if in_range 1 (length text) 4000 then
          Return \<lparr> mx_tool_name = sm_tool_name sel, mx_result = r,
            mx_provenance = \<lparr> mp_tool_name = sm_tool_name sel, mp_record_identifier = sm_service_name sel,
              mp_snapshot_timestamp =
                (case r of Result_metrics m \<Rightarrow> Some (om_snapshot_timestamp m) | _ \<Rightarrow> None) \<rparr>,
            mx_response_text = text \<rparr>
        else Raise MCPOtherError))"

text \<open>The in-memory transport: a failing handler is an error result, a protocol error.\<close>

definition memory_transport :: "selected_mcp_tool \<Rightarrow> (mcp_error, mcp_result) result" where
  "memory_transport sel =
     (case serve sel of Inl _ \<Rightarrow> Raise MCPProtocolError | Inr r \<Rightarrow> Return r)"

end
