(* ===== verification/Graph_Nodes.thy ===== *)
theory Graph_Nodes
  imports Graph_State Enterprise_Tools
begin

text \<open>
  The nodes of the graph (graph/nodes.py).  A node body takes the state and the memory store and
  returns the events it emits, the dictionary it returns (or that it raised) and the store.  The
  injected collaborators (retriever, memory, analysis, research, responses, MCP service and the
  ingestion artifacts) are the fields of \<open>graph_services\<close>.  \<open>guarded\<close> adds the step budget, the
  event journal and the conversion of exceptions.
\<close>

section \<open>Injected services\<close>

datatype retrieve_failure = Retrieval_raised retrieval_error | Retrieval_timed_out

text \<open>\<open>except (RetrievalError, TimeoutError)\<close>.\<close>

fun is_retrieval_failure :: "retrieve_failure \<Rightarrow> bool" where
  "is_retrieval_failure (Retrieval_raised (PyValueError _)) = False"
| "is_retrieval_failure (Retrieval_raised (Foreign_error _)) = False"
| "is_retrieval_failure (Retrieval_raised _) = True"
| "is_retrieval_failure Retrieval_timed_out = True"

record 'm graph_services =
  sv_settings :: retrieval_settings
  sv_memory_load :: "uuid \<Rightarrow> authenticated_principal \<Rightarrow> 'm \<Rightarrow>
    (memory_error, memory_load_result) result \<times> 'm"
  sv_memory_update :: "authenticated_principal \<Rightarrow> update_request \<Rightarrow> 'm \<Rightarrow>
    (memory_error, memory_write_result) result \<times> 'm"
  sv_retrieve :: "authenticated_principal \<Rightarrow> string \<Rightarrow> nat \<Rightarrow> dense_query_filters \<Rightarrow>
    (retrieve_failure, hybrid_retrieval_result) result"
  sv_fingerprint :: "(unit, string) result"
  sv_chunks :: "(unit, chunk_record list) result"
  sv_analysis :: "authenticated_principal \<Rightarrow> analysis_request \<Rightarrow> uuid \<Rightarrow> uuid \<Rightarrow>
    (unit, analysis_result) result"
  sv_mcp_execute :: "authenticated_principal \<Rightarrow> selected_mcp_tool \<Rightarrow> (mcp_error, mcp_execution) result"
  sv_research :: "research_request \<Rightarrow> (unit, research_result) result"
  sv_analysis_response :: "string \<Rightarrow> analysis_result \<Rightarrow> (unit, grounded_response) result"
  sv_research_response :: "string \<Rightarrow> hybrid_evidence list \<Rightarrow> authenticated_principal \<Rightarrow>
    research_result \<Rightarrow>
    (unit, grounded_response \<times> answer_draft \<times> citation_validation \<times> nat \<times> nat) result"
  sv_retrieval_response :: "string \<Rightarrow> hybrid_evidence list \<Rightarrow> authenticated_principal \<Rightarrow>
    (unit, grounded_response \<times> answer_draft \<times> citation_validation \<times> nat) result"

record 'm node_result =
  nr_events :: "event_draft list"
  nr_outcome :: "(unit, channel_write list) result"
  nr_memory :: 'm

definition node_return :: "event_draft list \<Rightarrow> channel_write list \<Rightarrow> 'm \<Rightarrow> 'm node_result" where
  "node_return evs ws m = \<lparr> nr_events = evs, nr_outcome = Return ws, nr_memory = m \<rparr>"

definition node_raise :: "event_draft list \<Rightarrow> 'm \<Rightarrow> 'm node_result" where
  "node_raise evs m = \<lparr> nr_events = evs, nr_outcome = Raise (), nr_memory = m \<rparr>"

lemmas node_result_defs = node_return_def node_raise_def

definition draft :: "event_type \<Rightarrow> event_status \<Rightarrow> string \<Rightarrow> string \<Rightarrow> event_payload \<Rightarrow> event_draft" where
  "draft t s message node payload = \<lparr> ed_type = t, ed_status = s, ed_message = message,
     ed_node = Some node, ed_payload = payload \<rparr>"

definition node_drafts :: "string \<Rightarrow> string \<Rightarrow> event_draft list" where
  "node_drafts node message =
     [draft Ev_node_started ES_started (node @ '' started.'') node empty_payload,
      draft Ev_node_completed ES_completed message node empty_payload]"

definition graph_failure :: "string \<Rightarrow> string \<Rightarrow> string \<Rightarrow> channel_write list" where
  "graph_failure code message node =
     [W_failure True,
      W_errors [\<lparr> ge_code = code, ge_safe_message = message, ge_retryable = False, ge_node = Some node \<rparr>],
      W_visited_nodes [node]]"

definition next_step :: "graph_state \<Rightarrow> nat" where
  "next_step st = (case gs_execution_step_count st of None \<Rightarrow> 0 | Some n \<Rightarrow> n) + 1"

definition get_or :: "'a \<Rightarrow> 'a option \<Rightarrow> 'a" where
  "get_or d x = (case x of None \<Rightarrow> d | Some y \<Rightarrow> y)"

lemma get_or_simps [simp]: "get_or d None = d" "get_or d (Some y) = y"
  by (simp_all add: get_or_def)

section \<open>Entry nodes\<close>

definition initialize_drafts :: "event_draft list" where
  "initialize_drafts =
     [\<lparr> ed_type = Ev_request_accepted, ed_status = ES_accepted, ed_message = ''Request accepted.'',
        ed_node = None, ed_payload = empty_payload \<rparr>,
      \<lparr> ed_type = Ev_graph_started, ed_status = ES_started, ed_message = ''Baseline graph started.'',
        ed_node = None, ed_payload = empty_payload \<rparr>]"

text \<open>\<open>initialize\<close> is not guarded; it numbers its two events from an empty history.\<close>

definition initialize_writes :: "retrieval_settings \<Rightarrow> graph_state \<Rightarrow> channel_write list" where
  "initialize_writes cfg st =
     [W_processing_status PS_running, W_maximum_execution_steps (graph_max_steps cfg),
      W_execution_step_count 1, W_activity_events (history_events st 0 initialize_drafts),
      W_visited_nodes [''initialize_request''], W_failure (get_or False (gs_failure st))]"

definition validate_request :: "'m graph_services \<Rightarrow> graph_state \<Rightarrow> 'm \<Rightarrow> 'm node_result" where
  "validate_request sv st m =
     (let valid = (\<not> get_or False (gs_failure st) \<and> strip (gs_user_message st) \<noteq> [] \<and>
            in_range 1 (gs_requested_top_k st) 100);
          verdict = (if valid then VR_passed else VR_failed);
          report = \<lparr> vrep_result = verdict, vrep_findings =
            [\<lparr> vf_code = (if valid then ''graph.input.valid'' else ''graph.input.invalid''),
               vf_result = verdict,
               vf_public_message = (if valid then ''Request validation passed.''
                                    else ''Request is invalid.'') \<rparr>] \<rparr>;
          normalized = join_text '' '' (split_words (gs_user_message st)) in
      node_return (node_drafts ''validate_request'' ''Request validated.'')
        [W_normalized_query normalized,
         W_requested_identifiers (extract_enterprise_identifiers normalized),
         W_validation_reports [report], W_failure (\<not> valid),
         W_visited_nodes [''validate_request''], W_execution_step_count (next_step st)] m)"

fun intent_text :: "intent \<Rightarrow> string" where
  "intent_text Intent_security_denial = ''security_denial''"
| "intent_text Intent_conversational = ''conversational''"
| "intent_text Intent_knowledge_lookup = ''knowledge_lookup''"
| "intent_text Intent_cross_document_research = ''cross_document_research''"
| "intent_text Intent_structured_analysis = ''structured_analysis''"
| "intent_text Intent_enterprise_tool_lookup = ''enterprise_tool_lookup''"
| "intent_text Intent_administrative = ''administrative''"
| "intent_text Intent_unsupported = ''unsupported''"

fun route_text :: "route \<Rightarrow> string" where
  "route_text Route_direct_response = ''direct_response''"
| "route_text Route_simple_retrieval = ''simple_retrieval''"
| "route_text Route_recursive_research = ''recursive_research''"
| "route_text Route_python_analysis = ''python_analysis''"
| "route_text Route_mcp_tool = ''mcp_tool''"
| "route_text Route_human_approval = ''human_approval''"
| "route_text Route_deny = ''deny''"
| "route_text Route_unsupported = ''unsupported''"
| "route_text Route_failure = ''failure''"

definition classify_intent :: "'m graph_services \<Rightarrow> graph_state \<Rightarrow> 'm \<Rightarrow> 'm node_result" where
  "classify_intent sv st m =
     (case gs_normalized_query st of
        None \<Rightarrow> node_raise [] m
      | Some q \<Rightarrow>
          (let c = classify q in
           node_return (node_drafts ''classify_intent'' (''Classified as '' @ intent_text (fst c) @ ''.''))
             [W_detected_intent (fst c), W_task_complexity (snd c),
              W_aggregate_intent_present (has_explicit_aggregate_intent q),
              W_security_denial_category (security_denial_category q),
              W_visited_nodes [''classify_intent''], W_execution_step_count (next_step st)] m))"

definition load_memory :: "'m graph_services \<Rightarrow> graph_state \<Rightarrow> 'm \<Rightarrow> 'm node_result" where
  "load_memory sv st m =
     (let started = draft Ev_memory_load_started ES_started ''Session memory load started.''
            ''load_memory'' empty_payload in
      case sv_memory_load sv (gs_session_id st) (gs_principal st) m of
        (Inl e, m') \<Rightarrow>
          (if is_memory_error e then
             node_return [started]
               [W_warnings [''Session memory could not be loaded; continuing statelessly.''],
                W_conversation_context empty_context, W_memory_used False,
                W_memory_update_status ''load_failed'', W_visited_nodes [''load_memory'']] m'
           else node_raise [started] m')
      | (Inr r, m') \<Rightarrow>
          (let context = (case ml_snapshot r of None \<Rightarrow> empty_context | Some sn \<Rightarrow> sn_context sn);
               references = (case ml_snapshot r of None \<Rightarrow> 0 | Some sn \<Rightarrow> sn_evidence_reference_count sn) in
           node_return
             [started, draft Ev_memory_loaded ES_completed ''Session memory loaded.'' ''load_memory''
                (empty_payload\<lparr> ep_turn_count := Some (mc_turn_count context),
                   ep_evidence_reference_count := Some references \<rparr>)]
             [W_conversation_context context,
              W_memory_used (case ml_snapshot r of None \<Rightarrow> False | Some sn \<Rightarrow> 0 < sn_turn_count sn),
              W_memory_update_status (if ml_enabled r then ''loaded'' else ''disabled''),
              W_visited_nodes [''load_memory'']] m'))"

definition resolve_followup_context :: "'m graph_services \<Rightarrow> graph_state \<Rightarrow> 'm \<Rightarrow> 'm node_result" where
  "resolve_followup_context sv st m =
     (case resolve_followup 4000 (gs_original_query st)
             (get_or empty_context (gs_conversation_context st)) of
        (query0, detected, used0) \<Rightarrow>
          (let enabled = memory_followup_context_enabled (sv_settings sv);
               query = (if enabled then query0 else gs_original_query st);
               used = (if enabled then used0 else False) in
           node_return
             [draft Ev_memory_context_resolved ES_completed ''Follow-up context evaluated.''
                ''resolve_followup_context'' (empty_payload\<lparr> ep_context_used := Some used \<rparr>)]
             [W_resolved_query query, W_normalized_query query, W_context_reference_detected detected,
              W_context_used used, W_visited_nodes [''resolve_followup_context'']] m))"

text \<open>\<open>security_denial_category(...) or state.get(...)\<close>.\<close>

definition supervisor_denial :: "graph_state \<Rightarrow> string \<Rightarrow> security_denial option" where
  "supervisor_denial st q =
     (case security_denial_category q of
        Some c \<Rightarrow> Some c | None \<Rightarrow> gs_security_denial_category st)"

text \<open>The state key of the intent is only read when the request is not denied.\<close>

definition supervisor_route :: "graph_state \<Rightarrow> string \<Rightarrow> route option" where
  "supervisor_route st q =
     (if supervisor_denial st q \<noteq> None \<or> requests_inaccessible_access q (gs_principal st)
      then Some Route_deny
      else map_option (\<lambda>i. supervise i (gs_principal st)) (gs_detected_intent st))"

definition supervisor :: "'m graph_services \<Rightarrow> graph_state \<Rightarrow> 'm \<Rightarrow> 'm node_result" where
  "supervisor sv st m =
     (case gs_resolved_query st of
        None \<Rightarrow> node_raise [] m
      | Some q \<Rightarrow>
          (case supervisor_route st q of
             None \<Rightarrow> node_raise [] m
           | Some route \<Rightarrow>
               (let denial = supervisor_denial st q;
                    identifiers = (get_or [] (gs_requested_identifiers st) \<noteq> []) in
                node_return
                  [draft Ev_route_selected ES_completed (''Selected '' @ route_text route @ '' route.'')
                     ''supervisor''
                     (empty_payload\<lparr> ep_route := Some route, ep_exact_identifier_present := Some identifiers,
                        ep_aggregate_intent_present := Some (get_or False (gs_aggregate_intent_present st)),
                        ep_security_denial_category := denial,
                        ep_identifier_constraint_active :=
                          Some (identifiers \<and> route = Route_simple_retrieval) \<rparr>)]
                  [W_selected_route route, W_security_denial_category denial,
                   W_visited_nodes [''supervisor''], W_execution_step_count (next_step st)] m)))"

section \<open>Retrieval and evidence validation\<close>

definition simple_retrieval :: "'m graph_services \<Rightarrow> graph_state \<Rightarrow> 'm \<Rightarrow> 'm node_result" where
  "simple_retrieval sv st m =
     (let cfg = sv_settings sv;
          started = draft Ev_retrieval_started ES_started
            (if get_or [] (gs_requested_identifiers st) \<noteq> []
             then ''Authorized retrieval started; exact identifier constraint applied.''
             else ''Authorized retrieval started.'') ''simple_retrieval'' empty_payload in
      case gs_normalized_query st of
        None \<Rightarrow> node_raise [started] m
      | Some q \<Rightarrow>
          (case sv_retrieve sv (gs_principal st) q
                  (min (gs_requested_top_k st) (graph_max_evidence_items cfg)) (gs_retrieval_filters st) of
             Inl e \<Rightarrow>
               (if is_retrieval_failure e then
                  node_return [started]
                    (graph_failure ''graph.retrieval_failed'' ''Knowledge retrieval failed safely.''
                       ''simple_retrieval'') m
                else node_raise [started] m)
           | Inr r \<Rightarrow>
               node_return
                 [started, draft Ev_retrieval_completed ES_completed
                    (''Retrieved '' @ show_nat (length (hrr_evidence r)) @ '' authorized evidence items.'')
                    ''simple_retrieval''
                    (empty_payload\<lparr> ep_result_count := Some (length (hrr_evidence r)) \<rparr>)]
                 [W_retrieved_evidence (take (graph_max_evidence_items cfg) (hrr_evidence r)),
                  W_warnings (take (graph_max_warnings cfg) (hrr_warnings r)),
                  W_retrieval_status (if hrr_completion_status r = CS_partial_success
                    then ''partial_success'' else ''complete''),
                  W_processing_status (if hrr_completion_status r = CS_partial_success
                    then PS_partial_success else PS_running),
                  W_visited_nodes [''simple_retrieval''], W_execution_step_count (next_step st)] m))"

text \<open>The rejection test of one item; \<open>seen\<close> holds the chunk ids accepted so far.  The type tests on
  the ids and the finiteness test hold for every value of the record types.\<close>

definition evidence_rejected ::
  "authenticated_principal \<Rightarrow> string \<Rightarrow> enterprise_identifier list \<Rightarrow> uuid set \<Rightarrow> uuid list \<Rightarrow>
   hybrid_evidence \<Rightarrow> bool" where
  "evidence_rejected p fingerprint identifiers exact seen item =
     (let e = he_evidence item in
      de_chunk_id e \<in> set seen \<or>
      de_access_level e \<notin> allowed_access_levels p \<or>
      principal_role p \<notin> de_allowed_roles e \<or>
      de_source_line_end e < de_source_line_start e \<or>
      de_build_fingerprint e \<noteq> fingerprint \<or>
      contains_untrusted_instruction (de_text e) \<or>
      (identifiers \<noteq> [] \<and> de_document_id e \<notin> exact))"

fun filter_evidence ::
  "authenticated_principal \<Rightarrow> string \<Rightarrow> enterprise_identifier list \<Rightarrow> uuid set \<Rightarrow> uuid list \<Rightarrow>
   hybrid_evidence list \<Rightarrow> hybrid_evidence list \<times> nat" where
  "filter_evidence p fp ids exact seen [] = ([], 0)"
| "filter_evidence p fp ids exact seen (item # rest) =
     (if evidence_rejected p fp ids exact seen item
      then (let r = filter_evidence p fp ids exact seen rest in (fst r, Suc (snd r)))
      else (let r = filter_evidence p fp ids exact (de_chunk_id (he_evidence item) # seen) rest in
            (item # fst r, snd r)))"

definition validate_evidence :: "'m graph_services \<Rightarrow> graph_state \<Rightarrow> 'm \<Rightarrow> 'm node_result" where
  "validate_evidence sv st m =
     (let identifiers = get_or [] (gs_requested_identifiers st) in
      case (sv_fingerprint sv, if identifiers = [] then Return [] else sv_chunks sv) of
        (Inr fingerprint, Inr chunks) \<Rightarrow>
          (let exact = matching_document_ids chunks identifiers;
               r = filter_evidence (gs_principal st) fingerprint identifiers exact []
                     (gs_retrieved_evidence st);
               valid = fst r; rejected = snd r;
               missing = (identifiers \<noteq> [] \<and> valid = []);
               verdict = (if rejected \<noteq> 0 \<or> missing then VR_warning else VR_passed);
               report = \<lparr> vrep_result = verdict, vrep_findings =
                 [\<lparr> vf_code = (if missing then ''graph.evidence.exact_identifier_missing''
                       else if identifiers \<noteq> [] then ''graph.evidence.exact_identifier_matched''
                       else ''graph.evidence.valid''),
                    vf_result = verdict,
                    vf_public_message = (if missing then ''No authorized exact match found.''
                       else if identifiers \<noteq> [] then ''Authorized matching evidence validated.''
                       else if rejected \<noteq> 0 then ''Validated '' @ show_nat (length valid) @
                         '' evidence items; rejected '' @ show_nat rejected @ ''.''
                       else ''Validated '' @ show_nat (length valid) @ '' evidence items.'') \<rparr>] \<rparr> in
           node_return
             [draft Ev_validation_completed ES_completed ''Evidence validation completed.''
                ''validate_evidence'' (empty_payload\<lparr> ep_result_count := Some (length valid) \<rparr>)]
             [W_retrieved_evidence valid,
              W_warnings (if missing then [''No authorized exact match found.'']
                else if rejected \<noteq> 0 then
                  [''Rejected '' @ show_nat rejected @ '' unauthorized or malformed evidence items.'']
                else []),
              W_validation_reports [report], W_visited_nodes [''validate_evidence'']] m)
      | _ \<Rightarrow> node_raise [] m)"


section \<open>Direct answers\<close>

definition direct_response :: "'m graph_services \<Rightarrow> graph_state \<Rightarrow> 'm \<Rightarrow> 'm node_result" where
  "direct_response sv st m =
     node_return (node_drafts ''direct_response'' ''Prepared deterministic response.'')
       [W_response_text (''Hello. I can route authorized enterprise knowledge lookups; '' @
          ''generative answers are not implemented.''),
        W_visited_nodes [''direct_response'']] m"

definition deny_request :: "'m graph_services \<Rightarrow> graph_state \<Rightarrow> 'm \<Rightarrow> 'm node_result" where
  "deny_request sv st m =
     node_return (node_drafts ''deny_request'' ''Request denied safely.'')
       [W_processing_status PS_denied,
        W_response_text (if gs_security_denial_category st \<noteq> None
          then ''Secrets, credentials, private configuration, and protected instructions '' @
            ''cannot be disclosed.''
          else ''Your role does not permit this operation.''),
        W_retrieved_evidence [], W_visited_nodes [''deny_request'']] m"

definition unsupported :: "'m graph_services \<Rightarrow> graph_state \<Rightarrow> 'm \<Rightarrow> 'm node_result" where
  "unsupported sv st m =
     node_return (node_drafts ''unsupported'' ''Capability deferred.'')
       [W_response_text ''This capability is explicitly not implemented in the baseline graph.'',
        W_warnings [''Requested capability is unavailable.''], W_visited_nodes [''unsupported'']] m"

text \<open>\<open>state.get("response_text") or ...\<close>: an empty text counts as missing.\<close>

definition prepare_output :: "'m graph_services \<Rightarrow> graph_state \<Rightarrow> 'm \<Rightarrow> 'm node_result" where
  "prepare_output sv st m =
     (let fallback = (case gs_analysis_result st of
            Some a \<Rightarrow> an_summary a
          | None \<Rightarrow> ''Authorized evidence was retrieved and validated. '' @
              ''Generative answer synthesis is not implemented.'');
          response = (case gs_response_text st of
            None \<Rightarrow> fallback | Some t \<Rightarrow> if t = [] then fallback else t) in
      node_return (node_drafts ''prepare_output'' ''Public output prepared.'')
        [W_response_text response, W_visited_nodes [''prepare_output'']] m)"

section \<open>Tools\<close>

definition python_analysis :: "'m graph_services \<Rightarrow> graph_state \<Rightarrow> 'm \<Rightarrow> 'm node_result" where
  "python_analysis sv st m =
     (let d = (\<lambda>t s message payload. draft t s message ''python_analysis'' payload);
          requested = d Ev_tool_authorization_started ES_started
            ''Python analysis authorization started.'' empty_payload;
          authorized = d Ev_tool_authorized ES_completed ''Python analysis authorized.'' empty_payload;
          started = d Ev_tool_started ES_started ''Structured Python analysis started.'' empty_payload in
      if \<not> analysis_permitted (sv_settings sv) (gs_principal st) then node_raise [requested] m
      else case gs_resolved_query st of
        None \<Rightarrow> node_raise [requested, authorized, started] m
      | Some q \<Rightarrow>
          (case plan_analysis q of
             Inl _ \<Rightarrow> node_raise [requested, authorized, started] m
           | Inr request \<Rightarrow>
               (case sv_analysis sv (gs_principal st) request (gs_request_id st) (gs_trace_id st) of
                  Inl _ \<Rightarrow> node_raise [requested, authorized, started] m
                | Inr r \<Rightarrow>
                    node_return [requested, authorized, started,
                        d Ev_tool_completed ES_completed ''Structured Python analysis completed.''
                          (empty_payload\<lparr> ep_result_count := Some (length (an_items r)) \<rparr>)]
                      [W_analysis_request request, W_analysis_result r, W_response_text (an_summary r),
                       W_visited_nodes [''python_analysis'']] m)))"

definition mcp_payload :: "mcp_tool option \<Rightarrow> event_payload" where
  "mcp_payload tool = empty_payload\<lparr> ep_route := Some Route_mcp_tool, ep_mcp_tool_name := tool,
     ep_server_identifier := Some SERVER_NAME \<rparr>"

definition execute_mcp_tool :: "'m graph_services \<Rightarrow> graph_state \<Rightarrow> 'm \<Rightarrow> 'm node_result" where
  "execute_mcp_tool sv st m =
     (let d = (\<lambda>t s message payload. draft t s message ''execute_mcp_tool'' payload) in
      case gs_resolved_query st of
        None \<Rightarrow> node_raise [] m
      | Some q \<Rightarrow>
          (case select_mcp_tool q of
             Inl _ \<Rightarrow>
               node_return [d Ev_mcp_failed ES_warning
                   ''Enterprise data request needs one exact supported service and operation.''
                   (mcp_payload None)]
                 [W_processing_status PS_partial_success,
                  W_response_text (''Provide one exact fictional service name and request its profile, metrics, '' @
                    ''or change windows.''),
                  W_visited_nodes [''execute_mcp_tool'']] m
           | Inr sel \<Rightarrow>
               (let payload = mcp_payload (Some (sm_tool_name sel));
                    started = d Ev_mcp_started ES_started
                      ''Authorized enterprise data operation started.'' payload;
                    selected = d Ev_mcp_tool_selected ES_completed
                      ''A read-only enterprise data tool was selected.'' payload in
                case sv_mcp_execute sv (gs_principal st) sel of
                  Inl MCPAuthorizationError \<Rightarrow>
                    node_return [started, selected,
                        d Ev_mcp_denied ES_denied ''Enterprise data operation denied.'' payload]
                      [W_processing_status PS_denied,
                       W_response_text ''Your role does not permit this operation.'',
                       W_visited_nodes [''execute_mcp_tool'']] m
                | Inl MCPOtherError \<Rightarrow> node_raise [started, selected] m
                | Inl _ \<Rightarrow>
                    node_return [started, selected,
                        d Ev_mcp_failed ES_failed ''Enterprise data operation failed safely.'' payload]
                      (graph_failure ''mcp.operation_failed'' ''Enterprise data operation failed safely.''
                         ''execute_mcp_tool'') m
                | Inr x \<Rightarrow>
                    node_return [started, selected,
                        d Ev_mcp_completed ES_completed ''Enterprise data operation completed.''
                          (payload\<lparr> ep_result_count := Some (result_count (mx_result x)),
                             ep_duration_category := Some ''bounded'' \<rparr>)]
                      [W_mcp_execution x, W_response_text (mx_response_text x),
                       W_visited_nodes [''execute_mcp_tool'']] m)))"

section \<open>Research\<close>

definition worker_drafts :: "string \<Rightarrow> worker_result \<Rightarrow> event_draft list" where
  "worker_drafts plan w =
     (let d = (\<lambda>t s message. draft t s message ''cross_document_research''
            (empty_payload\<lparr> ep_plan_id := Some plan, ep_task_id := Some (wr_task_id w),
               ep_parent_task_id := wr_parent_task_id w, ep_depth := Some (wr_depth w),
               ep_round_number := Some (wr_depth w),
               ep_evidence_count := Some (length (wr_evidence w)) \<rparr>));
          failed = (case wr_error_category w of None \<Rightarrow> False | Some e \<Rightarrow> e \<noteq> []) in
      [d Ev_research_worker_dispatched ES_completed ''Research worker dispatched.'',
       d Ev_research_worker_started ES_started ''Research worker started.'',
       d Ev_research_retrieval_completed ES_completed ''Research retrieval completed.''] @
      (if wr_analysis_result w \<noteq> None
       then [d Ev_research_analysis_completed ES_completed ''Research analysis completed.''] else []) @
      [if failed then d Ev_research_worker_failed ES_failed ''Research worker failed safely.''
       else d Ev_research_worker_completed ES_completed ''Research worker completed.''])"

definition partial_research :: "coverage_status \<Rightarrow> bool" where
  "partial_research s = (s \<in> {Cov_partially_sufficient, Cov_insufficient,
     Cov_blocked_by_authorization, Cov_budget_exhausted})"

definition research_drafts :: "research_result \<Rightarrow> event_draft list" where
  "research_drafts r =
     (let node = ''cross_document_research''; plan = pl_plan_id (rs_plan r);
          plan_payload = empty_payload\<lparr> ep_plan_id := Some plan \<rparr>;
          summary = empty_payload\<lparr> ep_plan_id := Some plan,
            ep_worker_count := Some (length (rs_worker_results r)),
            ep_evidence_count := Some (length (el_entries (rs_evidence_ledger r))),
            ep_gap_count := Some (length (rs_gaps r)),
            ep_conflict_count := Some (length (rs_conflicts r)) \<rparr>;
          status = ca_status (rs_coverage r);
          partial_run = partial_research status; failed = (status = Cov_failed) in
      [draft Ev_research_catalog_completed ES_completed ''Authorized catalog completed.'' node plan_payload,
       draft Ev_research_plan_created ES_completed ''Research plan created.'' node plan_payload,
       draft Ev_research_plan_validated ES_completed ''Research plan validated.'' node plan_payload] @
      concat (map (worker_drafts plan) (rs_worker_results r)) @
      [draft Ev_research_round_completed ES_completed ''Research rounds completed.'' node summary] @
      (if list_ex (\<lambda>w. wr_depth w \<noteq> 0) (rs_worker_results r)
       then [draft Ev_research_child_tasks_created ES_completed ''Research child tasks completed.'' node
               summary] else []) @
      [draft Ev_research_aggregation_completed ES_completed ''Research aggregation completed.'' node summary,
       draft Ev_research_coverage_assessed ES_completed ''Research coverage assessed.'' node summary] @
      (if bu_exhausted (rs_budget_usage r)
       then [draft Ev_research_budget_exhausted ES_warning ''Research budget exhausted.'' node summary]
       else []) @
      (if (rs_warnings r \<noteq> [] \<or> rs_gaps r \<noteq> [] \<or> partial_run) \<and> \<not> failed
       then [draft Ev_research_partial ES_warning ''Research completed with limitations.'' node summary]
       else []) @
      (if failed then [draft Ev_research_failed ES_failed ''Research failed safely.'' node summary]
       else if \<not> partial_run
       then [draft Ev_research_completed ES_completed ''Research completed.'' node summary] else []))"

definition research_warnings :: "research_result \<Rightarrow> string list" where
  "research_warnings r =
     rs_warnings r @ map (\<lambda>g. ''Research gap: '' @ rg_dimension g) (rs_gaps r) @
     map rc_description (rs_conflicts r)"

definition cross_document_research :: "'m graph_services \<Rightarrow> graph_state \<Rightarrow> 'm \<Rightarrow> 'm node_result" where
  "cross_document_research sv st m =
     (let node = ''cross_document_research'';
          opening = [draft Ev_research_started ES_started ''Research started.'' node empty_payload,
            draft Ev_research_planning_started ES_started ''Research planning started.'' node
              empty_payload];
          run = (case gs_resolved_query st of
            None \<Rightarrow> Raise ()
          | Some q \<Rightarrow> sv_research sv \<lparr> rr_question = q, rr_principal = gs_principal st,
              rr_request_id = gs_request_id st, rr_trace_id = gs_trace_id st,
              rr_session_id = gs_session_id st \<rparr>) in
      if \<not> research_enabled (sv_settings sv) then
        node_return [] (graph_failure ''research.disabled'' ''Research is disabled.'' node) m
      else case run of
        Inl _ \<Rightarrow>
          node_return (opening @ [draft Ev_research_failed ES_failed ''Research failed safely.'' node
              empty_payload])
            (graph_failure ''research.execution_failed'' ''Research failed safely.'' node) m
      | Inr r \<Rightarrow>
          node_return (opening @ research_drafts r)
            [W_research_result r,
             W_retrieved_evidence (map en_evidence (el_entries (rs_evidence_ledger r))),
             W_retrieval_status (coverage_status_text (ca_status (rs_coverage r))),
             W_warnings (research_warnings r), W_visited_nodes [node],
             W_failure (ca_status (rs_coverage r) = Cov_failed)] m)"

section \<open>Response and citations\<close>

definition grounded_writes :: "grounded_response \<Rightarrow> channel_write list" where
  "grounded_writes g =
     [W_grounded_response g, W_response_text (gr_answer_text g), W_provider_status ''completed'',
      W_deterministic_fallback_used (gr_deterministic_fallback_used g),
      W_fallback_reason (gr_fallback_reason g)]"

definition draft_writes ::
  "grounded_response \<Rightarrow> answer_draft \<Rightarrow> citation_validation \<Rightarrow> nat \<Rightarrow> channel_write list" where
  "draft_writes g d v repairs =
     [W_response_mode RM_grounded_retrieval, W_grounded_answer_draft d, W_citation_validation v,
      W_response_repair_count repairs] @ grounded_writes g"

definition charge_llm_calls :: "nat \<Rightarrow> research_result \<Rightarrow> research_result" where
  "charge_llm_calls calls r = r\<lparr> rs_budget_usage := (rs_budget_usage r)\<lparr>
     bu_llm_calls := bu_llm_calls (rs_budget_usage r) + calls,
     bu_exhausted := (bu_exhausted (rs_budget_usage r) \<or> calls = 0) \<rparr> \<rparr>"

text \<open>The response of the selected mode and the writes it leads to.\<close>

definition response_of ::
  "'m graph_services \<Rightarrow> graph_state \<Rightarrow> string \<Rightarrow> (unit, grounded_response \<times> channel_write list) result"
where
  "response_of sv st q =
     (case gs_analysis_result st of
        Some a \<Rightarrow>
          bind_result (sv_analysis_response sv q a) (\<lambda>g.
            Return (g, [W_response_mode RM_structured_analysis] @ grounded_writes g @
              [W_deterministic_analysis_rendering_used (gr_deterministic_analysis_rendering_used g)]))
      | None \<Rightarrow>
          (case gs_research_result st of
             Some r \<Rightarrow>
               bind_result (sv_research_response sv q (gs_retrieved_evidence st) (gs_principal st) r)
                 (\<lambda>(g, d, v, repairs, calls).
                   Return (g, draft_writes g d v repairs @ [W_research_result (charge_llm_calls calls r)] @
                     (if gr_fallback_reason g = Some FR_research_dimension_validation_failed
                      then [W_processing_status PS_partial_success] else [])))
           | None \<Rightarrow>
               bind_result (sv_retrieval_response sv q (gs_retrieved_evidence st) (gs_principal st))
                 (\<lambda>(g, d, v, repairs). Return (g, draft_writes g d v repairs))))"

definition generate_response :: "'m graph_services \<Rightarrow> graph_state \<Rightarrow> 'm \<Rightarrow> 'm node_result" where
  "generate_response sv st m =
     (let node = ''generate_response'';
          started = draft Ev_response_generation_started ES_started
            ''Grounded response generation started.'' node empty_payload in
      case gs_resolved_query st of
        None \<Rightarrow> node_raise [started] m
      | Some q \<Rightarrow>
          (case response_of sv st q of
             Inl _ \<Rightarrow> node_raise [started] m
           | Inr (g, ws) \<Rightarrow>
               node_return
                 ([started] @
                  (case gr_fallback_reason g of
                     None \<Rightarrow> []
                   | Some reason \<Rightarrow> [draft Ev_response_fallback_used ES_warning
                       ''A safe deterministic response was used.'' node
                       (empty_payload\<lparr> ep_error_code := Some (fallback_reason_text reason) \<rparr>)]) @
                  [draft Ev_response_generation_completed ES_completed
                     ''Grounded response generation completed.'' node empty_payload])
                 (ws @ [W_visited_nodes [node]]) m))"

text \<open>\<open>state["grounded_response"]\<close> is read only for an invalid validation; its absence raises.\<close>

definition validate_citations :: "'m graph_services \<Rightarrow> graph_state \<Rightarrow> 'm \<Rightarrow> 'm node_result" where
  "validate_citations sv st m =
     (let node = ''validate_citations'';
          started = draft Ev_citation_validation_started ES_started ''Citation validation started.'' node
            empty_payload;
          verdict = (case gs_citation_validation st of
            None \<Rightarrow> Some True
          | Some v \<Rightarrow> if cv_valid v then Some True
              else map_option gr_deterministic_fallback_used (gs_grounded_response st)) in
      case verdict of
        None \<Rightarrow> node_raise [started] m
      | Some valid \<Rightarrow>
          node_return [started,
              (if valid then draft Ev_citation_validation_completed ES_completed
                 ''Citation validation completed.'' node empty_payload
               else draft Ev_citation_validation_failed ES_failed
                 ''Citation validation failed safely.'' node empty_payload)]
            [W_failure (\<not> valid), W_visited_nodes [node]] m)"

section \<open>Memory update and the closing nodes\<close>

definition update_memory :: "'m graph_services \<Rightarrow> graph_state \<Rightarrow> 'm \<Rightarrow> 'm node_result" where
  "update_memory sv st m =
     (let node = ''update_memory'';
          started = draft Ev_memory_update_started ES_started ''Session memory update started.'' node
            empty_payload;
          status = get_or PS_running (gs_processing_status st);
          effective = (if status = PS_running then PS_completed else status) in
      case (gs_response_text st, gs_selected_route st) of
        (Some text, Some route) \<Rightarrow>
          (case sv_memory_update sv (gs_principal st)
                 \<lparr> ur_request_id = gs_request_id st, ur_session_id = gs_session_id st,
                   ur_user_message = gs_original_query st, ur_assistant_message = text,
                   ur_intent = get_or Intent_unsupported (gs_detected_intent st),
                   ur_selected_route = route, ur_completion_status = effective,
                   ur_evidence = gs_retrieved_evidence st, ur_warnings = gs_warnings st,
                   ur_created_at = gs_invocation_timestamp st \<rparr> m of
             (Inl e, m') \<Rightarrow>
               (if is_memory_error e then
                  node_return [started]
                    [W_warnings [''Response completed, but session memory was not updated.''],
                     W_memory_update_status ''failed'', W_visited_nodes [node]] m'
                else node_raise [started] m')
           | (Inr w, m') \<Rightarrow>
               node_return [started, draft Ev_memory_updated ES_completed
                   ''Session memory update completed.'' node
                   (empty_payload\<lparr> ep_evicted_turn_count := Some (mw_evicted_turns w) \<rparr>)]
                 [W_memory_update_status (if mw_duplicate w then ''duplicate''
                    else if mw_stored w then ''stored'' else ''skipped''),
                  W_memory_eviction_count (mw_evicted_turns w),
                  W_current_turn_sequence (mw_sequence_number w), W_visited_nodes [node]] m')
      | _ \<Rightarrow> node_raise [started] m)"

definition handle_failure_drafts :: "event_draft list" where
  "handle_failure_drafts = node_drafts ''handle_failure'' ''Failure handled safely.''"

definition handle_failure_writes :: "graph_state \<Rightarrow> channel_write list" where
  "handle_failure_writes st =
     [W_processing_status PS_failed, W_selected_route Route_failure,
      W_response_text ''The request failed safely.'', W_retrieved_evidence [],
      W_visited_nodes [''handle_failure''],
      W_activity_events (history_events st (history_sequence st) handle_failure_drafts)]"

definition final_status :: "graph_state \<Rightarrow> processing_status" where
  "final_status st =
     (let status = get_or PS_running (gs_processing_status st) in
      if status = PS_running then PS_completed else status)"

definition finalize_draft :: "graph_state \<Rightarrow> event_draft" where
  "finalize_draft st =
     (let failed = (final_status st = PS_failed) in
      draft (if failed then Ev_response_failed else Ev_response_completed)
        (if failed then ES_failed else ES_completed)
        (if failed then ''Graph execution failed.'' else ''Graph execution completed.'')
        ''finalize_execution'' empty_payload)"

definition final_output_of :: "graph_state \<Rightarrow> route \<Rightarrow> graph_output" where
  "final_output_of st route =
     \<lparr> go_request_id = gs_request_id st, go_trace_id = gs_trace_id st, go_session_id = gs_session_id st,
       go_completion_status = final_status st, go_selected_route = route,
       go_intent = get_or Intent_unsupported (gs_detected_intent st),
       go_evidence = map from_hybrid (gs_retrieved_evidence st),
       go_warnings = gs_warnings st,
       go_response_text = get_or ''The request completed without a response.'' (gs_response_text st),
       go_validation_reports = gs_validation_reports st,
       go_memory_used = get_or False (gs_memory_used st),
       go_context_resolved = get_or False (gs_context_used st),
       go_turn_sequence = gs_current_turn_sequence st,
       go_memory_update_status = get_or ''disabled'' (gs_memory_update_status st),
       go_analysis_result = gs_analysis_result st,
       go_citations = (case gs_grounded_response st of None \<Rightarrow> [] | Some g \<Rightarrow> gr_citations g),
       go_deterministic_fallback_used = get_or False (gs_deterministic_fallback_used st),
       go_deterministic_analysis_rendering_used =
         get_or False (gs_deterministic_analysis_rendering_used st),
       go_fallback_reason = gs_fallback_reason st,
       go_insufficient_evidence =
         (case gs_grounded_response st of None \<Rightarrow> False | Some g \<Rightarrow> gr_insufficient_evidence g),
       go_mcp_execution = gs_mcp_execution st \<rparr>"

definition finalize_writes :: "graph_state \<Rightarrow> (unit, channel_write list) result" where
  "finalize_writes st =
     (case gs_selected_route st of
        None \<Rightarrow> Raise ()
      | Some route \<Rightarrow>
          (let out = final_output_of st route in
           if graph_output_ok out then
             Return [W_processing_status (final_status st), W_final_output out,
               W_activity_events (history_events st (history_sequence st) [finalize_draft st]),
               W_visited_nodes [''finalize_execution'']]
           else Raise ()))"

section \<open>The guard around a node\<close>

definition failed_node_event :: "string \<Rightarrow> event_draft list \<Rightarrow> event_draft list" where
  "failed_node_event node emitted =
     (if list_ex (\<lambda>d. ed_node d = Some node \<and> ed_status d = ES_failed) emitted then []
      else let (t, message) =
        (if node = ''python_analysis''
         then (Ev_tool_failed, ''Structured Python analysis failed safely.'')
         else if node = ''execute_mcp_tool''
         then (Ev_mcp_failed, ''Enterprise data operation failed safely.'')
         else if node = ''cross_document_research'' then (Ev_research_failed, ''Research failed safely.'')
         else if node = ''generate_response''
         then (Ev_response_generation_failed, ''Response generation failed safely.'')
         else if node = ''validate_citations''
         then (Ev_citation_validation_failed, ''Citation validation failed safely.'')
         else if node = ''update_memory''
         then (Ev_memory_failed, ''Conversation memory update failed safely.'')
         else (Ev_node_failed, ''Workflow step failed safely.'')) in
        [draft t ES_failed message node empty_payload])"

definition is_step_write :: "channel_write \<Rightarrow> bool" where
  "is_step_write w = (case w of W_execution_step_count _ \<Rightarrow> True | _ \<Rightarrow> False)"

definition emitted_events :: "graph_state \<Rightarrow> event_draft list \<Rightarrow> agent_event list" where
  "emitted_events st ds =
     (case journal_events st ds (open_journal st) of Inl _ \<Rightarrow> [] | Inr j \<Rightarrow> ej_emitted j)"

lemma emitted_events_history:
  "emitted_events st ds = history_events st (history_sequence st) ds"
  by (simp add: emitted_events_def journal_events_total) (simp add: open_journal_def)

text \<open>A guarded node returns its partial update, the events it streamed and the memory store.\<close>

definition guarded ::
  "string \<Rightarrow> ('m graph_services \<Rightarrow> graph_state \<Rightarrow> 'm \<Rightarrow> 'm node_result) \<Rightarrow>
   'm graph_services \<Rightarrow> graph_state \<Rightarrow> 'm \<Rightarrow> channel_write list \<times> agent_event list \<times> 'm" where
  "guarded name node sv st m =
     (if get_or (graph_max_steps (sv_settings sv)) (gs_maximum_execution_steps st)
           \<le> get_or 0 (gs_execution_step_count st)
      then (graph_failure ''graph.step_budget_exceeded'' ''Graph execution-step budget was exceeded.'' name,
            [], m)
      else (let r = node sv st m in
        case nr_outcome r of
          Inr ws \<Rightarrow>
            (let emitted = emitted_events st (nr_events r) in
             (ws @ (if emitted = [] then [] else [W_activity_events emitted]) @
                (if list_ex is_step_write ws then [] else [W_execution_step_count (next_step st)]),
              emitted, nr_memory r))
        | Inl _ \<Rightarrow>
            (let emitted = emitted_events st (nr_events r @ failed_node_event name (nr_events r)) in
             (graph_failure (''graph.'' @ name @ ''_failed'') (name @ '' failed safely.'') name @
                [W_activity_events emitted],
              emitted, nr_memory r))))"

end
