(* ===== verification/Graph_Driver.thy ===== *)
theory Graph_Driver
  imports Main
begin

text \<open>
  What the development assumes of LangGraph, as a driver that both graphs of the program share: the
  compiled graph runs one node per super-step, follows the edge the router selects, ends at \<open>END\<close>,
  propagates an exception that leaves a node, and stops with an error when the recursion limit (the
  fuel) is used up.  The locale \<open>bounded_graph\<close> states when the limit cannot be reached.
\<close>

datatype 's run_outcome = Finished 's | Crashed 's | Recursion_limit 's

text \<open>\<open>exec n s\<close> runs node \<open>n\<close>, \<open>None\<close> when it raises; \<open>edge n s\<close> is the edge after it: \<open>None\<close> when
  the router raises, \<open>Some None\<close> for \<open>END\<close>.\<close>

fun drive :: "('n \<Rightarrow> 's \<Rightarrow> 's option) \<Rightarrow> ('n \<Rightarrow> 's \<Rightarrow> 'n option option) \<Rightarrow> nat \<Rightarrow> 'n \<Rightarrow> 's \<Rightarrow> 's run_outcome"
where
  "drive exec edge 0 n s = Recursion_limit s"
| "drive exec edge (Suc fuel) n s =
     (case exec n s of
        None \<Rightarrow> Crashed s
      | Some s' \<Rightarrow>
          (case edge n s' of
             None \<Rightarrow> Crashed s'
           | Some None \<Rightarrow> Finished s'
           | Some (Some n') \<Rightarrow> drive exec edge fuel n' s'))"

text \<open>The nodes about to run on the way.\<close>

inductive pending ::
  "('n \<Rightarrow> 's \<Rightarrow> 's option) \<Rightarrow> ('n \<Rightarrow> 's \<Rightarrow> 'n option option) \<Rightarrow> 'n \<Rightarrow> 's \<Rightarrow> 'n \<Rightarrow> 's \<Rightarrow> bool"
  for exec edge n0 s0
where
  pending_start: "pending exec edge n0 s0 n0 s0"
| pending_step: "pending exec edge n0 s0 n s \<Longrightarrow> exec n s = Some s' \<Longrightarrow> edge n s' = Some (Some n') \<Longrightarrow>
    pending exec edge n0 s0 n' s'"

lemma pending_trans:
  assumes "pending exec edge n1 s1 n2 s2" "pending exec edge n0 s0 n1 s1"
  shows "pending exec edge n0 s0 n2 s2"
  using assms by (induction rule: pending.induct) (auto intro: pending_step)

lemma pending_first:
  assumes "exec n s = Some t" "edge n t = Some (Some n')"
  shows "pending exec edge n s n' t"
  using pending_step [where exec = exec and edge = edge and ?n0.0 = n and ?s0.0 = s and n = n and s = s
      and s' = t and n' = n'] assms pending_start [of exec edge n s] by blast

lemma drive_Finished:
  assumes "drive exec edge fuel n s = Finished s'"
  shows "\<exists>n1 s1. pending exec edge n s n1 s1 \<and> exec n1 s1 = Some s' \<and> edge n1 s' = Some None"
  using assms
proof (induction fuel arbitrary: n s)
  case (Suc fuel)
  from Suc.prems obtain t where t: "exec n s = Some t" by (auto split: option.splits)
  show ?case
  proof (cases "edge n t = Some None")
    case True
    then show ?thesis using Suc.prems t by (auto intro: pending_start)
  next
    case False
    then obtain n' where e: "edge n t = Some (Some n')" "drive exec edge fuel n' t = Finished s'"
      using Suc.prems t by (auto split: option.splits)
    have p: "pending exec edge n s n' t"
      by (rule pending_first; fact)
    from Suc.IH [OF e(2)] obtain n1 s1 where *: "pending exec edge n' t n1 s1"
      and **: "exec n1 s1 = Some s'" "edge n1 s' = Some None"
      by (elim exE conjE) (rule that)
    have "pending exec edge n s n1 s1" by (rule pending_trans [OF * p])
    with ** show ?thesis by (intro exI conjI)
  qed
qed simp

lemma drive_Crashed:
  assumes "drive exec edge fuel n s = Crashed s'"
  shows "\<exists>n1 s1. pending exec edge n s n1 s1 \<and>
    (exec n1 s1 = None \<or> (exec n1 s1 = Some s' \<and> edge n1 s' = None))"
  using assms
proof (induction fuel arbitrary: n s)
  case (Suc fuel)
  show ?case
  proof (cases "exec n s")
    case None
    then show ?thesis by (auto intro: pending_start)
  next
    case (Some t)
    show ?thesis
    proof (cases "edge n t")
      case None
      then show ?thesis using Some Suc.prems by (auto intro: pending_start)
    next
      case (Some e)
      then obtain n' where e: "edge n t = Some (Some n')" "drive exec edge fuel n' t = Crashed s'"
        using Suc.prems \<open>exec n s = Some t\<close> by (auto split: option.splits)
      have p: "pending exec edge n s n' t"
        by (rule pending_first; fact)
      from Suc.IH [OF e(2)] obtain n1 s1 where *: "pending exec edge n' t n1 s1" and **:
        "exec n1 s1 = None \<or> (exec n1 s1 = Some s' \<and> edge n1 s' = None)"
        by (elim exE) (erule conjE, rule that)
      have "pending exec edge n s n1 s1" by (rule pending_trans [OF * p])
      with ** show ?thesis by (intro exI conjI)
    qed
  qed
qed simp

lemma drive_invariant:
  assumes "drive exec edge fuel n s = Finished t" "P s"
    and "\<And>n s t. P s \<Longrightarrow> exec n s = Some t \<Longrightarrow> P t"
  shows "P t"
  using assms(1,2)
proof (induction fuel arbitrary: n s)
  case (Suc fuel)
  then show ?case using assms(3) by (auto split: option.splits)
qed simp

lemma drive_step:
  "exec n s = Some t \<Longrightarrow> edge n t = Some (Some n') \<Longrightarrow>
   drive exec edge (Suc fuel) n s = drive exec edge fuel n' t"
  by simp

text \<open>A graph with an invariant and a rank that every edge decreases.\<close>

locale bounded_graph =
  fixes exec :: "'n \<Rightarrow> 's \<Rightarrow> 's option"
    and edge :: "'n \<Rightarrow> 's \<Rightarrow> 'n option option"
    and ok :: "'n \<Rightarrow> 's \<Rightarrow> bool"
    and rank :: "'n \<Rightarrow> 's \<Rightarrow> nat"
  assumes ok_step: "ok n s \<Longrightarrow> exec n s = Some s' \<Longrightarrow> edge n s' = Some (Some n') \<Longrightarrow> ok n' s'"
    and rank_step: "ok n s \<Longrightarrow> exec n s = Some s' \<Longrightarrow> edge n s' = Some (Some n') \<Longrightarrow>
      rank n' s' < rank n s"
begin

lemma pending_ok: "pending exec edge n s n1 s1 \<Longrightarrow> ok n s \<Longrightarrow> ok n1 s1"
  by (induction rule: pending.induct) (auto intro: ok_step)

text \<open>With more fuel than the rank the recursion limit is never hit.\<close>

lemma drive_within_limit:
  assumes "ok n s" "rank n s < fuel"
  shows "drive exec edge fuel n s \<noteq> Recursion_limit s'"
  using assms
proof (induction fuel arbitrary: n s)
  case (Suc fuel)
  show ?case
  proof
    assume l: "drive exec edge (Suc fuel) n s = Recursion_limit s'"
    then obtain t n' where t: "exec n s = Some t" "edge n t = Some (Some n')"
      "drive exec edge fuel n' t = Recursion_limit s'"
      by (auto split: option.splits)
    have "rank n' t < fuel" using rank_step [OF Suc.prems(1) t(1,2)] Suc.prems(2) by simp
    with Suc.IH [OF ok_step [OF Suc.prems(1) t(1,2)]] t(3) show False by blast
  qed
qed simp

end

text \<open>A graph whose nodes never raise and whose router always finds an edge, under the invariant.\<close>

locale live_graph = bounded_graph exec edge ok rank
  for exec :: "'n \<Rightarrow> 's \<Rightarrow> 's option"
    and edge :: "'n \<Rightarrow> 's \<Rightarrow> 'n option option"
    and ok :: "'n \<Rightarrow> 's \<Rightarrow> bool"
    and rank :: "'n \<Rightarrow> 's \<Rightarrow> nat" +
  assumes ok_live: "ok n s \<Longrightarrow> \<exists>t. exec n s = Some t \<and> edge n t \<noteq> None"
begin

lemma drive_finishes:
  assumes "ok n s" "rank n s < fuel"
  shows "\<exists>n1 s1 s'. drive exec edge fuel n s = Finished s' \<and> ok n1 s1 \<and> exec n1 s1 = Some s' \<and>
    edge n1 s' = Some None"
proof (cases "drive exec edge fuel n s")
  case (Finished t)
  from drive_Finished [OF Finished] obtain n1 s1 where p: "pending exec edge n s n1 s1"
    and e: "exec n1 s1 = Some t" "edge n1 t = Some None" by (elim exE conjE) (rule that)
  have "ok n1 s1" by (rule pending_ok [OF p assms(1)])
  with Finished e show ?thesis by (intro exI conjI)
next
  case (Crashed t)
  from drive_Crashed [OF Crashed] obtain n1 s1 where p: "pending exec edge n s n1 s1"
    and e: "exec n1 s1 = None \<or> (exec n1 s1 = Some t \<and> edge n1 t = None)" by (elim exE conjE) (rule that)
  from ok_live [OF pending_ok [OF p assms(1)]] obtain t' where
    "exec n1 s1 = Some t'" "edge n1 t' \<noteq> None" by (elim exE conjE) (rule that)
  with e show ?thesis by auto
next
  case (Recursion_limit t)
  then show ?thesis using drive_within_limit [OF assms] by blast
qed

end

end
