(* ===== verification/Graph_Flow.thy ===== *)
theory Graph_Flow
  imports Graph_Nodes Graph_Driver
begin

text \<open>
  The compiled graph (graph/builder.py) and the runtime around it (graph/runtime.py): edges, the
  execution of one node after another under LangGraph's recursion limit, the initial state of an
  invocation on a checkpointed session, session ownership and the filtering of the stream.
  LangGraph itself is not modelled beyond what its documentation promises: one node per super-step
  on a path without parallel branches, a node's dictionary merged key by key with the reducers, the
  channels of a thread kept by the checkpointer between invocations, and an error once more than
  \<open>recursion_limit\<close> super-steps would be needed.
\<close>

section \<open>Topology\<close>

datatype graph_node = N_initialize_request | N_validate_request | N_load_memory
  | N_resolve_followup_context | N_classify_intent | N_supervisor | N_simple_retrieval
  | N_cross_document_research | N_validate_evidence | N_direct_response | N_deny_request
  | N_unsupported | N_python_analysis | N_execute_mcp_tool | N_generate_response
  | N_validate_citations | N_prepare_output | N_update_memory | N_handle_failure
  | N_finalize_execution

fun route_node :: "route \<Rightarrow> graph_node" where
  "route_node Route_simple_retrieval = N_simple_retrieval"
| "route_node Route_direct_response = N_direct_response"
| "route_node Route_deny = N_deny_request"
| "route_node Route_failure = N_handle_failure"
| "route_node Route_recursive_research = N_cross_document_research"
| "route_node Route_python_analysis = N_python_analysis"
| "route_node Route_mcp_tool = N_execute_mcp_tool"
| "route_node Route_human_approval = N_unsupported"
| "route_node Route_unsupported = N_unsupported"

definition failed :: "graph_state \<Rightarrow> bool" where
  "failed st = get_or False (gs_failure st)"

definition after_operation :: "graph_node \<Rightarrow> graph_state \<Rightarrow> graph_node" where
  "after_operation next_node st = (if failed st then N_handle_failure else next_node)"

text \<open>The edge taken after a node; the outer option is a missing route, the inner one \<open>END\<close>.\<close>

fun successor :: "graph_node \<Rightarrow> graph_state \<Rightarrow> graph_node option option" where
  "successor N_initialize_request st = Some (Some N_validate_request)"
| "successor N_validate_request st = Some (Some (after_operation N_load_memory st))"
| "successor N_load_memory st = Some (Some (after_operation N_resolve_followup_context st))"
| "successor N_resolve_followup_context st = Some (Some (after_operation N_classify_intent st))"
| "successor N_classify_intent st = Some (Some (after_operation N_supervisor st))"
| "successor N_supervisor st =
     (if failed st then Some (Some N_handle_failure)
      else map_option (\<lambda>r. Some (route_node r)) (gs_selected_route st))"
| "successor N_simple_retrieval st = Some (Some (after_operation N_validate_evidence st))"
| "successor N_cross_document_research st = Some (Some (after_operation N_validate_evidence st))"
| "successor N_validate_evidence st = Some (Some (after_operation N_generate_response st))"
| "successor N_python_analysis st = Some (Some (after_operation N_generate_response st))"
| "successor N_execute_mcp_tool st = Some (Some (after_operation N_prepare_output st))"
| "successor N_generate_response st = Some (Some (after_operation N_validate_citations st))"
| "successor N_validate_citations st = Some (Some (after_operation N_prepare_output st))"
| "successor N_direct_response st = Some (Some (after_operation N_prepare_output st))"
| "successor N_deny_request st = Some (Some (after_operation N_prepare_output st))"
| "successor N_unsupported st = Some (Some (after_operation N_prepare_output st))"
| "successor N_prepare_output st = Some (Some (after_operation N_update_memory st))"
| "successor N_update_memory st = Some (Some (after_operation N_finalize_execution st))"
| "successor N_handle_failure st = Some (Some N_finalize_execution)"
| "successor N_finalize_execution st = Some None"

section \<open>Running a node\<close>

text \<open>What a node writes, streams and leaves in memory; \<open>None\<close> when it raises out of the graph.\<close>

fun run_node ::
  "'m graph_services \<Rightarrow> graph_node \<Rightarrow> graph_state \<Rightarrow> 'm \<Rightarrow>
   (channel_write list \<times> agent_event list \<times> 'm) option" where
  "run_node sv N_initialize_request st m =
     Some (initialize_writes (sv_settings sv) st, history_events st 0 initialize_drafts, m)"
| "run_node sv N_validate_request st m = Some (guarded ''validate_request'' validate_request sv st m)"
| "run_node sv N_load_memory st m = Some (guarded ''load_memory'' load_memory sv st m)"
| "run_node sv N_resolve_followup_context st m =
     Some (guarded ''resolve_followup_context'' resolve_followup_context sv st m)"
| "run_node sv N_classify_intent st m = Some (guarded ''classify_intent'' classify_intent sv st m)"
| "run_node sv N_supervisor st m = Some (guarded ''supervisor'' supervisor sv st m)"
| "run_node sv N_simple_retrieval st m = Some (guarded ''simple_retrieval'' simple_retrieval sv st m)"
| "run_node sv N_cross_document_research st m =
     Some (guarded ''cross_document_research'' cross_document_research sv st m)"
| "run_node sv N_validate_evidence st m = Some (guarded ''validate_evidence'' validate_evidence sv st m)"
| "run_node sv N_direct_response st m = Some (guarded ''direct_response'' direct_response sv st m)"
| "run_node sv N_deny_request st m = Some (guarded ''deny_request'' deny_request sv st m)"
| "run_node sv N_unsupported st m = Some (guarded ''unsupported'' unsupported sv st m)"
| "run_node sv N_python_analysis st m = Some (guarded ''python_analysis'' python_analysis sv st m)"
| "run_node sv N_execute_mcp_tool st m = Some (guarded ''execute_mcp_tool'' execute_mcp_tool sv st m)"
| "run_node sv N_generate_response st m = Some (guarded ''generate_response'' generate_response sv st m)"
| "run_node sv N_validate_citations st m =
     Some (guarded ''validate_citations'' validate_citations sv st m)"
| "run_node sv N_prepare_output st m = Some (guarded ''prepare_output'' prepare_output sv st m)"
| "run_node sv N_update_memory st m = Some (guarded ''update_memory'' update_memory sv st m)"
| "run_node sv N_handle_failure st m =
     Some (handle_failure_writes st,
       history_events st (history_sequence st) handle_failure_drafts, m)"
| "run_node sv N_finalize_execution st m =
     (case finalize_writes st of
        Inl _ \<Rightarrow> None
      | Inr ws \<Rightarrow> Some (ws, history_events st (history_sequence st) [finalize_draft st], m))"

section \<open>Executions\<close>

text \<open>The parts LangGraph streams: the custom events of a node while it runs, then the values after
  it, of which only the final output matters.\<close>

datatype stream_part = Part_event agent_event | Part_values "graph_output option"

record 'm execution =
  ex_state :: graph_state
  ex_memory :: 'm
  ex_stream :: "agent_event list"
  ex_parts :: "stream_part list"
  ex_path :: "graph_node list"

definition execute_node ::
  "'m graph_services \<Rightarrow> graph_node \<Rightarrow> 'm execution \<Rightarrow> 'm execution option" where
  "execute_node sv n c =
     (case run_node sv n (ex_state c) (ex_memory c) of
        None \<Rightarrow> None
      | Some (ws, es, m) \<Rightarrow>
          (let st = apply_update ws (ex_state c) in
           Some \<lparr> ex_state = st, ex_memory = m, ex_stream = ex_stream c @ es,
                  ex_parts = ex_parts c @ map Part_event es @ [Part_values (gs_final_output st)],
                  ex_path = ex_path c @ [n] \<rparr>))"

definition edge_after :: "graph_node \<Rightarrow> 'm execution \<Rightarrow> graph_node option option" where
  "edge_after n c = successor n (ex_state c)"

definition run_graph ::
  "'m graph_services \<Rightarrow> nat \<Rightarrow> graph_node \<Rightarrow> 'm execution \<Rightarrow> 'm execution run_outcome" where
  "run_graph sv fuel n c = drive (execute_node sv) edge_after fuel n c"

section \<open>Invocations\<close>

record graph_input =
  gi_request_id :: uuid
  gi_trace_id :: uuid
  gi_session_id :: uuid
  gi_principal :: authenticated_principal
  gi_user_message :: string
  gi_retrieval_filters :: dense_query_filters
  gi_requested_top_k :: nat
  gi_invocation_timestamp :: instant

definition graph_input_ok :: "graph_input \<Rightarrow> bool" where
  "graph_input_ok i = (text_ok 4000 (gi_user_message i) \<and> in_range 1 (gi_requested_top_k i) 100)"

text \<open>A thread without a checkpoint: every channel is empty.\<close>

definition blank_state :: "graph_input \<Rightarrow> graph_state" where
  "blank_state i = \<lparr> gs_request_id = gi_request_id i, gs_trace_id = gi_trace_id i,
     gs_session_id = gi_session_id i, gs_principal = gi_principal i,
     gs_user_message = gi_user_message i, gs_original_query = gi_user_message i,
     gs_retrieval_filters = gi_retrieval_filters i, gs_requested_top_k = gi_requested_top_k i,
     gs_invocation_timestamp = gi_invocation_timestamp i, gs_retrieved_evidence = [],
     gs_validation_reports = [], gs_warnings = [], gs_errors = [], gs_visited_nodes = [],
     gs_activity_events = [], gs_resolved_query = None, gs_normalized_query = None,
     gs_requested_identifiers = None, gs_aggregate_intent_present = None,
     gs_security_denial_category = None, gs_detected_intent = None, gs_task_complexity = None,
     gs_selected_route = None, gs_response_text = None, gs_processing_status = None,
     gs_execution_step_count = None, gs_maximum_execution_steps = None, gs_retrieval_status = None,
     gs_failure = None, gs_final_output = None, gs_conversation_context = None,
     gs_memory_used = None, gs_context_reference_detected = None, gs_context_used = None,
     gs_memory_update_status = None, gs_memory_eviction_count = None,
     gs_current_turn_sequence = None, gs_analysis_request = None, gs_analysis_result = None,
     gs_response_mode = None, gs_grounded_answer_draft = None, gs_citation_validation = None,
     gs_grounded_response = None, gs_response_repair_count = None, gs_provider_status = None,
     gs_deterministic_fallback_used = None, gs_deterministic_analysis_rendering_used = None,
     gs_fallback_reason = None, gs_research_result = None, gs_mcp_execution = None \<rparr>"

definition message_too_long :: "retrieval_settings \<Rightarrow> graph_input \<Rightarrow> bool" where
  "message_too_long cfg i = (graph_max_message_characters cfg < length (gi_user_message i))"

definition message_budget_error :: graph_error where
  "message_budget_error = \<lparr> ge_code = ''graph.message_character_budget_exceeded'',
     ge_safe_message = ''Message character budget was exceeded.'', ge_retryable = False,
     ge_node = Some ''validate_request'' \<rparr>"

text \<open>\<open>_initial_state\<close> merged into the checkpoint of the session's thread, key by key.\<close>

definition initial_state :: "retrieval_settings \<Rightarrow> graph_input \<Rightarrow> graph_state option \<Rightarrow> graph_state" where
  "initial_state cfg i checkpoint =
     (let st = (case checkpoint of None \<Rightarrow> blank_state i | Some st \<Rightarrow> st);
          base = st\<lparr> gs_request_id := gi_request_id i, gs_trace_id := gi_trace_id i,
            gs_session_id := gi_session_id i, gs_principal := gi_principal i,
            gs_user_message := gi_user_message i, gs_retrieval_filters := gi_retrieval_filters i,
            gs_requested_top_k := gi_requested_top_k i,
            gs_invocation_timestamp := gi_invocation_timestamp i,
            gs_original_query := gi_user_message i \<rparr>;
          too_long = message_too_long cfg i in
      apply_update
        ([W_retrieved_evidence [], W_validation_reports [], W_warnings [],
          W_errors (if too_long then [message_budget_error] else []), W_visited_nodes [],
          W_activity_events []] @
         (if too_long then [W_failure True] else [])) base)"

definition recursion_limit :: "retrieval_settings \<Rightarrow> nat" where
  "recursion_limit cfg = graph_max_steps cfg + 4"

definition start_execution ::
  "retrieval_settings \<Rightarrow> graph_input \<Rightarrow> graph_state option \<Rightarrow> 'm \<Rightarrow> 'm execution" where
  "start_execution cfg i checkpoint m =
     \<lparr> ex_state = initial_state cfg i checkpoint, ex_memory = m, ex_stream = [],
       ex_parts = [Part_values (gs_final_output (initial_state cfg i checkpoint))], ex_path = [] \<rparr>"

definition invoke_graph ::
  "'m graph_services \<Rightarrow> graph_input \<Rightarrow> graph_state option \<Rightarrow> 'm \<Rightarrow> 'm execution run_outcome" where
  "invoke_graph sv i checkpoint m =
     run_graph sv (recursion_limit (sv_settings sv)) N_initialize_request
       (start_execution (sv_settings sv) i checkpoint m)"

section \<open>Session ownership\<close>

type_synonym session_claim = "uuid \<times> user_role \<times> tool_permission set"

definition claim_of :: "graph_input \<Rightarrow> session_claim" where
  "claim_of i = (ui_user_id (pr_identity (gi_principal i)), principal_role (gi_principal i),
     pr_permissions (gi_principal i))"

text \<open>\<open>setdefault\<close> under the ownership lock; a different owner is refused.\<close>

definition claim_session ::
  "graph_input \<Rightarrow> (uuid, session_claim) dict \<Rightarrow> bool \<times> (uuid, session_claim) dict" where
  "claim_session i owners =
     (let owners' = dict_setdefault (gi_session_id i) (claim_of i) owners in
      (map_of owners' (gi_session_id i) = Some (claim_of i), owners'))"

section \<open>The public stream\<close>

datatype stream_item = Item_event agent_event | Item_output graph_output

definition terminal_event :: "agent_event \<Rightarrow> bool" where
  "terminal_event e = (ae_event_type e \<in> {Ev_response_completed, Ev_response_failed})"

definition event_correlated :: "graph_input \<Rightarrow> nat \<Rightarrow> agent_event \<Rightarrow> bool" where
  "event_correlated i expected e =
     (ae_sequence_number e = expected \<and> ae_request_id e = gi_request_id i \<and>
      ae_trace_id e = gi_trace_id i \<and> ae_session_id e = gi_session_id i)"

text \<open>The loop of \<open>_astream_untraced\<close> over the parts LangGraph yields, with the variables
  \<open>expected_sequence\<close>, \<open>terminal_seen\<close> and \<open>output_emitted\<close>.  A \<open>values\<close> part carries the final
  output once the state holds one.\<close>

fun stream_items :: "graph_input \<Rightarrow> nat \<Rightarrow> bool \<Rightarrow> bool \<Rightarrow> stream_part list \<Rightarrow> stream_item list" where
  "stream_items i expected terminal_seen output_emitted [] = []"
| "stream_items i expected terminal_seen output_emitted (Part_event e # ps) =
     (if terminal_seen \<or> \<not> event_correlated i expected e
      then stream_items i expected terminal_seen output_emitted ps
      else Item_event e #
        stream_items i (Suc expected) (terminal_event e) output_emitted ps)"
| "stream_items i expected terminal_seen output_emitted (Part_values out # ps) =
     (case out of
        Some result \<Rightarrow>
          (if terminal_seen \<and> \<not> output_emitted
           then Item_output result # stream_items i expected terminal_seen True ps
           else stream_items i expected terminal_seen output_emitted ps)
      | None \<Rightarrow> stream_items i expected terminal_seen output_emitted ps)"

end
