(* ===== verification/Graph_Frames.thy ===== *)
theory Graph_Frames
  imports Graph_Flow
begin

text \<open>
  What no node touches: the identity of the invocation, and, for the body of a guarded node, the
  step budget, the event history and the final output, which only the guard and the closing node
  write.  \<open>guarded_effect\<close> is the contract of the guard that the proofs about whole invocations use.
\<close>

named_theorems frame_simps \<open>fields a channel write leaves alone\<close>
named_theorems node_bodies \<open>facts about every node body\<close>

section \<open>Identity\<close>

definition same_invocation :: "graph_state \<Rightarrow> graph_state \<Rightarrow> bool" where
  "same_invocation s t =
     (gs_request_id t = gs_request_id s \<and> gs_trace_id t = gs_trace_id s \<and>
      gs_session_id t = gs_session_id s \<and> gs_principal t = gs_principal s \<and>
      gs_original_query t = gs_original_query s)"

lemma same_invocation_refl [simp]: "same_invocation s s"
  by (simp add: same_invocation_def)

lemma same_invocation_trans: "same_invocation s t \<Longrightarrow> same_invocation t u \<Longrightarrow> same_invocation s u"
  by (simp add: same_invocation_def)

lemma apply_write_same: "same_invocation s (apply_write w s)"
  by (cases w) (simp_all add: same_invocation_def)

lemma apply_update_same: "same_invocation s (apply_update ws s)"
proof (induction ws arbitrary: s)
  case (Cons w ws)
  then show ?case using same_invocation_trans [OF apply_write_same Cons.IH] by simp
qed simp

section \<open>The budget, the history and the output\<close>

text \<open>A write of a node body; its step counter, when it writes one, is one more than the state's.\<close>

definition plain_write :: "graph_state \<Rightarrow> channel_write \<Rightarrow> bool" where
  "plain_write st w =
     (case w of W_maximum_execution_steps _ \<Rightarrow> False | W_activity_events _ \<Rightarrow> False
      | W_final_output _ \<Rightarrow> False | W_execution_step_count n \<Rightarrow> n = next_step st
      | W_processing_status p \<Rightarrow> p \<noteq> PS_failed | _ \<Rightarrow> True)"

lemma plain_write_simps [simp]:
  "\<not> plain_write st (W_maximum_execution_steps n)" "\<not> plain_write st (W_activity_events es)"
  "\<not> plain_write st (W_final_output out)"
  "plain_write st (W_execution_step_count n) \<longleftrightarrow> n = next_step st"
  "plain_write st (W_normalized_query q)" "plain_write st (W_resolved_query q)"
  "plain_write st (W_requested_identifiers i)" "plain_write st (W_aggregate_intent_present b)"
  "plain_write st (W_security_denial_category c)" "plain_write st (W_detected_intent d)"
  "plain_write st (W_task_complexity c')" "plain_write st (W_selected_route r)"
  "plain_write st (W_retrieved_evidence e)" "plain_write st (W_validation_reports v)"
  "plain_write st (W_warnings ws)" "plain_write st (W_errors er)" "plain_write st (W_visited_nodes ns)"
  "plain_write st (W_response_text x)" "plain_write st (W_processing_status p) \<longleftrightarrow> p \<noteq> PS_failed"
  "plain_write st (W_retrieval_status x)" "plain_write st (W_failure b)"
  "plain_write st (W_conversation_context cc)" "plain_write st (W_memory_used b)"
  "plain_write st (W_context_reference_detected b)" "plain_write st (W_context_used b)"
  "plain_write st (W_memory_update_status x)" "plain_write st (W_memory_eviction_count n)"
  "plain_write st (W_current_turn_sequence no)" "plain_write st (W_analysis_request ar)"
  "plain_write st (W_analysis_result an)" "plain_write st (W_response_mode rm)"
  "plain_write st (W_grounded_answer_draft gd)" "plain_write st (W_citation_validation cv)"
  "plain_write st (W_grounded_response gr)" "plain_write st (W_response_repair_count n)"
  "plain_write st (W_provider_status x)" "plain_write st (W_deterministic_fallback_used b)"
  "plain_write st (W_deterministic_analysis_rendering_used b)"
  "plain_write st (W_fallback_reason fr)" "plain_write st (W_research_result rr)"
  "plain_write st (W_mcp_execution mx)"
  by (simp_all add: plain_write_def)

lemma apply_write_plain:
  assumes "plain_write st0 w"
  shows "gs_maximum_execution_steps (apply_write w s) = gs_maximum_execution_steps s"
    "gs_activity_events (apply_write w s) = gs_activity_events s"
    "gs_final_output (apply_write w s) = gs_final_output s"
    "gs_execution_step_count (apply_write w s) =
       (if is_step_write w then Some (next_step st0) else gs_execution_step_count s)"
  using assms by (cases w; simp add: is_step_write_def)+

lemma apply_update_plain [frame_simps]:
  assumes "list_all (plain_write st0) ws"
  shows "gs_maximum_execution_steps (apply_update ws s) = gs_maximum_execution_steps s"
    "gs_activity_events (apply_update ws s) = gs_activity_events s"
    "gs_final_output (apply_update ws s) = gs_final_output s"
    "gs_execution_step_count (apply_update ws s) =
       (if list_ex is_step_write ws then Some (next_step st0) else gs_execution_step_count s)"
  using assms by (induction ws arbitrary: s) (simp_all add: apply_write_plain [of st0])

section \<open>Node bodies\<close>

definition quiet_draft :: "event_draft \<Rightarrow> bool" where
  "quiet_draft d = (ed_type d \<notin> {Ev_response_completed, Ev_response_failed})"

lemma quiet_draft_simps [simp]:
  "quiet_draft (draft t s msg node p) = (t \<noteq> Ev_response_completed \<and> t \<noteq> Ev_response_failed)"
  by (simp add: quiet_draft_def draft_def)

text \<open>The part of a body's contract that does not depend on the services: plain writes and no
  terminal event.\<close>

definition sound_body :: "graph_state \<Rightarrow> 'm node_result \<Rightarrow> bool" where
  "sound_body st r =
     (list_all quiet_draft (nr_events r) \<and>
      (case nr_outcome r of Inl _ \<Rightarrow> True | Inr ws \<Rightarrow> list_all (plain_write st) ws))"

lemma sound_body_return [simp]:
  "sound_body st (node_return evs ws m) \<longleftrightarrow> list_all quiet_draft evs \<and> list_all (plain_write st) ws"
  by (simp add: sound_body_def node_return_def)

lemma sound_body_raise [simp]: "sound_body st (node_raise evs m) \<longleftrightarrow> list_all quiet_draft evs"
  by (simp add: sound_body_def node_raise_def)

lemma sound_fragments [simp]:
  "list_all quiet_draft (node_drafts node msg)"
  "list_all (plain_write st) (graph_failure code msg node)"
  "list_all (plain_write st) (grounded_writes g)"
  "list_all (plain_write st) (draft_writes g d v n)"
  by (simp_all add: node_drafts_def graph_failure_def grounded_writes_def draft_writes_def)

lemma sound_worker_drafts [simp]: "list_all quiet_draft (worker_drafts plan w)"
  by (simp add: worker_drafts_def)

lemma sound_research_drafts [simp]: "list_all quiet_draft (research_drafts r)"
proof -
  have "list_all quiet_draft (concat (map (worker_drafts plan) ws))" for plan ws
    by (induction ws) simp_all
  then show ?thesis by (simp add: research_drafts_def Let_def)
qed

lemma sound_response:
  assumes "response_of sv st q = Inr (g, ws)" shows "list_all (plain_write st) ws"
  using assms by (auto simp: response_of_def split: option.splits if_splits)

lemma body_validate_request [node_bodies]: "sound_body st (validate_request sv st m)"
  by (simp add: validate_request_def Let_def)

lemma body_classify_intent [node_bodies]: "sound_body st (classify_intent sv st m)"
  by (simp add: classify_intent_def Let_def split: option.splits)

lemma body_load_memory [node_bodies]: "sound_body st (load_memory sv st m)"
  by (simp add: load_memory_def Let_def split: prod.splits sum.splits)

lemma body_resolve_followup_context [node_bodies]: "sound_body st (resolve_followup_context sv st m)"
  by (simp add: resolve_followup_context_def Let_def split: prod.splits)

lemma body_supervisor [node_bodies]: "sound_body st (supervisor sv st m)"
  by (simp add: supervisor_def Let_def split: option.splits)

lemma body_simple_retrieval [node_bodies]: "sound_body st (simple_retrieval sv st m)"
  by (simp add: simple_retrieval_def Let_def split: option.splits sum.splits)

lemma body_validate_evidence [node_bodies]: "sound_body st (validate_evidence sv st m)"
  by (simp add: validate_evidence_def Let_def split: sum.splits)

lemma body_direct_response [node_bodies]: "sound_body st (direct_response sv st m)"
  by (simp add: direct_response_def)

lemma body_deny_request [node_bodies]: "sound_body st (deny_request sv st m)"
  by (simp add: deny_request_def)

lemma body_unsupported [node_bodies]: "sound_body st (unsupported sv st m)"
  by (simp add: unsupported_def)

lemma body_prepare_output [node_bodies]: "sound_body st (prepare_output sv st m)"
  by (simp add: prepare_output_def Let_def)

lemma body_python_analysis [node_bodies]: "sound_body st (python_analysis sv st m)"
  by (simp add: python_analysis_def Let_def split: option.splits sum.splits)

lemma body_execute_mcp_tool [node_bodies]: "sound_body st (execute_mcp_tool sv st m)"
  by (simp add: execute_mcp_tool_def Let_def split: option.splits sum.splits mcp_error.splits)

lemma body_cross_document_research [node_bodies]: "sound_body st (cross_document_research sv st m)"
  by (simp add: cross_document_research_def Let_def split: sum.splits)

lemma body_generate_response [node_bodies]: "sound_body st (generate_response sv st m)"
  by (auto simp: generate_response_def Let_def sound_response split: option.splits sum.splits)

lemma body_validate_citations [node_bodies]: "sound_body st (validate_citations sv st m)"
  by (simp add: validate_citations_def Let_def split: option.splits)

lemma body_update_memory [node_bodies]: "sound_body st (update_memory sv st m)"
  by (simp add: update_memory_def Let_def split: option.splits prod.splits sum.splits)

section \<open>The guard\<close>

lemma failed_graph_failure [simp]: "failed (apply_update (graph_failure code msg node) s)"
  by (simp add: graph_failure_def failed_def)

lemma quiet_failed_node_event [simp]: "list_all quiet_draft (failed_node_event name ds)"
  by (simp add: failed_node_event_def)

lemma failed_node_event_nonempty: "ds @ failed_node_event name ds \<noteq> []"
  by (cases ds) (simp_all add: failed_node_event_def)

lemma quiet_history:
  assumes "list_all quiet_draft ds" "e \<in> set (history_events st n ds)"
  shows "\<not> terminal_event e"
  using assms by (induction ds arbitrary: n) (auto simp: quiet_draft_def terminal_event_def build_event_def)

lemma log_state_extend:
  assumes lg: "log_state s es" and same: "same_invocation s t"
    and acts: "gs_activity_events t =
      append_events (gs_activity_events s) (history_events s (length es) ds)"
    and ne: "ds \<noteq> []"
  shows "log_state t (es @ history_events s (length es) ds)"
proof -
  let ?new = "history_events s (length es) ds"
  have seq: "map ae_sequence_number ?new = [length es ..< length es + length ?new]"
    by (simp add: history_events_sequences)
  have "?new \<noteq> []" using ne by (cases ds) auto
  then have a: "gs_activity_events t = last_n MAX_RETAINED_ACTIVITY_EVENTS (es @ ?new)"
    using acts append_events_log [OF lg seq] by simp
  have es: "map ae_sequence_number es = [0 ..< length es]" using lg by (simp add: log_state_def)
  have "map ae_sequence_number (es @ ?new) = [0 ..< length (es @ ?new)]"
    using upt_add_eq_append [of 0 "length es" "length ds"] es
    by (simp add: history_events_sequences)
  then show ?thesis
    using lg same a history_events_ids [of _ s "length es" ds]
    by (auto simp: log_state_def same_invocation_def simp del: map_append length_append)
qed

lemma log_state_unchanged:
  assumes "log_state s es" "same_invocation s t" "gs_activity_events t = gs_activity_events s"
  shows "log_state t es"
  using assms by (simp add: log_state_def same_invocation_def)

text \<open>The contract of one guarded node.\<close>

definition step_contract ::
  "nat \<Rightarrow> graph_state \<Rightarrow> agent_event list \<Rightarrow> graph_state \<Rightarrow> agent_event list \<Rightarrow> bool" where
  "step_contract budget s lg t new =
     (same_invocation s t \<and> log_state t (lg @ new) \<and> (\<forall>e \<in> set new. \<not> terminal_event e) \<and>
      gs_maximum_execution_steps t = gs_maximum_execution_steps s \<and>
      gs_final_output t = gs_final_output s \<and>
      (failed t \<or> get_or 0 (gs_execution_step_count s) < budget \<and>
         gs_execution_step_count t = Some (next_step s)))"

lemma plain_graph_failure_frame:
  "gs_maximum_execution_steps (apply_update (graph_failure c msg n) s) = gs_maximum_execution_steps s"
  "gs_activity_events (apply_update (graph_failure c msg n) s) = gs_activity_events s"
  "gs_final_output (apply_update (graph_failure c msg n) s) = gs_final_output s"
  by (rule apply_update_plain [of s]; simp)+

lemma step_contract_budget:
  assumes "log_state s lg"
  shows "step_contract budget s lg (apply_update (graph_failure c msg n) s) []"
  using assms log_state_unchanged [OF assms apply_update_same plain_graph_failure_frame(2)]
  by (simp add: step_contract_def apply_update_same plain_graph_failure_frame)

lemma step_contract_raise:
  assumes lg: "log_state s lg" and q: "list_all quiet_draft ds" and ne: "ds \<noteq> []"
  shows "step_contract budget s lg
    (apply_update (graph_failure c msg n @ [W_activity_events (history_events s (length lg) ds)]) s)
    (history_events s (length lg) ds)" (is "step_contract _ _ _ ?t ?new")
proof -
  have same: "same_invocation s ?t" by (rule apply_update_same)
  have acts: "gs_activity_events ?t = append_events (gs_activity_events s) ?new"
    by (simp add: plain_graph_failure_frame)
  have "failed ?t" by (simp add: graph_failure_def failed_def)
  then show ?thesis
    using same log_state_extend [OF lg same acts ne] quiet_history [OF q]
    by (auto simp: step_contract_def plain_graph_failure_frame)
qed

lemma step_contract_return:
  assumes lg: "log_state s lg" and q: "list_all quiet_draft ds"
    and ws: "list_all (plain_write s) ws" and b: "get_or 0 (gs_execution_step_count s) < budget"
  shows "step_contract budget s lg
    (apply_update (ws @ (if history_events s (length lg) ds = [] then []
        else [W_activity_events (history_events s (length lg) ds)]) @
      (if list_ex is_step_write ws then [] else [W_execution_step_count (next_step s)])) s)
    (history_events s (length lg) ds)" (is "step_contract _ _ _ ?t ?new")
proof -
  note fr = apply_update_plain [OF ws]
  have same: "same_invocation s ?t" by (rule apply_update_same)
  have lg': "log_state ?t (lg @ ?new)"
  proof (cases "ds = []")
    case True
    have "gs_activity_events ?t = gs_activity_events s" using True by (simp add: fr)
    from log_state_unchanged [OF lg same this] True show ?thesis by simp
  next
    case False
    then have "?new \<noteq> []" by (cases ds) auto
    then have "gs_activity_events ?t = append_events (gs_activity_events s) ?new" by (simp add: fr)
    from log_state_extend [OF lg same this False] show ?thesis .
  qed
  have "gs_execution_step_count ?t = Some (next_step s)" by (simp add: fr)
  moreover have "gs_maximum_execution_steps ?t = gs_maximum_execution_steps s"
    "gs_final_output ?t = gs_final_output s" by (simp_all add: fr)
  ultimately show ?thesis
    using same lg' quiet_history [OF q] b unfolding step_contract_def by blast
qed

lemma guarded_effect:
  assumes body: "sound_body s (node sv s m)" and lg: "log_state s lg"
    and g: "guarded name node sv s m = (ws, es, m')"
  shows "step_contract (get_or (graph_max_steps (sv_settings sv)) (gs_maximum_execution_steps s))
    s lg (apply_update ws s) es"
proof (cases "get_or (graph_max_steps (sv_settings sv)) (gs_maximum_execution_steps s)
    \<le> get_or 0 (gs_execution_step_count s)")
  case True
  then show ?thesis using g step_contract_budget [OF lg] by (auto simp: guarded_def)
next
  case False
  note h = emitted_events_history [of s, unfolded log_state_sequence [OF lg]]
  show ?thesis
  proof (cases "nr_outcome (node sv s m)")
    case (Inl u)
    then have "list_all quiet_draft
        (nr_events (node sv s m) @ failed_node_event name (nr_events (node sv s m)))"
      using body by (simp add: sound_body_def)
    from step_contract_raise [OF lg this failed_node_event_nonempty] g False Inl
    show ?thesis by (auto simp: guarded_def Let_def h)
  next
    case (Inr xs)
    then have q: "list_all quiet_draft (nr_events (node sv s m))" and x: "list_all (plain_write s) xs"
      using body by (simp_all add: sound_body_def)
    have ws: "ws = xs @ (if history_events s (length lg) (nr_events (node sv s m)) = [] then []
          else [W_activity_events (history_events s (length lg) (nr_events (node sv s m)))]) @
        (if list_ex is_step_write xs then [] else [W_execution_step_count (next_step s)])"
      and es: "es = history_events s (length lg) (nr_events (node sv s m))"
      using g False Inr by (auto simp: guarded_def Let_def h)
    show ?thesis unfolding ws es using step_contract_return [OF lg q x] False by (simp only: not_le)
  qed
qed

text \<open>A node that did not fail returned its dictionary; the guard adds the events and the counter.\<close>

lemma guarded_success:
  assumes g: "guarded name node sv s m = (ws, es, m')" and ok: "\<not> failed (apply_update ws s)"
  shows "\<exists>xs a c. nr_outcome (node sv s m) = Inr xs \<and>
    apply_update ws s = (apply_update xs s)\<lparr> gs_activity_events := a, gs_execution_step_count := c \<rparr>"
proof (cases "nr_outcome (node sv s m)")
  case (Inl u)
  then show ?thesis using g ok by (auto simp: guarded_def Let_def graph_failure_def failed_def split: if_splits)
next
  case (Inr xs)
  then obtain ys where ws: "ws = xs @ ys" and ys: "set ys \<subseteq> range W_activity_events \<union> range W_execution_step_count"
    using g ok by (auto simp: guarded_def Let_def graph_failure_def failed_def split: if_splits)
  have "\<exists>a c. apply_update ys t = t\<lparr> gs_activity_events := a, gs_execution_step_count := c \<rparr>"
    if "set ys \<subseteq> range W_activity_events \<union> range W_execution_step_count" for ys t
    using that
  proof (induction ys arbitrary: t)
    case Nil
    have "apply_update [] t = t\<lparr> gs_activity_events := gs_activity_events t,
        gs_execution_step_count := gs_execution_step_count t \<rparr>" by simp
    then show ?case by (intro exI)
  next
    case (Cons y ys)
    have sub: "set ys \<subseteq> range W_activity_events \<union> range W_execution_step_count"
      using Cons.prems by simp
    from Cons.IH [OF sub, of "apply_write y t"] obtain a c where
      e: "apply_update ys (apply_write y t) =
        (apply_write y t)\<lparr> gs_activity_events := a, gs_execution_step_count := c \<rparr>"
      by (elim exE) (rule that)
    have "apply_update (y # ys) t = apply_update ys (apply_write y t)" by simp
    also have "\<dots> = (apply_write y t)\<lparr> gs_activity_events := a, gs_execution_step_count := c \<rparr>"
      by (rule e)
    also have "\<dots> = t\<lparr> gs_activity_events := a, gs_execution_step_count := c \<rparr>"
      using Cons.prems by auto
    finally show ?case by (intro exI)
  qed
  from this [OF ys, of "apply_update xs s"] show ?thesis using Inr ws by (simp only: apply_update_append) simp
qed

section \<open>Which nodes are guarded\<close>

definition guarded_nodes :: "graph_node list" where
  "guarded_nodes = [N_validate_request, N_load_memory, N_resolve_followup_context, N_classify_intent,
     N_supervisor, N_simple_retrieval, N_cross_document_research, N_validate_evidence,
     N_direct_response, N_deny_request, N_unsupported, N_python_analysis, N_execute_mcp_tool,
     N_generate_response, N_validate_citations, N_prepare_output, N_update_memory]"

lemma run_node_guarded:
  assumes "n \<in> set guarded_nodes"
  shows "\<exists>name node. run_node sv n s m = Some (guarded name node sv s m) \<and> sound_body s (node sv s m)"
  by (insert assms, cases n)
    (simp_all add: guarded_nodes_def, (intro exI conjI; (rule refl | rule node_bodies))+)

lemma run_node_contract:
  assumes "n \<in> set guarded_nodes" "log_state s lg"
  obtains ws es m' where "run_node sv n s m = Some (ws, es, m')"
    "step_contract (get_or (graph_max_steps (sv_settings sv)) (gs_maximum_execution_steps s)) s lg
       (apply_update ws s) es"
proof -
  from run_node_guarded [OF assms(1), of sv s m] obtain name node where
    r: "run_node sv n s m = Some (guarded name node sv s m)" and b: "sound_body s (node sv s m)"
    by (elim exE conjE) (rule that)
  obtain ws es m' where g: "guarded name node sv s m = (ws, es, m')" by (metis prod_cases3)
  show ?thesis using that r g guarded_effect [OF b assms(2) g] by simp
qed

section \<open>Facts a node leaves alone\<close>

text \<open>The facts the routing decision rests on; only the nodes up to the supervisor write them.\<close>

definition routing_facts where
  "routing_facts st = (gs_resolved_query st, gs_normalized_query st, gs_detected_intent st,
     gs_security_denial_category st, gs_selected_route st)"

definition late_write :: "channel_write \<Rightarrow> bool" where
  "late_write w = (case w of W_resolved_query _ \<Rightarrow> False | W_normalized_query _ \<Rightarrow> False
     | W_detected_intent _ \<Rightarrow> False | W_security_denial_category _ \<Rightarrow> False
     | W_selected_route _ \<Rightarrow> False | _ \<Rightarrow> True)"

definition keeps_writes :: "(channel_write \<Rightarrow> bool) \<Rightarrow> 'm node_result \<Rightarrow> bool" where
  "keeps_writes ok r = (case nr_outcome r of Inl _ \<Rightarrow> True | Inr ws \<Rightarrow> list_all ok ws)"

lemma keeps_writes_simps [simp]:
  "keeps_writes ok (node_return evs ws m) \<longleftrightarrow> list_all ok ws" "keeps_writes ok (node_raise evs m)"
  by (simp_all add: keeps_writes_def node_result_defs)

lemma apply_write_late: "late_write w \<Longrightarrow> routing_facts (apply_write w s) = routing_facts s"
  by (cases w) (simp_all add: late_write_def routing_facts_def)

lemma apply_update_late: "list_all late_write ws \<Longrightarrow> routing_facts (apply_update ws s) = routing_facts s"
  by (induction ws arbitrary: s) (simp_all add: apply_write_late)

definition late_nodes :: "graph_node list" where
  "late_nodes = drop 5 guarded_nodes"

lemma late_response: "response_of sv st q = Inr (g, ws) \<Longrightarrow> list_all late_write ws"
  by (auto simp: response_of_def late_write_def grounded_writes_def draft_writes_def
      split: option.splits if_splits)

lemmas late_body_defs = simple_retrieval_def cross_document_research_def validate_evidence_def
  direct_response_def deny_request_def unsupported_def python_analysis_def execute_mcp_tool_def
  generate_response_def validate_citations_def prepare_output_def update_memory_def

named_theorems late_bodies \<open>bodies that leave the routing facts alone\<close>

lemma late_simple_retrieval [late_bodies]: "keeps_writes late_write (simple_retrieval sv st m)"
  by (simp add: late_body_defs Let_def late_write_def graph_failure_def split: option.splits sum.splits)

lemma late_cross_document_research [late_bodies]:
  "keeps_writes late_write (cross_document_research sv st m)"
  by (simp add: late_body_defs Let_def late_write_def graph_failure_def split: sum.splits)

lemma late_validate_evidence [late_bodies]: "keeps_writes late_write (validate_evidence sv st m)"
  by (simp add: late_body_defs Let_def late_write_def split: sum.splits)

lemma late_answers [late_bodies]:
  "keeps_writes late_write (direct_response sv st m)" "keeps_writes late_write (deny_request sv st m)"
  "keeps_writes late_write (unsupported sv st m)" "keeps_writes late_write (prepare_output sv st m)"
  by (simp_all add: late_body_defs Let_def late_write_def)

lemma late_python_analysis [late_bodies]: "keeps_writes late_write (python_analysis sv st m)"
  by (simp add: late_body_defs Let_def late_write_def split: option.splits sum.splits)

lemma late_execute_mcp_tool [late_bodies]: "keeps_writes late_write (execute_mcp_tool sv st m)"
  by (simp add: late_body_defs Let_def late_write_def graph_failure_def
      split: option.splits sum.splits mcp_error.splits)

lemma late_generate_response [late_bodies]: "keeps_writes late_write (generate_response sv st m)"
  using late_response [of sv st]
  by (auto simp: generate_response_def Let_def split: option.splits sum.splits) (simp add: late_write_def)

lemma late_validate_citations [late_bodies]: "keeps_writes late_write (validate_citations sv st m)"
  by (simp add: late_body_defs Let_def late_write_def split: option.splits)

lemma late_update_memory [late_bodies]: "keeps_writes late_write (update_memory sv st m)"
  by (simp add: late_body_defs Let_def late_write_def split: option.splits prod.splits sum.splits)

section \<open>State predicates a node preserves\<close>

definition guard_writes :: "channel_write set" where
  "guard_writes = range W_failure \<union> range W_errors \<union> range W_visited_nodes \<union>
     range W_activity_events \<union> range W_execution_step_count"

lemma apply_update_preserves:
  assumes "\<And>w t. w \<in> W \<Longrightarrow> P t \<Longrightarrow> P (apply_write w t)" "set ws \<subseteq> W" "P s"
  shows "P (apply_update ws s)"
  using assms(2,3)
proof (induction ws arbitrary: s)
  case (Cons w ws)
  have "P (apply_write w s)" using assms(1) [of w s] Cons.prems by simp
  then show ?case using Cons.IH [of "apply_write w s"] Cons.prems by simp
qed simp

lemma set_graph_failure: "set (graph_failure c msg n) \<subseteq> guard_writes"
  by (auto simp: graph_failure_def guard_writes_def)

lemma guarded_preserves:
  assumes g: "guarded name node sv s m = (ws, es, m')" and P: "P s"
    and body: "\<And>xs. nr_outcome (node sv s m) = Inr xs \<Longrightarrow> P (apply_update xs s)"
    and guard: "\<And>w t. w \<in> guard_writes \<Longrightarrow> P t \<Longrightarrow> P (apply_write w t)"
  shows "P (apply_update ws s)"
proof (cases "nr_outcome (node sv s m)")
  case (Inl u)
  then have "set ws \<subseteq> guard_writes"
    using g by (auto simp: guarded_def Let_def guard_writes_def graph_failure_def split: if_splits)
  from apply_update_preserves [of guard_writes P, OF guard this P] show ?thesis .
next
  case (Inr xs)
  show ?thesis
  proof (cases "get_or (graph_max_steps (sv_settings sv)) (gs_maximum_execution_steps s)
      \<le> get_or 0 (gs_execution_step_count s)")
    case True
    then have "set ws \<subseteq> guard_writes" using g set_graph_failure by (auto simp: guarded_def)
    from apply_update_preserves [of guard_writes P, OF guard this P] show ?thesis .
  next
    case False
    then obtain ys where ws: "ws = xs @ ys" and ys: "set ys \<subseteq> guard_writes"
      using g Inr by (auto simp: guarded_def Let_def guard_writes_def)
    from apply_update_preserves [of guard_writes P, OF guard ys body [OF Inr]]
    show ?thesis by (simp add: ws)
  qed
qed

lemma guarded_keeps:
  assumes k: "keeps_writes ok (node sv s m)" and g: "guarded name node sv s m = (ws, es, m')"
    and frame: "\<And>xs. list_all ok xs \<Longrightarrow> fld (apply_update xs s) = fld s"
    and guard: "\<And>w t. w \<in> guard_writes \<Longrightarrow> fld (apply_write w t) = fld t"
  shows "fld (apply_update ws s) = fld s"
proof (rule guarded_preserves [OF g, of "\<lambda>t. fld t = fld s"])
  show "fld (apply_update xs s) = fld s" if "nr_outcome (node sv s m) = Inr xs" for xs
    by (rule frame) (use k that in \<open>simp add: keeps_writes_def\<close>)
qed (simp_all add: guard)

lemma run_late_node:
  assumes n: "n \<in> set late_nodes" and r: "run_node sv n s m = Some (ws, es, m')"
  shows "routing_facts (apply_update ws s) = routing_facts s"
proof -
  have "\<exists>name node. guarded name node sv s m = (ws, es, m') \<and> keeps_writes late_write (node sv s m)"
    by (insert n r, cases n)
      (simp_all add: late_nodes_def guarded_nodes_def, (intro exI conjI; (assumption | rule late_bodies))+)
  then obtain name node where g: "guarded name node sv s m = (ws, es, m')"
    and k: "keeps_writes late_write (node sv s m)" by (elim exE conjE) (rule that)
  have "routing_facts (apply_write w t) = routing_facts t" if "w \<in> guard_writes" for w t
    using that by (auto simp: guard_writes_def routing_facts_def)
  from guarded_keeps [OF k g apply_update_late this] show ?thesis .
qed

text \<open>The rule of the output contract on deterministic analysis answers, as a fact of the state.\<close>

definition rendering_ok :: "graph_state \<Rightarrow> bool" where
  "rendering_ok st =
     (gs_deterministic_analysis_rendering_used st = Some True \<longrightarrow>
        gs_analysis_result st \<noteq> None \<and> gs_deterministic_fallback_used st \<noteq> Some True \<and>
        gs_fallback_reason st = None)"

lemma rendering_output_ok: "rendering_ok st \<Longrightarrow> graph_output_ok (final_output_of st r)"
  by (auto simp: rendering_ok_def graph_output_ok_def final_output_of_def get_or_def split: option.splits)

definition rendering_write :: "channel_write \<Rightarrow> bool" where
  "rendering_write w = (case w of W_deterministic_fallback_used _ \<Rightarrow> True
     | W_deterministic_analysis_rendering_used _ \<Rightarrow> True | W_fallback_reason _ \<Rightarrow> True | _ \<Rightarrow> False)"

lemma apply_write_rendering: "\<not> rendering_write w \<Longrightarrow> rendering_ok s \<Longrightarrow> rendering_ok (apply_write w s)"
  by (cases w) (simp_all add: rendering_ok_def rendering_write_def)

lemma rendering_visited [simp]: "rendering_ok (t\<lparr> gs_visited_nodes := ns \<rparr>) = rendering_ok t"
  by (simp add: rendering_ok_def)

lemma apply_update_rendering:
  "list_all (\<lambda>w. \<not> rendering_write w) ws \<Longrightarrow> rendering_ok s \<Longrightarrow> rendering_ok (apply_update ws s)"
  by (induction ws arbitrary: s) (simp_all add: apply_write_rendering)

definition keeps_rendering :: "graph_state \<Rightarrow> 'm node_result \<Rightarrow> bool" where
  "keeps_rendering st r =
     (case nr_outcome r of Inl _ \<Rightarrow> True | Inr ws \<Rightarrow> rendering_ok st \<longrightarrow> rendering_ok (apply_update ws st))"

lemma keeps_renderingI: "keeps_writes (\<lambda>w. \<not> rendering_write w) r \<Longrightarrow> keeps_rendering st r"
  by (simp add: keeps_writes_def keeps_rendering_def apply_update_rendering split: sum.splits)

named_theorems rendering_bodies \<open>bodies that keep the rule on deterministic analysis answers\<close>

lemma rendering_early [rendering_bodies]:
  "keeps_rendering st (validate_request sv st m)" "keeps_rendering st (classify_intent sv st m)"
  "keeps_rendering st (load_memory sv st m)" "keeps_rendering st (resolve_followup_context sv st m)"
  "keeps_rendering st (supervisor sv st m)"
  by (rule keeps_renderingI, simp add: rendering_write_def validate_request_def classify_intent_def
      load_memory_def resolve_followup_context_def supervisor_def Let_def
      split: option.splits prod.splits sum.splits)+

lemma rendering_late [rendering_bodies]:
  "keeps_rendering st (simple_retrieval sv st m)" "keeps_rendering st (cross_document_research sv st m)"
  "keeps_rendering st (validate_evidence sv st m)" "keeps_rendering st (direct_response sv st m)"
  "keeps_rendering st (deny_request sv st m)" "keeps_rendering st (unsupported sv st m)"
  "keeps_rendering st (prepare_output sv st m)" "keeps_rendering st (python_analysis sv st m)"
  "keeps_rendering st (execute_mcp_tool sv st m)" "keeps_rendering st (validate_citations sv st m)"
  "keeps_rendering st (update_memory sv st m)"
  by (rule keeps_renderingI, simp add: rendering_write_def late_body_defs Let_def graph_failure_def
      split: option.splits prod.splits sum.splits mcp_error.splits)+

text \<open>The grounded response service builds its answers through the validated contract.\<close>

definition responses_ok :: "'m graph_services \<Rightarrow> bool" where
  "responses_ok sv = (\<forall>q a g. sv_analysis_response sv q a = Inr g \<longrightarrow> grounded_response_ok g)"

lemma rendering_generate_response:
  assumes "responses_ok sv" shows "keeps_rendering st (generate_response sv st m)"
proof -
  have "rendering_ok (apply_update ws st)"
    if r: "response_of sv st q = Inr (g, ws)" and ok: "rendering_ok st" for q g ws
  proof (cases "gs_analysis_result st")
    case None
    then have "gs_deterministic_analysis_rendering_used st \<noteq> Some True"
      using ok by (auto simp: rendering_ok_def)
    moreover have "gs_deterministic_analysis_rendering_used (apply_update ws st) =
        gs_deterministic_analysis_rendering_used st"
      using r None
      by (auto simp: response_of_def draft_writes_def grounded_writes_def split: option.splits if_splits)
    ultimately show ?thesis by (simp add: rendering_ok_def)
  next
    case (Some a)
    then have "grounded_response_ok g" and ws: "ws = [W_response_mode RM_structured_analysis] @
        grounded_writes g @
        [W_deterministic_analysis_rendering_used (gr_deterministic_analysis_rendering_used g)]"
      using r assms by (auto simp: response_of_def responses_ok_def)
    then show ?thesis using Some
      by (auto simp: rendering_ok_def grounded_response_ok_def grounded_writes_def)
  qed
  then show ?thesis
    by (auto simp: keeps_rendering_def generate_response_def node_result_defs Let_def
        split: option.splits sum.splits)
qed

lemma guard_write_rendering: "w \<in> guard_writes \<Longrightarrow> rendering_ok t \<Longrightarrow> rendering_ok (apply_write w t)"
  by (rule apply_write_rendering) (auto simp: guard_writes_def rendering_write_def)

lemma run_node_rendering:
  assumes n: "n \<in> set guarded_nodes" and sv: "responses_ok sv"
    and r: "run_node sv n s m = Some (ws, es, m')" and ok: "rendering_ok s"
  shows "rendering_ok (apply_update ws s)"
proof -
  have "\<exists>name node. guarded name node sv s m = (ws, es, m') \<and> keeps_rendering s (node sv s m)"
    by (insert n r, cases n) (simp_all add: guarded_nodes_def,
      (intro exI conjI; (assumption | rule rendering_bodies rendering_generate_response [OF sv]))+)
  then obtain name node where g: "guarded name node sv s m = (ws, es, m')"
    and k: "keeps_rendering s (node sv s m)" by (elim exE conjE) (rule that)
  show ?thesis
    by (rule guarded_preserves [OF g ok _ guard_write_rendering])
      (use k ok in \<open>simp_all add: keeps_rendering_def\<close>)
qed

section \<open>Answers carried over\<close>

text \<open>The parts of an earlier answer that stay in the checkpoint of the session's thread.\<close>

definition carried_answer where
  "carried_answer st = (gs_grounded_response st, gs_analysis_result st, gs_mcp_execution st)"

definition answer_write :: "channel_write \<Rightarrow> bool" where
  "answer_write w = (case w of W_grounded_response _ \<Rightarrow> True | W_analysis_result _ \<Rightarrow> True
     | W_mcp_execution _ \<Rightarrow> True | _ \<Rightarrow> False)"

definition answer_nodes :: "graph_node set" where
  "answer_nodes = {N_generate_response, N_python_analysis, N_execute_mcp_tool}"

lemma apply_write_answer: "\<not> answer_write w \<Longrightarrow> carried_answer (apply_write w s) = carried_answer s"
  by (cases w) (simp_all add: carried_answer_def answer_write_def)

lemma apply_update_answer:
  "list_all (\<lambda>w. \<not> answer_write w) ws \<Longrightarrow> carried_answer (apply_update ws s) = carried_answer s"
  by (induction ws arbitrary: s) (simp_all add: apply_write_answer)

named_theorems answer_bodies \<open>bodies that leave an earlier answer alone\<close>

lemma answer_early [answer_bodies]:
  "keeps_writes (\<lambda>w. \<not> answer_write w) (validate_request sv st m)"
  "keeps_writes (\<lambda>w. \<not> answer_write w) (classify_intent sv st m)"
  "keeps_writes (\<lambda>w. \<not> answer_write w) (load_memory sv st m)"
  "keeps_writes (\<lambda>w. \<not> answer_write w) (resolve_followup_context sv st m)"
  "keeps_writes (\<lambda>w. \<not> answer_write w) (supervisor sv st m)"
  by (simp add: answer_write_def validate_request_def classify_intent_def load_memory_def
      resolve_followup_context_def supervisor_def Let_def
      split: option.splits prod.splits sum.splits)+

lemma answer_late [answer_bodies]:
  "keeps_writes (\<lambda>w. \<not> answer_write w) (simple_retrieval sv st m)"
  "keeps_writes (\<lambda>w. \<not> answer_write w) (cross_document_research sv st m)"
  "keeps_writes (\<lambda>w. \<not> answer_write w) (validate_evidence sv st m)"
  "keeps_writes (\<lambda>w. \<not> answer_write w) (direct_response sv st m)"
  "keeps_writes (\<lambda>w. \<not> answer_write w) (deny_request sv st m)"
  "keeps_writes (\<lambda>w. \<not> answer_write w) (unsupported sv st m)"
  "keeps_writes (\<lambda>w. \<not> answer_write w) (prepare_output sv st m)"
  "keeps_writes (\<lambda>w. \<not> answer_write w) (validate_citations sv st m)"
  "keeps_writes (\<lambda>w. \<not> answer_write w) (update_memory sv st m)"
  by (simp add: answer_write_def late_body_defs Let_def graph_failure_def
      split: option.splits prod.splits sum.splits)+

lemma guarded_answer:
  assumes k: "keeps_writes (\<lambda>w. \<not> answer_write w) (node sv s m)"
    and g: "guarded name node sv s m = (ws, es, m')"
  shows "carried_answer (apply_update ws s) = carried_answer s"
proof -
  have "carried_answer (apply_write w t) = carried_answer t" if "w \<in> guard_writes" for w t
    using that by (auto simp: guard_writes_def carried_answer_def)
  from guarded_keeps [OF k g apply_update_answer this] show ?thesis .
qed

lemma run_node_answer:
  assumes n: "n \<notin> answer_nodes" and r: "run_node sv n s m = Some (ws, es, m')"
  shows "carried_answer (apply_update ws s) = carried_answer s"
proof (cases "n \<in> set guarded_nodes")
  case True
  have "\<exists>name node. guarded name node sv s m = (ws, es, m') \<and>
      keeps_writes (\<lambda>w. \<not> answer_write w) (node sv s m)"
    by (insert n r True, cases n) (simp_all add: guarded_nodes_def answer_nodes_def,
      (intro exI conjI; (assumption | rule answer_bodies))+)
  then obtain name node where g: "guarded name node sv s m = (ws, es, m')"
    and k: "keeps_writes (\<lambda>w. \<not> answer_write w) (node sv s m)" by (elim exE conjE) (rule that)
  show ?thesis by (rule guarded_answer [of node, OF k g])
next
  case False
  then have "n \<in> {N_initialize_request, N_handle_failure, N_finalize_execution}"
    by (cases n) (simp_all add: guarded_nodes_def)
  then show ?thesis
    using r by (auto simp: initialize_writes_def handle_failure_writes_def finalize_writes_def
        carried_answer_def Let_def split: sum.splits option.splits if_splits)
qed

end
