(* ===== verification/Graph_Properties.thy ===== *)
theory Graph_Properties
  imports Graph_Frames
begin

text \<open>
  What one invocation of the graph guarantees: it ends within the recursion limit and with an
  output, follows the walk of the route the policy decides or leaves it for the failure node, visits
  a tool node only with the permission for it, and streams one numbered log that ends with one
  terminal event and the output.  The proofs interpret the driver of Graph_Driver on this graph with
  the invariant \<open>run_inv\<close>.
\<close>

section \<open>Abstract specification of the routing\<close>

text \<open>The route of a resolved query, without the state machine around it.\<close>

definition decide_route :: "authenticated_principal \<Rightarrow> string \<Rightarrow> route" where
  "decide_route p q =
     (if security_denial_category q \<noteq> None \<or> requests_inaccessible_access q p then Route_deny
      else supervise (fst (classify q)) p)"

text \<open>The nodes an invocation visits when nothing fails.\<close>

definition opening_nodes :: "graph_node list" where
  "opening_nodes = [N_initialize_request, N_validate_request, N_load_memory,
     N_resolve_followup_context, N_classify_intent, N_supervisor]"

fun route_steps :: "route \<Rightarrow> graph_node list" where
  "route_steps Route_simple_retrieval =
     [N_simple_retrieval, N_validate_evidence, N_generate_response, N_validate_citations]"
| "route_steps Route_recursive_research =
     [N_cross_document_research, N_validate_evidence, N_generate_response, N_validate_citations]"
| "route_steps Route_python_analysis = [N_python_analysis, N_generate_response, N_validate_citations]"
| "route_steps Route_direct_response = [N_direct_response]"
| "route_steps Route_deny = [N_deny_request]"
| "route_steps Route_mcp_tool = [N_execute_mcp_tool]"
| "route_steps Route_human_approval = [N_unsupported]"
| "route_steps Route_unsupported = [N_unsupported]"
| "route_steps Route_failure = []"

definition full_walk :: "route \<Rightarrow> graph_node list" where
  "full_walk r = opening_nodes @ route_steps r @
     [N_prepare_output, N_update_memory, N_finalize_execution]"

lemmas walk_defs = full_walk_def opening_nodes_def

lemma length_full_walk: "length (full_walk r) \<le> 13"
  by (cases r) (simp_all add: walk_defs)

lemma decide_route_not_failure: "decide_route p q \<noteq> Route_failure"
proof -
  have "supervise i p \<noteq> Route_failure" for i by (cases i) simp_all
  then show ?thesis by (simp add: decide_route_def)
qed

definition walk_before :: "route \<Rightarrow> graph_node \<Rightarrow> graph_node list" where
  "walk_before r n = takeWhile (\<lambda>x. x \<noteq> n) (full_walk r)"

lemma walk_next:
  assumes "n \<in> set (full_walk r)" "n \<noteq> N_supervisor" "n \<noteq> N_finalize_execution"
    "n = N_initialize_request \<or> \<not> failed st" "successor n st = Some (Some n')" "r \<noteq> Route_failure"
  shows "n' \<in> set (full_walk r) \<and> walk_before r n' = walk_before r n @ [n]"
  by (insert assms, cases r; cases n) (simp_all add: walk_defs walk_before_def after_operation_def)

lemma walk_dispatch:
  assumes "r \<noteq> Route_failure"
  shows "route_node r \<in> set (full_walk r) \<and> walk_before r (route_node r) = opening_nodes"
  using assms by (cases r) (simp_all add: walk_defs walk_before_def)

lemma walk_opening:
  "n \<in> set opening_nodes \<Longrightarrow> n \<in> set (full_walk r') \<and> walk_before r n = walk_before r' n"
  by (auto simp: walk_defs walk_before_def)

lemma walk_before_prefix: "n \<in> set (full_walk r) \<Longrightarrow> prefix (walk_before r n @ [n]) (full_walk r)"
proof -
  assume "n \<in> set (full_walk r)"
  then obtain zs where "dropWhile (\<lambda>x. x \<noteq> n) (full_walk r) = n # zs"
    by (metis (mono_tags, lifting) dropWhile_eq_Nil_conv hd_dropWhile list.collapse)
  then have "full_walk r = (walk_before r n @ [n]) @ zs"
    using takeWhile_dropWhile_id [of "\<lambda>x. x \<noteq> n" "full_walk r"] by (simp add: walk_before_def)
  then show ?thesis by (metis prefixI)
qed

lemma walk_nodes_guarded:
  assumes "n \<in> set (full_walk r)" "n \<noteq> N_initialize_request" "n \<noteq> N_finalize_execution"
  shows "n \<in> set guarded_nodes"
  using assms by (cases r) (auto simp: walk_defs guarded_nodes_def)

lemma walk_nodes_late:
  assumes "n \<in> set (full_walk r)" "n \<notin> set opening_nodes" "n \<noteq> N_finalize_execution"
  shows "n \<in> set late_nodes"
  using assms by (cases r) (auto simp: walk_defs guarded_nodes_def late_nodes_def)

lemma walk_successor_failed:
  assumes "n \<in> set (full_walk r)" "n \<noteq> N_initialize_request" "n \<noteq> N_finalize_execution" "failed st"
  shows "successor n st = Some (Some N_handle_failure)"
  by (insert assms, cases r; cases n) (simp_all add: walk_defs after_operation_def)

section \<open>The stream\<close>

definition for_input :: "graph_input \<Rightarrow> graph_state \<Rightarrow> bool" where
  "for_input i st =
     (gs_request_id st = gi_request_id i \<and> gs_trace_id st = gi_trace_id i \<and>
      gs_session_id st = gi_session_id i \<and> gs_principal st = gi_principal i \<and>
      gs_original_query st = gi_user_message i)"

lemma for_input_same: "for_input i s \<Longrightarrow> same_invocation s t \<Longrightarrow> for_input i t"
  by (simp add: for_input_def same_invocation_def)

text \<open>The consumer's loop over the parts so far has yielded exactly the log.\<close>

definition parts_ok :: "graph_input \<Rightarrow> 'm execution \<Rightarrow> bool" where
  "parts_ok i c = (\<forall>rest. stream_items i 0 False False (ex_parts c @ rest) =
     map Item_event (ex_stream c) @ stream_items i (length (ex_stream c)) False False rest)"

lemma stream_items_events:
  assumes "\<And>e. e \<in> set es \<Longrightarrow> \<not> terminal_event e \<and> ae_request_id e = gi_request_id i \<and>
      ae_trace_id e = gi_trace_id i \<and> ae_session_id e = gi_session_id i"
    and "map ae_sequence_number es = [k ..< k + length es]"
  shows "stream_items i k False False (map Part_event es @ rest) =
    map Item_event es @ stream_items i (k + length es) False False rest"
  using assms
proof (induction es arbitrary: k)
  case (Cons e es)
  have "ae_sequence_number e = k" "map ae_sequence_number es = [Suc k ..< Suc k + length es]"
    using Cons.prems(2) by (simp_all add: upt_conv_Cons del: upt_Suc)
  then show ?case
    using Cons.IH [of "Suc k"] Cons.prems(1) by (simp add: event_correlated_def)
qed simp

lemma stream_items_values:
  "stream_items i k False False (Part_values out # rest) = stream_items i k False False rest"
  by (cases out) simp_all

lemma log_state_new_events:
  assumes "log_state t (old @ new)" "for_input i t"
  shows "map ae_sequence_number new = [length old ..< length old + length new]"
    and "e \<in> set new \<Longrightarrow> ae_request_id e = gi_request_id i \<and> ae_trace_id e = gi_trace_id i \<and>
      ae_session_id e = gi_session_id i"
proof -
  have m: "map ae_sequence_number (old @ new) = [0 ..< length (old @ new)]"
    using assms(1) unfolding log_state_def by blast
  have "drop (length old) (map ae_sequence_number (old @ new)) =
      drop (length old) [0 ..< length (old @ new)]"
    by (simp only: m)
  then show "map ae_sequence_number new = [length old ..< length old + length new]" by simp
  show "e \<in> set new \<Longrightarrow> ae_request_id e = gi_request_id i \<and> ae_trace_id e = gi_trace_id i \<and>
      ae_session_id e = gi_session_id i"
    using assms by (auto simp: log_state_def for_input_def)
qed

lemma parts_ok_step:
  assumes "parts_ok i c" "for_input i t" "log_state t (ex_stream c @ es)"
    "\<forall>e \<in> set es. \<not> terminal_event e"
    "ex_parts c' = ex_parts c @ map Part_event es @ [Part_values out]"
    "ex_stream c' = ex_stream c @ es"
  shows "parts_ok i c'"
proof -
  note new = log_state_new_events [OF assms(3,2)]
  have "stream_items i (length (ex_stream c)) False False
      (map Part_event es @ Part_values out # rest) =
      map Item_event es @ stream_items i (length (ex_stream c) + length es) False False rest" for rest
    by (subst stream_items_events) (use new assms(4) in \<open>simp_all only: stream_items_values\<close>, auto)
  then show ?thesis using assms(1,5,6) by (simp add: parts_ok_def)
qed

section \<open>The invariant of an invocation\<close>

text \<open>What the routing has established once node \<open>n\<close> is about to run.\<close>

definition routing_stage :: "route \<Rightarrow> graph_node \<Rightarrow> graph_state \<Rightarrow> bool" where
  "routing_stage r n st =
     (n \<in> set (take 4 opening_nodes) \<or>
      (\<exists>q. gs_resolved_query st = Some q \<and> gs_normalized_query st = Some q \<and>
         (n = N_classify_intent \<or>
          (gs_detected_intent st = Some (fst (classify q)) \<and>
           gs_security_denial_category st = security_denial_category q \<and>
           (n = N_supervisor \<or>
            (gs_selected_route st = Some r \<and> r = decide_route (gs_principal st) q))))))"

definition failure_closed :: "graph_state \<Rightarrow> bool" where
  "failure_closed st =
     (failed st \<and> gs_processing_status st = Some PS_failed \<and> gs_selected_route st = Some Route_failure \<and>
      gs_retrieved_evidence st = [] \<and> gs_response_text st = Some ''The request failed safely.'')"

text \<open>Walks that were left for the failure node: a part of the walk of some route, and of the decided
  route once the supervisor has run.\<close>

definition route_decided :: "route \<Rightarrow> graph_state \<Rightarrow> bool" where
  "route_decided r st =
     (\<exists>q. gs_resolved_query st = Some q \<and> r = decide_route (gs_principal st) q)"

definition broken_off :: "nat \<Rightarrow> graph_node list \<Rightarrow> graph_state \<Rightarrow> bool" where
  "broken_off budget path st =
     (\<exists>r. prefix path (butlast (full_walk r)) \<and> length path \<le> budget + 2 \<and>
        (prefix path opening_nodes \<or> route_decided r st))"

definition position :: "nat \<Rightarrow> graph_node \<Rightarrow> 'm execution \<Rightarrow> bool" where
  "position budget n c =
     (let st = ex_state c; path = ex_path c in
      if n = N_handle_failure then failed st \<and> broken_off budget path st
      else if n = N_finalize_execution \<and> failed st
      then failure_closed st \<and> (\<exists>p. path = p @ [N_handle_failure] \<and> broken_off budget p st)
      else (\<exists>r. r \<noteq> Route_failure \<and> n \<in> set (full_walk r) \<and> path = walk_before r n \<and>
              routing_stage r n st) \<and>
           (if n = N_initialize_request then ex_stream c = []
            else gs_maximum_execution_steps st = Some budget \<and>
              gs_execution_step_count st = Some (length path)) \<and>
           (length path \<le> 1 \<or> length path \<le> budget))"

definition common_ok :: "'m graph_services \<Rightarrow> graph_input \<Rightarrow> 'm execution \<Rightarrow> bool" where
  "common_ok sv i c =
     (responses_ok sv \<and> for_input i (ex_state c) \<and> log_state (ex_state c) (ex_stream c) \<and>
      (\<forall>e \<in> set (ex_stream c). \<not> terminal_event e) \<and> parts_ok i c \<and> rendering_ok (ex_state c))"

definition run_inv :: "'m graph_services \<Rightarrow> graph_input \<Rightarrow> graph_node \<Rightarrow> 'm execution \<Rightarrow> bool" where
  "run_inv sv i n c = (common_ok sv i c \<and> position (graph_max_steps (sv_settings sv)) n c)"

definition run_rank :: "'m graph_services \<Rightarrow> graph_node \<Rightarrow> 'm execution \<Rightarrow> nat" where
  "run_rank sv n c =
     (if n = N_finalize_execution then 0 else if n = N_handle_failure then 1
      else graph_max_steps (sv_settings sv) + 3 - length (ex_path c))"

lemma common_step:
  assumes c: "common_ok sv i c" and same: "same_invocation (ex_state c) t"
    and lg: "log_state t (ex_stream c @ es)" and q: "\<forall>e \<in> set es. \<not> terminal_event e"
    and rd: "rendering_ok t"
    and c': "c' = \<lparr> ex_state = t, ex_memory = m, ex_stream = ex_stream c @ es,
      ex_parts = ex_parts c @ map Part_event es @ [Part_values out], ex_path = path \<rparr>"
  shows "common_ok sv i c'"
proof -
  have f: "for_input i t" using c same for_input_same by (auto simp: common_ok_def)
  have "parts_ok i c'"
    by (rule parts_ok_step [OF _ f lg q]) (use c c' in \<open>simp_all add: common_ok_def\<close>)
  then show ?thesis using c f lg q rd c' by (auto simp: common_ok_def)
qed

lemma execute_guarded:
  assumes n: "n \<in> set guarded_nodes" and c: "common_ok sv i c"
  obtains ws es m' c' where
    "run_node sv n (ex_state c) (ex_memory c) = Some (ws, es, m')"
    "execute_node sv n c = Some c'" "ex_state c' = apply_update ws (ex_state c)"
    "ex_path c' = ex_path c @ [n]" "common_ok sv i c'"
    "step_contract (get_or (graph_max_steps (sv_settings sv))
       (gs_maximum_execution_steps (ex_state c))) (ex_state c) (ex_stream c) (ex_state c') es"
proof -
  have lg: "log_state (ex_state c) (ex_stream c)" using c by (simp add: common_ok_def)
  from run_node_contract [OF n lg, of sv "ex_memory c"] obtain ws es m' where
    r: "run_node sv n (ex_state c) (ex_memory c) = Some (ws, es, m')" and
    k: "step_contract (get_or (graph_max_steps (sv_settings sv))
       (gs_maximum_execution_steps (ex_state c))) (ex_state c) (ex_stream c)
       (apply_update ws (ex_state c)) es" by blast
  define t where "t = apply_update ws (ex_state c)"
  define c' where "c' = \<lparr> ex_state = t, ex_memory = m', ex_stream = ex_stream c @ es,
      ex_parts = ex_parts c @ map Part_event es @ [Part_values (gs_final_output t)],
      ex_path = ex_path c @ [n] \<rparr>"
  have e: "execute_node sv n c = Some c'" by (simp add: execute_node_def r c'_def t_def Let_def)
  have rd: "rendering_ok t" unfolding t_def
    by (rule run_node_rendering [OF n _ r]) (use c in \<open>simp_all add: common_ok_def\<close>)
  have "common_ok sv i c'"
    by (rule common_step [OF c _ _ _ rd c'_def]) (use k in \<open>simp_all add: step_contract_def t_def\<close>)
  then show ?thesis using that [OF r e] k by (simp add: c'_def t_def)
qed

section \<open>The three nodes that decide the route\<close>

lemma run_resolve:
  assumes "run_node sv N_resolve_followup_context s m = Some (ws, es, m')"
    "\<not> failed (apply_update ws s)"
  shows "\<exists>q. gs_resolved_query (apply_update ws s) = Some q \<and>
    gs_normalized_query (apply_update ws s) = Some q"
proof -
  have g: "guarded ''resolve_followup_context'' resolve_followup_context sv s m = (ws, es, m')"
    using assms(1) by simp
  from guarded_success [OF g assms(2)] obtain xs a c where
    o: "nr_outcome (resolve_followup_context sv s m) = Inr xs" and
    u: "apply_update ws s = (apply_update xs s)\<lparr> gs_activity_events := a, gs_execution_step_count := c \<rparr>"
    by (elim exE conjE) (rule that)
  show ?thesis unfolding u
    using o by (auto simp: resolve_followup_context_def node_return_def Let_def split: prod.splits)
qed

lemma run_classify:
  assumes "run_node sv N_classify_intent s m = Some (ws, es, m')" "\<not> failed (apply_update ws s)"
    "gs_normalized_query s = Some q"
  shows "gs_resolved_query (apply_update ws s) = gs_resolved_query s"
    "gs_normalized_query (apply_update ws s) = Some q"
    "gs_detected_intent (apply_update ws s) = Some (fst (classify q))"
    "gs_security_denial_category (apply_update ws s) = security_denial_category q"
proof -
  have g: "guarded ''classify_intent'' classify_intent sv s m = (ws, es, m')"
    using assms(1) by simp
  from guarded_success [OF g assms(2)] obtain xs a c where
    o: "nr_outcome (classify_intent sv s m) = Inr xs" and
    u: "apply_update ws s = (apply_update xs s)\<lparr> gs_activity_events := a, gs_execution_step_count := c \<rparr>"
    by (elim exE conjE) (rule that)
  have xs: "xs = [W_detected_intent (fst (classify q)), W_task_complexity (snd (classify q)),
      W_aggregate_intent_present (has_explicit_aggregate_intent q),
      W_security_denial_category (security_denial_category q),
      W_visited_nodes [''classify_intent''], W_execution_step_count (next_step s)]"
    using o assms(3) by (simp add: classify_intent_def node_return_def Let_def)
  show "gs_resolved_query (apply_update ws s) = gs_resolved_query s"
    "gs_normalized_query (apply_update ws s) = Some q"
    "gs_detected_intent (apply_update ws s) = Some (fst (classify q))"
    "gs_security_denial_category (apply_update ws s) = security_denial_category q"
    unfolding u xs using assms(3) by simp_all
qed

lemma supervisor_route_decided:
  assumes "gs_detected_intent s = Some (fst (classify q))"
    "gs_security_denial_category s = security_denial_category q"
  shows "supervisor_route s q = Some (decide_route (gs_principal s) q)"
    "supervisor_denial s q = security_denial_category q"
  using assms by (auto simp: supervisor_route_def supervisor_denial_def decide_route_def
      split: option.splits)

lemma run_supervisor:
  assumes "run_node sv N_supervisor s m = Some (ws, es, m')" "\<not> failed (apply_update ws s)"
    "gs_resolved_query s = Some q" "gs_detected_intent s = Some (fst (classify q))"
    "gs_security_denial_category s = security_denial_category q"
  shows "gs_resolved_query (apply_update ws s) = Some q"
    "gs_normalized_query (apply_update ws s) = gs_normalized_query s"
    "gs_detected_intent (apply_update ws s) = Some (fst (classify q))"
    "gs_security_denial_category (apply_update ws s) = security_denial_category q"
    "gs_selected_route (apply_update ws s) = Some (decide_route (gs_principal s) q)"
proof -
  have g: "guarded ''supervisor'' supervisor sv s m = (ws, es, m')" using assms(1) by simp
  from guarded_success [OF g assms(2)] obtain xs a c where
    o: "nr_outcome (supervisor sv s m) = Inr xs" and
    u: "apply_update ws s = (apply_update xs s)\<lparr> gs_activity_events := a, gs_execution_step_count := c \<rparr>"
    by (elim exE conjE) (rule that)
  have xs: "xs = [W_selected_route (decide_route (gs_principal s) q),
      W_security_denial_category (security_denial_category q),
      W_visited_nodes [''supervisor''], W_execution_step_count (next_step s)]"
    using o assms(3) supervisor_route_decided [OF assms(4,5)]
    by (simp add: supervisor_def node_return_def Let_def)
  show "gs_resolved_query (apply_update ws s) = Some q"
    "gs_normalized_query (apply_update ws s) = gs_normalized_query s"
    "gs_detected_intent (apply_update ws s) = Some (fst (classify q))"
    "gs_security_denial_category (apply_update ws s) = security_denial_category q"
    "gs_selected_route (apply_update ws s) = Some (decide_route (gs_principal s) q)"
    unfolding u xs using assms(3,4) by simp_all
qed

section \<open>Every step keeps the invariant\<close>

lemma walk_has_successor:
  assumes "n \<in> set (full_walk r)" "n \<noteq> N_supervisor" "n \<noteq> N_finalize_execution"
  shows "\<exists>n'. successor n st = Some (Some n')"
  by (insert assms, cases r; cases n) (simp_all add: walk_defs)

lemma prefix_butlast: "prefix (xs @ [x]) ys \<Longrightarrow> x \<noteq> last ys \<Longrightarrow> prefix (xs @ [x]) (butlast ys)"
  by (auto simp: prefix_def butlast_append)

lemma walk_prefix_butlast:
  assumes "n \<in> set (full_walk r)" "n \<noteq> N_finalize_execution"
  shows "prefix (walk_before r n @ [n]) (butlast (full_walk r))"
  by (rule prefix_butlast [OF walk_before_prefix [OF assms(1)]])
    (use assms(2) in \<open>simp add: full_walk_def\<close>)

lemma stage_opening:
  assumes "n \<in> set (take 3 opening_nodes)" "successor n t = Some (Some n')" "n' \<noteq> N_handle_failure"
  shows "routing_stage r n' t"
  using assms by (auto simp: routing_stage_def opening_nodes_def after_operation_def split: if_splits)

lemma opening_cases:
  assumes "n \<in> set (full_walk r)" "n \<noteq> N_finalize_execution" "r \<noteq> Route_failure"
  shows "n \<in> set (take 3 opening_nodes) \<or> n = N_resolve_followup_context \<or> n = N_classify_intent \<or>
    n = N_supervisor \<or> n \<in> set late_nodes"
  using walk_nodes_late [OF assms(1) _ assms(2)] by (auto simp: opening_nodes_def)

lemma late_successor:
  assumes "n \<in> set late_nodes" "successor n t = Some (Some n')"
  shows "n' \<notin> set opening_nodes" "n \<notin> set opening_nodes"
  by (insert assms, cases n)
    (auto simp: late_nodes_def guarded_nodes_def opening_nodes_def after_operation_def split: if_splits)

lemma stage_step:
  assumes n: "n \<in> set (full_walk r)" "n \<noteq> N_finalize_execution" "n \<noteq> N_supervisor" "r \<noteq> Route_failure"
    and st: "routing_stage r n s" and run: "run_node sv n s m = Some (ws, es, m')"
    and t: "t = apply_update ws s" "\<not> failed t"
    and e: "successor n t = Some (Some n')"
  shows "routing_stage r n' t"
proof -
  have hf: "n' \<noteq> N_handle_failure" by (insert e t(2) n(3), cases n) (auto simp: after_operation_def)
  from opening_cases [OF n(1,2,4)] consider "n \<in> set (take 3 opening_nodes)"
    | "n = N_resolve_followup_context" | "n = N_classify_intent" | "n \<in> set late_nodes"
    using n(3) by blast
  then show ?thesis
  proof cases
    case 1
    show ?thesis by (rule stage_opening [OF 1 e hf])
  next
    case 2
    then have n': "n' = N_classify_intent" using e t(2) by (simp add: after_operation_def)
    have "\<exists>q. gs_resolved_query t = Some q \<and> gs_normalized_query t = Some q"
      using run_resolve [OF run [unfolded 2] t(2) [unfolded t(1)]] unfolding t(1) .
    then show ?thesis by (auto simp: routing_stage_def n')
  next
    case 3
    then have n': "n' = N_supervisor" using e t(2) by (simp add: after_operation_def)
    from st 3 obtain q where q: "gs_resolved_query s = Some q" "gs_normalized_query s = Some q"
      by (auto simp: routing_stage_def opening_nodes_def)
    show ?thesis
      using run_classify [of sv s m ws es m' q] run t q 3 by (auto simp: routing_stage_def n')
  next
    case 4
    have f: "routing_facts t = routing_facts s" unfolding t(1) using run_late_node [OF 4 run] .
    have p: "gs_principal t = gs_principal s"
      using apply_update_same [of s ws] t(1) by (simp add: same_invocation_def)
    have o: "n \<notin> set opening_nodes" "n' \<notin> set opening_nodes" using late_successor [OF 4 e] by auto
    show ?thesis
      using st f p o by (auto simp: routing_stage_def routing_facts_def opening_nodes_def)
  qed
qed

lemma position_main:
  assumes "position b n c" "n \<noteq> N_handle_failure" "n \<noteq> N_finalize_execution"
  obtains r where "r \<noteq> Route_failure" "n \<in> set (full_walk r)" "ex_path c = walk_before r n"
    "routing_stage r n (ex_state c)"
    "if n = N_initialize_request then ex_stream c = []
     else gs_maximum_execution_steps (ex_state c) = Some b \<and>
       gs_execution_step_count (ex_state c) = Some (length (ex_path c))"
    "length (ex_path c) \<le> 1 \<or> length (ex_path c) \<le> b"
  using assms by (auto simp: position_def Let_def)

definition steps_well :: "'m graph_services \<Rightarrow> graph_input \<Rightarrow> graph_node \<Rightarrow> 'm execution \<Rightarrow> bool" where
  "steps_well sv i n c =
     (\<exists>c' n'. execute_node sv n c = Some c' \<and> edge_after n c' = Some (Some n') \<and> run_inv sv i n' c' \<and>
        run_rank sv n' c' < run_rank sv n c)"

lemma step_guarded:
  assumes inv: "run_inv sv i n c"
    and n: "n \<noteq> N_handle_failure" "n \<noteq> N_finalize_execution" "n \<noteq> N_initialize_request"
  shows "steps_well sv i n c"
proof -
  let ?b = "graph_max_steps (sv_settings sv)"
  have c: "common_ok sv i c" and pos: "position ?b n c" using inv by (simp_all add: run_inv_def)
  from position_main [OF pos n(1,2)] obtain r where r: "r \<noteq> Route_failure" "n \<in> set (full_walk r)"
    "ex_path c = walk_before r n" "routing_stage r n (ex_state c)"
    and b0: "if n = N_initialize_request then ex_stream c = []
      else gs_maximum_execution_steps (ex_state c) = Some ?b \<and>
        gs_execution_step_count (ex_state c) = Some (length (ex_path c))"
      "length (ex_path c) \<le> 1 \<or> length (ex_path c) \<le> ?b" .
  have b: "gs_maximum_execution_steps (ex_state c) = Some ?b"
    "gs_execution_step_count (ex_state c) = Some (length (ex_path c))"
    "length (ex_path c) \<le> 1 \<or> length (ex_path c) \<le> ?b"
    using b0 n(3) by simp_all
  from execute_guarded [OF walk_nodes_guarded [OF r(2) n(3,2)] c] obtain ws es m' c' where
    run: "run_node sv n (ex_state c) (ex_memory c) = Some (ws, es, m')" and
    ex: "execute_node sv n c = Some c'" and st': "ex_state c' = apply_update ws (ex_state c)" and
    path: "ex_path c' = ex_path c @ [n]" and c': "common_ok sv i c'" and
    k: "step_contract ?b (ex_state c) (ex_stream c) (ex_state c') es"
    using b(1) by (metis get_or_simps(2))
  have len: "length (ex_path c) \<le> ?b + 1" using b(3) by auto
  show ?thesis
  proof (cases "failed (ex_state c')")
    case True
    have e: "edge_after n c' = Some (Some N_handle_failure)"
      unfolding edge_after_def by (rule walk_successor_failed [OF r(2) n(3,2) True])
    have "prefix (ex_path c') opening_nodes \<or> route_decided r (ex_state c')"
    proof (cases "n \<in> set opening_nodes")
      case o: True
      then show ?thesis
        by (auto simp: path r(3) walk_before_def walk_defs)
    next
      case False
      have "routing_facts (ex_state c') = routing_facts (ex_state c)"
        unfolding st' by (rule run_late_node [OF walk_nodes_late [OF r(2) False n(2)] run])
      moreover have "gs_principal (ex_state c') = gs_principal (ex_state c)"
        using k by (simp add: step_contract_def same_invocation_def)
      ultimately show ?thesis
        using r(4) False by (auto simp: routing_stage_def routing_facts_def route_decided_def opening_nodes_def)
    qed
    then have "broken_off ?b (ex_path c') (ex_state c')"
      using walk_prefix_butlast [OF r(2) n(2)] len by (auto simp: broken_off_def path r(3))
    then have "run_inv sv i N_handle_failure c'" using c' True by (simp add: run_inv_def position_def)
    moreover have "run_rank sv N_handle_failure c' < run_rank sv n c"
      using n len by (simp add: run_rank_def)
    ultimately show ?thesis using ex e unfolding steps_well_def by blast
  next
    case nf: False
    have count: "length (ex_path c) < ?b" "gs_execution_step_count (ex_state c') = Some (length (ex_path c'))"
      "gs_maximum_execution_steps (ex_state c') = Some ?b"
      using k nf b by (auto simp: step_contract_def path next_step_def)
    have "\<exists>n' r'. r' \<noteq> Route_failure \<and> successor n (ex_state c') = Some (Some n') \<and> n' \<in> set (full_walk r') \<and>
      ex_path c' = walk_before r' n' \<and> routing_stage r' n' (ex_state c')"
    proof (cases "n = N_supervisor")
      case sup: True
      from r(4) sup obtain q where q: "gs_resolved_query (ex_state c) = Some q"
        "gs_normalized_query (ex_state c) = Some q"
        "gs_detected_intent (ex_state c) = Some (fst (classify q))"
        "gs_security_denial_category (ex_state c) = security_denial_category q"
        by (auto simp: routing_stage_def opening_nodes_def)
      define r' where "r' = decide_route (gs_principal (ex_state c)) q"
      have r': "r' \<noteq> Route_failure" by (simp add: r'_def decide_route_not_failure)
      have sel: "gs_selected_route (ex_state c') = Some r'"
        using run_supervisor(5) [OF run [unfolded sup] nf [unfolded st'] q(1,3,4)]
        by (simp add: st' r'_def)
      have p: "gs_principal (ex_state c') = gs_principal (ex_state c)"
        using k by (simp add: step_contract_def same_invocation_def)
      have "successor n (ex_state c') = Some (Some (route_node r'))" using sup nf sel by simp
      moreover have "routing_stage r' (route_node r') (ex_state c')"
        using run_supervisor [OF run [unfolded sup] nf [unfolded st'] q(1,3,4)] q(2) p sel
        unfolding routing_stage_def st' [symmetric] by (auto simp: r'_def)
      moreover have "ex_path c' = walk_before r' (route_node r')"
        using walk_dispatch [OF r'] r(3) sup by (simp add: path walk_before_def walk_defs)
      ultimately show ?thesis using r' walk_dispatch [OF r'] by blast
    next
      case False
      from walk_has_successor [OF r(2) False n(2)] obtain n' where
        s: "successor n (ex_state c') = Some (Some n')" by blast
      from walk_next [OF r(2) False n(2) _ s r(1)] nf
      have "n' \<in> set (full_walk r)" "walk_before r n' = walk_before r n @ [n]" by blast+
      moreover have "routing_stage r n' (ex_state c')"
        by (rule stage_step [OF r(2) n(2) False r(1,4) run st' nf s])
      ultimately show ?thesis using s r(1,3) path by metis
    qed
    then obtain n' r' where w: "r' \<noteq> Route_failure" "successor n (ex_state c') = Some (Some n')"
      "n' \<in> set (full_walk r')" "ex_path c' = walk_before r' n'" "routing_stage r' n' (ex_state c')"
      by blast
    have hf: "n' \<noteq> N_handle_failure" using w(3) by (cases r') (auto simp: walk_defs)
    have ni: "n' \<noteq> N_initialize_request" using w(4) by (auto simp: path walk_before_def walk_defs)
    have "length (ex_path c') \<le> ?b" using count(1) by (simp add: path)
    then have "position ?b n' c'"
      using w count(2,3) hf ni nf unfolding position_def by (auto simp: Let_def)
    then have "run_inv sv i n' c'" using c' by (simp add: run_inv_def)
    moreover have "run_rank sv n' c' < run_rank sv n c"
      using n hf count(1) by (auto simp: run_rank_def path)
    ultimately show ?thesis using ex w(2) unfolding steps_well_def edge_after_def by blast
  qed
qed

lemma step_initialize:
  assumes c: "common_ok sv i c" and empty: "ex_stream c = []" "ex_path c = []"
  shows "steps_well sv i N_initialize_request c"
proof -
  let ?s = "ex_state c" and ?n = N_initialize_request
  let ?es = "history_events ?s 0 initialize_drafts"
  let ?t = "apply_update (initialize_writes (sv_settings sv) ?s) ?s"
  define c' where "c' = \<lparr> ex_state = ?t, ex_memory = ex_memory c, ex_stream = ex_stream c @ ?es,
      ex_parts = ex_parts c @ map Part_event ?es @ [Part_values (gs_final_output ?t)],
      ex_path = ex_path c @ [?n] \<rparr>"
  have ex: "execute_node sv ?n c = Some c'" by (simp add: execute_node_def c'_def Let_def)
  have same: "same_invocation ?s ?t" by (rule apply_update_same)
  have lg: "log_state ?s []" using c empty by (simp add: common_ok_def)
  have lg': "log_state ?t (ex_stream c @ ?es)"
    using log_state_extend [OF lg same, of initialize_drafts] empty
    by (simp add: initialize_writes_def initialize_drafts_def)
  have q: "\<forall>e \<in> set ?es. \<not> terminal_event e"
    by (simp add: initialize_drafts_def terminal_event_def build_event_def)
  have rd: "rendering_ok ?t"
    by (rule apply_update_rendering) (use c in \<open>simp_all add: common_ok_def initialize_writes_def rendering_write_def\<close>)
  have c': "common_ok sv i c'" by (rule common_step [OF c same lg' q rd c'_def])
  have "position (graph_max_steps (sv_settings sv)) N_validate_request c'"
    by (simp add: position_def c'_def empty walk_defs walk_before_def routing_stage_def
        initialize_writes_def) (rule exI [of _ Route_deny], simp)
  then have "run_inv sv i N_validate_request c'" using c' by (simp add: run_inv_def)
  moreover have "run_rank sv N_validate_request c' < run_rank sv ?n c"
    by (simp add: run_rank_def empty c'_def)
  ultimately show ?thesis using ex unfolding steps_well_def edge_after_def by force
qed

lemma step_handle_failure:
  assumes inv: "run_inv sv i N_handle_failure c"
  shows "steps_well sv i N_handle_failure c"
proof -
  let ?s = "ex_state c" and ?n = N_handle_failure
  let ?es = "history_events ?s (length (ex_stream c)) handle_failure_drafts"
  let ?t = "apply_update (handle_failure_writes ?s) ?s"
  have c: "common_ok sv i c" and pos: "position (graph_max_steps (sv_settings sv)) ?n c"
    using inv by (simp_all add: run_inv_def)
  have lg: "log_state ?s (ex_stream c)" using c by (simp add: common_ok_def)
  note seq = log_state_sequence [OF lg]
  define c' where "c' = \<lparr> ex_state = ?t, ex_memory = ex_memory c, ex_stream = ex_stream c @ ?es,
      ex_parts = ex_parts c @ map Part_event ?es @ [Part_values (gs_final_output ?t)],
      ex_path = ex_path c @ [?n] \<rparr>"
  have ex: "execute_node sv ?n c = Some c'" by (simp add: execute_node_def c'_def Let_def seq)
  have same: "same_invocation ?s ?t" by (rule apply_update_same)
  have lg': "log_state ?t (ex_stream c @ ?es)"
    by (rule log_state_extend [OF lg same]) (simp_all add: handle_failure_writes_def seq
        handle_failure_drafts_def node_drafts_def)
  have q: "\<forall>e \<in> set ?es. \<not> terminal_event e"
    by (simp add: handle_failure_drafts_def node_drafts_def draft_def terminal_event_def build_event_def)
  have rd: "rendering_ok ?t"
    by (rule apply_update_rendering) (use c in \<open>simp_all add: common_ok_def handle_failure_writes_def rendering_write_def\<close>)
  have c': "common_ok sv i c'" by (rule common_step [OF c same lg' q rd c'_def])
  have "failed ?t" using pos by (simp add: position_def failed_def handle_failure_writes_def Let_def)
  then have "position (graph_max_steps (sv_settings sv)) N_finalize_execution c'"
    using pos by (auto simp: position_def failure_closed_def c'_def Let_def handle_failure_writes_def
        broken_off_def route_decided_def)
  then have "run_inv sv i N_finalize_execution c'" using c' by (simp add: run_inv_def)
  moreover have "run_rank sv N_finalize_execution c' < run_rank sv ?n c" by (simp add: run_rank_def)
  ultimately show ?thesis using ex unfolding steps_well_def edge_after_def by force
qed

text \<open>The closing node always finds a route and builds a valid output.\<close>

lemma finalize_route:
  assumes "position b N_finalize_execution c"
  obtains r where "gs_selected_route (ex_state c) = Some r"
  using assms
  by (auto simp: position_def Let_def failure_closed_def routing_stage_def opening_nodes_def split: if_splits)

lemma finalize_step:
  assumes inv: "run_inv sv i N_finalize_execution c"
  obtains r c' where "gs_selected_route (ex_state c) = Some r"
    "execute_node sv N_finalize_execution c = Some c'"
    "ex_path c' = ex_path c @ [N_finalize_execution]"
    "ex_stream c' = ex_stream c @ [build_event (ex_state c) (length (ex_stream c)) (finalize_draft (ex_state c))]"
    "ex_parts c' = ex_parts c @ [Part_event (build_event (ex_state c) (length (ex_stream c))
       (finalize_draft (ex_state c))), Part_values (Some (final_output_of (ex_state c) r))]"
    "gs_final_output (ex_state c') = Some (final_output_of (ex_state c) r)"
    "graph_output_ok (final_output_of (ex_state c) r)"
proof -
  from inv obtain r where r: "gs_selected_route (ex_state c) = Some r"
    using finalize_route unfolding run_inv_def by blast
  have ok: "graph_output_ok (final_output_of (ex_state c) r)"
    by (rule rendering_output_ok) (use inv in \<open>simp add: run_inv_def common_ok_def\<close>)
  have seq: "history_sequence (ex_state c) = length (ex_stream c)"
    by (rule log_state_sequence) (use inv in \<open>simp add: run_inv_def common_ok_def\<close>)
  obtain c' where e: "execute_node sv N_finalize_execution c = Some c'"
    by (simp add: execute_node_def finalize_writes_def r ok Let_def)
  show ?thesis
    by (rule that [OF r e _ _ _ _ ok])
      (use e in \<open>auto simp: execute_node_def finalize_writes_def r ok seq Let_def\<close>)
qed

lemma step_cases:
  assumes "run_inv sv i n c" "n \<noteq> N_finalize_execution"
  shows "steps_well sv i n c"
proof (cases "n = N_initialize_request")
  case True
  have pos: "position (graph_max_steps (sv_settings sv)) n c" using assms by (simp add: run_inv_def)
  have "n \<noteq> N_handle_failure" using True by simp
  from position_main [OF pos this assms(2)] obtain r where
    p: "ex_path c = walk_before r n" "ex_stream c = []" using True by auto
  have path: "ex_path c = []" using p True by (simp add: walk_before_def walk_defs)
  show ?thesis using step_initialize [of sv i c] assms path p(2) True by (simp add: run_inv_def)
next
  case False
  then show ?thesis using step_guarded [OF assms(1) _ assms(2)] step_handle_failure assms by blast
qed

section \<open>The driver on this graph\<close>

interpretation main_graph: live_graph "execute_node sv" edge_after "run_inv sv i" "run_rank sv"
  for sv :: "'m graph_services" and i
proof
  fix n n' :: graph_node and c c' :: "'m execution"
  assume inv: "run_inv sv i n c" and e: "execute_node sv n c = Some c'"
    and d: "edge_after n c' = Some (Some n')"
  have "n \<noteq> N_finalize_execution" using d by (auto simp: edge_after_def)
  from step_cases [OF inv this] e d
  show "run_inv sv i n' c'" "run_rank sv n' c' < run_rank sv n c"
    by (auto simp: steps_well_def)
next
  fix n :: graph_node and c :: "'m execution"
  assume inv: "run_inv sv i n c"
  show "\<exists>t. execute_node sv n c = Some t \<and> edge_after n t \<noteq> None"
  proof (cases "n = N_finalize_execution")
    case True
    from inv True have "run_inv sv i N_finalize_execution c" by simp
    from finalize_step [OF this] obtain c' where "execute_node sv N_finalize_execution c = Some c'" .
    then show ?thesis using True by (auto simp: edge_after_def)
  next
    case False
    from step_cases [OF inv False] show ?thesis by (auto simp: steps_well_def)
  qed
qed

definition checkpoint_ok :: "graph_state option \<Rightarrow> bool" where
  "checkpoint_ok checkpoint = (case checkpoint of None \<Rightarrow> True | Some st \<Rightarrow> rendering_ok st)"

lemma initial_state_facts:
  "for_input i (initial_state cfg i chk)"
  "gs_activity_events (initial_state cfg i chk) = []"
  "checkpoint_ok chk \<Longrightarrow> rendering_ok (initial_state cfg i chk)"
  by (simp_all add: initial_state_def for_input_def Let_def append_events_def last_n_def blank_state_def
      checkpoint_ok_def rendering_ok_def split: option.splits)

lemma start_inv:
  assumes "responses_ok sv" "checkpoint_ok chk"
  shows "run_inv sv i N_initialize_request (start_execution (sv_settings sv) i chk m)"
proof -
  let ?c = "start_execution (sv_settings sv) i chk m"
  note f = initial_state_facts [where i = i and cfg = "sv_settings sv" and chk = chk]
  have "log_state (ex_state ?c) (ex_stream ?c)"
    using f by (simp add: start_execution_def log_state_def last_n_def)
  moreover have "parts_ok i ?c" 
    unfolding parts_ok_def start_execution_def execution.simps append_Cons append_Nil
      stream_items_values list.map list.size by blast
  ultimately have "common_ok sv i ?c"
    using assms f by (simp add: common_ok_def start_execution_def)
  moreover have "position (graph_max_steps (sv_settings sv)) N_initialize_request ?c"
    by (simp add: position_def start_execution_def walk_defs walk_before_def routing_stage_def)
      (rule exI [of _ Route_deny], simp)
  ultimately show ?thesis by (simp add: run_inv_def)
qed

text \<open>Every invocation ends with the closing node, run under the invariant.\<close>

lemma invocation:
  assumes "responses_ok sv" "checkpoint_ok chk"
  obtains c1 c where "invoke_graph sv i chk m = Finished c" "run_inv sv i N_finalize_execution c1"
    "execute_node sv N_finalize_execution c1 = Some c"
proof -
  have rank: "run_rank sv N_initialize_request (start_execution (sv_settings sv) i chk m) <
      recursion_limit (sv_settings sv)"
    by (simp add: run_rank_def recursion_limit_def start_execution_def)
  from main_graph.drive_finishes [OF start_inv [OF assms] rank] obtain n1 c1 c where
    d: "drive (execute_node sv) edge_after (recursion_limit (sv_settings sv)) N_initialize_request
      (start_execution (sv_settings sv) i chk m) = Finished c" and
    inv: "run_inv sv i n1 c1" and e: "execute_node sv n1 c1 = Some c" and x: "edge_after n1 c = Some None"
    by (elim exE conjE) (rule that)
  have "n1 = N_finalize_execution"
    using x by (cases n1) (auto simp: edge_after_def split: if_splits)
  then show ?thesis using that d inv e by (simp add: invoke_graph_def run_graph_def)
qed

lemma invocation_closed:
  assumes "responses_ok sv" "checkpoint_ok chk" "invoke_graph sv i chk m = Finished c"
  obtains c1 where "run_inv sv i N_finalize_execution c1"
    "execute_node sv N_finalize_execution c1 = Some c"
  using invocation [OF assms(1,2), of i m] assms(3) by (metis run_outcome.inject(1))

text \<open>What the closing node leaves of the state, for the facts about whole invocations.\<close>

lemma finalize_keeps:
  assumes "execute_node sv N_finalize_execution c1 = Some c"
  shows "gs_resolved_query (ex_state c) = gs_resolved_query (ex_state c1)"
    "gs_principal (ex_state c) = gs_principal (ex_state c1)"
    "rendering_ok (ex_state c) = rendering_ok (ex_state c1)"
    "gs_failure (ex_state c) = gs_failure (ex_state c1)"
    "gs_grounded_response (ex_state c) = gs_grounded_response (ex_state c1)"
  using assms
  by (auto simp: execute_node_def finalize_writes_def rendering_ok_def Let_def
      split: option.splits if_splits sum.splits)

lemma closing_path:
  assumes "run_inv sv i N_finalize_execution c1"
  shows "(\<exists>q. gs_resolved_query (ex_state c1) = Some q \<and> \<not> failed (ex_state c1) \<and>
       ex_path c1 = butlast (full_walk (decide_route (gi_principal i) q)) \<and>
       gs_selected_route (ex_state c1) = Some (decide_route (gi_principal i) q) \<and>
       length (ex_path c1) \<le> max 1 (graph_max_steps (sv_settings sv))) \<or>
     (\<exists>p. ex_path c1 = p @ [N_handle_failure] \<and> failure_closed (ex_state c1) \<and>
        broken_off (graph_max_steps (sv_settings sv)) p (ex_state c1))"
proof (cases "failed (ex_state c1)")
  case True
  then show ?thesis using assms by (auto simp: run_inv_def position_def Let_def)
next
  case False
  have p: "gs_principal (ex_state c1) = gi_principal i"
    using assms by (simp add: run_inv_def common_ok_def for_input_def)
  have pos: "position (graph_max_steps (sv_settings sv)) N_finalize_execution c1"
    using assms by (simp add: run_inv_def)
  then obtain r where r: "ex_path c1 = walk_before r N_finalize_execution"
    "routing_stage r N_finalize_execution (ex_state c1)"
    and l: "length (ex_path c1) \<le> 1 \<or> length (ex_path c1) \<le> graph_max_steps (sv_settings sv)"
    using False by (auto simp: position_def Let_def)
  have b: "walk_before r N_finalize_execution = butlast (full_walk r)"
    by (cases r) (simp_all add: walk_before_def walk_defs)
  from r(2) obtain q where "gs_resolved_query (ex_state c1) = Some q"
    "gs_selected_route (ex_state c1) = Some r" "r = decide_route (gi_principal i) q"
    by (auto simp: routing_stage_def opening_nodes_def p)
  then show ?thesis using r(1) b False l by (intro disjI1 exI [of _ q]) auto
qed

end
