(* ===== verification/Graph_Claims.thy ===== *)
theory Graph_Claims
  imports Graph_Properties
begin

text \<open>
  The properties of one graph invocation, each a few steps over the invariant of Graph_Properties,
  and the sample services the witnesses run them on.
\<close>

section \<open>Samples\<close>

definition sample_services :: "nat graph_services" where
  "sample_services = \<lparr> sv_settings = default_settings,
     sv_memory_load = (\<lambda>s p m. (Inr \<lparr> ml_enabled = False, ml_found = False, ml_snapshot = None \<rparr>, m)),
     sv_memory_update = (\<lambda>p u m. (Inl (MemoryCapacityError), m + 1)),
     sv_retrieve = (\<lambda>p q k f. Inl Retrieval_timed_out), sv_fingerprint = Inr ''build'',
     sv_chunks = Inr [], sv_analysis = (\<lambda>p r q t. Inl ()), sv_mcp_execute = (\<lambda>p s. Inl MCPAuthorizationError),
     sv_research = (\<lambda>r. Inl ()), sv_analysis_response = (\<lambda>q a. Inl ()),
     sv_research_response = (\<lambda>q e p r. Inl ()), sv_retrieval_response = (\<lambda>q e p. Inl ()) \<rparr>"

lemma sample_services_ok: "responses_ok sample_services"
  by (simp add: responses_ok_def sample_services_def)

definition sample_input :: "string \<Rightarrow> user_role \<Rightarrow> graph_input" where
  "sample_input msg role = \<lparr> gi_request_id = 11, gi_trace_id = 12, gi_session_id = 13,
     gi_principal = sample_principal 14 role, gi_user_message = msg, gi_retrieval_filters = no_filters,
     gi_requested_top_k = 5, gi_invocation_timestamp = 0 \<rparr>"

lemma sample_invocation:
  obtains c where "invoke_graph sample_services (sample_input msg role) None m = Finished c"
  using invocation [OF sample_services_ok, of None "sample_input msg role" m]
  by (auto simp: checkpoint_ok_def)

text \<open>A node that has failed the request leads to the failure node and the end.\<close>

lemma drive_failed_tail:
  assumes "drive (execute_node sv) edge_after (Suc (Suc fuel)) N_handle_failure c = Finished t"
  shows "ex_path t = ex_path c @ [N_handle_failure, N_finalize_execution]"
  using assms
  by (auto simp: execute_node_def edge_after_def Let_def finalize_writes_def split: option.splits if_splits)

section \<open>One run, step by step\<close>

text \<open>A viewer asks for ''x'' and the retriever times out: the facts each node of the run relies on.\<close>

definition sample_ready :: "nat \<Rightarrow> graph_state \<Rightarrow> bool" where
  "sample_ready k s =
     (gs_maximum_execution_steps s = Some 20 \<and> gs_execution_step_count s = Some k \<and> \<not> failed s \<and>
      gs_principal s = sample_principal 14 VIEWER \<and> gs_user_message s = ''x'' \<and>
      gs_original_query s = ''x'' \<and> gs_requested_top_k s = 5)"

definition sample_step :: "graph_node \<Rightarrow> nat execution \<Rightarrow> graph_node \<Rightarrow> nat execution \<Rightarrow> bool" where
  "sample_step n c n' c' =
     (execute_node sample_services n c = Some c' \<and> edge_after n c' = Some (Some n') \<and>
      ex_path c' = ex_path c @ [n])"

lemmas sample_run_defs = sample_step_def execute_node_def edge_after_def Let_def sample_ready_def
  failed_def guarded_def node_return_def after_operation_def next_step_def is_step_write_def
  sample_services_def default_settings_def

lemma sample_x: "strip ''x'' = ''x''" "split_words ''x'' = [''x'']"
  "extract_enterprise_identifiers ''x'' = []" "security_denial_category ''x'' = None"
  "requests_inaccessible_access ''x'' (sample_principal 14 VIEWER) = False"
  "classify ''x'' = (Intent_knowledge_lookup, ''simple'')"
  "resolve_followup 4000 ''x'' empty_context = (''x'', False, False)"
  by code_simp+

lemma sample_initialize:
  assumes "c = start_execution default_settings (sample_input ''x'' VIEWER) None 0"
  shows "\<exists>c'. sample_step N_initialize_request c N_validate_request c' \<and> sample_ready 1 (ex_state c')"
  using assms by (simp add: sample_run_defs initialize_writes_def start_execution_def initial_state_def
      blank_state_def sample_input_def message_too_long_def)

lemma sample_validate:
  assumes "sample_ready k (ex_state c)" "k < 20"
  shows "\<exists>c'. sample_step N_validate_request c N_load_memory c' \<and> sample_ready (Suc k) (ex_state c')"
  using assms by (simp add: sample_run_defs validate_request_def sample_x)

lemma sample_load:
  assumes "sample_ready k (ex_state c)" "k < 20"
  shows "\<exists>c'. sample_step N_load_memory c N_resolve_followup_context c' \<and>
    sample_ready (Suc k) (ex_state c') \<and> gs_conversation_context (ex_state c') = Some empty_context"
  using assms by (simp add: sample_run_defs load_memory_def)

lemma sample_resolve:
  assumes "sample_ready k (ex_state c)" "gs_conversation_context (ex_state c) = Some empty_context" "k < 20"
  shows "\<exists>c'. sample_step N_resolve_followup_context c N_classify_intent c' \<and>
    sample_ready (Suc k) (ex_state c') \<and> gs_resolved_query (ex_state c') = Some ''x'' \<and>
    gs_normalized_query (ex_state c') = Some ''x''"
  using assms by (simp add: sample_run_defs resolve_followup_context_def sample_x)

lemma sample_classify:
  assumes "sample_ready k (ex_state c)" "k < 20" "gs_resolved_query (ex_state c) = Some ''x''"
    "gs_normalized_query (ex_state c) = Some ''x''"
  shows "\<exists>c'. sample_step N_classify_intent c N_supervisor c' \<and>
    sample_ready (Suc k) (ex_state c') \<and> gs_resolved_query (ex_state c') = Some ''x'' \<and>
    gs_normalized_query (ex_state c') = Some ''x'' \<and>
    gs_detected_intent (ex_state c') = Some Intent_knowledge_lookup \<and>
    gs_security_denial_category (ex_state c') = None"
  using assms by (simp add: sample_run_defs classify_intent_def sample_x)

lemma sample_supervisor:
  assumes "sample_ready k (ex_state c)" "k < 20" "gs_resolved_query (ex_state c) = Some ''x''"
    "gs_normalized_query (ex_state c) = Some ''x''"
    "gs_detected_intent (ex_state c) = Some Intent_knowledge_lookup"
    "gs_security_denial_category (ex_state c) = None"
  shows "\<exists>c'. sample_step N_supervisor c N_simple_retrieval c' \<and>
    sample_ready (Suc k) (ex_state c') \<and> gs_normalized_query (ex_state c') = Some ''x''"
  using assms
  by (simp add: sample_run_defs supervisor_def supervisor_route_def supervisor_denial_def sample_x)

lemma sample_retrieval:
  assumes "sample_ready k (ex_state c)" "k < 20" "gs_normalized_query (ex_state c) = Some ''x''"
  shows "\<exists>c'. sample_step N_simple_retrieval c N_handle_failure c'"
  using assms by (simp add: sample_run_defs simple_retrieval_def graph_failure_def)

lemma sample_walk:
  "\<exists>c. invoke_graph sample_services (sample_input ''x'' VIEWER) None 0 = Finished c \<and>
     ex_path c = opening_nodes @ [N_simple_retrieval, N_handle_failure, N_finalize_execution]"
proof -
  let ?s = "start_execution default_settings (sample_input ''x'' VIEWER) None 0 :: nat execution"
  obtain c where c: "invoke_graph sample_services (sample_input ''x'' VIEWER) None (0::nat) = Finished c"
    by (rule sample_invocation)
  obtain c1 where 1: "sample_step N_initialize_request ?s N_validate_request c1"
    "sample_ready 1 (ex_state c1)" using sample_initialize [OF refl] by blast
  obtain c2 where 2: "sample_step N_validate_request c1 N_load_memory c2"
    "sample_ready 2 (ex_state c2)" using sample_validate [OF 1(2)] by (auto simp: numeral_eq_Suc)
  obtain c3 where 3: "sample_step N_load_memory c2 N_resolve_followup_context c3"
    "sample_ready 3 (ex_state c3)" "gs_conversation_context (ex_state c3) = Some empty_context"
    using sample_load [OF 2(2)] by (auto simp: numeral_eq_Suc)
  obtain c4 where 4: "sample_step N_resolve_followup_context c3 N_classify_intent c4"
    "sample_ready 4 (ex_state c4)" "gs_resolved_query (ex_state c4) = Some ''x''"
    "gs_normalized_query (ex_state c4) = Some ''x''"
    using sample_resolve [OF 3(2,3)] by (auto simp: numeral_eq_Suc)
  obtain c5 where 5: "sample_step N_classify_intent c4 N_supervisor c5"
    "sample_ready 5 (ex_state c5)" "gs_resolved_query (ex_state c5) = Some ''x''"
    "gs_normalized_query (ex_state c5) = Some ''x''"
    "gs_detected_intent (ex_state c5) = Some Intent_knowledge_lookup"
    "gs_security_denial_category (ex_state c5) = None"
    using sample_classify [OF 4(2) _ 4(3,4)] by (auto simp: numeral_eq_Suc)
  obtain c6 where 6: "sample_step N_supervisor c5 N_simple_retrieval c6"
    "sample_ready 6 (ex_state c6)" "gs_normalized_query (ex_state c6) = Some ''x''"
    using sample_supervisor [OF 5(2) _ 5(3-6)] by (auto simp: numeral_eq_Suc)
  obtain c7 where 7: "sample_step N_simple_retrieval c6 N_handle_failure c7"
    using sample_retrieval [OF 6(2) _ 6(3)] by auto
  have cfg: "sv_settings sample_services = default_settings" by (simp add: sample_services_def)
  obtain k where lim: "recursion_limit default_settings = Suc (Suc (Suc (Suc (Suc (Suc (Suc (Suc (Suc k))))))))"
    using that [of 15] by (simp add: recursion_limit_def default_settings_def)
  note st = 1(1) 2(1) 3(1) 4(1) 5(1) 6(1) 7 [unfolded sample_step_def]
  have "drive (execute_node sample_services) edge_after (Suc (Suc k)) N_handle_failure c7 = Finished c"
    using c st unfolding invoke_graph_def run_graph_def cfg lim sample_step_def by simp
  from drive_failed_tail [OF this] st have "ex_path c = opening_nodes @
      [N_simple_retrieval, N_handle_failure, N_finalize_execution]"
    by (simp add: sample_step_def opening_nodes_def start_execution_def)
  with c show ?thesis by blast
qed

section \<open>An invocation ends with an answer\<close>

lemma broken_off_length: "broken_off b p st \<Longrightarrow> length p \<le> 12 \<and> length p \<le> b + 2"
proof -
  assume "broken_off b p st"
  then obtain r where p: "prefix p (butlast (full_walk r))" "length p \<le> b + 2"
    by (auto simp: broken_off_def)
  have "length p \<le> length (butlast (full_walk r))" by (rule prefix_length_le [OF p(1)])
  then show ?thesis using p(2) length_full_walk [of r] by simp
qed

lemma closing_length:
  assumes "run_inv sv i N_finalize_execution c1"
  shows "length (ex_path c1) + 1 \<le> 14 \<and> length (ex_path c1) + 1 \<le> recursion_limit (sv_settings sv)"
  using closing_path [OF assms]
proof (elim disjE exE conjE)
  fix q assume "ex_path c1 = butlast (full_walk (decide_route (gi_principal i) q))"
    "length (ex_path c1) \<le> max 1 (graph_max_steps (sv_settings sv))"
  then show ?thesis using length_full_walk [of "decide_route (gi_principal i) q"]
    by (auto simp: recursion_limit_def max_def split: if_splits)
next
  fix p assume "ex_path c1 = p @ [N_handle_failure]"
    "broken_off (graph_max_steps (sv_settings sv)) p (ex_state c1)"
  then show ?thesis using broken_off_length [of _ p] by (fastforce simp: recursion_limit_def)
qed

text \<open>C6: Every invocation of the graph, on any session state and with any service failures, runs at
  most fourteen nodes, never exceeds LangGraph's recursion limit, and ends with a final output that
  satisfies the output contract and carries the ids of the request.\<close>

theorem graph_always_answers:
  assumes "responses_ok sv" "checkpoint_ok chk"
  shows "\<exists>c out. invoke_graph sv i chk m = Finished c \<and> gs_final_output (ex_state c) = Some out \<and>
    graph_output_ok out \<and> go_request_id out = gi_request_id i \<and> go_trace_id out = gi_trace_id i \<and>
    go_session_id out = gi_session_id i \<and> length (ex_path c) \<le> 14 \<and>
    length (ex_path c) \<le> recursion_limit (sv_settings sv) \<and> checkpoint_ok (Some (ex_state c))"
proof -
  from invocation [OF assms, of i m] obtain c1 c where d: "invoke_graph sv i chk m = Finished c"
    and inv: "run_inv sv i N_finalize_execution c1" and e: "execute_node sv N_finalize_execution c1 = Some c" .
  from finalize_step [OF inv] e obtain r where o: "gs_final_output (ex_state c) = Some (final_output_of (ex_state c1) r)"
    "graph_output_ok (final_output_of (ex_state c1) r)" "ex_path c = ex_path c1 @ [N_finalize_execution]"
    by (metis option.inject)
  have "for_input i (ex_state c1)" "rendering_ok (ex_state c1)"
    using inv by (simp_all add: run_inv_def common_ok_def)
  then show ?thesis
    using d o closing_length [OF inv] finalize_keeps(3) [OF e]
    by (intro exI [of _ c] exI [of _ "final_output_of (ex_state c1) r"])
      (simp add: for_input_def final_output_of_def checkpoint_ok_def)
qed

theorem graph_always_answers_witness:
  "\<exists>c out. invoke_graph sample_services (sample_input ''hello'' VIEWER) None 0 = Finished c \<and>
    gs_final_output (ex_state c) = Some out \<and> graph_output_ok out \<and> go_session_id out = 13"
  using graph_always_answers [of sample_services None "sample_input ''hello'' VIEWER" 0] sample_services_ok
  by (auto simp: checkpoint_ok_def sample_input_def)

section \<open>The walk is the decided route\<close>

lemma finished_closing:
  assumes "responses_ok sv" "checkpoint_ok chk" "invoke_graph sv i chk m = Finished c"
  obtains c1 r where "run_inv sv i N_finalize_execution c1" "gs_selected_route (ex_state c1) = Some r"
    "ex_path c = ex_path c1 @ [N_finalize_execution]"
    "gs_final_output (ex_state c) = Some (final_output_of (ex_state c1) r)"
    "ex_stream c = ex_stream c1 @
       [build_event (ex_state c1) (length (ex_stream c1)) (finalize_draft (ex_state c1))]"
    "ex_parts c = ex_parts c1 @ [Part_event (build_event (ex_state c1) (length (ex_stream c1))
       (finalize_draft (ex_state c1))), Part_values (Some (final_output_of (ex_state c1) r))]"
    "execute_node sv N_finalize_execution c1 = Some c"
proof -
  from invocation_closed [OF assms] obtain c1 where inv: "run_inv sv i N_finalize_execution c1"
    and e: "execute_node sv N_finalize_execution c1 = Some c" .
  from finalize_step [OF inv] obtain r c' where f: "gs_selected_route (ex_state c1) = Some r"
    "execute_node sv N_finalize_execution c1 = Some c'"
    "ex_path c' = ex_path c1 @ [N_finalize_execution]"
    "ex_stream c' = ex_stream c1 @ [build_event (ex_state c1) (length (ex_stream c1)) (finalize_draft (ex_state c1))]"
    "ex_parts c' = ex_parts c1 @ [Part_event (build_event (ex_state c1) (length (ex_stream c1))
       (finalize_draft (ex_state c1))), Part_values (Some (final_output_of (ex_state c1) r))]"
    "gs_final_output (ex_state c') = Some (final_output_of (ex_state c1) r)" .
  have "c' = c" using f(2) e by simp
  with f inv that show ?thesis by blast
qed

text \<open>C7: A finished invocation either visited exactly the nodes of the route that the routing policy
  decides for the principal and the resolved query, and reports that route, or left that walk for the
  failure node and reports a failed request without evidence.\<close>

theorem graph_follows_decided_route:
  assumes "responses_ok sv" "checkpoint_ok chk" "invoke_graph sv i chk m = Finished c"
  shows "(\<exists>q out. gs_resolved_query (ex_state c) = Some q \<and>
       ex_path c = full_walk (decide_route (gi_principal i) q) \<and>
       gs_final_output (ex_state c) = Some out \<and> go_selected_route out = decide_route (gi_principal i) q) \<or>
     (\<exists>p out. ex_path c = p @ [N_handle_failure, N_finalize_execution] \<and>
       (prefix p opening_nodes \<or> (\<exists>q. gs_resolved_query (ex_state c) = Some q \<and>
          prefix p (full_walk (decide_route (gi_principal i) q)))) \<and>
       gs_final_output (ex_state c) = Some out \<and> go_completion_status out = PS_failed \<and>
       go_selected_route out = Route_failure \<and> go_evidence out = [] \<and>
       go_response_text out = ''The request failed safely.'')"
proof -
  from finished_closing [OF assms] obtain c1 r where inv: "run_inv sv i N_finalize_execution c1"
    and r: "gs_selected_route (ex_state c1) = Some r"
    and c: "ex_path c = ex_path c1 @ [N_finalize_execution]"
      "gs_final_output (ex_state c) = Some (final_output_of (ex_state c1) r)"
    and e: "execute_node sv N_finalize_execution c1 = Some c" .
  note k = finalize_keeps [OF e]
  from closing_path [OF inv] show ?thesis
  proof (elim disjE exE conjE)
    fix q assume q: "gs_resolved_query (ex_state c1) = Some q"
      "ex_path c1 = butlast (full_walk (decide_route (gi_principal i) q))"
      "gs_selected_route (ex_state c1) = Some (decide_route (gi_principal i) q)"
    have "butlast (full_walk x) @ [N_finalize_execution] = full_walk x" for x
      by (simp add: full_walk_def butlast_append)
    then have "ex_path c = full_walk (decide_route (gi_principal i) q)" by (simp add: c q)
    then show ?thesis using q r c(2) k(1)
      by (intro disjI1 exI [of _ q] exI [of _ "final_output_of (ex_state c1) r"])
        (simp add: final_output_of_def)
  next
    fix p assume p: "ex_path c1 = p @ [N_handle_failure]" "failure_closed (ex_state c1)"
      "broken_off (graph_max_steps (sv_settings sv)) p (ex_state c1)"
    have pr: "gs_principal (ex_state c1) = gi_principal i"
      using inv by (simp add: run_inv_def common_ok_def for_input_def)
    from p(3) obtain r' where r': "prefix p (butlast (full_walk r'))"
      "prefix p opening_nodes \<or> route_decided r' (ex_state c1)" by (auto simp: broken_off_def)
    have "prefix p (full_walk r')" using r'(1) prefixeq_butlast prefix_order.trans by blast
    then have "prefix p opening_nodes \<or> (\<exists>q. gs_resolved_query (ex_state c) = Some q \<and>
          prefix p (full_walk (decide_route (gi_principal i) q)))"
      using r'(2) by (auto simp: route_decided_def pr k(1))
    then show ?thesis using p(1,2) r c
      by (intro disjI2 exI [of _ p] exI [of _ "final_output_of (ex_state c1) r"])
        (simp add: failure_closed_def final_output_of_def final_status_def)
  qed
qed

theorem graph_follows_decided_route_witness:
  "\<exists>c out. invoke_graph sample_services (sample_input ''hello'' VIEWER) None 0 = Finished c \<and>
    gs_final_output (ex_state c) = Some out \<and>
    ((\<exists>q. ex_path c = full_walk (decide_route (sample_principal 14 VIEWER) q)) \<or>
     go_completion_status out = PS_failed)"
proof -
  obtain c where c: "invoke_graph sample_services (sample_input ''hello'' VIEWER) None 0 = Finished c"
    by (rule sample_invocation)
  have n: "checkpoint_ok None" by (simp add: checkpoint_ok_def)
  have p: "gi_principal (sample_input ''hello'' VIEWER) = sample_principal 14 VIEWER"
    by (simp add: sample_input_def)
  from graph_follows_decided_route [OF sample_services_ok n c] c show ?thesis unfolding p by blast
qed

section \<open>The stream\<close>

text \<open>What the stream of a finished invocation is.\<close>

lemma finished_items:
  assumes "responses_ok sv" "checkpoint_ok chk" "invoke_graph sv i chk m = Finished c"
  shows "\<exists>es e out. ex_stream c = es @ [e] \<and> gs_final_output (ex_state c) = Some out \<and>
    stream_items i 0 False False (ex_parts c) = map Item_event (es @ [e]) @ [Item_output out] \<and>
    map ae_sequence_number (es @ [e]) = [0 ..< length es + 1] \<and>
    list_all (\<lambda>x. ae_request_id x = gi_request_id i \<and> ae_trace_id x = gi_trace_id i \<and>
      ae_session_id x = gi_session_id i) (es @ [e]) \<and>
    go_request_id out = gi_request_id i \<and> go_trace_id out = gi_trace_id i \<and> go_session_id out = gi_session_id i \<and>
    terminal_event e \<and> list_all (\<lambda>x. \<not> terminal_event x) es \<and>
    (ae_event_type e = Ev_response_failed) = (go_completion_status out = PS_failed)"
proof -
  from finished_closing [OF assms] obtain c1 r where inv: "run_inv sv i N_finalize_execution c1"
    and st: "ex_stream c = ex_stream c1 @
       [build_event (ex_state c1) (length (ex_stream c1)) (finalize_draft (ex_state c1))]"
    and pt: "ex_parts c = ex_parts c1 @ [Part_event (build_event (ex_state c1) (length (ex_stream c1))
       (finalize_draft (ex_state c1))), Part_values (Some (final_output_of (ex_state c1) r))]"
    and o: "gs_final_output (ex_state c) = Some (final_output_of (ex_state c1) r)" .
  let ?e = "build_event (ex_state c1) (length (ex_stream c1)) (finalize_draft (ex_state c1))"
  let ?out = "final_output_of (ex_state c1) r"
  from inv have f: "for_input i (ex_state c1)" and lg: "log_state (ex_state c1) (ex_stream c1)"
    and q: "\<forall>e \<in> set (ex_stream c1). \<not> terminal_event e" and pk: "parts_ok i c1"
    by (simp_all add: run_inv_def common_ok_def)
  have t: "terminal_event ?e"
    by (simp add: terminal_event_def build_event_def finalize_draft_def draft_def Let_def)
  have co: "event_correlated i (length (ex_stream c1)) ?e"
    using f by (simp add: event_correlated_def build_event_def for_input_def)
  have items: "stream_items i 0 False False (ex_parts c) =
      map Item_event (ex_stream c1 @ [?e]) @ [Item_output ?out]"
    using pk t co by (simp add: pt parts_ok_def)
  have seq: "map ae_sequence_number (ex_stream c1 @ [?e]) = [0 ..< length (ex_stream c1) + 1]"
    using lg by (simp add: log_state_def build_event_def)
  have ids: "list_all (\<lambda>x. ae_request_id x = gi_request_id i \<and> ae_trace_id x = gi_trace_id i \<and>
      ae_session_id x = gi_session_id i) (ex_stream c1 @ [?e])"
    using lg f by (simp add: log_state_def list_all_iff for_input_def build_event_def)
  have out: "go_request_id ?out = gi_request_id i" "go_trace_id ?out = gi_trace_id i"
    "go_session_id ?out = gi_session_id i" using f by (simp_all add: final_output_of_def for_input_def)
  have tym: "(ae_event_type ?e = Ev_response_failed) = (go_completion_status ?out = PS_failed)"
    by (simp add: build_event_def finalize_draft_def draft_def final_output_of_def Let_def)
  have quiet: "list_all (\<lambda>x. \<not> terminal_event x) (ex_stream c1)" using q by (simp add: list_all_iff)
  show ?thesis
    by (intro exI conjI) (rule st o items seq ids out t quiet tym)+
qed

text \<open>C8: The public stream of a finished invocation yields every event the nodes logged, numbered
  from zero without a gap and carrying the ids of the request, the last of them and no other being
  terminal, and then exactly one output, the final one.\<close>

theorem graph_stream_complete:
  assumes "responses_ok sv" "checkpoint_ok chk" "invoke_graph sv i chk m = Finished c"
  shows "\<exists>es e out. ex_stream c = es @ [e] \<and> gs_final_output (ex_state c) = Some out \<and>
    stream_items i 0 False False (ex_parts c) = map Item_event (es @ [e]) @ [Item_output out] \<and>
    map ae_sequence_number (es @ [e]) = [0 ..< length es + 1] \<and>
    list_all (\<lambda>x. ae_request_id x = gi_request_id i \<and> ae_session_id x = gi_session_id i) (es @ [e]) \<and>
    terminal_event e \<and> list_all (\<lambda>x. \<not> terminal_event x) es \<and>
    (ae_event_type e = Ev_response_failed) = (go_completion_status out = PS_failed)"
  using finished_items [OF assms] by (elim exE conjE) (intro exI conjI, auto simp: list_all_iff)

theorem graph_stream_complete_witness:
  "\<exists>c es out. invoke_graph sample_services (sample_input ''hello'' VIEWER) None 0 = Finished c \<and>
    stream_items (sample_input ''hello'' VIEWER) 0 False False (ex_parts c) =
      map Item_event es @ [Item_output out]"
proof -
  obtain c where c: "invoke_graph sample_services (sample_input ''hello'' VIEWER) None 0 = Finished c"
    by (rule sample_invocation)
  have n: "checkpoint_ok None" by (simp add: checkpoint_ok_def)
  from graph_stream_complete [OF sample_services_ok n c] c show ?thesis by blast
qed

section \<open>Authorization\<close>

fun node_permission :: "graph_node \<Rightarrow> tool_permission option" where
  "node_permission N_simple_retrieval = Some Perm_knowledge_search"
| "node_permission N_python_analysis = Some Perm_python_analysis"
| "node_permission N_execute_mcp_tool = Some Perm_mcp_tools"
| "node_permission _ = None"

definition data_nodes :: "graph_node set" where
  "data_nodes = {N_simple_retrieval, N_cross_document_research, N_validate_evidence,
     N_python_analysis, N_execute_mcp_tool, N_generate_response, N_validate_citations}"

lemma supervise_permission:
  assumes "n \<in> set (full_walk (supervise j p))" "node_permission n = Some perm"
  shows "perm \<in> ROLE_PERMISSIONS (principal_role p)"
  by (insert assms, cases j; cases n) (auto simp: walk_defs split: if_splits)

lemma decided_walk_permission:
  assumes "n \<in> set (full_walk (decide_route p q))" "n \<in> data_nodes"
  shows "security_denial_category q = None" "\<not> requests_inaccessible_access q p"
    "node_permission n = Some perm \<Longrightarrow> perm \<in> ROLE_PERMISSIONS (principal_role p)"
proof -
  have "n \<notin> set (full_walk Route_deny)" using assms(2) by (auto simp: data_nodes_def walk_defs)
  then have d: "security_denial_category q = None \<and> \<not> requests_inaccessible_access q p"
    using assms(1) by (auto simp: decide_route_def split: if_splits)
  then show "security_denial_category q = None" "\<not> requests_inaccessible_access q p" by blast+
  have "decide_route p q = supervise (fst (classify q)) p" using d by (simp add: decide_route_def)
  then show "node_permission n = Some perm \<Longrightarrow> perm \<in> ROLE_PERMISSIONS (principal_role p)"
    using supervise_permission assms(1) by metis
qed

lemma visited_on_decided_walk:
  assumes "responses_ok sv" "checkpoint_ok chk" "invoke_graph sv i chk m = Finished c"
    "n \<in> set (ex_path c)" "n \<in> data_nodes"
  obtains q where "gs_resolved_query (ex_state c) = Some q"
    "n \<in> set (full_walk (decide_route (gi_principal i) q))"
  using graph_follows_decided_route [OF assms(1-3)]
proof (elim disjE exE conjE)
  fix q assume "gs_resolved_query (ex_state c) = Some q"
    "ex_path c = full_walk (decide_route (gi_principal i) q)"
  then show thesis using that assms(4) by metis
next
  fix p assume p: "ex_path c = p @ [N_handle_failure, N_finalize_execution]"
    "prefix p opening_nodes"
  have "n \<in> set p" using p(1) assms(4,5) by (auto simp: data_nodes_def)
  then have "n \<in> set opening_nodes" using set_mono_prefix [OF p(2)] by blast
  then show thesis using assms(5) by (auto simp: data_nodes_def opening_nodes_def)
next
  fix p q assume p: "ex_path c = p @ [N_handle_failure, N_finalize_execution]"
    "gs_resolved_query (ex_state c) = Some q" "prefix p (full_walk (decide_route (gi_principal i) q))"
  have "n \<in> set p" using p(1) assms(4,5) by (auto simp: data_nodes_def)
  then show thesis using that [OF p(2)] set_mono_prefix [OF p(3)] by blast
qed

text \<open>C9: A node that reads evidence, runs an analysis, calls an enterprise tool or writes an answer is
  visited only for a resolved query that no security rule denies and that asks for no access level
  above the principal's, and a tool node only when the principal's role holds its permission.\<close>

theorem graph_tools_authorized:
  assumes "responses_ok sv" "checkpoint_ok chk" "invoke_graph sv i chk m = Finished c"
    "n \<in> set (ex_path c)" "n \<in> data_nodes"
  shows "\<exists>q. gs_resolved_query (ex_state c) = Some q \<and> security_denial_category q = None \<and>
    \<not> requests_inaccessible_access q (gi_principal i) \<and>
    set_option (node_permission n) \<subseteq> ROLE_PERMISSIONS (principal_role (gi_principal i))"
proof -
  from visited_on_decided_walk [OF assms] obtain q where q: "gs_resolved_query (ex_state c) = Some q"
    "n \<in> set (full_walk (decide_route (gi_principal i) q))" .
  note d = decided_walk_permission [OF q(2) assms(5)]
  show ?thesis using q(1) d by (intro exI [of _ q]) (auto simp: elem_set)
qed

theorem graph_tools_authorized_witness:
  "\<exists>c. invoke_graph sample_services (sample_input ''x'' VIEWER) None 0 = Finished c \<and>
    N_simple_retrieval \<in> set (ex_path c) \<and> (\<exists>q. gs_resolved_query (ex_state c) = Some q \<and>
      security_denial_category q = None) \<and>
    Perm_knowledge_search \<in> ROLE_PERMISSIONS VIEWER"
proof -
  from sample_walk obtain c where
    c: "invoke_graph sample_services (sample_input ''x'' VIEWER) None 0 = Finished c" and
    p: "ex_path c = opening_nodes @ [N_simple_retrieval, N_handle_failure, N_finalize_execution]"
    by blast
  have n: "checkpoint_ok None" by (simp add: checkpoint_ok_def)
  have v: "N_simple_retrieval \<in> set (ex_path c)" by (simp add: p)
  from graph_tools_authorized [OF sample_services_ok n c v] c v show ?thesis
    by (auto simp: data_nodes_def)
qed

section \<open>Sessions\<close>

lemma validate_stays_failed:
  assumes "failed s" "run_node sv N_validate_request s m = Some (ws, es, m')"
  shows "failed (apply_update ws s)"
  using assms
  by (auto simp: guarded_def validate_request_def node_return_def graph_failure_def failed_def Let_def
      split: if_splits)

lemma failed_start_path:
  assumes f: "failed (ex_state c)"
    and d: "drive (execute_node sv) edge_after (Suc (Suc (Suc (Suc fuel)))) N_initialize_request c = Finished t"
  shows "ex_path t = ex_path c @ [N_initialize_request, N_validate_request, N_handle_failure,
    N_finalize_execution]"
proof -
  obtain c1 where c1: "execute_node sv N_initialize_request c = Some c1" "failed (ex_state c1)"
    "ex_path c1 = ex_path c @ [N_initialize_request]"
    using f by (simp add: execute_node_def Let_def initialize_writes_def failed_def)
  obtain ws es m' where r: "run_node sv N_validate_request (ex_state c1) (ex_memory c1) = Some (ws, es, m')"
    by (metis prod_cases3 run_node.simps(2))
  define c2 where "c2 = \<lparr> ex_state = apply_update ws (ex_state c1), ex_memory = m',
    ex_stream = ex_stream c1 @ es,
    ex_parts = ex_parts c1 @ map Part_event es @ [Part_values (gs_final_output (apply_update ws (ex_state c1)))],
    ex_path = ex_path c1 @ [N_validate_request] \<rparr>"
  have c2: "execute_node sv N_validate_request c1 = Some c2"
    unfolding execute_node_def r c2_def Let_def by simp
  have f2: "failed (ex_state c2)" using validate_stays_failed [OF c1(2) r] by (simp add: c2_def)
  have "drive (execute_node sv) edge_after (Suc (Suc (Suc fuel))) N_validate_request c1 = Finished t"
    using d c1(1) by (simp add: edge_after_def)
  then have "drive (execute_node sv) edge_after (Suc (Suc fuel)) N_handle_failure c2 = Finished t"
    using drive_step [of "execute_node sv" N_validate_request c1 c2 edge_after] c2 f2
    by (simp add: edge_after_def after_operation_def)
  from drive_failed_tail [OF this] show ?thesis by (simp add: c2_def c1)
qed

text \<open>Once one turn of a session has failed, every later turn of that session fails: the
  checkpoint keeps the failure flag, no node between the turns resets it, and the request validation
  rejects whatever the user asks.\<close>

theorem session_failure_sticks:
  assumes "responses_ok sv" "rendering_ok st" "gs_failure st = Some True"
    "invoke_graph sv i (Some st) m = Finished c"
  shows "ex_path c = [N_initialize_request, N_validate_request, N_handle_failure, N_finalize_execution] \<and>
    (\<exists>out. gs_final_output (ex_state c) = Some out \<and> go_completion_status out = PS_failed \<and>
       go_response_text out = ''The request failed safely.'') \<and> gs_failure (ex_state c) = Some True"
proof -
  let ?s = "start_execution (sv_settings sv) i (Some st) m"
  have f: "failed (ex_state ?s)"
    using assms(3) by (simp add: start_execution_def initial_state_def Let_def failed_def)
  have l: "recursion_limit (sv_settings sv) = Suc (Suc (Suc (Suc (graph_max_steps (sv_settings sv)))))"
    by (simp add: recursion_limit_def)
  have path: "ex_path c = [N_initialize_request, N_validate_request, N_handle_failure, N_finalize_execution]"
    using failed_start_path [OF f] assms(4) unfolding invoke_graph_def run_graph_def l
    by (simp add: start_execution_def)
  have ck: "checkpoint_ok (Some st)" using assms(2) by (simp add: checkpoint_ok_def)
  from finished_closing [OF assms(1) ck assms(4)] obtain c1 where
    inv: "run_inv sv i N_finalize_execution c1" and p: "ex_path c = ex_path c1 @ [N_finalize_execution]"
    and e: "execute_node sv N_finalize_execution c1 = Some c" .
  have "ex_path c1 \<noteq> butlast (full_walk r)" for r using path p by (cases r) (auto simp: walk_defs)
  then have "failed (ex_state c1)" using closing_path [OF inv] by (auto simp: failure_closed_def)
  then have "gs_failure (ex_state c) = Some True"
    by (auto simp: finalize_keeps(4) [OF e] failed_def get_or_def split: option.splits)
  moreover have "ex_path c \<noteq> full_walk r" for r using path by (cases r) (auto simp: walk_defs)
  ultimately show ?thesis using graph_follows_decided_route [OF assms(1) ck assms(4)] path by blast
qed

theorem session_failure_sticks_witness:
  "\<exists>st c. gs_failure st = Some True \<and>
    invoke_graph sample_services (sample_input ''x'' VIEWER) (Some st) 0 = Finished c \<and>
    length (ex_path c) = 4"
proof -
  let ?i = "sample_input ''x'' VIEWER"
  let ?st = "(blank_state ?i)\<lparr> gs_failure := Some True \<rparr>"
  have r: "rendering_ok ?st" by (simp add: rendering_ok_def blank_state_def)
  then have ck: "checkpoint_ok (Some ?st)" by (simp add: checkpoint_ok_def)
  have f: "gs_failure ?st = Some True" by simp
  from invocation [OF sample_services_ok ck, of ?i 0] obtain c where
    c: "invoke_graph sample_services ?i (Some ?st) 0 = Finished c" by blast
  have "length (ex_path c) = 4"
    using session_failure_sticks [OF sample_services_ok r f c] by simp
  with f c show ?thesis by blast
qed

text \<open>The answer of an earlier turn is published again: a run that never generates a response,
  runs an analysis or calls an enterprise tool reports the citations, the analysis result and the tool
  execution the session's checkpoint holds, even when the request was denied or failed.\<close>

theorem stale_answer_published:
  assumes "responses_ok sv" "rendering_ok st" "invoke_graph sv i (Some st) m = Finished c"
    "set (ex_path c) \<inter> answer_nodes = {}"
  shows "\<exists>out. gs_final_output (ex_state c) = Some out \<and>
    go_citations out = (case gs_grounded_response st of None \<Rightarrow> [] | Some g \<Rightarrow> gr_citations g) \<and>
    go_analysis_result out = gs_analysis_result st \<and> go_mcp_execution out = gs_mcp_execution st"
proof -
  have ck: "checkpoint_ok (Some st)" using assms(2) by (simp add: checkpoint_ok_def)
  define P where "P c = (set (ex_path c) \<inter> answer_nodes \<noteq> {} \<or>
    carried_answer (ex_state c) = carried_answer st)" for c :: "'a execution"
  have start: "P (start_execution (sv_settings sv) i (Some st) m)"
    by (simp add: P_def start_execution_def initial_state_def Let_def carried_answer_def)
  have step: "P t" if s: "P s" and e: "execute_node sv n s = Some t" for n and s t
  proof -
    from e obtain ws es m' where r: "run_node sv n (ex_state s) (ex_memory s) = Some (ws, es, m')"
      and t: "ex_state t = apply_update ws (ex_state s)" "ex_path t = ex_path s @ [n]"
      by (auto simp: execute_node_def Let_def split: option.splits)
    show ?thesis
    proof (cases "n \<in> answer_nodes")
      case False
      from run_node_answer [OF False r] s show ?thesis by (auto simp: P_def t)
    qed (simp add: P_def t)
  qed
  have d: "drive (execute_node sv) edge_after (recursion_limit (sv_settings sv)) N_initialize_request
      (start_execution (sv_settings sv) i (Some st) m) = Finished c"
    using assms(3) by (simp add: invoke_graph_def run_graph_def)
  from drive_invariant [where P = P, OF d start step] assms(4)
  have k: "carried_answer (ex_state c) = carried_answer st" by (simp add: P_def)
  from finished_closing [OF assms(1) ck assms(3)] obtain c1 r where
    o: "gs_final_output (ex_state c) = Some (final_output_of (ex_state c1) r)" and
    e: "execute_node sv N_finalize_execution c1 = Some c" .
  have "carried_answer (ex_state c) = carried_answer (ex_state c1)"
    using e run_node_answer [of N_finalize_execution sv "ex_state c1" "ex_memory c1"]
    by (auto simp: execute_node_def Let_def answer_nodes_def split: option.splits)
  then show ?thesis using k o by (simp add: carried_answer_def final_output_of_def)
qed

definition sample_response :: grounded_response where
  "sample_response = \<lparr> gr_answer_text = ''Old answer'', gr_citations =
     [\<lparr> vc_marker = ''E1'', vc_evidence_id = 21, vc_chunk_id = 22, vc_document_id = 23,
        vc_title = ''Leave policy'', vc_section = ''Scope'', vc_source_file = ''leave.md'',
        vc_source_line_start = 3, vc_source_line_end = 9, vc_version = ''2'', vc_updated_date = 0,
        vc_access_level = INTERNAL, vc_department = ''HR'', vc_document_type = DT_policy \<rparr>],
     gr_provider = ''fake'', gr_model = ''fake'', gr_prompt_version = ''1'',
     gr_deterministic_fallback_used = False, gr_deterministic_analysis_rendering_used = False,
     gr_fallback_reason = None, gr_insufficient_evidence = False, gr_uncertainty = None \<rparr>"

theorem stale_answer_published_witness:
  "\<exists>st c out. invoke_graph sample_services (sample_input ''x'' VIEWER) (Some st) 0 = Finished c \<and>
    gs_final_output (ex_state c) = Some out \<and> ex_path c \<noteq> [] \<and> length (go_citations out) = Suc 0"
proof -
  let ?i = "sample_input ''x'' VIEWER"
  let ?st = "(blank_state ?i)\<lparr> gs_failure := Some True, gs_grounded_response := Some sample_response \<rparr>"
  have r: "rendering_ok ?st" by (simp add: rendering_ok_def blank_state_def)
  then have ck: "checkpoint_ok (Some ?st)" by (simp add: checkpoint_ok_def)
  from invocation [OF sample_services_ok ck, of ?i 0] obtain c where
    c: "invoke_graph sample_services ?i (Some ?st) 0 = Finished c" by blast
  have cfg: "sv_settings sample_services = default_settings" by (simp add: sample_services_def)
  have f: "failed (ex_state (start_execution default_settings ?i (Some ?st) (0::nat)))"
    by (simp add: start_execution_def initial_state_def Let_def failed_def)
  have lim: "recursion_limit default_settings = Suc (Suc (Suc (Suc (graph_max_steps default_settings))))"
    by (simp add: recursion_limit_def)
  have p: "ex_path c = [N_initialize_request, N_validate_request, N_handle_failure, N_finalize_execution]"
    using failed_start_path [OF f] c unfolding invoke_graph_def run_graph_def cfg lim
    by (simp add: start_execution_def)
  then have a: "set (ex_path c) \<inter> answer_nodes = {}" by (simp add: answer_nodes_def)
  have l: "length (gr_citations sample_response) = Suc 0" by (simp add: sample_response_def)
  from stale_answer_published [OF sample_services_ok r c a] obtain out where
    o1: "gs_final_output (ex_state c) = Some out" and
    o: "go_citations out = (case gs_grounded_response ?st of None \<Rightarrow> [] | Some g \<Rightarrow> gr_citations g)"
    by (elim exE conjE) (rule that)
  have o2: "go_citations out = gr_citations sample_response" using o by simp
  have "ex_path c \<noteq> []" "length (go_citations out) = Suc 0" using p l o2 by simp_all
  with c o1 show ?thesis by blast
qed

lemma claim_keeps_owner:
  "map_of owners s = Some w \<Longrightarrow> map_of (fold (\<lambda>j ow. snd (claim_session j ow)) js owners) s = Some w"
proof (induction js arbitrary: owners)
  case (Cons j js)
  have "map_of (snd (claim_session j owners)) s = Some w"
    using Cons.prems by (auto simp: claim_session_def Let_def dict_simps)
  from Cons.IH [OF this] show ?case by simp
qed simp

text \<open>C10: A session belongs to the first principal that claims it: whatever claims for any sessions
  happen in between, a later request on the session is accepted exactly when its user, role and
  permissions are those of the owner.\<close>

theorem session_claim_exclusive:
  assumes "owners' = snd (claim_session i owners)" "map_of owners (gi_session_id i) = None"
    "gi_session_id j = gi_session_id i"
  shows "fst (claim_session j (fold (\<lambda>k ow. snd (claim_session k ow)) ks owners')) =
    (claim_of j = claim_of i)"
proof -
  have "map_of owners' (gi_session_id i) = Some (claim_of i)"
    using assms(1,2) by (simp add: claim_session_def Let_def dict_simps)
  from claim_keeps_owner [OF this, of ks] assms(3) show ?thesis
    by (auto simp: claim_session_def Let_def dict_simps)
qed

theorem session_claim_exclusive_witness:
  "\<not> fst (claim_session (sample_input ''y'' ANALYST)
     (fold (\<lambda>k ow. snd (claim_session k ow)) [sample_input ''z'' ADMINISTRATOR]
        (snd (claim_session (sample_input ''x'' VIEWER) []))))"
  using session_claim_exclusive [OF refl, of "[]" "sample_input ''x'' VIEWER" "sample_input ''y'' ANALYST"
      "[sample_input ''z'' ADMINISTRATOR]"]
  by (simp add: sample_input_def claim_of_def)

section \<open>Evidence validation\<close>

lemma filter_evidence_parts:
  "subseq (fst (filter_evidence p fp ids exact seen es)) es"
  "length (fst (filter_evidence p fp ids exact seen es)) +
     snd (filter_evidence p fp ids exact seen es) = length es"
  by (induction es arbitrary: seen) (auto simp: Let_def)

lemma set_filter_evidence: "set (fst (filter_evidence p fp ids exact seen es)) \<subseteq> set es"
  by (induction es arbitrary: seen) (auto simp: Let_def)

text \<open>What an item must satisfy whatever was accepted before it.\<close>

definition evidence_admissible ::
  "authenticated_principal \<Rightarrow> string \<Rightarrow> enterprise_identifier list \<Rightarrow> uuid set \<Rightarrow> hybrid_evidence \<Rightarrow> bool"
where
  "evidence_admissible p fp ids exact h = (\<not> evidence_rejected p fp ids exact [] h)"

lemma evidence_rejected_seen:
  "evidence_rejected p fp ids exact seen h \<longleftrightarrow>
     de_chunk_id (he_evidence h) \<in> set seen \<or> \<not> evidence_admissible p fp ids exact h"
  by (auto simp: evidence_rejected_def evidence_admissible_def Let_def)

lemma filter_evidence_chunks:
  "(\<lambda>h. de_chunk_id (he_evidence h)) ` set (fst (filter_evidence p fp ids exact seen es)) =
   (\<lambda>h. de_chunk_id (he_evidence h)) ` {h \<in> set es. evidence_admissible p fp ids exact h} - set seen"
proof (induction es arbitrary: seen)
  case (Cons e es)
  show ?case
  proof (cases "evidence_rejected p fp ids exact seen e")
    case True
    then show ?thesis
      using Cons.IH [of seen] by (auto simp: evidence_rejected_seen Let_def)
  next
    case False
    then have "evidence_admissible p fp ids exact e" "de_chunk_id (he_evidence e) \<notin> set seen"
      by (auto simp: evidence_rejected_seen)
    then show ?thesis
      using False Cons.IH [of "de_chunk_id (he_evidence e) # seen"] by (simp add: Let_def) blast
  qed
qed simp

lemma filter_evidence_admissible:
  "list_all (evidence_admissible p fp ids exact) (fst (filter_evidence p fp ids exact seen es))"
  by (induction es arbitrary: seen) (auto simp: Let_def evidence_rejected_seen)

lemma filter_evidence_distinct:
  "distinct (map (\<lambda>h. de_chunk_id (he_evidence h)) (fst (filter_evidence p fp ids exact seen es)))"
proof (induction es arbitrary: seen)
  case (Cons e es)
  have "de_chunk_id (he_evidence e) \<notin> (\<lambda>h. de_chunk_id (he_evidence h)) `
      set (fst (filter_evidence p fp ids exact (de_chunk_id (he_evidence e) # seen) es))"
    by (simp add: filter_evidence_chunks)
  then show ?case using Cons.IH by (auto simp: Let_def)
qed simp

text \<open>The evidence validator's filter keeps, in order, one item for every chunk of which some
  item is admissible for the principal, and no other item, and counts every item it drops.\<close>

theorem evidence_filter_exact:
  "let r = filter_evidence p fp ids exact [] es in
   subseq (fst r) es \<and> list_all (evidence_admissible p fp ids exact) (fst r) \<and>
   distinct (map (\<lambda>h. de_chunk_id (he_evidence h)) (fst r)) \<and>
   (\<lambda>h. de_chunk_id (he_evidence h)) ` set (fst r) =
     (\<lambda>h. de_chunk_id (he_evidence h)) ` {h \<in> set es. evidence_admissible p fp ids exact h} \<and>
   length (fst r) + snd r = length es"
  unfolding Let_def
  by (rule conjI, rule filter_evidence_parts, rule conjI, rule filter_evidence_admissible, rule conjI,
    rule filter_evidence_distinct, rule conjI, simp add: filter_evidence_chunks, rule filter_evidence_parts)

text \<open>C11: Whatever identifiers the query names, the validator's filter has no effect on the state once a
  single item is valid: the reducer of the evidence channel adds the kept items to the ones already there,
  so the rejected items stay among the evidence the response is generated from; only when every item is
  rejected is the channel cleared.\<close>

theorem evidence_rejection_ineffective:
  assumes "nr_outcome (validate_evidence sv st m) = Inr ws"
  shows "let ids = get_or [] (gs_requested_identifiers st) in
    \<exists>fp chunks. sv_fingerprint sv = Inr fp \<and> (if ids = [] then chunks = [] else sv_chunks sv = Inr chunks) \<and>
      gs_retrieved_evidence (apply_update ws st) =
        (if fst (filter_evidence (gs_principal st) fp ids (matching_document_ids chunks ids) []
             (gs_retrieved_evidence st)) = [] then []
         else gs_retrieved_evidence st)"
proof -
  let ?ids = "get_or [] (gs_requested_identifiers st)"
  obtain fp where fp: "sv_fingerprint sv = Inr fp"
    using assms by (auto simp: validate_evidence_def node_raise_def Let_def split: sum.splits)
  obtain chunks where c: "(if ?ids = [] then Return [] else sv_chunks sv) = Inr chunks"
    using assms by (auto simp: validate_evidence_def node_raise_def Let_def fp split: sum.splits if_splits)
  let ?v = "fst (filter_evidence (gs_principal st) fp ?ids (matching_document_ids chunks ?ids) []
     (gs_retrieved_evidence st))"
  have "gs_retrieved_evidence (apply_update ws st) = append_unique (gs_retrieved_evidence st) ?v"
    using assms unfolding validate_evidence_def fp Let_def c by (simp add: node_return_def) (drule sym, simp)
  then have "gs_retrieved_evidence (apply_update ws st) = (if ?v = [] then [] else gs_retrieved_evidence st)"
    using append_unique_absorbed [OF _ set_filter_evidence] by (cases "?v = []") simp_all
  moreover have "if ?ids = [] then chunks = [] else sv_chunks sv = Inr chunks" using c by (simp split: if_splits)
  ultimately show ?thesis unfolding Let_def using fp by blast
qed

lemma untrusted_x: "contains_untrusted_instruction ''x'' = False"
  by code_simp

definition mixed_state :: graph_state where
  "mixed_state = (blank_state (sample_input ''x'' VIEWER))\<lparr> gs_requested_identifiers := Some [],
     gs_retrieved_evidence := [hybrid_item 1 (dense_item 2 PUBLIC {VIEWER} ''x''),
       hybrid_item 2 (dense_item 3 RESTRICTED {ADMINISTRATOR} ''x'')] \<rparr>"

theorem evidence_rejection_ineffective_witness:
  "\<exists>ws. nr_outcome (validate_evidence sample_services mixed_state 0) = Inr ws \<and>
     length (fst (filter_evidence (gs_principal mixed_state) ''build'' [] {} []
       (gs_retrieved_evidence mixed_state))) = Suc 0 \<and>
     length (gs_retrieved_evidence (apply_update ws mixed_state)) = Suc (Suc 0)"
proof -
  have fp: "sv_fingerprint sample_services = Inr ''build''" by (simp add: sample_services_def)
  have ids: "gs_requested_identifiers mixed_state = Some []" by (simp add: mixed_state_def)
  have es: "gs_retrieved_evidence mixed_state = [hybrid_item 1 (dense_item 2 PUBLIC {VIEWER} ''x''),
       hybrid_item 2 (dense_item 3 RESTRICTED {ADMINISTRATOR} ''x'')]"
    and p: "gs_principal mixed_state = sample_principal 14 VIEWER"
    by (simp_all add: mixed_state_def blank_state_def sample_input_def)
  obtain ws where ws: "nr_outcome (validate_evidence sample_services mixed_state 0) = Inr ws"
    by (simp add: validate_evidence_def node_return_def Let_def fp ids)
  have k: "fst (filter_evidence (gs_principal mixed_state) ''build'' [] {} []
       (gs_retrieved_evidence mixed_state)) = [hybrid_item 1 (dense_item 2 PUBLIC {VIEWER} ''x'')]"
    by (simp add: es p evidence_rejected_def allowed_access_levels_def untrusted_x Let_def)
  have "length (gs_retrieved_evidence (apply_update ws mixed_state)) = Suc (Suc 0)"
    using evidence_rejection_ineffective [OF ws] k fp by (auto simp: ids get_or_def Let_def) (simp add: es)
  with ws k show ?thesis by simp
qed

end
