(* ===== verification/Graph_Terminal.thy ===== *)
theory Graph_Terminal
  imports Graph_Claims
begin

text \<open>
  What a client of the stream relies on: a finished invocation reports a failed request exactly together
  with the failure route, and its closing event and output carry the ids of the request.
\<close>

section \<open>Only the failure node reports a failed request\<close>

lemma plain_status:
  "list_all (plain_write st0) ws \<Longrightarrow> gs_processing_status s \<noteq> Some PS_failed \<Longrightarrow>
   gs_processing_status (apply_update ws s) \<noteq> Some PS_failed"
proof (induction ws arbitrary: s)
  case (Cons w ws)
  have "gs_processing_status (apply_write w s) \<noteq> Some PS_failed"
    using Cons.prems by (cases w) auto
  then show ?case using Cons by simp
qed simp

lemma guarded_node_status:
  assumes "n \<in> set guarded_nodes" "run_node sv n s m = Some (ws, es, m')" "\<not> failed (apply_update ws s)"
    and "gs_processing_status s \<noteq> Some PS_failed"
  shows "gs_processing_status (apply_update ws s) \<noteq> Some PS_failed"
proof -
  from run_node_guarded [OF assms(1), of sv s m] obtain name node where
    r: "run_node sv n s m = Some (guarded name node sv s m)" and b: "sound_body s (node sv s m)"
    by (elim exE conjE) (rule that)
  have g: "guarded name node sv s m = (ws, es, m')" using r assms(2) by simp
  from guarded_success [OF g assms(3)] obtain xs a c where
    o: "nr_outcome (node sv s m) = Inr xs" and
    u: "apply_update ws s = (apply_update xs s)\<lparr> gs_activity_events := a, gs_execution_step_count := c \<rparr>"
    by (elim exE conjE) (rule that)
  have "list_all (plain_write s) xs" using b o by (simp add: sound_body_def)
  from plain_status [OF this assms(4)] show ?thesis by (simp add: u)
qed

definition status_open :: "graph_node \<Rightarrow> 'm execution \<Rightarrow> bool" where
  "status_open n c =
     (n \<in> {N_initialize_request, N_handle_failure} \<or> (n = N_finalize_execution \<and> failed (ex_state c)) \<or>
      gs_processing_status (ex_state c) \<noteq> Some PS_failed)"

lemma failed_edge:
  "n \<in> set guarded_nodes \<Longrightarrow> failed (ex_state c) \<Longrightarrow> edge_after n c = Some (Some n') \<Longrightarrow> n' = N_handle_failure"
  by (cases n) (auto simp: guarded_nodes_def edge_after_def after_operation_def)

lemma status_open_step:
  assumes inv: "run_inv sv i n c" and s: "status_open n c" and e: "execute_node sv n c = Some c'"
    and d: "edge_after n c' = Some (Some n')"
  shows "status_open n' c'"
proof (cases "n \<in> set guarded_nodes")
  case True
  have "common_ok sv i c" using inv by (simp add: run_inv_def)
  from execute_guarded [OF True this] e obtain ws es m' where
    r: "run_node sv n (ex_state c) (ex_memory c) = Some (ws, es, m')" and t: "ex_state c' = apply_update ws (ex_state c)"
    by (metis option.inject)
  have "gs_processing_status (ex_state c) \<noteq> Some PS_failed"
    using s True by (auto simp: status_open_def guarded_nodes_def)
  then show ?thesis
    using guarded_node_status [OF True r] failed_edge [OF True _ d] t by (auto simp: status_open_def)
next
  case False
  then consider "n = N_initialize_request" | "n = N_handle_failure" | "n = N_finalize_execution"
    by (cases n) (auto simp: guarded_nodes_def)
  then show ?thesis
  proof cases
    case 1
    then show ?thesis using e
      by (auto simp: status_open_def execute_node_def initialize_writes_def Let_def)
  next
    case 2
    then have "failed (ex_state c)" using inv by (simp add: run_inv_def position_def Let_def)
    then have "failed (ex_state c')" using 2 e
      by (auto simp: execute_node_def handle_failure_writes_def failed_def Let_def)
    then show ?thesis using 2 d by (simp add: edge_after_def status_open_def)
  next
    case 3
    then show ?thesis using d by (simp add: edge_after_def)
  qed
qed

lemma pending_open:
  assumes "pending (execute_node sv) edge_after n0 c0 n c" "run_inv sv i n0 c0" "status_open n0 c0"
  shows "run_inv sv i n c \<and> status_open n c"
  using assms
proof (induction rule: pending.induct)
  case (pending_step n c c' n')
  then show ?case using status_open_step main_graph.ok_step by blast
qed simp

lemma finished_open:
  assumes "responses_ok sv" "checkpoint_ok chk" "invoke_graph sv i chk m = Finished c"
  obtains c1 where "run_inv sv i N_finalize_execution c1" "status_open N_finalize_execution c1"
    "execute_node sv N_finalize_execution c1 = Some c"
proof -
  let ?s = "start_execution (sv_settings sv) i chk m"
  from drive_Finished [OF assms(3) [unfolded invoke_graph_def run_graph_def]] obtain n1 c1 where
    p: "pending (execute_node sv) edge_after N_initialize_request ?s n1 c1"
    and e: "execute_node sv n1 c1 = Some c" "edge_after n1 c = Some None"
    by (elim exE conjE) (rule that)
  have n1: "n1 = N_finalize_execution" using e(2) by (cases n1) (auto simp: edge_after_def split: if_splits)
  have "status_open N_initialize_request ?s" by (simp add: status_open_def)
  from pending_open [OF p start_inv [OF assms(1,2)] this] show ?thesis using that e(1) unfolding n1 by (elim conjE) (rule that)
qed

lemma failed_output_route:
  assumes "responses_ok sv" "checkpoint_ok chk" "invoke_graph sv i chk m = Finished c"
    and "gs_final_output (ex_state c) = Some out" "go_completion_status out = PS_failed"
  shows "go_selected_route out = Route_failure"
proof -
  from finished_open [OF assms(1-3)] obtain c1 where inv: "run_inv sv i N_finalize_execution c1"
    and s: "status_open N_finalize_execution c1" and e: "execute_node sv N_finalize_execution c1 = Some c" .
  from finalize_step [OF inv] e obtain r where r: "gs_selected_route (ex_state c1) = Some r"
    "out = final_output_of (ex_state c1) r"
    using assms(4) by (metis option.inject)
  show ?thesis
  proof (cases "failed (ex_state c1)")
    case True
    then have "gs_selected_route (ex_state c1) = Some Route_failure"
      using closing_path [OF inv] by (auto simp: failure_closed_def)
    then show ?thesis using r by (simp add: final_output_of_def)
  next
    case False
    then have "final_status (ex_state c1) \<noteq> PS_failed"
      using s by (cases "gs_processing_status (ex_state c1)") (auto simp: status_open_def final_status_def Let_def)
    then show ?thesis using r(2) assms(5) by (simp add: final_output_of_def)
  qed
qed

end
