(* ===== verification/Rate_Limit.thy ===== *)
theory Rate_Limit
  imports Contracts Complex_Main
begin

text \<open>
  Rate limiting (backend rate_limit): policies and decisions (models.py, policy.py), the process-local
  bucket store (store.py), the limiter over it (token_bucket.py) and the request dependencies
  (dependencies.py).  A float is a real; the infinities and NaN, which the code rejects before it
  computes, have no counterpart.  A bucket lock is held without suspending, so an operation of the
  store is one atomic step.
\<close>

section \<open>Policies and decisions\<close>

datatype rate_policy_name = Policy_login | Policy_standard | Policy_expensive

datatype rate_reason = Rate_allowed | Rate_disabled | Rate_exceeded | Rate_enforcement_failed

datatype rate_subject = Subject_anonymous | Subject_authenticated_user

record rate_policy =
  rp_name :: rate_policy_name
  rp_capacity :: real
  rp_refill :: real
  rp_cost :: real

definition rate_policy_ok :: "rate_policy \<Rightarrow> bool" where
  "rate_policy_ok p = (0 < rp_capacity p \<and> 0 < rp_refill p \<and> 0 < rp_cost p)"

record bucket_state =
  bs_tokens :: real
  bs_last_refill :: real
  bs_last_seen :: real

record rate_request =
  rq_policy :: rate_policy
  rq_subject :: rate_subject
  rq_cost :: real

record rate_decision =
  rd_allowed :: bool
  rd_policy_name :: rate_policy_name
  rd_requested_cost :: real
  rd_remaining :: real
  rd_capacity :: real
  rd_retry_after :: "int option"
  rd_reason :: rate_reason
  rd_explanation :: string
  rd_subject :: rate_subject

record rate_headers =
  rh_limit :: int
  rh_remaining :: int
  rh_reset :: int
  rh_retry_after :: "int option"

record store_evaluation =
  ev_allowed :: bool
  ev_remaining :: real
  ev_retry_after :: "int option"

section \<open>The bucket store\<close>

definition EPSILON :: real where "EPSILON = 1 / 1000000000"

record 'k bucket_store =
  st_ttl :: real
  st_interval :: nat
  st_scan :: nat
  st_states :: "('k, bucket_state) dict"
  st_accesses :: nat

definition new_bucket_store :: "real \<Rightarrow> nat \<Rightarrow> nat \<Rightarrow> (unit, 'k bucket_store) result" where
  "new_bucket_store ttl interval scan =
     (if ttl \<le> 0 \<or> interval = 0 \<or> scan = 0 then Raise ()
      else Return \<lparr> st_ttl = ttl, st_interval = interval, st_scan = scan, st_states = [], st_accesses = 0 \<rparr>)"

definition bucket_valid :: "bucket_state \<Rightarrow> rate_policy \<Rightarrow> bool" where
  "bucket_valid b p = (\<not> (bs_tokens b < 0 \<or> rp_capacity p + EPSILON < bs_tokens b))"

definition cleanup :: "real \<Rightarrow> 'k bucket_store \<Rightarrow> nat \<times> 'k bucket_store" where
  "cleanup now s =
     (let dead = map fst (filter (\<lambda>(k, b). st_ttl s < now - bs_last_seen b)
            (take (st_scan s) (st_states s))) in
      (length dead, s\<lparr> st_states := fold dict_pop dead (st_states s) \<rparr>))"

text \<open>The tokens a bucket holds once the time since its last refill has been credited.\<close>

definition refilled :: "rate_policy \<Rightarrow> bucket_state \<Rightarrow> real \<Rightarrow> real" where
  "refilled p b now =
     min (rp_capacity p) (bs_tokens b + max 0 (now - bs_last_refill b) * rp_refill p)"

definition evaluate_bucket :: "rate_policy \<Rightarrow> real \<Rightarrow> real \<Rightarrow> store_evaluation" where
  "evaluate_bucket p cost available =
     (if cost \<le> available + EPSILON
      then \<lparr> ev_allowed = True, ev_remaining = max 0 (available - cost), ev_retry_after = None \<rparr>
      else (let remaining = max 0 available in
        \<lparr> ev_allowed = False, ev_remaining = remaining,
          ev_retry_after = Some (max 0 \<lceil>(cost - remaining) / rp_refill p\<rceil>) \<rparr>))"

definition bucket_consume ::
  "'k \<Rightarrow> rate_policy \<Rightarrow> real \<Rightarrow> real \<Rightarrow> 'k bucket_store \<Rightarrow>
   (unit, store_evaluation) result \<times> 'k bucket_store" where
  "bucket_consume key p cost now s =
     (if cost \<le> 0 then (Raise (), s)
      else
       (let b = (case map_of (st_states s) key of
              None \<Rightarrow> \<lparr> bs_tokens = rp_capacity p, bs_last_refill = now, bs_last_seen = now \<rparr>
            | Some b \<Rightarrow> b) in
        if \<not> bucket_valid b p then (Raise (), s)
        else
         (let e = evaluate_bucket p cost (refilled p b now);
              b' = \<lparr> bs_tokens = ev_remaining e, bs_last_refill = max now (bs_last_refill b),
                bs_last_seen = max now (bs_last_seen b) \<rparr>;
              s' = s\<lparr> st_states := dict_set key b' (st_states s), st_accesses := st_accesses s + 1 \<rparr> in
          (Return e, if st_accesses s' mod st_interval s' = 0 then snd (cleanup now s') else s'))))"

section \<open>The limiter\<close>

record 'k rate_limiter =
  rl_enabled :: bool
  rl_policies :: "rate_policy_name \<Rightarrow> rate_policy option"
  rl_store :: "'k bucket_store"

definition decide ::
  "bool \<Rightarrow> rate_policy \<Rightarrow> rate_request \<Rightarrow> real \<Rightarrow> int option \<Rightarrow> rate_reason \<Rightarrow> rate_decision" where
  "decide allowed p request remaining retry reason =
     \<lparr> rd_allowed = allowed, rd_policy_name = rp_name p, rd_requested_cost = rq_cost request,
       rd_remaining = max 0 (min (rp_capacity p) remaining), rd_capacity = rp_capacity p,
       rd_retry_after = retry, rd_reason = reason,
       rd_explanation = (if allowed then ''Request is allowed.''
                         else ''Too many requests. Please try again later.''),
       rd_subject = rq_subject request \<rparr>"

definition evaluate_limit ::
  "'k \<Rightarrow> rate_policy_name \<Rightarrow> rate_request \<Rightarrow> real \<Rightarrow> 'k rate_limiter \<Rightarrow>
   (unit, rate_decision) result \<times> 'k rate_limiter" where
  "evaluate_limit key name request now l =
     (case rl_policies l name of
        None \<Rightarrow> (Raise (), l)
      | Some p \<Rightarrow>
          (if rq_policy request \<noteq> p \<or> rq_cost request \<noteq> rp_cost p then (Raise (), l)
           else if \<not> rl_enabled l
           then (Return (decide True p request (rp_capacity p) None Rate_disabled), l)
           else case bucket_consume key p (rq_cost request) now (rl_store l) of
             (Inl _, s) \<Rightarrow> (Raise (), l\<lparr> rl_store := s \<rparr>)
           | (Inr e, s) \<Rightarrow>
               (Return (decide (ev_allowed e) p request (ev_remaining e) (ev_retry_after e)
                  (if ev_allowed e then Rate_allowed else Rate_exceeded)), l\<lparr> rl_store := s \<rparr>)))"

text \<open>The cost check of \<open>RateLimitRequest\<close> repeats the one the policy has already passed.\<close>

definition request_for :: "'k rate_limiter \<Rightarrow> rate_policy_name \<Rightarrow> rate_subject \<Rightarrow> (unit, rate_request) result"
where
  "request_for l name subject =
     (case rl_policies l name of
        None \<Rightarrow> Raise ()
      | Some p \<Rightarrow> Return \<lparr> rq_policy = p, rq_subject = subject, rq_cost = rp_cost p \<rparr>)"

definition headers_for :: "rate_decision \<Rightarrow> rate_headers" where
  "headers_for d =
     (let reset = (case rd_retry_after d of None \<Rightarrow> 0 | Some r \<Rightarrow> r) in
      \<lparr> rh_limit = \<lfloor>rd_capacity d\<rfloor>, rh_remaining = \<lfloor>rd_remaining d + EPSILON\<rfloor>,
        rh_reset = max 0 reset, rh_retry_after = rd_retry_after d \<rparr>)"

text \<open>\<open>as_http_headers\<close>; the header values are integers, printed in decimal.\<close>

definition http_headers :: "rate_headers \<Rightarrow> (string \<times> int) list" where
  "http_headers h =
     [(''X-RateLimit-Limit'', rh_limit h), (''X-RateLimit-Remaining'', rh_remaining h),
      (''X-RateLimit-Reset'', rh_reset h)] @
     (case rh_retry_after h of None \<Rightarrow> [] | Some r \<Rightarrow> [(''Retry-After'', r)])"

section \<open>Request dependencies\<close>

datatype rate_failure = Rate_limit_exceeded rate_decision | Rate_limit_unavailable

type_synonym enforcement = "(rate_failure, rate_decision) result \<times> (string \<times> int) list"

definition enforce_limit ::
  "'k \<Rightarrow> rate_policy_name \<Rightarrow> rate_subject \<Rightarrow> real \<Rightarrow> 'k rate_limiter \<Rightarrow> enforcement \<times> 'k rate_limiter"
where
  "enforce_limit key name subject now l =
     (case request_for l name subject of
        Inl _ \<Rightarrow> ((Raise Rate_limit_unavailable, []), l)
      | Inr request \<Rightarrow>
          (case evaluate_limit key name request now l of
             (Inl _, l') \<Rightarrow> ((Raise Rate_limit_unavailable, []), l')
           | (Inr d, l') \<Rightarrow>
               ((if rd_allowed d then Return d else Raise (Rate_limit_exceeded d),
                 http_headers (headers_for d)), l')))"

text \<open>The network identity of an anonymous login.  \<open>parse_ip\<close> normalises an address text or fails,
  \<open>digest\<close> is SHA-256 in hexadecimal.\<close>

definition trusted_hosts :: "string \<Rightarrow> string set" where
  "trusted_hosts value = set (filter (\<lambda>h. h \<noteq> []) (map strip (split_on CHR '','' value)))"

definition anonymous_fingerprint ::
  "(string \<Rightarrow> string) \<Rightarrow> (string \<Rightarrow> string option) \<Rightarrow> bool \<Rightarrow> string \<Rightarrow> string option \<Rightarrow> string option \<Rightarrow>
   (rate_failure, string) result" where
  "anonymous_fingerprint digest parse_ip trust_proxy trusted client forwarded =
     (let direct = (case client of None \<Rightarrow> ''unknown-client'' | Some h \<Rightarrow> h) in
      if trust_proxy \<and> direct \<in> trusted_hosts trusted then
        (case forwarded of
           None \<Rightarrow> Return (digest direct)
         | Some f \<Rightarrow>
             (if CHR '','' \<in> set f then Raise Rate_limit_unavailable
              else case parse_ip (strip f) of
                None \<Rightarrow> Raise Rate_limit_unavailable | Some v \<Rightarrow> Return (digest v)))
      else Return (digest direct))"

definition enforce_login ::
  "(rate_failure, string) result \<Rightarrow> real \<Rightarrow> string rate_limiter \<Rightarrow> enforcement \<times> string rate_limiter" where
  "enforce_login fingerprint now l =
     (case fingerprint of
        Inl e \<Rightarrow> ((Raise e, []), l)
      | Inr f \<Rightarrow> enforce_limit (''anonymous:'' @ f) Policy_login Subject_anonymous now l)"

definition enforce_standard ::
  "(uuid \<Rightarrow> string) \<Rightarrow> authenticated_principal \<Rightarrow> real \<Rightarrow> string rate_limiter \<Rightarrow>
   enforcement \<times> string rate_limiter" where
  "enforce_standard uuid_text p now l =
     enforce_limit (''user:'' @ uuid_text (ui_user_id (pr_identity p))) Policy_standard
       Subject_authenticated_user now l"

definition enforce_expensive ::
  "(uuid \<Rightarrow> string) \<Rightarrow> authenticated_principal \<Rightarrow> real \<Rightarrow> string rate_limiter \<Rightarrow>
   enforcement \<times> string rate_limiter" where
  "enforce_expensive uuid_text p now l =
     enforce_limit (''user:'' @ uuid_text (ui_user_id (pr_identity p)) @ '':expensive'') Policy_expensive
       Subject_authenticated_user now l"

end
