(* ===== verification/Rate_Properties.thy ===== *)
theory Rate_Properties
  imports Rate_Limit
begin

text \<open>
  The contract of a bucket store as a locale over an abstract level of tokens, what a client may
  conclude from it, its interpretation on the in-memory store, and the properties of the limiter.
  The in-memory store meets the contract when its idle time to live is long enough to fill every
  bucket (\<open>capacity \<le> ttl * refill\<close>); then dropping an idle bucket cannot be observed.
\<close>

section \<open>The contract\<close>

text \<open>The cost admitted for one key by a sequence of requests (key, cost, time).\<close>

fun admitted ::
  "('k \<Rightarrow> real \<Rightarrow> real \<Rightarrow> 's \<Rightarrow> (unit, store_evaluation) result \<times> 's) \<Rightarrow> 'k \<Rightarrow>
   ('k \<times> real \<times> real) list \<Rightarrow> 's \<Rightarrow> real" where
  "admitted consume k [] s = 0"
| "admitted consume k ((k', cost, now) # rs) s =
     (case consume k' cost now s of
        (Inl _, s') \<Rightarrow> admitted consume k rs s'
      | (Inr e, s') \<Rightarrow> (if k' = k \<and> ev_allowed e then cost else 0) + admitted consume k rs s')"

fun ordered_from :: "real \<Rightarrow> ('k \<times> real \<times> real) list \<Rightarrow> bool" where
  "ordered_from t [] = True"
| "ordered_from t ((k, cost, now) # rs) = (t \<le> now \<and> 0 < cost \<and> ordered_from now rs)"

definition end_time :: "real \<Rightarrow> ('k \<times> real \<times> real) list \<Rightarrow> real" where
  "end_time t rs = (if rs = [] then t else snd (snd (last rs)))"

lemma end_time_Cons [simp]: "end_time t ((k, cost, now) # rs) = end_time now rs"
  by (simp add: end_time_def)

lemma ordered_from_end: "ordered_from t rs \<Longrightarrow> t \<le> end_time t rs"
proof (induction t rs rule: ordered_from.induct)
  case (1 t)
  then show ?case by (simp add: end_time_def)
next
  case (2 t k cost now rs)
  then show ?case by simp
qed

locale bucket_contract =
  fixes consume :: "'k \<Rightarrow> real \<Rightarrow> real \<Rightarrow> 's \<Rightarrow> (unit, store_evaluation) result \<times> 's"
    and inv :: "'s \<Rightarrow> real \<Rightarrow> bool"
    and level :: "'s \<Rightarrow> real \<Rightarrow> 'k \<Rightarrow> real"
    and capacity :: "'k \<Rightarrow> real"
    and rate :: "'k \<Rightarrow> real"
  assumes level_bounds: "inv s t \<Longrightarrow> t \<le> u \<Longrightarrow> 0 \<le> level s u k \<and> level s u k \<le> capacity k"
    and level_later: "inv s t \<Longrightarrow> t \<le> u \<Longrightarrow> u \<le> v \<Longrightarrow>
      level s v k = min (capacity k) (level s u k + (v - u) * rate k)"
    and rate_pos: "inv s t \<Longrightarrow> 0 < rate k"
    and consume_total: "inv s t \<Longrightarrow> t \<le> now \<Longrightarrow> 0 < cost \<Longrightarrow>
      \<exists>e s'. consume k cost now s = (Inr e, s') \<and> inv s' now"
    and consume_allowed: "inv s t \<Longrightarrow> t \<le> now \<Longrightarrow> 0 < cost \<Longrightarrow> consume k cost now s = (Inr e, s') \<Longrightarrow>
      ev_allowed e = (cost \<le> level s now k + EPSILON)"
    and consume_level: "inv s t \<Longrightarrow> t \<le> now \<Longrightarrow> 0 < cost \<Longrightarrow> consume k cost now s = (Inr e, s') \<Longrightarrow>
      level s' now k = (if ev_allowed e then max 0 (level s now k - cost) else level s now k)"
    and consume_frame: "inv s t \<Longrightarrow> t \<le> now \<Longrightarrow> 0 < cost \<Longrightarrow> consume k cost now s = (Inr e, s') \<Longrightarrow>
      k' \<noteq> k \<Longrightarrow> level s' now k' = level s now k'"
    and consume_retry: "inv s t \<Longrightarrow> t \<le> now \<Longrightarrow> 0 < cost \<Longrightarrow> consume k cost now s = (Inr e, s') \<Longrightarrow>
      \<not> ev_allowed e \<Longrightarrow> ev_retry_after e = Some (max 0 \<lceil>(cost - level s now k) / rate k\<rceil>)"
begin

text \<open>Whatever requests arrive, a key is admitted at most what its bucket held plus what was refilled,
  up to the rounding slack of one \<open>EPSILON\<close> for every request.\<close>

lemma admission:
  assumes "inv s t" "ordered_from t rs"
  shows "admitted consume k rs s \<le>
    level s t k + (end_time t rs - t) * rate k + real (length rs) * EPSILON"
  using assms
proof (induction rs arbitrary: s t)
  case Nil
  then show ?case using level_bounds [OF Nil.prems(1) order_refl, of k] by (simp add: end_time_def)
next
  case (Cons r rs)
  obtain k' cost now where r: "r = (k', cost, now)" by (cases r) auto
  have o: "t \<le> now" "0 < cost" "ordered_from now rs" using Cons.prems(2) by (simp_all add: r)
  obtain e s' where c: "consume k' cost now s = (Inr e, s')" and i: "inv s' now"
    using consume_total [OF Cons.prems(1) o(1,2)] by blast
  note IH = Cons.IH [OF i o(3)]
  have later: "level s now k \<le> level s t k + (now - t) * rate k"
    using level_later [OF Cons.prems(1) order_refl o(1), of k] by simp
  have eps: "0 \<le> EPSILON" by (simp add: EPSILON_def)
  have step: "(if k' = k \<and> ev_allowed e then cost else 0) + level s' now k \<le> level s now k + EPSILON"
  proof (cases "k' = k")
    case True
    note lv = consume_level [OF Cons.prems(1) o(1,2) c [unfolded True]]
    note al = consume_allowed [OF Cons.prems(1) o(1,2) c [unfolded True]]
    show ?thesis using lv al True eps by (auto simp: max_def)
  next
    case False
    then have "k \<noteq> k'" by blast
    from consume_frame [OF Cons.prems(1) o(1,2) c this] False eps show ?thesis by simp
  qed
  have "(end_time now rs - t) * rate k = (end_time now rs - now) * rate k + (now - t) * rate k"
    by (simp add: algebra_simps)
  then show ?case using IH step later by (simp add: r c algebra_simps)
qed

text \<open>Waiting for the announced time is enough.\<close>

lemma retry_suffices:
  assumes i: "inv s t" "t \<le> now" "0 < cost" and c: "consume k cost now s = (Inr e, s')"
    and d: "\<not> ev_allowed e" "ev_retry_after e = Some r" and cap: "cost \<le> capacity k"
    and later: "now + real_of_int r \<le> u" and c2: "consume k cost u s' = (Inr e2, s2)"
  shows "ev_allowed e2"
proof -
  obtain e0 s0 where "consume k cost now s = (Inr e0, s0)" "inv s0 now"
    using consume_total [OF i] by blast
  then have i': "inv s' now" using c by simp
  have r: "r = max 0 \<lceil>(cost - level s now k) / rate k\<rceil>" using consume_retry [OF i c d(1)] d(2) by simp
  then have r0: "0 \<le> real_of_int r" and "(cost - level s now k) / rate k \<le> real_of_int r"
    by (simp_all add: le_of_int_ceiling order_trans [OF le_of_int_ceiling])
  then have need: "cost - level s now k \<le> real_of_int r * rate k"
    using rate_pos [OF i(1), of k] by (simp add: divide_le_eq)
  have u: "now \<le> u" using later r0 by simp
  have "real_of_int r * rate k \<le> (u - now) * rate k"
    using later rate_pos [OF i(1), of k] by (intro mult_right_mono) auto
  then have "cost \<le> level s' now k + (u - now) * rate k"
    using need consume_level [OF i c] d(1) by simp
  then have "cost \<le> level s' u k" using level_later [OF i' order_refl u, of k] cap by simp
  then show ?thesis using consume_allowed [OF i' u i(3) c2] by (simp add: EPSILON_def)
qed

end

section \<open>The in-memory store\<close>

definition bucket_level :: "('k \<Rightarrow> rate_policy) \<Rightarrow> 'k bucket_store \<Rightarrow> real \<Rightarrow> 'k \<Rightarrow> real" where
  "bucket_level pol s t k =
     (case map_of (st_states s) k of None \<Rightarrow> rp_capacity (pol k) | Some b \<Rightarrow> refilled (pol k) b t)"

definition bucket_ok :: "rate_policy \<Rightarrow> real \<Rightarrow> bucket_state \<Rightarrow> bool" where
  "bucket_ok p t b = (0 \<le> bs_tokens b \<and> bs_tokens b \<le> rp_capacity p \<and> bs_last_refill b \<le> t \<and>
     bs_last_seen b = bs_last_refill b)"

text \<open>Every key has one policy, and an idle bucket is full before it may be dropped.\<close>

definition store_inv :: "('k \<Rightarrow> rate_policy) \<Rightarrow> 'k bucket_store \<Rightarrow> real \<Rightarrow> bool" where
  "store_inv pol s t =
     ((\<forall>k. rate_policy_ok (pol k) \<and> rp_capacity (pol k) \<le> st_ttl s * rp_refill (pol k)) \<and>
      distinct (dict_keys (st_states s)) \<and>
      (\<forall>k b. map_of (st_states s) k = Some b \<longrightarrow> bucket_ok (pol k) t b))"

text \<open>The two halves: the state of the store, and the settings.\<close>

definition store_ok :: "('k \<Rightarrow> rate_policy) \<Rightarrow> 'k bucket_store \<Rightarrow> real \<Rightarrow> bool" where
  "store_ok pol s t =
     ((\<forall>k. rate_policy_ok (pol k)) \<and> distinct (dict_keys (st_states s)) \<and>
      (\<forall>k b. map_of (st_states s) k = Some b \<longrightarrow> bucket_ok (pol k) t b))"

lemma store_inv_iff:
  "store_inv pol s t \<longleftrightarrow> store_ok pol s t \<and> (\<forall>k. rp_capacity (pol k) \<le> st_ttl s * rp_refill (pol k))"
  by (auto simp: store_inv_def store_ok_def)

definition consume_by :: "('k \<Rightarrow> rate_policy) \<Rightarrow> 'k \<Rightarrow> real \<Rightarrow> real \<Rightarrow> 'k bucket_store \<Rightarrow>
   (unit, store_evaluation) result \<times> 'k bucket_store" where
  "consume_by pol k cost now s = bucket_consume k (pol k) cost now s"

lemma map_of_pops: "map_of (fold dict_pop ks d) k = (if k \<in> set ks then None else map_of d k)"
  by (induction ks arbitrary: d) (auto simp: dict_simps)

lemma distinct_pops: "distinct (dict_keys d) \<Longrightarrow> distinct (dict_keys (fold dict_pop ks d))"
  by (induction ks arbitrary: d) (auto intro: dict_distinct_pop)

lemma bucket_ok_later: "bucket_ok p t b \<Longrightarrow> t \<le> u \<Longrightarrow> bucket_ok p u b"
  by (simp add: bucket_ok_def)

lemma store_inv_later: "store_inv pol s t \<Longrightarrow> t \<le> u \<Longrightarrow> store_inv pol s u"
  unfolding store_inv_def using bucket_ok_later [of _ t _ u] by blast

lemma refilled_bounds:
  assumes "bucket_ok p t b" "rate_policy_ok p"
  shows "0 \<le> refilled p b u" "refilled p b u \<le> rp_capacity p"
  using assms by (auto simp: refilled_def bucket_ok_def rate_policy_ok_def intro!: add_nonneg_nonneg)

lemma refilled_later:
  assumes "bucket_ok p t b" "t \<le> u" "u \<le> v" "rate_policy_ok p"
  shows "refilled p b v = min (rp_capacity p) (refilled p b u + (v - u) * rp_refill p)"
proof -
  have "bs_last_refill b \<le> u" using assms by (simp add: bucket_ok_def)
  then have e: "max 0 (v - bs_last_refill b) * rp_refill p =
      max 0 (u - bs_last_refill b) * rp_refill p + (v - u) * rp_refill p"
    using assms(3) by (simp add: algebra_simps)
  have "0 \<le> (v - u) * rp_refill p" using assms(3,4) by (simp add: rate_policy_ok_def)
  then show ?thesis unfolding refilled_def e by (simp add: min_def)
qed

text \<open>A bucket idle for longer than the time to live is full.\<close>

lemma idle_bucket_full:
  assumes "bucket_ok p t b" "rate_policy_ok p" "rp_capacity p \<le> ttl * rp_refill p"
    "ttl < u - bs_last_seen b" "u \<le> v"
  shows "refilled p b v = rp_capacity p"
proof -
  have "ttl * rp_refill p \<le> (v - bs_last_refill b) * rp_refill p"
    using assms by (intro mult_right_mono) (auto simp: bucket_ok_def rate_policy_ok_def)
  also have "\<dots> \<le> max 0 (v - bs_last_refill b) * rp_refill p"
    using assms(2) by (intro mult_right_mono) (auto simp: rate_policy_ok_def)
  finally show ?thesis using assms(1,3) by (simp add: refilled_def bucket_ok_def)
qed

lemma cleanup_states:
  assumes "distinct (dict_keys (st_states s))"
  shows "map_of (st_states (snd (cleanup u s))) k =
    (case map_of (st_states s) k of None \<Rightarrow> None
     | Some b \<Rightarrow> if (k, b) \<in> set (take (st_scan s) (st_states s)) \<and> st_ttl s < u - bs_last_seen b
         then None else Some b)"
proof -
  let ?dead = "map fst (filter (\<lambda>(k, b). st_ttl s < u - bs_last_seen b) (take (st_scan s) (st_states s)))"
  have "k \<in> set ?dead \<longleftrightarrow> (\<exists>b. map_of (st_states s) k = Some b \<and>
      (k, b) \<in> set (take (st_scan s) (st_states s)) \<and> st_ttl s < u - bs_last_seen b)"
    using assms by (force simp: image_iff dest: in_set_takeD)
  then show ?thesis by (auto simp: cleanup_def Let_def map_of_pops split: option.splits)
qed

lemma cleanup_invisible:
  assumes "store_inv pol s u" "u \<le> v"
  shows "bucket_level pol (snd (cleanup u s)) v k = bucket_level pol s v k"
    "store_inv pol (snd (cleanup u s)) u"
proof -
  have d: "distinct (dict_keys (st_states s))" using assms(1) by (simp add: store_inv_def)
  note st = cleanup_states [OF d, of u]
  show "bucket_level pol (snd (cleanup u s)) v k = bucket_level pol s v k"
    unfolding bucket_level_def st
    using assms idle_bucket_full [of "pol k" u _ "st_ttl s" u v]
    by (auto simp: store_inv_def split: option.splits)
  have "distinct (dict_keys (st_states (snd (cleanup u s))))"
    using d by (simp add: cleanup_def Let_def distinct_pops)
  moreover have "st_ttl (snd (cleanup u s)) = st_ttl s" by (simp add: cleanup_def Let_def)
  ultimately show "store_inv pol (snd (cleanup u s)) u"
    using assms(1) unfolding store_inv_def st by (auto split: option.splits if_splits)
qed

text \<open>What a call does to the store before the occasional cleanup.\<close>

definition charged :: "rate_policy \<Rightarrow> 'k \<Rightarrow> real \<Rightarrow> store_evaluation \<Rightarrow> 'k bucket_store \<Rightarrow> 'k bucket_store"
where
  "charged p k now e s = s\<lparr> st_states := dict_set k \<lparr> bs_tokens = ev_remaining e,
       bs_last_refill = (case map_of (st_states s) k of None \<Rightarrow> now | Some b \<Rightarrow> max now (bs_last_refill b)),
       bs_last_seen = (case map_of (st_states s) k of None \<Rightarrow> now | Some b \<Rightarrow> max now (bs_last_seen b)) \<rparr>
       (st_states s), st_accesses := st_accesses s + 1 \<rparr>"

lemma bucket_level_bounds:
  assumes "store_inv pol s t"
  shows "0 \<le> bucket_level pol s u k" "bucket_level pol s u k \<le> rp_capacity (pol k)"
  using assms refilled_bounds [of "pol k" t _ u]
  by (auto simp: bucket_level_def store_inv_def rate_policy_ok_def less_imp_le split: option.splits)

lemma bucket_level_later:
  assumes "store_inv pol s t" "t \<le> u" "u \<le> v"
  shows "bucket_level pol s v k = min (rp_capacity (pol k)) (bucket_level pol s u k + (v - u) * rp_refill (pol k))"
proof (cases "map_of (st_states s) k")
  case None
  have "0 \<le> (v - u) * rp_refill (pol k)"
    using assms by (auto simp: store_inv_def rate_policy_ok_def less_imp_le)
  then show ?thesis using None by (simp add: bucket_level_def)
next
  case (Some b)
  then show ?thesis
    using assms refilled_later [of "pol k" t b u v] by (simp add: bucket_level_def store_inv_def)
qed

lemma consume_by_eq:
  assumes inv: "store_inv pol s t" and t: "t \<le> now" "0 < cost"
  shows "consume_by pol k cost now s =
    (let e = evaluate_bucket (pol k) cost (bucket_level pol s now k); s' = charged (pol k) k now e s in
     (Inr e, if st_accesses s' mod st_interval s' = 0 then snd (cleanup now s') else s'))"
proof (cases "map_of (st_states s) k")
  case None
  have "rate_policy_ok (pol k)" using inv by (simp add: store_inv_def)
  then show ?thesis using t None
    by (simp add: consume_by_def bucket_consume_def bucket_valid_def EPSILON_def charged_def
        bucket_level_def refilled_def rate_policy_ok_def Let_def)
next
  case (Some b)
  have "bucket_ok (pol k) t b" using inv Some by (simp add: store_inv_def)
  then have "bucket_valid b (pol k)" by (simp add: bucket_valid_def bucket_ok_def EPSILON_def)
  then show ?thesis using t Some
    by (simp add: consume_by_def bucket_consume_def charged_def bucket_level_def Let_def)
qed

lemma evaluation_remaining:
  assumes "0 \<le> l" "l \<le> cap" "0 < cost"
  shows "ev_allowed (evaluate_bucket p cost l) = (cost \<le> l + EPSILON)"
    "ev_remaining (evaluate_bucket p cost l) = (if cost \<le> l + EPSILON then max 0 (l - cost) else l)"
    "0 \<le> ev_remaining (evaluate_bucket p cost l)" "ev_remaining (evaluate_bucket p cost l) \<le> cap"
    "\<not> cost \<le> l + EPSILON \<Longrightarrow> ev_retry_after (evaluate_bucket p cost l) =
      Some (max 0 \<lceil>(cost - l) / rp_refill p\<rceil>)"
  using assms by (auto simp: evaluate_bucket_def Let_def)

lemma charged_facts:
  assumes inv: "store_inv pol s t" and t: "t \<le> now"
    and r: "0 \<le> ev_remaining e" "ev_remaining e \<le> rp_capacity (pol k)"
  shows "store_inv pol (charged (pol k) k now e s) now"
    "bucket_level pol (charged (pol k) k now e s) now k = ev_remaining e"
    "k' \<noteq> k \<Longrightarrow> bucket_level pol (charged (pol k) k now e s) now k' = bucket_level pol s now k'"
proof -
  have old: "bs_last_refill b \<le> now \<and> bs_last_seen b = bs_last_refill b"
    if "map_of (st_states s) k = Some b" for b
  proof -
    have "bucket_ok (pol k) t b" using inv that by (simp add: store_inv_def)
    then show ?thesis using t by (simp add: bucket_ok_def)
  qed
  have ok: "bucket_ok (pol j) now b" if "map_of (st_states s) j = Some b" for j b
    using inv t that bucket_ok_later [of _ t b now] by (simp add: store_inv_def)
  show "store_inv pol (charged (pol k) k now e s) now"
    using inv r old ok
    by (auto simp: store_inv_def charged_def dict_simps bucket_ok_def max_def intro: dict_distinct_set
        split: option.splits if_splits)
  show "bucket_level pol (charged (pol k) k now e s) now k = ev_remaining e"
    using r old by (auto simp: bucket_level_def charged_def dict_simps refilled_def split: option.splits)
  show "k' \<noteq> k \<Longrightarrow> bucket_level pol (charged (pol k) k now e s) now k' = bucket_level pol s now k'"
    by (simp add: bucket_level_def charged_def dict_simps)
qed

lemma consume_by_facts:
  assumes inv: "store_inv pol s t" and t: "t \<le> now" "0 < cost"
    and c: "consume_by pol k cost now s = (Inr e, s')"
  shows "e = evaluate_bucket (pol k) cost (bucket_level pol s now k)" "store_inv pol s' now"
    "bucket_level pol s' now k = ev_remaining e"
    "k' \<noteq> k \<Longrightarrow> bucket_level pol s' now k' = bucket_level pol s now k'"
proof -
  show e: "e = evaluate_bucket (pol k) cost (bucket_level pol s now k)"
    using c consume_by_eq [OF inv t, of k] by (simp add: Let_def)
  let ?s = "charged (pol k) k now e s"
  note b = bucket_level_bounds [OF inv, of now k]
  note f = charged_facts [OF inv t(1) evaluation_remaining(3,4) [OF b t(2), of "pol k", folded e]]
  have s': "s' = ?s \<or> s' = snd (cleanup now ?s)"
    using c consume_by_eq [OF inv t, of k] e by (auto simp: Let_def split: if_splits)
  show "store_inv pol s' now" using s' f(1) cleanup_invisible(2) [OF f(1) order_refl] by auto
  show "bucket_level pol s' now k = ev_remaining e"
    using s' f(2) cleanup_invisible(1) [OF f(1) order_refl] by auto
  show "k' \<noteq> k \<Longrightarrow> bucket_level pol s' now k' = bucket_level pol s now k'"
    using s' f(3) cleanup_invisible(1) [OF f(1) order_refl] by auto
qed

interpretation memory_buckets: bucket_contract "consume_by pol" "store_inv pol" "bucket_level pol"
    "\<lambda>k. rp_capacity (pol k)" "\<lambda>k. rp_refill (pol k)" for pol :: "'k \<Rightarrow> rate_policy"
proof
  fix s :: "'k bucket_store" and t u v now cost :: real and k k' :: 'k and e s'
  assume inv: "store_inv pol s t"
  show "t \<le> u \<Longrightarrow> 0 \<le> bucket_level pol s u k \<and> bucket_level pol s u k \<le> rp_capacity (pol k)"
    using bucket_level_bounds [OF inv] by blast
  show "t \<le> u \<Longrightarrow> u \<le> v \<Longrightarrow> bucket_level pol s v k =
      min (rp_capacity (pol k)) (bucket_level pol s u k + (v - u) * rp_refill (pol k))"
    by (rule bucket_level_later [OF inv])
  show "0 < rp_refill (pol k)" using inv by (simp add: store_inv_def rate_policy_ok_def)
  assume t: "t \<le> now" "0 < cost"
  obtain e0 s0 where c0: "consume_by pol k cost now s = (Inr e0, s0)"
    by (simp add: consume_by_eq [OF inv t] Let_def)
  then show "\<exists>e s'. consume_by pol k cost now s = (Inr e, s') \<and> store_inv pol s' now"
    using consume_by_facts(2) [OF inv t c0] by blast
  note b = bucket_level_bounds [OF inv, of now k]
  note ev = evaluation_remaining [OF b t(2), of "pol k"]
  assume c: "consume_by pol k cost now s = (Inr e, s')"
  note f = consume_by_facts [OF inv t c]
  show "ev_allowed e = (cost \<le> bucket_level pol s now k + EPSILON)" unfolding f(1) by (rule ev)
  show "bucket_level pol s' now k =
      (if ev_allowed e then max 0 (bucket_level pol s now k - cost) else bucket_level pol s now k)"
    unfolding f(3) unfolding f(1) ev(1,2) ..
  show "k' \<noteq> k \<Longrightarrow> bucket_level pol s' now k' = bucket_level pol s now k'" by (rule f(4))
  show "\<not> ev_allowed e \<Longrightarrow> ev_retry_after e =
      Some (max 0 \<lceil>(cost - bucket_level pol s now k) / rp_refill (pol k)\<rceil>)"
    unfolding f(1) ev(1) by (rule ev(5))
qed

section \<open>Properties\<close>

definition login_policy :: rate_policy where
  "login_policy = \<lparr> rp_name = Policy_login, rp_capacity = 5, rp_refill = 1 / 30, rp_cost = 1 \<rparr>"

definition fresh_store :: "real \<Rightarrow> nat bucket_store" where
  "fresh_store ttl = \<lparr> st_ttl = ttl, st_interval = 64, st_scan = 128, st_states = [], st_accesses = 0 \<rparr>"

lemma fresh_store_inv: "150 \<le> ttl \<Longrightarrow> store_inv (\<lambda>_. login_policy) (fresh_store ttl) t"
  by (simp add: store_inv_def fresh_store_def login_policy_def rate_policy_ok_def)

text \<open>C12: However requests of any keys interleave on a clock that does not run back, the total cost the
  store admits for one key is at most the bucket's capacity plus what refills in the time they span, up to the
  rounding slack of one EPSILON per request, cleanups included, provided every bucket fills within the idle
  time to live.  The settings do not enforce this; \<open>short_ttl_forgets_debt\<close> below shows that the bound fails
  without it.\<close>

theorem rate_admission_bounded:
  assumes "store_ok pol s t" "\<forall>k. rp_capacity (pol k) \<le> st_ttl s * rp_refill (pol k)" "ordered_from t rs"
  shows "admitted (consume_by pol) k rs s \<le> rp_capacity (pol k) +
    (end_time t rs - t) * rp_refill (pol k) + real (length rs) * EPSILON"
proof -
  have inv: "store_inv pol s t" using assms by (simp add: store_inv_iff)
  show ?thesis
    using memory_buckets.admission [OF inv assms(3), of k] bucket_level_bounds(2) [OF inv, of t k] by simp
qed

theorem rate_admission_bounded_witness:
  "admitted (consume_by (\<lambda>_. login_policy)) 7 [(7, 5, 0), (8, 1, 3), (7, 1, 6)] (fresh_store 3600)
     \<le> 26 / 5 + 3 * EPSILON"
  using fresh_store_inv [of 3600 0]
    rate_admission_bounded [of "\<lambda>_. login_policy" "fresh_store 3600" 0 "[(7, 5, 0), (8, 1, 3), (7, 1, 6)]" 7]
  by (simp add: store_inv_iff) (simp add: login_policy_def end_time_def)

text \<open>C13: A refused client that waits for the announced number of seconds is admitted, if nobody has
  used its bucket since, the request does not cost more than the bucket can hold (a costlier one is never
  admitted), and every bucket fills within the idle time to live.\<close>

theorem rate_retry_after_suffices:
  assumes "store_ok pol s t" "\<forall>k. rp_capacity (pol k) \<le> st_ttl s * rp_refill (pol k)" "t \<le> now" "0 < cost"
    "consume_by pol k cost now s = (Inr e, s')" "\<not> ev_allowed e" "ev_retry_after e = Some r"
    "cost \<le> rp_capacity (pol k)" "now + real_of_int r \<le> u" "consume_by pol k cost u s' = (Inr e2, s2)"
  shows "ev_allowed e2"
  by (rule memory_buckets.retry_suffices [OF store_inv_iff [THEN iffD2, OF conjI, OF assms(1,2)] assms(3-)])

theorem rate_retry_after_suffices_witness:
  "let s = \<lparr> st_ttl = 3600, st_interval = 64, st_scan = 128, st_states = [(7::nat,
        \<lparr> bs_tokens = 0, bs_last_refill = 0, bs_last_seen = 0 \<rparr>)], st_accesses = 0 \<rparr>;
      c = consume_by (\<lambda>_. login_policy) 7 1 0 s;
      c2 = consume_by (\<lambda>_. login_policy) 7 1 30 (snd c) in
   case (fst c, fst c2) of (Inr e, Inr e2) \<Rightarrow> \<not> ev_allowed e \<and> ev_retry_after e = Some 30 \<and> ev_allowed e2
     | _ \<Rightarrow> False"
proof -
  let ?p = "\<lambda>_::nat. login_policy"
  let ?s = "\<lparr> st_ttl = 3600, st_interval = 64, st_scan = 128, st_states = [(7::nat,
        \<lparr> bs_tokens = 0, bs_last_refill = 0, bs_last_seen = 0 \<rparr>)], st_accesses = 0 \<rparr> :: nat bucket_store"
  have i: "store_inv ?p ?s 0"
    by (auto simp: store_inv_def login_policy_def rate_policy_ok_def bucket_ok_def)
  obtain e s' where c: "consume_by ?p 7 1 0 ?s = (Inr e, s')" and i': "store_inv ?p s' 0"
    using memory_buckets.consume_total [OF i order_refl zero_less_one] by blast
  have e: "e = evaluate_bucket login_policy 1 0"
    using consume_by_facts(1) [OF i order_refl zero_less_one c]
    by (simp add: bucket_level_def refilled_def login_policy_def)
  then have d: "\<not> ev_allowed e" "ev_retry_after e = Some 30"
    by (simp_all add: evaluate_bucket_def EPSILON_def login_policy_def)
  have z: "(0::real) \<le> 30" by simp
  obtain e2 s2 where c2: "consume_by ?p 7 1 30 s' = (Inr e2, s2)"
    using memory_buckets.consume_total [OF i' z zero_less_one] by blast
  have "ev_allowed e2"
    by (rule rate_retry_after_suffices [OF i [unfolded store_inv_iff, THEN conjunct1]
          i [unfolded store_inv_iff, THEN conjunct2] order_refl zero_less_one c d _ _ c2])
      (simp_all add: login_policy_def)
  then show ?thesis using c c2 d by (simp add: Let_def)
qed

text \<open>C14: With limiting switched off every request passes and the store is untouched.  Switched on, and with
  every bucket filling within the idle time to live, the limiter fails closed: a request is let through exactly
  when the bucket covers its cost, a refusal carries a Retry-After header, the bucket is charged exactly
  the cost of an admitted request, and other keys keep their tokens.\<close>

theorem rate_enforcement_exact:
  assumes "store_ok pol (rl_store l) t" "\<forall>k. rp_capacity (pol k) \<le> st_ttl (rl_store l) * rp_refill (pol k)"
    "t \<le> now" "rl_policies l name = Some (pol key)"
  shows "case enforce_limit key name subject now l of ((r, headers), l') \<Rightarrow>
    if rl_enabled l then (case r of
       Inr d \<Rightarrow> rp_cost (pol key) \<le> bucket_level pol (rl_store l) now key + EPSILON \<and> rd_allowed d \<and>
         bucket_level pol (rl_store l') now key =
           max 0 (bucket_level pol (rl_store l) now key - rp_cost (pol key)) \<and>
         map_of headers ''Retry-After'' = None
     | Inl Rate_limit_unavailable \<Rightarrow> False
     | Inl (Rate_limit_exceeded d) \<Rightarrow>
         bucket_level pol (rl_store l) now key + EPSILON < rp_cost (pol key) \<and>
         bucket_level pol (rl_store l') now key = bucket_level pol (rl_store l) now key \<and>
         map_of headers ''Retry-After'' = rd_retry_after d \<and> rd_retry_after d \<noteq> None) \<and>
    (\<forall>k. k = key \<or> bucket_level pol (rl_store l') now k = bucket_level pol (rl_store l) now k) \<and>
    store_ok pol (rl_store l') now
    else (\<exists>d. r = Inr d \<and> rd_allowed d) \<and> l' = l"
proof (cases "rl_enabled l")
  case False
  then show ?thesis
    using assms(4) by (simp add: enforce_limit_def request_for_def evaluate_limit_def decide_def Let_def)
next
  case enabled: True
  have inv: "store_inv pol (rl_store l) t" using assms(1,2) by (simp add: store_inv_iff)
  have cost: "0 < rp_cost (pol key)" using inv by (simp add: store_inv_def rate_policy_ok_def)
  obtain e s' where c: "consume_by pol key (rp_cost (pol key)) now (rl_store l) = (Inr e, s')"
    using memory_buckets.consume_total [OF inv assms(3) cost] by blast
  note f = consume_by_facts [OF inv assms(3) cost c]
  have ok: "store_ok pol s' now" using f(2) by (simp add: store_inv_iff)
  note al = memory_buckets.consume_allowed [OF inv assms(3) cost c]
  note lv = memory_buckets.consume_level [OF inv assms(3) cost c]
  note rt = memory_buckets.consume_retry [OF inv assms(3) cost c]
  have re: "ev_allowed e \<Longrightarrow> ev_retry_after e = None"
    unfolding f(1) by (simp add: evaluate_bucket_def Let_def split: if_splits)
  have fr: "\<forall>k. k = key \<or> bucket_level pol s' now k = bucket_level pol (rl_store l) now k"
    using f(4) by blast
  have run: "enforce_limit key name subject now l =
      (let d = decide (ev_allowed e) (pol key) \<lparr> rq_policy = pol key, rq_subject = subject,
           rq_cost = rp_cost (pol key) \<rparr> (ev_remaining e) (ev_retry_after e)
           (if ev_allowed e then Rate_allowed else Rate_exceeded) in
       ((if ev_allowed e then Return d else Raise (Rate_limit_exceeded d), http_headers (headers_for d)),
        l\<lparr> rl_store := s' \<rparr>))"
    using c assms(4) enabled
    by (simp add: enforce_limit_def request_for_def evaluate_limit_def consume_by_def decide_def Let_def)
  have hd: "map_of (http_headers (headers_for d)) ''Retry-After'' = rd_retry_after d" for d
    by (simp add: http_headers_def headers_for_def Let_def split: option.splits)
  have rd: "rd_retry_after (decide a p q x y z) = y" "rd_allowed (decide a p q x y z) = a" for a p q x y z
    by (simp_all add: decide_def)
  show ?thesis
  proof (cases "ev_allowed e")
    case True
    then show ?thesis using al lv fr ok re enabled by (simp add: run hd rd Let_def)
  next
    case False
    then show ?thesis using al lv fr ok rt enabled by (simp add: run hd rd Let_def)
  qed
qed

theorem rate_enforcement_exact_witness:
  "let l = \<lparr> rl_enabled = True, rl_policies = [Policy_login \<mapsto> login_policy], rl_store = fresh_store 3600 \<rparr> in
   case enforce_limit 7 Policy_login Subject_anonymous 0 l of ((r, headers), l') \<Rightarrow>
     store_ok (\<lambda>_. login_policy) (rl_store l') 0 \<and> r \<noteq> Inl Rate_limit_unavailable"
proof -
  let ?l = "\<lparr> rl_enabled = True, rl_policies = [Policy_login \<mapsto> login_policy], rl_store = fresh_store 3600 \<rparr>"
  have i: "store_inv (\<lambda>_. login_policy) (rl_store ?l) 0" using fresh_store_inv [of 3600 0] by simp
  have p: "rl_policies ?l Policy_login = Some login_policy" "rl_enabled ?l" by simp_all
  from rate_enforcement_exact [where key = 7 and subject = Subject_anonymous,
      OF i [unfolded store_inv_iff, THEN conjunct1] i [unfolded store_inv_iff, THEN conjunct2] order_refl p(1)] p(2)
  show ?thesis by (auto simp: Let_def split: prod.splits sum.splits rate_failure.splits)
qed

text \<open>The settings accept a time to live that is too short for a bucket to fill (here one second): then
  the cleanup hands a client its capacity back, and ten requests pass where five may.\<close>

lemma short_ttl_forgets_debt:
  "admitted (consume_by (\<lambda>_. login_policy)) 7 [(7, 5, 0), (8, 1, 2), (7, 5, 2)]
     ((fresh_store 1)\<lparr> st_interval := 2 \<rparr>) = 10"
  by (simp add: consume_by_def bucket_consume_def fresh_store_def login_policy_def bucket_valid_def
      EPSILON_def evaluate_bucket_def refilled_def cleanup_def Let_def)

end
