(* ===== verification/Retrieval_Filters.thy ===== *)
theory Retrieval_Filters
  imports Evidence
begin

text \<open>
  Authorization of retrieval: the metadata a chunk carries in the vector index
  (retrieval/metadata.py), the provider filter compiled from principal and caller filters
  (retrieval/filters.py), and the local check of the sparse branch (\<open>_authorized\<close> in
  retrieval/sparse/retriever.py).  The locale \<open>filter_provider\<close> is what the code relies on from the
  provider's metadata filter language.  \<open>uuid_text\<close> is \<open>str(uuid)\<close>.
\<close>

section \<open>Flat chunk metadata\<close>

text \<open>\<open>MDate\<close> stands for the ISO text of a date; the schema version of a chunk is not modelled.\<close>

datatype meta_value = MStr string | MNum real | MList "string list" | MDate date

type_synonym metadata = "(string, meta_value) dict"

definition epoch_day :: "date \<Rightarrow> int" where "epoch_day d = d - 719163"

definition chunk_fields :: "(uuid \<Rightarrow> string) \<Rightarrow> string \<Rightarrow> chunk_record \<Rightarrow> metadata" where
  "chunk_fields uuid_text fingerprint c =
       [(''chunk_id'', MStr (uuid_text (ck_chunk_id c))),
        (''evidence_id'', MStr (uuid_text (ck_evidence_id c))),
        (''document_id'', MStr (uuid_text (ck_document_id c))),
        (''title'', MStr (ck_title c)),
        (''source'', MStr (ck_source c)),
        (''source_file'', MStr (ck_source_file c)),
        (''department'', MStr (ck_department c)),
        (''document_type'', MStr (document_type_text (ck_document_type c))),
        (''access_level'', MStr (access_level_text (ck_access_level c))),
        (''allowed_roles'', MList (map user_role_text (ck_allowed_roles c))),
        (''created_date'', MDate (ck_created_date c)),
        (''created_day'', MNum (real_of_int (epoch_day (ck_created_date c)))),
        (''updated_date'', MDate (ck_updated_date c)),
        (''updated_day'', MNum (real_of_int (epoch_day (ck_updated_date c)))),
        (''version'', MStr (ck_version c)),
        (''owner'', MStr (ck_owner c)),
        (''status'', MStr (ck_status c)),
        (''tags'', MList (ck_tags c)),
        (''related_document_ids'', MList (map uuid_text (ck_related_document_ids c))),
        (''section'', MStr (ck_section c)),
        (''section_path'', MList (ck_section_path c)),
        (''source_line_start'', MNum (real (ck_source_line_start c))),
        (''source_line_end'', MNum (real (ck_source_line_end c))),
        (''text'', MStr (ck_text c)),
        (''search_text'', MStr (ck_search_text c)),
        (''approximate_token_count'', MNum (real (ck_approximate_token_count c))),
        (''chunk_content_hash'', MStr (ck_chunk_content_hash c)),
        (''original_document_hash'', MStr (ck_original_document_hash c)),
        (''normalized_document_hash'', MStr (ck_normalized_document_hash c)),
        (''content_trust'', MStr ''untrusted_external_content''),
        (''build_fingerprint'', MStr fingerprint)]"

definition chunk_metadata ::
  "(uuid \<Rightarrow> string) \<Rightarrow> (metadata \<Rightarrow> nat) \<Rightarrow> nat \<Rightarrow> string \<Rightarrow> chunk_record \<Rightarrow> (retrieval_error, metadata) result"
where
  "chunk_metadata uuid_text json_size maximum_bytes fingerprint c =
     (let metadata = chunk_fields uuid_text fingerprint c in
      if maximum_bytes < json_size metadata
      then Raise (RetrievalValidationError ''Pinecone metadata exceeds configured maximum'')
      else Return metadata)"

section \<open>The provider filter\<close>

datatype clause_op = Op_eq string | Op_in "string list" | Op_range "real option" "real option"

type_synonym filter_clause = "string \<times> clause_op"

definition in_clause :: "string \<Rightarrow> string list \<Rightarrow> filter_clause list" where
  "in_clause fld values = (if values = [] then [] else [(fld, Op_in values)])"

definition range_clause :: "string \<Rightarrow> date option \<Rightarrow> date option \<Rightarrow> filter_clause list" where
  "range_clause fld lower upper =
     (if lower = None \<and> upper = None then []
      else [(fld, Op_range (map_option (\<lambda>d. real_of_int (epoch_day d)) lower)
               (map_option (\<lambda>d. real_of_int (epoch_day d)) upper))])"

definition append_optional :: "(uuid \<Rightarrow> string) \<Rightarrow> dense_query_filters \<Rightarrow> filter_clause list" where
  "append_optional uuid_text f =
     in_clause ''department'' (qf_departments f) @
     in_clause ''document_type'' (map document_type_text (qf_document_types f)) @
     in_clause ''status'' (qf_statuses f) @
     in_clause ''document_id'' (map uuid_text (qf_document_ids f)) @
     in_clause ''tags'' (qf_tags f) @
     range_clause ''created_day'' (qf_created_from f) (qf_created_to f) @
     range_clause ''updated_day'' (qf_updated_from f) (qf_updated_to f)"

text \<open>The list under \<open>$and\<close>.\<close>

definition build_authorization_filter ::
  "(uuid \<Rightarrow> string) \<Rightarrow> authenticated_principal \<Rightarrow> string \<Rightarrow> dense_query_filters option \<Rightarrow>
   (retrieval_error, filter_clause list) result" where
  "build_authorization_filter uuid_text p fingerprint filters =
     (let allowed = allowed_access_levels p;
          selected = (case filters of None \<Rightarrow> {} | Some f \<Rightarrow> set (qf_access_levels f)) in
      if selected \<noteq> {} \<and> \<not> selected \<subseteq> allowed
      then Raise (PyValueError ''optional access filters cannot broaden principal access'')
      else Return
        ([(''build_fingerprint'', Op_eq fingerprint),
          (''access_level'', Op_in (map access_level_text
             (filter (\<lambda>l. l \<in> (if selected = {} then allowed else selected)) (sort access_levels)))),
          (''allowed_roles'', Op_in [user_role_text (principal_role p)])] @
         (case filters of None \<Rightarrow> [] | Some f \<Rightarrow> append_optional uuid_text f)))"

section \<open>The local check\<close>

definition chunk_document_metadata :: "chunk_record \<Rightarrow> document_metadata" where
  "chunk_document_metadata c =
     \<lparr> dm_document_id = ck_document_id c, dm_title = ck_title c, dm_source = ck_source c,
       dm_department = ck_department c, dm_document_type = ck_document_type c,
       dm_access_level = ck_access_level c, dm_allowed_roles = set (ck_allowed_roles c),
       dm_created_date = ck_created_date c, dm_updated_date = ck_updated_date c,
       dm_version = ck_version c, dm_content_hash = ck_chunk_content_hash c \<rparr>"

definition before :: "date \<Rightarrow> date option \<Rightarrow> bool" where
  "before d bound = (case bound of None \<Rightarrow> False | Some b \<Rightarrow> d < b)"

definition after :: "date \<Rightarrow> date option \<Rightarrow> bool" where
  "after d bound = (case bound of None \<Rightarrow> False | Some b \<Rightarrow> b < d)"

definition filters_admit :: "dense_query_filters \<Rightarrow> chunk_record \<Rightarrow> bool" where
  "filters_admit f c =
     (if qf_access_levels f \<noteq> [] \<and> ck_access_level c \<notin> set (qf_access_levels f) then False
      else if qf_departments f \<noteq> [] \<and> ck_department c \<notin> set (qf_departments f) then False
      else if qf_document_types f \<noteq> [] \<and> ck_document_type c \<notin> set (qf_document_types f) then False
      else if qf_statuses f \<noteq> [] \<and> ck_status c \<notin> set (qf_statuses f) then False
      else if qf_document_ids f \<noteq> [] \<and> ck_document_id c \<notin> set (qf_document_ids f) then False
      else if qf_tags f \<noteq> [] \<and> set (qf_tags f) \<inter> set (ck_tags c) = {} then False
      else \<not> (before (ck_created_date c) (qf_created_from f) \<or> after (ck_created_date c) (qf_created_to f) \<or>
              before (ck_updated_date c) (qf_updated_from f) \<or> after (ck_updated_date c) (qf_updated_to f)))"

definition chunk_admitted ::
  "authenticated_principal \<Rightarrow> dense_query_filters option \<Rightarrow> chunk_record \<Rightarrow> bool" where
  "chunk_admitted p filters c =
     (if \<not> is_document_authorized p (Some (chunk_document_metadata c)) then False
      else case filters of None \<Rightarrow> True | Some f \<Rightarrow> filters_admit f c)"

text \<open>Building the metadata object raises a validation error for a chunk that is not a document.\<close>

definition chunk_authorized ::
  "authenticated_principal \<Rightarrow> dense_query_filters option \<Rightarrow> chunk_record \<Rightarrow> (retrieval_error, bool) result"
where
  "chunk_authorized p filters c =
     (if document_metadata_ok (chunk_document_metadata c) then Return (chunk_admitted p filters c)
      else Raise (PyValueError ''document metadata''))"

lemma chunk_admitted_iff:
  "chunk_admitted p filters c \<longleftrightarrow>
   ck_access_level c \<in> allowed_access_levels p \<and> principal_role p \<in> set (ck_allowed_roles c) \<and>
   (case filters of None \<Rightarrow> True | Some f \<Rightarrow> filters_admit f c)"
  by (auto simp: chunk_admitted_def is_document_authorized_def chunk_document_metadata_def)

section \<open>The contract of the provider's filter\<close>

lemma document_type_text_inject [simp]: "document_type_text a = document_type_text b \<longleftrightarrow> a = b"
  by (cases a; cases b) simp_all

lemma inj_document_type_text: "inj document_type_text"
  by (rule injI) simp

definition in_bounds :: "real \<Rightarrow> real option \<Rightarrow> real option \<Rightarrow> bool" where
  "in_bounds x lower upper =
     ((case lower of None \<Rightarrow> True | Some l \<Rightarrow> l \<le> x) \<and> (case upper of None \<Rightarrow> True | Some u \<Rightarrow> x \<le> u))"

locale filter_provider =
  fixes holds :: "metadata \<Rightarrow> filter_clause \<Rightarrow> bool"
  assumes holds_eq: "map_of md f = Some (MStr w) \<Longrightarrow> holds md (f, Op_eq v) \<longleftrightarrow> w = v"
    and holds_in: "map_of md f = Some (MStr w) \<Longrightarrow> holds md (f, Op_in vs) \<longleftrightarrow> w \<in> set vs"
    and holds_in_list: "map_of md f = Some (MList ws) \<Longrightarrow> holds md (f, Op_in vs) \<longleftrightarrow> set ws \<inter> set vs \<noteq> {}"
    and holds_range: "map_of md f = Some (MNum x) \<Longrightarrow> holds md (f, Op_range lo hi) \<longleftrightarrow> in_bounds x lo hi"
begin

lemma in_clause_text:
  "map_of md f = Some (MStr w) \<Longrightarrow> (\<forall>cl \<in> set (in_clause f vs). holds md cl) \<longleftrightarrow> vs = [] \<or> w \<in> set vs"
  by (simp add: in_clause_def holds_in)

lemma in_clause_list:
  "map_of md f = Some (MList ws) \<Longrightarrow>
   (\<forall>cl \<in> set (in_clause f vs). holds md cl) \<longleftrightarrow> vs = [] \<or> set ws \<inter> set vs \<noteq> {}"
  by (simp add: in_clause_def holds_in_list)

lemma range_clause_day:
  "map_of md f = Some (MNum (real_of_int (epoch_day d))) \<Longrightarrow>
   (\<forall>cl \<in> set (range_clause f lo hi). holds md cl) \<longleftrightarrow> \<not> before d lo \<and> \<not> after d hi"
  by (auto simp: range_clause_def holds_range in_bounds_def before_def after_def epoch_day_def split: option.splits)

text \<open>On the metadata of a chunk of this build the compiled filter is the local check.\<close>

lemma filter_iff_admitted:
  assumes md: "chunk_metadata uuid_text json_size mx fp' c = Inr md" and inj: "inj uuid_text"
    and fl: "build_authorization_filter uuid_text p fp filters = Inr clauses"
  shows "(\<forall>cl \<in> set clauses. holds md cl) \<longleftrightarrow> fp' = fp \<and> chunk_admitted p filters c"
proof -
  have m: "md = chunk_fields uuid_text fp' c" using md by (simp add: chunk_metadata_def Let_def split: if_splits)
  have get: "map_of md ''build_fingerprint'' = Some (MStr fp')"
    "map_of md ''access_level'' = Some (MStr (access_level_text (ck_access_level c)))"
    "map_of md ''allowed_roles'' = Some (MList (map user_role_text (ck_allowed_roles c)))"
    "map_of md ''department'' = Some (MStr (ck_department c))"
    "map_of md ''document_type'' = Some (MStr (document_type_text (ck_document_type c)))"
    "map_of md ''status'' = Some (MStr (ck_status c))"
    "map_of md ''document_id'' = Some (MStr (uuid_text (ck_document_id c)))"
    "map_of md ''tags'' = Some (MList (ck_tags c))"
    "map_of md ''created_day'' = Some (MNum (real_of_int (epoch_day (ck_created_date c))))"
    "map_of md ''updated_day'' = Some (MNum (real_of_int (epoch_day (ck_updated_date c))))"
    by (simp_all add: m chunk_fields_def)
  have opt: "(\<forall>cl \<in> set (append_optional uuid_text f). holds md cl) \<longleftrightarrow>
      (qf_departments f = [] \<or> ck_department c \<in> set (qf_departments f)) \<and>
      (qf_document_types f = [] \<or> ck_document_type c \<in> set (qf_document_types f)) \<and>
      (qf_statuses f = [] \<or> ck_status c \<in> set (qf_statuses f)) \<and>
      (qf_document_ids f = [] \<or> ck_document_id c \<in> set (qf_document_ids f)) \<and>
      (qf_tags f = [] \<or> set (ck_tags c) \<inter> set (qf_tags f) \<noteq> {}) \<and>
      (\<not> before (ck_created_date c) (qf_created_from f) \<and> \<not> after (ck_created_date c) (qf_created_to f)) \<and>
      (\<not> before (ck_updated_date c) (qf_updated_from f) \<and> \<not> after (ck_updated_date c) (qf_updated_to f))"
    for f
    unfolding append_optional_def set_append ball_Un in_clause_text [OF get(4)] in_clause_text [OF get(5)]
      in_clause_text [OF get(6)] in_clause_text [OF get(7)] in_clause_list [OF get(8)]
      range_clause_day [OF get(9)] range_clause_day [OF get(10)]
    by (simp add: inj_image_mem_iff [OF inj] inj_image_mem_iff [OF inj_document_type_text])
  show ?thesis
  proof (cases filters)
    case None
    then show ?thesis
      using fl by (auto simp: build_authorization_filter_def Let_def holds_eq get holds_in holds_in_list
          chunk_admitted_iff image_iff)
  next
    case (Some f)
    have sub: "set (qf_access_levels f) \<subseteq> allowed_access_levels p"
      using fl Some by (auto simp: build_authorization_filter_def Let_def split: if_splits)
    have adm: "filters_admit f c \<longleftrightarrow> (qf_access_levels f = [] \<or> ck_access_level c \<in> set (qf_access_levels f)) \<and>
        (\<forall>cl \<in> set (append_optional uuid_text f). holds md cl)"
      unfolding opt by (simp add: filters_admit_def Int_commute)
    have "clauses = [(''build_fingerprint'', Op_eq fp),
        (''access_level'', Op_in (map access_level_text (filter (\<lambda>l. l \<in> (if set (qf_access_levels f) = {}
           then allowed_access_levels p else set (qf_access_levels f))) (sort access_levels)))),
        (''allowed_roles'', Op_in [user_role_text (principal_role p)])] @ append_optional uuid_text f"
      using fl Some by (simp add: build_authorization_filter_def Let_def split: if_splits)
    then have "(\<forall>cl \<in> set clauses. holds md cl) \<longleftrightarrow> fp' = fp \<and>
        ck_access_level c \<in> (if qf_access_levels f = [] then allowed_access_levels p else set (qf_access_levels f)) \<and>
        principal_role p \<in> set (ck_allowed_roles c) \<and> (\<forall>cl \<in> set (append_optional uuid_text f). holds md cl)"
      by (auto simp: holds_eq get holds_in holds_in_list image_iff)
    then show ?thesis using Some sub adm by (auto simp: chunk_admitted_iff split: if_splits)
  qed
qed

end

text \<open>The documented semantics, as a function: a missing field or a value of another kind does not match.\<close>

definition pinecone_match :: "metadata \<Rightarrow> filter_clause \<Rightarrow> bool" where
  "pinecone_match md cl =
     (case (map_of md (fst cl), snd cl) of
        (Some (MStr w), Op_eq v) \<Rightarrow> w = v
      | (Some (MStr w), Op_in vs) \<Rightarrow> w \<in> set vs
      | (Some (MList ws), Op_in vs) \<Rightarrow> set ws \<inter> set vs \<noteq> {}
      | (Some (MNum x), Op_range lo hi) \<Rightarrow> in_bounds x lo hi
      | _ \<Rightarrow> False)"

interpretation pinecone: filter_provider pinecone_match
  by unfold_locales (simp_all add: pinecone_match_def)

end
