(* ===== verification/Sparse_Index.thy ===== *)
theory Sparse_Index
  imports Text_Rules
begin

text \<open>
  The sparse index: the lexical analyzer (retrieval/sparse/analyzer.py), loading the ingestion build
  (retrieval/indexer.py), and building, checking and validating the two BM25 artifacts
  (retrieval/sparse/artifacts.py).  The JSON files are the values they hold; SHA-256 of the canonical
  index and of the fingerprint input are the arguments \<open>index_hash\<close> and \<open>build_hash\<close>.  Text is in NFC.
\<close>

section \<open>The analyzer\<close>

definition word_run :: rx where "word_run = rx_some (Cls False [CWord])"

definition token_pattern :: rx where
  "token_pattern = Seq word_run (rx_many (Seq (Lit ''-'') word_run))"

text \<open>The loop over the matches; a compound token is followed by its parts.\<close>

definition token_parts :: "string \<Rightarrow> string list" where
  "token_parts v =
     (if CHR ''-'' \<in> set v \<or> CHR ''_'' \<in> set v
      then filter (\<lambda>p. p \<noteq> [] \<and> p \<noteq> v) (concat (map (split_on CHR ''_'') (split_on CHR ''-'' v)))
      else [])"

fun analyze_loop :: "nat option \<Rightarrow> string list \<Rightarrow> string list \<Rightarrow> (unit, string list) result" where
  "analyze_loop maximum tokens [] = Return tokens"
| "analyze_loop maximum tokens (v # vs) =
     (let tokens' = tokens @ v # token_parts v in
      if (case maximum of None \<Rightarrow> False | Some m \<Rightarrow> m < length tokens') then Raise ()
      else analyze_loop maximum tokens' vs)"

definition analyze :: "string \<Rightarrow> nat option \<Rightarrow> (unit, string list) result" where
  "analyze txt maximum =
     analyze_loop maximum [] (rx_findall False token_pattern (casefold (join_text '' '' (split_words txt))))"

definition corpus_terms :: "string \<Rightarrow> string list" where
  "corpus_terms txt = (case analyze txt None of Inl _ \<Rightarrow> [] | Inr ts \<Rightarrow> ts)"

lemma analyze_loop_None: "analyze_loop None ts vs = Inr (ts @ concat (map (\<lambda>v. v # token_parts v) vs))"
  by (induction vs arbitrary: ts) (auto simp: Let_def)

lemma analyze_loop_bound: "analyze_loop (Some m) ts vs = Inr r \<Longrightarrow> length ts \<le> m \<Longrightarrow> length r \<le> m"
  by (induction vs arbitrary: ts) (auto simp: Let_def split: if_splits)

lemma analyze_loop_limit:
  "length ts \<le> m \<Longrightarrow> analyze_loop (Some m) ts vs =
   (let r = ts @ concat (map (\<lambda>v. v # token_parts v) vs) in if length r \<le> m then Return r else Raise ())"
  by (induction vs arbitrary: ts) (auto simp: Let_def)

text \<open>The limit only decides between the tokens of the text and an error.\<close>

lemma analyze_limit:
  "analyze txt (Some m) = (if length (corpus_terms txt) \<le> m then Return (corpus_terms txt) else Raise ())"
  by (simp add: analyze_def corpus_terms_def analyze_loop_limit analyze_loop_None Let_def)

section \<open>The ingestion build\<close>

record ingestion_build =
  ib_fingerprint :: string
  ib_chunk_count :: nat
  ib_chunks_sha :: string
  ib_chunks :: "chunk_record list"

definition ends_with :: "string \<Rightarrow> string \<Rightarrow> bool" where
  "ends_with s u = suffix u s"

text \<open>\<open>None\<close>: the artifacts are missing or fail the ingestion's own validation.\<close>

definition load_current_chunks :: "ingestion_build option \<Rightarrow> (retrieval_error, ingestion_build) result" where
  "load_current_chunks build =
     (case build of
        None \<Rightarrow> Raise (Foreign_error ''generated artifacts are missing'')
      | Some b \<Rightarrow>
          (if length (ib_chunks b) \<noteq> ib_chunk_count b \<or>
              card (set (map ck_chunk_id (ib_chunks b))) \<noteq> length (ib_chunks b)
           then Raise (RetrievalDataIntegrityError ''ingestion chunks are incomplete or duplicated'')
           else if list_ex (\<lambda>c. contains_text ''security_fixtures'' (ck_source_file c) \<or>
                ends_with (ck_source_file c) ''GLOSSARY.md'') (ib_chunks b)
           then Raise (RetrievalDataIntegrityError ''excluded source entered ingestion artifacts'')
           else Return b))"

section \<open>The artifacts\<close>

record index_entry =
  ie_length :: nat
  ie_frequencies :: "(string, nat) dict"

record sparse_index =
  si_documents :: "(uuid, index_entry) dict"
  si_document_frequencies :: "(string, nat) dict"

record sparse_manifest =
  sm_k1 :: real
  sm_b :: real
  sm_ingestion_fingerprint :: string
  sm_chunk_artifact_hash :: string
  sm_indexed_chunk_count :: nat
  sm_average_length :: real
  sm_vocabulary_size :: nat
  sm_fingerprint :: string
  sm_index_hash :: string

text \<open>The two files; \<open>None\<close> is a file that is missing or is not JSON.\<close>

record sparse_files =
  sf_index :: "sparse_index option"
  sf_manifest :: "sparse_manifest option"

definition counter :: "string list \<Rightarrow> (string, nat) dict" where
  "counter ts = map (\<lambda>t. (t, count_list ts t)) (unique_first ts)"

definition sorted_items :: "('k::linorder, 'v) dict \<Rightarrow> ('k, 'v) dict" where
  "sorted_items d = sort_key fst d"

definition index_chunk :: "chunk_record \<Rightarrow> uuid \<times> index_entry" where
  "index_chunk c =
     (let ts = corpus_terms (ck_search_text c) in
      (ck_chunk_id c, \<lparr> ie_length = length ts, ie_frequencies = sorted_items (counter ts) \<rparr>))"

text \<open>\<open>json.dumps(sort_keys=True)\<close> writes the documents in the order of their identifiers.\<close>

definition build_index :: "chunk_record list \<Rightarrow> sparse_index" where
  "build_index chunks =
     (let documents = map index_chunk chunks in
      \<lparr> si_documents = sorted_items documents,
        si_document_frequencies = sorted_items (counter
          (concat (map (\<lambda>(_, e). dict_keys (ie_frequencies e)) documents))) \<rparr>)"

definition chunk_terms_ok :: "retrieval_settings \<Rightarrow> chunk_record \<Rightarrow> bool" where
  "chunk_terms_ok s c =
     (let ts = corpus_terms (ck_search_text c) in ts \<noteq> [] \<and> length ts \<le> bm25_max_terms_per_chunk s)"

record artifact_hashes =
  index_hash :: "sparse_index \<Rightarrow> string"
  build_hash :: "string \<Rightarrow> string \<Rightarrow> real \<Rightarrow> real \<Rightarrow> string"

definition expected_artifacts ::
  "artifact_hashes \<Rightarrow> retrieval_settings \<Rightarrow> ingestion_build option \<Rightarrow>
   (retrieval_error, sparse_manifest \<times> sparse_index) result" where
  "expected_artifacts h s build =
     bind_result (load_current_chunks build) (\<lambda>b.
       (let chunks = ib_chunks b; index = build_index chunks;
            vocabulary = length (si_document_frequencies index);
            total = sum_list (map (\<lambda>c. length (corpus_terms (ck_search_text c))) chunks) in
        if bm25_max_indexed_chunks s < length chunks
        then Raise (RetrievalDataIntegrityError ''sparse corpus exceeds configured chunk limit'')
        else if \<not> list_all (chunk_terms_ok s) chunks
        then Raise (RetrievalDataIntegrityError ''sparse chunk term count is invalid'')
        else if bm25_max_vocabulary_size s < vocabulary
        then Raise (RetrievalDataIntegrityError ''sparse vocabulary exceeds configured limit'')
        else if chunks = [] then Raise (Foreign_error ''division by zero'')
        else Return (\<lparr> sm_k1 = bm25_k1 s, sm_b = bm25_b s, sm_ingestion_fingerprint = ib_fingerprint b,
               sm_chunk_artifact_hash = ib_chunks_sha b, sm_indexed_chunk_count = length chunks,
               sm_average_length = real total / real (length chunks), sm_vocabulary_size = vocabulary,
               sm_fingerprint = build_hash h (ib_fingerprint b) (ib_chunks_sha b) (bm25_k1 s) (bm25_b s),
               sm_index_hash = index_hash h index \<rparr>, index)))"

definition validate_sparse ::
  "artifact_hashes \<Rightarrow> retrieval_settings \<Rightarrow> ingestion_build option \<Rightarrow> sparse_files \<Rightarrow>
   (retrieval_error, sparse_manifest) result" where
  "validate_sparse h s build files =
     (case (sf_manifest files, sf_index files) of
        (Some manifest, Some index) \<Rightarrow>
          bind_result (expected_artifacts h s build) (\<lambda>(expected, expected_index).
            if manifest \<noteq> expected \<or> index \<noteq> expected_index
            then Raise (RetrievalDataIntegrityError ''sparse artifacts are stale or invalid'')
            else if index_hash h index \<noteq> sm_index_hash manifest
            then Raise (RetrievalDataIntegrityError ''sparse index hash is invalid'')
            else if si_documents index = []
            then Raise (RetrievalDataIntegrityError ''sparse index contains no documents'')
            else Return expected)
      | _ \<Rightarrow> Raise (RetrievalDataIntegrityError ''sparse artifacts are missing or malformed''))"

definition check_sparse ::
  "artifact_hashes \<Rightarrow> retrieval_settings \<Rightarrow> ingestion_build option \<Rightarrow> sparse_files \<Rightarrow>
   (retrieval_error, sparse_manifest) result" where
  "check_sparse h s build files =
     bind_result (expected_artifacts h s build) (\<lambda>(manifest, index).
       if sf_index files \<noteq> Some index \<or> sf_manifest files \<noteq> Some manifest
       then Raise (RetrievalDataIntegrityError ''sparse artifacts have drifted'') else Return manifest)"

text \<open>
  Building.  Both files are written beside their targets and then moved into place one after the other;
  when one of these calls fails, the previous contents are put back, in the same order: a file that
  was not there is removed, the others are written again and moved into place.  Every one of these calls
  can fail, those of the rollback and of the cleaning up included; \<open>bw_fails\<close> says which do.  A file that is
  there but does not parse counts as \<open>None\<close>, so \<open>bw_unparsed\<close> tells it from a missing one.
\<close>

datatype artifact_file = Index_file | Manifest_file

datatype artifact_call =
    Prepare
  | Stage artifact_file
  | Place artifact_file
  | Remove artifact_file
  | Save_rollback artifact_file
  | Restore artifact_file
  | Clean artifact_file
  | Read_back

record build_world =
  bw_fails :: "artifact_call \<Rightarrow> bool"
  bw_unparsed :: "artifact_file \<Rightarrow> bool"

definition artifact_targets :: "artifact_file list" where
  "artifact_targets = [Index_file, Manifest_file]"

definition no_files :: sparse_files where
  "no_files = \<lparr> sf_index = None, sf_manifest = None \<rparr>"

fun copy_file :: "artifact_file \<Rightarrow> sparse_files \<Rightarrow> sparse_files \<Rightarrow> sparse_files" where
  "copy_file Index_file source files = files\<lparr> sf_index := sf_index source \<rparr>"
| "copy_file Manifest_file source files = files\<lparr> sf_manifest := sf_manifest source \<rparr>"

fun file_present :: "build_world \<Rightarrow> sparse_files \<Rightarrow> artifact_file \<Rightarrow> bool" where
  "file_present w files Index_file = (sf_index files \<noteq> None \<or> bw_unparsed w Index_file)"
| "file_present w files Manifest_file = (sf_manifest files \<noteq> None \<or> bw_unparsed w Manifest_file)"

fun call_effect :: "sparse_files \<Rightarrow> sparse_files \<Rightarrow> artifact_call \<Rightarrow> sparse_files \<Rightarrow> sparse_files" where
  "call_effect new previous (Place t) files = copy_file t new files"
| "call_effect new previous (Restore t) files = copy_file t previous files"
| "call_effect new previous (Remove t) files = copy_file t no_files files"
| "call_effect new previous call files = files"

text \<open>A block of calls stops at the first that fails.\<close>

fun run_calls ::
  "(artifact_call \<Rightarrow> bool) \<Rightarrow> (artifact_call \<Rightarrow> sparse_files \<Rightarrow> sparse_files) \<Rightarrow> artifact_call list \<Rightarrow>
   sparse_files \<Rightarrow> bool \<times> sparse_files" where
  "run_calls fails effect [] files = (True, files)"
| "run_calls fails effect (c # cs) files =
     (if fails c then (False, files) else run_calls fails effect cs (effect c files))"

definition write_calls :: "artifact_call list" where
  "write_calls = map Stage artifact_targets @ map Place artifact_targets"

definition rollback_calls :: "build_world \<Rightarrow> sparse_files \<Rightarrow> artifact_call list" where
  "rollback_calls w previous =
     concat (map (\<lambda>t. if file_present w previous t then [Save_rollback t, Restore t] else [Remove t])
       artifact_targets)"

text \<open>Only what was staged is cleaned up.\<close>

definition clean_calls :: "(artifact_call \<Rightarrow> bool) \<Rightarrow> artifact_call list" where
  "clean_calls fails = map Clean (takeWhile (\<lambda>t. \<not> fails (Stage t)) artifact_targets)"

definition build_sparse ::
  "artifact_hashes \<Rightarrow> retrieval_settings \<Rightarrow> ingestion_build option \<Rightarrow> build_world \<Rightarrow> sparse_files \<Rightarrow>
   (retrieval_error, sparse_manifest) result \<times> sparse_files" where
  "build_sparse h s build w previous =
     (case expected_artifacts h s build of
        Inl e \<Rightarrow> (Raise e, previous)
      | Inr (m, index) \<Rightarrow>
          (if bw_fails w Prepare then (Raise (Foreign_error ''artifact read failed''), previous)
           else (let new = \<lparr> sf_index = Some index, sf_manifest = Some m \<rparr>;
                     run = run_calls (bw_fails w) (call_effect new previous);
                     (wrote, written) = run write_calls previous;
                     files = (if wrote then written else snd (run (rollback_calls w previous) written)) in
             if \<not> wrote then (Raise (Foreign_error ''artifact write failed''), files)
             else if list_ex (bw_fails w) (clean_calls (bw_fails w))
             then (Raise (Foreign_error ''artifact cleanup failed''), files)
             else if bw_fails w Read_back
             then (Raise (RetrievalDataIntegrityError ''sparse artifacts are missing or malformed''), files)
             else (bind_result (validate_sparse h s build files) (\<lambda>_. Return m), files))))"

definition sound_world :: build_world where
  "sound_world = \<lparr> bw_fails = (\<lambda>_. False), bw_unparsed = (\<lambda>_. False) \<rparr>"

section \<open>Facts about the index\<close>

lemma load_current_chunks_Inr:
  assumes "load_current_chunks build = Inr b"
  shows "build = Some b" "distinct (map ck_chunk_id (ib_chunks b))"
  using assms by (auto simp: load_current_chunks_def card_distinct split: option.splits if_splits)

lemma expected_artifacts_Inr:
  assumes "expected_artifacts h s build = Inr (m, index)"
  obtains b where "load_current_chunks build = Inr b" "index = build_index (ib_chunks b)"
    "ib_chunks b \<noteq> []" "list_all (chunk_terms_ok s) (ib_chunks b)"
    "sm_ingestion_fingerprint m = ib_fingerprint b" "0 < sm_average_length m"
    "sm_index_hash m = index_hash h index"
proof -
  obtain b where b: "load_current_chunks build = Inr b"
    using assms by (auto simp: expected_artifacts_def bind_result_Inl split: sum.splits elim!: bind_result.elims)
  have ok: "ib_chunks b \<noteq> []" "list_all (chunk_terms_ok s) (ib_chunks b)"
    using assms b by (auto simp: expected_artifacts_def Let_def split: if_splits)
  have "0 < sum_list (map (\<lambda>c. length (corpus_terms (ck_search_text c))) (ib_chunks b))"
    using ok by (cases "ib_chunks b") (auto simp: chunk_terms_ok_def Let_def)
  moreover have "index = build_index (ib_chunks b)" "sm_ingestion_fingerprint m = ib_fingerprint b"
    "sm_index_hash m = index_hash h index"
    "sm_average_length m = real (sum_list (map (\<lambda>c. length (corpus_terms (ck_search_text c))) (ib_chunks b)))
       / real (length (ib_chunks b))"
    using assms b by (auto simp: expected_artifacts_def Let_def split: if_splits)
  ultimately show thesis using that b ok by simp
qed

lemma build_index_documents: "set (si_documents (build_index chunks)) = index_chunk ` set chunks"
  by (simp add: build_index_def sorted_items_def Let_def)

lemma build_index_keys:
  assumes "distinct (map ck_chunk_id chunks)"
  shows "distinct (dict_keys (si_documents (build_index chunks)))"
    "sorted (dict_keys (si_documents (build_index chunks)))"
proof -
  have "map fst (map index_chunk chunks) = map ck_chunk_id chunks" by (simp add: index_chunk_def Let_def)
  moreover have "mset (map fst (sort_key fst (map index_chunk chunks))) = mset (map fst (map index_chunk chunks))"
    by (metis mset_map mset_sort)
  ultimately have "mset (dict_keys (si_documents (build_index chunks))) = mset (map ck_chunk_id chunks)"
    by (simp only: build_index_def sorted_items_def Let_def sparse_index.simps)
  then show "distinct (dict_keys (si_documents (build_index chunks)))"
    using assms mset_eq_imp_distinct_iff by blast
  show "sorted (dict_keys (si_documents (build_index chunks)))"
    by (simp add: build_index_def sorted_items_def Let_def)
qed

lemma validate_sparse_iff:
  "validate_sparse h s build files = Inr m \<longleftrightarrow>
   (\<exists>index. expected_artifacts h s build = Inr (m, index) \<and> sf_manifest files = Some m \<and>
      sf_index files = Some index)"
proof -
  have ne: "si_documents index \<noteq> [] \<and> index_hash h index = sm_index_hash m"
    if e: "expected_artifacts h s build = Inr (m, index)" for m index
  proof -
    obtain b :: ingestion_build where "index = build_index (ib_chunks b)" "ib_chunks b \<noteq> []"
      "sm_index_hash m = index_hash h index"
      by (rule expected_artifacts_Inr [OF e]) (rule that)
    moreover from this have "set (si_documents index) \<noteq> {}" by (simp add: build_index_documents)
    ultimately show ?thesis by auto
  qed
  show ?thesis
    by (cases "expected_artifacts h s build")
      (auto simp: validate_sparse_def bind_result_Inl dest: ne split: option.splits if_splits prod.splits)
qed

text \<open>A build on a file system that does not fail.\<close>

lemma build_sparse_sound:
  assumes "expected_artifacts h s build = Inr (m, index)"
  shows "build_sparse h s build sound_world previous = (Inr m, \<lparr> sf_index = Some index, sf_manifest = Some m \<rparr>)"
  using assms validate_sparse_iff [of h s build "\<lparr> sf_index = Some index, sf_manifest = Some m \<rparr>" m]
  by (cases previous) (simp add: build_sparse_def sound_world_def write_calls_def artifact_targets_def list_ex_iff Let_def
      clean_calls_def)

end
