(* ===== verification/Dense_Retrieval.thy ===== *)
theory Dense_Retrieval
  imports Retrieval_Filters Sparse_Index "HOL-Library.Monad_Syntax"
begin

text \<open>
  Dense retrieval: bounded retries (retrieval/retry.py) and the service that queries the vector provider
  and revalidates what it returns (retrieval/dense_retriever.py).  The provider and the embedding model are
  the fields of \<open>dense_provider\<close>; each attempt may answer, raise or run into the time limit.
\<close>

section \<open>Retries\<close>

datatype 'a call = Answer 'a | Failed retrieval_error | Timed_out

definition real_mod :: "real \<Rightarrow> real \<Rightarrow> real" where
  "real_mod x y = x - y * real_of_int \<lfloor>x / y\<rfloor>"

definition retry_delay :: "nat \<Rightarrow> real \<Rightarrow> real \<Rightarrow> real" where
  "retry_delay attempt base jitter =
     base * 2 ^ attempt * (1 + (if jitter = 0 then 0 else real_mod (real attempt * (137 / 1000)) jitter))"

text \<open>The attempts from \<open>attempt\<close> on, \<open>left\<close> retries remaining: the outcome and the pauses in between.\<close>

fun retry_from :: "nat \<Rightarrow> nat \<Rightarrow> real \<Rightarrow> (nat \<Rightarrow> 'a call) \<Rightarrow> 'a call \<times> real list" where
  "retry_from attempt 0 base operation = (operation attempt, [])"
| "retry_from attempt (Suc left) base operation =
     (case operation attempt of
        Failed (RetrievalTransientError _) \<Rightarrow>
          (let (r, pauses) = retry_from (Suc attempt) left base operation in
           (r, retry_delay attempt base (1 / 5) # pauses))
      | r \<Rightarrow> (r, []))"

definition with_retries :: "nat \<Rightarrow> real \<Rightarrow> (nat \<Rightarrow> 'a call) \<Rightarrow> 'a call \<times> real list" where
  "with_retries maximum base operation = retry_from 0 maximum base operation"

section \<open>Provider results\<close>

text \<open>A provider match; a score that is absent, not a number or not finite is \<open>None\<close>.\<close>

record provider_match =
  pm_id :: string
  pm_score :: "real option"
  pm_metadata :: "metadata option"

definition REQUIRED_RESULT_FIELDS :: "string list" where
  "REQUIRED_RESULT_FIELDS = [''chunk_id'', ''evidence_id'', ''document_id'', ''title'', ''source'',
     ''source_file'', ''department'', ''document_type'', ''access_level'', ''allowed_roles'',
     ''updated_date'', ''version'', ''status'', ''section'', ''section_path'', ''source_line_start'',
     ''source_line_end'', ''text'', ''chunk_content_hash'', ''build_fingerprint'']"

text \<open>Reading one field with the type the evidence model declares.\<close>

definition meta_text :: "metadata \<Rightarrow> string \<Rightarrow> string option" where
  "meta_text md f = (case map_of md f of Some (MStr w) \<Rightarrow> Some w | _ \<Rightarrow> None)"

definition meta_texts :: "metadata \<Rightarrow> string \<Rightarrow> string list option" where
  "meta_texts md f = (case map_of md f of Some (MList ws) \<Rightarrow> Some ws | _ \<Rightarrow> None)"

definition meta_date :: "metadata \<Rightarrow> string \<Rightarrow> date option" where
  "meta_date md f = (case map_of md f of Some (MDate d) \<Rightarrow> Some d | _ \<Rightarrow> None)"

definition meta_line :: "metadata \<Rightarrow> string \<Rightarrow> nat option" where
  "meta_line md f =
     (case map_of md f of
        Some (MNum x) \<Rightarrow> (if x = real_of_int \<lfloor>x\<rfloor> \<and> 1 \<le> x then Some (nat \<lfloor>x\<rfloor>) else None)
      | _ \<Rightarrow> None)"

definition parse_member :: "'a list \<Rightarrow> ('a \<Rightarrow> string) \<Rightarrow> string \<Rightarrow> 'a option" where
  "parse_member members name w = List.find (\<lambda>m. name m = w) members"

fun parse_all :: "('a \<Rightarrow> 'b option) \<Rightarrow> 'a list \<Rightarrow> 'b list option" where
  "parse_all f [] = Some []"
| "parse_all f (x # xs) = do { y \<leftarrow> f x; ys \<leftarrow> parse_all f xs; Some (y # ys) }"

definition document_types :: "document_type list" where
  "document_types = [DT_policy, DT_architecture, DT_runbook, DT_incident, DT_product_specification,
     DT_meeting_note]"

definition parse_evidence ::
  "(string \<Rightarrow> uuid option) \<Rightarrow> string \<Rightarrow> real \<Rightarrow> metadata \<Rightarrow> dense_evidence option" where
  "parse_evidence parse_uuid record_id score md = do {
     chunk \<leftarrow> Option.bind (meta_text md ''chunk_id'') parse_uuid;
     evidence \<leftarrow> Option.bind (meta_text md ''evidence_id'') parse_uuid;
     document \<leftarrow> Option.bind (meta_text md ''document_id'') parse_uuid;
     title \<leftarrow> meta_text md ''title'';
     source \<leftarrow> meta_text md ''source'';
     source_file \<leftarrow> meta_text md ''source_file'';
     section \<leftarrow> meta_text md ''section'';
     section_path \<leftarrow> meta_texts md ''section_path'';
     line_start \<leftarrow> meta_line md ''source_line_start'';
     line_end \<leftarrow> meta_line md ''source_line_end'';
     version \<leftarrow> meta_text md ''version'';
     updated \<leftarrow> meta_date md ''updated_date'';
     level \<leftarrow> Option.bind (meta_text md ''access_level'') (parse_member access_levels access_level_text);
     roles \<leftarrow> Option.bind (meta_texts md ''allowed_roles'') (parse_all (parse_member user_roles user_role_text));
     kind \<leftarrow> Option.bind (meta_text md ''document_type'') (parse_member document_types document_type_text);
     department \<leftarrow> meta_text md ''department'';
     status \<leftarrow> meta_text md ''status'';
     body \<leftarrow> meta_text md ''text'';
     hash \<leftarrow> meta_text md ''chunk_content_hash'';
     fingerprint \<leftarrow> meta_text md ''build_fingerprint'';
     if lower_hash_ok hash \<and> lower_hash_ok fingerprint
     then Some \<lparr> de_record_id = record_id, de_dense_score = score, de_chunk_id = chunk,
       de_evidence_id = evidence, de_document_id = document, de_title = title, de_source = source,
       de_source_file = source_file, de_section = section, de_section_path = section_path,
       de_source_line_start = line_start, de_source_line_end = line_end, de_version = version,
       de_updated_date = updated, de_access_level = level, de_allowed_roles = set roles,
       de_document_type = kind, de_department = department, de_status = status, de_text = body,
       de_chunk_content_hash = hash, de_build_fingerprint = fingerprint \<rparr>
     else None }"

definition parse_match ::
  "(string \<Rightarrow> uuid option) \<Rightarrow> string \<Rightarrow> string \<Rightarrow> provider_match \<Rightarrow> dense_evidence option" where
  "parse_match parse_uuid fingerprint metric m = do {
     md \<leftarrow> pm_metadata m;
     score \<leftarrow> pm_score m;
     if \<not> list_all (\<lambda>f. map_of md f \<noteq> None) REQUIRED_RESULT_FIELDS then None
     else if map_of md ''build_fingerprint'' \<noteq> Some (MStr fingerprint) then None
     else if metric = ''cosine'' \<and> \<not> (- 1 \<le> score \<and> score \<le> 1) then None
     else parse_evidence parse_uuid (pm_id m) score md }"

definition dense_document_metadata :: "dense_evidence \<Rightarrow> date \<Rightarrow> document_metadata" where
  "dense_document_metadata e created =
     \<lparr> dm_document_id = de_document_id e, dm_title = de_title e, dm_source = de_source e,
       dm_department = de_department e, dm_document_type = de_document_type e,
       dm_access_level = de_access_level e, dm_allowed_roles = de_allowed_roles e,
       dm_created_date = created, dm_updated_date = de_updated_date e, dm_version = de_version e,
       dm_content_hash = de_chunk_content_hash e \<rparr>"

text \<open>The typed evidence with its document metadata, or \<open>None\<close>: the match is malformed.\<close>

definition read_match ::
  "(string \<Rightarrow> uuid option) \<Rightarrow> string \<Rightarrow> string \<Rightarrow> provider_match \<Rightarrow> (dense_evidence \<times> document_metadata) option"
where
  "read_match parse_uuid fingerprint metric m = do {
     e \<leftarrow> parse_match parse_uuid fingerprint metric m;
     md \<leftarrow> pm_metadata m;
     created \<leftarrow> meta_date md ''created_date'';
     if document_metadata_ok (dense_document_metadata e created)
     then Some (e, dense_document_metadata e created) else None }"

section \<open>The service\<close>

record dense_provider =
  dp_uuid_text :: "uuid \<Rightarrow> string"
  dp_parse_uuid :: "string \<Rightarrow> uuid option"
  dp_embed :: "string \<Rightarrow> real list call"
  dp_dimension :: "(retrieval_error, nat) result"
  dp_query :: "real list \<Rightarrow> nat \<Rightarrow> filter_clause list \<Rightarrow> nat \<Rightarrow> provider_match list call"

record match_tally =
  mt_evidence :: "dense_evidence list"
  mt_dropped :: nat
  mt_malformed :: nat

fun sort_matches ::
  "(provider_match \<Rightarrow> (dense_evidence \<times> document_metadata) option) \<Rightarrow> authenticated_principal \<Rightarrow>
   uuid set option \<Rightarrow> provider_match list \<Rightarrow> match_tally \<Rightarrow> match_tally" where
  "sort_matches parse p exact [] t = t"
| "sort_matches parse p exact (m # ms) t =
     (case parse m of
        None \<Rightarrow> sort_matches parse p exact ms (t\<lparr> mt_malformed := mt_malformed t + 1 \<rparr>)
      | Some (e, metadata) \<Rightarrow>
          (if \<not> is_document_authorized p (Some metadata)
           then sort_matches parse p exact ms (t\<lparr> mt_dropped := mt_dropped t + 1 \<rparr>)
           else if (case exact of None \<Rightarrow> False | Some ids \<Rightarrow> de_document_id e \<notin> ids)
           then sort_matches parse p exact ms (t\<lparr> mt_dropped := mt_dropped t + 1 \<rparr>)
           else sort_matches parse p exact ms (t\<lparr> mt_evidence := mt_evidence t @ [e] \<rparr>)))"

definition tally_matches ::
  "(provider_match \<Rightarrow> (dense_evidence \<times> document_metadata) option) \<Rightarrow> authenticated_principal \<Rightarrow>
   uuid set option \<Rightarrow> provider_match list \<Rightarrow> dense_retrieval_result" where
  "tally_matches parse p exact matches =
     (let t = sort_matches parse p exact matches \<lparr> mt_evidence = [], mt_dropped = 0, mt_malformed = 0 \<rparr> in
      \<lparr> drr_evidence = mt_evidence t, drr_total_provider_matches = length matches,
        drr_dropped_unauthorized = mt_dropped t, drr_malformed_results = mt_malformed t \<rparr>)"

definition dense_top_k :: "retrieval_settings \<Rightarrow> int option \<Rightarrow> int" where
  "dense_top_k s top_k =
     (case top_k of None \<Rightarrow> int (pinecone_query_top_k s)
      | Some k \<Rightarrow> if k = 0 then int (pinecone_query_top_k s) else k)"

text \<open>The query text as it is embedded.\<close>

definition normalized_query :: "string \<Rightarrow> string" where
  "normalized_query query = join_text '' '' (split_words query)"

definition retrieve_dense ::
  "retrieval_settings \<Rightarrow> ingestion_build option \<Rightarrow> dense_provider \<Rightarrow> authenticated_principal \<Rightarrow> string \<Rightarrow>
   int option \<Rightarrow> dense_query_filters option \<Rightarrow> (retrieval_error, dense_retrieval_result) result" where
  "retrieve_dense s build dp p query top_k filters =
     (let normalized = normalized_query query; k = dense_top_k s top_k in
      if normalized = [] \<or> 4000 < length normalized
      then Raise (RetrievalValidationError ''retrieval query is empty or too long'')
      else if \<not> (1 \<le> k \<and> k \<le> 100)
      then Raise (RetrievalValidationError ''retrieval top-k is outside allowed bounds'')
      else bind_result (load_current_chunks build) (\<lambda>b.
        (let identifiers = extract_enterprise_identifiers normalized;
             exact = matching_document_ids (ib_chunks b) identifiers in
         if identifiers \<noteq> [] \<and> exact = {}
         then Return \<lparr> drr_evidence = [], drr_total_provider_matches = 0, drr_dropped_unauthorized = 0,
                drr_malformed_results = 0 \<rparr>
         else case dp_embed dp normalized of
           Timed_out \<Rightarrow> Raise (RetrievalTimeoutError ''query embedding timed out'')
         | Failed e \<Rightarrow> Raise e
         | Answer vector \<Rightarrow>
             (case dp_dimension dp of
                Inl e \<Rightarrow> Raise e
              | Inr dimension \<Rightarrow>
                  (if length vector \<noteq> dimension
                   then Raise (RetrievalDataIntegrityError ''query embedding dimension mismatch'')
                   else bind_result (build_authorization_filter (dp_uuid_text dp) p (ib_fingerprint b) filters) (\<lambda>mandatory.
                     (let clauses = (if identifiers = [] then mandatory
                          else mandatory @ [(''document_id'', Op_in (map (dp_uuid_text dp) (sorted_list_of_set exact)))]) in
                      case fst (with_retries (pinecone_max_retries s) (pinecone_retry_base_seconds s)
                             (dp_query dp vector (nat k) clauses)) of
                        Timed_out \<Rightarrow> Raise (RetrievalTimeoutError ''dense query timed out'')
                      | Failed e \<Rightarrow> Raise e
                      | Answer matches \<Rightarrow>
                          Return (tally_matches (read_match (dp_parse_uuid dp) (ib_fingerprint b) (pinecone_metric s)) p
                            (if identifiers = [] then None else Some exact) matches))))))))"

end
