(* ===== verification/Sparse_Retrieval.thy ===== *)
theory Sparse_Retrieval
  imports Sparse_Index Retrieval_Filters
begin

text \<open>
  Local lexical retrieval: Okapi BM25 (retrieval/sparse/bm25.py), the relevance rules
  (retrieval/sparse/relevance.py) and the authorized retrieval service
  (retrieval/sparse/retriever.py).  A float is a real, so scores are finite.
\<close>

section \<open>BM25\<close>

definition dict_get :: "('k, 'v) dict \<Rightarrow> 'k \<Rightarrow> 'v \<Rightarrow> 'v" where
  "dict_get d k x = (case map_of d k of None \<Rightarrow> x | Some v \<Rightarrow> v)"

definition idf :: "nat \<Rightarrow> nat \<Rightarrow> real" where
  "idf n_docs df = ln (1 + (real n_docs - real df + 1 / 2) / (real df + 1 / 2))"

definition term_score :: "real \<Rightarrow> real \<Rightarrow> real \<Rightarrow> nat \<Rightarrow> (string, nat) dict \<Rightarrow> index_entry \<Rightarrow> string \<times> nat \<Rightarrow> real"
where
  "term_score k1 b average n_docs df e q =
     (let frequency = real (dict_get (ie_frequencies e) (fst q) 0) in
      if frequency = 0 then 0
      else (let denominator = frequency + k1 * (1 - b + b * real (ie_length e) / average) in
        real (snd q) * idf n_docs (dict_get df (fst q) 0) * frequency * (k1 + 1) / denominator))"

definition score_corpus ::
  "string list \<Rightarrow> (uuid, index_entry) dict \<Rightarrow> (string, nat) dict \<Rightarrow> real \<Rightarrow> real \<Rightarrow> real \<Rightarrow>
   (retrieval_error, (uuid \<times> real) list) result" where
  "score_corpus query documents df average k1 b =
     (if query = [] then Raise (PyValueError ''BM25 query is empty'')
      else if documents = [] \<or> average \<le> 0 \<or> k1 \<le> 0 \<or> \<not> (0 \<le> b \<and> b \<le> 1)
      then Raise (PyValueError ''BM25 corpus or parameters are invalid'')
      else (let scored = map (\<lambda>(i, e). (i, sum_list (map
                  (term_score k1 b average (length documents) df e) (counter query)))) documents in
        Return (sort_key (\<lambda>(i, x). (- x, i)) (filter (\<lambda>(_, x). 0 < x) scored))))"

section \<open>Relevance\<close>

definition INSTRUCTION_TERMS :: "string list" where
  "INSTRUCTION_TERMS = [''describe'', ''explain'', ''find'', ''give'', ''identify'', ''list'', ''outline'',
     ''please'', ''provide'', ''retrieve'', ''show'', ''summarize'', ''tell'']"

definition STOP_WORDS :: "string list" where
  "STOP_WORDS = [''a'', ''about'', ''all'', ''an'', ''and'', ''are'', ''as'', ''at'', ''be'', ''by'',
     ''does'', ''for'', ''from'', ''how'', ''in'', ''is'', ''it'', ''of'', ''on'', ''or'', ''that'',
     ''the'', ''their'', ''this'', ''to'', ''was'', ''what'', ''when'', ''where'', ''which'', ''who'',
     ''why'', ''with'']"

definition GENERIC_CORPUS_TERMS :: "string list" where
  "GENERIC_CORPUS_TERMS = [''active'', ''approved'', ''bank'', ''control'', ''controls'', ''current'',
     ''data'', ''document'', ''documents'', ''enterprise'', ''information'', ''policy'', ''policies'',
     ''procedure'', ''procedures'', ''source'', ''sources'']"

definition salient_query_terms :: "string list \<Rightarrow> string list" where
  "salient_query_terms tokens =
     unique_first (filter (\<lambda>t. 1 < length t \<and>
       t \<notin> set (INSTRUCTION_TERMS @ STOP_WORDS @ GENERIC_CORPUS_TERMS)) tokens)"

definition matched_salient_terms :: "string list \<Rightarrow> (string, nat) dict \<Rightarrow> string list" where
  "matched_salient_terms salient frequencies = filter (\<lambda>t. 0 < dict_get frequencies t 0) salient"

text \<open>\<open>ceil(n * 0.5)\<close> is \<open>(n + 1) div 2\<close>.\<close>

definition has_adequate_support :: "string list \<Rightarrow> string list \<Rightarrow> bool" where
  "has_adequate_support salient matched =
     (if salient = [] then False
      else (let required = (if length salient \<le> 2 then length salient else (length salient + 1) div 2) in
        required \<le> length matched))"

section \<open>The service\<close>

fun authorized_chunks ::
  "authenticated_principal \<Rightarrow> dense_query_filters option \<Rightarrow> chunk_record list \<Rightarrow>
   (retrieval_error, chunk_record list) result" where
  "authorized_chunks p filters [] = Return []"
| "authorized_chunks p filters (c # cs) =
     bind_result (chunk_authorized p filters c) (\<lambda>ok.
       bind_result (authorized_chunks p filters cs) (\<lambda>rest. Return (if ok then c # rest else rest)))"

text \<open>With an enterprise identifier in the query only the documents that mention it remain.\<close>

definition identified_chunks :: "string \<Rightarrow> chunk_record list \<Rightarrow> chunk_record list" where
  "identified_chunks query authorized =
     (let identifiers = extract_enterprise_identifiers query in
      if identifiers = [] then authorized
      else (let exact = matching_document_ids authorized identifiers in
        filter (\<lambda>c. ck_document_id c \<in> exact) authorized))"

definition candidate_documents :: "sparse_index \<Rightarrow> chunk_record list \<Rightarrow> (uuid, index_entry) dict" where
  "candidate_documents index chunks =
     filter (\<lambda>(i, _). i \<in> set (map ck_chunk_id chunks)) (si_documents index)"

definition authorized_frequencies :: "(uuid, index_entry) dict \<Rightarrow> (string, nat) dict" where
  "authorized_frequencies documents =
     counter (concat (map (\<lambda>(_, e). dict_keys (ie_frequencies e)) documents))"

definition supported_items ::
  "string list \<Rightarrow> (uuid, index_entry) dict \<Rightarrow> (uuid \<times> real) list \<Rightarrow> ((uuid \<times> real) \<times> string list) list" where
  "supported_items salient documents scored =
     filter (\<lambda>(_, matched). has_adequate_support salient matched)
       (map (\<lambda>item. (item, case map_of documents (fst item) of None \<Rightarrow> []
              | Some e \<Rightarrow> matched_salient_terms salient (ie_frequencies e))) scored)"

definition not_current :: "chunk_record \<Rightarrow> bool" where
  "not_current c = (ck_status c \<in> {''archived'', ''draft'', ''superseded''})"

definition chunk_of :: "chunk_record list \<Rightarrow> uuid \<Rightarrow> chunk_record option" where
  "chunk_of chunks i = List.find (\<lambda>c. ck_chunk_id c = i) chunks"

definition prefer_current ::
  "string list \<Rightarrow> chunk_record list \<Rightarrow> ((uuid \<times> real) \<times> string list) list \<Rightarrow>
   ((uuid \<times> real) \<times> string list) list" where
  "prefer_current query chunks items =
     (if {''approved'', ''current''} \<inter> set query \<noteq> {}
      then sort_key (\<lambda>((i, x), _). (case chunk_of chunks i of None \<Rightarrow> False | Some c \<Rightarrow> not_current c, - x, i)) items
      else items)"

definition sparse_evidence_of ::
  "chunk_record \<Rightarrow> real \<Rightarrow> string \<Rightarrow> string \<Rightarrow> string list \<Rightarrow> string list \<Rightarrow> sparse_evidence" where
  "sparse_evidence_of c score fingerprint sparse_fingerprint salient matched =
     \<lparr> se_sparse_score = score, se_chunk_id = ck_chunk_id c, se_evidence_id = ck_evidence_id c,
       se_document_id = ck_document_id c, se_title = ck_title c, se_source = ck_source c,
       se_source_file = ck_source_file c, se_section = ck_section c, se_section_path = ck_section_path c,
       se_source_line_start = ck_source_line_start c, se_source_line_end = ck_source_line_end c,
       se_version = ck_version c, se_updated_date = ck_updated_date c, se_access_level = ck_access_level c,
       se_allowed_roles = set (ck_allowed_roles c), se_document_type = ck_document_type c,
       se_department = ck_department c, se_status = ck_status c, se_text = ck_text c,
       se_chunk_content_hash = ck_chunk_content_hash c, se_build_fingerprint = fingerprint,
       se_sparse_build_fingerprint = sparse_fingerprint, se_salient_query_terms = salient,
       se_matched_query_terms = matched,
       se_salient_term_coverage = real (length matched) / real (length salient) \<rparr>"

definition evidence_items ::
  "chunk_record list \<Rightarrow> string \<Rightarrow> string \<Rightarrow> string list \<Rightarrow> ((uuid \<times> real) \<times> string list) list \<Rightarrow>
   sparse_evidence list" where
  "evidence_items chunks fingerprint sparse_fingerprint salient items =
     List.map_filter (\<lambda>((i, x), matched). map_option (\<lambda>c.
       sparse_evidence_of c x fingerprint sparse_fingerprint salient matched) (chunk_of chunks i)) items"

text \<open>The ranking over the authorized chunks, after the artifacts have been validated.\<close>

definition rank_chunks ::
  "retrieval_settings \<Rightarrow> string list \<Rightarrow> nat \<Rightarrow> sparse_index \<Rightarrow> real \<Rightarrow> string \<Rightarrow> string \<Rightarrow>
   chunk_record list \<Rightarrow> (retrieval_error, sparse_retrieval_result) result" where
  "rank_chunks s terms k index average fingerprint sparse_fingerprint chunks =
     (let documents = candidate_documents index chunks in
      if documents = [] then Return \<lparr> srr_evidence = [], srr_total_candidates = 0 \<rparr>
      else bind_result (score_corpus terms documents (authorized_frequencies documents) average
               (bm25_k1 s) (bm25_b s)) (\<lambda>scored.
        (let salient = salient_query_terms terms;
             supported = prefer_current terms chunks (supported_items salient documents scored) in
         Return \<lparr> srr_evidence = evidence_items chunks fingerprint sparse_fingerprint salient (take k supported),
           srr_total_candidates = length documents \<rparr>)))"

text \<open>\<open>top_k or default\<close>: zero counts as absent.  The provider filter is only built for its check.\<close>

definition selected_top_k :: "retrieval_settings \<Rightarrow> int option \<Rightarrow> int" where
  "selected_top_k s top_k =
     (case top_k of None \<Rightarrow> int (pinecone_query_top_k s)
      | Some k \<Rightarrow> if k = 0 then int (pinecone_query_top_k s) else k)"

record corpus =
  cp_hashes :: artifact_hashes
  cp_build :: "ingestion_build option"
  cp_files :: sparse_files

definition retrieve_sparse ::
  "retrieval_settings \<Rightarrow> corpus \<Rightarrow> authenticated_principal \<Rightarrow> string \<Rightarrow> int option \<Rightarrow>
   dense_query_filters option \<Rightarrow> (retrieval_error, sparse_retrieval_result) result" where
  "retrieve_sparse s corpus p query top_k filters =
     (let k = selected_top_k s top_k in
      if \<not> (1 \<le> k \<and> k \<le> 100) \<or> strip query = []
      then Raise (RetrievalValidationError ''sparse query or top-k is invalid'')
      else case analyze query (Some (bm25_max_query_tokens s)) of
        Inl _ \<Rightarrow> Raise (RetrievalValidationError ''sparse query analysis failed'')
      | Inr terms \<Rightarrow>
          (if terms = [] then Raise (RetrievalValidationError ''sparse query produced no terms'')
           else bind_result (validate_sparse (cp_hashes corpus) s (cp_build corpus) (cp_files corpus)) (\<lambda>manifest.
             bind_result (load_current_chunks (cp_build corpus)) (\<lambda>build.
             bind_result (build_authorization_filter show_nat p (ib_fingerprint build) filters) (\<lambda>_.
               if sm_ingestion_fingerprint manifest \<noteq> ib_fingerprint build
               then Raise (RetrievalDataIntegrityError ''sparse index belongs to another ingestion build'')
               else case sf_index (cp_files corpus) of
                 None \<Rightarrow> Raise (Foreign_error ''index file'')
               | Some index \<Rightarrow>
                   bind_result (authorized_chunks p filters (ib_chunks build)) (\<lambda>authorized.
                     rank_chunks s terms (nat k) index (sm_average_length manifest) (ib_fingerprint build)
                       (sm_fingerprint manifest) (identified_chunks query authorized)))))))"

end
