(* ===== verification/Hybrid_Retrieval.thy ===== *)
theory Hybrid_Retrieval
  imports Dense_Retrieval Sparse_Retrieval
begin

text \<open>
  Fusion of dense and sparse evidence: score normalization (retrieval/hybrid/normalization.py), weighted
  fusion (retrieval/hybrid/fusion.py), the service over the two branches (retrieval/hybrid/retriever.py),
  and the sparse-only adapter of the graph (graph/dependencies.py).  Floats are reals: rounding and
  non-finite scores do not occur.
\<close>

section \<open>Normalization\<close>

definition normalize_scores :: "(uuid, real) dict \<Rightarrow> (uuid, real) dict" where
  "normalize_scores scores =
     (if scores = [] then []
      else (let values = map snd scores; minimum = Min (set values); maximum = Max (set values) in
        if minimum = maximum then map (\<lambda>(k, _). (k, 1)) scores
        else map (\<lambda>(k, v). (k, (v - minimum) / (maximum - minimum))) scores))"

section \<open>Fusion\<close>

text \<open>\<open>{item.chunk_id: item for item in items}\<close>, and the rank of each (counted from one).\<close>

definition by_chunk :: "('a \<Rightarrow> uuid) \<Rightarrow> 'a list \<Rightarrow> (uuid, 'a) dict" where
  "by_chunk key items = fold (\<lambda>x d. dict_set (key x) x d) items []"

definition rank_of :: "('a \<Rightarrow> uuid) \<Rightarrow> 'a list \<Rightarrow> (uuid, nat) dict" where
  "rank_of key items = fold (\<lambda>(r, x) d. dict_set (key x) r d) (enumerate 1 items) []"

definition attribution_agrees :: "dense_evidence \<Rightarrow> sparse_evidence \<Rightarrow> bool" where
  "attribution_agrees d e =
     (de_chunk_id d = se_chunk_id e \<and> de_evidence_id d = se_evidence_id e \<and>
      de_document_id d = se_document_id e \<and> de_title d = se_title e \<and>
      de_source_file d = se_source_file e \<and> de_section_path d = se_section_path e \<and>
      de_source_line_start d = se_source_line_start e \<and> de_source_line_end d = se_source_line_end e \<and>
      de_chunk_content_hash d = se_chunk_content_hash e \<and> de_build_fingerprint d = se_build_fingerprint e \<and>
      de_access_level d = se_access_level e \<and> de_allowed_roles d = se_allowed_roles e)"

text \<open>The validators of the dense evidence model.\<close>

definition dense_evidence_ok :: "dense_evidence \<Rightarrow> bool" where
  "dense_evidence_ok d =
     (1 \<le> de_source_line_start d \<and> 1 \<le> de_source_line_end d \<and>
      lower_hash_ok (de_chunk_content_hash d) \<and> lower_hash_ok (de_build_fingerprint d))"

definition as_dense :: "(uuid \<Rightarrow> string) \<Rightarrow> sparse_evidence \<Rightarrow> (retrieval_error, dense_evidence) result" where
  "as_dense uuid_text e =
     (let d = \<lparr> de_record_id = uuid_text (se_chunk_id e), de_dense_score = 0, de_chunk_id = se_chunk_id e,
            de_evidence_id = se_evidence_id e, de_document_id = se_document_id e, de_title = se_title e,
            de_source = se_source e, de_source_file = se_source_file e, de_section = se_section e,
            de_section_path = se_section_path e, de_source_line_start = se_source_line_start e,
            de_source_line_end = se_source_line_end e, de_version = se_version e,
            de_updated_date = se_updated_date e, de_access_level = se_access_level e,
            de_allowed_roles = se_allowed_roles e, de_document_type = se_document_type e,
            de_department = se_department e, de_status = se_status e, de_text = se_text e,
            de_chunk_content_hash = se_chunk_content_hash e, de_build_fingerprint = se_build_fingerprint e \<rparr> in
      if dense_evidence_ok d then Return d else Raise (PyValueError ''dense evidence''))"

text \<open>One fused row; \<open>None\<close> when the chunk is in neither branch.\<close>

definition fuse_row ::
  "(uuid \<Rightarrow> string) \<Rightarrow> real \<Rightarrow> real \<Rightarrow> dense_evidence list \<Rightarrow> sparse_evidence list \<Rightarrow> uuid \<Rightarrow>
   (retrieval_error, hybrid_evidence option) result" where
  "fuse_row uuid_text dense_weight sparse_weight dense sparse i =
     (let dense_by = by_chunk de_chunk_id dense; sparse_by = by_chunk se_chunk_id sparse;
          d = map_of dense_by i; e = map_of sparse_by i;
          nd = dict_get (normalize_scores (map (\<lambda>(k, x). (k, de_dense_score x)) dense_by)) i 0;
          ns = dict_get (normalize_scores (map (\<lambda>(k, x). (k, se_sparse_score x)) sparse_by)) i 0;
          row = (\<lambda>evidence. \<lparr> he_evidence = evidence, he_raw_dense_score = map_option de_dense_score d,
            he_raw_sparse_score = map_option se_sparse_score e, he_normalized_dense_score = nd,
            he_normalized_sparse_score = ns, he_hybrid_score = nd * dense_weight + ns * sparse_weight,
            he_dense_rank = map_of (rank_of de_chunk_id dense) i,
            he_sparse_rank = map_of (rank_of se_chunk_id sparse) i, he_final_rank = 1,
            he_retrieval_modes = (if d = None then {} else {''dense''}) \<union> (if e = None then {} else {''sparse''}) \<rparr>);
          checked = (\<lambda>evidence. if hybrid_evidence_ok (row evidence) then Return (Some (row evidence))
                                else Raise (PyValueError ''hybrid evidence'')) in
      case (d, e) of
        (Some dx, Some ex) \<Rightarrow>
          (if attribution_agrees dx ex then checked dx
           else Raise (RetrievalDataIntegrityError ''dense and sparse attribution disagree''))
      | (Some dx, None) \<Rightarrow> checked dx
      | (None, Some ex) \<Rightarrow> bind_result (as_dense uuid_text ex) checked
      | (None, None) \<Rightarrow> Return None)"

fun collect_rows ::
  "(uuid \<Rightarrow> (retrieval_error, hybrid_evidence option) result) \<Rightarrow> uuid list \<Rightarrow>
   (retrieval_error, hybrid_evidence list) result" where
  "collect_rows row [] = Return []"
| "collect_rows row (i # is) =
     bind_result (row i) (\<lambda>r. bind_result (collect_rows row is) (\<lambda>rs.
       Return (case r of None \<Rightarrow> rs | Some h \<Rightarrow> h # rs)))"

text \<open>Minus a raw score, with minus infinity for an absent one.\<close>

definition raw_key :: "real option \<Rightarrow> bool \<times> real" where
  "raw_key x = (case x of None \<Rightarrow> (True, 0) | Some v \<Rightarrow> (False, - v))"

definition fusion_key :: "hybrid_evidence \<Rightarrow> real \<times> real \<times> real \<times> (bool \<times> real) \<times> (bool \<times> real) \<times> uuid" where
  "fusion_key h = (- he_hybrid_score h, - he_normalized_dense_score h, - he_normalized_sparse_score h,
     raw_key (he_raw_dense_score h), raw_key (he_raw_sparse_score h), de_chunk_id (he_evidence h))"

definition fuse ::
  "(uuid \<Rightarrow> string) \<Rightarrow> real \<Rightarrow> real \<Rightarrow> nat \<Rightarrow> dense_evidence list \<Rightarrow> sparse_evidence list \<Rightarrow>
   (retrieval_error, hybrid_evidence list) result" where
  "fuse uuid_text dense_weight sparse_weight k dense sparse =
     (let w = dense_weight + sparse_weight in
      if w \<le> 0 then Raise (PyValueError ''hybrid weights are invalid'')
      else bind_result
        (collect_rows (fuse_row uuid_text (dense_weight / w) (sparse_weight / w) dense sparse)
           (sort (unique_first (dict_keys (by_chunk de_chunk_id dense) @ dict_keys (by_chunk se_chunk_id sparse)))))
        (\<lambda>rows. Return (map (\<lambda>(rank, h). h\<lparr> he_final_rank := rank \<rparr>)
                     (enumerate 1 (take k (sort_key fusion_key rows))))))"

section \<open>The hybrid service\<close>

definition overfetch :: "retrieval_settings \<Rightarrow> nat \<Rightarrow> nat" where
  "overfetch s k = min (k * hybrid_overfetch_factor s) (hybrid_max_candidates s)"

definition authorization_failure :: "'a call \<Rightarrow> retrieval_error option" where
  "authorization_failure c =
     (case c of Failed (RetrievalAuthorizationError m) \<Rightarrow> Some (RetrievalAuthorizationError m) | _ \<Rightarrow> None)"

definition branch_failed :: "'a call \<Rightarrow> bool" where
  "branch_failed c = (case c of Answer _ \<Rightarrow> False | _ \<Rightarrow> True)"

text \<open>What is done with the two branch outcomes.\<close>

definition combine_branches ::
  "retrieval_settings \<Rightarrow> (uuid \<Rightarrow> string) \<Rightarrow> nat \<Rightarrow> dense_retrieval_result call \<Rightarrow>
   sparse_retrieval_result call \<Rightarrow> (retrieval_error, hybrid_retrieval_result) result" where
  "combine_branches s uuid_text k dense sparse =
     (case (authorization_failure dense, authorization_failure sparse) of
        (Some e, _) \<Rightarrow> Raise e
      | (None, Some e) \<Rightarrow> Raise e
      | (None, None) \<Rightarrow>
          (let failures = (if branch_failed dense then [''dense''] else []) @
                          (if branch_failed sparse then [''sparse''] else []);
               dense_evidence = (case dense of Answer r \<Rightarrow> drr_evidence r | _ \<Rightarrow> []);
               sparse_evidence = (case sparse of Answer r \<Rightarrow> srr_evidence r | _ \<Rightarrow> []) in
           if length failures = 2 \<or> (failures \<noteq> [] \<and> \<not> hybrid_allow_partial_results s)
           then Raise (RetrievalDependencyError ''hybrid retrieval branches failed safely'')
           else bind_result (fuse uuid_text (hybrid_dense_weight s) (hybrid_sparse_weight s) k dense_evidence sparse_evidence)
             (\<lambda>evidence. Return \<lparr> hrr_evidence = evidence,
                hrr_completion_status = (if failures \<noteq> [] then CS_partial_success else CS_complete),
                hrr_warnings = (if failures \<noteq> [] then [''One retrieval branch failed; safe partial results returned.''] else []),
                hrr_failed_branches = failures \<rparr>)))"

text \<open>A branch is given the overfetched top-k; \<open>timed\<close> says whether its own time limit expires.\<close>

definition branch_call :: "bool \<Rightarrow> (retrieval_error, 'a) result \<Rightarrow> 'a call" where
  "branch_call timed r = (if timed then Timed_out else case r of Inl e \<Rightarrow> Failed e | Inr x \<Rightarrow> Answer x)"

definition retrieve_hybrid ::
  "retrieval_settings \<Rightarrow> corpus \<Rightarrow> dense_provider \<Rightarrow> bool \<Rightarrow> bool \<Rightarrow> authenticated_principal \<Rightarrow> string \<Rightarrow> int \<Rightarrow>
   dense_query_filters option \<Rightarrow> (retrieval_error, hybrid_retrieval_result) result" where
  "retrieve_hybrid s corpus dp dense_late sparse_late p query k filters =
     (if \<not> (1 \<le> k \<and> k \<le> 100) then Raise (PyValueError ''hybrid top-k is invalid'')
      else (let n = int (overfetch s (nat k)) in
        combine_branches s (dp_uuid_text dp) (nat k)
          (branch_call dense_late (retrieve_dense s (cp_build corpus) dp p query (Some n) filters))
          (branch_call sparse_late (retrieve_sparse s corpus p query (Some n) filters))))"

section \<open>The sparse-only adapter\<close>

definition retrieve_offline ::
  "retrieval_settings \<Rightarrow> corpus \<Rightarrow> (uuid \<Rightarrow> string) \<Rightarrow> authenticated_principal \<Rightarrow> string \<Rightarrow> int \<Rightarrow>
   dense_query_filters option \<Rightarrow> (retrieval_error, hybrid_retrieval_result) result" where
  "retrieve_offline s corpus uuid_text p query k filters =
     bind_result (retrieve_sparse s corpus p query (Some k) filters) (\<lambda>r.
       bind_result (fuse uuid_text 0 1 (nat k) [] (srr_evidence r)) (\<lambda>evidence.
         Return \<lparr> hrr_evidence = evidence, hrr_completion_status = CS_complete, hrr_warnings = [],
           hrr_failed_branches = [] \<rparr>))"

end
