(* ===== verification/Sparse_Properties.thy ===== *)
theory Sparse_Properties
  imports Sparse_Retrieval
begin

text \<open>
  Correctness of local retrieval: every result is an authorized chunk of the current build with lexical
  support, results are ranked and bounded, chunks the principal may not read influence nothing but the
  average document length, and building the artifacts is all or nothing.
\<close>

section \<open>Lists\<close>

lemma map_filter_all: "list_all (\<lambda>x. f x \<noteq> None) xs \<Longrightarrow> List.map_filter f xs = map (the \<circ> f) xs"
  by (induction xs) (auto simp: List.map_filter_simps)

lemma distinct_sort_key [simp]: "distinct (map g (sort_key f xs)) \<longleftrightarrow> distinct (map g xs)"
  by (metis mset_map mset_sort mset_eq_imp_distinct_iff)

lemma filter_sort_key_commute: "filter P (sort_key f xs) = sort_key f (filter P xs)"
  by (rule filter_sort)

section \<open>Authorized chunks\<close>

lemma authorized_chunks_Inr:
  "authorized_chunks p filters cs = Inr r \<longleftrightarrow>
   list_all (\<lambda>c. document_metadata_ok (chunk_document_metadata c)) cs \<and> r = filter (chunk_admitted p filters) cs"
  by (induction cs arbitrary: r) (auto simp: chunk_authorized_def)

lemma identified_chunks_subset: "set (identified_chunks query cs) \<subseteq> set cs"
  by (simp add: identified_chunks_def Let_def)

lemma chunk_of_Some: "chunk_of cs i = Some c \<Longrightarrow> c \<in> set cs \<and> ck_chunk_id c = i"
  unfolding chunk_of_def by (drule find_Some_set) simp

lemma chunk_of_exists: "i \<in> set (map ck_chunk_id cs) \<longleftrightarrow> (\<exists>c. chunk_of cs i = Some c)"
  by (cases "chunk_of cs i") (auto simp: chunk_of_def find_None_all dest: find_Some_set)

section \<open>The ranking\<close>

lemma scored_facts:
  assumes "score_corpus terms documents df average k1 b = Inr scored" "distinct (dict_keys documents)"
  shows "distinct (map fst scored)" "fst ` set scored \<subseteq> set (dict_keys documents)"
    "\<forall>(i, x) \<in> set scored. 0 < x" "sorted (map (\<lambda>(i, x). (- x, i)) scored)"
proof -
  let ?f = "\<lambda>(i, e). (i, sum_list (map (term_score k1 b average (length documents) df e) (counter terms)))"
  have s: "scored = sort_key (\<lambda>(i, x). (- x, i)) (filter (\<lambda>(_, x). 0 < x) (map ?f documents))"
    using assms(1) by (simp add: score_corpus_def Let_def split: if_splits)
  have k: "map fst (map ?f documents) = dict_keys documents" by (induction documents) auto
  have "distinct (map fst (map ?f documents))" unfolding k by (rule assms(2))
  then have "distinct (map fst (filter (\<lambda>(_, x). 0 < x) (map ?f documents)))"
    by (rule distinct_map_filter)
  then show "distinct (map fst scored)" unfolding s by simp
  have "fst ` set (map ?f documents) = set (dict_keys documents)" by (metis k list.set_map)
  then show "fst ` set scored \<subseteq> set (dict_keys documents)" unfolding s by (auto simp del: set_map)
  show "\<forall>(i, x) \<in> set scored. 0 < x" unfolding s by auto
  show "sorted (map (\<lambda>(i, x). (- x, i)) scored)" unfolding s by (rule sorted_sort_key)
qed

definition rank_key :: "string list \<Rightarrow> chunk_record list \<Rightarrow> ((uuid \<times> real) \<times> string list) \<Rightarrow> bool \<times> real \<times> uuid" where
  "rank_key terms chunks = (\<lambda>((i, x), _).
     ({''approved'', ''current''} \<inter> set terms \<noteq> {} \<and>
        (case chunk_of chunks i of None \<Rightarrow> False | Some c \<Rightarrow> not_current c), - x, i))"

lemma supported_items_map:
  "sorted (map (\<lambda>(i, x). (- x, i)) scored) \<Longrightarrow>
   sorted (map (\<lambda>((i, x), _). (- x, i)) (supported_items salient documents scored))"
proof -
  assume s: "sorted (map (\<lambda>(i, x). (- x, i)) scored)"
  let ?g = "\<lambda>item. (item, case map_of documents (fst item) of None \<Rightarrow> []
              | Some e \<Rightarrow> matched_salient_terms salient (ie_frequencies e))"
  have e: "map (\<lambda>((i, x), _). (- x, i)) (map ?g scored) = map (\<lambda>(i, x). (- x, i)) scored" by auto
  have "sorted (map (\<lambda>((i, x), _). (- x, i)) (map ?g scored))" unfolding e by (rule s)
  then show ?thesis unfolding supported_items_def by (rule sorted_filter)
qed

lemma prefer_current_facts:
  assumes "sorted (map (\<lambda>((i, x), _). (- x, i)) items)"
  shows "set (prefer_current terms chunks items) = set items"
    "distinct (map f (prefer_current terms chunks items)) \<longleftrightarrow> distinct (map f items)"
    "sorted (map (rank_key terms chunks) (prefer_current terms chunks items))"
proof -
  show "set (prefer_current terms chunks items) = set items" by (simp add: prefer_current_def)
  show "distinct (map f (prefer_current terms chunks items)) \<longleftrightarrow> distinct (map f items)"
    by (simp add: prefer_current_def)
  show "sorted (map (rank_key terms chunks) (prefer_current terms chunks items))"
  proof (cases "{''approved'', ''current''} \<inter> set terms = {}")
    case True
    then have "rank_key terms chunks = (\<lambda>y. (False, (\<lambda>((i, x), _). (- x, i)) y))"
      by (auto simp: rank_key_def)
    then have e: "map (rank_key terms chunks) items = map (Pair False) (map (\<lambda>((i, x), _). (- x, i)) items)"
      by simp
    have "sorted (map (Pair False) ys)" if "sorted ys" for ys :: "(real \<times> uuid) list"
      using that by (induction ys) auto
    from this [OF assms] have "sorted (map (rank_key terms chunks) items)" unfolding e .
    then show ?thesis using True by (simp add: prefer_current_def)
  next
    case False
    then have "rank_key terms chunks = (\<lambda>((i, x), _).
        (case chunk_of chunks i of None \<Rightarrow> False | Some c \<Rightarrow> not_current c, - x, i))"
      by (auto simp: rank_key_def)
    then show ?thesis using False by (simp add: prefer_current_def)
  qed
qed

text \<open>The salient terms an item matches, by the entry of its document.\<close>

definition matched_of :: "string list \<Rightarrow> (uuid, index_entry) dict \<Rightarrow> uuid \<Rightarrow> string list" where
  "matched_of salient documents i =
     (case map_of documents i of None \<Rightarrow> [] | Some e \<Rightarrow> matched_salient_terms salient (ie_frequencies e))"

lemma supported_items_eq:
  "supported_items salient documents scored =
   filter (\<lambda>(_, m). has_adequate_support salient m)
     (map (\<lambda>item. (item, matched_of salient documents (fst item))) scored)"
  by (simp add: supported_items_def matched_of_def)

text \<open>The entry of a chunk counts the terms of its text, so exactly the salient terms of the text match.\<close>

lemma dict_get_sorted_counter: "0 < dict_get (sorted_items (counter ts)) t 0 \<longleftrightarrow> t \<in> set ts"
proof -
  have k: "map fst (counter ts) = unique_first ts" by (simp add: counter_def o_def)
  have "mset (map fst (sorted_items (counter ts))) = mset (unique_first ts)"
    unfolding sorted_items_def k [symmetric] mset_map mset_sort ..
  then have d: "distinct (map fst (sorted_items (counter ts)))"
    using mset_eq_imp_distinct_iff distinct_unique_first by blast
  have e: "(t, n) \<in> set (sorted_items (counter ts)) \<longleftrightarrow> t \<in> set ts \<and> n = count_list ts t" for n
    by (auto simp: sorted_items_def counter_def)
  show ?thesis
  proof (cases "t \<in> set ts")
    case True
    then have "map_of (sorted_items (counter ts)) t = Some (count_list ts t)"
      using d by (simp add: e)
    then show ?thesis using True by (simp add: dict_get_def count_list_0_iff neq0_conv [symmetric] del: neq0_conv)
  next
    case False
    then have "map_of (sorted_items (counter ts)) t = None"
      using e by (auto simp: map_of_eq_None_iff)
    then show ?thesis using False by (simp add: dict_get_def)
  qed
qed

lemma matched_of_chunk:
  assumes "distinct (map ck_chunk_id all_chunks)" "c \<in> set all_chunks" "ck_chunk_id c \<in> set (map ck_chunk_id chunks)"
  shows "matched_of salient (candidate_documents (build_index all_chunks) chunks) (ck_chunk_id c) =
     filter (\<lambda>t. t \<in> set (corpus_terms (ck_search_text c))) salient"
proof -
  let ?d = "candidate_documents (build_index all_chunks) chunks"
  have "index_chunk c \<in> set (si_documents (build_index all_chunks))"
    using assms(2) by (simp add: build_index_documents)
  then have "index_chunk c \<in> set ?d"
    using assms(3) by (simp add: candidate_documents_def index_chunk_def Let_def split: prod.splits)
  moreover have "distinct (dict_keys ?d)"
    unfolding candidate_documents_def using build_index_keys(1) [OF assms(1)] by (rule distinct_map_filter)
  ultimately have "map_of ?d (ck_chunk_id c) = Some (snd (index_chunk c))"
    by (intro map_of_is_SomeI) (simp_all add: index_chunk_def Let_def)
  then show ?thesis
    by (simp add: matched_of_def matched_salient_terms_def index_chunk_def Let_def dict_get_sorted_counter)
qed

lemma supported_items_distinct:
  "distinct (map fst scored) \<Longrightarrow> distinct (map (fst \<circ> fst) (supported_items salient documents scored))"
proof -
  assume d: "distinct (map fst scored)"
  let ?g = "\<lambda>item. (item, case map_of documents (fst item) of None \<Rightarrow> []
              | Some e \<Rightarrow> matched_salient_terms salient (ie_frequencies e))"
  have e: "map (fst \<circ> fst) (map ?g scored) = map fst scored" by simp
  have "distinct (map (fst \<circ> fst) (map ?g scored))" unfolding e by (rule d)
  then show ?thesis unfolding supported_items_def by (rule distinct_map_filter)
qed

text \<open>What a successful ranking returns, item by item.\<close>

lemma rank_chunks_Inr:
  assumes "rank_chunks s terms k index average fp sfp chunks = Inr r" "distinct (dict_keys (si_documents index))"
  obtains items where
    "srr_evidence r = map (\<lambda>((i, x), m). sparse_evidence_of (the (chunk_of chunks i)) x fp sfp
       (salient_query_terms terms) m) items"
    "\<forall>((i, x), m) \<in> set items. 0 < x \<and> has_adequate_support (salient_query_terms terms) m \<and>
       (\<exists>c. chunk_of chunks i = Some c) \<and>
       m = matched_of (salient_query_terms terms) (candidate_documents index chunks) i"
    "distinct (map (fst \<circ> fst) items)" "sorted (map (rank_key terms chunks) items)" "length items \<le> k"
    "srr_total_candidates r = length (candidate_documents index chunks)"
proof (cases "candidate_documents index chunks = []")
  case True
  then show thesis using assms(1) that [of "[]"] by (auto simp: rank_chunks_def)
next
  case False
  let ?d = "candidate_documents index chunks" and ?sal = "salient_query_terms terms"
  obtain scored where sc: "score_corpus terms ?d (authorized_frequencies ?d) average (bm25_k1 s) (bm25_b s) = Inr scored"
    and r: "r = \<lparr> srr_evidence = evidence_items chunks fp sfp ?sal
        (take k (prefer_current terms chunks (supported_items ?sal ?d scored))), srr_total_candidates = length ?d \<rparr>"
    using assms(1) False by (auto simp: rank_chunks_def Let_def)
  have dk: "distinct (dict_keys ?d)" unfolding candidate_documents_def using assms(2) by (rule distinct_map_filter)
  note f = scored_facts [OF sc dk]
  note pf = prefer_current_facts [OF supported_items_map [OF f(4), of ?sal ?d], where terms = terms and chunks = chunks]
  let ?all = "prefer_current terms chunks (supported_items ?sal ?d scored)"
  have item: "0 < x \<and> has_adequate_support ?sal m \<and> (\<exists>c. chunk_of chunks i = Some c) \<and> m = matched_of ?sal ?d i"
    if "((i, x), m) \<in> set ?all" for i x m
  proof -
    have "((i, x), m) \<in> set (supported_items ?sal ?d scored)" using that pf(1) by blast
    then have e: "(i, x) \<in> set scored" "has_adequate_support ?sal m" "m = matched_of ?sal ?d i"
      by (auto simp: supported_items_eq)
    have "i \<in> set (dict_keys ?d)" using e(1) f(2) by force
    then have "i \<in> set (map ck_chunk_id chunks)" by (auto simp: candidate_documents_def)
    then have "\<exists>c. chunk_of chunks i = Some c" by (simp only: chunk_of_exists)
    moreover have "0 < x" using e(1) f(3) by blast
    ultimately show ?thesis using e(2,3) by blast
  qed
  have ev: "srr_evidence r = map (\<lambda>((i, x), m). sparse_evidence_of (the (chunk_of chunks i)) x fp sfp ?sal m) (take k ?all)"
  proof -
    have "list_all (\<lambda>y. (\<lambda>((i, x), matched). map_option (\<lambda>c. sparse_evidence_of c x fp sfp ?sal matched)
        (chunk_of chunks i)) y \<noteq> None) (take k ?all)"
      by (auto simp: list_all_iff dest!: in_set_takeD item)
    from map_filter_all [OF this] show ?thesis
      by (auto simp: r evidence_items_def dest!: in_set_takeD item)
  qed
  show thesis
  proof (rule that [OF ev])
    show "\<forall>((i, x), m) \<in> set (take k ?all). 0 < x \<and> has_adequate_support ?sal m \<and>
       (\<exists>c. chunk_of chunks i = Some c) \<and> m = matched_of ?sal ?d i"
      by (auto dest!: in_set_takeD item)
    show "distinct (map (fst \<circ> fst) (take k ?all))"
      using pf(2) [where f = "fst \<circ> fst"] supported_items_distinct [OF f(1)] by (simp flip: take_map)
    show "sorted (map (rank_key terms chunks) (take k ?all))"
      using pf(3) by (rule sorted_take_prefix)
  qed (simp_all add: r)
qed

section \<open>The retrieval service\<close>

lemma retrieve_sparse_Inr:
  assumes "retrieve_sparse s corpus p query top_k filters = Inr r" "load_current_chunks (cp_build corpus) = Inr build"
  obtains m where
    "validate_sparse (cp_hashes corpus) s (cp_build corpus) (cp_files corpus) = Inr m"
    "1 \<le> selected_top_k s top_k" "selected_top_k s top_k \<le> 100" "sm_ingestion_fingerprint m = ib_fingerprint build"
    "list_all (\<lambda>c. document_metadata_ok (chunk_document_metadata c)) (ib_chunks build)"
    "rank_chunks s (corpus_terms query) (nat (selected_top_k s top_k)) (build_index (ib_chunks build))
       (sm_average_length m) (ib_fingerprint build) (sm_fingerprint m)
       (identified_chunks query (filter (chunk_admitted p filters) (ib_chunks build))) = Inr r"
proof -
  obtain terms where t: "analyze query (Some (bm25_max_query_tokens s)) = Inr terms" "terms \<noteq> []"
    using assms(1) by (auto simp: retrieve_sparse_def Let_def split: if_splits sum.splits)
  then have terms: "terms = corpus_terms query" by (auto simp: analyze_limit split: if_splits)
  obtain m where m: "validate_sparse (cp_hashes corpus) s (cp_build corpus) (cp_files corpus) = Inr m"
    using assms(1) t by (auto simp: retrieve_sparse_def Let_def split: if_splits)
  obtain index where i: "sf_index (cp_files corpus) = Some index"
    "expected_artifacts (cp_hashes corpus) s (cp_build corpus) = Inr (m, index)"
    using m by (auto simp: validate_sparse_iff)
  have index: "index = build_index (ib_chunks build)"
    by (rule expected_artifacts_Inr [OF i(2)]) (use assms(2) in simp)
  show thesis
    using assms t m i(1) by (intro that [OF m])
      (auto simp: retrieve_sparse_def Let_def authorized_chunks_Inr terms index split: if_splits)
qed

lemma candidate_documents_build:
  assumes "distinct (map ck_chunk_id chunks)"
  shows "candidate_documents (build_index chunks) (filter Q chunks) = sorted_items (map index_chunk (filter Q chunks))"
proof -
  have "ck_chunk_id c \<in> ck_chunk_id ` {d \<in> set chunks. Q d} \<longleftrightarrow> Q c" if "c \<in> set chunks" for c
    using assms that by (auto simp: distinct_map inj_on_def)
  then have "filter (\<lambda>c. ck_chunk_id c \<in> ck_chunk_id ` {d \<in> set chunks. Q d}) chunks = filter Q chunks"
    by (rule filter_cong [OF refl])
  then have "filter (\<lambda>(i, _). i \<in> set (map ck_chunk_id (filter Q chunks))) (map index_chunk chunks)
      = map index_chunk (filter Q chunks)"
    by (simp add: filter_map o_def index_chunk_def Let_def)
  then show ?thesis
    by (simp add: candidate_documents_def build_index_def sorted_items_def Let_def filter_sort)
qed

definition unstamped :: "sparse_evidence \<Rightarrow> sparse_evidence" where
  "unstamped e = e\<lparr> se_build_fingerprint := [], se_sparse_build_fingerprint := [] \<rparr>"

lemma evidence_items_unstamped:
  "map unstamped (evidence_items cs fp sfp sal items) = map unstamped (evidence_items cs fp' sfp' sal items)"
  unfolding evidence_items_def
  by (induction items) (auto simp: List.map_filter_simps unstamped_def sparse_evidence_of_def split: option.split)

lemma sparse_results_facts:
  assumes "retrieve_sparse s corpus p query top_k filters = Inr r"
    "load_current_chunks (cp_build corpus) = Inr build"
  shows "(\<forall>e \<in> set (srr_evidence r). 0 < se_sparse_score e \<and>
       has_adequate_support (se_salient_query_terms e) (se_matched_query_terms e) \<and>
       (\<exists>c \<in> set (ib_chunks build). chunk_admitted p filters c \<and>
          se_matched_query_terms e = filter (\<lambda>t. t \<in> set (corpus_terms (ck_search_text c)))
            (salient_query_terms (corpus_terms query)) \<and>
          e = sparse_evidence_of c (se_sparse_score e) (ib_fingerprint build) (se_sparse_build_fingerprint e)
                (salient_query_terms (corpus_terms query)) (se_matched_query_terms e))) \<and>
     distinct (map se_chunk_id (srr_evidence r)) \<and>
     int (length (srr_evidence r)) \<le> selected_top_k s top_k \<and> selected_top_k s top_k \<le> 100 \<and>
     sorted (map (\<lambda>e. ({''approved'', ''current''} \<inter> set (corpus_terms query) \<noteq> {} \<and>
        se_status e \<in> {''archived'', ''draft'', ''superseded''}, - se_sparse_score e, se_chunk_id e))
       (srr_evidence r))"
proof -
  let ?chunks = "identified_chunks query (filter (chunk_admitted p filters) (ib_chunks build))"
  obtain m :: sparse_manifest where k: "1 \<le> selected_top_k s top_k" "selected_top_k s top_k \<le> 100"
    and rk: "rank_chunks s (corpus_terms query) (nat (selected_top_k s top_k)) (build_index (ib_chunks build))
       (sm_average_length m) (ib_fingerprint build) (sm_fingerprint m) ?chunks = Inr r"
    by (rule retrieve_sparse_Inr [OF assms]) blast
  have d: "distinct (dict_keys (si_documents (build_index (ib_chunks build))))"
    by (rule build_index_keys(1) [OF load_current_chunks_Inr(2) [OF assms(2)]])
  obtain items where
    ev: "srr_evidence r = map (\<lambda>((i, x), m'). sparse_evidence_of (the (chunk_of ?chunks i)) x
        (ib_fingerprint build) (sm_fingerprint m) (salient_query_terms (corpus_terms query)) m') items"
    and it: "\<forall>((i, x), m) \<in> set items. 0 < x \<and> has_adequate_support (salient_query_terms (corpus_terms query)) m \<and>
       (\<exists>c. chunk_of ?chunks i = Some c) \<and> m = matched_of (salient_query_terms (corpus_terms query))
          (candidate_documents (build_index (ib_chunks build)) ?chunks) i"
    and di: "distinct (map (fst \<circ> fst) items)" and so: "sorted (map (rank_key (corpus_terms query) ?chunks) items)"
    and len: "length items \<le> nat (selected_top_k s top_k)" by (rule rank_chunks_Inr [OF rk d]) (rule that; assumption)
  have el: "c \<in> set (ib_chunks build) \<and> chunk_admitted p filters c \<and> ck_chunk_id c = i"
    if "chunk_of ?chunks i = Some c" for i c
    using chunk_of_Some [OF that] identified_chunks_subset by fastforce
  let ?F = "\<lambda>((i, x), m'). sparse_evidence_of (the (chunk_of ?chunks i)) x (ib_fingerprint build)
    (sm_fingerprint m) (salient_query_terms (corpus_terms query)) m'"
  let ?K = "\<lambda>e. ({''approved'', ''current''} \<inter> set (corpus_terms query) \<noteq> {} \<and>
        se_status e \<in> {''archived'', ''draft'', ''superseded''}, - se_sparse_score e, se_chunk_id e)"
  let ?P = "\<lambda>e. 0 < se_sparse_score e \<and>
       has_adequate_support (se_salient_query_terms e) (se_matched_query_terms e) \<and>
       (\<exists>c \<in> set (ib_chunks build). chunk_admitted p filters c \<and>
          se_matched_query_terms e = filter (\<lambda>t. t \<in> set (corpus_terms (ck_search_text c)))
            (salient_query_terms (corpus_terms query)) \<and>
          e = sparse_evidence_of c (se_sparse_score e) (ib_fingerprint build) (se_sparse_build_fingerprint e)
                (salient_query_terms (corpus_terms query)) (se_matched_query_terms e))"
  have item: "se_chunk_id (?F y) = fst (fst y) \<and> ?K (?F y) = rank_key (corpus_terms query) ?chunks y \<and> ?P (?F y)"
    if y: "y \<in> set items" for y
  proof -
    obtain i x m' where y': "y = ((i, x), m')" by (metis surj_pair)
    obtain c where c: "chunk_of ?chunks i = Some c" and ok: "0 < x"
      "has_adequate_support (salient_query_terms (corpus_terms query)) m'"
      and m': "m' = matched_of (salient_query_terms (corpus_terms query))
          (candidate_documents (build_index (ib_chunks build)) ?chunks) i"
      using it y y' by blast
    note e = el [OF c]
    have "ck_chunk_id c \<in> set (map ck_chunk_id ?chunks)" unfolding list.set_map using chunk_of_Some [OF c] by blast
    from matched_of_chunk [OF load_current_chunks_Inr(2) [OF assms(2)] _ this] e
    have mt: "m' = filter (\<lambda>t. t \<in> set (corpus_terms (ck_search_text c))) (salient_query_terms (corpus_terms query))"
      unfolding m' by blast
    have F: "?F y = sparse_evidence_of c x (ib_fingerprint build) (sm_fingerprint m)
        (salient_query_terms (corpus_terms query)) m'"
      by (simp add: y' c)
    have "?P (?F y)" unfolding F using e ok mt by (auto simp: sparse_evidence_of_def)
    then show ?thesis unfolding F using e c y'
      by (simp add: rank_key_def not_current_def) (simp add: sparse_evidence_of_def)
  qed
  note i1 = item [THEN conjunct1] and i2 = item [THEN conjunct2, THEN conjunct1]
    and i3 = item [THEN conjunct2, THEN conjunct2]
  have ids: "map se_chunk_id (srr_evidence r) = map (fst \<circ> fst) items"
    unfolding ev map_map by (rule map_cong [OF refl], unfold o_apply, erule i1)
  have keys: "map ?K (srr_evidence r) = map (rank_key (corpus_terms query) ?chunks) items"
    unfolding ev map_map by (rule map_cong [OF refl], unfold o_apply, erule i2)
  have "\<forall>e \<in> set (srr_evidence r). ?P e"
    unfolding ev set_map by (rule ballI, erule imageE, hypsubst, erule i3)
  moreover have "int (length (srr_evidence r)) \<le> selected_top_k s top_k" using len k unfolding ev by simp
  ultimately show ?thesis using di so k(2) unfolding ids keys by blast
qed

text \<open>C16: What the principal may not read cannot influence the answer: two corpora with the same admitted
  chunks and the same average document length give the same results, whatever else they contain.\<close>

theorem sparse_noninterference:
  assumes "retrieve_sparse s corpus1 p query top_k filters = Inr r1"
    "retrieve_sparse s corpus2 p query top_k filters = Inr r2"
    "load_current_chunks (cp_build corpus1) = Inr build1" "load_current_chunks (cp_build corpus2) = Inr build2"
    "filter (chunk_admitted p filters) (ib_chunks build1) = filter (chunk_admitted p filters) (ib_chunks build2)"
    "map_option sm_average_length (sf_manifest (cp_files corpus1)) =
     map_option sm_average_length (sf_manifest (cp_files corpus2))"
  shows "map unstamped (srr_evidence r1) = map unstamped (srr_evidence r2) \<and>
     srr_total_candidates r1 = srr_total_candidates r2"
proof -
  let ?adm = "chunk_admitted p filters" and ?ts = "corpus_terms query" and ?k = "nat (selected_top_k s top_k)"
  let ?A = "identified_chunks query (filter ?adm (ib_chunks build2))"
  obtain m1 where m1: "validate_sparse (cp_hashes corpus1) s (cp_build corpus1) (cp_files corpus1) = Inr m1"
    and r1: "rank_chunks s ?ts ?k (build_index (ib_chunks build1)) (sm_average_length m1) (ib_fingerprint build1)
       (sm_fingerprint m1) (identified_chunks query (filter ?adm (ib_chunks build1))) = Inr r1"
    by (rule retrieve_sparse_Inr [OF assms(1,3)]) (rule that; assumption)
  obtain m2 where m2: "validate_sparse (cp_hashes corpus2) s (cp_build corpus2) (cp_files corpus2) = Inr m2"
    and r2: "rank_chunks s ?ts ?k (build_index (ib_chunks build2)) (sm_average_length m2) (ib_fingerprint build2)
       (sm_fingerprint m2) ?A = Inr r2"
    by (rule retrieve_sparse_Inr [OF assms(2,4)]) (rule that; assumption)
  have avg: "sm_average_length m1 = sm_average_length m2"
    using assms(6) m1 m2 by (auto simp: validate_sparse_iff)
  have cand: "candidate_documents (build_index (ib_chunks b)) ?A = sorted_items (map index_chunk ?A)"
    if "load_current_chunks u = Inr b" "filter ?adm (ib_chunks b) = filter ?adm (ib_chunks build2)" for b u
  proof -
    obtain Q where "identified_chunks query (filter ?adm (ib_chunks b)) = filter Q (filter ?adm (ib_chunks b))"
      by (cases "extract_enterprise_identifiers query = []")
        (auto simp: identified_chunks_def Let_def intro: that [of "\<lambda>_. True"] that)
    then have "?A = filter Q (filter ?adm (ib_chunks b))" using that(2) by simp
    then have "?A = filter (\<lambda>c. ?adm c \<and> Q c) (ib_chunks b)" by simp
    then show ?thesis
      using candidate_documents_build [OF load_current_chunks_Inr(2) [OF that(1)]] by metis
  qed
  note c1 = cand [OF assms(3,5)] and c2 = cand [OF assms(4) refl]
  show ?thesis
    using r1 r2 evidence_items_unstamped
    by (auto simp: rank_chunks_def Let_def assms(5) c1 c2 avg split: if_splits)
qed

text \<open>C17: On the chunks of the current build the filter sent to the provider and the local check select the
  same chunks, for every principal and every filter the compiler accepts.\<close>

theorem provider_filter_equals_local_check:
  assumes "filter_provider holds" "inj uuid_text"
    "chunk_metadata uuid_text json_size maximum_bytes stamp c = Inr md"
    "build_authorization_filter uuid_text p fingerprint filters = Inr clauses"
  shows "(\<forall>cl \<in> set clauses. holds md cl) \<longleftrightarrow> stamp = fingerprint \<and> chunk_admitted p filters c"
  by (rule filter_provider.filter_iff_admitted [OF assms(1,3,2,4)])

text \<open>C18: A build succeeds exactly when the artifacts can be computed and none of its file-system calls
  fails; then both files are the new ones, they validate and show no drift.  A build that fails leaves the
  previous files, with two exceptions: both new files, when only the cleaning up or the reading back
  failed, and the new index beside the previous manifest, when the manifest could not be moved
  into place and putting the index back failed as well.\<close>

theorem sparse_build_atomic:
  "case build_sparse h s build w previous of (result, files) \<Rightarrow>
     ((\<exists>m. result = Inr m) \<longleftrightarrow> (\<exists>a. expected_artifacts h s build = Inr a) \<and>
        \<not> list_ex (bw_fails w) (Prepare # write_calls @ map Clean artifact_targets @ [Read_back])) \<and>
     (case result of
        Inr m \<Rightarrow> validate_sparse h s build files = Inr m \<and> check_sparse h s build files = Inr m
      | Inl _ \<Rightarrow> files = previous \<or>
          (\<exists>m index. expected_artifacts h s build = Inr (m, index) \<and>
             (files = \<lparr> sf_index = Some index, sf_manifest = Some m \<rparr> \<and>
                list_ex (bw_fails w) [Clean Index_file, Clean Manifest_file, Read_back] \<or>
              files = previous\<lparr> sf_index := Some index \<rparr> \<and> bw_fails w (Place Manifest_file) \<and>
                list_ex (bw_fails w) [Remove Index_file, Save_rollback Index_file, Restore Index_file])))"
proof (cases "expected_artifacts h s build")
  case (Inl e)
  then show ?thesis by (simp add: build_sparse_def)
next
  case (Inr a)
  obtain m index where a: "expected_artifacts h s build = Inr (m, index)" using Inr by (cases a) simp
  let ?new = "\<lparr> sf_index = Some index, sf_manifest = Some m \<rparr>"
  have v: "validate_sparse h s build ?new = Inr m" "check_sparse h s build ?new = Inr m"
    using a by (simp_all add: validate_sparse_iff check_sparse_def)
  note calls = write_calls_def artifact_targets_def clean_calls_def
  show ?thesis
  proof (cases "list_ex (bw_fails w) (Prepare # write_calls)")
    case False
    then show ?thesis by (cases previous) (auto simp: build_sparse_def a v calls Let_def)
  next
    case True
    then show ?thesis
      by (cases previous) (auto simp: build_sparse_def a calls rollback_calls_def no_files_def Let_def)
  qed
qed

section \<open>A small corpus\<close>

definition sample_build :: string where "sample_build = replicate 64 CHR ''b''"

definition sample_chunk :: "uuid \<Rightarrow> access_level \<Rightarrow> user_role list \<Rightarrow> string \<Rightarrow> chunk_record" where
  "sample_chunk i level roles t =
     \<lparr> ck_chunk_id = i, ck_document_id = i, ck_chunk_index = 0, ck_evidence_id = i, ck_title = ''Leave'',
       ck_source = ''corpus'', ck_source_file = ''leave.md'', ck_department = ''HR'',
       ck_document_type = DT_policy, ck_access_level = level, ck_allowed_roles = roles,
       ck_created_date = 738000, ck_updated_date = 738000, ck_version = ''1'', ck_owner = ''HR'',
       ck_status = ''approved'', ck_tags = [''leave''], ck_related_document_ids = [], ck_section = ''Scope'',
       ck_section_path = [''Scope''], ck_source_line_start = 1, ck_source_line_end = 2, ck_text = t,
       ck_search_text = t, ck_approximate_token_count = 1, ck_overlap_token_count = 0,
       ck_chunk_content_hash = replicate 64 CHR ''a'', ck_original_document_hash = replicate 64 CHR ''a'',
       ck_normalized_document_hash = replicate 64 CHR ''a'' \<rparr>"

definition sample_corpus :: "string \<Rightarrow> corpus" where
  "sample_corpus secret =
     (let h = \<lparr> index_hash = (\<lambda>_. ''h''), build_hash = (\<lambda>_ _ _ _. ''f'') \<rparr>;
          build = Some \<lparr> ib_fingerprint = sample_build, ib_chunk_count = 2, ib_chunks_sha = ''c'',
            ib_chunks = [sample_chunk 1 PUBLIC user_roles ''leave'',
                         sample_chunk 2 RESTRICTED [ADMINISTRATOR] secret] \<rparr> in
      \<lparr> cp_hashes = h, cp_build = build,
        cp_files = snd (build_sparse h default_settings build sound_world no_files) \<rparr>)"

lemma sample_terms:
  "corpus_terms ''leave'' = [''leave'']" "corpus_terms ''audit'' = [''audit'']"
  "salient_query_terms [''leave''] = [''leave'']" "extract_enterprise_identifiers ''leave'' = []"
  "analyze ''leave'' (Some 128) = Inr [''leave'']" "strip ''leave'' \<noteq> []"
  by code_simp+

lemma sample_document_ok: "document_metadata_ok (chunk_document_metadata (sample_chunk i level (r # rs) t))"
proof -
  have h: "content_hash_ok (replicate 64 CHR ''a'')"
    by (simp add: content_hash_ok_def list_all_iff is_hex_def is_digit_def code_point_def)
  have t: "text_ok 2048 ''Leave''" "text_ok 2048 ''corpus''" "text_ok 2048 ''HR''" "text_ok 2048 ''1''"
    by code_simp+
  show ?thesis by (simp add: document_metadata_ok_def chunk_document_metadata_def sample_chunk_def h t)
qed

lemma sample_hashes_ok: "lower_hash_ok sample_build" "lower_hash_ok (ck_chunk_content_hash (sample_chunk i l rs t))"
  by (simp_all add: lower_hash_ok_def sample_build_def sample_chunk_def list_all_iff is_digit_def code_point_def)

lemma sample_chunk_simps [simp]:
  "ck_chunk_id (sample_chunk i l rs t) = i" "ck_search_text (sample_chunk i l rs t) = t"
  "ck_access_level (sample_chunk i l rs t) = l" "ck_allowed_roles (sample_chunk i l rs t) = rs"
  "ck_source_file (sample_chunk i l rs t) = ''leave.md''" "ck_text (sample_chunk i l rs t) = t"
  "ck_status (sample_chunk i l rs t) = ''approved''"
  by (simp_all add: sample_chunk_def)

definition sample_chunks :: "string \<Rightarrow> chunk_record list" where
  "sample_chunks secret = [sample_chunk 1 PUBLIC user_roles ''leave'', sample_chunk 2 RESTRICTED [ADMINISTRATOR] secret]"

definition sample_entry :: "string \<Rightarrow> index_entry" where
  "sample_entry t = \<lparr> ie_length = 1, ie_frequencies = [(t, 1)] \<rparr>"

lemma sample_index:
  "corpus_terms secret = [secret] \<Longrightarrow> build_index (sample_chunks secret) =
   \<lparr> si_documents = [(1, sample_entry ''leave''), (2, sample_entry secret)],
     si_document_frequencies = sorted_items (counter [''leave'', secret]) \<rparr>"
  by (simp add: build_index_def sample_chunks_def index_chunk_def sample_terms counter_def unique_first_def
      sorted_items_def sample_entry_def)

lemma sample_artifacts:
  assumes "corpus_terms secret = [secret]"
  shows "\<exists>m. validate_sparse (cp_hashes (sample_corpus secret)) default_settings (cp_build (sample_corpus secret))
       (cp_files (sample_corpus secret)) = Inr m \<and> sm_average_length m = 1 \<and> sm_fingerprint m = ''f'' \<and>
       sm_ingestion_fingerprint m = sample_build \<and>
       cp_files (sample_corpus secret) = \<lparr> sf_index = Some (build_index (sample_chunks secret)), sf_manifest = Some m \<rparr>"
    "\<exists>b. load_current_chunks (cp_build (sample_corpus secret)) = Inr b \<and> ib_chunks b = sample_chunks secret \<and>
       ib_fingerprint b = sample_build"
proof -
  let ?b = "\<lparr> ib_fingerprint = sample_build, ib_chunk_count = 2, ib_chunks_sha = ''c'', ib_chunks = sample_chunks secret \<rparr>"
  let ?h = "\<lparr> index_hash = (\<lambda>_. ''h''), build_hash = (\<lambda>_ _ _ _. ''f'') \<rparr>"
  have c: "cp_build (sample_corpus secret) = Some ?b" "cp_hashes (sample_corpus secret) = ?h"
    "cp_files (sample_corpus secret) = snd (build_sparse ?h default_settings (Some ?b) sound_world no_files)"
    by (simp_all add: sample_corpus_def sample_chunks_def Let_def)
  have l: "load_current_chunks (Some ?b) = Inr ?b"
    by (simp add: load_current_chunks_def sample_chunks_def ends_with_def suffix_def)
  have v: "length (si_document_frequencies (build_index (sample_chunks secret))) \<le> 2"
    using length_unique_first [of "[''leave'', secret]"]
    by (simp add: sample_index [OF assms] sorted_items_def counter_def)
  obtain m where m: "expected_artifacts ?h default_settings (Some ?b) = Inr (m, build_index (sample_chunks secret))"
    "sm_average_length m = 1" "sm_fingerprint m = ''f''" "sm_ingestion_fingerprint m = sample_build"
    using l v
    by (simp add: expected_artifacts_def default_settings_def Let_def chunk_terms_ok_def sample_terms assms
        sample_chunks_def)
  then have f: "snd (build_sparse ?h default_settings (Some ?b) sound_world no_files)
      = \<lparr> sf_index = Some (build_index (sample_chunks secret)), sf_manifest = Some m \<rparr>"
    by (simp add: build_sparse_sound)
  show "\<exists>m. validate_sparse (cp_hashes (sample_corpus secret)) default_settings (cp_build (sample_corpus secret))
       (cp_files (sample_corpus secret)) = Inr m \<and> sm_average_length m = 1 \<and> sm_fingerprint m = ''f'' \<and>
       sm_ingestion_fingerprint m = sample_build \<and>
       cp_files (sample_corpus secret) = \<lparr> sf_index = Some (build_index (sample_chunks secret)), sf_manifest = Some m \<rparr>"
    unfolding c f using m by (auto simp: validate_sparse_iff)
  show "\<exists>b. load_current_chunks (cp_build (sample_corpus secret)) = Inr b \<and> ib_chunks b = sample_chunks secret \<and>
       ib_fingerprint b = sample_build"
    unfolding c l by simp
qed

lemma sample_admitted:
  "filter (chunk_admitted (sample_principal 7 VIEWER) None) (sample_chunks secret) =
   [sample_chunk 1 PUBLIC user_roles ''leave'']"
  by (simp add: sample_chunks_def chunk_admitted_iff allowed_access_levels_def)

lemma sample_sparse_retrieval:
  assumes "corpus_terms secret = [secret]"
  shows "\<exists>x. 0 < x \<and> retrieve_sparse default_settings (sample_corpus secret) (sample_principal 7 VIEWER) ''leave'' None None
     = Inr \<lparr> srr_evidence = [sparse_evidence_of (sample_chunk 1 PUBLIC user_roles ''leave'') x sample_build ''f''
         [''leave''] [''leave'']], srr_total_candidates = 1 \<rparr>"
proof -
  let ?c = "sample_chunk 1 PUBLIC user_roles ''leave''"
  let ?x = "term_score (3 / 2) (3 / 4) 1 1 [(''leave'', 1)] (sample_entry ''leave'') (''leave'', 1)"
  have x: "?x = ln (4 / 3)"
    by (simp add: term_score_def sample_entry_def dict_get_def idf_def Let_def)
  have pos: "0 < ?x" unfolding x by simp
  have cand: "candidate_documents (build_index (sample_chunks secret)) [?c] = [(1, sample_entry ''leave'')]"
    by (simp add: sample_index [OF assms] candidate_documents_def del: One_nat_def)
  have df: "authorized_frequencies [(1, sample_entry ''leave'')] = [(''leave'', 1)]"
    by (simp add: authorized_frequencies_def sample_entry_def counter_def unique_first_def del: One_nat_def)
  have rank: "rank_chunks default_settings [''leave''] 10 (build_index (sample_chunks secret)) 1 sample_build ''f'' [?c] =
      Inr \<lparr> srr_evidence = [sparse_evidence_of ?c ?x sample_build ''f'' [''leave''] [''leave'']], srr_total_candidates = 1 \<rparr>"
    using pos
    by (simp add: rank_chunks_def Let_def cand df [unfolded sample_entry_def] One_nat_def [symmetric] score_corpus_def default_settings_def counter_def unique_first_def
        sample_terms supported_items_def sample_entry_def matched_salient_terms_def dict_get_def
        has_adequate_support_def prefer_current_def evidence_items_def List.map_filter_simps chunk_of_def
        del: One_nat_def)
  obtain m where m: "validate_sparse (cp_hashes (sample_corpus secret)) default_settings (cp_build (sample_corpus secret))
       (cp_files (sample_corpus secret)) = Inr m" "sm_average_length m = 1" "sm_fingerprint m = ''f''"
    "sm_ingestion_fingerprint m = sample_build"
    "cp_files (sample_corpus secret) = \<lparr> sf_index = Some (build_index (sample_chunks secret)), sf_manifest = Some m \<rparr>"
    using sample_artifacts(1) [OF assms] by blast
  obtain b where b: "load_current_chunks (cp_build (sample_corpus secret)) = Inr b" "ib_chunks b = sample_chunks secret"
    "ib_fingerprint b = sample_build"
    using sample_artifacts(2) [OF assms] by blast
  have auth: "authorized_chunks (sample_principal 7 VIEWER) None (sample_chunks secret) = Inr [?c]"
    unfolding authorized_chunks_Inr sample_admitted
    by (simp add: sample_chunks_def sample_document_ok user_roles_def)
  have k: "selected_top_k default_settings None = 10" "bm25_max_query_tokens default_settings = 128"
    by (simp_all add: selected_top_k_def default_settings_def)
  have run: "retrieve_sparse default_settings (sample_corpus secret) (sample_principal 7 VIEWER) ''leave'' None None =
      rank_chunks default_settings [''leave''] 10 (build_index (sample_chunks secret)) 1 sample_build ''f'' [?c]"
    by (simp add: retrieve_sparse_def k sample_terms m(1) [unfolded m(5)] m(2-5) b auth
        build_authorization_filter_def identified_chunks_def del: One_nat_def)
  show ?thesis by (rule exI [of _ ?x], intro conjI, rule pos, rule trans [OF run rank])
qed

text \<open>C15: Every result of local retrieval is a chunk of the current ingestion build that the principal may
  read and the caller's filters admit, with its text, attribution and access rules and a positive score; the
  terms reported as matched are exactly the salient query terms that occur in the text of the chunk, and they
  are enough of them to support the result; no chunk occurs twice, at most top-k results are returned, and they are in rank order
  (current documents first where the query asks for them).\<close>

theorem sparse_results_authorized:
  assumes "retrieve_sparse s corpus p query top_k filters = Inr r"
    "load_current_chunks (cp_build corpus) = Inr build"
  shows "(\<forall>e \<in> set (srr_evidence r). 0 < se_sparse_score e \<and>
       has_adequate_support (se_salient_query_terms e) (se_matched_query_terms e) \<and>
       (\<exists>c \<in> set (ib_chunks build). chunk_admitted p filters c \<and>
          se_matched_query_terms e = filter (\<lambda>t. t \<in> set (corpus_terms (ck_search_text c)))
            (salient_query_terms (corpus_terms query)) \<and>
          e = sparse_evidence_of c (se_sparse_score e) (ib_fingerprint build) (se_sparse_build_fingerprint e)
                (salient_query_terms (corpus_terms query)) (se_matched_query_terms e))) \<and>
     distinct (map se_chunk_id (srr_evidence r)) \<and>
     int (length (srr_evidence r)) \<le> selected_top_k s top_k \<and> selected_top_k s top_k \<le> 100 \<and>
     sorted (map (\<lambda>e. ({''approved'', ''current''} \<inter> set (corpus_terms query) \<noteq> {} \<and>
        se_status e \<in> {''archived'', ''draft'', ''superseded''}, - se_sparse_score e, se_chunk_id e))
       (srr_evidence r))"
  by (rule sparse_results_facts [OF assms])

theorem sparse_results_authorized_witness:
  "\<exists>r. retrieve_sparse default_settings (sample_corpus ''audit'') (sample_principal 7 VIEWER) ''leave'' None None = Inr r \<and>
     length (srr_evidence r) = 1 \<and> (\<forall>e \<in> set (srr_evidence r).
       \<exists>c \<in> set (sample_chunks ''audit''). chunk_admitted (sample_principal 7 VIEWER) None c \<and> se_text e = ck_text c)"
proof -
  obtain x where run: "retrieve_sparse default_settings (sample_corpus ''audit'') (sample_principal 7 VIEWER) ''leave'' None None
     = Inr \<lparr> srr_evidence = [sparse_evidence_of (sample_chunk 1 PUBLIC user_roles ''leave'') x sample_build ''f''
         [''leave''] [''leave'']], srr_total_candidates = 1 \<rparr>"
    using sample_sparse_retrieval [OF sample_terms(2)] by blast
  obtain b where b: "load_current_chunks (cp_build (sample_corpus ''audit'')) = Inr b" "ib_chunks b = sample_chunks ''audit''"
    using sample_artifacts(2) [OF sample_terms(2)] by blast
  show ?thesis
    using sparse_results_authorized [OF run b(1)] run
    by (auto simp: b(2)) (auto simp: sparse_evidence_of_def)
qed

theorem sparse_noninterference_witness:
  "\<exists>r1 r2. retrieve_sparse default_settings (sample_corpus ''leave'') (sample_principal 7 VIEWER) ''leave'' None None = Inr r1 \<and>
     retrieve_sparse default_settings (sample_corpus ''audit'') (sample_principal 7 VIEWER) ''leave'' None None = Inr r2 \<and>
     map unstamped (srr_evidence r1) = map unstamped (srr_evidence r2)"
proof -
  obtain r1 where r1: "retrieve_sparse default_settings (sample_corpus ''leave'') (sample_principal 7 VIEWER) ''leave'' None None = Inr r1"
    using sample_sparse_retrieval [OF sample_terms(1)] by blast
  obtain r2 where r2: "retrieve_sparse default_settings (sample_corpus ''audit'') (sample_principal 7 VIEWER) ''leave'' None None = Inr r2"
    using sample_sparse_retrieval [OF sample_terms(2)] by blast
  obtain b1 where b1: "load_current_chunks (cp_build (sample_corpus ''leave'')) = Inr b1" "ib_chunks b1 = sample_chunks ''leave''"
    using sample_artifacts(2) [OF sample_terms(1)] by blast
  obtain b2 where b2: "load_current_chunks (cp_build (sample_corpus ''audit'')) = Inr b2" "ib_chunks b2 = sample_chunks ''audit''"
    using sample_artifacts(2) [OF sample_terms(2)] by blast
  have avg: "map_option sm_average_length (sf_manifest (cp_files (sample_corpus secret))) = Some 1"
    if "corpus_terms secret = [secret]" for secret
    using sample_artifacts(1) [OF that] by auto
  have "map unstamped (srr_evidence r1) = map unstamped (srr_evidence r2)"
    using sparse_noninterference [OF r1 r2 b1(1) b2(1)] by (simp add: b1 b2 sample_admitted avg sample_terms)
  then show ?thesis using r1 r2 by blast
qed

theorem provider_filter_equals_local_check_witness:
  "let number = (\<lambda>n. replicate n CHR ''0''); c = sample_chunk 3 PUBLIC user_roles ''leave'' in
   case (chunk_metadata number (\<lambda>_. 0) 40000 sample_build c,
         build_authorization_filter number (sample_principal 7 VIEWER) sample_build
           (Some (no_filters\<lparr> qf_tags := [''leave''] \<rparr>))) of
     (Inr md, Inr clauses) \<Rightarrow> (\<forall>cl \<in> set clauses. pinecone_match md cl)
   | _ \<Rightarrow> False"
proof -
  let ?n = "\<lambda>n. replicate n CHR ''0''" and ?c = "sample_chunk 3 PUBLIC user_roles ''leave''"
    and ?f = "Some (no_filters\<lparr> qf_tags := [''leave''] \<rparr>)"
  have inj: "inj ?n" by (rule injI) (metis length_replicate)
  obtain md where md: "chunk_metadata ?n (\<lambda>_. 0) 40000 sample_build ?c = Inr md"
    by (simp add: chunk_metadata_def)
  obtain clauses where cl: "build_authorization_filter ?n (sample_principal 7 VIEWER) sample_build ?f = Inr clauses"
    by (simp add: build_authorization_filter_def no_filters_def)
  have "\<forall>cl \<in> set clauses. pinecone_match md cl"
    using provider_filter_equals_local_check [OF pinecone.filter_provider_axioms inj md cl]
    by (simp add: chunk_admitted_iff allowed_access_levels_def filters_admit_def no_filters_def before_def after_def
        sample_chunk_def)
  then show ?thesis using md cl by (simp add: Let_def)
qed

end
