(* ===== verification/Hybrid_Properties.thy ===== *)
theory Hybrid_Properties
  imports Hybrid_Retrieval Sparse_Properties
begin

text \<open>
  Correctness of retries, dense retrieval, fusion and the hybrid service, and the contract of a knowledge
  retriever (\<open>knowledge_retriever\<close>), which the hybrid service and the sparse-only adapter both fulfil.
\<close>

section \<open>Retries\<close>

definition transient :: "'a call \<Rightarrow> bool" where
  "transient c = (\<exists>m. c = Failed (RetrievalTransientError m))"

lemma retry_from_step:
  "retry_from attempt (Suc left) base op =
     (if transient (op attempt)
      then (fst (retry_from (Suc attempt) left base op),
            retry_delay attempt base (1 / 5) # snd (retry_from (Suc attempt) left base op))
      else (op attempt, []))"
  by (auto simp: transient_def split: call.splits retrieval_error.splits prod.splits)

declare retry_from.simps(2) [simp del]

lemma retry_from_spec:
  "length (snd (retry_from attempt left base op)) \<le> left \<and>
   fst (retry_from attempt left base op) = op (attempt + length (snd (retry_from attempt left base op))) \<and>
   (\<forall>i < length (snd (retry_from attempt left base op)). transient (op (attempt + i)) \<and>
      snd (retry_from attempt left base op) ! i = retry_delay (attempt + i) base (1 / 5))"
proof (induction left arbitrary: attempt)
  case 0
  then show ?case by simp
next
  case (Suc left)
  show ?case using Suc.IH [of "Suc attempt"] by (simp add: retry_from_step All_less_Suc2)
qed

lemma retry_from_exhausted:
  "transient (fst (retry_from attempt left base op)) \<Longrightarrow> length (snd (retry_from attempt left base op)) = left"
  by (induction left arbitrary: attempt) (auto simp: retry_from_step split: if_splits)

lemma real_mod_bounds: "0 < y \<Longrightarrow> 0 \<le> real_mod x y \<and> real_mod x y < y"
proof -
  assume y: "0 < y"
  from floor_divide_lower [OF y, of x] floor_divide_upper [OF y, of x] show ?thesis unfolding real_mod_def by (auto simp: algebra_simps)
qed

lemma retry_delay_bounds:
  assumes "0 < base" shows "base * 2 ^ n \<le> retry_delay n base (1 / 5)" "retry_delay n base (1 / 5) < base * 2 ^ n * (6 / 5)"
proof -
  let ?j = "real_mod (real n * (137 / 1000)) (1 / 5)"
  have j: "0 \<le> ?j" "?j < 1 / 5" using real_mod_bounds [of "1 / 5" "real n * (137 / 1000)"] by auto
  have b: "0 < base * 2 ^ n" using assms by simp
  have r: "retry_delay n base (1 / 5) = base * 2 ^ n * (1 + ?j)" by (simp add: retry_delay_def)
  have "1 \<le> 1 + ?j" "1 + ?j < 6 / 5" using j by auto
  then show "base * 2 ^ n \<le> retry_delay n base (1 / 5)" "retry_delay n base (1 / 5) < base * 2 ^ n * (6 / 5)"
    unfolding r using b by (simp_all only: mult_less_cancel_left_pos mult_le_cancel_left1) simp
qed

section \<open>Dictionaries keyed by chunk\<close>

lemma by_chunk_snoc: "by_chunk key (xs @ [x]) = dict_set (key x) x (by_chunk key xs)"
  by (simp add: by_chunk_def)

lemma by_chunk_keys [simp]: "set (dict_keys (by_chunk key xs)) = key ` set xs"
  by (induction xs rule: rev_induct) (simp_all add: by_chunk_snoc dict_keys_set by_chunk_def del: set_map)

lemma by_chunk_distinct: "distinct (dict_keys (by_chunk key xs))"
  by (induction xs rule: rev_induct) (simp_all add: by_chunk_snoc dict_distinct_set, simp add: by_chunk_def)

lemma by_chunk_Some: "map_of (by_chunk key xs) i = Some x \<Longrightarrow> x \<in> set xs \<and> key x = i"
  by (induction xs rule: rev_induct)
    (auto simp: by_chunk_snoc dict_get_set split: if_splits, simp add: by_chunk_def)

lemma by_chunk_None: "map_of (by_chunk key xs) i = None \<longleftrightarrow> i \<notin> key ` set xs"
  by (metis by_chunk_keys map_of_eq_None_iff set_map)

lemma by_chunk_unique:
  "distinct (map key xs) \<Longrightarrow> x \<in> set xs \<Longrightarrow> map_of (by_chunk key xs) (key x) = Some x"
proof -
  assume d: "distinct (map key xs)" and x: "x \<in> set xs"
  obtain y where y: "map_of (by_chunk key xs) (key x) = Some y"
    using x by_chunk_None [of key xs "key x"] by auto
  then have "y \<in> set xs" "key y = key x" using by_chunk_Some by force+
  then have "y = x" using d x by (auto simp: distinct_map inj_on_def)
  then show ?thesis using y by simp
qed

section \<open>Normalized scores\<close>

lemma normalize_scores_keys [simp]: "dict_keys (normalize_scores d) = dict_keys d"
  by (auto simp: normalize_scores_def Let_def split_def o_def)

lemma normalize_scores_range: "(k, v) \<in> set (normalize_scores d) \<Longrightarrow> 0 \<le> v \<and> v \<le> 1"
proof -
  assume kv: "(k, v) \<in> set (normalize_scores d)"
  let ?lo = "Min (set (map snd d))" and ?hi = "Max (set (map snd d))"
  have ne: "d \<noteq> []" using kv by (auto simp: normalize_scores_def)
  show ?thesis
  proof (cases "?lo = ?hi")
    case True
    then show ?thesis using kv ne by (auto simp: normalize_scores_def Let_def)
  next
    case False
    then obtain x where kx: "(k, x) \<in> set d" and x: "v = (x - ?lo) / (?hi - ?lo)"
      using kv ne by (auto simp: normalize_scores_def Let_def)
    have b: "?lo \<le> x" "x \<le> ?hi" using kx by (auto intro!: Min_le Max_ge simp: image_iff) force+
    with False have "0 < ?hi - ?lo" by linarith
    then show ?thesis using b unfolding x by (simp add: divide_le_eq_1)
  qed
qed

lemma normalized_score: "0 \<le> dict_get (normalize_scores d) i 0 \<and> dict_get (normalize_scores d) i 0 \<le> 1"
  by (auto simp: dict_get_def split: option.splits dest!: map_of_SomeD normalize_scores_range)

lemma weighted_unit:
  fixes a b x y :: real
  assumes "0 \<le> a" "0 \<le> b" "0 < a + b" "0 \<le> x" "x \<le> 1" "0 \<le> y" "y \<le> 1"
  shows "0 \<le> x * (a / (a + b)) + y * (b / (a + b))" "x * (a / (a + b)) + y * (b / (a + b)) \<le> 1"
proof -
  show "0 \<le> x * (a / (a + b)) + y * (b / (a + b))" using assms by simp
  have "x * (a / (a + b)) + y * (b / (a + b)) \<le> a / (a + b) + b / (a + b)"
    using assms by (intro add_mono mult_left_le_one_le) simp_all
  also have "\<dots> = 1" using assms by (simp flip: add_divide_distrib)
  finally show "x * (a / (a + b)) + y * (b / (a + b)) \<le> 1" .
qed

definition normal_value :: "real set \<Rightarrow> real \<Rightarrow> real" where
  "normal_value xs x = (if Min xs = Max xs then 1 else (x - Min xs) / (Max xs - Min xs))"

lemma normalize_value:
  "map_of d i = Some x \<Longrightarrow> dict_get (normalize_scores d) i 0 = normal_value (set (map snd d)) x"
proof -
  assume m: "map_of d i = Some x"
  have all: "map_of (map (\<lambda>(k, v). (k, f v)) d) i = map_option f (map_of d i)" for f :: "real \<Rightarrow> real"
    by (induction d) auto
  show ?thesis using m all [of "\<lambda>_. 1"] all [of "\<lambda>v. (v - Min (set (map snd d))) / (Max (set (map snd d)) - Min (set (map snd d)))"]
    by (auto simp: normalize_scores_def dict_get_def normal_value_def Let_def)
qed

text \<open>The score of a chunk in a branch, where the last item counts, and its normalized score.\<close>

definition branch_score :: "('a \<Rightarrow> uuid) \<Rightarrow> ('a \<Rightarrow> real) \<Rightarrow> 'a list \<Rightarrow> uuid \<Rightarrow> real option" where
  "branch_score key score items i =
     (case filter (\<lambda>x. key x = i) items of [] \<Rightarrow> None | x # xs \<Rightarrow> Some (score (last (x # xs))))"

definition normal_score :: "('a \<Rightarrow> uuid) \<Rightarrow> ('a \<Rightarrow> real) \<Rightarrow> 'a list \<Rightarrow> uuid \<Rightarrow> real" where
  "normal_score key score items i =
     (case branch_score key score items i of None \<Rightarrow> 0
      | Some x \<Rightarrow> normal_value ((\<lambda>j. the (branch_score key score items j)) ` key ` set items) x)"

lemma by_chunk_last:
  "map_of (by_chunk key xs) i = (case filter (\<lambda>x. key x = i) xs of [] \<Rightarrow> None | y # ys \<Rightarrow> Some (last (y # ys)))"
proof (induction xs rule: rev_induct)
  case Nil
  then show ?case by (simp add: by_chunk_def)
next
  case (snoc x xs)
  then show ?case by (auto simp: by_chunk_snoc dict_get_set split: list.splits)
qed

lemma branch_score_by_chunk: "branch_score key score items i = map_option score (map_of (by_chunk key items) i)"
  by (simp add: branch_score_def by_chunk_last split: list.splits)

lemma branch_scores_set:
  "(\<lambda>j. the (branch_score key score items j)) ` key ` set items =
   set (map snd (map (\<lambda>(k, x). (k, score x)) (by_chunk key items)))"
proof -
  let ?d = "by_chunk key items"
  have e: "the (branch_score key score items k) = score x" if "(k, x) \<in> set ?d" for k x
    using map_of_is_SomeI [OF by_chunk_distinct that] by (simp add: branch_score_by_chunk)
  have k: "fst ` set ?d = key ` set items" using by_chunk_keys [of key items] by (simp only: list.set_map)
  have "(\<lambda>j. the (branch_score key score items j)) ` key ` set items =
      (\<lambda>j. the (branch_score key score items j)) ` fst ` set ?d"
    unfolding k ..
  also have "\<dots> = (\<lambda>(k, x). score x) ` set ?d"
    unfolding image_image by (rule image_cong [OF refl]) (auto simp: e)
  also have "\<dots> = set (map snd (map (\<lambda>(k, x). (k, score x)) ?d))"
    unfolding list.set_map image_image by (simp add: case_prod_beta)
  finally show ?thesis .
qed

lemma normal_score_by_chunk:
  "dict_get (normalize_scores (map (\<lambda>(k, x). (k, score x)) (by_chunk key items))) i 0 = normal_score key score items i"
proof -
  let ?d = "map (\<lambda>(k, x). (k, score x)) (by_chunk key items)"
  have m: "map_of ?d i = branch_score key score items i" by (simp add: branch_score_by_chunk map_of_map)
  show ?thesis
  proof (cases "branch_score key score items i")
    case None
    then have "i \<notin> fst ` set ?d" using m by (metis map_of_eq_None_iff)
    then have "i \<notin> set (dict_keys ?d)" unfolding list.set_map [where f = fst] .
    then have "i \<notin> set (dict_keys (normalize_scores ?d))" unfolding normalize_scores_keys .
    then have "map_of (normalize_scores ?d) i = None" unfolding map_of_eq_None_iff list.set_map [where f = fst] .
    then show ?thesis using None by (simp add: dict_get_def normal_score_def)
  next
    case (Some x)
    then show ?thesis using normalize_value [of ?d i x] m
      by (simp add: normal_score_def branch_scores_set del: map_map)
  qed
qed

section \<open>Dense retrieval\<close>

lemma parse_evidence_fields:
  "parse_evidence parse_uuid rid score md = Some e \<Longrightarrow>
   de_dense_score e = score \<and> dense_evidence_ok e \<and> map_of md ''build_fingerprint'' = Some (MStr (de_build_fingerprint e))"
proof -
  assume "parse_evidence parse_uuid rid score md = Some e"
  then obtain ls le where "de_dense_score e = score" "meta_line md ''source_line_start'' = Some ls"
    "meta_line md ''source_line_end'' = Some le" "de_source_line_start e = ls" "de_source_line_end e = le"
    "lower_hash_ok (de_chunk_content_hash e)" "lower_hash_ok (de_build_fingerprint e)"
    "meta_text md ''build_fingerprint'' = Some (de_build_fingerprint e)"
    unfolding parse_evidence_def by (auto simp: bind_eq_Some_conv split: if_splits)
  then show ?thesis
    by (auto simp: dense_evidence_ok_def meta_line_def meta_text_def split: option.splits meta_value.splits if_splits)
qed

lemma read_match_Some:
  assumes "read_match parse_uuid fp metric m = Some (e, md)"
  shows "de_build_fingerprint e = fp" "dense_evidence_ok e" "document_metadata_ok md"
    "dm_access_level md = de_access_level e" "dm_allowed_roles md = de_allowed_roles e"
    "metric = ''cosine'' \<Longrightarrow> - 1 \<le> de_dense_score e \<and> de_dense_score e \<le> 1"
proof -
  obtain d score where p: "parse_evidence parse_uuid (pm_id m) score d = Some e" "pm_score m = Some score"
    "map_of d ''build_fingerprint'' = Some (MStr fp)" "metric = ''cosine'' \<longrightarrow> - 1 \<le> score \<and> score \<le> 1"
    using assms by (auto simp: read_match_def parse_match_def bind_eq_Some_conv split: if_splits)
  show "de_build_fingerprint e = fp" "dense_evidence_ok e"
    "metric = ''cosine'' \<Longrightarrow> - 1 \<le> de_dense_score e \<and> de_dense_score e \<le> 1"
    using parse_evidence_fields [OF p(1)] p by auto
  obtain created where "md = dense_document_metadata e created" "document_metadata_ok md"
    using assms by (auto simp: read_match_def bind_eq_Some_conv split: if_splits)
  then show "document_metadata_ok md" "dm_access_level md = de_access_level e" "dm_allowed_roles md = de_allowed_roles e"
    by (simp_all add: dense_document_metadata_def)
qed

definition tally_ok :: "authenticated_principal \<Rightarrow> string \<Rightarrow> uuid set option \<Rightarrow> nat \<Rightarrow> match_tally \<Rightarrow> bool" where
  "tally_ok p fp exact n t \<longleftrightarrow>
     (\<forall>e \<in> set (mt_evidence t). evidence_authorized p e \<and> de_build_fingerprint e = fp \<and> dense_evidence_ok e \<and>
        (case exact of None \<Rightarrow> True | Some ids \<Rightarrow> de_document_id e \<in> ids)) \<and>
     length (mt_evidence t) + mt_dropped t + mt_malformed t = n"

lemma sort_matches_ok:
  "tally_ok p fp exact n t \<Longrightarrow>
   tally_ok p fp exact (n + length ms) (sort_matches (read_match parse_uuid fp metric) p exact ms t)"
proof (induction ms arbitrary: n t)
  case Nil
  then show ?case by simp
next
  case (Cons m ms)
  have step: "tally_ok p fp exact (Suc n + length ms) (sort_matches (read_match parse_uuid fp metric) p exact ms u)"
    if "tally_ok p fp exact (Suc n) u" for u
    by (rule Cons.IH [OF that])
  show ?case
  proof (cases "read_match parse_uuid fp metric m")
    case None
    have "tally_ok p fp exact (Suc n) (t\<lparr> mt_malformed := mt_malformed t + 1 \<rparr>)"
      using Cons.prems by (simp add: tally_ok_def)
    from step [OF this] have "tally_ok p fp exact (n + length (m # ms))
        (sort_matches (read_match parse_uuid fp metric) p exact ms (t\<lparr> mt_malformed := mt_malformed t + 1 \<rparr>))"
      by simp
    then show ?thesis unfolding sort_matches.simps None by simp
  next
    case (Some r)
    obtain e md where r: "r = (e, md)" by (cases r)
    note f = read_match_Some [OF Some [unfolded r]]
    have drop: "tally_ok p fp exact (Suc n) (t\<lparr> mt_dropped := mt_dropped t + 1 \<rparr>)"
      using Cons.prems by (simp add: tally_ok_def)
    show ?thesis
    proof (cases "is_document_authorized p (Some md) \<and> (case exact of None \<Rightarrow> True | Some ids \<Rightarrow> de_document_id e \<in> ids)")
      case True
      then have "evidence_authorized p e"
        using f(4,5) by (simp add: evidence_authorized_def is_document_authorized_def)
      then have "tally_ok p fp exact (Suc n) (t\<lparr> mt_evidence := mt_evidence t @ [e] \<rparr>)"
        using Cons.prems f(1,2) True by (auto simp: tally_ok_def)
      from step [OF this] have "tally_ok p fp exact (n + length (m # ms))
          (sort_matches (read_match parse_uuid fp metric) p exact ms (t\<lparr> mt_evidence := mt_evidence t @ [e] \<rparr>))"
        by simp
      then show ?thesis unfolding sort_matches.simps Some r using True by (auto split: option.splits)
    next
      case False
      from step [OF drop] have "tally_ok p fp exact (n + length (m # ms))
          (sort_matches (read_match parse_uuid fp metric) p exact ms (t\<lparr> mt_dropped := mt_dropped t + 1 \<rparr>))"
        by simp
      then show ?thesis unfolding sort_matches.simps Some r using False by (auto split: option.splits)
    qed
  qed
qed

lemma tally_matches_ok:
  "tally_ok p fp exact (drr_total_provider_matches (tally_matches (read_match parse_uuid fp metric) p exact ms))
     \<lparr> mt_evidence = drr_evidence (tally_matches (read_match parse_uuid fp metric) p exact ms),
       mt_dropped = drr_dropped_unauthorized (tally_matches (read_match parse_uuid fp metric) p exact ms),
       mt_malformed = drr_malformed_results (tally_matches (read_match parse_uuid fp metric) p exact ms) \<rparr>"
  using sort_matches_ok [of p fp exact 0 "\<lparr> mt_evidence = [], mt_dropped = 0, mt_malformed = 0 \<rparr>" ms parse_uuid metric]
  by (simp add: tally_matches_def Let_def tally_ok_def)

lemma retrieve_dense_Inr:
  assumes "retrieve_dense s build dp p query top_k filters = Inr r" "load_current_chunks build = Inr b"
  shows "tally_ok p (ib_fingerprint b)
      (if extract_enterprise_identifiers (normalized_query query) = [] then None
       else Some (matching_document_ids (ib_chunks b) (extract_enterprise_identifiers (normalized_query query))))
      (drr_total_provider_matches r)
      \<lparr> mt_evidence = drr_evidence r, mt_dropped = drr_dropped_unauthorized r, mt_malformed = drr_malformed_results r \<rparr>"
proof -
  let ?ids = "extract_enterprise_identifiers (normalized_query query)"
  let ?exact = "matching_document_ids (ib_chunks b) ?ids"
  let ?ex = "if ?ids = [] then None else Some ?exact"
  let ?t0 = "\<lparr> mt_evidence = [], mt_dropped = 0, mt_malformed = 0 \<rparr>"
  have t0: "tally_ok p fp ex 0 ?t0" for fp ex by (simp add: tally_ok_def)
  show ?thesis
  proof (cases "?ids \<noteq> [] \<and> ?exact = {}")
    case True
    then have "r = \<lparr> drr_evidence = [], drr_total_provider_matches = 0, drr_dropped_unauthorized = 0, drr_malformed_results = 0 \<rparr>"
      using assms by (auto simp: retrieve_dense_def Let_def split: if_splits)
    then show ?thesis using t0 by simp
  next
    case False
    obtain vector where v: "dp_embed dp (normalized_query query) = Answer vector"
      using assms False by (auto simp: retrieve_dense_def Let_def split: if_splits call.splits)
    obtain dim where d: "dp_dimension dp = Inr dim" "length vector = dim"
      using assms False v by (auto simp: retrieve_dense_def Let_def split: if_splits sum.splits)
    obtain cls where c: "build_authorization_filter (dp_uuid_text dp) p (ib_fingerprint b) filters = Inr cls"
      using assms False v d by (auto simp: retrieve_dense_def Let_def split: if_splits)
    have "\<exists>ms. tally_matches (read_match (dp_parse_uuid dp) (ib_fingerprint b) (pinecone_metric s)) p ?ex ms = r"
      using assms False v d c by (auto simp: retrieve_dense_def Let_def split: if_splits call.splits)
    then obtain ms where "r = tally_matches (read_match (dp_parse_uuid dp) (ib_fingerprint b) (pinecone_metric s)) p ?ex ms"
      by blast
    then show ?thesis by (simp only: tally_matches_ok)
  qed
qed

section \<open>Fusion\<close>

lemma as_dense_Inr:
  assumes "as_dense uuid_text e = Inr d"
  shows "de_chunk_id d = se_chunk_id e" "de_access_level d = se_access_level e"
    "de_allowed_roles d = se_allowed_roles e" "de_text d = se_text e" "de_status d = se_status e"
    "de_build_fingerprint d = se_build_fingerprint e" "dense_evidence_ok d"
  using assms by (auto simp: as_dense_def Let_def split: if_splits)

text \<open>The row of a chunk, apart from its evidence.\<close>

definition row_scores ::
  "real \<Rightarrow> real \<Rightarrow> dense_evidence list \<Rightarrow> sparse_evidence list \<Rightarrow> uuid \<Rightarrow> dense_evidence \<Rightarrow> hybrid_evidence" where
  "row_scores a b dense sparse i evidence =
     (let d = map_of (by_chunk de_chunk_id dense) i; e = map_of (by_chunk se_chunk_id sparse) i;
          nd = dict_get (normalize_scores (map (\<lambda>(k, x). (k, de_dense_score x)) (by_chunk de_chunk_id dense))) i 0;
          ns = dict_get (normalize_scores (map (\<lambda>(k, x). (k, se_sparse_score x)) (by_chunk se_chunk_id sparse))) i 0 in
      \<lparr> he_evidence = evidence, he_raw_dense_score = map_option de_dense_score d,
        he_raw_sparse_score = map_option se_sparse_score e, he_normalized_dense_score = nd,
        he_normalized_sparse_score = ns, he_hybrid_score = nd * a + ns * b,
        he_dense_rank = map_of (rank_of de_chunk_id dense) i, he_sparse_rank = map_of (rank_of se_chunk_id sparse) i,
        he_final_rank = 1,
        he_retrieval_modes = (if d = None then {} else {''dense''}) \<union> (if e = None then {} else {''sparse''}) \<rparr>)"

lemma fuse_row_eq:
  "fuse_row uuid_text a b dense sparse i =
     (let checked = (\<lambda>evidence. if hybrid_evidence_ok (row_scores a b dense sparse i evidence)
            then Return (Some (row_scores a b dense sparse i evidence)) else Raise (PyValueError ''hybrid evidence'')) in
      case (map_of (by_chunk de_chunk_id dense) i, map_of (by_chunk se_chunk_id sparse) i) of
        (Some dx, Some ex) \<Rightarrow>
          (if attribution_agrees dx ex then checked dx
           else Raise (RetrievalDataIntegrityError ''dense and sparse attribution disagree''))
      | (Some dx, None) \<Rightarrow> checked dx
      | (None, Some ex) \<Rightarrow> bind_result (as_dense uuid_text ex) checked
      | (None, None) \<Rightarrow> Return None)"
  by (simp only: fuse_row_def row_scores_def Let_def)

definition fused_from ::
  "(uuid \<Rightarrow> string) \<Rightarrow> dense_evidence list \<Rightarrow> sparse_evidence list \<Rightarrow> uuid \<Rightarrow> dense_evidence \<Rightarrow> bool" where
  "fused_from uuid_text dense sparse i x \<longleftrightarrow> de_chunk_id x = i \<and>
     (x \<in> set dense \<or> (\<exists>e \<in> set sparse. as_dense uuid_text e = Inr x) \<and> i \<notin> de_chunk_id ` set dense)"

lemma fuse_row_Some:
  assumes "fuse_row uuid_text a b dense sparse i = Inr (Some h)"
  shows "\<exists>x. h = row_scores a b dense sparse i x \<and> fused_from uuid_text dense sparse i x" "hybrid_evidence_ok h"
proof -
  show "hybrid_evidence_ok h"
    using assms by (auto simp: fuse_row_eq Let_def split: option.splits if_splits)
  show "\<exists>x. h = row_scores a b dense sparse i x \<and> fused_from uuid_text dense sparse i x"
  proof (cases "map_of (by_chunk de_chunk_id dense) i")
    case None
    then obtain e x where "map_of (by_chunk se_chunk_id sparse) i = Some e" "as_dense uuid_text e = Inr x"
      "h = row_scores a b dense sparse i x"
      using assms by (auto simp: fuse_row_eq Let_def split: option.splits if_splits)
    then show ?thesis
      using as_dense_Inr(1) by_chunk_Some None by (fastforce simp: fused_from_def by_chunk_None)
  next
    case (Some d)
    then have "h = row_scores a b dense sparse i d"
      using assms by (auto simp: fuse_row_eq Let_def split: option.splits if_splits)
    then show ?thesis using by_chunk_Some [OF Some] by (auto simp: fused_from_def)
  qed
qed

lemma fuse_row_None: "fuse_row uuid_text a b dense sparse i = Inr None \<Longrightarrow> i \<notin> de_chunk_id ` set dense \<union> se_chunk_id ` set sparse"
  by (auto simp: fuse_row_eq Let_def by_chunk_None [symmetric] simp del: by_chunk_None split: option.splits if_splits)

lemma collect_rows_Inr:
  "collect_rows row is = Inr rs \<Longrightarrow> (\<And>i. i \<in> set is \<Longrightarrow> row i \<noteq> Inr None) \<Longrightarrow>
   list_all2 (\<lambda>i h. row i = Inr (Some h)) is rs"
proof (induction "is" arbitrary: rs)
  case Nil
  then show ?case by simp
next
  case (Cons i "is")
  then obtain r rs' where "row i = Inr r" "collect_rows row is = Inr rs'" "rs = (case r of None \<Rightarrow> rs' | Some h \<Rightarrow> h # rs')"
    by auto
  then show ?case using Cons.IH [of rs'] Cons.prems(2) by (cases r) auto
qed

lemma collect_rows_total:
  "(\<And>i. i \<in> set is \<Longrightarrow> \<exists>r. row i = Inr r) \<Longrightarrow> \<exists>rs. collect_rows row is = Inr rs"
  by (induction "is") fastforce+

lemma fusion_key_rank [simp]: "fusion_key (h\<lparr> he_final_rank := r \<rparr>) = fusion_key h"
  by (simp add: fusion_key_def)

lemma numbered_facts:
  defines "number xs \<equiv> map (\<lambda>(rank, h). h\<lparr> he_final_rank := rank \<rparr>) (enumerate 1 xs)"
  shows "map he_final_rank (number xs) = [1..<Suc (length xs)]" "length (number xs) = length xs"
    "map fusion_key (number xs) = map fusion_key xs" "map he_evidence (number xs) = map he_evidence xs"
    "h \<in> set (number xs) \<Longrightarrow> \<exists>g \<in> set xs. \<exists>r \<ge> 1. h = g\<lparr> he_final_rank := r \<rparr>"
proof -
  have "map he_final_rank (number xs) = map fst (enumerate 1 xs)"
    unfolding number_def map_map by (rule map_cong) auto
  then show "map he_final_rank (number xs) = [1..<Suc (length xs)]" by (simp add: map_fst_enumerate)
  show "length (number xs) = length xs" by (simp add: number_def)
  have "map fusion_key (number xs) = map (fusion_key \<circ> snd) (enumerate 1 xs)"
    unfolding number_def map_map by (rule map_cong) auto
  then show "map fusion_key (number xs) = map fusion_key xs" by (metis map_map map_snd_enumerate)
  have "map he_evidence (number xs) = map (he_evidence \<circ> snd) (enumerate 1 xs)"
    unfolding number_def map_map by (rule map_cong) auto
  then show "map he_evidence (number xs) = map he_evidence xs" by (metis map_map map_snd_enumerate)
  show "h \<in> set (number xs) \<Longrightarrow> \<exists>g \<in> set xs. \<exists>r \<ge> 1. h = g\<lparr> he_final_rank := r \<rparr>"
    unfolding number_def enumerate_eq_zip by (fastforce dest: set_zip_leftD set_zip_rightD simp del: upt_Suc)
qed

lemma fuse_Inr:
  assumes "fuse uuid_text dw sw k dense sparse = Inr rows"
  obtains rs where "0 < dw + sw"
    "rows = map (\<lambda>(rank, h). h\<lparr> he_final_rank := rank \<rparr>) (enumerate 1 (take k (sort_key fusion_key rs)))"
    "list_all2 (\<lambda>i h. fuse_row uuid_text (dw / (dw + sw)) (sw / (dw + sw)) dense sparse i = Inr (Some h))
       (sorted_list_of_set (de_chunk_id ` set dense \<union> se_chunk_id ` set sparse)) rs"
proof -
  let ?U = "de_chunk_id ` set dense \<union> se_chunk_id ` set sparse"
  let ?is = "sort (unique_first (dict_keys (by_chunk de_chunk_id dense) @ dict_keys (by_chunk se_chunk_id sparse)))"
  have u: "set ?is = ?U" by (simp del: set_map)
  have ids: "?is = sorted_list_of_set ?U"
    by (rule sorted_distinct_set_unique) (simp_all only: u sorted_sort distinct_sort distinct_unique_first
        set_sorted_list_of_set sorted_sorted_list_of_set distinct_sorted_list_of_set finite_UnI finite_imageI finite_set)
  obtain rs where rs: "collect_rows (fuse_row uuid_text (dw / (dw + sw)) (sw / (dw + sw)) dense sparse) ?is = Inr rs"
    "rows = map (\<lambda>(rank, h). h\<lparr> he_final_rank := rank \<rparr>) (enumerate 1 (take k (sort_key fusion_key rs)))"
    using assms by (auto simp: fuse_def Let_def split: if_splits)
  have "0 < dw + sw" using assms by (auto simp: fuse_def Let_def split: if_splits)
  moreover have "list_all2 (\<lambda>i h. fuse_row uuid_text (dw / (dw + sw)) (sw / (dw + sw)) dense sparse i = Inr (Some h)) ?is rs"
    using rs(1) by (rule collect_rows_Inr) (use u fuse_row_None in blast)
  ultimately show thesis using rs(2) that unfolding ids by blast
qed

lemma weight_cancel: "(w::real) \<noteq> 0 \<Longrightarrow> (x * (a / w) + y * (b / w)) * w = x * a + y * b"
  by (simp add: distrib_right)

lemma list_all2_map_eq: "list_all2 P xs ys \<Longrightarrow> (\<And>x y. P x y \<Longrightarrow> f y = x) \<Longrightarrow> map f ys = xs"
  by (induction rule: list_all2_induct) auto

lemma list_all2_set: "list_all2 P xs ys \<Longrightarrow> y \<in> set ys \<Longrightarrow> \<exists>x \<in> set xs. P x y"
  by (induction rule: list_all2_induct) auto

text \<open>The key a chunk is ranked by, from what the branches say of it.\<close>

definition candidate_key ::
  "real \<Rightarrow> real \<Rightarrow> dense_evidence list \<Rightarrow> sparse_evidence list \<Rightarrow> uuid \<Rightarrow>
   real \<times> real \<times> real \<times> (bool \<times> real) \<times> (bool \<times> real) \<times> uuid" where
  "candidate_key dw sw dense sparse i =
     (let nd = normal_score de_chunk_id de_dense_score dense i; ns = normal_score se_chunk_id se_sparse_score sparse i in
      (- (nd * (dw / (dw + sw)) + ns * (sw / (dw + sw))), - nd, - ns,
       raw_key (branch_score de_chunk_id de_dense_score dense i),
       raw_key (branch_score se_chunk_id se_sparse_score sparse i), i))"

lemma sort_key_image: "(\<And>x. x \<in> set xs \<Longrightarrow> f x = g (h x)) \<Longrightarrow> map h (sort_key f xs) = sort_key g (map h xs)"
proof -
  have ins: "map h (insort_key f x ys) = insort_key g (h x) (map h ys)"
    if "f x = g (h x)" "\<forall>y \<in> set ys. f y = g (h y)" for x ys
    using that by (induction ys) auto
  show "(\<And>x. x \<in> set xs \<Longrightarrow> f x = g (h x)) \<Longrightarrow> map h (sort_key f xs) = sort_key g (map h xs)"
    by (induction xs) (simp_all add: ins)
qed

lemma row_scores_pinned:
  assumes "h = row_scores (dw / (dw + sw)) (sw / (dw + sw)) dense sparse i x"
  shows "he_raw_dense_score h = branch_score de_chunk_id de_dense_score dense i"
    "he_raw_sparse_score h = branch_score se_chunk_id se_sparse_score sparse i"
    "he_normalized_dense_score h = normal_score de_chunk_id de_dense_score dense i"
    "he_normalized_sparse_score h = normal_score se_chunk_id se_sparse_score sparse i"
    "de_chunk_id x = i \<Longrightarrow> fusion_key h = candidate_key dw sw dense sparse i"
  by (simp_all add: assms row_scores_def Let_def branch_score_by_chunk normal_score_by_chunk fusion_key_def
      candidate_key_def)

lemma fusion_ranking_facts:
  assumes "fuse uuid_text dw sw k dense sparse = Inr rows"
  shows "map (de_chunk_id \<circ> he_evidence) rows =
       take k (sort_key (candidate_key dw sw dense sparse)
         (sorted_list_of_set (de_chunk_id ` set dense \<union> se_chunk_id ` set sparse))) \<and>
     map he_final_rank rows = [1..<Suc (length rows)] \<and>
     length rows = min k (card (de_chunk_id ` set dense \<union> se_chunk_id ` set sparse)) \<and>
     distinct (map (de_chunk_id \<circ> he_evidence) rows) \<and> sorted (map fusion_key rows) \<and>
     (\<forall>h \<in> set rows. hybrid_evidence_ok h \<and>
        fused_from uuid_text dense sparse (de_chunk_id (he_evidence h)) (he_evidence h) \<and>
        he_raw_dense_score h = branch_score de_chunk_id de_dense_score dense (de_chunk_id (he_evidence h)) \<and>
        he_raw_sparse_score h = branch_score se_chunk_id se_sparse_score sparse (de_chunk_id (he_evidence h)) \<and>
        he_normalized_dense_score h =
          normal_score de_chunk_id de_dense_score dense (de_chunk_id (he_evidence h)) \<and>
        he_normalized_sparse_score h =
          normal_score se_chunk_id se_sparse_score sparse (de_chunk_id (he_evidence h)) \<and>
        he_hybrid_score h * (dw + sw) = he_normalized_dense_score h * dw + he_normalized_sparse_score h * sw \<and>
        (''dense'' \<in> he_retrieval_modes h \<longleftrightarrow> de_chunk_id (he_evidence h) \<in> de_chunk_id ` set dense) \<and>
        (''sparse'' \<in> he_retrieval_modes h \<longleftrightarrow> de_chunk_id (he_evidence h) \<in> se_chunk_id ` set sparse))"
proof -
  let ?U = "de_chunk_id ` set dense \<union> se_chunk_id ` set sparse"
  obtain rs where w: "0 < dw + sw"
    and rows: "rows = map (\<lambda>(rank, h). h\<lparr> he_final_rank := rank \<rparr>) (enumerate 1 (take k (sort_key fusion_key rs)))"
    and all: "list_all2 (\<lambda>i h. fuse_row uuid_text (dw / (dw + sw)) (sw / (dw + sw)) dense sparse i = Inr (Some h))
       (sorted_list_of_set ?U) rs"
    by (rule fuse_Inr [OF assms]) (rule that; assumption)
  have weight_back: "(nd * (dw / (dw + sw)) + ns * (sw / (dw + sw))) * (dw + sw) = nd * dw + ns * sw" for nd ns :: real
    using weight_cancel [of "dw + sw"] w by simp
  note num = numbered_facts [where xs = "take k (sort_key fusion_key rs)", folded rows]
  have ids: "map (de_chunk_id \<circ> he_evidence) rs = sorted_list_of_set ?U"
    by (rule list_all2_map_eq [OF all]) (auto dest!: fuse_row_Some(1) simp: row_scores_def fused_from_def Let_def)
  have pin: "de_chunk_id (he_evidence g) = i \<and> g = row_scores (dw / (dw + sw)) (sw / (dw + sw)) dense sparse i (he_evidence g)"
    if "fuse_row uuid_text (dw / (dw + sw)) (sw / (dw + sw)) dense sparse i = Inr (Some g)" for i g
    using fuse_row_Some(1) [OF that] by (auto simp: row_scores_def fused_from_def Let_def)
  have "fusion_key g = candidate_key dw sw dense sparse ((de_chunk_id \<circ> he_evidence) g)" if "g \<in> set rs" for g
    using list_all2_set [OF all that] pin row_scores_pinned(5) by (metis comp_apply)
  then have order: "map (de_chunk_id \<circ> he_evidence) (sort_key fusion_key rs) =
      sort_key (candidate_key dw sw dense sparse) (sorted_list_of_set ?U)"
    unfolding ids [symmetric] by (rule sort_key_image)
  from ids have len: "length rs = card ?U" by (metis length_map length_sorted_list_of_set)
  have "distinct (map (de_chunk_id \<circ> he_evidence) rs)" unfolding ids by simp
  then have d: "distinct (map (de_chunk_id \<circ> he_evidence) (take k (sort_key fusion_key rs)))"
    by (simp flip: take_map)
  have ch: "map (de_chunk_id \<circ> he_evidence) rows = map (de_chunk_id \<circ> he_evidence) (take k (sort_key fusion_key rs))"
    by (metis map_map num(4))
  then have "distinct (map (de_chunk_id \<circ> he_evidence) rows)" using d by simp
  moreover have "map (de_chunk_id \<circ> he_evidence) rows =
      take k (sort_key (candidate_key dw sw dense sparse) (sorted_list_of_set ?U))"
    unfolding ch order [symmetric] by (simp add: take_map)
  moreover have "sorted (map fusion_key rows)" unfolding num(3) by (rule sorted_take_prefix) simp
  moreover have "hybrid_evidence_ok h \<and>
        fused_from uuid_text dense sparse (de_chunk_id (he_evidence h)) (he_evidence h) \<and>
        he_raw_dense_score h = branch_score de_chunk_id de_dense_score dense (de_chunk_id (he_evidence h)) \<and>
        he_raw_sparse_score h = branch_score se_chunk_id se_sparse_score sparse (de_chunk_id (he_evidence h)) \<and>
        he_normalized_dense_score h =
          normal_score de_chunk_id de_dense_score dense (de_chunk_id (he_evidence h)) \<and>
        he_normalized_sparse_score h =
          normal_score se_chunk_id se_sparse_score sparse (de_chunk_id (he_evidence h)) \<and>
        he_hybrid_score h * (dw + sw) = he_normalized_dense_score h * dw + he_normalized_sparse_score h * sw \<and>
        (''dense'' \<in> he_retrieval_modes h \<longleftrightarrow> de_chunk_id (he_evidence h) \<in> de_chunk_id ` set dense) \<and>
        (''sparse'' \<in> he_retrieval_modes h \<longleftrightarrow> de_chunk_id (he_evidence h) \<in> se_chunk_id ` set sparse)"
    if h: "h \<in> set rows" for h
  proof -
    obtain g r where g: "g \<in> set rs" "1 \<le> r" "h = g\<lparr> he_final_rank := r \<rparr>"
      using num(5) [OF h] by (auto dest: in_set_takeD)
    obtain i where i: "fuse_row uuid_text (dw / (dw + sw)) (sw / (dw + sw)) dense sparse i = Inr (Some g)"
      using list_all2_set [OF all g(1)] by blast
    obtain x where x: "g = row_scores (dw / (dw + sw)) (sw / (dw + sw)) dense sparse i x"
      "fused_from uuid_text dense sparse i x" using fuse_row_Some(1) [OF i] by blast
    have "hybrid_evidence_ok h" using fuse_row_Some(2) [OF i] g(2,3) by (simp add: hybrid_evidence_ok_def)
    moreover have "he_evidence h = x" "de_chunk_id x = i" using x g(3) by (simp_all add: row_scores_def Let_def fused_from_def)
    moreover have "he_hybrid_score h * (dw + sw) = he_normalized_dense_score h * dw + he_normalized_sparse_score h * sw"
      using weight_back [of "he_normalized_dense_score g" "he_normalized_sparse_score g"] x(1) g(3)
      by (simp add: row_scores_def Let_def)
    moreover have "''dense'' \<in> he_retrieval_modes h \<longleftrightarrow> i \<in> de_chunk_id ` set dense"
      "''sparse'' \<in> he_retrieval_modes h \<longleftrightarrow> i \<in> se_chunk_id ` set sparse"
      using x(1) g(3) by (auto simp: row_scores_def Let_def by_chunk_None)
    moreover note row_scores_pinned(1-4) [OF x(1)]
    ultimately show ?thesis using x(2) g(3) by simp
  qed
  ultimately show ?thesis using num(1,2) len by simp
qed

end
