(* ===== verification/Retrieval_Contract.thy ===== *)
theory Retrieval_Contract
  imports Hybrid_Properties Graph_Nodes
begin

text \<open>
  The contract of a knowledge retriever, as the graph uses it, with the two implementations the runtime
  chooses between (api/runtime.py): the sparse-only adapter and the hybrid service.  Then the properties of
  the retrieval stack as a whole: failures of a branch, the order of results, and the overfetch.
\<close>

section \<open>The contract\<close>

locale knowledge_retriever =
  fixes retrieve :: "authenticated_principal \<Rightarrow> string \<Rightarrow> int \<Rightarrow> dense_query_filters option \<Rightarrow>
      (retrieval_error, hybrid_retrieval_result) result"
    and current :: string
  assumes retrieved_authorized:
      "retrieve p q k f = Inr r \<Longrightarrow> h \<in> set (hrr_evidence r) \<Longrightarrow> evidence_authorized p (he_evidence h)"
    and retrieved_current:
      "retrieve p q k f = Inr r \<Longrightarrow> h \<in> set (hrr_evidence r) \<Longrightarrow> de_build_fingerprint (he_evidence h) = current"
    and retrieved_valid:
      "retrieve p q k f = Inr r \<Longrightarrow> h \<in> set (hrr_evidence r) \<Longrightarrow> hybrid_evidence_ok h \<and> dense_evidence_ok (he_evidence h)"
    and retrieved_distinct:
      "retrieve p q k f = Inr r \<Longrightarrow> distinct (map (de_chunk_id \<circ> he_evidence) (hrr_evidence r))"
    and retrieved_bounded: "retrieve p q k f = Inr r \<Longrightarrow> int (length (hrr_evidence r)) \<le> max 0 k"
    and retrieved_ranked:
      "retrieve p q k f = Inr r \<Longrightarrow> map he_final_rank (hrr_evidence r) = [1..<Suc (length (hrr_evidence r))]"
begin

text \<open>The graph's evidence filter can only object to the text and the line range of an item, and to its document
  when the query names an identifier.\<close>

definition item_sound :: "enterprise_identifier list \<Rightarrow> uuid set \<Rightarrow> hybrid_evidence \<Rightarrow> bool" where
  "item_sound ids exact h = ((ids = [] \<or> de_document_id (he_evidence h) \<in> exact) \<and>
     de_source_line_start (he_evidence h) \<le> de_source_line_end (he_evidence h) \<and>
     \<not> contains_untrusted_instruction (de_text (he_evidence h)))"

lemma filter_keeps_sound:
  assumes "retrieve p q k f = Inr r" "set es \<subseteq> set (hrr_evidence r)"
    "distinct (map (de_chunk_id \<circ> he_evidence) es)" "set seen \<inter> (de_chunk_id \<circ> he_evidence) ` set es = {}"
  shows "filter_evidence p current ids exact seen es =
    (filter (item_sound ids exact) es, length (filter (\<lambda>h. \<not> item_sound ids exact h) es))"
  using assms(2-)
proof (induction es arbitrary: seen)
  case Nil
  then show ?case by simp
next
  case (Cons h es)
  have "evidence_authorized p (he_evidence h)" "de_build_fingerprint (he_evidence h) = current"
    using retrieved_authorized [OF assms(1)] retrieved_current [OF assms(1)] Cons.prems(1) by simp_all
  then have "evidence_rejected p current ids exact seen h \<longleftrightarrow> \<not> item_sound ids exact h"
    using Cons.prems(3) by (auto simp: evidence_rejected_def item_sound_def evidence_authorized_def Let_def)
  moreover have "filter_evidence p current ids exact seen es =
      (filter (item_sound ids exact) es, length (filter (\<lambda>h. \<not> item_sound ids exact h) es))"
    by (rule Cons.IH) (use Cons.prems in auto)
  moreover have "filter_evidence p current ids exact (de_chunk_id (he_evidence h) # seen) es
      = (filter (item_sound ids exact) es, length (filter (\<lambda>h. \<not> item_sound ids exact h) es))"
    by (rule Cons.IH) (use Cons.prems in auto)
  ultimately show ?case by (simp add: Let_def)
qed

lemma graph_keeps_sound:
  "retrieve p q k f = Inr r \<Longrightarrow>
   fst (filter_evidence p current ids exact [] (hrr_evidence r)) = filter (item_sound ids exact) (hrr_evidence r)"
  using filter_keeps_sound [OF _ order_refl retrieved_distinct] by simp

end

definition current_fingerprint :: "corpus \<Rightarrow> string" where
  "current_fingerprint corpus =
     (case load_current_chunks (cp_build corpus) of Inl _ \<Rightarrow> [] | Inr b \<Rightarrow> ib_fingerprint b)"

section \<open>What both implementations get from fusion\<close>

lemma evidence_authorized_sparse:
  "as_dense uuid_text e = Inr x \<Longrightarrow> evidence_authorized p x \<longleftrightarrow> sparse_authorized p e"
  by (simp add: evidence_authorized_def sparse_authorized_def as_dense_Inr)

lemma fused_evidence:
  assumes "fuse uuid_text dw sw k dense sparse = Inr rows" "h \<in> set rows"
    "\<And>d. d \<in> set dense \<Longrightarrow> evidence_authorized p d \<and> de_build_fingerprint d = fp \<and> dense_evidence_ok d"
    "\<And>e. e \<in> set sparse \<Longrightarrow> sparse_authorized p e \<and> se_build_fingerprint e = fp"
  shows "evidence_authorized p (he_evidence h) \<and> de_build_fingerprint (he_evidence h) = fp \<and>
     hybrid_evidence_ok h \<and> dense_evidence_ok (he_evidence h)"
proof -
  from fusion_ranking_facts [OF assms(1)] assms(2) have ok: "hybrid_evidence_ok h"
    and src: "fused_from uuid_text dense sparse (de_chunk_id (he_evidence h)) (he_evidence h)" by blast+
  from src consider "he_evidence h \<in> set dense"
    | e where "e \<in> set sparse" "as_dense uuid_text e = Inr (he_evidence h)"
    unfolding fused_from_def by blast
  then show ?thesis
  proof cases
    case 1
    then show ?thesis using assms(3) ok by blast
  next
    case 2
    then show ?thesis
      using assms(4) [OF 2(1)] as_dense_Inr(6,7) [OF 2(2)] evidence_authorized_sparse [OF 2(2)] ok by simp
  qed
qed

lemma retrieve_sparse_loads:
  "retrieve_sparse s corpus p query top_k filters = Inr r \<Longrightarrow> \<exists>b. load_current_chunks (cp_build corpus) = Inr b"
  by (auto simp: retrieve_sparse_def Let_def split: if_splits sum.splits)

lemma sparse_evidence_facts:
  assumes "retrieve_sparse s corpus p query top_k filters = Inr r" "e \<in> set (srr_evidence r)"
  shows "sparse_authorized p e" "se_build_fingerprint e = current_fingerprint corpus" "0 < se_sparse_score e"
proof -
  obtain b where b: "load_current_chunks (cp_build corpus) = Inr b" using retrieve_sparse_loads [OF assms(1)] by blast
  from sparse_results_facts [OF assms(1) b] assms(2) obtain c where c: "chunk_admitted p filters c"
    "e = sparse_evidence_of c (se_sparse_score e) (ib_fingerprint b) (se_sparse_build_fingerprint e)
       (salient_query_terms (corpus_terms query)) (se_matched_query_terms e)" "0 < se_sparse_score e" by blast
  then obtain x y z w where e: "e = sparse_evidence_of c x (ib_fingerprint b) y z w" by blast
  have "se_access_level e = ck_access_level c \<and> se_allowed_roles e = set (ck_allowed_roles c) \<and>
      se_build_fingerprint e = ib_fingerprint b"
    unfolding e by (simp add: sparse_evidence_of_def)
  then show "sparse_authorized p e" "se_build_fingerprint e = current_fingerprint corpus" "0 < se_sparse_score e"
    using c b by (auto simp: sparse_authorized_def chunk_admitted_iff current_fingerprint_def)
qed

lemma retrieve_offline_Inr:
  assumes "retrieve_offline s corpus uuid_text p query k filters = Inr r"
  obtains q where "retrieve_sparse s corpus p query (Some k) filters = Inr q"
    "fuse uuid_text 0 1 (nat k) [] (srr_evidence q) = Inr (hrr_evidence r)"
  using assms by (auto simp: retrieve_offline_def)

interpretation offline: knowledge_retriever "retrieve_offline s corpus uuid_text" "current_fingerprint corpus"
  for s corpus uuid_text
proof
  fix p q k f r h
  assume run: "retrieve_offline s corpus uuid_text p q k f = Inr r"
  obtain sp where sp: "retrieve_sparse s corpus p q (Some k) f = Inr sp"
    and fu: "fuse uuid_text 0 1 (nat k) [] (srr_evidence sp) = Inr (hrr_evidence r)"
    by (rule retrieve_offline_Inr [OF run])
  have ev: "evidence_authorized p (he_evidence h) \<and> de_build_fingerprint (he_evidence h) = current_fingerprint corpus \<and>
     hybrid_evidence_ok h \<and> dense_evidence_ok (he_evidence h)" if "h \<in> set (hrr_evidence r)" for h
    by (rule fused_evidence [OF fu that]) (use sparse_evidence_facts [OF sp] in auto)
  show "h \<in> set (hrr_evidence r) \<Longrightarrow> evidence_authorized p (he_evidence h)"
    "h \<in> set (hrr_evidence r) \<Longrightarrow> de_build_fingerprint (he_evidence h) = current_fingerprint corpus"
    "h \<in> set (hrr_evidence r) \<Longrightarrow> hybrid_evidence_ok h \<and> dense_evidence_ok (he_evidence h)"
    using ev by blast+
  show "distinct (map (de_chunk_id \<circ> he_evidence) (hrr_evidence r))"
    "map he_final_rank (hrr_evidence r) = [1..<Suc (length (hrr_evidence r))]"
    "int (length (hrr_evidence r)) \<le> max 0 k"
    using fusion_ranking_facts [OF fu] by auto
qed

lemma combine_branches_Inr:
  assumes "combine_branches s uuid_text k dense sparse = Inr r"
  shows "fuse uuid_text (hybrid_dense_weight s) (hybrid_sparse_weight s) k
       (case dense of Answer r \<Rightarrow> drr_evidence r | _ \<Rightarrow> []) (case sparse of Answer r \<Rightarrow> srr_evidence r | _ \<Rightarrow> [])
       = Inr (hrr_evidence r)"
    "authorization_failure dense = None" "authorization_failure sparse = None"
    "hrr_failed_branches r = (if branch_failed dense then [''dense''] else []) @ (if branch_failed sparse then [''sparse''] else [])"
    "hrr_completion_status r = (if branch_failed dense \<or> branch_failed sparse then CS_partial_success else CS_complete)"
    "\<not> (branch_failed dense \<and> branch_failed sparse)"
    "branch_failed dense \<or> branch_failed sparse \<Longrightarrow> hybrid_allow_partial_results s"
    "(hrr_warnings r \<noteq> []) = (branch_failed dense \<or> branch_failed sparse)"
  using assms by (auto simp: combine_branches_def Let_def split: option.splits if_splits)

lemma dense_branch_evidence:
  "d \<in> set (case branch_call late R of Answer r \<Rightarrow> drr_evidence r | _ \<Rightarrow> []) \<Longrightarrow> \<exists>r. R = Inr r \<and> d \<in> set (drr_evidence r)"
  by (auto simp: branch_call_def split: sum.splits if_splits)

lemma sparse_branch_evidence:
  "e \<in> set (case branch_call late R of Answer r \<Rightarrow> srr_evidence r | _ \<Rightarrow> []) \<Longrightarrow> \<exists>r. R = Inr r \<and> e \<in> set (srr_evidence r)"
  by (auto simp: branch_call_def split: sum.splits if_splits)

lemma dense_evidence_facts:
  assumes "retrieve_dense s (cp_build corpus) dp p query top_k filters = Inr r" "d \<in> set (drr_evidence r)"
  shows "evidence_authorized p d \<and> de_build_fingerprint d = current_fingerprint corpus \<and> dense_evidence_ok d"
proof -
  obtain b where b: "load_current_chunks (cp_build corpus) = Inr b"
    using assms(1) by (auto simp: retrieve_dense_def Let_def split: if_splits)
  show ?thesis
    using retrieve_dense_Inr [OF assms(1) b] assms(2) b by (simp add: tally_ok_def current_fingerprint_def)
qed

interpretation hybrid: knowledge_retriever "retrieve_hybrid s corpus dp dense_late sparse_late" "current_fingerprint corpus"
  for s corpus dp dense_late sparse_late
proof
  fix p q k f r h
  assume run: "retrieve_hybrid s corpus dp dense_late sparse_late p q k f = Inr r"
  let ?n = "Some (int (overfetch s (nat k)))"
  let ?d = "branch_call dense_late (retrieve_dense s (cp_build corpus) dp p q ?n f)"
  let ?e = "branch_call sparse_late (retrieve_sparse s corpus p q ?n f)"
  have comb: "combine_branches s (dp_uuid_text dp) (nat k) ?d ?e = Inr r"
    using run by (simp add: retrieve_hybrid_def Let_def split: if_splits)
  note fu = combine_branches_Inr(1) [OF comb]
  have ev: "evidence_authorized p (he_evidence h) \<and> de_build_fingerprint (he_evidence h) = current_fingerprint corpus \<and>
     hybrid_evidence_ok h \<and> dense_evidence_ok (he_evidence h)" if "h \<in> set (hrr_evidence r)" for h
    by (rule fused_evidence [OF fu that])
      (blast dest: dense_branch_evidence dense_evidence_facts, blast dest: sparse_branch_evidence sparse_evidence_facts)
  show "h \<in> set (hrr_evidence r) \<Longrightarrow> evidence_authorized p (he_evidence h)"
    "h \<in> set (hrr_evidence r) \<Longrightarrow> de_build_fingerprint (he_evidence h) = current_fingerprint corpus"
    "h \<in> set (hrr_evidence r) \<Longrightarrow> hybrid_evidence_ok h \<and> dense_evidence_ok (he_evidence h)"
    using ev by blast+
  show "distinct (map (de_chunk_id \<circ> he_evidence) (hrr_evidence r))"
    "map he_final_rank (hrr_evidence r) = [1..<Suc (length (hrr_evidence r))]"
    "int (length (hrr_evidence r)) \<le> max 0 k"
    using fusion_ranking_facts [OF fu] by auto
qed

end
