(* ===== verification/Retrieval_Claims.thy ===== *)
theory Retrieval_Claims
  imports Retrieval_Contract
begin

text \<open>
  The properties of the retrieval stack that span its components, with the concrete runs that meet their
  hypotheses.
\<close>

section \<open>When fusion fails\<close>

lemma row_scores_ok:
  assumes "0 \<le> dw" "0 \<le> sw" "0 < dw + sw" "\<forall>e \<in> set sparse. 0 \<le> se_sparse_score e"
  shows "hybrid_evidence_ok (row_scores (dw / (dw + sw)) (sw / (dw + sw)) dense sparse i x)"
proof -
  have raw: "0 \<le> se_sparse_score e" if "map_of (by_chunk se_chunk_id sparse) i = Some e" for e
    using by_chunk_Some [OF that] assms(4) by blast
  show ?thesis
    using normalized_score weighted_unit [OF assms(1-3)] raw
    by (auto simp: hybrid_evidence_ok_def row_scores_def Let_def split: option.splits)
qed

lemma collect_rows_error:
  assumes "\<And>i. i \<in> set is \<Longrightarrow> row i = Inl e \<or> (\<exists>r. row i = Inr r)" "j \<in> set is" "row j = Inl e"
  shows "collect_rows row is = Inl e"
  using assms
proof (induction "is")
  case Nil
  then show ?case by simp
next
  case (Cons i js)
  consider "row i = Inl e" | r where "row i = Inr r" using Cons.prems(1) [of i] by auto
  then show ?case
  proof cases
    case 1
    then show ?thesis by simp
  next
    case 2
    then have "collect_rows row js = Inl e" using Cons by auto
    then show ?thesis using 2 by simp
  qed
qed

lemma fuse_row_outcome:
  assumes "0 \<le> dw" "0 \<le> sw" "0 < dw + sw" "distinct (map de_chunk_id dense)" "distinct (map se_chunk_id sparse)"
    "\<forall>e \<in> set sparse. 0 \<le> se_sparse_score e \<and> (\<exists>x. as_dense uuid_text e = Inr x)"
  shows "(\<exists>r. fuse_row uuid_text (dw / (dw + sw)) (sw / (dw + sw)) dense sparse i = Inr r) \<and>
       (\<forall>d \<in> set dense. \<forall>e \<in> set sparse. de_chunk_id d = i \<and> se_chunk_id e = i \<longrightarrow> attribution_agrees d e) \<or>
     fuse_row uuid_text (dw / (dw + sw)) (sw / (dw + sw)) dense sparse i =
       Inl (RetrievalDataIntegrityError ''dense and sparse attribution disagree'') \<and>
     (\<exists>d \<in> set dense. \<exists>e \<in> set sparse. de_chunk_id d = i \<and> se_chunk_id e = i \<and> \<not> attribution_agrees d e)"
proof -
  have ok: "hybrid_evidence_ok (row_scores (dw / (dw + sw)) (sw / (dw + sw)) dense sparse i x)" for x
    by (rule row_scores_ok) (use assms in auto)
  have ud: "map_of (by_chunk de_chunk_id dense) i = Some d" if "d \<in> set dense" "de_chunk_id d = i" for d
    using by_chunk_unique [OF assms(4) that(1)] that(2) by simp
  have ue: "map_of (by_chunk se_chunk_id sparse) i = Some e" if "e \<in> set sparse" "se_chunk_id e = i" for e
    using by_chunk_unique [OF assms(5) that(1)] that(2) by simp
  show ?thesis
  proof (cases "map_of (by_chunk de_chunk_id dense) i")
    case None
    then have none: "d \<in> set dense \<Longrightarrow> de_chunk_id d \<noteq> i" for d unfolding by_chunk_None by blast
    have "\<exists>r. fuse_row uuid_text (dw / (dw + sw)) (sw / (dw + sw)) dense sparse i = Inr r"
    proof (cases "map_of (by_chunk se_chunk_id sparse) i")
      case (Some e)
      then obtain x where "as_dense uuid_text e = Inr x" using by_chunk_Some [OF Some] assms(6) by blast
      then show ?thesis using None Some by (simp add: fuse_row_eq ok)
    qed (simp add: fuse_row_eq None)
    then show ?thesis using none by blast
  next
    case (Some d)
    note d = this
    show ?thesis
    proof (cases "map_of (by_chunk se_chunk_id sparse) i")
      case None
      then have none: "e \<in> set sparse \<Longrightarrow> se_chunk_id e \<noteq> i" for e unfolding by_chunk_None by blast
      have "\<exists>r. fuse_row uuid_text (dw / (dw + sw)) (sw / (dw + sw)) dense sparse i = Inr r"
        using d None by (simp add: fuse_row_eq ok)
      then show ?thesis using none by blast
    next
      case (Some e)
      show ?thesis
      proof (cases "attribution_agrees d e")
        case True
        then have "\<exists>r. fuse_row uuid_text (dw / (dw + sw)) (sw / (dw + sw)) dense sparse i = Inr r"
          using d Some by (simp add: fuse_row_eq ok)
        moreover have "\<forall>d \<in> set dense. \<forall>e \<in> set sparse. de_chunk_id d = i \<and> se_chunk_id e = i \<longrightarrow> attribution_agrees d e"
        proof (intro ballI impI)
          fix d2 e2
          assume m: "d2 \<in> set dense" "e2 \<in> set sparse" "de_chunk_id d2 = i \<and> se_chunk_id e2 = i"
          then have "d2 = d" "e2 = e" using ud [of d2] ue [of e2] d Some by simp_all
          then show "attribution_agrees d2 e2" using True by simp
        qed
        ultimately show ?thesis by blast
      next
        case False
        then have "fuse_row uuid_text (dw / (dw + sw)) (sw / (dw + sw)) dense sparse i =
            Inl (RetrievalDataIntegrityError ''dense and sparse attribution disagree'')"
          using d Some by (simp add: fuse_row_eq)
        then show ?thesis using False by_chunk_Some [OF d] by_chunk_Some [OF Some] by blast
      qed
    qed
  qed
qed

lemma fuse_outcome:
  assumes "0 \<le> dw" "0 \<le> sw" "0 < dw + sw" "distinct (map de_chunk_id dense)" "distinct (map se_chunk_id sparse)"
    "\<forall>e \<in> set sparse. 0 \<le> se_sparse_score e \<and> (\<exists>x. as_dense uuid_text e = Inr x)"
  shows "if \<exists>d \<in> set dense. \<exists>e \<in> set sparse. de_chunk_id d = se_chunk_id e \<and> \<not> attribution_agrees d e
    then fuse uuid_text dw sw k dense sparse = Inl (RetrievalDataIntegrityError ''dense and sparse attribution disagree'')
    else \<exists>rows. fuse uuid_text dw sw k dense sparse = Inr rows"
proof -
  let ?row = "fuse_row uuid_text (dw / (dw + sw)) (sw / (dw + sw)) dense sparse"
  let ?e = "RetrievalDataIntegrityError ''dense and sparse attribution disagree''"
  let ?is = "sort (unique_first (dict_keys (by_chunk de_chunk_id dense) @ dict_keys (by_chunk se_chunk_id sparse)))"
  have w: "\<not> dw + sw \<le> 0" using assms(3) by simp
  note out = fuse_row_outcome [OF assms]
  show ?thesis
  proof (cases "\<exists>d \<in> set dense. \<exists>e \<in> set sparse. de_chunk_id d = se_chunk_id e \<and> \<not> attribution_agrees d e")
    case True
    then obtain d e where de: "d \<in> set dense" "e \<in> set sparse" "de_chunk_id d = se_chunk_id e" "\<not> attribution_agrees d e"
      by blast
    have "?row (de_chunk_id d) = Inl ?e" using out [of "de_chunk_id d"] de by metis
    moreover have "de_chunk_id d \<in> set ?is" using de(1) by (simp del: set_map)
    ultimately have "collect_rows ?row ?is = Inl ?e"
      by (intro collect_rows_error [where j = "de_chunk_id d"]) (use out in blast)+
    then show ?thesis using True w by (simp add: fuse_def Let_def)
  next
    case False
    then have "\<exists>r. ?row i = Inr r" for i using out [of i] by metis
    then obtain rs where "collect_rows ?row ?is = Inr rs" using collect_rows_total [of ?is ?row] by blast
    then show ?thesis using False w by (auto simp: fuse_def Let_def)
  qed
qed

text \<open>C19: The fused ranking: the rows are the first top-k of all chunks of either branch in the documented
  order, numbered from one, each chunk once; each row carries the evidence of a branch that found the chunk, the
  modes that found it, its scores in the branches, these scores normalized over the results of the branch
  (zero where the branch missed the chunk), and their weighted mean.\<close>

theorem fusion_ranking_exact:
  assumes "fuse uuid_text dw sw k dense sparse = Inr rows"
  shows "map (de_chunk_id \<circ> he_evidence) rows =
       take k (sort_key (candidate_key dw sw dense sparse)
         (sorted_list_of_set (de_chunk_id ` set dense \<union> se_chunk_id ` set sparse))) \<and>
     map he_final_rank rows = [1..<Suc (length rows)] \<and>
     length rows = min k (card (de_chunk_id ` set dense \<union> se_chunk_id ` set sparse)) \<and>
     distinct (map (de_chunk_id \<circ> he_evidence) rows) \<and> sorted (map fusion_key rows) \<and>
     (\<forall>h \<in> set rows. hybrid_evidence_ok h \<and>
        fused_from uuid_text dense sparse (de_chunk_id (he_evidence h)) (he_evidence h) \<and>
        he_raw_dense_score h = branch_score de_chunk_id de_dense_score dense (de_chunk_id (he_evidence h)) \<and>
        he_raw_sparse_score h = branch_score se_chunk_id se_sparse_score sparse (de_chunk_id (he_evidence h)) \<and>
        he_normalized_dense_score h =
          normal_score de_chunk_id de_dense_score dense (de_chunk_id (he_evidence h)) \<and>
        he_normalized_sparse_score h =
          normal_score se_chunk_id se_sparse_score sparse (de_chunk_id (he_evidence h)) \<and>
        he_hybrid_score h * (dw + sw) = he_normalized_dense_score h * dw + he_normalized_sparse_score h * sw \<and>
        (''dense'' \<in> he_retrieval_modes h \<longleftrightarrow> de_chunk_id (he_evidence h) \<in> de_chunk_id ` set dense) \<and>
        (''sparse'' \<in> he_retrieval_modes h \<longleftrightarrow> de_chunk_id (he_evidence h) \<in> se_chunk_id ` set sparse))"
  by (rule fusion_ranking_facts [OF assms])

text \<open>Fusing results without duplicates fails in exactly one way: some chunk found by both branches has
  a different attribution in each.  No score, weight or normalization can make it fail.\<close>

theorem fusion_fails_only_on_disagreement:
  assumes "0 \<le> dw" "0 \<le> sw" "0 < dw + sw" "distinct (map de_chunk_id dense)" "distinct (map se_chunk_id sparse)"
    "\<forall>e \<in> set sparse. 0 \<le> se_sparse_score e \<and> (\<exists>x. as_dense uuid_text e = Inr x)"
  shows "if \<exists>d \<in> set dense. \<exists>e \<in> set sparse. de_chunk_id d = se_chunk_id e \<and> \<not> attribution_agrees d e
    then fuse uuid_text dw sw k dense sparse = Inl (RetrievalDataIntegrityError ''dense and sparse attribution disagree'')
    else \<exists>rows. fuse uuid_text dw sw k dense sparse = Inr rows"
  by (rule fuse_outcome [OF assms])

section \<open>The order of the sparse-only adapter\<close>

lemma normal_value_less: "finite xs \<Longrightarrow> x \<in> xs \<Longrightarrow> y \<in> xs \<Longrightarrow> normal_value xs x < normal_value xs y \<Longrightarrow> x < y"
proof -
  assume a: "finite xs" "x \<in> xs" "y \<in> xs" "normal_value xs x < normal_value xs y"
  then have ne: "Min xs \<noteq> Max xs" by (auto simp: normal_value_def)
  have "Min xs \<le> Max xs" using a(1,2) by (meson Max_ge Min_le order_trans)
  with ne have "0 < Max xs - Min xs" by simp
  then show "x < y" using a(4) ne by (simp add: normal_value_def divide_less_cancel)
qed

lemma sorted_map_mono:
  "sorted (map f xs) \<Longrightarrow> (\<And>a b. a \<in> set xs \<Longrightarrow> b \<in> set xs \<Longrightarrow> f a \<le> f b \<Longrightarrow> g a \<le> g b) \<Longrightarrow> sorted (map g xs)"
  by (induction xs) auto

abbreviation sparse_scores :: "sparse_evidence list \<Rightarrow> real set" where
  "sparse_scores es \<equiv> set (map snd (map (\<lambda>(k, x). (k, se_sparse_score x)) (by_chunk se_chunk_id es)))"

lemma single_branch_key:
  assumes fu: "fuse uuid_text 0 1 k [] es = Inr rows" and h: "h \<in> set rows"
  shows "\<exists>x \<in> sparse_scores es. he_raw_sparse_score h = Some x \<and>
    fusion_key h = (- normal_value (sparse_scores es) x, 0, - normal_value (sparse_scores es) x, (True, 0), (False, - x), de_chunk_id (he_evidence h))"
proof -
  let ?by = "by_chunk se_chunk_id es"
  obtain rs where rows: "rows = map (\<lambda>(rank, h). h\<lparr> he_final_rank := rank \<rparr>) (enumerate 1 (take k (sort_key fusion_key rs)))"
    and all: "list_all2 (\<lambda>i h. fuse_row uuid_text (0 / (0 + 1)) (1 / (0 + 1)) [] es i = Inr (Some h))
       (sorted_list_of_set (de_chunk_id ` set ([] :: dense_evidence list) \<union> se_chunk_id ` set es)) rs"
    by (rule fuse_Inr [OF fu]) (rule that; assumption)
  obtain g n where g: "g \<in> set rs" "h = g\<lparr> he_final_rank := n \<rparr>"
    using numbered_facts(5) [where xs = "take k (sort_key fusion_key rs)", folded rows, OF h]
    by (auto dest: in_set_takeD)
  obtain i where i: "i \<in> se_chunk_id ` set es"
    "fuse_row uuid_text (0 / (0 + 1)) (1 / (0 + 1)) [] es i = Inr (Some g)"
    using list_all2_set [OF all g(1)] by auto
  obtain x where x: "g = row_scores (0 / (0 + 1)) (1 / (0 + 1)) [] es i x" "de_chunk_id x = i"
    using fuse_row_Some(1) [OF i(2)] by (auto simp: fused_from_def)
  obtain e where e: "map_of ?by i = Some e"
    using i(1) by_chunk_None [of se_chunk_id es i] by auto
  have m: "map_of (map (\<lambda>(k, x). (k, se_sparse_score x)) ?by) i = Some (se_sparse_score e)"
    using e by (simp add: map_of_map)
  have "se_sparse_score e \<in> sparse_scores es" using map_of_SomeD [OF m] by force
  then show ?thesis
    using x e g(2) normalize_value [OF m]
    by (intro bexI [of _ "se_sparse_score e"])
      (simp_all add: fusion_key_def row_scores_def Let_def raw_key_def by_chunk_def [of de_chunk_id]
        normalize_scores_def [of "[]"] dict_get_def [of "[]"])
qed

lemma single_branch_order:
  assumes fu: "fuse uuid_text 0 1 k [] es = Inr rows"
  shows "sorted (map (\<lambda>h. (- the (he_raw_sparse_score h), de_chunk_id (he_evidence h))) rows)"
proof -
  let ?n = "normal_value (sparse_scores es)"
  have "sorted (map fusion_key rows)" using fusion_ranking_facts [OF fu] by blast
  then show ?thesis
  proof (rule sorted_map_mono)
    fix a b
    assume ab: "a \<in> set rows" "b \<in> set rows" "fusion_key a \<le> fusion_key b"
    obtain x where x: "x \<in> sparse_scores es" "he_raw_sparse_score a = Some x"
      "fusion_key a = (- ?n x, 0, - ?n x, (True, 0), (False, - x), de_chunk_id (he_evidence a))"
      using single_branch_key [OF fu ab(1)] by blast
    obtain y where y: "y \<in> sparse_scores es" "he_raw_sparse_score b = Some y"
      "fusion_key b = (- ?n y, 0, - ?n y, (True, 0), (False, - y), de_chunk_id (he_evidence b))"
      using single_branch_key [OF fu ab(2)] by blast
    have "?n y < ?n x \<Longrightarrow> y < x"
      by (rule normal_value_less [OF finite_set y(1) x(1)])
    then show "(- the (he_raw_sparse_score a), de_chunk_id (he_evidence a)) \<le> (- the (he_raw_sparse_score b), de_chunk_id (he_evidence b))"
      using ab(3) unfolding x(3) y(3) by (auto simp: x(2) y(2) less_eq_prod_def less_prod_def)
  qed
qed

lemma single_branch_chunks:
  assumes fu: "fuse uuid_text 0 1 k [] es = Inr rows" and le: "length es \<le> k" and di: "distinct (map se_chunk_id es)"
  shows "(de_chunk_id \<circ> he_evidence) ` set rows = se_chunk_id ` set es"
proof -
  have "card (se_chunk_id ` set es) = length es"
    using di by (metis distinct_card length_map list.set_map)
  moreover have "length rows = min k (card (se_chunk_id ` set es))" "distinct (map (de_chunk_id \<circ> he_evidence) rows)"
    using fusion_ranking_facts [OF fu] by simp_all
  ultimately have "card ((de_chunk_id \<circ> he_evidence) ` set rows) = card (se_chunk_id ` set es)"
    using le by (metis distinct_card length_map list.set_map min_absorb2)
  moreover have "(de_chunk_id \<circ> he_evidence) ` set rows \<subseteq> se_chunk_id ` set es"
    using fusion_ranking_facts [OF fu] as_dense_Inr(1) by (fastforce simp: fused_from_def)
  ultimately show ?thesis by (simp add: card_subset_eq)
qed

text \<open>The adapter for sparse mode returns the chunks of the sparse service in the order of their scores:
  fusing the single branch sorts again, so the order the service gives current documents when the query
  asks for them is lost.\<close>

theorem offline_results_in_score_order:
  assumes "retrieve_offline s corpus uuid_text p query k filters = Inr r"
  shows "sorted (map (\<lambda>h. (- the (he_raw_sparse_score h), de_chunk_id (he_evidence h))) (hrr_evidence r)) \<and>
     (\<forall>q. retrieve_sparse s corpus p query (Some k) filters = Inr q \<and> k \<noteq> 0 \<longrightarrow>
        (de_chunk_id \<circ> he_evidence) ` set (hrr_evidence r) = se_chunk_id ` set (srr_evidence q))"
proof -
  obtain q where q: "retrieve_sparse s corpus p query (Some k) filters = Inr q"
    and fu: "fuse uuid_text 0 1 (nat k) [] (srr_evidence q) = Inr (hrr_evidence r)"
    by (rule retrieve_offline_Inr [OF assms])
  obtain b where b: "load_current_chunks (cp_build corpus) = Inr b" using retrieve_sparse_loads [OF q] by blast
  have n: "int (length (srr_evidence q)) \<le> selected_top_k s (Some k)" "distinct (map se_chunk_id (srr_evidence q))"
    using sparse_results_facts [OF q b] by blast+
  have "(de_chunk_id \<circ> he_evidence) ` set (hrr_evidence r) = se_chunk_id ` set (srr_evidence q)" if "k \<noteq> 0"
    by (rule single_branch_chunks [OF fu _ n(2)]) (use n(1) that in \<open>simp add: selected_top_k_def\<close>)
  then show ?thesis using q single_branch_order [OF fu] by auto
qed

section \<open>The stack as the graph uses it\<close>

text \<open>C20: Whatever the configured retriever returns, the principal may read it and it belongs to the current
  build; so the graph's evidence check drops an item only for its text, for a reversed line range or, when the
  query names identifiers, because its document is not among those that mention one.\<close>

theorem retrieved_evidence_survives_graph:
  assumes "retrieve_offline s corpus uuid_text p query k filters = Inr r \<or>
    retrieve_hybrid s corpus dp dense_late sparse_late p query k filters = Inr r"
  shows "(\<forall>h \<in> set (hrr_evidence r). evidence_authorized p (he_evidence h)) \<and>
     int (length (hrr_evidence r)) \<le> max 0 k \<and>
     fst (filter_evidence p (current_fingerprint corpus) ids exact [] (hrr_evidence r)) =
       filter (\<lambda>h. (ids = [] \<or> de_document_id (he_evidence h) \<in> exact) \<and>
         de_source_line_start (he_evidence h) \<le> de_source_line_end (he_evidence h) \<and>
         \<not> contains_untrusted_instruction (de_text (he_evidence h))) (hrr_evidence r)"
  using assms
proof
  assume run: "retrieve_offline s corpus uuid_text p query k filters = Inr r"
  show ?thesis
    using offline.retrieved_authorized [OF run] offline.retrieved_bounded [OF run] offline.graph_keeps_sound [OF run]
    unfolding offline.item_sound_def [abs_def] by blast
next
  assume run: "retrieve_hybrid s corpus dp dense_late sparse_late p query k filters = Inr r"
  show ?thesis
    using hybrid.retrieved_authorized [OF run] hybrid.retrieved_bounded [OF run] hybrid.graph_keeps_sound [OF run]
    unfolding hybrid.item_sound_def [abs_def] by blast
qed

text \<open>C21: A hybrid result is complete exactly when both branches answered; with one branch down it is
  returned only where partial results are allowed, it names that branch, carries a warning, and holds
  evidence of the other branch alone; an authorization failure of either branch is never masked.\<close>

theorem hybrid_partial_results:
  assumes "combine_branches s uuid_text k dense sparse = Inr r"
  shows "authorization_failure dense = None \<and> authorization_failure sparse = None \<and>
     (hrr_completion_status r = CS_complete \<longleftrightarrow> \<not> branch_failed dense \<and> \<not> branch_failed sparse) \<and>
     (hrr_failed_branches r = [] \<or> hybrid_allow_partial_results s \<and> hrr_warnings r \<noteq> []) \<and>
     (branch_failed dense \<longrightarrow> hrr_failed_branches r = [''dense''] \<and>
        (\<forall>h \<in> set (hrr_evidence r). ''dense'' \<notin> he_retrieval_modes h)) \<and>
     (branch_failed sparse \<longrightarrow> hrr_failed_branches r = [''sparse''] \<and>
        (\<forall>h \<in> set (hrr_evidence r). ''sparse'' \<notin> he_retrieval_modes h))"
proof -
  note c = combine_branches_Inr [OF assms]
  note f = fusion_ranking_facts [OF c(1)]
  have d: "(case dense of Answer r \<Rightarrow> drr_evidence r | _ \<Rightarrow> []) = []" if "branch_failed dense"
    using that by (auto simp: branch_failed_def split: call.splits)
  have e: "(case sparse of Answer r \<Rightarrow> srr_evidence r | _ \<Rightarrow> []) = []" if "branch_failed sparse"
    using that by (auto simp: branch_failed_def split: call.splits)
  have "\<forall>h \<in> set (hrr_evidence r). ''dense'' \<notin> he_retrieval_modes h" if "branch_failed dense"
    using f unfolding d [OF that] by auto
  moreover have "\<forall>h \<in> set (hrr_evidence r). ''sparse'' \<notin> he_retrieval_modes h" if "branch_failed sparse"
    using f unfolding e [OF that] by auto
  ultimately show ?thesis using c(2-8) by auto
qed

text \<open>Once the overfetch exceeds one hundred, which the settings allow, both branches refuse the request
  and hybrid retrieval fails for every query, provider and corpus.\<close>

theorem hybrid_overfetch_rejected:
  assumes "1 \<le> k" "k \<le> 100" "100 < overfetch s (nat k)"
  shows "retrieve_hybrid s corpus dp dense_late sparse_late p query k filters =
     Inl (RetrievalDependencyError ''hybrid retrieval branches failed safely'')"
proof -
  let ?n = "Some (int (overfetch s (nat k)))"
  have top: "\<not> (1 \<le> dense_top_k s ?n \<and> dense_top_k s ?n \<le> 100)" "\<not> (1 \<le> selected_top_k s ?n \<and> selected_top_k s ?n \<le> 100)"
    using assms(3) by (auto simp: dense_top_k_def selected_top_k_def)
  have d: "\<exists>m. retrieve_dense s (cp_build corpus) dp p query ?n filters = Inl (RetrievalValidationError m)"
    using top(1) by (auto simp: retrieve_dense_def Let_def)
  have e: "\<exists>m. retrieve_sparse s corpus p query ?n filters = Inl (RetrievalValidationError m)"
    using top(2) by (auto simp: retrieve_sparse_def Let_def)
  from d e show ?thesis
    using assms(1,2)
    by (auto simp: retrieve_hybrid_def combine_branches_def branch_call_def authorization_failure_def branch_failed_def Let_def)
qed

text \<open>Dense retrieval trusts nothing the provider returns: each match is either kept, dropped or counted
  as malformed; a kept item is readable for the principal, belongs to the current build, has a valid hash
  and line numbers, and names a requested document where the query holds an identifier.\<close>

theorem dense_results_revalidated:
  assumes "retrieve_dense s build dp p query top_k filters = Inr r" "load_current_chunks build = Inr b"
  shows "length (drr_evidence r) + drr_dropped_unauthorized r + drr_malformed_results r = drr_total_provider_matches r \<and>
     (\<forall>e \<in> set (drr_evidence r). evidence_authorized p e \<and> de_build_fingerprint e = ib_fingerprint b \<and>
        dense_evidence_ok e \<and>
        (extract_enterprise_identifiers (normalized_query query) = [] \<or>
         de_document_id e \<in> matching_document_ids (ib_chunks b) (extract_enterprise_identifiers (normalized_query query))))"
  using retrieve_dense_Inr [OF assms] by (auto simp: tally_ok_def split: if_splits)

text \<open>C22: A retried operation runs at most one time more than the configured retries; every attempt but the
  last failed transiently, the pause before each new attempt doubles with a jitter below a fifth, and a
  transient failure is reported only when the retries are used up.\<close>

theorem retries_bounded:
  "case with_retries maximum base operation of (result, pauses) \<Rightarrow>
     length pauses \<le> maximum \<and> result = operation (length pauses) \<and>
     (\<forall>i < length pauses. transient (operation i) \<and> pauses ! i = retry_delay i base (1 / 5) \<and>
        (0 < base \<longrightarrow> base * 2 ^ i \<le> pauses ! i \<and> pauses ! i < base * 2 ^ i * (6 / 5))) \<and>
     (transient result \<longrightarrow> length pauses = maximum)"
proof (cases "with_retries maximum base operation")
  case (Pair result pauses)
  then have r: "fst (retry_from 0 maximum base operation) = result" "snd (retry_from 0 maximum base operation) = pauses"
    by (simp_all add: with_retries_def)
  have "\<forall>i < length pauses. transient (operation i) \<and> pauses ! i = retry_delay i base (1 / 5) \<and>
        (0 < base \<longrightarrow> base * 2 ^ i \<le> pauses ! i \<and> pauses ! i < base * 2 ^ i * (6 / 5))"
    using retry_from_spec [of 0 maximum base operation] retry_delay_bounds [of base] unfolding r by simp
  moreover have "length pauses \<le> maximum" "result = operation (length pauses)"
    using retry_from_spec [of 0 maximum base operation] unfolding r by simp_all
  moreover have "transient result \<longrightarrow> length pauses = maximum"
    using retry_from_exhausted [of 0 maximum base operation] unfolding r by blast
  ultimately show ?thesis unfolding Pair prod.case by blast
qed

section \<open>What is indexed is read back\<close>

definition evidence_of_chunk :: "string \<Rightarrow> string \<Rightarrow> real \<Rightarrow> chunk_record \<Rightarrow> dense_evidence" where
  "evidence_of_chunk fingerprint record_id score c =
     \<lparr> de_record_id = record_id, de_dense_score = score, de_chunk_id = ck_chunk_id c,
       de_evidence_id = ck_evidence_id c, de_document_id = ck_document_id c, de_title = ck_title c,
       de_source = ck_source c, de_source_file = ck_source_file c, de_section = ck_section c,
       de_section_path = ck_section_path c, de_source_line_start = ck_source_line_start c,
       de_source_line_end = ck_source_line_end c, de_version = ck_version c,
       de_updated_date = ck_updated_date c, de_access_level = ck_access_level c,
       de_allowed_roles = set (ck_allowed_roles c), de_document_type = ck_document_type c,
       de_department = ck_department c, de_status = ck_status c, de_text = ck_text c,
       de_chunk_content_hash = ck_chunk_content_hash c, de_build_fingerprint = fingerprint \<rparr>"

lemma parse_member_text:
  "parse_member access_levels access_level_text (access_level_text l) = Some l"
  "parse_member user_roles user_role_text (user_role_text r) = Some r"
  "parse_member document_types document_type_text (document_type_text t) = Some t"
  by ((cases l; simp add: parse_member_def access_levels_def), (cases r; simp add: parse_member_def user_roles_def),
    (cases t; simp add: parse_member_def document_types_def))

lemma parse_all_roles: "parse_all (parse_member user_roles user_role_text) (map user_role_text rs) = Some rs"
  by (induction rs) (simp_all add: parse_member_text)

lemma parse_chunk_fields:
  assumes "chunk_record_ok c" "lower_hash_ok fp" "\<And>u. parse_uuid (uuid_text u) = Some u"
  shows "parse_evidence parse_uuid rid score (chunk_fields uuid_text fp c) = Some (evidence_of_chunk fp rid score c)"
proof -
  have lines: "1 \<le> ck_source_line_start c" "1 \<le> ck_source_line_end c" "lower_hash_ok (ck_chunk_content_hash c)"
    using assms(1) by (simp_all add: chunk_record_ok_def)
  have l: "meta_line (chunk_fields uuid_text fp c) ''source_line_start'' = Some (ck_source_line_start c)"
    "meta_line (chunk_fields uuid_text fp c) ''source_line_end'' = Some (ck_source_line_end c)"
    using lines by (simp_all add: meta_line_def chunk_fields_def)
  have t: "meta_text (chunk_fields uuid_text fp c) ''chunk_id'' = Some (uuid_text (ck_chunk_id c))"
    "meta_text (chunk_fields uuid_text fp c) ''evidence_id'' = Some (uuid_text (ck_evidence_id c))"
    "meta_text (chunk_fields uuid_text fp c) ''document_id'' = Some (uuid_text (ck_document_id c))"
    "meta_text (chunk_fields uuid_text fp c) ''title'' = Some (ck_title c)"
    "meta_text (chunk_fields uuid_text fp c) ''source'' = Some (ck_source c)"
    "meta_text (chunk_fields uuid_text fp c) ''source_file'' = Some (ck_source_file c)"
    "meta_text (chunk_fields uuid_text fp c) ''section'' = Some (ck_section c)"
    "meta_text (chunk_fields uuid_text fp c) ''version'' = Some (ck_version c)"
    "meta_text (chunk_fields uuid_text fp c) ''access_level'' = Some (access_level_text (ck_access_level c))"
    "meta_text (chunk_fields uuid_text fp c) ''document_type'' = Some (document_type_text (ck_document_type c))"
    "meta_text (chunk_fields uuid_text fp c) ''department'' = Some (ck_department c)"
    "meta_text (chunk_fields uuid_text fp c) ''status'' = Some (ck_status c)"
    "meta_text (chunk_fields uuid_text fp c) ''text'' = Some (ck_text c)"
    "meta_text (chunk_fields uuid_text fp c) ''chunk_content_hash'' = Some (ck_chunk_content_hash c)"
    "meta_text (chunk_fields uuid_text fp c) ''build_fingerprint'' = Some fp"
    by (simp_all add: meta_text_def chunk_fields_def)
  have m: "meta_texts (chunk_fields uuid_text fp c) ''section_path'' = Some (ck_section_path c)"
    "meta_texts (chunk_fields uuid_text fp c) ''allowed_roles'' = Some (map user_role_text (ck_allowed_roles c))"
    "meta_date (chunk_fields uuid_text fp c) ''updated_date'' = Some (ck_updated_date c)"
    by (simp_all add: meta_texts_def meta_date_def chunk_fields_def)
  show ?thesis
    by (simp add: parse_evidence_def l t m assms(2,3) lines parse_member_text parse_all_roles evidence_of_chunk_def)
qed

lemma read_chunk_fields:
  assumes "chunk_record_ok c" "lower_hash_ok fp" "\<And>u. parse_uuid (uuid_text u) = Some u"
    "document_metadata_ok (chunk_document_metadata c)" "- 1 \<le> score" "score \<le> 1"
  shows "read_match parse_uuid fp metric
       \<lparr> pm_id = rid, pm_score = Some score, pm_metadata = Some (chunk_fields uuid_text fp c) \<rparr> =
     Some (evidence_of_chunk fp rid score c, chunk_document_metadata c)"
proof -
  have req: "list_all (\<lambda>f. map_of (chunk_fields uuid_text fp c) f \<noteq> None) REQUIRED_RESULT_FIELDS"
    by (simp add: REQUIRED_RESULT_FIELDS_def chunk_fields_def)
  have bf: "map_of (chunk_fields uuid_text fp c) ''build_fingerprint'' = Some (MStr fp)"
    "meta_date (chunk_fields uuid_text fp c) ''created_date'' = Some (ck_created_date c)"
    by (simp_all add: chunk_fields_def meta_date_def)
  have md: "dense_document_metadata (evidence_of_chunk fp rid score c) (ck_created_date c) = chunk_document_metadata c"
    by (simp add: dense_document_metadata_def evidence_of_chunk_def chunk_document_metadata_def)
  have pm: "parse_match parse_uuid fp metric
       \<lparr> pm_id = rid, pm_score = Some score, pm_metadata = Some (chunk_fields uuid_text fp c) \<rparr> = Some (evidence_of_chunk fp rid score c)"
    using req bf(1) assms(5,6) by (simp add: parse_match_def parse_chunk_fields [OF assms(1-3)])
  show ?thesis by (simp add: read_match_def pm bf md assms(4))
qed

text \<open>What the indexer stores for a chunk is read back as that chunk: every field of the evidence and of
  the document metadata is the chunk's own.\<close>

theorem chunk_metadata_roundtrip:
  assumes "chunk_metadata uuid_text json_size maximum_bytes fingerprint c = Inr md" "chunk_record_ok c"
    "document_metadata_ok (chunk_document_metadata c)" "lower_hash_ok fingerprint"
    "\<And>u. parse_uuid (uuid_text u) = Some u" "- 1 \<le> score" "score \<le> 1"
  shows "read_match parse_uuid fingerprint metric \<lparr> pm_id = record_id, pm_score = Some score, pm_metadata = Some md \<rparr> =
     Some (evidence_of_chunk fingerprint record_id score c, chunk_document_metadata c)"
proof -
  have "md = chunk_fields uuid_text fingerprint c" using assms(1) by (simp add: chunk_metadata_def Let_def split: if_splits)
  then show ?thesis using read_chunk_fields [OF assms(2,4,5,3,6,7)] by simp
qed

section \<open>Concrete runs\<close>

definition sample_sparse :: sparse_evidence where
  "sample_sparse = sparse_evidence_of (sample_chunk 1 PUBLIC user_roles ''leave'') 2 sample_build ''f'' [''leave''] [''leave'']"

definition sample_dense :: dense_evidence where
  "sample_dense = (dense_item 5 PUBLIC UNIV ''leave'')\<lparr> de_build_fingerprint := sample_build \<rparr>"

lemma sample_as_dense: "\<exists>x. as_dense show_nat (sparse_evidence_of (sample_chunk 1 PUBLIC user_roles ''leave'') y sample_build ''f'' [''leave''] [''leave'']) = Inr x"
  using sample_hashes_ok
  by (simp add: as_dense_def dense_evidence_ok_def sparse_evidence_of_def) (simp add: sample_chunk_def)

lemma sample_sparse_simps: "se_sparse_score sample_sparse = 2" "se_chunk_id sample_sparse = 1"
  by (simp_all add: sample_sparse_def sparse_evidence_of_def)

lemma sample_fusion: "\<exists>rows. fuse show_nat (13 / 20) (7 / 20) 5 [sample_dense] [sample_sparse] = Inr rows"
  using fuse_outcome [of "13 / 20" "7 / 20" "[sample_dense]" "[sample_sparse]" show_nat 5]
    sample_as_dense [of 2, folded sample_sparse_def]
  by (simp add: sample_sparse_simps sample_dense_def dense_item_def)

theorem fusion_ranking_exact_witness:
  "\<exists>rows. fuse show_nat (13 / 20) (7 / 20) 5 [sample_dense] [sample_sparse] = Inr rows \<and>
     map he_final_rank rows = [1, 2] \<and> (\<forall>h \<in> set rows. hybrid_evidence_ok h)"
proof -
  obtain rows where rows: "fuse show_nat (13 / 20) (7 / 20) 5 [sample_dense] [sample_sparse] = Inr rows"
    using sample_fusion by blast
  show ?thesis
    using fusion_ranking_exact [OF rows] rows by (auto simp: sample_sparse_simps sample_dense_def dense_item_def upt_rec)
qed

theorem fusion_fails_only_on_disagreement_witness:
  "fuse show_nat (13 / 20) (7 / 20) 5 [sample_dense\<lparr> de_chunk_id := 1 \<rparr>] [sample_sparse] =
     Inl (RetrievalDataIntegrityError ''dense and sparse attribution disagree'')"
proof -
  have "\<not> attribution_agrees (sample_dense\<lparr> de_chunk_id := 1 \<rparr>) sample_sparse"
    by (simp add: attribution_agrees_def sample_dense_def dense_item_def sample_sparse_def sparse_evidence_of_def)
      (simp add: sample_chunk_def)
  then show ?thesis
    using fusion_fails_only_on_disagreement [of "13 / 20" "7 / 20" "[sample_dense\<lparr> de_chunk_id := 1 \<rparr>]" "[sample_sparse]" show_nat 5]
      sample_as_dense [of 2, folded sample_sparse_def]
    by (simp add: sample_sparse_simps)
qed

lemma sample_offline:
  "\<exists>r. retrieve_offline default_settings (sample_corpus ''audit'') show_nat (sample_principal 7 VIEWER) ''leave'' 10 None = Inr r \<and>
     length (hrr_evidence r) = 1"
proof -
  have same: "retrieve_sparse default_settings (sample_corpus ''audit'') (sample_principal 7 VIEWER) ''leave'' (Some 10) None
      = retrieve_sparse default_settings (sample_corpus ''audit'') (sample_principal 7 VIEWER) ''leave'' None None"
    by (simp add: retrieve_sparse_def selected_top_k_def default_settings_def)
  obtain x where x: "0 < x" and run: "retrieve_sparse default_settings (sample_corpus ''audit'') (sample_principal 7 VIEWER) ''leave'' None None
     = Inr \<lparr> srr_evidence = [sparse_evidence_of (sample_chunk 1 PUBLIC user_roles ''leave'') x sample_build ''f''
         [''leave''] [''leave'']], srr_total_candidates = 1 \<rparr>"
    using sample_sparse_retrieval [OF sample_terms(2)] by blast
  let ?e = "sparse_evidence_of (sample_chunk 1 PUBLIC user_roles ''leave'') x sample_build ''f'' [''leave''] [''leave'']"
  obtain rows where rows: "fuse show_nat 0 1 10 [] [?e] = Inr rows"
    using fuse_outcome [of 0 1 "[]" "[?e]" show_nat 10] sample_as_dense [of x] x
    by (auto simp: sparse_evidence_of_def)
  have "length rows = 1" using fusion_ranking_facts [OF rows] by simp
  then show ?thesis using run rows by (simp add: retrieve_offline_def same)
qed

theorem offline_results_in_score_order_witness:
  "\<exists>r. retrieve_offline default_settings (sample_corpus ''audit'') show_nat (sample_principal 7 VIEWER) ''leave'' 10 None = Inr r \<and>
     sorted (map (\<lambda>h. (- the (he_raw_sparse_score h), de_chunk_id (he_evidence h))) (hrr_evidence r))"
  using sample_offline offline_results_in_score_order by blast

theorem retrieved_evidence_survives_graph_witness:
  "\<exists>r. retrieve_offline default_settings (sample_corpus ''audit'') show_nat (sample_principal 7 VIEWER) ''leave'' 10 None = Inr r \<and>
     length (hrr_evidence r) = 1 \<and> (\<forall>h \<in> set (hrr_evidence r). evidence_authorized (sample_principal 7 VIEWER) (he_evidence h))"
proof -
  obtain r where r: "retrieve_offline default_settings (sample_corpus ''audit'') show_nat (sample_principal 7 VIEWER) ''leave'' 10 None = Inr r"
    "length (hrr_evidence r) = 1" using sample_offline by blast
  show ?thesis using retrieved_evidence_survives_graph [OF disjI1 [OF r(1)]] r by blast
qed

theorem hybrid_partial_results_witness:
  "\<exists>r. combine_branches default_settings show_nat 5 (Failed (RetrievalDependencyError []))
       (Answer \<lparr> srr_evidence = [sample_sparse], srr_total_candidates = 1 \<rparr>) = Inr r \<and>
     hrr_failed_branches r = [''dense''] \<and> hrr_completion_status r = CS_partial_success"
proof -
  obtain rows where rows: "fuse show_nat (hybrid_dense_weight default_settings) (hybrid_sparse_weight default_settings) 5 [] [sample_sparse] = Inr rows"
    using fuse_outcome [of "hybrid_dense_weight default_settings" "hybrid_sparse_weight default_settings" "[]" "[sample_sparse]" show_nat 5]
      sample_as_dense [of 2, folded sample_sparse_def]
    by (auto simp: sample_sparse_simps default_settings_def)
  have p: "hybrid_allow_partial_results default_settings" by (simp add: default_settings_def)
  obtain r where r: "combine_branches default_settings show_nat 5 (Failed (RetrievalDependencyError []))
       (Answer \<lparr> srr_evidence = [sample_sparse], srr_total_candidates = 1 \<rparr>) = Inr r"
    using rows p by (simp add: combine_branches_def authorization_failure_def branch_failed_def)
  show ?thesis using hybrid_partial_results [OF r] r
    by (cases "hrr_completion_status r") (auto simp: branch_failed_def)
qed

text \<open>A provider that holds the vector of one chunk and returns it with a match that has no metadata.\<close>

definition digits :: "uuid \<Rightarrow> string" where "digits n = replicate n CHR ''0''"

definition sample_provider :: dense_provider where
  "sample_provider = \<lparr> dp_uuid_text = digits, dp_parse_uuid = (\<lambda>w. Some (length w)), dp_embed = (\<lambda>_. Answer [1]),
     dp_dimension = Inr 1, dp_query = (\<lambda>_ _ _ _. Answer
       [\<lparr> pm_id = ''a'', pm_score = Some (1 / 2),
          pm_metadata = Some (chunk_fields digits sample_build (sample_chunk 3 PUBLIC user_roles ''leave'')) \<rparr>,
        \<lparr> pm_id = ''b'', pm_score = Some 1, pm_metadata = None \<rparr>]) \<rparr>"

lemma sample_chunk_ok: "chunk_record_ok (sample_chunk i l rs ''leave'')"
  using sample_hashes_ok(2) by (simp add: chunk_record_ok_def sample_chunk_def)

lemma sample_match:
  "read_match (\<lambda>w. Some (length w)) sample_build ''cosine''
     \<lparr> pm_id = ''a'', pm_score = Some (1 / 2),
       pm_metadata = Some (chunk_fields digits sample_build (sample_chunk 3 PUBLIC user_roles ''leave'')) \<rparr> =
   Some (evidence_of_chunk sample_build ''a'' (1 / 2) (sample_chunk 3 PUBLIC user_roles ''leave''),
     chunk_document_metadata (sample_chunk 3 PUBLIC user_roles ''leave''))"
  by (rule read_chunk_fields)
    (auto simp: sample_chunk_ok sample_hashes_ok(1) user_roles_def sample_document_ok digits_def)

lemma sample_dense_run:
  "\<exists>r. retrieve_dense default_settings (cp_build (sample_corpus ''audit'')) sample_provider (sample_principal 7 VIEWER) ''leave''
      None None = Inr r \<and> drr_total_provider_matches r = 2 \<and> drr_malformed_results r = 1"
proof -
  obtain b where b: "load_current_chunks (cp_build (sample_corpus ''audit'')) = Inr b" "ib_fingerprint b = sample_build"
    using sample_artifacts(2) [OF sample_terms(2)] by blast
  have q: "normalized_query ''leave'' = ''leave''" by code_simp
  have m: "pinecone_metric default_settings = ''cosine''" by (simp add: default_settings_def)
  have bad: "read_match u fp mt \<lparr> pm_id = w, pm_score = x, pm_metadata = None \<rparr> = None" for u fp mt w x
    by (simp add: read_match_def parse_match_def)
  have k: "dense_top_k default_settings None = 10" by (simp add: dense_top_k_def default_settings_def)
  have att: "fst (with_retries n d (\<lambda>_. Answer x)) = Answer x" for n d and x :: "provider_match list"
    by (cases n) (simp_all add: with_retries_def retry_from_step transient_def)
  have t: "drr_total_provider_matches (tally_matches (read_match (\<lambda>w. Some (length w)) sample_build ''cosine'') (sample_principal 7 VIEWER) None
        [\<lparr> pm_id = ''a'', pm_score = Some (1 / 2),
           pm_metadata = Some (chunk_fields digits sample_build (sample_chunk 3 PUBLIC user_roles ''leave'')) \<rparr>,
         \<lparr> pm_id = ''b'', pm_score = Some 1, pm_metadata = None \<rparr>]) = 2 \<and>
      drr_malformed_results (tally_matches (read_match (\<lambda>w. Some (length w)) sample_build ''cosine'') (sample_principal 7 VIEWER) None
        [\<lparr> pm_id = ''a'', pm_score = Some (1 / 2),
           pm_metadata = Some (chunk_fields digits sample_build (sample_chunk 3 PUBLIC user_roles ''leave'')) \<rparr>,
         \<lparr> pm_id = ''b'', pm_score = Some 1, pm_metadata = None \<rparr>]) = 1"
    by (simp add: tally_matches_def Let_def sample_match bad)
  show ?thesis
    using t by (simp add: retrieve_dense_def Let_def q k sample_terms b sample_provider_def m att build_authorization_filter_def)
qed

theorem chunk_metadata_roundtrip_witness:
  "read_match (\<lambda>w. Some (length w)) sample_build ''cosine''
     \<lparr> pm_id = ''a'', pm_score = Some (1 / 2),
       pm_metadata = Some (chunk_fields digits sample_build (sample_chunk 3 PUBLIC user_roles ''leave'')) \<rparr> \<noteq> None"
  using chunk_metadata_roundtrip [where c = "sample_chunk 3 PUBLIC user_roles ''leave''" and uuid_text = digits
      and parse_uuid = "\<lambda>w. Some (length w)" and json_size = "\<lambda>_. 0" and maximum_bytes = 40000 and fingerprint = sample_build
      and metric = "''cosine''" and score = "1 / 2" and record_id = "''a''"]
  by (simp add: chunk_metadata_def sample_chunk_ok sample_hashes_ok(1) user_roles_def sample_document_ok digits_def)

theorem dense_results_revalidated_witness:
  "\<exists>r. retrieve_dense default_settings (cp_build (sample_corpus ''audit'')) sample_provider (sample_principal 7 VIEWER) ''leave''
      None None = Inr r \<and> length (drr_evidence r) + drr_dropped_unauthorized r = 1"
proof -
  obtain b where b: "load_current_chunks (cp_build (sample_corpus ''audit'')) = Inr b"
    using sample_artifacts(2) [OF sample_terms(2)] by blast
  obtain r where r: "retrieve_dense default_settings (cp_build (sample_corpus ''audit'')) sample_provider (sample_principal 7 VIEWER) ''leave''
      None None = Inr r" "drr_total_provider_matches r = 2" "drr_malformed_results r = 1"
    using sample_dense_run by blast
  show ?thesis using dense_results_revalidated [OF r(1) b] r by auto
qed

theorem retries_bounded_witness:
  "let operation = (\<lambda>n. if n < 2 then Failed (RetrievalTransientError []) else Answer n); run = with_retries 3 (1 / 4) operation in
   length (snd run) = 2 \<and> fst run = Answer 2 \<and> snd run ! 1 < 3 / 5"
proof -
  let ?op = "\<lambda>n. if n < 2 then Failed (RetrievalTransientError []) else Answer n"
  obtain r ps where run: "with_retries 3 (1 / 4) ?op = (r, ps)" by (cases "with_retries 3 (1 / 4) ?op")
  have p: "length ps = 2"
    using run by (auto simp: with_retries_def eval_nat_numeral retry_from_step transient_def)
  note c = retries_bounded [where maximum = 3 and base = "1 / 4" and operation = ?op, unfolded run prod.case, THEN conjunct2]
  have "ps ! 1 < 1 / 4 * 2 ^ 1 * (6 / 5)"
    using c [THEN conjunct2, THEN conjunct1, rule_format, of 1] p by simp
  then show ?thesis unfolding Let_def run using p c [THEN conjunct1] by simp
qed

theorem hybrid_overfetch_rejected_witness:
  "let s = default_settings\<lparr> hybrid_max_candidates := 200 \<rparr> in settings_ok s \<and>
     retrieve_hybrid s (sample_corpus ''audit'') sample_provider False False (sample_principal 7 VIEWER) ''leave'' 50 None =
       Inl (RetrievalDependencyError ''hybrid retrieval branches failed safely'')"
proof -
  let ?s = "default_settings\<lparr> hybrid_max_candidates := 200 \<rparr>"
  have "settings_ok ?s"
    unfolding settings_ok_def retrieval_fields_ok_def memory_fields_ok_def llm_fields_ok_def
      research_fields_ok_def validate_enabled_def default_settings_def by simp
  moreover have "100 < overfetch ?s (nat 50)" by (simp add: overfetch_def default_settings_def)
  ultimately show ?thesis by (simp add: hybrid_overfetch_rejected)
qed

end
