(* ===== verification/Research_Plan.thy ===== *)
theory Research_Plan
  imports Result_Models
begin

text \<open>
  Planning of recursive research: the offline planner (research/planner.py) and the application-owned
  compiler that validates, deduplicates, orders and renumbers a plan and rejects dependency cycles
  (research/plan_validator.py).  The JSON size of a plan and the hash are arguments.
\<close>

datatype research_error =
    PlanValidationError string bool
  | ContractError
  | DictKeyError
  | PlanningBudgetError
  | DependencyError retrieval_error

section \<open>The planner\<close>

abbreviation space :: rx where "space \<equiv> Cls False [CSpace]"

definition COMPARE_PREFIX :: rx where
  "COMPARE_PREFIX = seqs [AtStart, rx_many space, Lit ''compare'',
     rx_opt (seqs [rx_some space, Lit ''the'', rx_some space, Lit ''cause'', rx_opt (Lit ''s''),
       rx_some space, Lit ''of'']), rx_some space]"

definition COMPARE_SEPARATOR :: rx where
  "COMPARE_SEPARATOR = seqs [rx_some space,
     alts [Lit ''and'', Lit ''versus'', Seq (Lit ''vs'') (rx_opt (Lit ''.''))], rx_some space]"

definition TOKENS :: rx where
  "TOKENS = rx_some (Cls False [CRange CHR ''a'' CHR ''z'', CRange CHR ''0'' CHR ''9''])"

definition TERM_STOP_WORDS :: "string list" where
  "TERM_STOP_WORDS = [''a'', ''an'', ''and'', ''the'', ''in'', ''of'', ''to'', ''with'', ''for'',
     ''compare'', ''comparison'']"

text \<open>\<open>s.strip(chars)\<close> and \<open>s.lstrip()\<close>.\<close>

definition strip_chars :: "char list \<Rightarrow> string \<Rightarrow> string" where
  "strip_chars cs s = rev (dropWhile (\<lambda>c. c \<in> set cs) (rev (dropWhile (\<lambda>c. c \<in> set cs) s)))"

definition lstrip :: "string \<Rightarrow> string" where
  "lstrip s = dropWhile is_space s"

definition squeeze :: "string \<Rightarrow> string" where
  "squeeze s = join_text '' '' (split_words s)"

definition comparison_dimensions :: "string \<Rightarrow> string list" where
  "comparison_dimensions question =
     (if \<not> prefix ''compare '' (lstrip (casefold question)) then []
      else
        let body = strip_chars '' .?!'' (rx_sub True COMPARE_PREFIX [] question);
            parts = map (\<lambda>part. take 500 (squeeze part))
              (filter (\<lambda>part. strip part \<noteq> []) (rx_split True COMPARE_SEPARATOR body)) in
        if 2 \<le> length parts \<and> length parts \<le> 4 then parts else [])"

definition dimension_terms :: "string \<Rightarrow> string list" where
  "dimension_terms dimension =
     take 12 (unique_first (filter (\<lambda>token. 2 < length token \<and> token \<notin> set TERM_STOP_WORDS)
       (rx_findall False TOKENS (casefold dimension))))"

definition domain_terms :: "string \<Rightarrow> string list" where
  "domain_terms question = filter (\<lambda>t. contains_text t question)
     [''payment'', ''incident'', ''service'', ''policy'', ''runbook'']"

definition analysis_requested :: "string \<Rightarrow> bool" where
  "analysis_requested question = has_explicit_aggregate_intent question"

type_synonym task_spec = "research_task_type \<times> string \<times> string"

definition task_specs :: "string \<Rightarrow> string list \<Rightarrow> task_spec list" where
  "task_specs normalized dimensions =
     (let value = casefold normalized in
      if dimensions \<noteq> [] then
        map (\<lambda>dimension. (RT_comparison_dimension, dimension,
          join_text '' '' (dimension_terms dimension @ domain_terms value @ [''comparison'']))) dimensions
      else if contains_text ''policy'' value \<and> contains_text ''runbook'' value then
        [(RT_policy_lookup, ''Approved policy requirements'', ''approved payment failover policy''),
         (RT_runbook_lookup, ''Active operational instructions'', ''active payment failover runbook''),
         (RT_comparison_dimension, ''Compare authority and operational guidance'',
          ''payment failover policy runbook differences'')]
      else if contains_text ''architecture'' value then
        [(RT_architecture_lookup, ''Find architecture decisions'', normalized),
         (RT_timeline_lookup, ''Establish change timeline'', normalized @ '' timeline'')]
      else
        (RT_incident_lookup, ''Find relevant incidents'', normalized) #
        (if analysis_requested value
         then [(RT_root_cause_analysis, ''Identify recurring root causes'', normalized)] else []))"

definition default_search :: "string list \<Rightarrow> search_strategy" where
  "default_search queries = \<lparr> rq_queries = queries, rq_filters = no_filters, rq_top_k = 5 \<rparr>"

definition planned_task :: "string list \<Rightarrow> nat \<Rightarrow> task_spec \<Rightarrow> research_task" where
  "planned_task dimensions index spec =
     (case spec of (kind, objective, query) \<Rightarrow>
        (let typed = (kind = RT_comparison_dimension \<and> dimensions \<noteq> []) in
        \<lparr> tk_task_id = ''T'' @ show_nat index, tk_parent_task_id = None, tk_depth = 0,
          tk_task_type = kind, tk_research_question = objective, tk_search = default_search [query],
          tk_dependency_task_ids = [], tk_priority = 100 - index,
          tk_analysis_may_be_useful = (kind \<in> {RT_root_cause_analysis, RT_frequency_analysis}),
          tk_comparison_dimension = (if typed then Some objective else None),
          tk_comparison_terms = (if typed then dimension_terms objective else []),
          tk_completion_criteria = [''At least one authorized source''] \<rparr>))"

definition create_plan ::
  "(string \<Rightarrow> string) \<Rightarrow> string \<Rightarrow> collection_catalog \<Rightarrow> (research_error, research_plan) result"
where
  "create_plan sha question catalog =
     (let normalized = squeeze question; dimensions = comparison_dimensions normalized;
          specs = task_specs normalized dimensions;
          tasks = map (\<lambda>(index, spec). planned_task dimensions index spec) (enumerate 1 specs) in
      if \<not> list_all research_task_ok tasks then Raise ContractError
      else Return
        \<lparr> pl_plan_id = ''RP-'' @ take 12 (sha normalized), pl_original_question = question,
          pl_normalized_objective = normalized,
          pl_research_scope = ''authorized enterprise collection'', pl_catalog = catalog,
          pl_tasks = tasks, pl_expected_synthesis_dimensions = map (\<lambda>(_, objective, _). objective) specs,
          pl_required_comparison_dimensions = dimensions, pl_date_from = None, pl_date_to = None,
          pl_completion_criteria = [''Authorized evidence supports each available dimension''],
          pl_planner_version = ''fake-1.0'', pl_maximum_depth = 2, pl_maximum_tasks = 12,
          pl_warnings = [] \<rparr>)"

section \<open>The compiler of plans\<close>

definition UNSAFE :: rx where
  "UNSAFE = alts
     [seqs [Lit ''http'', rx_opt (Lit ''s''), Lit ''://''], Lit ''ftp://'', Lit ''file:'',
      seqs [Cls False [CRange CHR ''a'' CHR ''z'', CRange CHR ''A'' CHR ''Z''], Lit '':'', lit_char (CHR 0x5C)],
      seqs [Alt AtStart (Cls False [COne (CHR 0x5C), COne CHR ''/'']), Lit ''..'',
        Cls False [COne (CHR 0x5C), COne CHR ''/'']],
      Lit ''/etc/'', Lit ''system prompt'', Lit ''role override'', Lit ''permission override'',
      seqs [Lit ''access'', Cls False [CAny], Lit ''level''], Lit ''namespace'',
      seqs [Lit ''build'', Cls False [CAny], Lit ''fingerprint''], Lit ''pinecone'',
      Lit ''python source'', seqs [Lit ''python'', rx_many space, Lit ''(''],
      seqs [Lit ''lambda'', space], Lit ''tool name'',
      seqs [Alt AtStart space, lits [''rm'', ''del'', ''curl'', ''wget'', ''powershell'', ''cmd.exe''], space]]"

definition unsafe :: "string \<Rightarrow> bool" where
  "unsafe s = rx_search True UNSAFE s"

definition invalid_query :: "retrieval_settings \<Rightarrow> string \<Rightarrow> bool" where
  "invalid_query s q = (research_max_query_characters s < length q \<or> unsafe q)"

definition check_task :: "retrieval_settings \<Rightarrow> research_task \<Rightarrow> (research_error, unit) result" where
  "check_task s t =
     (let queries = rq_queries (tk_search t) in
      if research_max_depth s < tk_depth t \<or> strip (tk_research_question t) = []
      then Raise (PlanValidationError ''invalid task depth or question'' True)
      else if unsafe (tk_research_question t)
      then Raise (PlanValidationError ''unsafe task content'' False)
      else if queries = [] \<or> research_max_queries_per_task s < length queries \<or>
              list_ex (invalid_query s) queries
      then Raise (PlanValidationError ''invalid search query'' (\<not> list_ex unsafe queries))
      else Return ())"

type_synonym search_key = "string \<times> string list"

definition search_key :: "research_task \<Rightarrow> search_key" where
  "search_key t = (task_type_text (tk_task_type t),
     map (\<lambda>q. squeeze (casefold q)) (rq_queries (tk_search t)))"

fun unique_tasks ::
  "retrieval_settings \<Rightarrow> (search_key, research_task) dict \<Rightarrow> research_task list \<Rightarrow>
   (research_error, (search_key, research_task) dict) result" where
  "unique_tasks s acc [] = Return acc"
| "unique_tasks s acc (t # ts) =
     bind_result (check_task s t) (\<lambda>_. unique_tasks s (dict_setdefault (search_key t) t acc) ts)"

definition task_order :: "research_task \<Rightarrow> int \<times> string \<times> string" where
  "task_order t = (- int (tk_priority t), task_type_text (tk_task_type t), tk_research_question t)"

text \<open>The format \<open>02d\<close>.\<close>

definition two_digits :: "nat \<Rightarrow> string" where
  "two_digits n = (if n < 10 then ''0'' else []) @ show_nat n"

definition plan_id :: "nat \<Rightarrow> string" where
  "plan_id index = ''T'' @ two_digits index"

definition renumbering :: "research_task list \<Rightarrow> (string, string) dict" where
  "renumbering ordered =
     fold (\<lambda>(index, t). dict_set (tk_task_id t) (plan_id index)) (enumerate 1 ordered) []"

definition renamed :: "(string, string) dict \<Rightarrow> string \<Rightarrow> string" where
  "renamed names t = (case map_of names t of None \<Rightarrow> [] | Some new \<Rightarrow> new)"

definition compile_task ::
  "(string, string) dict \<Rightarrow> research_task \<Rightarrow> (research_error, research_task) result" where
  "compile_task names t =
     (let dependencies = tk_dependency_task_ids t in
      if list_ex (\<lambda>d. d \<notin> set (dict_keys names)) dependencies
      then Raise (PlanValidationError ''unknown dependency'' True)
      else if tk_task_id t \<in> set dependencies
      then Raise (PlanValidationError ''self dependency'' True)
      else Return (t\<lparr> tk_task_id := renamed names (tk_task_id t),
             tk_dependency_task_ids := sort (map (renamed names) dependencies) \<rparr>))"

fun compile_tasks ::
  "(string, string) dict \<Rightarrow> research_task list \<Rightarrow> (research_error, research_task list) result" where
  "compile_tasks names [] = Return []"
| "compile_tasks names (t # ts) =
     bind_result (compile_task names t) (\<lambda>c. bind_result (compile_tasks names ts) (\<lambda>cs. Return (c # cs)))"

text \<open>\<open>visit\<close> applied to a list of tasks in turn.  The set of tasks being visited is the path of the
  recursion; the tasks already visited are passed on.\<close>

type_synonym edges = "(string, string list) dict"

function visit_all ::
  "edges \<Rightarrow> string list \<Rightarrow> string list \<Rightarrow> string list \<Rightarrow> (research_error, string list) result" where
  "visit_all edges visiting visited [] = Return visited"
| "visit_all edges visiting visited (t # ts) =
     (if t \<in> set visiting then Raise (PlanValidationError ''dependency cycle'' True)
      else if t \<in> set visited then visit_all edges visiting visited ts
      else case map_of edges t of
        None \<Rightarrow> Raise DictKeyError
      | Some dependencies \<Rightarrow>
          (case visit_all edges (t # visiting) visited dependencies of
             Inl e \<Rightarrow> Raise e
           | Inr v \<Rightarrow> visit_all edges visiting (t # v) ts))"
  by pat_completeness auto

termination
proof (relation "measures [\<lambda>(edges, visiting, visited, ts). card (set (dict_keys edges) - set visiting),
    \<lambda>(edges, visiting, visited, ts). length ts]", goal_cases)
  case 1
  then show ?case by simp
next
  case 2
  then show ?case by simp
next
  case (3 edges visiting visited t ts dependencies)
  have "t \<in> set (dict_keys edges)" using 3(3) by (force dest: map_of_SomeD)
  then have "set (dict_keys edges) - set (t # visiting) \<subset> set (dict_keys edges) - set visiting"
    using 3(1) by auto
  then show ?case by (simp add: psubset_card_mono del: set_map)
next
  case 4
  then show ?case by simp
qed

definition edges_of :: "research_task list \<Rightarrow> edges" where
  "edges_of tasks = fold (\<lambda>t. dict_set (tk_task_id t) (tk_dependency_task_ids t)) tasks []"

definition reject_cycles :: "research_task list \<Rightarrow> (research_error, unit) result" where
  "reject_cycles tasks =
     (let edges = edges_of tasks in
      bind_result (visit_all edges [] [] (dict_keys edges)) (\<lambda>_. Return ()))"

definition compile_plan ::
  "(string \<Rightarrow> string) \<Rightarrow> (research_plan \<Rightarrow> nat) \<Rightarrow> retrieval_settings \<Rightarrow> research_plan \<Rightarrow>
   (research_error, research_plan) result" where
  "compile_plan sha json_size s plan =
     (if research_max_plan_characters s < json_size plan
      then Raise (PlanValidationError ''plan size limit exceeded'' True)
      else if research_max_initial_tasks s < length (pl_tasks plan)
      then Raise (PlanValidationError ''initial task limit exceeded'' True)
      else bind_result (unique_tasks s [] (pl_tasks plan)) (\<lambda>unique.
        (let ordered = sort_key task_order (map snd unique) in
         bind_result (compile_tasks (renumbering ordered) ordered) (\<lambda>compiled.
           bind_result (reject_cycles compiled) (\<lambda>_.
             Return (plan\<lparr> pl_plan_id := ''RP-'' @ take 12 (sha (pl_normalized_objective plan @ ''|'' @
                     join_text ''|'' (map (\<lambda>t. tk_task_id t @ tk_research_question t) compiled))),
                 pl_tasks := compiled, pl_maximum_depth := research_max_depth s,
                 pl_maximum_tasks := research_max_total_tasks s \<rparr>))))))"

end
