(* ===== verification/Research_Evidence.thy ===== *)
theory Research_Evidence
  imports Research_Plan Dense_Retrieval Enterprise_Tools
begin

text \<open>
  What recursive research does with evidence: the authorized collection catalog
  (research/collection_catalog.py), the match of evidence with a task and the coverage assessment
  (research/coverage.py), the evidence ledger (research/aggregation.py) and the detection of
  conflicting versions (research/conflicts.py).
\<close>

section \<open>The collection catalog\<close>

definition sorted_values :: "('a::linorder) list \<Rightarrow> 'a list" where
  "sorted_values xs = sort (unique_first xs)"

fun catalog_documents ::
  "authenticated_principal \<Rightarrow> (uuid, chunk_record) dict \<Rightarrow> chunk_record list \<Rightarrow>
   (research_error, (uuid, chunk_record) dict) result" where
  "catalog_documents p documents [] = Return documents"
| "catalog_documents p documents (c # cs) =
     (if \<not> document_metadata_ok (chunk_document_metadata c) then Raise ContractError
      else catalog_documents p
        (if is_document_authorized p (Some (chunk_document_metadata c))
         then dict_setdefault (ck_document_id c) c documents else documents) cs)"

definition count_type :: "document_type \<Rightarrow> chunk_record list \<Rightarrow> nat" where
  "count_type t values = length (filter (\<lambda>c. ck_document_type c = t) values)"

definition catalog_of :: "string \<Rightarrow> chunk_record list \<Rightarrow> collection_catalog" where
  "catalog_of fingerprint values =
     (let dates = sorted_values (map ck_updated_date values) in
      \<lparr> cc_build_fingerprint = fingerprint, cc_document_count = length values,
        cc_departments = sorted_values (map ck_department values),
        cc_document_types = sorted_values (map (document_type_text \<circ> ck_document_type) values),
        cc_statuses = sorted_values (map ck_status values),
        cc_earliest_date = (if dates = [] then None else Some (hd dates)),
        cc_latest_date = (if dates = [] then None else Some (last dates)),
        cc_tags = take 100 (sorted_values (concat (map ck_tags values))),
        cc_incident_count = count_type DT_incident values,
        cc_policy_count = count_type DT_policy values,
        cc_runbook_count = count_type DT_runbook values,
        cc_architecture_document_count = count_type DT_architecture values \<rparr>)"

definition build_catalog ::
  "ingestion_build option \<Rightarrow> authenticated_principal \<Rightarrow> (research_error, collection_catalog) result"
where
  "build_catalog build p =
     (case load_current_chunks build of
        Inl e \<Rightarrow> Raise (DependencyError e)
      | Inr b \<Rightarrow> bind_result (catalog_documents p [] (ib_chunks b))
          (\<lambda>documents. Return (catalog_of (ib_fingerprint b) (map snd documents))))"

section \<open>Coverage\<close>

definition month_names :: "string list" where
  "month_names = [''January'', ''February'', ''March'', ''April'', ''May'', ''June'', ''July'', ''August'',
     ''September'', ''October'', ''November'', ''December'']"

text \<open>\<open>updated_date.strftime("%B %Y")\<close>.\<close>

definition month_and_year :: "date \<Rightarrow> string" where
  "month_and_year d =
     (case civil_from_days d of (y, m, _) \<Rightarrow> month_names ! nat (m - 1) @ '' '' @ show_nat (nat y))"

text \<open>The keys of the month table and the pattern \<open>^(?:19|20)\d{2}$\<close>.\<close>

definition temporal_term :: "string \<Rightarrow> bool" where
  "temporal_term t =
     (t \<in> set (map casefold month_names) \<or>
      (length t = 4 \<and> take 2 t \<in> {''19'', ''20''} \<and> list_all is_digit (drop 2 t)))"

definition haystack :: "dense_evidence \<Rightarrow> string" where
  "haystack e = casefold (join_text '' ''
     [de_title e, de_section e, de_text e, month_and_year (de_updated_date e)])"

definition evidence_supports_terms :: "string list \<Rightarrow> hybrid_evidence \<Rightarrow> bool" where
  "evidence_supports_terms terms h =
     (if terms = [] then True
      else
        let hay = haystack (he_evidence h); temporal = filter temporal_term terms;
            subject = filter (\<lambda>t. t \<notin> set temporal) terms in
        if list_ex (\<lambda>t. \<not> contains_text t hay) temporal then False
        else (if subject = [] then 0 else max 1 ((length subject + 1) div 2))
             \<le> length (filter (\<lambda>t. contains_text t hay) subject))"

definition evidence_supports_task :: "hybrid_evidence \<Rightarrow> research_task \<Rightarrow> bool" where
  "evidence_supports_task h t = evidence_supports_terms (tk_comparison_terms t) h"

text \<open>The dictionary of comparison tasks: of two tasks for one dimension the later one is kept.\<close>

definition comparison_task :: "research_plan \<Rightarrow> string \<Rightarrow> research_task option" where
  "comparison_task plan dimension =
     List.find (\<lambda>t. tk_comparison_dimension t = Some dimension) (rev (pl_tasks plan))"

definition dimension_covered :: "research_plan \<Rightarrow> worker_result list \<Rightarrow> string \<Rightarrow> bool" where
  "dimension_covered plan results dimension =
     (case comparison_task plan dimension of
        None \<Rightarrow> False
      | Some t \<Rightarrow> list_ex (\<lambda>r. wr_comparison_dimension r = Some dimension \<and>
                   list_ex (\<lambda>h. evidence_supports_task h t) (wr_evidence r)) results)"

definition completed_tasks :: "worker_result list \<Rightarrow> string list" where
  "completed_tasks results = map wr_task_id (filter (\<lambda>r. wr_status r = RS_completed) results)"

definition covered_dimensions :: "research_plan \<Rightarrow> worker_result list \<Rightarrow> string list" where
  "covered_dimensions plan results =
     (if pl_required_comparison_dimensions plan \<noteq> []
      then filter (dimension_covered plan results) (pl_required_comparison_dimensions plan)
      else map tk_research_question
        (filter (\<lambda>t. tk_task_id t \<in> set (completed_tasks results)) (pl_tasks plan)))"

definition missing_dimensions :: "research_plan \<Rightarrow> worker_result list \<Rightarrow> string list" where
  "missing_dimensions plan results =
     (if pl_required_comparison_dimensions plan \<noteq> []
      then filter (\<lambda>d. d \<notin> set (covered_dimensions plan results)) (pl_required_comparison_dimensions plan)
      else map tk_research_question
        (filter (\<lambda>t. tk_task_id t \<notin> set (completed_tasks results)) (pl_tasks plan)))"

definition coverage_of :: "bool \<Rightarrow> bool \<Rightarrow> bool \<Rightarrow> nat \<Rightarrow> bool \<Rightarrow> coverage_status" where
  "coverage_of blocked exhausted failed evidence_count missing =
     (if blocked then Cov_blocked_by_authorization
      else if exhausted then Cov_budget_exhausted
      else if failed then Cov_failed
      else if evidence_count = 0 then Cov_insufficient
      else if missing then Cov_partially_sufficient
      else Cov_sufficient)"

definition authority :: "worker_result list \<Rightarrow> (string \<times> nat) list" where
  "authority results =
     (let statuses = map (\<lambda>r. case wr_evidence r of [] \<Rightarrow> ''none'' | h # _ \<Rightarrow> de_status (he_evidence h)) results in
      map (\<lambda>s. (s, count_list statuses s)) (sorted_values statuses))"

definition assess_coverage ::
  "research_plan \<Rightarrow> worker_result list \<Rightarrow> nat \<Rightarrow> research_conflict list \<Rightarrow> bool \<Rightarrow> bool \<Rightarrow> bool \<Rightarrow>
   coverage_assessment" where
  "assess_coverage plan results evidence_count conflicts exhausted blocked failed =
     (let missing = missing_dimensions plan results in
      \<lparr> ca_status = coverage_of blocked exhausted failed evidence_count (missing \<noteq> []),
        ca_covered_dimensions = covered_dimensions plan results, ca_missing_dimensions = missing,
        ca_unsupported_requested_claims = [],
        ca_evidence_diversity = card (set (map (de_document_id \<circ> he_evidence) (concat (map wr_evidence results)))),
        ca_source_authority_distribution = authority results, ca_conflicts = conflicts,
        ca_another_round_justified = (missing \<noteq> [] \<and> \<not> exhausted) \<rparr>)"

section \<open>The evidence ledger\<close>

record collection =
  co_collected :: "(uuid, evidence_entry) dict"
  co_chunks :: "(uuid, uuid) dict"
  co_dropped :: nat

definition same_identity :: "dense_evidence \<Rightarrow> dense_evidence \<Rightarrow> bool" where
  "same_identity a b =
     (de_evidence_id a = de_evidence_id b \<and> de_document_id a = de_document_id b \<and>
      de_source_file a = de_source_file b \<and> de_section_path a = de_section_path b \<and>
      de_source_line_start a = de_source_line_start b \<and> de_source_line_end a = de_source_line_end b \<and>
      de_title a = de_title b \<and> de_version a = de_version b \<and> de_updated_date a = de_updated_date b \<and>
      de_access_level a = de_access_level b \<and> de_allowed_roles a = de_allowed_roles b \<and>
      de_chunk_content_hash a = de_chunk_content_hash b \<and>
      de_build_fingerprint a = de_build_fingerprint b)"

definition rank_key :: "hybrid_evidence \<Rightarrow> nat \<times> real" where
  "rank_key h = (he_final_rank h, - he_hybrid_score h)"

text \<open>\<open>min\<close> keeps the first of two items with equal keys.\<close>

definition better :: "hybrid_evidence \<Rightarrow> hybrid_evidence \<Rightarrow> hybrid_evidence" where
  "better a b = (if rank_key b < rank_key a then b else a)"

definition add_evidence :: "string \<Rightarrow> hybrid_evidence \<Rightarrow> collection \<Rightarrow> collection" where
  "add_evidence task_id h co =
     (let e = he_evidence h; key = de_chunk_id e;
          drop_item = co\<lparr> co_dropped := Suc (co_dropped co) \<rparr> in
      if (case map_of (co_chunks co) (de_evidence_id e) of None \<Rightarrow> False | Some k \<Rightarrow> k \<noteq> key) then drop_item
      else case map_of (co_collected co) key of
        Some existing \<Rightarrow>
          (if \<not> same_identity (he_evidence (en_evidence existing)) e then drop_item
           else co\<lparr> co_collected := dict_set key
             \<lparr> en_evidence = better (en_evidence existing) h,
               en_task_ids = sorted_values (en_task_ids existing @ [task_id]) \<rparr> (co_collected co) \<rparr>)
      | None \<Rightarrow>
          co\<lparr> co_chunks := dict_set (de_evidence_id e) key (co_chunks co),
              co_collected := dict_set key \<lparr> en_evidence = h, en_task_ids = [task_id] \<rparr> (co_collected co) \<rparr>)"

text \<open>The checks before collection: \<open>None\<close> is no expected fingerprint and no principal.\<close>

definition admit_evidence ::
  "string option \<Rightarrow> authenticated_principal option \<Rightarrow> dense_evidence \<Rightarrow> (research_error, bool) result"
where
  "admit_evidence fingerprint caller e =
     (if (case fingerprint of None \<Rightarrow> False | Some f \<Rightarrow> f \<noteq> [] \<and> de_build_fingerprint e \<noteq> f)
      then Return False
      else if contains_untrusted_instruction (de_text e) then Return False
      else case caller of
        None \<Rightarrow> Return True
      | Some p \<Rightarrow>
          (let meta = dense_document_metadata e (de_updated_date e) in
           if \<not> document_metadata_ok meta then Raise ContractError
           else Return (is_document_authorized p (Some meta))))"

fun collect_evidence ::
  "string option \<Rightarrow> authenticated_principal option \<Rightarrow> (string \<times> hybrid_evidence) list \<Rightarrow> collection \<Rightarrow>
   (research_error, collection) result" where
  "collect_evidence fingerprint caller [] co = Return co"
| "collect_evidence fingerprint caller ((task_id, h) # items) co =
     bind_result (admit_evidence fingerprint caller (he_evidence h)) (\<lambda>admitted.
       collect_evidence fingerprint caller items
         (if admitted then add_evidence task_id h co else co\<lparr> co_dropped := Suc (co_dropped co) \<rparr>))"

definition entry_order :: "evidence_entry \<Rightarrow> nat \<times> real \<times> uuid" where
  "entry_order n = (he_final_rank (en_evidence n), - he_hybrid_score (en_evidence n),
     de_chunk_id (he_evidence (en_evidence n)))"

definition entry_size :: "evidence_entry \<Rightarrow> nat" where
  "entry_size n = length (de_text (he_evidence (en_evidence n)))"

fun accept_entries :: "nat \<Rightarrow> nat \<Rightarrow> evidence_entry list \<Rightarrow> evidence_ledger \<Rightarrow> evidence_ledger" where
  "accept_entries items characters [] l = l"
| "accept_entries items characters (n # ns) l =
     accept_entries items characters ns
       (if items \<le> length (el_entries l) \<or> characters < el_total_characters l + entry_size n
        then l\<lparr> el_dropped_items := Suc (el_dropped_items l) \<rparr>
        else l\<lparr> el_entries := el_entries l @ [n],
                el_total_characters := el_total_characters l + entry_size n \<rparr>)"

definition evidence_stream :: "worker_result list \<Rightarrow> (string \<times> hybrid_evidence) list" where
  "evidence_stream results =
     concat (map (\<lambda>r. map (Pair (wr_task_id r)) (wr_evidence r)) (sort_key wr_task_id results))"

definition aggregate_evidence ::
  "nat \<Rightarrow> nat \<Rightarrow> string option \<Rightarrow> authenticated_principal option \<Rightarrow> worker_result list \<Rightarrow>
   (research_error, evidence_ledger) result" where
  "aggregate_evidence items characters fingerprint caller results =
     bind_result (collect_evidence fingerprint caller (evidence_stream results)
         \<lparr> co_collected = [], co_chunks = [], co_dropped = 0 \<rparr>)
       (\<lambda>co. Return (accept_entries items characters (sort_key entry_order (map snd (co_collected co)))
          \<lparr> el_entries = [], el_total_characters = 0, el_dropped_items = co_dropped co \<rparr>))"

section \<open>Conflicting versions\<close>

definition status_authority :: "string \<Rightarrow> nat" where
  "status_authority status =
     (case map_of [(''approved'', 0), (''active'', 1), (''final'', 2), (''post_incident_final'', 3),
        (''draft'', 8), (''superseded'', 9), (''retired'', 10)] (casefold status) of
        None \<Rightarrow> 5 | Some n \<Rightarrow> n)"

definition preference :: "dense_evidence \<Rightarrow> nat \<times> int \<times> uuid" where
  "preference e = (status_authority (de_status e), - de_updated_date e, de_evidence_id e)"

text \<open>\<open>min(items, key=f)\<close> is the head of the stable sort.\<close>

definition first_min :: "('a \<Rightarrow> 'b::linorder) \<Rightarrow> 'a list \<Rightarrow> 'a" where
  "first_min f xs = hd (sort_key f xs)"

definition in_conflict :: "dense_evidence list \<Rightarrow> bool" where
  "in_conflict items =
     (let statuses = set (map (casefold \<circ> de_status) items) in
      1 < card (set (map de_version items)) \<or> {''draft'', ''approved''} \<subseteq> statuses \<or>
      {''active'', ''superseded''} \<subseteq> statuses \<or> {''active'', ''retired''} \<subseteq> statuses)"

definition group_by :: "('a \<Rightarrow> 'k) \<Rightarrow> 'a list \<Rightarrow> ('k, 'a list) dict" where
  "group_by f xs = fold (\<lambda>x d. dict_set (f x) ((case map_of d (f x) of None \<Rightarrow> [] | Some g \<Rightarrow> g) @ [x]) d) xs []"

definition conflict_of :: "dense_evidence list \<Rightarrow> research_conflict" where
  "conflict_of items = \<lparr> rc_conflict_type = ''document_version_or_status'',
     rc_evidence_ids = sorted_values (map de_evidence_id items),
     rc_description = ''Authorized evidence contains differing versions or lifecycle statuses.'',
     rc_preferred_evidence_id = Some (de_evidence_id (first_min preference items)) \<rparr>"

definition detect_conflicts :: "evidence_ledger \<Rightarrow> research_conflict list" where
  "detect_conflicts ledger =
     (let versions = group_by de_document_id (map (he_evidence \<circ> en_evidence) (el_entries ledger)) in
      sort_key rc_evidence_ids (map conflict_of (filter in_conflict (map snd versions))))"

end
