(* ===== verification/Plan_Properties.thy ===== *)
theory Plan_Properties
  imports Research_Plan Enterprise_Tools
begin

text \<open>
  What the plan compiler guarantees: the identifiers of a compiled plan, its order and its searches,
  and that exactly the plans with a dependency cycle are rejected as cyclic.
\<close>

section \<open>Identifiers\<close>

text \<open>\<open>digits_value\<close> reads what \<open>show_nat\<close> writes, so distinct numbers have distinct texts.\<close>

lemma digits_value_snoc: "digits_value (ds @ [c]) = 10 * digits_value ds + int (code_point c) - 48"
  by (simp add: digits_value_def)

lemma digits_value_show [simp]: "digits_value (show_nat n) = int n"
proof (induction n rule: show_nat.induct)
  case (1 n)
  show ?case
  proof (cases "n < 10")
    case True
    then show ?thesis by (subst show_nat.simps) (simp add: digits_value_def text_simps)
  next
    case False
    have "code_point (char_of (48 + n mod 10)) = 48 + n mod 10"
      by (rule code_point_char_of) (use mod_less_divisor [of 10 n] in linarith)
    moreover have "10 * int (n div 10) + int (n mod 10) = int n" by presburger
    ultimately show ?thesis using 1 [OF False] False
      by (subst show_nat.simps) (simp add: digits_value_snoc)
  qed
qed

lemma digits_value_two [simp]: "digits_value (two_digits n) = int n"
proof -
  have "digits_value (CHR ''0'' # ds) = digits_value ds" for ds
    by (simp add: digits_value_def code_point_def)
  then show ?thesis by (simp add: two_digits_def)
qed

lemma two_digits_inject [simp]: "two_digits m = two_digits n \<longleftrightarrow> m = n"
  by (metis digits_value_two of_nat_eq_iff)

lemma plan_id_inject [simp]: "plan_id m = plan_id n \<longleftrightarrow> m = n"
  by (simp add: plan_id_def)

lemma show_nat_digits: "list_all is_digit (show_nat n)"
proof (induction n rule: show_nat.induct)
  case (1 n)
  have digit: "is_digit (char_of (48 + k))" if "k < 10" for k :: nat
    using that by (simp add: is_digit_def text_simps)
  show ?case
    using 1 digit [of n] digit [of "n mod 10"] by (subst show_nat.simps) auto
qed

lemma two_digits_digits: "list_all is_digit (two_digits n)"
  using show_nat_digits [of n] by (simp add: two_digits_def is_digit_def code_point_def)

section \<open>Dependency cycles\<close>

definition depends :: "edges \<Rightarrow> (string \<times> string) set" where
  "depends edges = {(a, b). \<exists>ds. map_of edges a = Some ds \<and> b \<in> set ds}"

text \<open>The visited tasks, latest first: every task comes before the tasks it depends on.\<close>

fun topological :: "edges \<Rightarrow> string list \<Rightarrow> bool" where
  "topological edges [] = True"
| "topological edges (t # ts) =
     (topological edges ts \<and> t \<notin> set ts \<and> (\<exists>ds. map_of edges t = Some ds \<and> set ds \<subseteq> set ts))"

lemma visit_all_topological:
  "visit_all edges visiting visited ts = Inr v \<Longrightarrow> topological edges visited \<Longrightarrow>
   set visiting \<inter> set visited = {} \<Longrightarrow>
   topological edges v \<and> set visited \<union> set ts \<subseteq> set v \<and> set visiting \<inter> set v = {}"
proof (induction edges visiting visited ts arbitrary: v rule: visit_all.induct)
  case (1 edges visiting visited)
  then show ?case by simp
next
  case (2 edges visiting visited t ts)
  note fresh = 2(4) [unfolded visit_all.simps(2)]
  then have nv: "t \<notin> set visiting" by (auto split: if_splits)
  show ?case
  proof (cases "t \<in> set visited")
    case True
    then have "visit_all edges visiting visited ts = Inr v" using fresh nv by simp
    then show ?thesis using 2(1) [OF nv True] 2(5,6) True by auto
  next
    case False
    then obtain ds w where ds: "map_of edges t = Some ds" "visit_all edges (t # visiting) visited ds = Inr w"
      and rest: "visit_all edges visiting (t # w) ts = Inr v"
      using fresh nv by (auto split: option.splits sum.splits)
    have w: "topological edges w \<and> set visited \<union> set ds \<subseteq> set w \<and> set (t # visiting) \<inter> set w = {}"
      by (rule 2(2) [OF nv False ds 2(5)]) (use 2(6) False in auto)
    then have "topological edges (t # w)" "set visiting \<inter> set (t # w) = {}" using ds(1) nv by auto
    from 2(3) [OF nv False ds rest this] w show ?thesis by auto
  qed
qed

lemma topological_closed:
  "topological edges v \<Longrightarrow> a \<in> set v \<Longrightarrow> (a, b) \<in> depends edges \<Longrightarrow> b \<in> set v"
  by (induction v) (auto simp: depends_def)

lemma topological_position:
  "topological edges v \<Longrightarrow> a \<in> set v \<Longrightarrow> (a, b) \<in> depends edges \<Longrightarrow>
   length (takeWhile (\<lambda>x. x \<noteq> a) v) < length (takeWhile (\<lambda>x. x \<noteq> b) v)"
proof (induction v)
  case (Cons t v)
  then have t: "topological edges v" "t \<notin> set v" by simp_all
  show ?case
  proof (cases "a = t")
    case True
    then show ?thesis using Cons.prems by (auto simp: depends_def)
  next
    case False
    then have "a \<in> set v" using Cons.prems(2) by simp
    then have "b \<noteq> t" using topological_closed [OF t(1) _ Cons.prems(3)] t(2) by blast
    then show ?thesis using Cons.IH [OF t(1) \<open>a \<in> set v\<close> Cons.prems(3)] False by simp
  qed
qed simp

lemma topological_acyclic:
  assumes "topological edges v" "set (dict_keys edges) \<subseteq> set v"
  shows "acyclic (depends edges)"
proof -
  have "depends edges \<subseteq> measure (\<lambda>b. length (takeWhile (\<lambda>x. x \<noteq> b) v))"
  proof
    fix z assume "z \<in> depends edges"
    then obtain a b where z: "z = (a, b)" "(a, b) \<in> depends edges" by (cases z) auto
    then have "a \<in> set v" using assms(2) by (force simp: depends_def dest: map_of_SomeD)
    then show "z \<in> measure (\<lambda>b. length (takeWhile (\<lambda>x. x \<noteq> b) v))"
      using topological_position [OF assms(1) _ z(2)] z(1) by simp
  qed
  then show ?thesis by (meson wf_acyclic wf_measure wf_subset)
qed

lemma visit_all_cyclic:
  "visit_all edges visiting visited ts = Inl e \<Longrightarrow>
   \<forall>a ds. map_of edges a = Some ds \<longrightarrow> set ds \<subseteq> set (dict_keys edges) \<Longrightarrow>
   set ts \<subseteq> set (dict_keys edges) \<Longrightarrow> \<forall>y \<in> set visiting. \<forall>x \<in> set ts. (y, x) \<in> (depends edges)\<^sup>+ \<Longrightarrow>
   \<not> acyclic (depends edges) \<and> e = PlanValidationError ''dependency cycle'' True"
proof (induction edges visiting visited ts rule: visit_all.induct)
  case (1 edges visiting visited)
  then show ?case by simp
next
  case (2 edges visiting visited t ts)
  show ?case
  proof (cases "t \<in> set visiting")
    case True
    then have "(t, t) \<in> (depends edges)\<^sup>+" using 2(7) by simp
    then show ?thesis using True 2(4) by (auto simp: acyclic_def)
  next
    case nv: False
    have ts: "set ts \<subseteq> set (dict_keys edges)" "\<forall>y \<in> set visiting. \<forall>x \<in> set ts. (y, x) \<in> (depends edges)\<^sup>+"
      using 2(6,7) by auto
    show ?thesis
    proof (cases "t \<in> set visited")
      case True
      then have "visit_all edges visiting visited ts = Inl e" using 2(4) nv by simp
      then show ?thesis using 2(1) [OF nv True] 2(5) ts by blast
    next
      case False
      obtain ds where ds: "map_of edges t = Some ds"
        using 2(6) by (metis list.set_intros(1) map_of_eq_None_iff not_None_eq set_map subsetD)
      have path: "\<forall>y \<in> set (t # visiting). \<forall>x \<in> set ds. (y, x) \<in> (depends edges)\<^sup>+"
      proof (intro ballI)
        fix y x assume y: "y \<in> set (t # visiting)" and x: "x \<in> set ds"
        have tx: "(t, x) \<in> depends edges" using ds x by (auto simp: depends_def)
        then show "(y, x) \<in> (depends edges)\<^sup>+"
          using y 2(7) by (cases "y = t") (auto intro: trancl_into_trancl)
      qed
      have dsk: "set ds \<subseteq> set (dict_keys edges)" using 2(5) ds by blast
      show ?thesis
      proof (cases "visit_all edges (t # visiting) visited ds")
        case (Inl e')
        then have "visit_all edges (t # visiting) visited ds = Inl e" using 2(4) nv False ds by simp
        then show ?thesis by (rule 2(2) [OF nv False ds _ 2(5) dsk path])
      next
        case (Inr w)
        then have "visit_all edges visiting (t # w) ts = Inl e" using 2(4) nv False ds by simp
        then show ?thesis using 2(3) [OF nv False ds Inr _ 2(5) ts] by blast
      qed
    qed
  qed
qed

lemma edges_of_fold:
  "distinct (map tk_task_id ts) \<Longrightarrow> set (map tk_task_id ts) \<inter> set (dict_keys d) = {} \<Longrightarrow>
   fold (\<lambda>t. dict_set (tk_task_id t) (tk_dependency_task_ids t)) ts d
     = d @ map (\<lambda>t. (tk_task_id t, tk_dependency_task_ids t)) ts"
proof (induction ts arbitrary: d)
  case (Cons t ts)
  have "dict_set (tk_task_id t) v d = d @ [(tk_task_id t, v)]" for v
    using Cons.prems(2) by (induction d) auto
  then show ?case using Cons by auto
qed simp

lemma edges_of_distinct:
  "distinct (map tk_task_id ts) \<Longrightarrow>
   edges_of ts = map (\<lambda>t. (tk_task_id t, tk_dependency_task_ids t)) ts"
  by (simp add: edges_of_def edges_of_fold)

definition dependency :: "research_task list \<Rightarrow> (string \<times> string) set" where
  "dependency ts = {(tk_task_id t, d) |t d. t \<in> set ts \<and> d \<in> set (tk_dependency_task_ids t)}"

lemma depends_edges_of:
  assumes "distinct (map tk_task_id ts)"
  shows "depends (edges_of ts) = dependency ts"
proof -
  have "map_of (map (\<lambda>t. (tk_task_id t, tk_dependency_task_ids t)) ts) a = Some ds \<longleftrightarrow>
      (\<exists>t \<in> set ts. a = tk_task_id t \<and> ds = tk_dependency_task_ids t)" for a ds
    using assms by (subst map_of_eq_Some_iff) (auto simp: comp_def)
  then show ?thesis by (auto simp: depends_def dependency_def edges_of_distinct [OF assms])
qed

text \<open>The search rejects exactly the cyclic dependency graphs.\<close>

lemma reject_cycles_iff:
  assumes "distinct (map tk_task_id ts)"
    "\<forall>t \<in> set ts. set (tk_dependency_task_ids t) \<subseteq> tk_task_id ` set ts"
  shows "reject_cycles ts = (if acyclic (dependency ts) then Return ()
     else Raise (PlanValidationError ''dependency cycle'' True))"
proof (cases "visit_all (edges_of ts) [] [] (dict_keys (edges_of ts))")
  case (Inl e)
  have "set ds \<subseteq> set (dict_keys (edges_of ts))" if "map_of (edges_of ts) a = Some ds" for a ds
    using assms(2) map_of_SomeD [OF that] by (force simp: edges_of_distinct [OF assms(1)])
  then have "\<not> acyclic (depends (edges_of ts)) \<and> e = PlanValidationError ''dependency cycle'' True"
    by (intro visit_all_cyclic [OF Inl]) auto
  then show ?thesis using Inl by (simp add: reject_cycles_def depends_edges_of [OF assms(1)])
next
  case (Inr v)
  have "topological (edges_of ts) v \<and> set [] \<union> set (dict_keys (edges_of ts)) \<subseteq> set v \<and> set [] \<inter> set v = {}"
    by (rule visit_all_topological [OF Inr]) auto
  then have "acyclic (depends (edges_of ts))" using topological_acyclic by auto
  then show ?thesis using Inr by (simp add: reject_cycles_def depends_edges_of [OF assms(1)])
qed

section \<open>The searches of a plan\<close>

definition first_with :: "('a \<Rightarrow> 'k) \<Rightarrow> 'k \<Rightarrow> 'a list \<Rightarrow> 'a option" where
  "first_with f k xs = List.find (\<lambda>x. f x = k) xs"

lemma unique_tasks_Inr:
  "unique_tasks s acc ts = Inr d \<Longrightarrow> distinct (dict_keys acc) \<Longrightarrow>
   distinct (dict_keys d) \<and> (\<forall>t \<in> set ts. check_task s t = Inr ()) \<and>
   (\<forall>k. map_of d k = (case map_of acc k of Some t \<Rightarrow> Some t | None \<Rightarrow> first_with search_key k ts))"
proof (induction ts arbitrary: acc)
  case Nil
  then show ?case by (simp add: first_with_def split: option.splits)
next
  case (Cons t ts)
  let ?acc = "dict_setdefault (search_key t) t acc"
  have c: "check_task s t = Inr ()" "unique_tasks s ?acc ts = Inr d" using Cons.prems(1) by auto
  have "distinct (dict_keys ?acc)"
    using Cons.prems(2) by (auto simp: dict_setdefault_def intro: dict_distinct_set split: option.splits)
  from Cons.IH [OF c(2) this] c(1) show ?case
    by (auto simp: first_with_def dict_setdefault_get split: option.splits)
qed

text \<open>The tasks that survive deduplication, in the order of the plan compiler.\<close>

lemma unique_tasks_values:
  assumes "unique_tasks s [] ts = Inr d"
  shows "distinct (map search_key (map snd d))" "set (map snd d) \<subseteq> set ts"
    "search_key ` set (map snd d) = search_key ` set ts"
    "t \<in> set (map snd d) \<Longrightarrow> first_with search_key (search_key t) ts = Some t"
    "t \<in> set ts \<Longrightarrow> check_task s t = Inr ()" "length d \<le> length ts"
proof -
  note d = unique_tasks_Inr [OF assms, simplified]
  have of: "map_of d k = first_with search_key k ts" for k using d by (cases k) blast
  have val: "first_with search_key k ts = Some t" if "(k, t) \<in> set d" for k t
    using of [of k] map_of_is_SomeI [OF _ that] d by simp
  have key: "search_key t = k" "t \<in> set ts" if "(k, t) \<in> set d" for k t
    using val [OF that] by (auto simp: first_with_def dest: find_Some_set)
  then have "map search_key (map snd d) = dict_keys d" using key(1) by auto
  then show dis: "distinct (map search_key (map snd d))" using d by metis
  show sub: "set (map snd d) \<subseteq> set ts"
    using key(2) by auto
  show "search_key ` set (map snd d) = search_key ` set ts"
  proof
    show "search_key ` set (map snd d) \<subseteq> search_key ` set ts" using sub by blast
    show "search_key ` set ts \<subseteq> search_key ` set (map snd d)"
    proof
      fix k assume "k \<in> search_key ` set ts"
      then have "first_with search_key k ts \<noteq> None" by (auto simp: first_with_def find_None_all)
      then obtain t where "(k, t) \<in> set d" using of [of k] map_of_SomeD [of d k] by fastforce
      then show "k \<in> search_key ` set (map snd d)" using key(1) [of k t] by (metis image_eqI list.set_map snd_conv)
    qed
  qed
  show "first_with search_key (search_key t) ts = Some t" if "t \<in> set (map snd d)"
    using that val key(1) by auto
  show "t \<in> set ts \<Longrightarrow> check_task s t = Inr ()" using d by blast
  have "length d = card (set (map snd d))"
    using dis by (metis distinct_card distinct_map length_map)
  also have "\<dots> \<le> card (set ts)" by (rule card_mono [OF _ sub]) simp
  also have "\<dots> \<le> length ts" by (rule card_length)
  finally show "length d \<le> length ts" .
qed

section \<open>Renumbering\<close>

lemma renumbering_fold:
  "distinct (map tk_task_id ts) \<Longrightarrow>
   set (dict_keys (fold (\<lambda>(i, t). dict_set (tk_task_id t) (plan_id i)) (enumerate n ts) d))
     = tk_task_id ` set ts \<union> set (dict_keys d) \<and>
   (\<forall>k. k \<notin> tk_task_id ` set ts \<longrightarrow>
      map_of (fold (\<lambda>(i, t). dict_set (tk_task_id t) (plan_id i)) (enumerate n ts) d) k = map_of d k) \<and>
   (\<forall>i < length ts.
      map_of (fold (\<lambda>(i, t). dict_set (tk_task_id t) (plan_id i)) (enumerate n ts) d) (tk_task_id (ts ! i))
        = Some (plan_id (n + i)))"
proof (induction ts arbitrary: n d)
  case (Cons t ts)
  let ?d = "dict_set (tk_task_id t) (plan_id n) d"
  have fold: "fold (\<lambda>(i, t). dict_set (tk_task_id t) (plan_id i)) (enumerate n (t # ts)) d
      = fold (\<lambda>(i, t). dict_set (tk_task_id t) (plan_id i)) (enumerate (Suc n) ts) ?d" by simp
  have IH: "distinct (map tk_task_id ts)" "tk_task_id t \<notin> tk_task_id ` set ts" using Cons.prems by simp_all
  note IH' = Cons.IH [OF IH(1), of "Suc n" ?d]
  show ?case
    unfolding fold
  proof (intro conjI allI impI)
    show "set (dict_keys (fold (\<lambda>(i, t). dict_set (tk_task_id t) (plan_id i)) (enumerate (Suc n) ts) ?d))
        = tk_task_id ` set (t # ts) \<union> set (dict_keys d)"
      using conjunct1 [OF IH'] by (simp add: dict_keys_set del: set_map)
  next
    fix k assume "k \<notin> tk_task_id ` set (t # ts)"
    then show "map_of (fold (\<lambda>(i, t). dict_set (tk_task_id t) (plan_id i)) (enumerate (Suc n) ts) ?d) k = map_of d k"
      using IH' by (simp add: dict_get_set)
  next
    fix i assume "i < length (t # ts)"
    then show "map_of (fold (\<lambda>(i, t). dict_set (tk_task_id t) (plan_id i)) (enumerate (Suc n) ts) ?d)
        (tk_task_id ((t # ts) ! i)) = Some (plan_id (n + i))"
      using IH' IH(2) by (cases i) (simp_all add: dict_get_set)
  qed
qed simp

lemma renumbering_facts:
  assumes "distinct (map tk_task_id ts)"
  shows "set (dict_keys (renumbering ts)) = tk_task_id ` set ts"
    "map (renamed (renumbering ts) \<circ> tk_task_id) ts = map plan_id [1..<Suc (length ts)]"
proof -
  note f = renumbering_fold [OF assms, of 1 "[]", folded renumbering_def]
  show "set (dict_keys (renumbering ts)) = tk_task_id ` set ts" using f by simp
  show "map (renamed (renumbering ts) \<circ> tk_task_id) ts = map plan_id [1..<Suc (length ts)]"
    by (rule nth_equalityI) (use f in \<open>auto simp: renamed_def simp del: upt_Suc\<close>)
qed

lemma compile_task_Inr:
  assumes "compile_task names t = Inr c"
  shows "c = t\<lparr> tk_task_id := renamed names (tk_task_id t),
      tk_dependency_task_ids := sort (map (renamed names) (tk_dependency_task_ids t)) \<rparr>"
    "set (tk_dependency_task_ids t) \<subseteq> set (dict_keys names)"
  using assms by (auto simp: compile_task_def Let_def list_ex_iff split: if_splits)

lemma compile_tasks_Inr:
  "compile_tasks names ts = Inr cs \<longleftrightarrow> list_all2 (\<lambda>t c. compile_task names t = Inr c) ts cs"
  by (induction ts arbitrary: cs) (auto simp: list_all2_Cons1)

text \<open>Everything of a task but its identifier and its dependencies.\<close>

definition retained :: "research_task \<Rightarrow> research_task" where
  "retained t = t\<lparr> tk_task_id := [], tk_dependency_task_ids := [] \<rparr>"

lemma compile_task_retained: "compile_task names t = Inr c \<Longrightarrow> retained c = retained t"
  by (drule compile_task_Inr(1)) (simp add: retained_def)

lemma retained_simps [simp]:
  "task_order (retained t) = task_order t" "search_key (retained t) = search_key t"
  "tk_depth (retained t) = tk_depth t" "tk_search (retained t) = tk_search t"
  "tk_research_question (retained t) = tk_research_question t"
  "tk_comparison_dimension (retained t) = tk_comparison_dimension t"
  "tk_comparison_terms (retained t) = tk_comparison_terms t" "tk_priority (retained t) = tk_priority t"
  by (simp_all add: retained_def task_order_def search_key_def)

lemma retained_eqs:
  assumes "retained a = retained b"
  shows "tk_research_question a = tk_research_question b" "tk_depth a = tk_depth b" "tk_search a = tk_search b"
    "tk_comparison_dimension a = tk_comparison_dimension b" "tk_comparison_terms a = tk_comparison_terms b"
    "tk_priority a = tk_priority b"
  by (metis assms retained_simps)+

lemma compile_task_id: "compile_task names t = Inr c \<Longrightarrow> tk_task_id c = renamed names (tk_task_id t)"
  by (drule compile_task_Inr(1)) simp

lemma compile_tasks_facts:
  assumes "compile_tasks (renumbering ts) ts = Inr cs" "distinct (map tk_task_id ts)"
  shows "map tk_task_id cs = map plan_id [1..<Suc (length cs)]" "length cs = length ts"
    "map retained cs = map retained ts"
    "\<forall>c \<in> set cs. set (tk_dependency_task_ids c) \<subseteq> tk_task_id ` set cs"
proof -
  let ?n = "renumbering ts"
  have l2: "list_all2 (\<lambda>t c. compile_task ?n t = Inr c) ts cs" using assms(1) by (simp add: compile_tasks_Inr)
  show len: "length cs = length ts" using list_all2_lengthD [OF l2] by simp
  show "map retained cs = map retained ts"
    by (rule nth_equalityI) (use l2 len in \<open>auto simp: list_all2_conv_all_nth compile_task_retained\<close>)
  have ids: "map tk_task_id cs = map (renamed ?n \<circ> tk_task_id) ts"
    by (rule nth_equalityI) (use l2 len in \<open>auto simp: list_all2_conv_all_nth compile_task_id\<close>)
  then show "map tk_task_id cs = map plan_id [1..<Suc (length cs)]"
    using renumbering_facts(2) [OF assms(2)] len by simp
  have "tk_task_id ` set cs = renamed ?n ` tk_task_id ` set ts"
    using ids by (metis image_comp list.set_map)
  moreover have "set (tk_dependency_task_ids c) \<subseteq> renamed ?n ` tk_task_id ` set ts" if c: "c \<in> set cs" for c
  proof -
    obtain i where i: "i < length cs" "c = cs ! i" using c by (metis in_set_conv_nth)
    then have "compile_task ?n (ts ! i) = Inr c" using l2 len by (simp add: list_all2_conv_all_nth)
    then show ?thesis
      using compile_task_Inr [of ?n "ts ! i" c] renumbering_facts(1) [OF assms(2)] by auto
  qed
  ultimately show "\<forall>c \<in> set cs. set (tk_dependency_task_ids c) \<subseteq> tk_task_id ` set cs" by simp
qed

section \<open>Compiled plans\<close>

lemma compile_plan_Inr:
  assumes "compile_plan sha json_size s plan = Inr c"
  obtains d where "unique_tasks s [] (pl_tasks plan) = Inr d"
    "compile_tasks (renumbering (sort_key task_order (map snd d))) (sort_key task_order (map snd d)) = Inr (pl_tasks c)"
    "reject_cycles (pl_tasks c) = Inr ()" "length (pl_tasks plan) \<le> research_max_initial_tasks s"
    "pl_catalog c = pl_catalog plan" "pl_required_comparison_dimensions c = pl_required_comparison_dimensions plan"
    "json_size plan \<le> research_max_plan_characters s"
  using assms by (auto simp: compile_plan_def Let_def split: if_splits)

lemma check_task_safe:
  "check_task s t = Inr () \<Longrightarrow>
   tk_depth t \<le> research_max_depth s \<and> \<not> unsafe (tk_research_question t) \<and>
   rq_queries (tk_search t) \<noteq> [] \<and> length (rq_queries (tk_search t)) \<le> research_max_queries_per_task s \<and>
   (\<forall>q \<in> set (rq_queries (tk_search t)). \<not> unsafe q \<and> length q \<le> research_max_query_characters s)"
  by (auto simp: check_task_def Let_def list_ex_iff invalid_query_def split: if_splits)

definition compiled_tasks_ok :: "retrieval_settings \<Rightarrow> research_task list \<Rightarrow> bool" where
  "compiled_tasks_ok s ts =
     (length ts \<le> research_max_initial_tasks s \<and> map tk_task_id ts = map plan_id [1..<Suc (length ts)] \<and>
      sorted (map task_order ts) \<and> distinct (map search_key ts) \<and>
      (\<forall>t \<in> set ts. set (tk_dependency_task_ids t) \<subseteq> tk_task_id ` set ts \<and>
         tk_depth t \<le> research_max_depth s \<and> rq_queries (tk_search t) \<noteq> [] \<and>
         length (rq_queries (tk_search t)) \<le> research_max_queries_per_task s \<and>
         \<not> unsafe (tk_research_question t) \<and>
         (\<forall>q \<in> set (rq_queries (tk_search t)). \<not> unsafe q \<and> length q \<le> research_max_query_characters s)))"

lemma distinct_plan_ids: "map tk_task_id ts = map plan_id [1..<Suc (length ts)] \<Longrightarrow> distinct (map tk_task_id ts)"
  by (simp add: distinct_map inj_on_def del: upt_Suc)

lemma compiled_plan_facts:
  assumes "compile_plan sha json_size s plan = Inr c" "distinct (map tk_task_id (pl_tasks plan))"
  shows "compiled_tasks_ok s (pl_tasks c)" "acyclic (dependency (pl_tasks c))"
    "search_key ` set (pl_tasks c) = search_key ` set (pl_tasks plan)"
    "\<forall>c \<in> set (pl_tasks c). \<exists>t \<in> set (pl_tasks plan). retained c = retained t"
proof -
  obtain d where d: "unique_tasks s [] (pl_tasks plan) = Inr d"
    and comp: "compile_tasks (renumbering (sort_key task_order (map snd d))) (sort_key task_order (map snd d)) = Inr (pl_tasks c)"
    and cyc: "reject_cycles (pl_tasks c) = Inr ()" and len: "length (pl_tasks plan) \<le> research_max_initial_tasks s"
    by (rule compile_plan_Inr [OF assms(1)])
  let ?o = "sort_key task_order (map snd d)"
  note u = unique_tasks_values [OF d]
  have "inj_on tk_task_id (set (pl_tasks plan))" using assms(2) by (simp add: distinct_map)
  moreover have "distinct (map snd d)" using u(1) distinct_map by blast
  ultimately have dis: "distinct (map tk_task_id ?o)"
    using u(2) by (auto simp: distinct_map intro: inj_on_subset)
  note f = compile_tasks_facts [OF comp dis]
  have mem: "\<exists>t \<in> set (map snd d). retained x = retained t" if "x \<in> set (pl_tasks c)" for x
  proof -
    have "retained x \<in> set (map retained ?o)" using that f(3) by (metis image_eqI list.set_map)
    then show ?thesis by auto
  qed
  then show "\<forall>c \<in> set (pl_tasks c). \<exists>t \<in> set (pl_tasks plan). retained c = retained t" using u(2) by blast
  have keys: "map search_key (pl_tasks c) = map search_key ?o" "map task_order (pl_tasks c) = map task_order ?o"
    using arg_cong [OF f(3), of "map search_key"] arg_cong [OF f(3), of "map task_order"]
    by (simp_all add: comp_def)
  show "search_key ` set (pl_tasks c) = search_key ` set (pl_tasks plan)"
    using arg_cong [OF keys(1), of set] u(3) by simp
  have "distinct (map search_key (pl_tasks c))"
    unfolding keys(1) by (metis u(1) distinct_map distinct_sort set_sort)
  moreover have "sorted (map task_order (pl_tasks c))" unfolding keys(2) by simp
  moreover have "check_task s t = Inr ()" if "t \<in> set (map snd d)" for t using u(2,5) that by blast
  then have "\<forall>x \<in> set (pl_tasks c). tk_depth x \<le> research_max_depth s \<and> \<not> unsafe (tk_research_question x) \<and>
     rq_queries (tk_search x) \<noteq> [] \<and> length (rq_queries (tk_search x)) \<le> research_max_queries_per_task s \<and>
     (\<forall>q \<in> set (rq_queries (tk_search x)). \<not> unsafe q \<and> length q \<le> research_max_query_characters s)"
    using mem check_task_safe [of s] by (metis retained_eqs)
  ultimately show "compiled_tasks_ok s (pl_tasks c)"
    using f u(6) len by (auto simp: compiled_tasks_ok_def)
  have "distinct (map tk_task_id (pl_tasks c))" by (rule distinct_plan_ids [OF f(1)])
  then show "acyclic (dependency (pl_tasks c))"
    using reject_cycles_iff [OF _ f(4)] cyc by (simp split: if_splits)
qed

section \<open>Cycles of a plan\<close>

lemma acyclic_of_image:
  assumes "acyclic (map_prod f f ` r)"
  shows "acyclic r"
proof -
  have "(f a, f b) \<in> (map_prod f f ` r)\<^sup>+" if "(a, b) \<in> r\<^sup>+" for a b
    using that by (induction rule: trancl_induct) (force intro: trancl_into_trancl)+
  then show ?thesis using assms by (auto simp: acyclic_def)
qed

lemma acyclic_map_prod:
  assumes "inj_on f a" "r \<subseteq> a \<times> a"
  shows "acyclic (map_prod f f ` r) \<longleftrightarrow> acyclic r"
proof
  assume r: "acyclic r"
  let ?g = "inv_into a f"
  have "map_prod ?g ?g ` map_prod f f ` r = (\<lambda>z. z) ` r"
    unfolding image_image by (rule image_cong) (use assms in \<open>auto simp: inv_into_f_f\<close>)
  then show "acyclic (map_prod f f ` r)" using r by (intro acyclic_of_image [of ?g]) simp
qed (rule acyclic_of_image)

lemma unique_tasks_distinct:
  "distinct (map search_key ts) \<Longrightarrow> search_key ` set ts \<inter> set (dict_keys acc) = {} \<Longrightarrow>
   \<forall>t \<in> set ts. check_task s t = Return () \<Longrightarrow>
   unique_tasks s acc ts = Inr (acc @ map (\<lambda>t. (search_key t, t)) ts)"
proof (induction ts arbitrary: acc)
  case (Cons t ts)
  have "dict_set k v d = d @ [(k, v)]" if "k \<notin> set (dict_keys d)" for k v and d :: "(search_key, research_task) dict"
    using that by (induction d) auto
  moreover have fresh: "search_key t \<notin> set (dict_keys acc)" using Cons.prems(2) by auto
  moreover have "map_of acc (search_key t) = None" using fresh by (simp add: map_of_eq_None_iff)
  ultimately have "dict_setdefault (search_key t) t acc = acc @ [(search_key t, t)]"
    by (simp add: dict_setdefault_def)
  then show ?case using Cons by auto
qed simp

lemma compile_plan_cycles:
  assumes "distinct (map tk_task_id (pl_tasks plan))" "distinct (map search_key (pl_tasks plan))"
    "\<forall>t \<in> set (pl_tasks plan). check_task s t = Return () \<and> tk_task_id t \<notin> set (tk_dependency_task_ids t) \<and>
       set (tk_dependency_task_ids t) \<subseteq> tk_task_id ` set (pl_tasks plan)"
    "json_size plan \<le> research_max_plan_characters s" "length (pl_tasks plan) \<le> research_max_initial_tasks s"
  shows "case compile_plan sha json_size s plan of
     Inr _ \<Rightarrow> acyclic (dependency (pl_tasks plan))
   | Inl e \<Rightarrow> \<not> acyclic (dependency (pl_tasks plan)) \<and> e = PlanValidationError ''dependency cycle'' True"
proof -
  let ?o = "sort_key task_order (pl_tasks plan)" let ?r = "renamed (renumbering ?o)"
  let ?cs = "map (\<lambda>t. t\<lparr> tk_task_id := ?r (tk_task_id t), tk_dependency_task_ids := sort (map ?r (tk_dependency_task_ids t)) \<rparr>) ?o"
  have u: "unique_tasks s [] (pl_tasks plan) = Inr (map (\<lambda>t. (search_key t, t)) (pl_tasks plan))"
    using unique_tasks_distinct [of "pl_tasks plan" "[]" s] assms(2,3) by simp
  have dis: "distinct (map tk_task_id ?o)" by (rule distinct_map_sort [OF assms(1)])
  have keys: "set (dict_keys (renumbering ?o)) = tk_task_id ` set (pl_tasks plan)"
    using renumbering_facts(1) [OF dis] by simp
  have comp: "compile_tasks (renumbering ?o) ?o = Inr ?cs"
    unfolding compile_tasks_Inr
    by (rule list_all2_all_nthI) (use assms(3) keys nth_mem [of _ ?o] in
      \<open>auto simp: compile_task_def Let_def list_ex_iff subset_iff simp del: nth_mem\<close>)
  note f = compile_tasks_facts [OF comp dis]
  have "map tk_task_id ?cs = map ?r (map tk_task_id ?o)" by simp
  then have "distinct (map ?r (map tk_task_id ?o))" using distinct_plan_ids [OF f(1)] by (simp only:)
  then have "inj_on ?r (set (map tk_task_id ?o))" using distinct_map by blast
  then have inj: "inj_on ?r (tk_task_id ` set (pl_tasks plan))" by simp
  have image: "dependency ?cs = map_prod ?r ?r ` dependency (pl_tasks plan)"
    by (force simp: dependency_def)
  have "acyclic (dependency ?cs) \<longleftrightarrow> acyclic (dependency (pl_tasks plan))"
    unfolding image by (rule acyclic_map_prod [OF inj]) (use assms(3) in \<open>force simp: dependency_def\<close>)
  then have rc: "reject_cycles ?cs = (if acyclic (dependency (pl_tasks plan)) then Return ()
     else Raise (PlanValidationError ''dependency cycle'' True))"
    using reject_cycles_iff [OF distinct_plan_ids [OF f(1)] f(4)] by simp
  have snds: "map snd (map (\<lambda>t. (search_key t, t)) (pl_tasks plan)) = pl_tasks plan" by (simp add: comp_def)
  show ?thesis
    using assms(4,5) by (simp add: compile_plan_def u snds comp rc Let_def del: map_map)
qed

end
