(* ===== verification/Ledger_Properties.thy ===== *)
theory Ledger_Properties
  imports Research_Evidence Plan_Properties
begin

text \<open>
  The evidence ledger: its limits, what every entry satisfies, where it comes from, and that the
  order in which workers deliver their results does not matter.
\<close>

section \<open>Collection\<close>

definition entry_from :: "(string \<times> hybrid_evidence) list \<Rightarrow> evidence_entry \<Rightarrow> bool" where
  "entry_from stream n =
     (en_evidence n \<in> snd ` set stream \<and> en_task_ids n \<noteq> [] \<and> distinct (en_task_ids n) \<and>
      (\<forall>t \<in> set (en_task_ids n). \<exists>h. (t, h) \<in> set stream \<and>
         de_chunk_id (he_evidence h) = de_chunk_id (he_evidence (en_evidence n))))"

definition collection_ok ::
  "(hybrid_evidence \<Rightarrow> bool) \<Rightarrow> (string \<times> hybrid_evidence) list \<Rightarrow> collection \<Rightarrow> bool" where
  "collection_ok P stream co =
     (distinct (dict_keys (co_collected co)) \<and> length (co_collected co) + co_dropped co \<le> length stream \<and>
      (\<forall>(k, n) \<in> set (co_collected co).
         de_chunk_id (he_evidence (en_evidence n)) = k \<and> P (en_evidence n) \<and> entry_from stream n \<and>
         map_of (co_chunks co) (de_evidence_id (he_evidence (en_evidence n))) = Some k))"

lemma entry_from_mono: "entry_from stream n \<Longrightarrow> entry_from (stream @ rest) n"
  by (fastforce simp: entry_from_def)

lemma set_sorted_values [simp]: "set (sorted_values xs) = set xs" "distinct (sorted_values xs)"
  by (simp_all add: sorted_values_def)

lemma better_cases: "better a b = a \<or> better a b = b"
  by (simp add: better_def)

lemma dict_set_members: "(k', v') \<in> set (dict_set k v d) \<Longrightarrow> distinct (dict_keys d) \<Longrightarrow>
    (k' = k \<and> v' = v) \<or> (k' \<noteq> k \<and> (k', v') \<in> set d)"
  by (induction d) (auto split: if_splits, force)

lemma drop_ok:
  "collection_ok P stream co \<Longrightarrow> collection_ok P (stream @ [x]) (co\<lparr> co_dropped := Suc (co_dropped co) \<rparr>)"
  by (auto simp: collection_ok_def intro: entry_from_mono)

lemma merge_ok:
  assumes ok: "collection_ok P stream co" and P: "P h"
    and ex: "map_of (co_collected co) (de_chunk_id (he_evidence h)) = Some n"
    and same: "same_identity (he_evidence (en_evidence n)) (he_evidence h)"
  shows "collection_ok P (stream @ [(t, h)]) (co\<lparr> co_collected := dict_set (de_chunk_id (he_evidence h))
     \<lparr> en_evidence = better (en_evidence n) h, en_task_ids = sorted_values (en_task_ids n @ [t]) \<rparr> (co_collected co) \<rparr>)"
proof -
  let ?k = "de_chunk_id (he_evidence h)"
  let ?n = "\<lparr> en_evidence = better (en_evidence n) h, en_task_ids = sorted_values (en_task_ids n @ [t]) \<rparr>"
  have mem: "(?k, n) \<in> set (co_collected co)" using ex by (rule map_of_SomeD)
  then have n: "de_chunk_id (he_evidence (en_evidence n)) = ?k" "P (en_evidence n)" "entry_from stream n"
    "map_of (co_chunks co) (de_evidence_id (he_evidence (en_evidence n))) = Some ?k"
    using ok by (auto simp: collection_ok_def)
  have b: "better (en_evidence n) h = en_evidence n \<or> better (en_evidence n) h = h" by (rule better_cases)
  have "de_chunk_id (he_evidence (en_evidence ?n)) = ?k" "P (en_evidence ?n)"
    "map_of (co_chunks co) (de_evidence_id (he_evidence (en_evidence ?n))) = Some ?k"
    using b n P same by (auto simp: same_identity_def)
  moreover have "entry_from (stream @ [(t, h)]) ?n"
    unfolding entry_from_def
  proof (intro conjI ballI)
    show "en_evidence ?n \<in> snd ` set (stream @ [(t, h)])" using b n(3) by (force simp: entry_from_def)
    fix u assume "u \<in> set (en_task_ids ?n)"
    then consider "u = t" | "u \<in> set (en_task_ids n)" by auto
    then show "\<exists>g. (u, g) \<in> set (stream @ [(t, h)]) \<and>
        de_chunk_id (he_evidence g) = de_chunk_id (he_evidence (en_evidence ?n))"
    proof cases
      case 1
      then show ?thesis using b n(1) by (intro exI [of _ h]) auto
    next
      case 2
      then obtain g where "(u, g) \<in> set stream" "de_chunk_id (he_evidence g) = ?k" using n(1,3) by (auto simp: entry_from_def)
      then show ?thesis using b n(1) by (intro exI [of _ g]) auto
    qed
  next
    have "t \<in> set (en_task_ids ?n)" by simp
    then show "en_task_ids ?n \<noteq> []" by (metis empty_iff list.set(1))
  qed simp
  moreover have "length (dict_set ?k ?n (co_collected co)) = length (co_collected co)"
    using ok mem by (subst dict_length_set) (force simp: collection_ok_def)+
  moreover have "distinct (dict_keys (co_collected co))" using ok by (simp add: collection_ok_def)
  ultimately show ?thesis
    using ok by (auto simp: collection_ok_def dest!: dict_set_members intro: entry_from_mono)
qed

lemma insert_ok:
  assumes ok: "collection_ok P stream co" and P: "P h"
    and free: "map_of (co_chunks co) (de_evidence_id (he_evidence h)) \<in> {None, Some (de_chunk_id (he_evidence h))}"
    and new: "map_of (co_collected co) (de_chunk_id (he_evidence h)) = None"
  shows "collection_ok P (stream @ [(t, h)])
    (co\<lparr> co_chunks := dict_set (de_evidence_id (he_evidence h)) (de_chunk_id (he_evidence h)) (co_chunks co),
         co_collected := dict_set (de_chunk_id (he_evidence h)) \<lparr> en_evidence = h, en_task_ids = [t] \<rparr> (co_collected co) \<rparr>)"
proof -
  let ?k = "de_chunk_id (he_evidence h)"
  have d: "distinct (dict_keys (co_collected co))" using ok by (simp add: collection_ok_def)
  have "?k \<notin> set (dict_keys (co_collected co))" using new by (simp add: map_of_eq_None_iff)
  then have "length (dict_set ?k \<lparr> en_evidence = h, en_task_ids = [t] \<rparr> (co_collected co)) = Suc (length (co_collected co))"
    using dict_length_set [OF d] by simp
  moreover have "entry_from (stream @ [(t, h)]) \<lparr> en_evidence = h, en_task_ids = [t] \<rparr>" by (auto simp: entry_from_def)
  moreover have "map_of (dict_set (de_evidence_id (he_evidence h)) ?k (co_chunks co)) (de_evidence_id (he_evidence (en_evidence n))) = Some k"
    if "(k, n) \<in> set (co_collected co)" for k n
    using that ok free new by (auto simp: collection_ok_def dict_get_set)
  moreover have "(\<exists>m. (k, n) = (?k, m) \<and> m = \<lparr> en_evidence = h, en_task_ids = [t] \<rparr>) \<or> (k, n) \<in> set (co_collected co)"
    if "(k, n) \<in> set (dict_set ?k \<lparr> en_evidence = h, en_task_ids = [t] \<rparr> (co_collected co))" for k n
    using dict_set_members [OF that d] by auto
  ultimately show ?thesis
    using ok P d unfolding collection_ok_def by (fastforce simp: dict_get_set intro: entry_from_mono)
qed

lemma add_evidence_ok:
  assumes "collection_ok P stream co" "P h"
  shows "collection_ok P (stream @ [(t, h)]) (add_evidence t h co)"
proof (cases "map_of (co_chunks co) (de_evidence_id (he_evidence h)) \<in> {None, Some (de_chunk_id (he_evidence h))}")
  case False
  then show ?thesis using drop_ok [OF assms(1)] by (auto simp: add_evidence_def Let_def split: option.splits)
next
  case True
  note free = True
  show ?thesis
  proof (cases "map_of (co_collected co) (de_chunk_id (he_evidence h))")
    case None
    then show ?thesis using insert_ok [OF assms free None] free by (auto simp: add_evidence_def Let_def)
  next
    case (Some n)
    then show ?thesis
      using free drop_ok [OF assms(1)] merge_ok [OF assms Some]
      by (auto simp: add_evidence_def Let_def split: option.splits)
  qed
qed

lemma collect_evidence_ok:
  "collect_evidence f p items co = Inr co' \<Longrightarrow>
   collection_ok (\<lambda>h. admit_evidence f p (he_evidence h) = Inr True) stream co \<Longrightarrow>
   collection_ok (\<lambda>h. admit_evidence f p (he_evidence h) = Inr True) (stream @ items) co'"
proof (induction f p items co arbitrary: stream rule: collect_evidence.induct)
  case (2 f p t h items co)
  let ?co = "\<lambda>b. if b then add_evidence t h co else co\<lparr> co_dropped := Suc (co_dropped co) \<rparr>"
  obtain admitted where a: "admit_evidence f p (he_evidence h) = Inr admitted"
    and rest: "collect_evidence f p items (?co admitted) = Inr co'"
    using 2(2) by auto
  have "collection_ok (\<lambda>h. admit_evidence f p (he_evidence h) = Inr True) (stream @ [(t, h)]) (?co admitted)"
    using add_evidence_ok [OF 2(3)] drop_ok [OF 2(3)] a by simp
  from 2(1) [OF rest this] show ?case by simp
qed simp

section \<open>Acceptance\<close>

lemma accept_entries_facts:
  "el_total_characters l = sum_list (map entry_size (el_entries l)) \<Longrightarrow>
   length (el_entries l) \<le> items \<Longrightarrow> el_total_characters l \<le> characters \<Longrightarrow>
   \<exists>kept. el_entries (accept_entries items characters ns l) = el_entries l @ kept \<and> subseq kept ns \<and>
     length (el_entries l @ kept) \<le> items \<and>
     el_total_characters (accept_entries items characters ns l) = sum_list (map entry_size (el_entries l @ kept)) \<and>
     el_total_characters (accept_entries items characters ns l) \<le> characters \<and>
     length kept + el_dropped_items (accept_entries items characters ns l) = length ns + el_dropped_items l"
proof (induction items characters ns l rule: accept_entries.induct)
  case (2 items characters n ns l)
  show ?case
  proof (cases "items \<le> length (el_entries l) \<or> characters < el_total_characters l + entry_size n")
    case True
    from 2(1) [of] 2(2-4) True obtain kept where
      "el_entries (accept_entries items characters (n # ns) l) = el_entries l @ kept" "subseq kept ns"
      "length (el_entries l @ kept) \<le> items"
      "el_total_characters (accept_entries items characters (n # ns) l) = sum_list (map entry_size (el_entries l @ kept))"
      "el_total_characters (accept_entries items characters (n # ns) l) \<le> characters"
      "length kept + el_dropped_items (accept_entries items characters (n # ns) l) = length ns + Suc (el_dropped_items l)"
      by auto
    then show ?thesis by (intro exI [of _ kept]) auto
  next
    case False
    from 2(1) [of] 2(2-4) False obtain kept where
      "el_entries (accept_entries items characters (n # ns) l) = el_entries l @ n # kept" "subseq kept ns"
      "length (el_entries l @ n # kept) \<le> items"
      "el_total_characters (accept_entries items characters (n # ns) l) = sum_list (map entry_size (el_entries l @ n # kept))"
      "el_total_characters (accept_entries items characters (n # ns) l) \<le> characters"
      "length kept + el_dropped_items (accept_entries items characters (n # ns) l) = length ns + el_dropped_items l"
      by auto
    then show ?thesis by (intro exI [of _ "n # kept"]) auto
  qed
qed simp

section \<open>The ledger\<close>

lemma set_evidence_stream:
  "(t, h) \<in> set (evidence_stream results) \<longleftrightarrow> (\<exists>r \<in> set results. wr_task_id r = t \<and> h \<in> set (wr_evidence r))"
  by (auto simp: evidence_stream_def)

lemma entry_from_stream:
  assumes "entry_from (evidence_stream results) n"
  shows "\<exists>r \<in> set results. en_evidence n \<in> set (wr_evidence r)"
    "t \<in> set (en_task_ids n) \<Longrightarrow> \<exists>r \<in> set results. wr_task_id r = t \<and>
       (\<exists>h \<in> set (wr_evidence r). de_chunk_id (he_evidence h) = de_chunk_id (he_evidence (en_evidence n)))"
proof -
  obtain u where "(u, en_evidence n) \<in> set (evidence_stream results)" using assms by (auto simp: entry_from_def)
  then show "\<exists>r \<in> set results. en_evidence n \<in> set (wr_evidence r)" by (auto simp: set_evidence_stream)
  assume "t \<in> set (en_task_ids n)"
  then obtain h where "(t, h) \<in> set (evidence_stream results)"
    "de_chunk_id (he_evidence h) = de_chunk_id (he_evidence (en_evidence n))"
    using assms by (auto simp: entry_from_def)
  then show "\<exists>r \<in> set results. wr_task_id r = t \<and>
     (\<exists>h \<in> set (wr_evidence r). de_chunk_id (he_evidence h) = de_chunk_id (he_evidence (en_evidence n)))"
    unfolding set_evidence_stream by blast
qed

lemma length_evidence_stream: "length (evidence_stream results) = sum_list (map (length \<circ> wr_evidence) results)"
proof -
  have "length (evidence_stream results) = sum_list (map (length \<circ> wr_evidence) (sort_key wr_task_id results))"
    by (simp add: evidence_stream_def length_concat comp_def)
  also have "\<dots> = sum_mset (image_mset (length \<circ> wr_evidence) (mset (sort_key wr_task_id results)))"
    by (simp flip: sum_mset_sum_list mset_map del: mset_sort)
  also have "\<dots> = sum_list (map (length \<circ> wr_evidence) results)"
    by (simp flip: sum_mset_sum_list mset_map)
  finally show ?thesis .
qed

lemma admit_evidence_True:
  assumes "admit_evidence (Some f) (Some p) e = Inr True" "f \<noteq> []"
  shows "de_build_fingerprint e = f" "\<not> contains_untrusted_instruction (de_text e)" "evidence_authorized p e"
  using assms
  by (auto simp: admit_evidence_def Let_def is_document_authorized_def evidence_authorized_def
      dense_document_metadata_def split: if_splits)

definition ledger_entry_ok :: "string \<Rightarrow> authenticated_principal \<Rightarrow> worker_result list \<Rightarrow> evidence_entry \<Rightarrow> bool" where
  "ledger_entry_ok f p results n =
     (evidence_authorized p (he_evidence (en_evidence n)) \<and> de_build_fingerprint (he_evidence (en_evidence n)) = f \<and>
      \<not> contains_untrusted_instruction (de_text (he_evidence (en_evidence n))) \<and>
      (\<exists>r \<in> set results. en_evidence n \<in> set (wr_evidence r)) \<and> en_task_ids n \<noteq> [] \<and> distinct (en_task_ids n) \<and>
      (\<forall>t \<in> set (en_task_ids n). \<exists>r \<in> set results. wr_task_id r = t \<and>
         (\<exists>h \<in> set (wr_evidence r). de_chunk_id (he_evidence h) = de_chunk_id (he_evidence (en_evidence n)))))"

lemma aggregate_evidence_facts:
  assumes agg: "aggregate_evidence items characters (Some f) (Some p) results = Inr l" and f: "f \<noteq> []"
  shows "length (el_entries l) \<le> items \<and> el_total_characters l = sum_list (map entry_size (el_entries l)) \<and>
    el_total_characters l \<le> characters \<and> sorted (map entry_order (el_entries l)) \<and>
    distinct (map (de_chunk_id \<circ> he_evidence \<circ> en_evidence) (el_entries l)) \<and>
    distinct (map (de_evidence_id \<circ> he_evidence \<circ> en_evidence) (el_entries l)) \<and>
    length (el_entries l) + el_dropped_items l \<le> sum_list (map (length \<circ> wr_evidence) results) \<and>
    (\<forall>n \<in> set (el_entries l). ledger_entry_ok f p results n)"
proof -
  let ?s = "evidence_stream results" and ?P = "\<lambda>h. admit_evidence (Some f) (Some p) (he_evidence h) = Inr True"
  obtain co where co: "collect_evidence (Some f) (Some p) ?s \<lparr> co_collected = [], co_chunks = [], co_dropped = 0 \<rparr> = Inr co"
    and l: "l = accept_entries items characters (sort_key entry_order (map snd (co_collected co)))
      \<lparr> el_entries = [], el_total_characters = 0, el_dropped_items = co_dropped co \<rparr>"
    using agg by (auto simp: aggregate_evidence_def)
  have "collection_ok ?P ([] @ ?s) co"
    by (rule collect_evidence_ok [OF co]) (simp add: collection_ok_def)
  then have ok: "distinct (dict_keys (co_collected co))" "length (co_collected co) + co_dropped co \<le> length ?s"
    and each: "\<And>k n. (k, n) \<in> set (co_collected co) \<Longrightarrow> de_chunk_id (he_evidence (en_evidence n)) = k \<and>
       ?P (en_evidence n) \<and> entry_from ?s n \<and> map_of (co_chunks co) (de_evidence_id (he_evidence (en_evidence n))) = Some k"
    by (auto simp: collection_ok_def)
  obtain kept where kept: "el_entries l = kept" "subseq kept (sort_key entry_order (map snd (co_collected co)))"
    "length kept \<le> items" "el_total_characters l = sum_list (map entry_size kept)" "el_total_characters l \<le> characters"
    "length kept + el_dropped_items l = length (co_collected co) + co_dropped co"
    using accept_entries_facts [of "\<lparr> el_entries = [], el_total_characters = 0, el_dropped_items = co_dropped co \<rparr>"
      items characters "sort_key entry_order (map snd (co_collected co))"] l by auto
  have chunks: "map (de_chunk_id \<circ> he_evidence \<circ> en_evidence) (map snd (co_collected co)) = dict_keys (co_collected co)"
    using each by auto
  have "distinct (map (de_chunk_id \<circ> he_evidence \<circ> en_evidence) (sort_key entry_order (map snd (co_collected co))))"
    by (rule distinct_map_sort) (use ok(1) in \<open>simp only: chunks\<close>)
  then have dk: "distinct (map (de_chunk_id \<circ> he_evidence \<circ> en_evidence) kept)"
    by (rule subseq_map_distinct [OF kept(2)])
  have mem: "\<exists>k. (k, n) \<in> set (co_collected co)" if "n \<in> set kept" for n
  proof -
    have "n \<in> set (map snd (co_collected co))"
      using subseq_mem [OF kept(2) that] by simp
    then show ?thesis by auto
  qed
  have "inj_on (de_evidence_id \<circ> he_evidence \<circ> en_evidence) (set kept)"
  proof (rule inj_onI)
    fix a b assume ab: "a \<in> set kept" "b \<in> set kept"
      and eq: "(de_evidence_id \<circ> he_evidence \<circ> en_evidence) a = (de_evidence_id \<circ> he_evidence \<circ> en_evidence) b"
    obtain j k where "(j, a) \<in> set (co_collected co)" "(k, b) \<in> set (co_collected co)" using mem ab by blast
    from each [OF this(1)] each [OF this(2)] eq
    have "(de_chunk_id \<circ> he_evidence \<circ> en_evidence) a = (de_chunk_id \<circ> he_evidence \<circ> en_evidence) b"
      by (metis comp_apply option.inject)
    then show "a = b" using dk ab unfolding distinct_map by (metis inj_onD)
  qed
  then have de: "distinct (map (de_evidence_id \<circ> he_evidence \<circ> en_evidence) kept)"
    using dk by (simp add: distinct_map)
  have "ledger_entry_ok f p results n" if n: "n \<in> set kept" for n
  proof -
    obtain k where k: "(k, n) \<in> set (co_collected co)" using mem [OF n] by blast
    have "entry_from ?s n" "?P (en_evidence n)" using each [OF k] by simp_all
    then show ?thesis
      using admit_evidence_True [OF _ f, of p "he_evidence (en_evidence n)"] entry_from_stream [of results n]
      by (simp add: ledger_entry_ok_def entry_from_def)
  qed
  moreover have "sorted (map entry_order kept)" by (rule subseq_map_sorted [OF kept(2)]) simp
  ultimately show ?thesis
    using kept dk de ok(2) by (simp add: length_evidence_stream)
qed

lemma aggregate_evidence_limits:
  assumes "aggregate_evidence items characters f p results = Inr l"
  shows "length (el_entries l) \<le> items" "el_total_characters l \<le> characters"
proof -
  obtain co where "collect_evidence f p (evidence_stream results)
      \<lparr> co_collected = [], co_chunks = [], co_dropped = 0 \<rparr> = Inr co"
    "l = accept_entries items characters (sort_key entry_order (map snd (co_collected co)))
      \<lparr> el_entries = [], el_total_characters = 0, el_dropped_items = co_dropped co \<rparr>"
    using assms by (auto simp: aggregate_evidence_def)
  then show "length (el_entries l) \<le> items" "el_total_characters l \<le> characters"
    using accept_entries_facts [of "\<lparr> el_entries = [], el_total_characters = 0, el_dropped_items = co_dropped co \<rparr>"
      items characters "sort_key entry_order (map snd (co_collected co))"] by auto
qed

section \<open>The order of delivery\<close>

lemma aggregate_evidence_perm:
  "mset xs = mset ys \<Longrightarrow> distinct (map wr_task_id xs) \<Longrightarrow>
   aggregate_evidence items characters f p xs = aggregate_evidence items characters f p ys"
  using sort_key_unique [of xs ys wr_task_id] by (simp add: aggregate_evidence_def evidence_stream_def)

end
