(* ===== verification/Research_Rounds.thy ===== *)
theory Research_Rounds
  imports Research_Evidence Graph_Nodes
begin

text \<open>
  The execution of recursive research: the budget ledger (research/budgets.py), the worker
  (research/worker.py), the fan-out (research/worker_graph.py) and the coordinator
  (research/service.py).  The workers of a round run concurrently over one ledger; between two awaits
  a worker is a step of \<open>worker_step\<close>, and a schedule is the list of the workers whose steps are
  taken.  Retriever and analysis are arguments.
\<close>

section \<open>The budget ledger\<close>

definition no_usage :: budget_usage where
  "no_usage = \<lparr> bu_tasks = 0, bu_retrieval_calls = 0, bu_analysis_calls = 0, bu_llm_calls = 0,
     bu_evidence_items = 0, bu_evidence_characters = 0, bu_exhausted = False \<rparr>"

datatype resource = Res_tasks | Res_retrieval_calls | Res_analysis_calls | Res_llm_calls
  | Res_evidence_items | Res_evidence_characters

text \<open>The keys of the table of limits.\<close>

fun resource_text :: "resource \<Rightarrow> string" where
  "resource_text Res_tasks = ''tasks''"
| "resource_text Res_retrieval_calls = ''retrieval_calls''"
| "resource_text Res_analysis_calls = ''analysis_calls''"
| "resource_text Res_llm_calls = ''llm_calls''"
| "resource_text Res_evidence_items = ''evidence_items''"
| "resource_text Res_evidence_characters = ''evidence_characters''"

definition resources :: "resource list" where
  "resources = [Res_tasks, Res_retrieval_calls, Res_analysis_calls, Res_llm_calls,
     Res_evidence_items, Res_evidence_characters]"

definition resource_of :: "string \<Rightarrow> resource option" where
  "resource_of name = List.find (\<lambda>r. resource_text r = name) resources"

fun limit :: "research_budget \<Rightarrow> resource \<Rightarrow> nat" where
  "limit b Res_tasks = rb_maximum_total_tasks b"
| "limit b Res_retrieval_calls = rb_maximum_retrieval_calls b"
| "limit b Res_analysis_calls = rb_maximum_analysis_calls b"
| "limit b Res_llm_calls = rb_maximum_llm_calls b"
| "limit b Res_evidence_items = rb_maximum_evidence_items b"
| "limit b Res_evidence_characters = rb_maximum_evidence_characters b"

fun used :: "resource \<Rightarrow> budget_usage \<Rightarrow> nat" where
  "used Res_tasks u = bu_tasks u"
| "used Res_retrieval_calls u = bu_retrieval_calls u"
| "used Res_analysis_calls u = bu_analysis_calls u"
| "used Res_llm_calls u = bu_llm_calls u"
| "used Res_evidence_items u = bu_evidence_items u"
| "used Res_evidence_characters u = bu_evidence_characters u"

fun set_used :: "resource \<Rightarrow> nat \<Rightarrow> budget_usage \<Rightarrow> budget_usage" where
  "set_used Res_tasks n u = u\<lparr> bu_tasks := n \<rparr>"
| "set_used Res_retrieval_calls n u = u\<lparr> bu_retrieval_calls := n \<rparr>"
| "set_used Res_analysis_calls n u = u\<lparr> bu_analysis_calls := n \<rparr>"
| "set_used Res_llm_calls n u = u\<lparr> bu_llm_calls := n \<rparr>"
| "set_used Res_evidence_items n u = u\<lparr> bu_evidence_items := n \<rparr>"
| "set_used Res_evidence_characters n u = u\<lparr> bu_evidence_characters := n \<rparr>"

definition consume_amount ::
  "research_budget \<Rightarrow> string \<Rightarrow> int \<Rightarrow> budget_usage \<Rightarrow> (research_error, bool) result \<times> budget_usage"
where
  "consume_amount b name amount u =
     (case resource_of name of
        None \<Rightarrow> (Raise ContractError, u)
      | Some r \<Rightarrow>
          (if amount < 0 then (Raise ContractError, u)
           else if int (limit b r) < int (used r u) + amount
           then (Return False, u\<lparr> bu_exhausted := True \<rparr>)
           else (Return True, set_used r (used r u + nat amount) u)))"

text \<open>The calls of the program: one unit of a known resource.\<close>

definition consume :: "research_budget \<Rightarrow> resource \<Rightarrow> budget_usage \<Rightarrow> bool \<times> budget_usage" where
  "consume b r u =
     (case consume_amount b (resource_text r) 1 u of
        (Inr granted, u') \<Rightarrow> (granted, u')
      | (Inl _, u') \<Rightarrow> (False, u'))"

section \<open>The worker\<close>

datatype analysis_failure = Analysis_error | Analysis_timed_out | Analysis_raised

record worker_services =
  ws_settings :: retrieval_settings
  ws_retrieve :: "authenticated_principal \<Rightarrow> string \<Rightarrow> nat \<Rightarrow> dense_query_filters \<Rightarrow>
    (retrieve_failure, hybrid_retrieval_result) result"
  ws_analysis :: "authenticated_principal \<Rightarrow> analysis_request \<Rightarrow> (analysis_failure, analysis_result) result"

record worker_item =
  wi_principal :: authenticated_principal
  wi_task :: research_task

text \<open>The local variables of \<open>execute\<close>; \<open>wk_pending\<close> is the rest of the loop over the queries.\<close>

record worker =
  wk_item :: worker_item
  wk_pending :: "string list"
  wk_evidence :: "hybrid_evidence list"
  wk_modes :: "string list"
  wk_executed :: "string list"
  wk_result :: "worker_result option"

definition start_worker :: "worker_item \<Rightarrow> worker" where
  "start_worker i = \<lparr> wk_item = i, wk_pending = rq_queries (tk_search (wi_task i)), wk_evidence = [],
     wk_modes = [], wk_executed = [], wk_result = None \<rparr>"

definition child_proposal :: "research_task \<Rightarrow> child_task_proposal" where
  "child_proposal t =
     \<lparr> cp_parent_task_id = tk_task_id t, cp_task_type = RT_gap_investigation,
       cp_research_question = (case tk_comparison_dimension t of
         None \<Rightarrow> ''Narrow evidence gap for '' @ tk_research_question t
       | Some d \<Rightarrow> if d = [] then ''Narrow evidence gap for '' @ tk_research_question t
                   else ''Investigate missing comparison evidence for '' @ d),
       cp_queries = rq_queries (tk_search t),
       cp_reason = ''No authorized dimension-matching evidence was retrieved.'',
       cp_comparison_dimension = tk_comparison_dimension t,
       cp_comparison_terms = tk_comparison_terms t \<rparr>"

definition typed_evidence :: "research_task \<Rightarrow> hybrid_evidence list \<Rightarrow> hybrid_evidence list" where
  "typed_evidence t evidence =
     filter (\<lambda>h. tk_comparison_dimension t = None \<or> evidence_supports_task h t) evidence"

definition worker_result_of ::
  "research_task \<Rightarrow> hybrid_evidence list \<Rightarrow> string list \<Rightarrow> string list \<Rightarrow> string option \<Rightarrow>
   analysis_result option \<Rightarrow> nat \<Rightarrow> worker_result" where
  "worker_result_of t evidence executed modes error analysis analysis_calls =
     (let typed = typed_evidence t evidence in
      \<lparr> wr_task_id = tk_task_id t, wr_parent_task_id = tk_parent_task_id t, wr_depth = tk_depth t,
        wr_status = (if error \<noteq> None then RS_failed else if typed \<noteq> [] then RS_completed else RS_partial),
        wr_queries_executed = executed, wr_retrieval_modes = sort modes, wr_evidence = typed,
        wr_coverage_status = (if error \<noteq> None then Cov_failed
          else if typed \<noteq> [] then Cov_sufficient else Cov_insufficient),
        wr_gaps = (if typed \<noteq> [] then [] else [''No authorized matching evidence'']),
        wr_child_task_proposals =
          (if typed = [] \<and> tk_depth t < 2 \<and> error = None then [child_proposal t] else []),
        wr_warnings = [], wr_error_category = error, wr_retrieval_calls = length executed,
        wr_analysis_calls = analysis_calls, wr_analysis_result = analysis,
        wr_comparison_dimension = tk_comparison_dimension t \<rparr>)"

definition finish ::
  "string option \<Rightarrow> analysis_result option \<Rightarrow> nat \<Rightarrow> worker \<Rightarrow> worker" where
  "finish error analysis analysis_calls w = w\<lparr> wk_result := Some (worker_result_of (wi_task (wk_item w))
     (wk_evidence w) (wk_executed w) (wk_modes w) error analysis analysis_calls) \<rparr>"

definition found :: "string \<Rightarrow> hybrid_retrieval_result \<Rightarrow> worker \<Rightarrow> worker" where
  "found query r w = w\<lparr> wk_executed := wk_executed w @ [query],
     wk_evidence := wk_evidence w @ hrr_evidence r,
     wk_modes := append_new (wk_modes w)
       (concat (map (\<lambda>h. sorted_list_of_set (he_retrieval_modes h)) (hrr_evidence r))) \<rparr>"

definition analysis_step :: "worker_services \<Rightarrow> research_budget \<Rightarrow> worker \<Rightarrow> budget_usage \<Rightarrow> worker \<times> budget_usage"
where
  "analysis_step sv b w u =
     (let i = wk_item w; t = wi_task i in
      if \<not> tk_analysis_may_be_useful t \<or> \<not> analysis_permitted (ws_settings sv) (wi_principal i)
      then (finish None None 0 w, u)
      else case consume b Res_analysis_calls u of
        (False, u') \<Rightarrow> (finish None None 0 w, u')
      | (True, u') \<Rightarrow>
          (case plan_analysis (tk_research_question t) of
             Inl _ \<Rightarrow> (finish None None 0 w, u')
           | Inr request \<Rightarrow>
               (case ws_analysis sv (wi_principal i) request of
                  Inr r \<Rightarrow> (finish None (Some r) 1 w, u')
                | Inl Analysis_error \<Rightarrow> (finish None None 0 w, u')
                | Inl Analysis_timed_out \<Rightarrow> (finish (Some ''worker_timeout'') None 0 w, u')
                | Inl Analysis_raised \<Rightarrow> (finish (Some ''retrieval_failure'') None 0 w, u'))))"

definition worker_step :: "worker_services \<Rightarrow> research_budget \<Rightarrow> worker \<Rightarrow> budget_usage \<Rightarrow> worker \<times> budget_usage"
where
  "worker_step sv b w u =
     (case (wk_result w, wk_pending w) of
        (Some _, _) \<Rightarrow> (w, u)
      | (None, []) \<Rightarrow> analysis_step sv b w u
      | (None, query # rest) \<Rightarrow>
          (let i = wk_item w; t = wi_task i in
           case consume b Res_retrieval_calls u of
             (False, u') \<Rightarrow> (finish (Some ''budget_exhausted'') None 0 w, u')
           | (True, u') \<Rightarrow>
               (case ws_retrieve sv (wi_principal i) query (rq_top_k (tk_search t)) (rq_filters (tk_search t)) of
                  Inr r \<Rightarrow> (found query r (w\<lparr> wk_pending := rest \<rparr>), u')
                | Inl Retrieval_timed_out \<Rightarrow> (finish (Some ''worker_timeout'') None 0 w, u')
                | Inl (Retrieval_raised _) \<Rightarrow> (finish (Some ''retrieval_failure'') None 0 w, u'))))"

text \<open>\<open>execute\<close> on its own: one step per query and one for the analysis.\<close>

fun worker_steps :: "worker_services \<Rightarrow> research_budget \<Rightarrow> nat \<Rightarrow> worker \<Rightarrow> budget_usage \<Rightarrow> worker \<times> budget_usage"
where
  "worker_steps sv b 0 w u = (w, u)"
| "worker_steps sv b (Suc n) w u = (case worker_step sv b w u of (w', u') \<Rightarrow> worker_steps sv b n w' u')"

section \<open>A round\<close>

text \<open>The workers of one round under a schedule: each entry names the worker that takes its next step.\<close>

fun interleave ::
  "worker_services \<Rightarrow> research_budget \<Rightarrow> nat list \<Rightarrow> worker list \<Rightarrow> budget_usage \<Rightarrow> worker list \<times> budget_usage"
where
  "interleave sv b [] ws u = (ws, u)"
| "interleave sv b (k # ks) ws u =
     (if k < length ws then (case worker_step sv b (ws ! k) u of (w', u') \<Rightarrow> interleave sv b ks (ws[k := w']) u')
      else interleave sv b ks ws u)"

definition all_finished :: "worker list \<Rightarrow> bool" where
  "all_finished ws = list_all (\<lambda>w. wk_result w \<noteq> None) ws"

text \<open>\<open>dispatch_workers\<close>: one worker per pending task, in the order of the identifiers.\<close>

definition dispatch_workers :: "authenticated_principal \<Rightarrow> research_task list \<Rightarrow> worker list" where
  "dispatch_workers p pending =
     map (\<lambda>t. start_worker \<lparr> wi_principal = p, wi_task = t \<rparr>) (sort_key tk_task_id pending)"

record research_run =
  ru_pending :: "research_task list"
  ru_results :: "worker_result list"
  ru_processed :: "string list"
  ru_round :: nat
  ru_usage :: budget_usage

fun consume_tasks :: "research_budget \<Rightarrow> research_task list \<Rightarrow> budget_usage \<Rightarrow> research_task list \<times> budget_usage"
where
  "consume_tasks b [] u = ([], u)"
| "consume_tasks b (t # ts) u =
     (case consume b Res_tasks u of (granted, u1) \<Rightarrow>
        (case consume_tasks b ts u1 of (approved, u2) \<Rightarrow> ((if granted then t # approved else approved), u2)))"

definition initialize_research :: "research_budget \<Rightarrow> research_plan \<Rightarrow> budget_usage \<Rightarrow> research_run" where
  "initialize_research b plan u =
     (case consume_tasks b (pl_tasks plan) u of (approved, u') \<Rightarrow>
        \<lparr> ru_pending = approved, ru_results = [], ru_processed = [], ru_round = 0, ru_usage = u' \<rparr>)"

definition equivalence :: "research_task \<Rightarrow> search_key" where
  "equivalence t = (task_type_text (tk_task_type t),
     map (\<lambda>q. join_text '' '' (sorted_values (split_words (filter (\<lambda>c. c \<noteq> CHR ''.'') (casefold q)))))
       (rq_queries (tk_search t)))"

definition child_task :: "worker_result \<Rightarrow> nat \<Rightarrow> child_task_proposal \<Rightarrow> research_task" where
  "child_task r index c =
     \<lparr> tk_task_id = wr_task_id r @ ''.C'' @ two_digits index, tk_parent_task_id = Some (wr_task_id r),
       tk_depth = wr_depth r + 1, tk_task_type = cp_task_type c,
       tk_research_question = cp_research_question c, tk_search = default_search (cp_queries c),
       tk_dependency_task_ids = [], tk_priority = 25, tk_analysis_may_be_useful = False,
       tk_comparison_dimension = cp_comparison_dimension c,
       tk_comparison_terms = cp_comparison_terms c,
       tk_completion_criteria = [''Find authorized evidence for the gap''] \<rparr>"

record admission =
  am_known :: "search_key list"
  am_children :: "research_task list"
  am_usage :: budget_usage

definition admit_child ::
  "retrieval_settings \<Rightarrow> research_budget \<Rightarrow> worker_result \<Rightarrow> nat \<times> child_task_proposal \<Rightarrow> admission \<Rightarrow>
   (research_error, admission) result" where
  "admit_child s b r numbered a =
     (case numbered of (index, c) \<Rightarrow>
        (let child = child_task r index c; key = equivalence child in
         if research_max_depth s \<le> wr_depth r then Return a
         else if \<not> research_task_ok child then Raise ContractError
         else if key \<in> set (am_known a) then Return a
         else case consume b Res_tasks (am_usage a) of
           (False, u) \<Rightarrow> Return (a\<lparr> am_usage := u \<rparr>)
         | (True, u) \<Rightarrow> Return \<lparr> am_known = am_known a @ [key], am_children = am_children a @ [child],
             am_usage = u \<rparr>))"

fun admit_children ::
  "retrieval_settings \<Rightarrow> research_budget \<Rightarrow> (worker_result \<times> nat \<times> child_task_proposal) list \<Rightarrow> admission \<Rightarrow>
   (research_error, admission) result" where
  "admit_children s b [] a = Return a"
| "admit_children s b ((r, c) # cs) a = bind_result (admit_child s b r c a) (admit_children s b cs)"

definition proposals :: "retrieval_settings \<Rightarrow> worker_result list \<Rightarrow> (worker_result \<times> nat \<times> child_task_proposal) list"
where
  "proposals s current = concat (map (\<lambda>r. map (Pair r)
     (enumerate 1 (take (research_max_child_tasks_per_worker s) (wr_child_task_proposals r)))) current)"

definition current_results :: "research_run \<Rightarrow> worker_result list" where
  "current_results st =
     sort_key wr_task_id (filter (\<lambda>r. wr_task_id r \<notin> set (ru_processed st)) (ru_results st))"

definition aggregate_round ::
  "retrieval_settings \<Rightarrow> research_budget \<Rightarrow> research_plan \<Rightarrow> research_run \<Rightarrow> (research_error, research_run) result"
where
  "aggregate_round s b plan st =
     (let current = current_results st;
          known = map equivalence (pl_tasks plan @ ru_pending st) in
      bind_result (admit_children s b (proposals s current)
          \<lparr> am_known = known, am_children = [], am_usage = ru_usage st \<rparr>)
        (\<lambda>a. Return (st\<lparr> ru_pending := sort_key tk_task_id (am_children a),
               ru_processed := sorted_values (ru_processed st @ map wr_task_id current),
               ru_round := ru_round st + 1, ru_usage := am_usage a \<rparr>)))"

text \<open>The super-step of the workers, then the one of the aggregation.  \<open>schedule n\<close> is the order in which
  the workers of round \<open>n\<close> take their steps; a schedule that leaves a worker unfinished is none.\<close>

definition run_round ::
  "worker_services \<Rightarrow> research_budget \<Rightarrow> authenticated_principal \<Rightarrow> nat list \<Rightarrow> research_run \<Rightarrow> research_run option"
where
  "run_round sv b p schedule st =
     (case interleave sv b schedule (dispatch_workers p (ru_pending st)) (ru_usage st) of (ws, u) \<Rightarrow>
        if all_finished ws
        then Some (st\<lparr> ru_results := append_new (ru_results st) (map (the \<circ> wk_result) ws), ru_usage := u \<rparr>)
        else None)"

section \<open>The coordinator\<close>

definition budget_of :: "retrieval_settings \<Rightarrow> research_budget" where
  "budget_of s = \<lparr> rb_maximum_depth = research_max_depth s,
     rb_maximum_total_tasks = research_max_total_tasks s,
     rb_maximum_retrieval_calls = research_max_retrieval_calls s,
     rb_maximum_analysis_calls = research_max_analysis_calls s,
     rb_maximum_llm_calls = research_max_llm_calls s,
     rb_maximum_evidence_items = research_max_evidence_items s,
     rb_maximum_evidence_characters = research_max_total_evidence_characters s \<rparr>"

definition research_recursion_limit :: "retrieval_settings \<Rightarrow> nat" where
  "research_recursion_limit s = max 25 (research_max_total_tasks s * 4)"

datatype 'a outcome = Completed 'a | Aborted research_error | Limit_reached | Unscheduled

text \<open>The loop of the graph after \<open>initialize_research\<close>; a round takes two super-steps of the limit.\<close>

fun research_rounds ::
  "worker_services \<Rightarrow> research_plan \<Rightarrow> authenticated_principal \<Rightarrow> (nat \<Rightarrow> nat list) \<Rightarrow> nat \<Rightarrow> research_run \<Rightarrow>
   research_run outcome" where
  "research_rounds sv plan p schedule (Suc (Suc fuel)) st =
     (if ru_pending st = [] then Completed st
      else case run_round sv (budget_of (ws_settings sv)) p (schedule (ru_round st)) st of
        None \<Rightarrow> Unscheduled
      | Some st1 \<Rightarrow>
          (case aggregate_round (ws_settings sv) (budget_of (ws_settings sv)) plan st1 of
             Inl e \<Rightarrow> Aborted e
           | Inr st2 \<Rightarrow> research_rounds sv plan p schedule fuel st2))"
| "research_rounds sv plan p schedule (Suc 0) st = (if ru_pending st = [] then Completed st else Limit_reached)"
| "research_rounds sv plan p schedule 0 st = Limit_reached"

text \<open>The value of an operation, with the request identifier the key of the analyses.\<close>

definition sort_analyses :: "worker_result list \<Rightarrow> analysis_result list" where
  "sort_analyses results = sort_key (\<lambda>a. (operation_text (an_operation a), an_request_id a))
     (List.map_filter wr_analysis_result results)"

definition worker_failed :: "worker_result \<Rightarrow> bool" where
  "worker_failed r = (case wr_error_category r of None \<Rightarrow> False | Some e \<Rightarrow> e \<noteq> [])"

definition final_coverage ::
  "retrieval_settings \<Rightarrow> research_plan \<Rightarrow> worker_result list \<Rightarrow> evidence_ledger \<Rightarrow> budget_usage \<Rightarrow>
   coverage_assessment" where
  "final_coverage s plan results ledger u =
     (let c = assess_coverage plan results (length (el_entries ledger)) (detect_conflicts ledger)
            (bu_exhausted u) False False in
      if \<not> research_allow_partial_results s \<and> list_ex worker_failed results
      then c\<lparr> ca_status := Cov_failed \<rparr> else c)"

definition finalize_research ::
  "retrieval_settings \<Rightarrow> research_plan \<Rightarrow> authenticated_principal \<Rightarrow> research_run \<Rightarrow>
   (research_error, research_result) result" where
  "finalize_research s plan p st =
     (let results = sort_key wr_task_id (ru_results st); b = budget_of s;
          fingerprint = cc_build_fingerprint (pl_catalog plan) in
      bind_result (aggregate_evidence (rb_maximum_evidence_items b) (rb_maximum_evidence_characters b)
          (Some fingerprint) (Some p) results)
        (\<lambda>ledger. let c = final_coverage s plan results ledger (ru_usage st) in Return
          \<lparr> rs_plan = plan, rs_worker_results = results, rs_evidence_ledger = ledger, rs_coverage = c,
            rs_gaps = map (\<lambda>d. \<lparr> rg_dimension = d,
                rg_reason = ''Required research dimension was not fully supported.'', rg_task_id = None \<rparr>)
              (ca_missing_dimensions c),
            rs_conflicts = detect_conflicts ledger, rs_budget_usage = ru_usage st,
            rs_provenance_fingerprint = fingerprint,
            rs_warnings = (if list_ex worker_failed results
              then [''Some research workers failed; the result is partial.''] else []),
            rs_analysis_results = sort_analyses results \<rparr>))"

text \<open>What the service reads besides the collaborators of the workers: the ingestion build, the hash and
  the JSON size of a plan.\<close>

record research_environment =
  re_workers :: worker_services
  re_build :: "ingestion_build option"
  re_sha :: "string \<Rightarrow> string"
  re_json_size :: "research_plan \<Rightarrow> nat"

text \<open>The planner has no \<open>repair_plan\<close>, so a plan the compiler refuses ends the run.\<close>

definition plan_research ::
  "research_environment \<Rightarrow> string \<Rightarrow> authenticated_principal \<Rightarrow> (research_error, research_plan) result"
where
  "plan_research e question p =
     bind_result (build_catalog (re_build e) p) (\<lambda>catalog.
       bind_result (create_plan (re_sha e) question catalog) (\<lambda>proposed.
         compile_plan (re_sha e) (re_json_size e) (ws_settings (re_workers e)) proposed))"

definition execute_plan ::
  "worker_services \<Rightarrow> (nat \<Rightarrow> nat list) \<Rightarrow> research_plan \<Rightarrow> authenticated_principal \<Rightarrow> budget_usage \<Rightarrow>
   research_run outcome" where
  "execute_plan sv schedule plan p u =
     research_rounds sv plan p schedule (research_recursion_limit (ws_settings sv) - 1)
       (initialize_research (budget_of (ws_settings sv)) plan u)"

definition run_research ::
  "research_environment \<Rightarrow> (nat \<Rightarrow> nat list) \<Rightarrow> research_request \<Rightarrow> research_result outcome" where
  "run_research e schedule r =
     (let sv = re_workers e; s = ws_settings sv; p = rr_principal r in
      case consume (budget_of s) Res_llm_calls no_usage of
        (False, _) \<Rightarrow> Aborted PlanningBudgetError
      | (True, u) \<Rightarrow>
          (case plan_research e (rr_question r) p of
             Inl err \<Rightarrow> Aborted err
           | Inr plan \<Rightarrow>
               (case execute_plan sv schedule plan p u of
                  Completed st \<Rightarrow>
                    (case finalize_research s plan p st of Inl err \<Rightarrow> Aborted err | Inr result \<Rightarrow> Completed result)
                | Aborted err \<Rightarrow> Aborted err
                | Limit_reached \<Rightarrow> Limit_reached
                | Unscheduled \<Rightarrow> Unscheduled)))"

end
