(* ===== verification/Round_Properties.thy ===== *)
theory Round_Properties
  imports Research_Rounds Plan_Properties
begin

text \<open>
  Facts about the execution of research: what a step of a worker charges and produces, what a round
  under any schedule leaves behind, and why two rounds are all there can be.
\<close>

section \<open>The ledger\<close>

named_theorems ledger_simps \<open>counters of the budget ledger\<close>

lemma used_set_used [ledger_simps]: "used r (set_used q n u) = (if r = q then n else used r u)"
  by (cases r; cases q) simp_all

lemma used_exhausted [ledger_simps]: "used r (u\<lparr> bu_exhausted := x \<rparr>) = used r u"
  by (cases r) simp_all

lemma exhausted_set_used [ledger_simps]: "bu_exhausted (set_used r n u) = bu_exhausted u"
  by (cases r) simp_all

lemma resource_of_text [simp]: "resource_of (resource_text r) = Some r"
  by (cases r) (simp_all add: resource_of_def resources_def)

lemma consume_eq:
  "consume b r u = (if limit b r < used r u + 1 then (False, u\<lparr> bu_exhausted := True \<rparr>)
     else (True, set_used r (used r u + 1) u))"
  by (simp add: consume_def consume_amount_def nat_add_distrib del: of_nat_Suc)

definition in_budget :: "research_budget \<Rightarrow> budget_usage \<Rightarrow> bool" where
  "in_budget b u = (\<forall>r. used r u \<le> limit b r)"

lemma in_budget_no_usage [simp]: "in_budget b no_usage"
proof -
  have "used r no_usage = 0" for r by (cases r) (simp_all add: no_usage_def)
  then show ?thesis by (simp add: in_budget_def)
qed

text \<open>What a later state of the ledger keeps of an earlier one.\<close>

definition ledger_grows :: "research_budget \<Rightarrow> budget_usage \<Rightarrow> budget_usage \<Rightarrow> bool" where
  "ledger_grows b u u' = ((in_budget b u \<longrightarrow> in_budget b u') \<and> (bu_exhausted u \<longrightarrow> bu_exhausted u') \<and>
     (\<forall>r. used r u \<le> used r u'))"

lemma ledger_grows_refl [intro]: "ledger_grows b u u"
  by (simp add: ledger_grows_def)

lemma ledger_grows_trans: "ledger_grows b u v \<Longrightarrow> ledger_grows b v w \<Longrightarrow> ledger_grows b u w"
  unfolding ledger_grows_def by (meson order_trans)

lemma consume_grows: "consume b r u = (g, u') \<Longrightarrow> ledger_grows b u u'"
  by (auto simp: consume_eq ledger_grows_def in_budget_def ledger_simps split: if_splits)

lemma consume_used:
  "consume b r u = (g, u') \<Longrightarrow> used q u' = used q u + (if g \<and> q = r then 1 else 0)"
  by (auto simp: consume_eq ledger_simps split: if_splits)

lemma consume_counts:
  assumes "consume b r u = (g, u')"
  shows "used Res_tasks u' = used Res_tasks u + (if g \<and> r = Res_tasks then 1 else 0) \<and>
    used Res_llm_calls u' = used Res_llm_calls u + (if g \<and> r = Res_llm_calls then 1 else 0) \<and>
    used Res_retrieval_calls u' = used Res_retrieval_calls u + (if g \<and> r = Res_retrieval_calls then 1 else 0)"
  using consume_used [OF assms] by (auto simp del: used.simps)

section \<open>A step of a worker\<close>

abbreviation worker_task :: "worker \<Rightarrow> research_task" where "worker_task w \<equiv> wi_task (wk_item w)"

definition remaining :: "worker \<Rightarrow> nat" where
  "remaining w = (if wk_result w = None then length (wk_pending w) + 1 else 0)"

lemma finish_simps [simp]:
  "wk_item (finish e a n w) = wk_item w" "wk_result (finish e a n w) \<noteq> None"
  "wk_executed (finish e a n w) = wk_executed w"
  by (simp_all add: finish_def)

lemma found_simps [simp]:
  "wk_item (found q r w) = wk_item w" "wk_result (found q r w) = wk_result w"
  "wk_pending (found q r w) = wk_pending w" "wk_executed (found q r w) = wk_executed w @ [q]"
  "wk_evidence (found q r w) = wk_evidence w @ hrr_evidence r"
  by (simp_all add: found_def)

lemma analysis_step_cases:
  assumes "analysis_step sv b w u = (w', u')"
  shows "\<exists>e a n. (u' = u \<or> (\<exists>g. consume b Res_analysis_calls u = (g, u'))) \<and>
    e \<in> {None, Some ''worker_timeout'', Some ''retrieval_failure''} \<and> w' = finish e a n w"
proof (cases "\<not> tk_analysis_may_be_useful (worker_task w) \<or> \<not> analysis_permitted (ws_settings sv) (wi_principal (wk_item w))")
  case True
  then show ?thesis using assms by (auto simp: analysis_step_def Let_def)
next
  case False
  obtain g v where c: "consume b Res_analysis_calls u = (g, v)" by (cases "consume b Res_analysis_calls u")
  let ?p = "plan_analysis (tk_research_question (worker_task w))"
  let ?a = "\<lambda>q. ws_analysis sv (wi_principal (wk_item w)) q"
  have fin: "?thesis" if "finish e a n w = w'" "v = u'" "e \<in> {None, Some ''worker_timeout'', Some ''retrieval_failure''}" for e a n
    using that c by blast
  consider "\<not> g" | x where g "?p = Inl x" | q x where g "?p = Inr q" "?a q = Inl x" | q x where g "?p = Inr q" "?a q = Inr x"
    by (cases ?p; cases "?a (projr ?p)") auto
  then show ?thesis
  proof cases
    case (3 q x)
    then show ?thesis using assms False c by (cases x) (auto simp: analysis_step_def Let_def intro!: fin)
  qed (use assms False c in \<open>auto simp: analysis_step_def Let_def intro!: fin\<close>)
qed

text \<open>The ways a step can go: the lemma every fact about workers is proved from.\<close>

lemma worker_step_cases:
  assumes "worker_step sv b w u = (w', u')"
  obtains (finished) "wk_result w \<noteq> None" "w' = w" "u' = u"
  | (refused) q qs where "wk_result w = None" "wk_pending w = q # qs" "consume b Res_retrieval_calls u = (False, u')"
      "w' = finish (Some ''budget_exhausted'') None 0 w"
  | (failed) q qs e where "wk_result w = None" "wk_pending w = q # qs" "consume b Res_retrieval_calls u = (True, u')"
      "e \<in> {''worker_timeout'', ''retrieval_failure''}" "w' = finish (Some e) None 0 w"
  | (answered) q qs r where "wk_result w = None" "wk_pending w = q # qs" "consume b Res_retrieval_calls u = (True, u')"
      "ws_retrieve sv (wi_principal (wk_item w)) q (rq_top_k (tk_search (worker_task w))) (rq_filters (tk_search (worker_task w))) = Inr r"
      "w' = found q r (w\<lparr> wk_pending := qs \<rparr>)"
  | (analysed) e a n where "wk_result w = None" "wk_pending w = []" "u' = u \<or> (\<exists>g. consume b Res_analysis_calls u = (g, u'))"
      "e \<in> {None, Some ''worker_timeout'', Some ''retrieval_failure''}" "w' = finish e a n w"
proof (cases "wk_result w")
  case (Some r)
  with assms have "w' = w" "u' = u" by (simp_all add: worker_step_def)
  with Some show thesis by (intro finished) simp_all
next
  case N: None
  show thesis
  proof (cases "wk_pending w")
    case Nil
    then have "analysis_step sv b w u = (w', u')" using assms N by (simp add: worker_step_def)
    from analysis_step_cases [OF this] obtain e a n where
      "u' = u \<or> (\<exists>g. consume b Res_analysis_calls u = (g, u'))"
      "e \<in> {None, Some ''worker_timeout'', Some ''retrieval_failure''}" "w' = finish e a n w" by (elim exE conjE)
    then show thesis by (rule analysed [OF N Nil])
  next
    case (Cons q qs)
    obtain g v where c: "consume b Res_retrieval_calls u = (g, v)" by (cases "consume b Res_retrieval_calls u")
    show thesis
    proof (cases g)
      case False
      then have "u' = v" "w' = finish (Some ''budget_exhausted'') None 0 w"
        using assms N Cons c by (simp_all add: worker_step_def Let_def)
      then show thesis by (intro refused [OF N Cons]) (use c False in simp_all)
    next
      case True
      let ?a = "ws_retrieve sv (wi_principal (wk_item w)) q (rq_top_k (tk_search (worker_task w))) (rq_filters (tk_search (worker_task w)))"
      consider e where "?a = Inl e" | r where "?a = Inr r" by (cases ?a) auto
      then show thesis
      proof cases
        case 1
        then have "u' = v \<and> (w' = finish (Some ''worker_timeout'') None 0 w \<or> w' = finish (Some ''retrieval_failure'') None 0 w)"
          using assms N Cons c True by (cases e) (auto simp: worker_step_def Let_def)
        then obtain e where "e \<in> {''worker_timeout'', ''retrieval_failure''}" "w' = finish (Some e) None 0 w" "u' = v" by auto
        then show thesis by (intro failed [OF N Cons]) (use c True in simp_all)
      next
        case 2
        then have "u' = v" "w' = found q r (w\<lparr> wk_pending := qs \<rparr>)"
          using assms N Cons c True by (simp_all add: worker_step_def Let_def)
        then show thesis by (intro answered [OF N Cons _ 2]) (use c True in simp_all)
      qed
    qed
  qed
qed

lemma worker_step_grows: "worker_step sv b w u = (w', u') \<Longrightarrow> ledger_grows b u u'"
  by (erule worker_step_cases) (auto dest: consume_grows)

lemma worker_step_item: "worker_step sv b w u = (w', u') \<Longrightarrow> wk_item w' = wk_item w"
  by (erule worker_step_cases) auto

lemma worker_step_remaining: "worker_step sv b w u = (w', u') \<Longrightarrow> remaining w' \<le> remaining w - 1"
  by (erule worker_step_cases) (auto simp: remaining_def)

lemma worker_step_charge:
  "worker_step sv b w u = (w', u') \<Longrightarrow>
   used Res_tasks u' = used Res_tasks u \<and> used Res_llm_calls u' = used Res_llm_calls u \<and>
   length (wk_executed w') + used Res_retrieval_calls u \<le> length (wk_executed w) + used Res_retrieval_calls u'"
  by (erule worker_step_cases) (auto dest!: consume_counts simp del: used.simps)

text \<open>A worker holds the answers to the queries it executed, in order; its result is built from them.\<close>

definition answer ::
  "worker_services \<Rightarrow> worker_item \<Rightarrow> string \<Rightarrow> (retrieve_failure, hybrid_retrieval_result) result" where
  "answer sv i q = ws_retrieve sv (wi_principal i) q (rq_top_k (tk_search (wi_task i))) (rq_filters (tk_search (wi_task i)))"

definition evidence_for :: "worker_services \<Rightarrow> worker_item \<Rightarrow> string list \<Rightarrow> hybrid_evidence list" where
  "evidence_for sv i qs = concat (map (\<lambda>q. case answer sv i q of Inl _ \<Rightarrow> [] | Inr r \<Rightarrow> hrr_evidence r) qs)"

definition result_sound :: "worker_services \<Rightarrow> worker_item \<Rightarrow> worker_result \<Rightarrow> bool" where
  "result_sound sv i r =
     (\<exists>executed modes e a n. prefix executed (rq_queries (tk_search (wi_task i))) \<and>
        r = worker_result_of (wi_task i) (evidence_for sv i executed) executed modes e a n \<and>
        (e = None \<longrightarrow> executed = rq_queries (tk_search (wi_task i))) \<and> e \<noteq> Some [])"

definition worker_sound :: "worker_services \<Rightarrow> worker \<Rightarrow> bool" where
  "worker_sound sv w =
     (wk_evidence w = evidence_for sv (wk_item w) (wk_executed w) \<and>
      prefix (wk_executed w) (rq_queries (tk_search (worker_task w))) \<and>
      (case wk_result w of
         None \<Rightarrow> wk_executed w @ wk_pending w = rq_queries (tk_search (worker_task w))
       | Some r \<Rightarrow> result_sound sv (wk_item w) r \<and> wr_retrieval_calls r = length (wk_executed w)))"

lemma start_worker_sound: "worker_sound sv (start_worker i)"
  by (simp add: worker_sound_def start_worker_def evidence_for_def)

lemma finish_sound:
  assumes "worker_sound sv w" "wk_result w = None" "e = None \<Longrightarrow> wk_pending w = []" "e \<noteq> Some []"
  shows "worker_sound sv (finish e a n w)"
proof -
  let ?r = "worker_result_of (worker_task w) (wk_evidence w) (wk_executed w) (wk_modes w) e a n"
  have w: "wk_evidence w = evidence_for sv (wk_item w) (wk_executed w)"
    "prefix (wk_executed w) (rq_queries (tk_search (worker_task w)))"
    "wk_executed w @ wk_pending w = rq_queries (tk_search (worker_task w))"
    using assms(1,2) by (simp_all add: worker_sound_def)
  have all: "e = None \<Longrightarrow> wk_executed w = rq_queries (tk_search (worker_task w))" using w(3) assms(3) by simp
  have "result_sound sv (wk_item w) ?r"
    unfolding result_sound_def using w(1,2) assms(4) all by (intro exI [of _ "wk_executed w"] exI conjI impI) simp_all
  then show ?thesis
    using w(1,2) by (simp add: worker_sound_def finish_def worker_result_of_def Let_def)
qed

lemma worker_step_sound:
  assumes "worker_step sv b w u = (w', u')" "worker_sound sv w"
  shows "worker_sound sv w'"
  using assms(1)
proof (cases rule: worker_step_cases)
  case (answered q qs r)
  have "wk_executed w @ q # qs = rq_queries (tk_search (worker_task w))"
    using assms(2) answered by (simp add: worker_sound_def)
  then show ?thesis
    using assms(2) answered
    by (auto simp: worker_sound_def evidence_for_def answer_def prefix_def)
qed (use assms(2) in \<open>auto intro!: finish_sound\<close>)

section \<open>A round under a schedule\<close>

text \<open>An induction over the schedule: what a step keeps, the round keeps.\<close>

lemma interleave_induct:
  assumes "interleave sv b ks ws u = (ws', u')" "P ws u"
    "\<And>k ws u w' u'. P ws u \<Longrightarrow> k < length ws \<Longrightarrow> worker_step sv b (ws ! k) u = (w', u') \<Longrightarrow> P (ws[k := w']) u'"
  shows "P ws' u'"
  using assms(1,2)
proof (induction ks arbitrary: ws u)
  case (Cons k ks)
  show ?case
  proof (cases "k < length ws")
    case True
    obtain w1 u1 where s: "worker_step sv b (ws ! k) u = (w1, u1)" by (cases "worker_step sv b (ws ! k) u")
    then have "interleave sv b ks (ws[k := w1]) u1 = (ws', u')" using Cons.prems(1) True by simp
    then show ?thesis using Cons.IH assms(3) [OF Cons.prems(2) True s] by blast
  qed (use Cons in auto)
qed simp

lemma interleave_grows: "interleave sv b ks ws u = (ws', u') \<Longrightarrow> ledger_grows b u u'"
  by (erule interleave_induct) (auto intro: ledger_grows_trans worker_step_grows)

lemma interleave_items: "interleave sv b ks ws u = (ws', u') \<Longrightarrow> map wk_item ws' = map wk_item ws"
proof (erule interleave_induct [where P = "\<lambda>vs v. map wk_item vs = map wk_item ws"])
  fix k vs v w' v'
  assume vs: "map wk_item vs = map wk_item ws" and k: "k < length vs" and s: "worker_step sv b (vs ! k) v = (w', v')"
  have "map wk_item (vs[k := w']) = (map wk_item vs)[k := map wk_item vs ! k]"
    using k worker_step_item [OF s] by (simp add: map_update)
  then show "map wk_item (vs[k := w']) = map wk_item ws" using vs by simp
qed simp

lemma interleave_sound:
  "interleave sv b ks ws u = (ws', u') \<Longrightarrow> \<forall>w \<in> set ws. worker_sound sv w \<Longrightarrow> \<forall>w \<in> set ws'. worker_sound sv w"
  by (erule interleave_induct [where P = "\<lambda>ws u. \<forall>w \<in> set ws. worker_sound sv w"])
    (auto dest!: set_update_subset_insert [THEN subsetD] intro: worker_step_sound nth_mem)

lemma interleave_charge:
  assumes "interleave sv b ks ws u = (ws', u')"
  shows "used Res_tasks u' = used Res_tasks u \<and> used Res_llm_calls u' = used Res_llm_calls u \<and>
    sum_list (map (length \<circ> wk_executed) ws') + used Res_retrieval_calls u
      \<le> sum_list (map (length \<circ> wk_executed) ws) + used Res_retrieval_calls u'"
proof (rule interleave_induct [where P = "\<lambda>vs v. used Res_tasks v = used Res_tasks u \<and>
    used Res_llm_calls v = used Res_llm_calls u \<and>
    sum_list (map (length \<circ> wk_executed) vs) + used Res_retrieval_calls u
      \<le> sum_list (map (length \<circ> wk_executed) ws) + used Res_retrieval_calls v", OF assms])
  fix k vs v w' v'
  assume "used Res_tasks v = used Res_tasks u \<and> used Res_llm_calls v = used Res_llm_calls u \<and>
    sum_list (map (length \<circ> wk_executed) vs) + used Res_retrieval_calls u
      \<le> sum_list (map (length \<circ> wk_executed) ws) + used Res_retrieval_calls v"
    and k: "k < length vs" and s: "worker_step sv b (vs ! k) v = (w', v')"
  then show "used Res_tasks v' = used Res_tasks u \<and> used Res_llm_calls v' = used Res_llm_calls u \<and>
    sum_list (map (length \<circ> wk_executed) (vs[k := w'])) + used Res_retrieval_calls u
      \<le> sum_list (map (length \<circ> wk_executed) ws) + used Res_retrieval_calls v'"
    using worker_step_charge [OF s] sum_list_update_add [OF k, of "length \<circ> wk_executed" w'] by simp
qed simp

lemma interleave_remaining:
  "interleave sv b ks ws u = (ws', u') \<Longrightarrow> k < length ws \<Longrightarrow>
   length ws' = length ws \<and> remaining (ws' ! k) \<le> remaining (ws ! k) - count_list ks k"
proof (induction ks arbitrary: ws u)
  case (Cons j ks)
  show ?case
  proof (cases "j < length ws")
    case True
    obtain w1 u1 where s: "worker_step sv b (ws ! j) u = (w1, u1)" by (cases "worker_step sv b (ws ! j) u")
    then have i: "interleave sv b ks (ws[j := w1]) u1 = (ws', u')" using Cons.prems(1) True by simp
    show ?thesis
      using Cons.IH [OF i] Cons.prems(2) worker_step_remaining [OF s] True by (auto simp: nth_list_update)
  qed (use Cons in auto)
qed simp

lemma interleave_finishes:
  assumes "interleave sv b ks ws u = (ws', u')" "\<forall>k < length ws. remaining (ws ! k) \<le> count_list ks k"
  shows "all_finished ws'"
proof (cases ws)
  case Nil
  then show ?thesis using interleave_items [OF assms(1)] by (simp add: all_finished_def)
next
  case Cons
  then have "length ws' = length ws" using interleave_remaining [OF assms(1), of 0] by simp
  moreover have "remaining (ws' ! k) = 0" if "k < length ws" for k
    using interleave_remaining [OF assms(1) that] assms(2) that by simp
  ultimately show ?thesis by (fastforce simp: all_finished_def list_all_length remaining_def split: if_splits)
qed

end
