(* ===== verification/Research_Run.thy ===== *)
theory Research_Run
  imports Round_Properties
begin

text \<open>
  A whole run of research: what one round leaves in the state of the graph, the invariant of the
  run, and the argument that a task created for a gap never creates another one, so that a run has
  at most two rounds.
\<close>

section \<open>Results\<close>

lemma result_sound_fields:
  assumes "result_sound sv i r"
  shows "wr_task_id r = tk_task_id (wi_task i)" "wr_depth r = tk_depth (wi_task i)"
    "wr_parent_task_id r = tk_parent_task_id (wi_task i)"
    "wr_child_task_proposals r = [] \<or>
     wr_child_task_proposals r = [child_proposal (wi_task i)] \<and> wr_evidence r = [] \<and> wr_error_category r = None \<and>
     tk_depth (wi_task i) < 2"
    "wr_comparison_dimension r = tk_comparison_dimension (wi_task i)"
proof -
  obtain executed modes e a n where
    r: "r = worker_result_of (wi_task i) (evidence_for sv i executed) executed modes e a n"
    using assms unfolding result_sound_def by (elim exE conjE) (rule that)
  show "wr_task_id r = tk_task_id (wi_task i)" "wr_depth r = tk_depth (wi_task i)"
    "wr_parent_task_id r = tk_parent_task_id (wi_task i)"
    "wr_comparison_dimension r = tk_comparison_dimension (wi_task i)"
    by (simp_all add: r worker_result_of_def Let_def)
  show "wr_child_task_proposals r = [] \<or>
     wr_child_task_proposals r = [child_proposal (wi_task i)] \<and> wr_evidence r = [] \<and> wr_error_category r = None \<and>
     tk_depth (wi_task i) < 2"
    by (simp add: r worker_result_of_def Let_def)
qed

abbreviation item :: "authenticated_principal \<Rightarrow> research_task \<Rightarrow> worker_item" where
  "item p t \<equiv> \<lparr> wi_principal = p, wi_task = t \<rparr>"

lemma run_round_Some:
  assumes "run_round sv b p schedule st = Some st1"
  obtains rs where "list_all2 (\<lambda>t r. result_sound sv (item p t) r) (sort_key tk_task_id (ru_pending st)) rs"
    "ru_results st1 = append_new (ru_results st) rs" "ru_pending st1 = ru_pending st"
    "ru_processed st1 = ru_processed st" "ru_round st1 = ru_round st"
    "ledger_grows b (ru_usage st) (ru_usage st1)" "used Res_tasks (ru_usage st1) = used Res_tasks (ru_usage st)"
    "used Res_llm_calls (ru_usage st1) = used Res_llm_calls (ru_usage st)"
    "sum_list (map wr_retrieval_calls rs) + used Res_retrieval_calls (ru_usage st) \<le> used Res_retrieval_calls (ru_usage st1)"
proof -
  let ?ws = "dispatch_workers p (ru_pending st)"
  obtain ws u where i: "interleave sv b schedule ?ws (ru_usage st) = (ws, u)"
    by (cases "interleave sv b schedule ?ws (ru_usage st)")
  have fin: "all_finished ws" and st1: "st1 = st\<lparr> ru_results := append_new (ru_results st) (map (the \<circ> wk_result) ws), ru_usage := u \<rparr>"
    using assms i by (auto simp: run_round_def split: if_splits)
  have sound: "\<forall>w \<in> set ws. worker_sound sv w"
    by (rule interleave_sound [OF i]) (auto simp: dispatch_workers_def start_worker_sound)
  have items: "map wk_item ws = map (item p) (sort_key tk_task_id (ru_pending st))"
    using interleave_items [OF i] by (simp add: dispatch_workers_def start_worker_def comp_def)
  have w: "result_sound sv (wk_item w) (the (wk_result w)) \<and> wr_retrieval_calls (the (wk_result w)) = length (wk_executed w)"
    if "w \<in> set ws" for w
    using sound fin that by (auto simp: worker_sound_def all_finished_def list_all_iff split: option.splits)
  have "sum_list (map (length \<circ> wk_executed) ?ws) = 0"
    by (simp add: dispatch_workers_def start_worker_def comp_def)
  moreover have "map wr_retrieval_calls (map (the \<circ> wk_result) ws) = map (length \<circ> wk_executed) ws" using w by simp
  ultimately have "sum_list (map wr_retrieval_calls (map (the \<circ> wk_result) ws)) + used Res_retrieval_calls (ru_usage st)
      \<le> used Res_retrieval_calls u"
    using interleave_charge [OF i] by (simp only: add_0)
  moreover have "list_all2 (\<lambda>t r. result_sound sv (item p t) r) (sort_key tk_task_id (ru_pending st)) (map (the \<circ> wk_result) ws)"
  proof (rule list_all2_all_nthI)
    show "length (sort_key tk_task_id (ru_pending st)) = length (map (the \<circ> wk_result) ws)"
      using arg_cong [OF items, of length] by simp
    fix n assume n: "n < length (sort_key tk_task_id (ru_pending st))"
    then have "n < length ws" using arg_cong [OF items, of length] by simp
    then show "result_sound sv (item p (sort_key tk_task_id (ru_pending st) ! n)) (map (the \<circ> wk_result) ws ! n)"
      using w [of "ws ! n"] arg_cong [OF items, of "\<lambda>xs. xs ! n"] n by simp
  qed
  ultimately show thesis
    using that st1 interleave_grows [OF i] interleave_charge [OF i] by simp
qed

section \<open>Admission of children\<close>

abbreviation built :: "worker_result \<times> nat \<times> child_task_proposal \<Rightarrow> research_task" where
  "built x \<equiv> child_task (fst x) (fst (snd x)) (snd (snd x))"

lemma admit_child_Inr:
  assumes "admit_child s b r c a = Inr a'"
  shows "ledger_grows b (am_usage a) (am_usage a') \<and>
    used Res_llm_calls (am_usage a') = used Res_llm_calls (am_usage a) \<and>
    used Res_retrieval_calls (am_usage a') = used Res_retrieval_calls (am_usage a) \<and>
    set (am_known a) \<subseteq> set (am_known a') \<and>
    (am_children a' = am_children a \<and> used Res_tasks (am_usage a') = used Res_tasks (am_usage a) \<or>
     am_children a' = am_children a @ [built (r, c)] \<and>
     used Res_tasks (am_usage a') = used Res_tasks (am_usage a) + 1 \<and> wr_depth r < research_max_depth s \<and>
     research_task_ok (built (r, c)) \<and> equivalence (built (r, c)) \<notin> set (am_known a))"
proof -
  obtain i x where c: "c = (i, x)" by (cases c)
  obtain g u where k: "consume b Res_tasks (am_usage a) = (g, u)" by (cases "consume b Res_tasks (am_usage a)")
  show ?thesis
    using assms consume_grows [OF k] consume_counts [OF k] k
    by (cases g) (auto simp: c admit_child_def Let_def simp del: used.simps split: if_splits)
qed

lemma admit_children_Inr:
  assumes "admit_children s b cs a = Inr a'"
  obtains new where "subseq new cs" "am_children a' = am_children a @ map built new"
    "\<forall>x \<in> set new. wr_depth (fst x) < research_max_depth s \<and> research_task_ok (built x) \<and> equivalence (built x) \<notin> set (am_known a)"
    "ledger_grows b (am_usage a) (am_usage a')" "used Res_tasks (am_usage a') = used Res_tasks (am_usage a) + length new"
    "used Res_llm_calls (am_usage a') = used Res_llm_calls (am_usage a)"
    "used Res_retrieval_calls (am_usage a') = used Res_retrieval_calls (am_usage a)"
  using assms
proof (induction cs arbitrary: a thesis)
  case Nil
  then show ?case by (intro Nil(1) [of "[]"]) auto
next
  case (Cons x cs)
  obtain r c where x: "x = (r, c)" by (cases x)
  obtain a1 where a1: "admit_child s b r c a = Inr a1" and rest: "admit_children s b cs a1 = Inr a'"
    using Cons.prems(2) x by auto
  obtain new where new: "subseq new cs" "am_children a' = am_children a1 @ map built new"
    "\<forall>x \<in> set new. wr_depth (fst x) < research_max_depth s \<and> research_task_ok (built x) \<and> equivalence (built x) \<notin> set (am_known a1)"
    "ledger_grows b (am_usage a1) (am_usage a')" "used Res_tasks (am_usage a') = used Res_tasks (am_usage a1) + length new"
    "used Res_llm_calls (am_usage a') = used Res_llm_calls (am_usage a1)"
    "used Res_retrieval_calls (am_usage a') = used Res_retrieval_calls (am_usage a1)"
    by (rule Cons.IH [OF _ rest])
  note step = admit_child_Inr [OF a1]
  have grow: "ledger_grows b (am_usage a) (am_usage a')" using step new(4) by (blast intro: ledger_grows_trans)
  from step consider "am_children a1 = am_children a \<and> used Res_tasks (am_usage a1) = used Res_tasks (am_usage a)"
    | "am_children a1 = am_children a @ [built x]" "used Res_tasks (am_usage a1) = used Res_tasks (am_usage a) + 1"
      "wr_depth (fst x) < research_max_depth s" "research_task_ok (built x)" "equivalence (built x) \<notin> set (am_known a)"
    using x by auto
  then show ?case
  proof cases
    case 1
    then show ?thesis using new step grow by (intro Cons.prems(1) [of new]) auto
  next
    case 2
    then show ?thesis using new step grow by (intro Cons.prems(1) [of "x # new"]) auto
  qed
qed

section \<open>One round\<close>

text \<open>A task created for a gap repeats the queries of its parent, so its search is the parent's own key
  as soon as the parent is itself a gap task.\<close>

lemma equivalence_of_child:
  "tk_task_type t = RT_gap_investigation \<Longrightarrow> equivalence (child_task r i (child_proposal t)) = equivalence t"
  by (simp add: equivalence_def child_task_def child_proposal_def default_search_def)

lemma child_task_type [simp]: "tk_task_type (child_task r i (child_proposal t)) = RT_gap_investigation"
  by (simp add: child_task_def child_proposal_def)

lemma proposals_sound:
  assumes "\<forall>r \<in> set current. \<exists>t. result_sound sv (item p t) r \<and> P t" "x \<in> set (proposals s current)"
  shows "fst x \<in> set current \<and> wr_child_task_proposals (fst x) \<noteq> [] \<and>
     (\<exists>t. result_sound sv (item p t) (fst x) \<and> P t \<and> snd x = (1, child_proposal t))"
proof -
  obtain r where r: "r \<in> set current" "x \<in> Pair r ` set (enumerate 1 (take (research_max_child_tasks_per_worker s) (wr_child_task_proposals r)))"
    using assms(2) by (auto simp: proposals_def)
  obtain t where t: "result_sound sv (item p t) r" "P t" using assms(1) r(1) by blast
  have "wr_child_task_proposals r = [] \<or> wr_child_task_proposals r = [child_proposal t]"
    using result_sound_fields(4) [OF t(1)] by auto
  then have "snd x = (1, child_proposal t)" "fst x = r" "wr_child_task_proposals r \<noteq> []"
    using r(2) by (cases "research_max_child_tasks_per_worker s"; auto)+
  then show ?thesis using r(1) t by blast
qed

lemma distinct_proposals:
  assumes "\<forall>r \<in> set current. length (wr_child_task_proposals r) \<le> 1" "distinct (map wr_task_id current)"
  shows "distinct (map (wr_task_id \<circ> fst) (proposals s current))"
  using assms
proof (induction current)
  case (Cons r current)
  let ?e = "enumerate 1 (take (research_max_child_tasks_per_worker s) (wr_child_task_proposals r))"
  have "length (wr_child_task_proposals r) \<le> 1" using Cons.prems(1) by simp
  then have "wr_child_task_proposals r = [] \<or> (\<exists>c. wr_child_task_proposals r = [c])"
    by (cases "wr_child_task_proposals r") simp_all
  then have "distinct (map (wr_task_id \<circ> fst) (map (Pair r) ?e))"
    by (cases "research_max_child_tasks_per_worker s") auto
  moreover have "wr_task_id r \<notin> (wr_task_id \<circ> fst) ` set (proposals s current)"
    using Cons.prems(2) by (auto simp: proposals_def)
  moreover have "(wr_task_id \<circ> fst) ` set (map (Pair r) ?e) \<subseteq> {wr_task_id r}" by (simp add: image_image image_constant_conv)
  moreover have "proposals s (r # current) = map (Pair r) ?e @ proposals s current" by (simp add: proposals_def)
  moreover have "distinct (map (wr_task_id \<circ> fst) (proposals s current))"
    by (rule Cons.IH) (use Cons.prems in simp_all)
  moreover have "A \<inter> B = {}" if "A \<subseteq> {x}" "x \<notin> B" for A B and x :: string using that by blast
  ultimately show ?case by (simp only: map_append distinct_append list.set_map simp_thms)
qed (simp add: proposals_def)

definition run_ids :: "research_run \<Rightarrow> bool" where
  "run_ids st = (distinct (map wr_task_id (ru_results st) @ map tk_task_id (ru_pending st)) \<and>
     set (ru_processed st) = wr_task_id ` set (ru_results st))"

lemma run_round_current:
  assumes "run_ids st" "run_round sv b p schedule st = Some st1"
  obtains rs where "list_all2 (\<lambda>t r. result_sound sv (item p t) r) (sort_key tk_task_id (ru_pending st)) rs"
    "ru_results st1 = ru_results st @ rs" "current_results st1 = rs" "distinct (map wr_task_id rs)"
    "ru_pending st1 = ru_pending st" "ru_processed st1 = ru_processed st" "ru_round st1 = ru_round st"
    "ledger_grows b (ru_usage st) (ru_usage st1)" "used Res_tasks (ru_usage st1) = used Res_tasks (ru_usage st)"
    "used Res_llm_calls (ru_usage st1) = used Res_llm_calls (ru_usage st)"
    "sum_list (map wr_retrieval_calls rs) + used Res_retrieval_calls (ru_usage st) \<le> used Res_retrieval_calls (ru_usage st1)"
proof -
  obtain rs where rs: "list_all2 (\<lambda>t r. result_sound sv (item p t) r) (sort_key tk_task_id (ru_pending st)) rs"
    and st1: "ru_results st1 = append_new (ru_results st) rs" "ru_pending st1 = ru_pending st"
      "ru_processed st1 = ru_processed st" "ru_round st1 = ru_round st"
    and u1: "ledger_grows b (ru_usage st) (ru_usage st1)" "used Res_tasks (ru_usage st1) = used Res_tasks (ru_usage st)"
      "used Res_llm_calls (ru_usage st1) = used Res_llm_calls (ru_usage st)"
      "sum_list (map wr_retrieval_calls rs) + used Res_retrieval_calls (ru_usage st) \<le> used Res_retrieval_calls (ru_usage st1)"
    by (rule run_round_Some [OF assms(2)])
  have ids: "map wr_task_id rs = map tk_task_id (sort_key tk_task_id (ru_pending st))"
    using rs by (induction rule: list_all2_induct) (simp_all add: result_sound_fields)
  have idset: "wr_task_id ` set rs = tk_task_id ` set (ru_pending st)"
    using arg_cong [OF ids, of set] by simp
  have dis: "distinct (map wr_task_id rs)"
    unfolding ids using assms(1) by (simp add: run_ids_def distinct_map)
  have apart: "wr_task_id ` set (ru_results st) \<inter> wr_task_id ` set rs = {}"
    using assms(1) unfolding idset by (auto simp: run_ids_def)
  then have "append_new (ru_results st) rs = ru_results st @ rs"
    using dis by (intro append_new_disjoint) (auto simp: distinct_map)
  then have res1: "ru_results st1 = ru_results st @ rs" using st1(1) by simp
  have "filter (\<lambda>r. wr_task_id r \<notin> set (ru_processed st1)) (ru_results st1) = rs"
    using assms(1) apart by (auto simp: res1 st1(3) run_ids_def filter_empty_conv filter_id_conv)
  then have "current_results st1 = sort_key wr_task_id rs" by (simp add: current_results_def)
  moreover have "sorted (map wr_task_id rs)" unfolding ids by simp
  ultimately have cur: "current_results st1 = rs" by (simp add: sorted_sort_id sort_key_id_if_sorted)
  show thesis by (rule that [OF rs res1 cur dis st1(2-4) u1])
qed

lemma round_step:
  assumes "run_ids st" "run_round sv b p schedule st = Some st1" "aggregate_round s b plan st1 = Inr st2"
  obtains rs where "list_all2 (\<lambda>t r. result_sound sv (item p t) r) (sort_key tk_task_id (ru_pending st)) rs"
    "ru_results st2 = ru_results st @ rs" "set (ru_processed st2) = wr_task_id ` set (ru_results st2)"
    "ru_round st2 = Suc (ru_round st)" "ledger_grows b (ru_usage st) (ru_usage st2)"
    "used Res_llm_calls (ru_usage st2) = used Res_llm_calls (ru_usage st)"
    "used Res_tasks (ru_usage st2) = used Res_tasks (ru_usage st) + length (ru_pending st2)"
    "sum_list (map wr_retrieval_calls rs) + used Res_retrieval_calls (ru_usage st) \<le> used Res_retrieval_calls (ru_usage st2)"
    "distinct (map tk_task_id (ru_pending st2))"
    "\<forall>c \<in> set (ru_pending st2). \<exists>t \<in> set (ru_pending st). \<exists>r \<in> set rs. result_sound sv (item p t) r \<and>
       c = child_task r 1 (child_proposal t) \<and> wr_child_task_proposals r \<noteq> [] \<and> tk_task_type t \<noteq> RT_gap_investigation \<and>
       tk_depth t < research_max_depth s"
proof -
  obtain rs where rs: "list_all2 (\<lambda>t r. result_sound sv (item p t) r) (sort_key tk_task_id (ru_pending st)) rs"
    and res1: "ru_results st1 = ru_results st @ rs" and cur: "current_results st1 = rs" and dis: "distinct (map wr_task_id rs)"
    and st1: "ru_pending st1 = ru_pending st" "ru_processed st1 = ru_processed st" "ru_round st1 = ru_round st"
    and u1: "ledger_grows b (ru_usage st) (ru_usage st1)" "used Res_tasks (ru_usage st1) = used Res_tasks (ru_usage st)"
      "used Res_llm_calls (ru_usage st1) = used Res_llm_calls (ru_usage st)"
      "sum_list (map wr_retrieval_calls rs) + used Res_retrieval_calls (ru_usage st) \<le> used Res_retrieval_calls (ru_usage st1)"
    by (rule run_round_current [OF assms(1,2)])
  let ?a = "\<lparr> am_known = map equivalence (pl_tasks plan @ ru_pending st), am_children = [], am_usage = ru_usage st1 \<rparr>"
  obtain a where a: "admit_children s b (proposals s rs) ?a = Inr a"
    and st2: "st2 = st1\<lparr> ru_pending := sort_key tk_task_id (am_children a),
      ru_processed := sorted_values (ru_processed st1 @ map wr_task_id rs), ru_round := ru_round st1 + 1, ru_usage := am_usage a \<rparr>"
    using assms(3) by (auto simp: aggregate_round_def Let_def cur st1(1))
  obtain new where new: "subseq new (proposals s rs)" "am_children a = am_children ?a @ map built new"
    "\<forall>x \<in> set new. wr_depth (fst x) < research_max_depth s \<and> research_task_ok (built x) \<and> equivalence (built x) \<notin> set (am_known ?a)"
    "ledger_grows b (am_usage ?a) (am_usage a)" "used Res_tasks (am_usage a) = used Res_tasks (am_usage ?a) + length new"
    "used Res_llm_calls (am_usage a) = used Res_llm_calls (am_usage ?a)"
    "used Res_retrieval_calls (am_usage a) = used Res_retrieval_calls (am_usage ?a)"
    by (rule admit_children_Inr [OF a])
  have pend: "ru_pending st2 = sort_key tk_task_id (map built new)" using st2 new(2) by simp
  have sound: "\<forall>r \<in> set rs. \<exists>t. result_sound sv (item p t) r \<and> t \<in> set (ru_pending st)"
    using list_all2_right [OF rs] by auto
  have from_task: "\<exists>t \<in> set (ru_pending st). fst x \<in> set rs \<and> result_sound sv (item p t) (fst x) \<and>
      snd x = (1, child_proposal t) \<and> wr_child_task_proposals (fst x) \<noteq> []" if "x \<in> set new" for x
    using proposals_sound [OF sound, of x s] that subseq_mem [OF new(1)] by blast
  have children: "\<forall>c \<in> set (ru_pending st2). \<exists>t \<in> set (ru_pending st). \<exists>r \<in> set rs. result_sound sv (item p t) r \<and>
       c = child_task r 1 (child_proposal t) \<and> wr_child_task_proposals r \<noteq> [] \<and> tk_task_type t \<noteq> RT_gap_investigation \<and>
       tk_depth t < research_max_depth s"
  proof
    fix c assume "c \<in> set (ru_pending st2)"
    then obtain x where x: "x \<in> set new" "c = built x" by (auto simp: pend)
    obtain t where t: "t \<in> set (ru_pending st)" "fst x \<in> set rs" "result_sound sv (item p t) (fst x)"
      "snd x = (1, child_proposal t)" "wr_child_task_proposals (fst x) \<noteq> []"
      using from_task [OF x(1)] by blast
    have "equivalence t \<in> set (am_known ?a)" using t(1) by simp
    then have "tk_task_type t \<noteq> RT_gap_investigation"
      using new(3) x(1) t(4) equivalence_of_child [of t "fst x" 1] by auto
    moreover have "tk_depth t < research_max_depth s"
      using new(3) x(1) result_sound_fields(2) [OF t(3)] by auto
    ultimately show "\<exists>t \<in> set (ru_pending st). \<exists>r \<in> set rs. result_sound sv (item p t) r \<and>
       c = child_task r 1 (child_proposal t) \<and> wr_child_task_proposals r \<noteq> [] \<and> tk_task_type t \<noteq> RT_gap_investigation \<and>
       tk_depth t < research_max_depth s"
      using t x(2) by (intro bexI [of _ t] bexI [of _ "fst x"]) simp_all
  qed
  have "\<forall>r \<in> set rs. length (wr_child_task_proposals r) \<le> 1"
    using sound result_sound_fields(4) by fastforce
  then have "distinct (map (wr_task_id \<circ> fst) new)"
    using subseq_map_distinct [OF new(1)] distinct_proposals dis by blast
  then have "distinct (map (\<lambda>i. i @ ''.C'' @ two_digits 1) (map (wr_task_id \<circ> fst) new))"
    by (rule distinct_map_inj) (simp add: inj_def)
  moreover have "map tk_task_id (map built new) = map (\<lambda>i. i @ ''.C'' @ two_digits 1) (map (wr_task_id \<circ> fst) new)"
  proof -
    have "tk_task_id (built x) = wr_task_id (fst x) @ ''.C'' @ two_digits 1" if "x \<in> set new" for x
      using from_task [OF that] by (auto simp: child_task_def)
    then show ?thesis by simp
  qed
  ultimately have "distinct (map tk_task_id (map built new))" by (simp only:)
  then have "distinct (map tk_task_id (ru_pending st2))" unfolding pend by (rule distinct_map_sort)
  moreover have "set (ru_processed st2) = wr_task_id ` set (ru_results st2)"
    using assms(1) by (auto simp: st2 st1 res1 run_ids_def sorted_values_def)
  ultimately show thesis
    using new u1 children rs st1 res1 st2 pend
    by (intro that [of rs]) (auto intro: ledger_grows_trans simp del: used.simps)
qed

section \<open>The invariant of a run\<close>

text \<open>A result answers a task of the plan, or the child of a plan task whose own result was empty.\<close>

definition answers_task ::
  "worker_services \<Rightarrow> authenticated_principal \<Rightarrow> research_plan \<Rightarrow> research_task \<Rightarrow> worker_result \<Rightarrow> bool" where
  "answers_task sv p plan t r =
     (result_sound sv (item p t) r \<and>
      (t \<in> set (pl_tasks plan) \<or>
       (\<exists>parent q. parent \<in> set (pl_tasks plan) \<and> result_sound sv (item p parent) q \<and>
          wr_child_task_proposals q \<noteq> [] \<and> t = child_task q 1 (child_proposal parent))))"

definition pending_origin ::
  "worker_services \<Rightarrow> authenticated_principal \<Rightarrow> research_plan \<Rightarrow> research_run \<Rightarrow> bool" where
  "pending_origin sv p plan st =
     (ru_pending st = [] \<and> ru_round st \<le> 2 \<or>
      ru_round st = 0 \<and> ru_results st = [] \<and> set (ru_pending st) \<subseteq> set (pl_tasks plan) \<or>
      ru_round st = 1 \<and> (\<forall>r \<in> set (ru_results st). CHR ''.'' \<notin> set (wr_task_id r)) \<and>
        (\<forall>t \<in> set (ru_pending st). \<exists>parent q. parent \<in> set (pl_tasks plan) \<and> result_sound sv (item p parent) q \<and>
           wr_child_task_proposals q \<noteq> [] \<and> t = child_task q 1 (child_proposal parent)))"

definition run_inv ::
  "worker_services \<Rightarrow> authenticated_principal \<Rightarrow> research_plan \<Rightarrow> research_run \<Rightarrow> bool" where
  "run_inv sv p plan st =
     (run_ids st \<and> pending_origin sv p plan st \<and> in_budget (budget_of (ws_settings sv)) (ru_usage st) \<and>
      used Res_tasks (ru_usage st) = length (ru_results st) + length (ru_pending st) \<and>
      sum_list (map wr_retrieval_calls (ru_results st)) \<le> used Res_retrieval_calls (ru_usage st) \<and>
      (\<forall>r \<in> set (ru_results st). \<exists>t. answers_task sv p plan t r))"

definition plain_ids :: "research_plan \<Rightarrow> bool" where
  "plain_ids plan = (distinct (map tk_task_id (pl_tasks plan)) \<and>
     (\<forall>t \<in> set (pl_tasks plan). CHR ''.'' \<notin> set (tk_task_id t)))"

lemma run_inv_step:
  assumes inv: "run_inv sv p plan st" and ne: "ru_pending st \<noteq> []" and plain: "plain_ids plan"
    and rr: "run_round sv (budget_of (ws_settings sv)) p schedule st = Some st1"
    and ag: "aggregate_round (ws_settings sv) (budget_of (ws_settings sv)) plan st1 = Inr st2"
  shows "run_inv sv p plan st2" "ru_round st2 = Suc (ru_round st)" "ru_round st = 1 \<Longrightarrow> ru_pending st2 = []"
    "\<forall>t \<in> set (ru_pending st). \<exists>r \<in> set (ru_results st2). result_sound sv (item p t) r"
    "set (ru_results st) \<subseteq> set (ru_results st2)"
    "used Res_llm_calls (ru_usage st2) = used Res_llm_calls (ru_usage st)"
proof -
  let ?b = "budget_of (ws_settings sv)"
  have ids: "run_ids st" using inv by (simp add: run_inv_def)
  obtain rs where rs: "list_all2 (\<lambda>t r. result_sound sv (item p t) r) (sort_key tk_task_id (ru_pending st)) rs"
    and res: "ru_results st2 = ru_results st @ rs" and pro: "set (ru_processed st2) = wr_task_id ` set (ru_results st2)"
    and rnd: "ru_round st2 = Suc (ru_round st)" and grow: "ledger_grows ?b (ru_usage st) (ru_usage st2)"
    and llm: "used Res_llm_calls (ru_usage st2) = used Res_llm_calls (ru_usage st)"
    and tasks: "used Res_tasks (ru_usage st2) = used Res_tasks (ru_usage st) + length (ru_pending st2)"
    and calls: "sum_list (map wr_retrieval_calls rs) + used Res_retrieval_calls (ru_usage st) \<le> used Res_retrieval_calls (ru_usage st2)"
    and dis: "distinct (map tk_task_id (ru_pending st2))"
    and kids: "\<forall>c \<in> set (ru_pending st2). \<exists>t \<in> set (ru_pending st). \<exists>r \<in> set rs. result_sound sv (item p t) r \<and>
       c = child_task r 1 (child_proposal t) \<and> wr_child_task_proposals r \<noteq> [] \<and> tk_task_type t \<noteq> RT_gap_investigation \<and>
       tk_depth t < research_max_depth (ws_settings sv)"
    by (rule round_step [OF ids rr ag])
  have rids: "map wr_task_id rs = map tk_task_id (sort_key tk_task_id (ru_pending st))"
    using rs by (induction rule: list_all2_induct) (simp_all add: result_sound_fields)
  have len: "length rs = length (ru_pending st)" using arg_cong [OF rids, of length] by simp
  have sound: "\<exists>t \<in> set (ru_pending st). result_sound sv (item p t) r" if "r \<in> set rs" for r
    using list_all2_right [OF rs that] by simp
  from inv ne have phase: "ru_round st = 0 \<and> ru_results st = [] \<and> set (ru_pending st) \<subseteq> set (pl_tasks plan) \<or>
      ru_round st = 1 \<and> (\<forall>t \<in> set (ru_pending st). \<exists>parent q. parent \<in> set (pl_tasks plan) \<and>
         result_sound sv (item p parent) q \<and> wr_child_task_proposals q \<noteq> [] \<and> t = child_task q 1 (child_proposal parent))"
    by (auto simp: run_inv_def pending_origin_def)
  have none: "ru_pending st2 = []" if one: "ru_round st = 1"
  proof (rule ccontr)
    assume "ru_pending st2 \<noteq> []"
    then obtain c where "c \<in> set (ru_pending st2)" by (cases "ru_pending st2") auto
    then obtain t where "t \<in> set (ru_pending st)" "tk_task_type t \<noteq> RT_gap_investigation" using kids by blast
    then show False using phase one by auto
  qed
  then show "ru_round st = 1 \<Longrightarrow> ru_pending st2 = []" .
  have plain0: "\<forall>r \<in> set (ru_results st2). CHR ''.'' \<notin> set (wr_task_id r)" if z: "ru_round st = 0"
  proof
    fix r assume "r \<in> set (ru_results st2)"
    then have "r \<in> set rs" using phase z res by auto
    then obtain t where "t \<in> set (ru_pending st)" "wr_task_id r = tk_task_id t"
      using sound result_sound_fields(1) by fastforce
    then show "CHR ''.'' \<notin> set (wr_task_id r)" using phase z plain by (auto simp: plain_ids_def)
  qed
  have origin: "pending_origin sv p plan st2"
  proof (cases "ru_round st = 0")
    case True
    then have "set (ru_pending st) \<subseteq> set (pl_tasks plan)" using phase by simp
    then show ?thesis using kids rnd True plain0 by (auto simp: pending_origin_def) blast
  qed (use none phase rnd in \<open>auto simp: pending_origin_def\<close>)
  have "set (map wr_task_id (ru_results st2)) \<inter> set (map tk_task_id (ru_pending st2)) = {}"
  proof (cases "ru_round st = 0")
    case True
    have "CHR ''.'' \<in> set (tk_task_id c)" if "c \<in> set (ru_pending st2)" for c
      using kids that by (fastforce simp: child_task_def)
    then show ?thesis using plain0 [OF True] by auto
  qed (use none phase in auto)
  moreover have "distinct (map wr_task_id (ru_results st2))"
    using ids unfolding res map_append rids by (auto simp: run_ids_def distinct_map)
  ultimately have ids2: "run_ids st2" using pro dis by (simp add: run_ids_def)
  have "\<exists>t. answers_task sv p plan t r" if "r \<in> set rs" for r
  proof -
    obtain t where t: "t \<in> set (ru_pending st)" "result_sound sv (item p t) r" using sound \<open>r \<in> set rs\<close> by blast
    then show ?thesis using phase unfolding answers_task_def by blast
  qed
  then show "run_inv sv p plan st2"
    using inv ids2 origin grow tasks calls len
    by (auto simp: run_inv_def res ledger_grows_def simp del: used.simps)
  show "\<forall>t \<in> set (ru_pending st). \<exists>r \<in> set (ru_results st2). result_sound sv (item p t) r"
  proof
    fix t assume t: "t \<in> set (ru_pending st)"
    have "list_all2 (\<lambda>r t. result_sound sv (item p t) r) rs (sort_key tk_task_id (ru_pending st))"
      using rs by (simp add: list_all2_conv_all_nth)
    then show "\<exists>r \<in> set (ru_results st2). result_sound sv (item p t) r"
      using list_all2_right [of _ rs _ t] t res by fastforce
  qed
  show "set (ru_results st) \<subseteq> set (ru_results st2)" using res by simp
  show "ru_round st2 = Suc (ru_round st)" "used Res_llm_calls (ru_usage st2) = used Res_llm_calls (ru_usage st)"
    using rnd llm by simp_all
qed

section \<open>The rounds\<close>

lemma rounds_Completed:
  "research_rounds sv plan p schedule fuel st = Completed st' \<Longrightarrow> run_inv sv p plan st \<Longrightarrow> plain_ids plan \<Longrightarrow>
   run_inv sv p plan st' \<and> ru_pending st' = [] \<and> set (ru_results st) \<subseteq> set (ru_results st') \<and>
   (\<forall>t \<in> set (ru_pending st). \<exists>r \<in> set (ru_results st'). result_sound sv (item p t) r) \<and>
   used Res_llm_calls (ru_usage st') = used Res_llm_calls (ru_usage st)"
proof (induction sv plan p schedule fuel st rule: research_rounds.induct)
  case (1 sv plan p schedule fuel st)
  show ?case
  proof (cases "ru_pending st = []")
    case True
    then show ?thesis using 1 by simp
  next
    case False
    obtain st1 st2 where rr: "run_round sv (budget_of (ws_settings sv)) p (schedule (ru_round st)) st = Some st1"
      and ag: "aggregate_round (ws_settings sv) (budget_of (ws_settings sv)) plan st1 = Inr st2"
      and rest: "research_rounds sv plan p schedule fuel st2 = Completed st'"
      using 1(2) False by (auto split: option.splits sum.splits)
    note step = run_inv_step [OF 1(3) False 1(4) rr ag]
    from 1(1) [OF False rr ag rest step(1) 1(4)] step(4,5,6) show ?thesis by (metis subsetD subset_trans)
  qed
qed (auto split: if_splits)

text \<open>Two rounds are the most a run has, so five super-steps after the first are always enough.\<close>

definition rounds_left :: "research_run \<Rightarrow> nat" where
  "rounds_left st = (if ru_pending st = [] then 0 else 2 - ru_round st)"

lemma pending_round: "run_inv sv p plan st \<Longrightarrow> ru_pending st \<noteq> [] \<Longrightarrow> ru_round st \<le> 1"
  by (auto simp: run_inv_def pending_origin_def)

lemma rounds_within_limit:
  "run_inv sv p plan st \<Longrightarrow> plain_ids plan \<Longrightarrow> 2 * rounds_left st < fuel \<Longrightarrow>
   research_rounds sv plan p schedule fuel st \<noteq> Limit_reached"
proof (induction sv plan p schedule fuel st rule: research_rounds.induct)
  case (1 sv plan p schedule fuel st)
  show ?case
  proof (cases "ru_pending st = []")
    case False
    have "research_rounds sv plan p schedule fuel st2 \<noteq> Limit_reached"
      if rr: "run_round sv (budget_of (ws_settings sv)) p (schedule (ru_round st)) st = Some st1"
        and ag: "aggregate_round (ws_settings sv) (budget_of (ws_settings sv)) plan st1 = Inr st2" for st1 st2
    proof (rule 1(1) [OF False rr ag])
      note step = run_inv_step [OF 1(2) False 1(3) rr ag]
      show "run_inv sv p plan st2" by (rule step(1))
      show "plain_ids plan" by (rule 1(3))
      have "ru_round st = 0 \<or> ru_round st = 1" using pending_round [OF 1(2) False] by auto
      then have "rounds_left st2 < rounds_left st"
        using step(2,3) False by (auto simp: rounds_left_def)
      then show "2 * rounds_left st2 < fuel" using 1(4) by simp
    qed
    then show ?thesis using False by (auto split: option.splits sum.splits)
  qed simp
next
  case (2 sv plan p schedule st)
  have "ru_pending st = []"
  proof (rule ccontr)
    assume ne: "ru_pending st \<noteq> []"
    then show False using 2(3) pending_round [OF 2(1) ne] by (auto simp: rounds_left_def)
  qed
  then show ?case by simp
qed simp

section \<open>Fair schedules\<close>

text \<open>Every worker takes one step per query and one more.\<close>

definition fair :: "retrieval_settings \<Rightarrow> (nat \<Rightarrow> nat list) \<Rightarrow> bool" where
  "fair s schedule = (\<forall>n. \<forall>k < research_max_total_tasks s. research_max_queries_per_task s < count_list (schedule n) k)"

definition task_small :: "retrieval_settings \<Rightarrow> nat \<Rightarrow> research_task \<Rightarrow> bool" where
  "task_small s n t = (research_task_ok t \<and> length (tk_research_question t) \<le> n \<and>
     (case tk_comparison_dimension t of None \<Rightarrow> True | Some d \<Rightarrow> length d \<le> n) \<and>
     length (rq_queries (tk_search t)) \<le> research_max_queries_per_task s)"

lemma child_small:
  assumes "task_small s n t" "n + 44 \<le> 2000" "wr_depth r = tk_depth t" "tk_depth t < research_max_depth s" "research_max_depth s \<le> 5"
  shows "task_small s (n + 44) (child_task r i (child_proposal t))"
  using assms
  by (auto simp: task_small_def child_task_def child_proposal_def research_task_ok_def default_search_def split: option.splits)

lemma admit_children_total:
  "\<forall>x \<in> set cs. research_max_depth s \<le> wr_depth (fst x) \<or> research_task_ok (built x) \<Longrightarrow>
   \<exists>a'. admit_children s b cs a = Inr a'"
proof (induction cs arbitrary: a)
  case (Cons x cs)
  obtain r i c where x: "x = (r, i, c)" by (cases x)
  have "\<exists>a1. admit_child s b r (i, c) a = Inr a1"
    using Cons.prems x by (auto simp: admit_child_def Let_def split: prod.splits bool.splits)
  then obtain a1 where "admit_child s b r (i, c) a = Inr a1" by blast
  then show ?case using Cons x by auto
qed simp

lemma run_round_fair:
  assumes inv: "run_inv sv p plan st" and fair: "fair (ws_settings sv) schedule"
    and small: "\<forall>t \<in> set (ru_pending st). task_small (ws_settings sv) n t"
  shows "\<exists>st1. run_round sv (budget_of (ws_settings sv)) p (schedule (ru_round st)) st = Some st1"
proof -
  let ?b = "budget_of (ws_settings sv)" and ?ws = "dispatch_workers p (ru_pending st)"
  obtain ws u where i: "interleave sv ?b (schedule (ru_round st)) ?ws (ru_usage st) = (ws, u)"
    by (cases "interleave sv ?b (schedule (ru_round st)) ?ws (ru_usage st)")
  have "in_budget ?b (ru_usage st)" "used Res_tasks (ru_usage st) = length (ru_results st) + length (ru_pending st)"
    using inv by (simp_all add: run_inv_def)
  then have len: "length (ru_pending st) \<le> research_max_total_tasks (ws_settings sv)"
    unfolding in_budget_def by (metis add_leD2 budget_of_def limit.simps(1) research_budget.select_convs(2))
  have "all_finished ws"
  proof (rule interleave_finishes [OF i], intro allI impI)
    fix k assume k: "k < length ?ws"
    then have kp: "k < length (sort_key tk_task_id (ru_pending st))" by (simp add: dispatch_workers_def)
    then have "sort_key tk_task_id (ru_pending st) ! k \<in> set (ru_pending st)" by (metis nth_mem set_sort)
    then have "length (rq_queries (tk_search (sort_key tk_task_id (ru_pending st) ! k))) \<le> research_max_queries_per_task (ws_settings sv)"
      using small by (simp add: task_small_def)
    moreover have "remaining (?ws ! k) = length (rq_queries (tk_search (sort_key tk_task_id (ru_pending st) ! k))) + 1"
      using kp by (simp add: dispatch_workers_def remaining_def start_worker_def)
    moreover have "research_max_queries_per_task (ws_settings sv) < count_list (schedule (ru_round st)) k"
      using fair len k by (simp add: fair_def dispatch_workers_def)
    ultimately show "remaining (?ws ! k) \<le> count_list (schedule (ru_round st)) k" by simp
  qed
  then show ?thesis using i by (simp add: run_round_def)
qed

lemma aggregate_round_total:
  assumes inv: "run_inv sv p plan st" and rr: "run_round sv b p schedule st = Some st1"
    and small: "\<forall>t \<in> set (ru_pending st). task_small s n t" and n: "n + 44 \<le> 2000" and d: "research_max_depth s \<le> 5"
  shows "\<exists>st2. aggregate_round s b plan st1 = Inr st2"
proof -
  have "run_ids st" using inv by (simp add: run_inv_def)
  then obtain rs where rs: "list_all2 (\<lambda>t r. result_sound sv (item p t) r) (sort_key tk_task_id (ru_pending st)) rs"
    and cur: "current_results st1 = rs"
    using run_round_current [OF _ rr] by metis
  have sound: "\<forall>r \<in> set rs. \<exists>t. result_sound sv (item p t) r \<and> t \<in> set (ru_pending st)"
    using list_all2_right [OF rs] by auto
  have "research_max_depth s \<le> wr_depth (fst x) \<or> research_task_ok (built x)" if x: "x \<in> set (proposals s rs)" for x
  proof (cases "research_max_depth s \<le> wr_depth (fst x)")
    case False
    obtain t where t: "result_sound sv (item p t) (fst x)" "t \<in> set (ru_pending st)" "snd x = (1, child_proposal t)"
      using proposals_sound [OF sound x] by blast
    have "wr_depth (fst x) = tk_depth t" using result_sound_fields(2) [OF t(1)] by simp
    then have "task_small s (n + 44) (child_task (fst x) 1 (child_proposal t))"
      using child_small [of s n t "fst x"] small t(2) n d False by simp
    then show ?thesis using t(3) by (simp add: task_small_def)
  qed simp
  then obtain a where "admit_children s b (proposals s rs)
      \<lparr> am_known = map equivalence (pl_tasks plan @ ru_pending st1), am_children = [], am_usage = ru_usage st1 \<rparr> = Inr a"
    using admit_children_total by blast
  then show ?thesis by (simp add: aggregate_round_def Let_def cur)
qed

text \<open>With a fair schedule a run of small tasks completes.\<close>

lemma rounds_complete:
  assumes "fair (ws_settings sv) schedule" "plain_ids plan" "research_max_depth (ws_settings sv) \<le> 5"
  shows "run_inv sv p plan st \<Longrightarrow> 2 * rounds_left st < fuel \<Longrightarrow>
    \<forall>t \<in> set (ru_pending st). task_small (ws_settings sv) n t \<Longrightarrow> n + 44 * rounds_left st \<le> 2000 \<Longrightarrow>
    \<exists>st'. research_rounds sv plan p schedule fuel st = Completed st'"
proof (induction fuel arbitrary: st n rule: less_induct)
  case (less fuel)
  note inv = less.prems(1)
  show ?case
  proof (cases "ru_pending st = []")
    case True
    then show ?thesis using less.prems(2) by (cases fuel; cases "fuel - 1") auto
  next
    case False
    have rnd: "ru_round st = 0 \<or> ru_round st = 1" using pending_round [OF inv False] by auto
    then have left: "0 < rounds_left st" using False by (auto simp: rounds_left_def)
    then obtain f where f: "fuel = Suc (Suc f)" using less.prems(2) by (cases fuel; cases "fuel - 1") auto
    obtain st1 where rr: "run_round sv (budget_of (ws_settings sv)) p (schedule (ru_round st)) st = Some st1"
      using run_round_fair [OF inv assms(1) less.prems(3)] by blast
    obtain st2 where ag: "aggregate_round (ws_settings sv) (budget_of (ws_settings sv)) plan st1 = Inr st2"
      using aggregate_round_total [OF inv rr less.prems(3) _ assms(3)] left less.prems(4) by fastforce
    note step = run_inv_step [OF inv False assms(2) rr ag]
    have lt: "rounds_left st2 < rounds_left st" using step(2,3) rnd False by (auto simp: rounds_left_def)
    have "run_ids st" using inv by (simp add: run_inv_def)
    have small: "\<forall>c \<in> set (ru_pending st2). task_small (ws_settings sv) (n + 44) c"
    proof
      fix c assume "c \<in> set (ru_pending st2)"
      then obtain t r where t: "t \<in> set (ru_pending st)" "result_sound sv (item p t) r"
        "c = child_task r 1 (child_proposal t)" "tk_depth t < research_max_depth (ws_settings sv)"
        using round_step [OF \<open>run_ids st\<close> rr ag] by metis
      show "task_small (ws_settings sv) (n + 44) c"
        unfolding t(3)
        by (rule child_small) (use t less.prems(3,4) left assms(3) result_sound_fields(2) [OF t(2)] in auto)
    qed
    have "\<exists>st'. research_rounds sv plan p schedule f st2 = Completed st'"
      by (rule less.IH [OF _ step(1) _ small]) (use f lt less.prems(2,4) in auto)
    then show ?thesis using rr ag False by (simp add: f)
  qed
qed

end
