(* ===== verification/Schedule_Independence.thy ===== *)
theory Schedule_Independence
  imports Research_Run
begin

text \<open>
  As long as the budget holds out, what a worker does depends on nothing but the worker: the order in
  which the workers of a round take their steps is not observable, neither in the results nor in the
  ledger.
\<close>

section \<open>A worker on its own\<close>

text \<open>A budget of one unit of everything never refuses the first request.\<close>

definition one_each :: research_budget where
  "one_each = \<lparr> rb_maximum_depth = 1, rb_maximum_total_tasks = 1, rb_maximum_retrieval_calls = 1,
     rb_maximum_analysis_calls = 1, rb_maximum_llm_calls = 1, rb_maximum_evidence_items = 1,
     rb_maximum_evidence_characters = 1 \<rparr>"

definition free_step :: "worker_services \<Rightarrow> worker \<Rightarrow> worker" where
  "free_step sv w = fst (worker_step sv one_each w no_usage)"

definition cost :: "worker_services \<Rightarrow> resource \<Rightarrow> worker \<Rightarrow> nat" where
  "cost sv r w = used r (snd (worker_step sv one_each w no_usage))"

lemma consume_one: "consume one_each r no_usage = (True, set_used r 1 no_usage)"
  by (cases r) (simp_all add: consume_eq one_each_def no_usage_def)

lemma used_no_usage [simp]: "used r no_usage = 0"
  by (cases r) (simp_all add: no_usage_def)

text \<open>A request either leaves the ledger exhausted or is granted.\<close>

lemma consume_granted:
  "consume b r u = (g, u') \<Longrightarrow> \<not> bu_exhausted u' \<Longrightarrow> g \<and> \<not> bu_exhausted u \<and> (\<forall>q. used q u' = used q u + used q (set_used r 1 no_usage))"
  by (auto simp: consume_eq ledger_simps split: if_splits)

lemma analysis_step_free:
  assumes "analysis_step sv b w u = (w', u')" "\<not> bu_exhausted u'"
  shows "w' = fst (analysis_step sv one_each w no_usage) \<and>
     used q u' = used q u + used q (snd (analysis_step sv one_each w no_usage))"
proof (cases "\<not> tk_analysis_may_be_useful (worker_task w) \<or> \<not> analysis_permitted (ws_settings sv) (wi_principal (wk_item w))")
  case True
  then show ?thesis using assms by (auto simp: analysis_step_def Let_def)
next
  case False
  obtain g v where c: "consume b Res_analysis_calls u = (g, v)" by (cases "consume b Res_analysis_calls u")
  let ?f = "\<lambda>u. case plan_analysis (tk_research_question (worker_task w)) of
             Inl _ \<Rightarrow> (finish None None 0 w, u)
           | Inr request \<Rightarrow>
               (case ws_analysis sv (wi_principal (wk_item w)) request of
                  Inr r \<Rightarrow> (finish None (Some r) 1 w, u)
                | Inl Analysis_error \<Rightarrow> (finish None None 0 w, u)
                | Inl Analysis_timed_out \<Rightarrow> (finish (Some ''worker_timeout'') None 0 w, u)
                | Inl Analysis_raised \<Rightarrow> (finish (Some ''retrieval_failure'') None 0 w, u))"
  have step: "analysis_step sv b' w u0 = (if fst (consume b' Res_analysis_calls u0) then ?f (snd (consume b' Res_analysis_calls u0))
      else (finish None None 0 w, snd (consume b' Res_analysis_calls u0)))" for b' u0
    using False by (cases "consume b' Res_analysis_calls u0"; cases "fst (consume b' Res_analysis_calls u0)")
      (simp_all add: analysis_step_def Let_def split: sum.splits analysis_failure.splits)
  have f: "fst (?f x) = fst (?f y)" "snd (?f x) = x" for x y
    by (simp_all split: sum.splits analysis_failure.splits)
  have eq: "(w', u') = (if g then ?f v else (finish None None 0 w, v))"
    using assms(1) [symmetric] unfolding step c fst_conv snd_conv .
  have "u' = v" using arg_cong [OF eq, of snd] f(2) [of v] by (cases g) simp_all
  then have g: g "\<forall>q. used q u' = used q u + used q (set_used Res_analysis_calls 1 no_usage)"
    using consume_granted [OF c] assms(2) by simp_all
  then have "(w', u') = ?f v" using eq by simp
  moreover have "analysis_step sv one_each w no_usage = ?f (set_used Res_analysis_calls 1 no_usage)"
    by (simp only: step consume_one fst_conv snd_conv if_True)
  ultimately show ?thesis using f g(2) by (metis fst_conv)
qed

lemma worker_step_free:
  assumes "worker_step sv b w u = (w', u')" "\<not> bu_exhausted u'"
  shows "w' = free_step sv w \<and> used q u' = used q u + cost sv q w"
proof (cases "wk_result w")
  case (Some r)
  then show ?thesis using assms by (simp add: worker_step_def free_step_def cost_def)
next
  case N: None
  show ?thesis
  proof (cases "wk_pending w")
    case Nil
    then show ?thesis using analysis_step_free [OF _ assms(2)] assms(1) N
      by (simp add: worker_step_def free_step_def cost_def)
  next
    case (Cons x qs)
    obtain g v where c: "consume b Res_retrieval_calls u = (g, v)" by (cases "consume b Res_retrieval_calls u")
    let ?a = "ws_retrieve sv (wi_principal (wk_item w)) x (rq_top_k (tk_search (worker_task w))) (rq_filters (tk_search (worker_task w)))"
    let ?f = "\<lambda>u. case ?a of
                 Inr r \<Rightarrow> (found x r (w\<lparr> wk_pending := qs \<rparr>), u)
               | Inl Retrieval_timed_out \<Rightarrow> (finish (Some ''worker_timeout'') None 0 w, u)
               | Inl (Retrieval_raised _) \<Rightarrow> (finish (Some ''retrieval_failure'') None 0 w, u)"
    have step: "worker_step sv b' w u0 = (if fst (consume b' Res_retrieval_calls u0) then ?f (snd (consume b' Res_retrieval_calls u0))
        else (finish (Some ''budget_exhausted'') None 0 w, snd (consume b' Res_retrieval_calls u0)))" for b' u0
      using N Cons by (cases "consume b' Res_retrieval_calls u0"; cases "fst (consume b' Res_retrieval_calls u0)")
        (simp_all add: worker_step_def Let_def split: sum.splits retrieve_failure.splits)
    have f: "fst (?f x) = fst (?f y)" "snd (?f x) = x" for x y :: budget_usage
      by (simp_all split: sum.splits retrieve_failure.splits)
    have eq: "(w', u') = (if g then ?f v else (finish (Some ''budget_exhausted'') None 0 w, v))"
      using assms(1) [symmetric] unfolding step c fst_conv snd_conv .
    have "u' = v" using arg_cong [OF eq, of snd] f(2) [of v] by (cases g) simp_all
    then have g: g "\<forall>q. used q u' = used q u + used q (set_used Res_retrieval_calls 1 no_usage)"
      using consume_granted [OF c] assms(2) by simp_all
    then have "(w', u') = ?f v" using eq by simp
    moreover have "worker_step sv one_each w no_usage = ?f (set_used Res_retrieval_calls 1 no_usage)"
      by (simp only: step consume_one fst_conv snd_conv if_True)
    ultimately show ?thesis using f g(2) unfolding free_step_def cost_def by (metis fst_conv)
  qed
qed

section \<open>Several steps\<close>

definition total_cost :: "worker_services \<Rightarrow> resource \<Rightarrow> nat \<Rightarrow> worker \<Rightarrow> nat" where
  "total_cost sv r n w = (\<Sum>i<n. cost sv r ((free_step sv ^^ i) w))"

lemma finished_step: "wk_result w \<noteq> None \<Longrightarrow> free_step sv w = w \<and> cost sv r w = 0"
  by (auto simp: free_step_def cost_def worker_step_def)

lemma finished_steps: "wk_result w \<noteq> None \<Longrightarrow> (free_step sv ^^ n) w = w \<and> total_cost sv r n w = 0"
  by (induction n) (auto simp: total_cost_def finished_step)

lemma total_cost_add: "total_cost sv r (m + n) w = total_cost sv r m w + total_cost sv r n ((free_step sv ^^ m) w)"
  by (induction n) (simp_all add: total_cost_def funpow_add add.commute [of m])

text \<open>Once a worker is finished, it does not matter how often it is scheduled.\<close>

lemma finished_agree:
  assumes "wk_result ((free_step sv ^^ m) w) \<noteq> None" "wk_result ((free_step sv ^^ n) w) \<noteq> None"
  shows "(free_step sv ^^ m) w = (free_step sv ^^ n) w \<and> total_cost sv r m w = total_cost sv r n w"
proof -
  have "(free_step sv ^^ n) w = (free_step sv ^^ m) w \<and> total_cost sv r n w = total_cost sv r m w"
    if fin: "wk_result ((free_step sv ^^ m) w) \<noteq> None" and le: "m \<le> n" for m n
  proof -
    obtain k where k: "n = m + k" using le le_Suc_ex by blast
    have "(free_step sv ^^ n) w = (free_step sv ^^ k) ((free_step sv ^^ m) w)"
      by (simp add: k add.commute [of m] funpow_add)
    then show ?thesis using finished_steps [OF fin, where n = k and r = r and sv = sv] total_cost_add [of sv r m k w] k by simp
  qed
  then show ?thesis using assms by (metis nle_le)
qed

lemma ledger_eq: "(\<forall>r. used r u = used r v) \<Longrightarrow> bu_exhausted u = bu_exhausted v \<Longrightarrow> u = v"
proof -
  assume a: "\<forall>r. used r u = used r v" "bu_exhausted u = bu_exhausted v"
  show "u = v"
    using a(1) [rule_format, of Res_tasks] a(1) [rule_format, of Res_retrieval_calls] a(1) [rule_format, of Res_analysis_calls]
      a(1) [rule_format, of Res_llm_calls] a(1) [rule_format, of Res_evidence_items]
      a(1) [rule_format, of Res_evidence_characters] a(2)
    by simp
qed

lemma interleave_free:
  "interleave sv b ks ws u = (ws', u') \<Longrightarrow> \<not> bu_exhausted u' \<Longrightarrow>
   length ws' = length ws \<and> (\<forall>k < length ws. ws' ! k = (free_step sv ^^ count_list ks k) (ws ! k)) \<and>
   (\<forall>r. used r u' = used r u + (\<Sum>k<length ws. total_cost sv r (count_list ks k) (ws ! k)))"
proof (induction ks arbitrary: ws u)
  case Nil
  then show ?case by (simp add: total_cost_def)
next
  case (Cons j ks)
  show ?case
  proof (cases "j < length ws")
    case False
    then have "count_list (j # ks) k = count_list ks k" if "k < length ws" for k using that by auto
    then show ?thesis using Cons.IH [of ws u] Cons.prems False by simp
  next
    case True
    obtain w1 u1 where s: "worker_step sv b (ws ! j) u = (w1, u1)" by (cases "worker_step sv b (ws ! j) u")
    then have i: "interleave sv b ks (ws[j := w1]) u1 = (ws', u')" using Cons.prems(1) True by simp
    have "\<not> bu_exhausted u1" using interleave_grows [OF i] Cons.prems(2) by (auto simp: ledger_grows_def)
    note w1 = worker_step_free [OF s this]
    note IH = Cons.IH [OF i Cons.prems(2)]
    have state: "ws' ! k = (free_step sv ^^ count_list (j # ks) k) (ws ! k)" if "k < length ws" for k
      using IH that w1 True by (cases "k = j") (simp_all add: funpow_swap1)
    have one: "total_cost sv r (count_list (j # ks) k) (ws ! k) =
        total_cost sv r (count_list ks k) (ws[j := w1] ! k) + (if k = j then cost sv r (ws ! j) else 0)"
      if "k < length ws" for k r
      using that w1 True total_cost_add [of sv r 1 "count_list ks k" "ws ! j"]
      by (cases "k = j") (simp_all add: total_cost_def)
    have "(\<Sum>k<length ws. total_cost sv r (count_list (j # ks) k) (ws ! k)) =
        (\<Sum>k<length ws. total_cost sv r (count_list ks k) (ws[j := w1] ! k)) + cost sv r (ws ! j)" for r
      using True by (simp add: one sum.distrib sum.delta del: count_list.simps)
    then show ?thesis using IH state w1 by (simp del: count_list.simps)
  qed
qed

lemma interleave_independent:
  assumes "interleave sv b ks ws u = (ws1, u1)" "interleave sv b ls ws u = (ws2, u2)"
    "\<not> bu_exhausted u1" "\<not> bu_exhausted u2" "all_finished ws1" "all_finished ws2"
  shows "ws1 = ws2 \<and> u1 = u2"
proof -
  note a = interleave_free [OF assms(1,3)] and c = interleave_free [OF assms(2,4)]
  have fin: "wk_result ((free_step sv ^^ count_list ks k) (ws ! k)) \<noteq> None"
    "wk_result ((free_step sv ^^ count_list ls k) (ws ! k)) \<noteq> None" if "k < length ws" for k
  proof -
    have "wk_result (ws1 ! k) \<noteq> None" "wk_result (ws2 ! k) \<noteq> None"
      using assms(5,6) a c that by (simp_all add: all_finished_def list_all_length)
    then show "wk_result ((free_step sv ^^ count_list ks k) (ws ! k)) \<noteq> None"
      "wk_result ((free_step sv ^^ count_list ls k) (ws ! k)) \<noteq> None" using a c that by simp_all
  qed
  have agree: "(free_step sv ^^ count_list ks k) (ws ! k) = (free_step sv ^^ count_list ls k) (ws ! k)"
    "total_cost sv r (count_list ks k) (ws ! k) = total_cost sv r (count_list ls k) (ws ! k)" if "k < length ws" for k r
    using finished_agree [OF fin [OF that]] by blast+
  have "ws1 = ws2"
    by (rule nth_equalityI) (use a c agree(1) in simp_all)
  moreover have "(\<Sum>k<length ws. total_cost sv r (count_list ks k) (ws ! k)) = (\<Sum>k<length ws. total_cost sv r (count_list ls k) (ws ! k))" for r
    by (rule sum.cong) (use agree(2) in simp_all)
  then have "\<forall>r. used r u1 = used r u2" using a c by metis
  ultimately show ?thesis using assms(3,4) ledger_eq by blast
qed

section \<open>The rounds of a run\<close>

lemma run_round_independent:
  assumes "run_round sv b p ks st = Some st1" "run_round sv b p ls st = Some st2"
    "\<not> bu_exhausted (ru_usage st1)" "\<not> bu_exhausted (ru_usage st2)"
  shows "st1 = st2"
proof -
  let ?ws = "dispatch_workers p (ru_pending st)"
  obtain ws1 u1 where 1: "interleave sv b ks ?ws (ru_usage st) = (ws1, u1)" by (cases "interleave sv b ks ?ws (ru_usage st)")
  obtain ws2 u2 where 2: "interleave sv b ls ?ws (ru_usage st) = (ws2, u2)" by (cases "interleave sv b ls ?ws (ru_usage st)")
  have "ws1 = ws2 \<and> u1 = u2"
    using assms 1 2 by (intro interleave_independent [OF 1 2]) (auto simp: run_round_def split: if_splits)
  then show ?thesis using assms 1 2 by (auto simp: run_round_def split: if_splits)
qed

lemma aggregate_round_grows:
  assumes "aggregate_round s b plan st1 = Inr st2"
  shows "bu_exhausted (ru_usage st1) \<Longrightarrow> bu_exhausted (ru_usage st2)"
proof -
  obtain a where a: "admit_children s b (proposals s (current_results st1))
      \<lparr> am_known = map equivalence (pl_tasks plan @ ru_pending st1), am_children = [], am_usage = ru_usage st1 \<rparr> = Inr a"
    and st2: "ru_usage st2 = am_usage a"
    using assms by (auto simp: aggregate_round_def Let_def)
  assume "bu_exhausted (ru_usage st1)"
  then show "bu_exhausted (ru_usage st2)"
    using admit_children_Inr [OF a] unfolding st2 by (auto simp: ledger_grows_def)
qed

lemma rounds_grow:
  "research_rounds sv plan p schedule fuel st = Completed st' \<Longrightarrow> bu_exhausted (ru_usage st) \<Longrightarrow> bu_exhausted (ru_usage st')"
proof (induction sv plan p schedule fuel st rule: research_rounds.induct)
  case (1 sv plan p schedule fuel st)
  show ?case
  proof (cases "ru_pending st = []")
    case False
    obtain st1 st2 where rr: "run_round sv (budget_of (ws_settings sv)) p (schedule (ru_round st)) st = Some st1"
      and ag: "aggregate_round (ws_settings sv) (budget_of (ws_settings sv)) plan st1 = Inr st2"
      and rest: "research_rounds sv plan p schedule fuel st2 = Completed st'"
      using 1(2) False by (auto split: option.splits sum.splits)
    have "bu_exhausted (ru_usage st1)"
      using run_round_Some [OF rr] 1(3) by (auto simp: ledger_grows_def)
    then show ?thesis using 1(1) [OF False rr ag rest] aggregate_round_grows [OF ag] by blast
  qed (use 1 in simp)
qed (auto split: if_splits)

lemma rounds_independent:
  "research_rounds sv plan p s1 fuel st = Completed a \<Longrightarrow> research_rounds sv plan p s2 fuel st = Completed c \<Longrightarrow>
   \<not> bu_exhausted (ru_usage a) \<Longrightarrow> \<not> bu_exhausted (ru_usage c) \<Longrightarrow> a = c"
proof (induction sv plan p s1 fuel st rule: research_rounds.induct)
  case (1 sv plan p s1 fuel st)
  show ?case
  proof (cases "ru_pending st = []")
    case True
    then show ?thesis using 1 by simp
  next
    case False
    obtain st1 st2 where rr: "run_round sv (budget_of (ws_settings sv)) p (s1 (ru_round st)) st = Some st1"
      and ag: "aggregate_round (ws_settings sv) (budget_of (ws_settings sv)) plan st1 = Inr st2"
      and rest: "research_rounds sv plan p s1 fuel st2 = Completed a"
      using 1(2) False by (auto split: option.splits sum.splits)
    obtain st1' st2' where rr': "run_round sv (budget_of (ws_settings sv)) p (s2 (ru_round st)) st = Some st1'"
      and ag': "aggregate_round (ws_settings sv) (budget_of (ws_settings sv)) plan st1' = Inr st2'"
      and rest': "research_rounds sv plan p s2 fuel st2' = Completed c"
      using 1(3) False by (auto split: option.splits sum.splits)
    have "\<not> bu_exhausted (ru_usage st1)" using rounds_grow [OF rest] aggregate_round_grows [OF ag] 1(4) by blast
    moreover have "\<not> bu_exhausted (ru_usage st1')" using rounds_grow [OF rest'] aggregate_round_grows [OF ag'] 1(5) by blast
    ultimately have "st1 = st1'" by (rule run_round_independent [OF rr rr'])
    then have "st2 = st2'" using ag ag' by simp
    then show ?thesis using 1(1) [OF False rr ag rest _ 1(4,5)] rest' by simp
  qed
qed (auto split: if_splits)

end
