(* ===== verification/Research_Service.thy ===== *)
theory Research_Service
  imports Ledger_Properties Schedule_Independence
begin

text \<open>
  A whole request of recursive research: the plans the service makes, the first state of a run, and what
  a completed run and its result keep of the invariant of the rounds.
\<close>

section \<open>Plans the service makes\<close>

lemma plan_research_Inr:
  assumes "plan_research e question p = Inr plan"
  obtains catalog proposed where "build_catalog (re_build e) p = Inr catalog"
    "create_plan (re_sha e) question catalog = Inr proposed"
    "compile_plan (re_sha e) (re_json_size e) (ws_settings (re_workers e)) proposed = Inr plan"
  using assms by (auto simp: plan_research_def)

lemma show_nat_inject [simp]: "show_nat m = show_nat n \<longleftrightarrow> m = n"
  by (metis digits_value_show of_nat_eq_iff)

lemma planned_task_id: "tk_task_id (planned_task d i x) = ''T'' @ show_nat i"
  by (simp add: planned_task_def Let_def split: prod.splits)

lemma planned_task_fields:
  "tk_depth (planned_task d i (kind, objective, query)) = 0"
  "tk_search (planned_task d i (kind, objective, query)) = default_search [query]"
  "tk_research_question (planned_task d i (kind, objective, query)) = objective"
  "tk_comparison_dimension (planned_task d i (kind, objective, query)) = None \<or>
   tk_comparison_dimension (planned_task d i (kind, objective, query)) = Some objective"
  "tk_parent_task_id (planned_task d i (kind, objective, query)) = None"
  by (simp_all add: planned_task_def Let_def)

lemma comparison_dimensions_short: "d \<in> set (comparison_dimensions q) \<Longrightarrow> length d \<le> 500"
  by (auto simp: comparison_dimensions_def Let_def split: if_splits)

lemma task_specs_short:
  assumes "(kind, objective, query) \<in> set (task_specs n (comparison_dimensions q))"
  shows "length objective \<le> 500"
proof (cases "comparison_dimensions q = []")
  case True
  then show ?thesis using assms by (auto simp: task_specs_def Let_def split: if_splits)
next
  case False
  then have "objective \<in> set (comparison_dimensions q)" using assms by (auto simp: task_specs_def Let_def)
  then show ?thesis by (rule comparison_dimensions_short)
qed

text \<open>What the run relies on in a task the planner made.\<close>

definition simple_task :: "research_task \<Rightarrow> bool" where
  "simple_task t = (research_task_ok t \<and> tk_depth t = 0 \<and> (\<exists>q. tk_search t = default_search [q]) \<and>
     length (tk_research_question t) \<le> 500 \<and>
     (tk_comparison_dimension t = None \<or> tk_comparison_dimension t = Some (tk_research_question t)) \<and>
     tk_parent_task_id t = None)"

lemma create_plan_tasks:
  assumes "create_plan sha question catalog = Inr proposed"
  shows "distinct (map tk_task_id (pl_tasks proposed))" "\<forall>t \<in> set (pl_tasks proposed). simple_task t"
proof -
  let ?n = "squeeze question" let ?d = "comparison_dimensions ?n" let ?s = "task_specs ?n ?d"
  have tasks: "pl_tasks proposed = map (\<lambda>(index, spec). planned_task ?d index spec) (enumerate 1 ?s)"
    and ok: "list_all research_task_ok (pl_tasks proposed)"
    using assms by (auto simp: create_plan_def Let_def split: if_splits)
  have "map tk_task_id (pl_tasks proposed) = map (\<lambda>i. ''T'' @ show_nat i) [1..<Suc (length ?s)]"
    by (rule nth_equalityI) (simp_all add: tasks planned_task_id nth_enumerate_eq del: upt_Suc)
  moreover have "distinct (map (\<lambda>i. ''T'' @ show_nat i) [1..<Suc (length ?s)])"
    by (rule distinct_map_inj) (simp_all add: inj_def del: upt_Suc)
  ultimately show "distinct (map tk_task_id (pl_tasks proposed))" by (simp only:)
  show "\<forall>t \<in> set (pl_tasks proposed). simple_task t"
  proof
    fix t assume t: "t \<in> set (pl_tasks proposed)"
    then obtain j where j: "j < length ?s" "t = planned_task ?d (1 + j) (?s ! j)"
      by (auto simp: tasks in_set_conv_nth nth_enumerate_eq)
    obtain kind objective query where x: "?s ! j = (kind, objective, query)" by (cases "?s ! j")
    have "(kind, objective, query) \<in> set ?s" using j(1) x by (metis nth_mem)
    then have "length objective \<le> 500" by (rule task_specs_short)
    then show "simple_task t"
      using t ok planned_task_fields [of ?d "1 + j" kind objective query]
      by (auto simp: j(2) x simple_task_def list_all_iff)
  qed
qed

lemma retained_task_ok [simp]: "research_task_ok (retained t) = research_task_ok t"
  by (simp add: retained_def research_task_ok_def)

lemma retained_parent: "retained a = retained b \<Longrightarrow> tk_parent_task_id a = tk_parent_task_id b"
  by (drule arg_cong [where f = tk_parent_task_id]) (simp add: retained_def)

lemma dot_free_plan_id: "CHR ''.'' \<notin> set (plan_id i)"
  using two_digits_digits [of i] by (auto simp: plan_id_def list_all_iff is_digit_def code_point_def)

lemma compiled_plain_ids:
  assumes "compiled_tasks_ok s (pl_tasks plan)"
  shows "plain_ids plan"
proof -
  have ids: "map tk_task_id (pl_tasks plan) = map plan_id [1..<Suc (length (pl_tasks plan))]"
    using assms by (simp add: compiled_tasks_ok_def)
  have "CHR ''.'' \<notin> set (tk_task_id t)" if "t \<in> set (pl_tasks plan)" for t
  proof -
    have "tk_task_id t \<in> set (map plan_id [1..<Suc (length (pl_tasks plan))])" using that ids by (metis image_eqI list.set_map)
    then show ?thesis using dot_free_plan_id by auto
  qed
  then show ?thesis using distinct_plan_ids [OF ids] by (simp add: plain_ids_def)
qed

lemma planned:
  assumes "plan_research e question p = Inr plan"
  shows "compiled_tasks_ok (ws_settings (re_workers e)) (pl_tasks plan)" "acyclic (dependency (pl_tasks plan))"
    "plain_ids plan"
    "\<forall>t \<in> set (pl_tasks plan). task_small (ws_settings (re_workers e)) 500 t \<and> tk_depth t = 0 \<and> (\<exists>q. tk_search t = default_search [q])"
    "\<forall>t \<in> set (pl_tasks plan). tk_parent_task_id t = None"
proof -
  obtain catalog proposed where cr: "create_plan (re_sha e) question catalog = Inr proposed"
    and comp: "compile_plan (re_sha e) (re_json_size e) (ws_settings (re_workers e)) proposed = Inr plan"
    by (rule plan_research_Inr [OF assms])
  note c = create_plan_tasks [OF cr] and f = compiled_plan_facts [OF comp create_plan_tasks(1) [OF cr]]
  show ok: "compiled_tasks_ok (ws_settings (re_workers e)) (pl_tasks plan)" "acyclic (dependency (pl_tasks plan))"
    using f(1,2) .
  then show "plain_ids plan" by (intro compiled_plain_ids)
  show "\<forall>t \<in> set (pl_tasks plan). task_small (ws_settings (re_workers e)) 500 t \<and> tk_depth t = 0 \<and> (\<exists>q. tk_search t = default_search [q])"
  proof
    fix t assume t: "t \<in> set (pl_tasks plan)"
    then obtain u where u: "u \<in> set (pl_tasks proposed)" "retained t = retained u" using f(4) by blast
    have s: "simple_task u" using c(2) u(1) by blast
    then have "research_task_ok t" using arg_cong [OF u(2), of research_task_ok] by (simp add: simple_task_def)
    moreover have "length (rq_queries (tk_search t)) \<le> research_max_queries_per_task (ws_settings (re_workers e))"
      using ok(1) t by (simp add: compiled_tasks_ok_def)
    ultimately show "task_small (ws_settings (re_workers e)) 500 t \<and> tk_depth t = 0 \<and> (\<exists>q. tk_search t = default_search [q])"
      using s retained_eqs [OF u(2)] by (auto simp: simple_task_def task_small_def split: option.splits)
  qed
  show "\<forall>t \<in> set (pl_tasks plan). tk_parent_task_id t = None"
    using f(4) c(2) by (metis retained_parent simple_task_def)
qed

section \<open>The first state\<close>

lemma consume_tasks_facts:
  "consume_tasks b ts u = (approved, u') \<Longrightarrow>
   subseq approved ts \<and> ledger_grows b u u' \<and> used Res_tasks u' = used Res_tasks u + length approved \<and>
   used Res_llm_calls u' = used Res_llm_calls u \<and> used Res_retrieval_calls u' = used Res_retrieval_calls u \<and>
   (\<not> bu_exhausted u' \<longrightarrow> approved = ts)"
proof (induction ts arbitrary: u approved u')
  case (Cons t ts)
  obtain g u1 where c: "consume b Res_tasks u = (g, u1)" by (cases "consume b Res_tasks u")
  obtain rest u2 where r: "consume_tasks b ts u1 = (rest, u2)" by (cases "consume_tasks b ts u1")
  note IH = Cons.IH [OF r]
  have res: "approved = (if g then t # rest else rest)" "u' = u2" using Cons.prems c r by simp_all
  have "\<not> bu_exhausted u2 \<longrightarrow> g"
    using c IH by (auto simp: consume_eq ledger_grows_def split: if_splits)
  then show ?case
    using IH res consume_grows [OF c] consume_counts [OF c]
    by (auto intro: ledger_grows_trans simp del: used.simps)
qed (auto simp: ledger_grows_def)

definition planning_usage :: "retrieval_settings \<Rightarrow> budget_usage" where
  "planning_usage s = snd (consume (budget_of s) Res_llm_calls no_usage)"

lemma planning_usage_facts:
  "in_budget (budget_of s) (planning_usage s)" "used Res_tasks (planning_usage s) = 0"
  "used Res_retrieval_calls (planning_usage s) = 0"
proof -
  obtain g u where c: "consume (budget_of s) Res_llm_calls no_usage = (g, u)" by (cases "consume (budget_of s) Res_llm_calls no_usage")
  then show "in_budget (budget_of s) (planning_usage s)" "used Res_tasks (planning_usage s) = 0"
    "used Res_retrieval_calls (planning_usage s) = 0"
    using consume_grows [OF c] consume_counts [OF c] by (simp_all add: planning_usage_def ledger_grows_def del: used.simps)
qed

lemma initial_run:
  assumes "plain_ids plan" "s = ws_settings sv" "st = initialize_research (budget_of s) plan (planning_usage s)"
  shows "run_inv sv p plan st" "rounds_left st \<le> 2" "set (ru_pending st) \<subseteq> set (pl_tasks plan)"
    "\<not> bu_exhausted (ru_usage st) \<Longrightarrow> ru_pending st = pl_tasks plan"
    "used Res_llm_calls (ru_usage st) = used Res_llm_calls (planning_usage s)"
proof -
  obtain approved u where c: "consume_tasks (budget_of s) (pl_tasks plan) (planning_usage s) = (approved, u)"
    by (cases "consume_tasks (budget_of s) (pl_tasks plan) (planning_usage s)")
  note f = consume_tasks_facts [OF c]
  have st: "ru_pending st = approved" "ru_results st = []" "ru_processed st = []" "ru_round st = 0" "ru_usage st = u"
    using assms(3) c by (simp_all add: initialize_research_def)
  have sub: "set approved \<subseteq> set (pl_tasks plan)" using f subseq_mem [of approved "pl_tasks plan"] by blast
  then show "set (ru_pending st) \<subseteq> set (pl_tasks plan)" by (simp add: st)
  have "distinct (map tk_task_id (pl_tasks plan))" using assms(1) by (simp add: plain_ids_def)
  then have dis: "distinct (map tk_task_id approved)" using subseq_map_distinct f by blast
  have bud: "in_budget (budget_of s) u" using f planning_usage_facts(1) by (simp add: ledger_grows_def)
  have tasks: "used Res_tasks u = length approved" using f planning_usage_facts(2) [of s] by simp
  have ids: "run_ids st" using dis by (simp add: run_ids_def st)
  have origin: "pending_origin sv p plan st" using sub by (simp add: pending_origin_def st)
  show "run_inv sv p plan st"
    unfolding run_inv_def using ids origin bud tasks by (simp add: st assms(2) del: used.simps)
  show "rounds_left st \<le> 2" by (simp add: rounds_left_def)
  show "\<not> bu_exhausted (ru_usage st) \<Longrightarrow> ru_pending st = pl_tasks plan" using f st by simp
  show "used Res_llm_calls (ru_usage st) = used Res_llm_calls (planning_usage s)" using f by (simp add: st(5) del: used.simps)
qed

lemma execute_plan_Completed:
  assumes "execute_plan sv schedule plan p (planning_usage (ws_settings sv)) = Completed st" "plain_ids plan"
  shows "run_inv sv p plan st" "ru_pending st = []"
    "\<not> bu_exhausted (ru_usage st) \<Longrightarrow> \<forall>t \<in> set (pl_tasks plan). \<exists>r \<in> set (ru_results st). result_sound sv (item p t) r"
    "used Res_llm_calls (ru_usage st) = used Res_llm_calls (planning_usage (ws_settings sv))"
proof -
  let ?st = "initialize_research (budget_of (ws_settings sv)) plan (planning_usage (ws_settings sv))"
  note i = initial_run(1,4,5) [OF assms(2) refl refl, where sv = sv]
  note run = assms(1) [unfolded execute_plan_def]
  from rounds_Completed [OF run i(1) assms(2)] show "run_inv sv p plan st" "ru_pending st = []" by blast+
  show "used Res_llm_calls (ru_usage st) = used Res_llm_calls (planning_usage (ws_settings sv))"
    using rounds_Completed [OF run i(1) assms(2)] i(3) by (simp del: used.simps)
  assume "\<not> bu_exhausted (ru_usage st)"
  then have "\<not> bu_exhausted (ru_usage ?st)" using rounds_grow [OF run] by blast
  then show "\<forall>t \<in> set (pl_tasks plan). \<exists>r \<in> set (ru_results st). result_sound sv (item p t) r"
    using rounds_Completed [OF run i(1) assms(2)] i(2) by simp
qed

lemma run_research_Completed:
  assumes "run_research e schedule r = Completed res"
  obtains plan st where "plan_research e (rr_question r) (rr_principal r) = Inr plan"
    "execute_plan (re_workers e) schedule plan (rr_principal r) (planning_usage (ws_settings (re_workers e))) = Completed st"
    "finalize_research (ws_settings (re_workers e)) plan (rr_principal r) st = Inr res"
    "used Res_llm_calls (planning_usage (ws_settings (re_workers e))) = 1"
proof -
  let ?s = "ws_settings (re_workers e)"
  obtain g u where c: "consume (budget_of ?s) Res_llm_calls no_usage = (g, u)" by (cases "consume (budget_of ?s) Res_llm_calls no_usage")
  have g: g using assms c by (cases g) (simp_all add: run_research_def Let_def)
  have u: "planning_usage ?s = u" using c by (simp add: planning_usage_def)
  have "used Res_llm_calls (planning_usage ?s) = 1" using consume_used [OF c, of Res_llm_calls] g u by (simp add: no_usage_def)
  then show thesis
    using assms c g u that by (auto simp: run_research_def Let_def split: sum.splits outcome.splits)
qed

lemma finalize_research_Inr:
  assumes "finalize_research s plan p st = Inr res"
  shows "rs_worker_results res = sort_key wr_task_id (ru_results st)" "rs_budget_usage res = ru_usage st" "rs_plan res = plan"
    "aggregate_evidence (research_max_evidence_items s) (research_max_total_evidence_characters s)
       (Some (cc_build_fingerprint (pl_catalog plan))) (Some p) (rs_worker_results res) = Inr (rs_evidence_ledger res)"
    "rs_coverage res = final_coverage s plan (rs_worker_results res) (rs_evidence_ledger res) (ru_usage st)"
  using assms by (auto simp: finalize_research_def Let_def budget_of_def)

lemma sum_list_sort_key: "sum_list (map f (sort_key g xs)) = sum_list (map (f :: 'a \<Rightarrow> nat) xs)"
proof -
  have "sum_list (map f (sort_key g xs)) = sum_mset (image_mset f (mset (sort_key g xs)))"
    by (simp flip: sum_mset_sum_list mset_map del: mset_sort)
  then show ?thesis by (simp flip: sum_mset_sum_list mset_map)
qed

section \<open>Termination\<close>

lemma execute_plan_limit:
  assumes "plain_ids plan"
  shows "execute_plan sv schedule plan p (planning_usage (ws_settings sv)) \<noteq> Limit_reached"
  unfolding execute_plan_def
proof (rule rounds_within_limit [OF initial_run(1) [OF assms refl refl] assms])
  show "2 * rounds_left (initialize_research (budget_of (ws_settings sv)) plan (planning_usage (ws_settings sv)))
      < research_recursion_limit (ws_settings sv) - 1"
    using initial_run(2) [OF assms refl refl, of sv] by (simp add: research_recursion_limit_def)
qed

lemma run_research_limit: "run_research e schedule r \<noteq> Limit_reached"
proof
  let ?sv = "re_workers e"
  assume l: "run_research e schedule r = Limit_reached"
  obtain g u where c: "consume (budget_of (ws_settings ?sv)) Res_llm_calls no_usage = (g, u)"
    by (cases "consume (budget_of (ws_settings ?sv)) Res_llm_calls no_usage")
  obtain plan where plan: "plan_research e (rr_question r) (rr_principal r) = Inr plan"
    "execute_plan ?sv schedule plan (rr_principal r) u = Limit_reached"
    using l c by (auto simp: run_research_def Let_def split: bool.splits sum.splits outcome.splits)
  have "planning_usage (ws_settings ?sv) = u" using c by (simp add: planning_usage_def)
  then show False using execute_plan_limit [OF planned(3) [OF plan(1)]] plan(2) by metis
qed

lemma execute_plan_terminates:
  assumes "fair (ws_settings (re_workers e)) schedule \<and> research_max_depth (ws_settings (re_workers e)) \<le> 5 \<and>
    plan_research e question p = Inr plan"
  shows "\<exists>st. execute_plan (re_workers e) schedule plan p (planning_usage (ws_settings (re_workers e))) = Completed st \<and>
     ru_round st \<le> 2 \<and>
     (\<not> bu_exhausted (ru_usage st) \<longrightarrow>
        (\<forall>t \<in> set (pl_tasks plan). \<exists>!r. r \<in> set (ru_results st) \<and> wr_task_id r = tk_task_id t))"
proof -
  let ?sv = "re_workers e" and ?st = "initialize_research (budget_of (ws_settings (re_workers e))) plan (planning_usage (ws_settings (re_workers e)))"
  have pl: "plan_research e question p = Inr plan" using assms by blast
  have plain: "plain_ids plan" by (rule planned(3) [OF pl])
  note i = initial_run [OF plain refl refl]
  have "\<forall>t \<in> set (ru_pending ?st). task_small (ws_settings ?sv) 500 t" using planned(4) [OF pl] i(3) by blast
  moreover have left: "rounds_left ?st \<le> 2" using i(2) by simp
  then have "2 * rounds_left ?st < research_recursion_limit (ws_settings ?sv) - 1"
    "500 + 44 * rounds_left ?st \<le> 2000" by (simp_all add: research_recursion_limit_def)
  ultimately obtain st where st: "execute_plan ?sv schedule plan p (planning_usage (ws_settings ?sv)) = Completed st"
    using rounds_complete [OF conjunct1 [OF assms] plain conjunct1 [OF conjunct2 [OF assms]] i(1)]
    unfolding execute_plan_def by blast
  note f = execute_plan_Completed [OF st plain]
  have "ru_round st \<le> 2" using f(1,2) by (auto simp: run_inv_def pending_origin_def)
  moreover have "\<exists>!r. r \<in> set (ru_results st) \<and> wr_task_id r = tk_task_id t"
    if x: "\<not> bu_exhausted (ru_usage st)" and t: "t \<in> set (pl_tasks plan)" for t
  proof -
    obtain r where "r \<in> set (ru_results st)" "result_sound ?sv (item p t) r" using f(3) [OF x] t by blast
    then have r: "r \<in> set (ru_results st)" "wr_task_id r = tk_task_id t" using result_sound_fields(1) by simp_all
    have "inj_on wr_task_id (set (ru_results st))" using f(1) by (auto simp: run_inv_def run_ids_def distinct_map)
    then show ?thesis using r by (metis inj_onD)
  qed
  ultimately show ?thesis using st by blast
qed

section \<open>Gap tasks and coverage\<close>

lemma evidence_for_prefix:
  "prefix executed qs \<Longrightarrow> set (evidence_for sv i executed) \<subseteq> set (evidence_for sv i qs)"
  by (auto simp: evidence_for_def prefix_def)

lemma typed_evidence_subset: "set es \<subseteq> set fs \<Longrightarrow> typed_evidence t fs = [] \<Longrightarrow> typed_evidence t es = []"
  unfolding typed_evidence_def filter_empty_conv by blast

lemma gap_result_empty:
  assumes "run_research e schedule r = Completed res" "w \<in> set (rs_worker_results res)" "wr_parent_task_id w \<noteq> None"
  shows "wr_evidence w = []"
proof -
  let ?sv = "re_workers e" and ?p = "rr_principal r"
  obtain plan st where run: "plan_research e (rr_question r) ?p = Inr plan"
    "execute_plan ?sv schedule plan ?p (planning_usage (ws_settings ?sv)) = Completed st"
    "finalize_research (ws_settings ?sv) plan ?p st = Inr res"
    by (rule run_research_Completed [OF assms(1)])
  have "w \<in> set (ru_results st)" using assms(2) finalize_research_Inr(1) [OF run(3)] by simp
  then obtain t where t: "answers_task ?sv ?p plan t w"
    using execute_plan_Completed(1) [OF run(2) planned(3) [OF run(1)]] by (auto simp: run_inv_def)
  have top: "tk_parent_task_id u = None" if "u \<in> set (pl_tasks plan)" for u using planned(5) [OF run(1)] that by blast
  have sound: "result_sound ?sv (item ?p t) w" using t by (simp add: answers_task_def)
  then have "tk_parent_task_id t \<noteq> None" using assms(3) result_sound_fields(3) [OF sound] by simp
  then obtain parent q where q: "parent \<in> set (pl_tasks plan)" "result_sound ?sv (item ?p parent) q"
    "wr_child_task_proposals q \<noteq> []" "t = child_task q 1 (child_proposal parent)"
    using t top by (auto simp: answers_task_def)
  obtain query where query: "tk_search parent = default_search [query]" using planned(4) [OF run(1)] q(1) by blast
  have search: "tk_search t = tk_search parent" "tk_comparison_dimension t = tk_comparison_dimension parent"
    "tk_comparison_terms t = tk_comparison_terms parent"
    using query by (simp_all add: q(4) child_task_def child_proposal_def default_search_def)
  have typed: "typed_evidence t es = typed_evidence parent es" for es
    by (simp add: typed_evidence_def evidence_supports_task_def search)
  have same: "evidence_for ?sv (item ?p t) qs = evidence_for ?sv (item ?p parent) qs" for qs
    by (simp add: evidence_for_def answer_def search)
  have "typed_evidence parent (evidence_for ?sv (item ?p parent) (rq_queries (tk_search parent))) = []"
    using q(2,3) by (auto simp: result_sound_def worker_result_of_def Let_def split: if_splits)
  moreover obtain executed modes x a n where w: "prefix executed (rq_queries (tk_search t))"
    "w = worker_result_of t (evidence_for ?sv (item ?p t) executed) executed modes x a n"
    using sound unfolding result_sound_def by (elim exE conjE) (rule that, simp_all)
  moreover have "set (evidence_for ?sv (item ?p parent) executed) \<subseteq> set (evidence_for ?sv (item ?p parent) (rq_queries (tk_search parent)))"
    using w(1) evidence_for_prefix by (simp add: search)
  moreover have "wr_evidence w = typed_evidence parent (evidence_for ?sv (item ?p parent) executed)"
    by (simp add: w(2) worker_result_of_def Let_def typed same)
  ultimately show ?thesis using typed_evidence_subset by metis
qed

lemma result_sound_completed: "result_sound sv i w \<Longrightarrow> wr_status w = RS_completed \<Longrightarrow> wr_evidence w \<noteq> []"
  by (auto simp: result_sound_def worker_result_of_def Let_def split: if_splits)

lemma missing_dimensions_none:
  assumes "missing_dimensions plan results = []"
  shows "\<forall>d \<in> set (pl_required_comparison_dimensions plan).
       \<exists>w \<in> set results. \<exists>h \<in> set (wr_evidence w). \<exists>t \<in> set (pl_tasks plan).
         wr_comparison_dimension w = Some d \<and> tk_comparison_dimension t = Some d \<and> evidence_supports_task h t"
    "pl_required_comparison_dimensions plan = [] \<Longrightarrow>
     \<forall>t \<in> set (pl_tasks plan). \<exists>w \<in> set results. wr_task_id w = tk_task_id t \<and> wr_status w = RS_completed"
proof -
  show "\<forall>d \<in> set (pl_required_comparison_dimensions plan).
       \<exists>w \<in> set results. \<exists>h \<in> set (wr_evidence w). \<exists>t \<in> set (pl_tasks plan).
         wr_comparison_dimension w = Some d \<and> tk_comparison_dimension t = Some d \<and> evidence_supports_task h t"
  proof
    fix d assume d: "d \<in> set (pl_required_comparison_dimensions plan)"
    then have "dimension_covered plan results d"
      using assms by (auto simp: missing_dimensions_def covered_dimensions_def filter_empty_conv split: if_splits)
    then obtain t where t: "comparison_task plan d = Some t"
      "list_ex (\<lambda>r. wr_comparison_dimension r = Some d \<and> list_ex (\<lambda>h. evidence_supports_task h t) (wr_evidence r)) results"
      by (auto simp: dimension_covered_def split: option.splits)
    have "t \<in> set (pl_tasks plan) \<and> tk_comparison_dimension t = Some d"
      using t(1) unfolding comparison_task_def find_Some_iff by (metis nth_mem set_rev)
    then show "\<exists>w \<in> set results. \<exists>h \<in> set (wr_evidence w). \<exists>t \<in> set (pl_tasks plan).
         wr_comparison_dimension w = Some d \<and> tk_comparison_dimension t = Some d \<and> evidence_supports_task h t"
      using t(2) unfolding list_ex_iff by blast
  qed
  assume "pl_required_comparison_dimensions plan = []"
  then show "\<forall>t \<in> set (pl_tasks plan). \<exists>w \<in> set results. wr_task_id w = tk_task_id t \<and> wr_status w = RS_completed"
    using assms by (force simp: missing_dimensions_def completed_tasks_def filter_empty_conv)
qed

end
