(* ===== verification/Research_Samples.thy ===== *)
theory Research_Samples
  imports Research_Service
begin

text \<open>
  A concrete run of recursive research: the question \<open>pay\<close> against a retriever with fixed answers, under
  two schedules.  The properties of research are witnessed on it.
\<close>

definition sample_environment :: "hybrid_evidence list \<Rightarrow> research_environment" where
  "sample_environment items = \<lparr> re_workers = \<lparr> ws_settings = default_settings,
       ws_retrieve = (\<lambda>p query k filters. Inr \<lparr> hrr_evidence = items, hrr_completion_status = CS_complete,
         hrr_warnings = [], hrr_failed_branches = [] \<rparr>),
       ws_analysis = (\<lambda>p request. Inl Analysis_error) \<rparr>,
     re_build = Some \<lparr> ib_fingerprint = ''build'', ib_chunk_count = 0, ib_chunks_sha = [], ib_chunks = [] \<rparr>,
     re_sha = (\<lambda>text. text), re_json_size = (\<lambda>plan. 0) \<rparr>"

definition sample_question :: "string \<Rightarrow> research_request" where
  "sample_question q = \<lparr> rr_question = q, rr_principal = sample_principal 1 VIEWER, rr_request_id = 2,
     rr_trace_id = 3, rr_session_id = 4 \<rparr>"

definition round_robin :: "nat \<Rightarrow> nat list" where
  "round_robin n = concat (replicate 5 [0..<12])"

definition sample_task :: "string \<Rightarrow> research_task" where
  "sample_task i = (planned_task [] 1 (RT_incident_lookup, ''Find relevant incidents'', ''pay''))\<lparr> tk_task_id := i \<rparr>"

definition sample_plan :: research_plan where
  "sample_plan = \<lparr> pl_plan_id = ''RP-pay|T01Find '', pl_original_question = ''pay'',
     pl_normalized_objective = ''pay'', pl_research_scope = ''authorized enterprise collection'',
     pl_catalog = catalog_of ''build'' [], pl_tasks = [sample_task ''T01''],
     pl_expected_synthesis_dimensions = [''Find relevant incidents''], pl_required_comparison_dimensions = [],
     pl_date_from = None, pl_date_to = None,
     pl_completion_criteria = [''Authorized evidence supports each available dimension''],
     pl_planner_version = ''fake-1.0'', pl_maximum_depth = 2, pl_maximum_tasks = 12, pl_warnings = [] \<rparr>"

lemma sample_texts:
  "task_specs ''pay'' [] = [(RT_incident_lookup, ''Find relevant incidents'', ''pay'')]"
  "comparison_dimensions ''pay'' = []" "squeeze ''pay'' = ''pay''" "unsafe ''pay'' = False" "plan_id 1 = ''T01''"
  "strip ''Find relevant incidents'' \<noteq> []" "show_nat 1 = ''1''" "squeeze (casefold ''pay'') = ''pay''"
  by code_simp+

lemma sample_objective_safe: "unsafe ''Find relevant incidents'' = False"
  by code_simp

lemma sample_catalog: "build_catalog (re_build (sample_environment items)) p = Inr (catalog_of ''build'' [])"
  by (simp add: build_catalog_def sample_environment_def load_current_chunks_def)

lemma sample_task_ok: "research_task_ok (planned_task [] 1 (RT_incident_lookup, ''Find relevant incidents'', ''pay''))"
  by code_simp

lemma sample_plan_made: "plan_research (sample_environment items) ''pay'' p = Inr sample_plan"
  unfolding plan_research_def sample_catalog
  by (simp add: create_plan_def sample_texts sample_task_ok Let_def del: One_nat_def)
    (simp add: compile_plan_def sample_environment_def default_settings_def check_task_def invalid_query_def
    planned_task_def Let_def default_search_def sample_texts sample_objective_safe dict_setdefault_def
    renumbering_def compile_task_def renamed_def reject_cycles_def edges_of_def sample_plan_def sample_task_def
    del: One_nat_def)

abbreviation sample_workers :: "hybrid_evidence list \<Rightarrow> worker_services" where
  "sample_workers items \<equiv> re_workers (sample_environment items)"

lemma sample_workers_simps [simp]:
  "ws_settings (sample_workers items) = default_settings"
  "ws_retrieve (sample_workers items) p q k filters = Inr \<lparr> hrr_evidence = items, hrr_completion_status = CS_complete,
         hrr_warnings = [], hrr_failed_branches = [] \<rparr>"
  by (simp_all add: sample_environment_def)

lemma sample_budget: "budget_of default_settings = \<lparr> rb_maximum_depth = 2, rb_maximum_total_tasks = 12,
    rb_maximum_retrieval_calls = 16, rb_maximum_analysis_calls = 2, rb_maximum_llm_calls = 6,
    rb_maximum_evidence_items = 30, rb_maximum_evidence_characters = 60000 \<rparr>"
  by (simp add: budget_of_def default_settings_def)

definition usage :: "nat \<Rightarrow> nat \<Rightarrow> budget_usage" where
  "usage tasks calls = no_usage\<lparr> bu_llm_calls := 1, bu_tasks := tasks, bu_retrieval_calls := calls \<rparr>"

lemma consume_usage:
  "tasks < 12 \<Longrightarrow> consume (budget_of default_settings) Res_tasks (usage tasks calls) = (True, usage (Suc tasks) calls)"
  "calls < 16 \<Longrightarrow> consume (budget_of default_settings) Res_retrieval_calls (usage tasks calls) = (True, usage tasks (Suc calls))"
  "planning_usage default_settings = usage 0 0"
  by (simp_all add: consume_eq sample_budget usage_def no_usage_def planning_usage_def)

lemma sample_first: "initialize_research (budget_of default_settings) sample_plan (usage 0 0) =
   \<lparr> ru_pending = [sample_task ''T01''], ru_results = [], ru_processed = [], ru_round = 0, ru_usage = usage 1 0 \<rparr>"
  by (simp add: initialize_research_def sample_plan_def consume_usage)

definition sample_result :: "hybrid_evidence list \<Rightarrow> research_task \<Rightarrow> worker_result" where
  "sample_result items t = worker_result_of t items [''pay'']
     (append_new [] (concat (map (\<lambda>h. sorted_list_of_set (he_retrieval_modes h)) items))) None None 0"

definition single :: "research_task \<Rightarrow> bool" where
  "single t = (tk_search t = default_search [''pay''] \<and> \<not> tk_analysis_may_be_useful t)"

lemma interleave_finished: "all_finished ws \<Longrightarrow> interleave sv b ks ws u = (ws, u)"
proof (induction ks)
  case (Cons k ks)
  have "k < length ws \<Longrightarrow> \<exists>r. wk_result (ws ! k) = Some r" using Cons.prems by (simp add: all_finished_def list_all_length)
  then have "k < length ws \<Longrightarrow> worker_step sv b (ws ! k) u = (ws ! k, u)" by (auto simp: worker_step_def)
  then show ?case using Cons by simp
qed simp

lemma interleave_single: "interleave sv b ks [w] u = interleave sv b (filter (\<lambda>k. k = 0) ks) [w] u"
  by (induction ks arbitrary: w u) (auto split: prod.splits)

lemma count_upt: "count_list [0..<n] k = (if k < n then 1 else 0)"
  by (induction n) auto

lemma count_rounds: "count_list (concat (replicate n xs)) k = n * count_list xs k"
  by (induction n) simp_all

lemma round_robin_fair: "fair default_settings round_robin"
  by (simp add: fair_def default_settings_def round_robin_def count_rounds count_upt)

definition reverse_robin :: "nat \<Rightarrow> nat list" where
  "reverse_robin n = concat (replicate 5 (rev [0..<12]))"

lemma first_worker_turns:
  "filter (\<lambda>k. k = 0) (round_robin n) = [0, 0, 0, 0, 0]" "filter (\<lambda>k. k = 0) (reverse_robin n) = [0, 0, 0, 0, 0]"
proof -
  have f: "filter (\<lambda>k. k = 0) [0..<12] = [0]" "filter (\<lambda>k. k = 0) (rev [0..<12]) = [0]" by (simp_all add: upt_rec)
  have "replicate 5 xs = [xs, xs, xs, xs, xs]" for xs :: "nat list" by (simp add: numeral_eq_Suc)
  then show "filter (\<lambda>k. k = 0) (round_robin n) = [0, 0, 0, 0, 0]" "filter (\<lambda>k. k = 0) (reverse_robin n) = [0, 0, 0, 0, 0]"
    using f by (simp_all add: round_robin_def reverse_robin_def filter_concat)
qed

lemma sample_round:
  assumes "single t" "calls < 16" "ru_pending st = [t]" "ru_usage st = usage tasks calls"
    "filter (\<lambda>k. k = 0) ks = [0, 0, 0, 0, 0]"
  shows "run_round (sample_workers items) (budget_of default_settings) p ks st
    = Some (st\<lparr> ru_results := append_new (ru_results st) [sample_result items t], ru_usage := usage tasks (Suc calls) \<rparr>)"
  using assms
  by (simp add: run_round_def interleave_single [of _ _ ks] dispatch_workers_def start_worker_def worker_step_def single_def consume_usage default_search_def
    analysis_step_def found_def finish_def sample_result_def interleave_finished all_finished_def)

abbreviation "T1 \<equiv> sample_task ''T01''"
definition R1 where "R1 = sample_result [] T1"
definition T2 where "T2 = child_task R1 1 (child_proposal T1)"
definition R2 where "R2 = sample_result [] T2"

lemma sample_single: "single T1" "single T2"
  by (simp_all add: single_def sample_task_def planned_task_def Let_def T2_def child_task_def child_proposal_def default_search_def)

lemma sample_result_fields: "wr_task_id (sample_result items t) = tk_task_id t" "wr_depth (sample_result items t) = tk_depth t"
  by (simp_all add: sample_result_def worker_result_of_def Let_def)

lemma proposals_none: "wr_child_task_proposals (sample_result [] t) = (if tk_depth t < 2 then [child_proposal t] else [])"
  by (simp add: sample_result_def worker_result_of_def Let_def typed_evidence_def)

lemma T_fields: "tk_task_id T1 = ''T01''" "tk_depth T1 = 0" "tk_task_id T2 = ''T01.C01''" "tk_depth T2 = 1" "tk_task_type T2 = RT_gap_investigation"
  by (simp_all add: sample_task_def planned_task_def Let_def T2_def child_task_def R1_def sample_result_fields two_digits_def sample_texts child_proposal_def del: One_nat_def)

lemma sample_child: "research_task_ok T2" "equivalence T2 \<noteq> equivalence T1" 
  by code_simp+

lemma sample_grandchild: "research_task_ok (child_task R2 1 (child_proposal T2))" 
  by code_simp


lemma R_fields: "wr_task_id R1 = ''T01''" "wr_depth R1 = 0" "wr_child_task_proposals R1 = [child_proposal T1]"
  "child_task R1 (Suc 0) (child_proposal T1) = T2"
  "wr_task_id R2 = ''T01.C01''" "wr_depth R2 = 1" "wr_child_task_proposals R2 = [child_proposal T2]"
  by (simp_all add: R1_def R2_def sample_result_fields T_fields proposals_none) (simp add: T2_def R1_def)

lemma sample_limits: "research_max_child_tasks_per_worker default_settings = 2" "research_max_depth default_settings = 2"
  by (simp_all add: default_settings_def)

lemma sample_aggregate_1:
  assumes "ru_pending st = [T1]" "ru_results st = [R1]" "ru_processed st = []" "ru_round st = 0" "ru_usage st = usage 1 1"
  shows "aggregate_round default_settings (budget_of default_settings) sample_plan st =
    Inr \<lparr> ru_pending = [T2], ru_results = [R1], ru_processed = [''T01''], ru_round = 1, ru_usage = usage 2 1 \<rparr>"
  using assms sample_child
  by (cases st) (simp add: aggregate_round_def current_results_def Let_def proposals_def R_fields sample_limits
    admit_child_def sample_plan_def sorted_values_def unique_first_def consume_usage numeral_2_eq_2)

lemma sample_aggregate_2:
  assumes "ru_pending st = [T2]" "ru_results st = [R1, R2]" "ru_processed st = [''T01'']" "ru_round st = 1" "ru_usage st = usage 2 2"
  shows "aggregate_round default_settings (budget_of default_settings) sample_plan st =
    Inr \<lparr> ru_pending = [], ru_results = [R1, R2], ru_processed = [''T01'', ''T01.C01''], ru_round = 2, ru_usage = usage 2 2 \<rparr>"
proof -
  have "equivalence (child_task R2 (Suc 0) (child_proposal T2)) = equivalence T2"
    by (rule equivalence_of_child) (rule T_fields)
  moreover have "sorted_values [''T01'', ''T01.C01''] = [''T01'', ''T01.C01'']" by code_simp
  ultimately show ?thesis using assms sample_grandchild
    by (cases st) (simp add: aggregate_round_def current_results_def Let_def proposals_def R_fields sample_limits
    admit_child_def sample_plan_def numeral_2_eq_2)
qed
lemma sample_execution:
  assumes turns: "\<And>n. filter (\<lambda>k. k = 0) (schedule n) = [0, 0, 0, 0, 0]"
  shows "execute_plan (sample_workers []) schedule sample_plan p (usage 0 0) = Completed
    \<lparr> ru_pending = [], ru_results = [R1, R2], ru_processed = [''T01'', ''T01.C01''], ru_round = 2, ru_usage = usage 2 2 \<rparr>"
proof -
  obtain f where "research_recursion_limit default_settings - 1 = Suc (Suc (Suc (Suc (Suc (Suc f)))))"
    using that [of 41] by (simp add: research_recursion_limit_def default_settings_def)
  moreover have "R1 \<noteq> R2" using R_fields(1,5) by auto
  moreover have "run_round (sample_workers []) (budget_of default_settings) p (schedule 0)
      \<lparr> ru_pending = [T1], ru_results = [], ru_processed = [], ru_round = 0, ru_usage = usage 1 0 \<rparr> = Some
      \<lparr> ru_pending = [T1], ru_results = [R1], ru_processed = [], ru_round = 0, ru_usage = usage 1 1 \<rparr>"
    using sample_round [OF sample_single(1) _ _ _ turns, where calls = 0 and tasks = 1] by (simp add: R1_def)
  moreover have "run_round (sample_workers []) (budget_of default_settings) p (schedule 1)
      \<lparr> ru_pending = [T2], ru_results = [R1], ru_processed = [''T01''], ru_round = 1, ru_usage = usage 2 1 \<rparr> = Some
      \<lparr> ru_pending = [T2], ru_results = [R1, R2], ru_processed = [''T01''], ru_round = 1, ru_usage = usage 2 2 \<rparr>"
    using sample_round [OF sample_single(2) _ _ _ turns, where calls = 1 and tasks = 2] \<open>R1 \<noteq> R2\<close>
    by (simp add: R2_def numeral_2_eq_2)
  moreover note
    sample_aggregate_1 [of "\<lparr> ru_pending = [T1], ru_results = [R1], ru_processed = [], ru_round = 0, ru_usage = usage 1 1 \<rparr>"]
    sample_aggregate_2 [of "\<lparr> ru_pending = [T2], ru_results = [R1, R2], ru_processed = [''T01''], ru_round = 1, ru_usage = usage 2 2 \<rparr>"]
  ultimately show ?thesis
    by (simp add: execute_plan_def sample_first)
qed

text \<open>The result of the run, under both schedules.\<close>

definition sample_answer :: research_result where
  "sample_answer = (let c = final_coverage default_settings sample_plan [R1, R2]
         \<lparr> el_entries = [], el_total_characters = 0, el_dropped_items = 0 \<rparr> (usage 2 2) in
     \<lparr> rs_plan = sample_plan, rs_worker_results = [R1, R2],
       rs_evidence_ledger = \<lparr> el_entries = [], el_total_characters = 0, el_dropped_items = 0 \<rparr>, rs_coverage = c,
       rs_gaps = map (\<lambda>d. \<lparr> rg_dimension = d,
           rg_reason = ''Required research dimension was not fully supported.'', rg_task_id = None \<rparr>)
         (ca_missing_dimensions c),
       rs_conflicts = [], rs_budget_usage = usage 2 2, rs_provenance_fingerprint = ''build'',
       rs_warnings = [], rs_analysis_results = [] \<rparr>)"

lemma R_empty: "wr_evidence R1 = []" "wr_evidence R2 = []" "wr_error_category R1 = None" "wr_error_category R2 = None"
  "wr_analysis_result R1 = None" "wr_analysis_result R2 = None" "wr_parent_task_id R2 = Some ''T01''" "wr_retrieval_calls R2 = 1"
  by (simp_all add: R1_def R2_def sample_result_def worker_result_of_def Let_def typed_evidence_def T2_def child_task_def
      sample_result_fields T_fields)

lemma sample_run:
  assumes "\<And>n. filter (\<lambda>k. k = 0) (schedule n) = [0, 0, 0, 0, 0]"
  shows "run_research (sample_environment []) schedule (sample_question ''pay'') = Completed sample_answer"
proof -
  have c: "consume (budget_of default_settings) Res_llm_calls no_usage = (True, usage 0 0)"
    by (simp add: consume_eq sample_budget usage_def no_usage_def)
  have "''T01'' \<le> ''T01.C01''" by code_simp
  then have "sort_key wr_task_id [R1, R2] = [R1, R2]" by (simp add: R_fields)
  moreover have "aggregate_evidence items characters f p [R1, R2] =
      Inr \<lparr> el_entries = [], el_total_characters = 0, el_dropped_items = 0 \<rparr>" for items characters f p
    using \<open>sort_key wr_task_id [R1, R2] = [R1, R2]\<close> by (simp add: aggregate_evidence_def evidence_stream_def R_empty)
  moreover have "cc_build_fingerprint (pl_catalog sample_plan) = ''build''"
    by (simp add: sample_plan_def catalog_of_def Let_def)
  ultimately have "finalize_research default_settings sample_plan q
      \<lparr> ru_pending = [], ru_results = [R1, R2], ru_processed = [''T01'', ''T01.C01''], ru_round = 2, ru_usage = usage 2 2 \<rparr>
      = Inr sample_answer" for q
    by (simp add: finalize_research_def Let_def sample_answer_def detect_conflicts_def group_by_def
        sort_analyses_def List.map_filter_def R_empty worker_failed_def)
  then show ?thesis
    by (simp add: run_research_def Let_def c sample_question_def sample_plan_made sample_execution [OF assms])
qed

end
