(* ===== verification/Research_Claims.thy ===== *)
theory Research_Claims
  imports Research_Samples Ledger_Properties
begin

text \<open>
  The properties of recursive research, from the compiled plan to the result, each a few steps over the
  invariant of the run, and their instances on the concrete run.
\<close>

section \<open>Plans\<close>

definition plan_with :: "research_task list \<Rightarrow> research_plan" where
  "plan_with ts = sample_plan\<lparr> pl_tasks := ts \<rparr>"

definition linked_task :: "string \<Rightarrow> string list \<Rightarrow> string \<Rightarrow> research_task" where
  "linked_task i dependencies query = (sample_task i)\<lparr> tk_research_question := query,
     tk_search := default_search [query], tk_dependency_task_ids := dependencies \<rparr>"

text \<open>C23: a plan the compiler accepts has at most the configured number of tasks, identifiers \<open>T01\<close>,
  \<open>T02\<close>, ... in task order, pairwise different searches, only known dependencies, no dependency cycle,
  and only safe questions and queries within the limits; its searches are those of the proposed plan, and
  of a task only identifier and dependencies are rewritten.  The identifiers of the proposal are assumed
  distinct.\<close>

theorem compiled_plan_sound:
  assumes "compile_plan sha json_size s plan = Inr c" "distinct (map tk_task_id (pl_tasks plan))"
  shows "compiled_tasks_ok s (pl_tasks c) \<and> acyclic (dependency (pl_tasks c)) \<and>
    search_key ` set (pl_tasks c) = search_key ` set (pl_tasks plan) \<and>
    (\<forall>u \<in> set (pl_tasks c). \<exists>t \<in> set (pl_tasks plan). retained u = retained t)"
  using compiled_plan_facts [OF assms] by blast

lemma short_texts_safe: "unsafe ''a'' = False" "unsafe ''b'' = False" "squeeze (casefold ''a'') = ''a''"
  "squeeze (casefold ''b'') = ''b''" "plan_id 2 = ''T02''" "strip ''a'' \<noteq> []" "strip ''b'' \<noteq> []"
  by code_simp+

lemma linked_task_simps [simp]:
  "tk_task_id (linked_task i ds q) = i" "tk_dependency_task_ids (linked_task i ds q) = ds" "tk_depth (linked_task i ds q) = 0"
  "tk_research_question (linked_task i ds q) = q" "tk_search (linked_task i ds q) = default_search [q]"
  "tk_priority (linked_task i ds q) = 99" "tk_task_type (linked_task i ds q) = RT_incident_lookup"
  by (simp_all add: linked_task_def sample_task_def planned_task_def Let_def)

lemma compiled_plan_sound_witness:
  "acyclic (dependency [linked_task ''T01'' [] ''a'', linked_task ''T02'' [''T01''] ''b''])"
proof -
  let ?p = "plan_with [linked_task ''Q'' [''P''] ''b'', linked_task ''P'' [] ''a'', linked_task ''R'' [] ''a'']"
  have "\<exists>c. compile_plan (\<lambda>x. x) (\<lambda>p. 0) default_settings ?p = Inr c \<and>
      pl_tasks c = [linked_task ''T01'' [] ''a'', linked_task ''T02'' [''T01''] ''b'']"
    by (simp add: compile_plan_def plan_with_def default_settings_def check_task_def invalid_query_def Let_def default_search_def
      short_texts_safe sample_texts dict_setdefault_def search_key_def task_order_def renumbering_def compile_task_def renamed_def
      reject_cycles_def edges_of_def del: One_nat_def)
      (simp add: linked_task_def sample_task_def)
  then show ?thesis using compiled_plan_sound [of "\<lambda>x. x" "\<lambda>p. 0" default_settings ?p] by (auto simp: plan_with_def)
qed

text \<open>C24: among the plans whose tasks pass the checks, are pairwise different in identifier and search and
  depend on other tasks of the plan only, the compiler accepts exactly those without a dependency cycle,
  and rejects the others as cyclic.\<close>

theorem plan_cycles_rejected_exactly:
  assumes "distinct (map tk_task_id (pl_tasks plan))" "distinct (map search_key (pl_tasks plan))"
    "\<forall>t \<in> set (pl_tasks plan). check_task s t = Return () \<and> tk_task_id t \<notin> set (tk_dependency_task_ids t) \<and>
       set (tk_dependency_task_ids t) \<subseteq> tk_task_id ` set (pl_tasks plan)"
    "json_size plan \<le> research_max_plan_characters s" "length (pl_tasks plan) \<le> research_max_initial_tasks s"
  shows "case compile_plan sha json_size s plan of
     Inr _ \<Rightarrow> acyclic (dependency (pl_tasks plan))
   | Inl e \<Rightarrow> \<not> acyclic (dependency (pl_tasks plan)) \<and> e = PlanValidationError ''dependency cycle'' True"
  by (rule compile_plan_cycles [where json_size = json_size, OF assms])

lemma plan_cycles_rejected_exactly_witness:
  "\<not> acyclic (dependency [linked_task ''P'' [''Q''] ''a'', linked_task ''Q'' [''P''] ''b''])"
proof -
  let ?ts = "[linked_task ''P'' [''Q''] ''a'', linked_task ''Q'' [''P''] ''b'']"
  have "compile_plan (\<lambda>x. x) (\<lambda>p. 0) default_settings (plan_with ?ts) = Inl (PlanValidationError ''dependency cycle'' True)"
    by (simp add: compile_plan_def plan_with_def default_settings_def check_task_def invalid_query_def Let_def default_search_def
      short_texts_safe sample_texts dict_setdefault_def search_key_def task_order_def renumbering_def compile_task_def renamed_def
      reject_cycles_def edges_of_def del: One_nat_def)
  then show ?thesis
    using plan_cycles_rejected_exactly [of "plan_with ?ts" default_settings "\<lambda>p. 0" "\<lambda>x. x"]
    by (simp add: plan_with_def default_settings_def check_task_def invalid_query_def Let_def default_search_def
      short_texts_safe sample_texts search_key_def del: One_nat_def)
qed

section \<open>Evidence\<close>

text \<open>C25: the evidence ledger holds at most the configured items and characters, in the order of rank,
  score and chunk; chunks and citations occur once; every entry is evidence of a worker, of the expected
  build, readable by the caller and without injected instructions, and names the tasks that found its
  chunk; kept and dropped items together never exceed what the workers found.\<close>

theorem ledger_bounded_and_authorized:
  assumes "aggregate_evidence items characters (Some f) (Some p) results = Inr l" "f \<noteq> []"
  shows "length (el_entries l) \<le> items \<and> el_total_characters l = sum_list (map entry_size (el_entries l)) \<and>
    el_total_characters l \<le> characters \<and> sorted (map entry_order (el_entries l)) \<and>
    distinct (map (de_chunk_id \<circ> he_evidence \<circ> en_evidence) (el_entries l)) \<and>
    distinct (map (de_evidence_id \<circ> he_evidence \<circ> en_evidence) (el_entries l)) \<and>
    length (el_entries l) + el_dropped_items l \<le> sum_list (map (length \<circ> wr_evidence) results) \<and>
    (\<forall>n \<in> set (el_entries l). ledger_entry_ok f p results n)"
  by (rule aggregate_evidence_facts [OF assms])

definition finding :: "string \<Rightarrow> hybrid_evidence list \<Rightarrow> worker_result" where
  "finding i items = worker_result_of (sample_task i) items [''pay''] [] None None 0"

lemma finding_simps [simp]: "wr_task_id (finding i items) = i" "wr_evidence (finding i items) = items"
  by (simp_all add: finding_def worker_result_of_def Let_def sample_task_def planned_task_def typed_evidence_def)

definition passage :: "nat \<Rightarrow> access_level \<Rightarrow> hybrid_evidence" where
  "passage rank level = hybrid_item rank ((dense_item rank level {VIEWER} ''ok'')\<lparr> de_chunk_content_hash := replicate 64 CHR ''a'' \<rparr>)"

lemma passage_admitted:
  "admit_evidence (Some ''build'') (Some (sample_principal 1 VIEWER)) (he_evidence (passage 1 INTERNAL)) = Inr True"
  "admit_evidence (Some ''build'') (Some (sample_principal 1 VIEWER)) (he_evidence (passage 2 RESTRICTED)) = Inr False"
proof -
  have clean: "\<not> contains_untrusted_instruction ''ok''" by code_simp
  have "document_metadata_ok (dense_document_metadata (he_evidence (passage rank level)) 0)" for rank level
  proof -
    have "content_hash_ok (replicate 64 CHR ''a'')" "text_ok 2048 ''Leave policy''" "text_ok 2048 ''corpus''"
      "text_ok 2048 ''HR''" "text_ok 2048 ''2''" by code_simp+
    then show ?thesis by (simp add: document_metadata_ok_def dense_document_metadata_def passage_def dense_item_def hybrid_item_def)
  qed
  then show "admit_evidence (Some ''build'') (Some (sample_principal 1 VIEWER)) (he_evidence (passage 1 INTERNAL)) = Inr True"
    "admit_evidence (Some ''build'') (Some (sample_principal 1 VIEWER)) (he_evidence (passage 2 RESTRICTED)) = Inr False"
    by (simp_all add: admit_evidence_def clean Let_def is_document_authorized_def dense_document_metadata_def
        allowed_access_levels_def passage_def hybrid_item_def dense_item_def)
qed

lemma ledger_bounded_and_authorized_witness:
  "ledger_entry_ok ''build'' (sample_principal 1 VIEWER)
     [finding ''T01'' [passage 1 INTERNAL], finding ''T02'' [passage 2 RESTRICTED, passage 1 INTERNAL]]
     \<lparr> en_evidence = passage 1 INTERNAL, en_task_ids = [''T01'', ''T02''] \<rparr>"
proof -
  let ?open = "passage 1 INTERNAL"
  let ?rs = "[finding ''T01'' [?open], finding ''T02'' [passage 2 RESTRICTED, ?open]]" and ?p = "sample_principal 1 VIEWER"
  have order: "''T01'' \<le> ''T02''" "sorted_values [''T01'', ''T02''] = [''T01'', ''T02'']" by code_simp+
  have size: "entry_size \<lparr> en_evidence = ?open, en_task_ids = [''T01'', ''T02''] \<rparr> = 2"
    by (simp add: entry_size_def passage_def dense_item_def hybrid_item_def)
  have same: "same_identity e e" "better h h = h" for e h by (simp_all add: same_identity_def better_def)
  have "aggregate_evidence 10 100 (Some ''build'') (Some ?p) ?rs = Inr
      \<lparr> el_entries = [\<lparr> en_evidence = ?open, en_task_ids = [''T01'', ''T02''] \<rparr>], el_total_characters = 2, el_dropped_items = 1 \<rparr>"
    by (simp add: aggregate_evidence_def evidence_stream_def order passage_admitted [simplified] add_evidence_def Let_def same size [simplified])
  from ledger_bounded_and_authorized [OF this] show ?thesis by simp
qed


section \<open>Runs\<close>

text \<open>C26: whatever the workers' schedule, a completed run is within every limit of its budget, counts one
  model call and one task for each of its results, makes no retrieval call that is not charged, and keeps
  a ledger within the limits on items and characters.\<close>

theorem research_within_budget:
  assumes "run_research e schedule r = Completed res"
  shows "in_budget (budget_of (ws_settings (re_workers e))) (rs_budget_usage res) \<and>
    used Res_llm_calls (rs_budget_usage res) = 1 \<and>
    used Res_tasks (rs_budget_usage res) = length (rs_worker_results res) \<and>
    sum_list (map wr_retrieval_calls (rs_worker_results res)) \<le> used Res_retrieval_calls (rs_budget_usage res) \<and>
    length (rs_worker_results res) \<le> research_max_total_tasks (ws_settings (re_workers e)) \<and>
    length (el_entries (rs_evidence_ledger res)) \<le> research_max_evidence_items (ws_settings (re_workers e)) \<and>
    el_total_characters (rs_evidence_ledger res) \<le> research_max_total_evidence_characters (ws_settings (re_workers e))"
proof -
  obtain plan st where run: "plan_research e (rr_question r) (rr_principal r) = Inr plan"
    "execute_plan (re_workers e) schedule plan (rr_principal r) (planning_usage (ws_settings (re_workers e))) = Completed st"
    "finalize_research (ws_settings (re_workers e)) plan (rr_principal r) st = Inr res"
    "used Res_llm_calls (planning_usage (ws_settings (re_workers e))) = 1"
    by (rule run_research_Completed [OF assms])
  note f = finalize_research_Inr [OF run(3)]
  have "plain_ids plan" by (rule planned(3) [OF run(1)])
  note st = execute_plan_Completed [OF run(2) this]
  have inv: "in_budget (budget_of (ws_settings (re_workers e))) (ru_usage st)"
    "used Res_tasks (ru_usage st) = length (ru_results st)"
    "sum_list (map wr_retrieval_calls (ru_results st)) \<le> used Res_retrieval_calls (ru_usage st)"
    using st(1,2) by (simp_all add: run_inv_def del: used.simps)
  have "used Res_tasks (ru_usage st) \<le> limit (budget_of (ws_settings (re_workers e))) Res_tasks"
    using inv(1) unfolding in_budget_def by blast
  then have "length (ru_results st) \<le> research_max_total_tasks (ws_settings (re_workers e))"
    using inv(2) by (simp add: budget_of_def)
  then show ?thesis
    using inv f(1,2) aggregate_evidence_limits [OF f(4)] st(4) run(4)
    by (simp add: sum_list_sort_key del: used.simps)
qed

lemma research_within_budget_witness:
  "in_budget (budget_of default_settings) (rs_budget_usage sample_answer)"
  using research_within_budget [OF sample_run [OF first_worker_turns(1)]] by simp

text \<open>C27: research never reaches the recursion limit of its graph, whatever the question, the answers of
  the retriever and the schedule.  When every worker gets its turns, an accepted plan runs to the end in at
  most two rounds, and unless the budget ran out every task of the plan has exactly one result.\<close>

theorem research_terminates:
  "run_research e schedule r \<noteq> Limit_reached \<and>
   (fair (ws_settings (re_workers e)) schedule \<and> research_max_depth (ws_settings (re_workers e)) \<le> 5 \<and>
    plan_research e (rr_question r) (rr_principal r) = Inr plan \<longrightarrow>
    (\<exists>st. execute_plan (re_workers e) schedule plan (rr_principal r) (planning_usage (ws_settings (re_workers e))) = Completed st \<and>
       ru_round st \<le> 2 \<and>
       (\<not> bu_exhausted (ru_usage st) \<longrightarrow>
          (\<forall>t \<in> set (pl_tasks plan). \<exists>!r. r \<in> set (ru_results st) \<and> wr_task_id r = tk_task_id t))))"
  by (intro conjI impI execute_plan_terminates run_research_limit) auto

lemma research_terminates_witness:
  "\<exists>st. execute_plan (sample_workers []) round_robin sample_plan (sample_principal 1 VIEWER) (usage 0 0) = Completed st \<and>
     ru_round st \<le> 2"
  using research_terminates [of "sample_environment []" round_robin "sample_question ''pay''" sample_plan]
  by (auto simp: round_robin_fair sample_limits sample_question_def sample_plan_made consume_usage(3))

text \<open>C28: the order in which the workers of a round take their turns does not influence the result of
  research as long as the budget suffices.\<close>

theorem research_schedule_independent:
  assumes "run_research e schedule1 r = Completed a" "run_research e schedule2 r = Completed b"
    "\<not> bu_exhausted (rs_budget_usage a)" "\<not> bu_exhausted (rs_budget_usage b)"
  shows "a = b"
proof -
  obtain plan1 st1 where 1: "plan_research e (rr_question r) (rr_principal r) = Inr plan1"
    "execute_plan (re_workers e) schedule1 plan1 (rr_principal r) (planning_usage (ws_settings (re_workers e))) = Completed st1"
    "finalize_research (ws_settings (re_workers e)) plan1 (rr_principal r) st1 = Inr a"
    by (rule run_research_Completed [OF assms(1)])
  obtain plan2 st2 where 2: "plan_research e (rr_question r) (rr_principal r) = Inr plan2"
    "execute_plan (re_workers e) schedule2 plan2 (rr_principal r) (planning_usage (ws_settings (re_workers e))) = Completed st2"
    "finalize_research (ws_settings (re_workers e)) plan2 (rr_principal r) st2 = Inr b"
    by (rule run_research_Completed [OF assms(2)])
  have plan: "plan1 = plan2" using 1(1) 2(1) by simp
  have "\<not> bu_exhausted (ru_usage st1)" "\<not> bu_exhausted (ru_usage st2)"
    using assms(3,4) finalize_research_Inr(2) [OF 1(3)] finalize_research_Inr(2) [OF 2(3)] by simp_all
  then have "st1 = st2"
    using rounds_independent [OF 1(2) [unfolded execute_plan_def] 2(2) [unfolded execute_plan_def plan [symmetric]]] by blast
  then show ?thesis using 1(3) 2(3) plan by simp
qed

lemma research_schedule_independent_witness:
  "run_research (sample_environment []) reverse_robin (sample_question ''pay'') =
   run_research (sample_environment []) round_robin (sample_question ''pay'')"
proof -
  have "\<not> bu_exhausted (rs_budget_usage sample_answer)" by (simp add: sample_answer_def Let_def usage_def no_usage_def)
  then show ?thesis
    using research_schedule_independent [OF sample_run [OF first_worker_turns(2)] sample_run [OF first_worker_turns(1)]]
      sample_run [OF first_worker_turns(1)] sample_run [OF first_worker_turns(2)] by simp
qed

text \<open>C29: the follow-up round finds nothing new.  The retriever answers a search in the same way when it is
  repeated; then every result for a task created to close a gap is without evidence, since such a task
  repeats the search of the task whose evidence was missing.\<close>

theorem gap_tasks_find_nothing:
  assumes "run_research e schedule r = Completed res" "w \<in> set (rs_worker_results res)" "wr_parent_task_id w \<noteq> None"
  shows "wr_evidence w = []"
  by (rule gap_result_empty [OF assms])

lemma gap_tasks_find_nothing_witness: "wr_parent_task_id R2 = Some ''T01'' \<and> wr_evidence R2 = []"
  using gap_tasks_find_nothing [OF sample_run [OF first_worker_turns(1)], of R2] R_empty(7)
  by (simp add: sample_answer_def Let_def)

text \<open>C30: when the coverage of a completed run is judged sufficient, the budget was not exhausted, the
  ledger is not empty, and every required dimension is supported by evidence of a worker that investigated
  it; without required dimensions every task of the plan has a result with evidence.\<close>

theorem sufficient_coverage_supported:
  assumes "run_research e schedule r = Completed res" "ca_status (rs_coverage res) = Cov_sufficient"
  shows "\<not> bu_exhausted (rs_budget_usage res) \<and> el_entries (rs_evidence_ledger res) \<noteq> [] \<and>
    (\<forall>d \<in> set (pl_required_comparison_dimensions (rs_plan res)).
       \<exists>w \<in> set (rs_worker_results res). \<exists>h \<in> set (wr_evidence w). \<exists>t \<in> set (pl_tasks (rs_plan res)).
         wr_comparison_dimension w = Some d \<and> tk_comparison_dimension t = Some d \<and> evidence_supports_task h t) \<and>
    (pl_required_comparison_dimensions (rs_plan res) = [] \<longrightarrow>
       (\<forall>t \<in> set (pl_tasks (rs_plan res)). \<exists>w \<in> set (rs_worker_results res). wr_task_id w = tk_task_id t \<and> wr_evidence w \<noteq> []))"
proof -
  obtain plan st where run: "plan_research e (rr_question r) (rr_principal r) = Inr plan"
    "execute_plan (re_workers e) schedule plan (rr_principal r) (planning_usage (ws_settings (re_workers e))) = Completed st"
    "finalize_research (ws_settings (re_workers e)) plan (rr_principal r) st = Inr res"
    by (rule run_research_Completed [OF assms(1)])
  note f = finalize_research_Inr [OF run(3)]
  have "\<exists>t. result_sound (re_workers e) (item (rr_principal r) t) w" if "w \<in> set (rs_worker_results res)" for w
    using execute_plan_Completed(1) [OF run(2) planned(3) [OF run(1)]] that f(1)
    by (auto simp: run_inv_def answers_task_def)
  then have done_ev: "wr_evidence w \<noteq> []" if "w \<in> set (rs_worker_results res)" "wr_status w = RS_completed" for w
    using that result_sound_completed by blast
  have suff: "\<not> bu_exhausted (ru_usage st)" "el_entries (rs_evidence_ledger res) \<noteq> []"
    "missing_dimensions plan (rs_worker_results res) = []"
    using assms(2) unfolding f(5) by (auto simp: final_coverage_def assess_coverage_def coverage_of_def Let_def split: if_splits)
  show ?thesis
    using suff f(2,3) done_ev missing_dimensions_none [OF suff(3)] by auto
qed

text \<open>A run that finds evidence has one round, and its coverage is sufficient.\<close>

lemma sample_found_run:
  "\<exists>res. run_research (sample_environment [passage 1 INTERNAL]) round_robin (sample_question ''pay'') = Completed res \<and>
     ca_status (rs_coverage res) = Cov_sufficient"
proof -
  let ?h = "passage (Suc 0) INTERNAL" and ?p = "sample_principal (Suc 0) VIEWER"
  let ?r = "sample_result [?h] T1"
  let ?st = "\<lparr> ru_pending = [], ru_results = [?r], ru_processed = [''T01''], ru_round = 1, ru_usage = usage 1 1 \<rparr>"
  let ?l = "\<lparr> el_entries = [\<lparr> en_evidence = ?h, en_task_ids = [''T01''] \<rparr>], el_total_characters = 2, el_dropped_items = 0 \<rparr>"
  have typed: "typed_evidence T1 [?h] = [?h]"
    by (simp add: typed_evidence_def sample_task_def planned_task_def Let_def)
  have r: "wr_evidence ?r = [?h]" "wr_child_task_proposals ?r = []" "wr_task_id ?r = ''T01''" "wr_status ?r = RS_completed"
    "wr_error_category ?r = None"
    by (simp_all add: sample_result_def worker_result_of_def Let_def typed T_fields)
  obtain f where lim: "research_recursion_limit default_settings - 1 = Suc (Suc (Suc (Suc f)))"
    using that [of 43] by (simp add: research_recursion_limit_def default_settings_def)
  have c: "consume (budget_of default_settings) Res_llm_calls no_usage = (True, usage 0 0)"
    by (simp add: consume_eq sample_budget usage_def no_usage_def)
  have round: "run_round (sample_workers [?h]) (budget_of default_settings) ?p (round_robin 0)
      \<lparr> ru_pending = [T1], ru_results = [], ru_processed = [], ru_round = 0, ru_usage = usage 1 0 \<rparr> = Some
      \<lparr> ru_pending = [T1], ru_results = [?r], ru_processed = [], ru_round = 0, ru_usage = usage 1 1 \<rparr>"
    using sample_round [OF sample_single(1) _ _ _ first_worker_turns(1), where calls = 0 and tasks = 1] by simp
  have "aggregate_round default_settings (budget_of default_settings) sample_plan
      \<lparr> ru_pending = [T1], ru_results = [?r], ru_processed = [], ru_round = 0, ru_usage = usage 1 1 \<rparr> = Inr ?st"
    by (simp add: aggregate_round_def current_results_def Let_def proposals_def r sorted_values_def unique_first_def)
  then have ex: "execute_plan (sample_workers [?h]) round_robin sample_plan ?p (usage 0 0) = Completed ?st"
    using round lim by (simp add: execute_plan_def sample_first)
  have size: "entry_size \<lparr> en_evidence = ?h, en_task_ids = [''T01''] \<rparr> = 2"
    by (simp add: entry_size_def passage_def dense_item_def hybrid_item_def)
  have agg: "aggregate_evidence 30 60000 (Some ''build'') (Some ?p) [?r] = Inr ?l"
    by (simp add: aggregate_evidence_def evidence_stream_def r passage_admitted [simplified] add_evidence_def Let_def size [simplified])
  have plan: "cc_build_fingerprint (pl_catalog sample_plan) = ''build''" "pl_required_comparison_dimensions sample_plan = []"
    "pl_tasks sample_plan = [T1]"
    by (simp_all add: sample_plan_def catalog_of_def Let_def)
  have cov: "ca_status (final_coverage default_settings sample_plan [?r] ?l (usage 1 1)) = Cov_sufficient"
    by (simp add: final_coverage_def assess_coverage_def Let_def coverage_of_def missing_dimensions_def plan completed_tasks_def
        r T_fields usage_def no_usage_def worker_failed_def)
  obtain res where "finalize_research default_settings sample_plan ?p ?st = Inr res"
    "rs_coverage res = final_coverage default_settings sample_plan [?r] ?l (usage 1 1)"
    by (simp add: finalize_research_def Let_def plan sample_budget agg)
  then show ?thesis
    using cov by (simp add: run_research_def Let_def c sample_question_def sample_plan_made ex)
qed

lemma sufficient_coverage_supported_witness:
  "\<exists>res. run_research (sample_environment [passage 1 INTERNAL]) round_robin (sample_question ''pay'') = Completed res \<and>
     el_entries (rs_evidence_ledger res) \<noteq> []"
  using sample_found_run sufficient_coverage_supported by blast

end
