(* ===== verification/Grounding.thy ===== *)
theory Grounding
  imports Result_Models
begin

text \<open>
  Grounding of generated answers: the evidence context given to the language model
  (llm/grounding.py), the validation of citations (llm/citation_validator.py) and of enterprise
  identifiers in generated text (llm/identifier_validator.py).  The build fingerprint of the manifest
  is an argument.
\<close>

section \<open>The evidence context\<close>

definition bounded_excerpt :: "string \<Rightarrow> nat \<Rightarrow> bool \<Rightarrow> string" where
  "bounded_excerpt text maximum preserve_ends =
     (if length text \<le> maximum then text
      else if \<not> preserve_ends \<or> maximum < 20 then take maximum text
      else
        let separator = [CHR 10] @ ''...'' @ [CHR 10]; available = maximum - length separator;
            front = (available + 1) div 2; back = available - front in
        take front text @ separator @ last_n back text)"

definition context_order :: "hybrid_evidence \<Rightarrow> nat \<times> real \<times> uuid" where
  "context_order h = (he_final_rank h, - he_hybrid_score h, de_chunk_id (he_evidence h))"

definition context_item_of :: "nat \<Rightarrow> dense_evidence \<Rightarrow> string \<Rightarrow> context_item" where
  "context_item_of index e text =
     \<lparr> ec_model_id = ''E'' @ show_nat index, ec_evidence_id = de_evidence_id e, ec_chunk_id = de_chunk_id e,
       ec_document_id = de_document_id e, ec_title = de_title e, ec_document_type = de_document_type e,
       ec_department = de_department e, ec_status = de_status e, ec_version = de_version e,
       ec_updated_date = de_updated_date e, ec_section = de_section e, ec_source_file = de_source_file e,
       ec_source_line_start = de_source_line_start e, ec_source_line_end = de_source_line_end e,
       ec_access_level = de_access_level e, ec_text = text, ec_build_fingerprint = de_build_fingerprint e \<rparr>"

text \<open>The loop over the selected evidence: an item with injected instructions keeps its number and is
  skipped, and an exhausted character budget ends the loop.\<close>

fun context_items :: "nat \<Rightarrow> nat \<Rightarrow> bool \<Rightarrow> nat \<Rightarrow> nat \<Rightarrow> hybrid_evidence list \<Rightarrow> context_item list" where
  "context_items item_characters per_item preserve_ends remaining index [] = []"
| "context_items item_characters per_item preserve_ends remaining index (h # hs) =
     (let e = he_evidence h in
      if contains_untrusted_instruction (de_text e)
      then context_items item_characters per_item preserve_ends remaining (Suc index) hs
      else if remaining = 0 then []
      else
        let text = bounded_excerpt (de_text e) (min item_characters (min per_item remaining)) preserve_ends in
        context_item_of index e text #
          context_items item_characters per_item preserve_ends (remaining - length text) (Suc index) hs)"

definition context_limit :: "retrieval_settings \<Rightarrow> nat option \<Rightarrow> nat" where
  "context_limit s maximum_items =
     min (case maximum_items of None \<Rightarrow> llm_max_evidence_items s | Some n \<Rightarrow> n)
       (min (research_max_evidence_items s) (llm_max_citations s))"

definition build_evidence_context ::
  "hybrid_evidence list \<Rightarrow> retrieval_settings \<Rightarrow> nat option \<Rightarrow> context_item list" where
  "build_evidence_context evidence s maximum_items =
     (let selected = take (context_limit s maximum_items) (sort_key context_order evidence);
          per_item = (if maximum_items \<noteq> None \<and> selected \<noteq> []
            then max 1 (llm_max_evidence_characters s div length selected)
            else llm_max_evidence_item_characters s) in
      context_items (llm_max_evidence_item_characters s) per_item (maximum_items \<noteq> None)
        (llm_max_evidence_characters s) 1 selected)"

section \<open>Citations\<close>

definition citation_from_context :: "context_item \<Rightarrow> verified_citation" where
  "citation_from_context i =
     \<lparr> vc_marker = ec_model_id i, vc_evidence_id = ec_evidence_id i, vc_chunk_id = ec_chunk_id i,
       vc_document_id = ec_document_id i, vc_title = ec_title i, vc_section = ec_section i,
       vc_source_file = ec_source_file i, vc_source_line_start = ec_source_line_start i,
       vc_source_line_end = ec_source_line_end i, vc_version = ec_version i,
       vc_updated_date = ec_updated_date i, vc_access_level = ec_access_level i,
       vc_department = ec_department i, vc_document_type = ec_document_type i \<rparr>"

type_synonym evidence_map = "(string, context_item) dict"

definition context_map :: "context_item list \<Rightarrow> evidence_map" where
  "context_map context = fold (\<lambda>i. dict_set (ec_model_id i) i) context []"

definition citation_errors ::
  "authenticated_principal \<Rightarrow> string \<Rightarrow> string \<Rightarrow> context_item option \<Rightarrow> string list" where
  "citation_errors p build claim_id found =
     (case found of
        None \<Rightarrow> [claim_id @ '': unknown evidence ID'']
      | Some i \<Rightarrow>
          (if ec_access_level i \<notin> allowed_access_levels p then [claim_id @ '': unauthorized evidence''] else []) @
          (if ec_build_fingerprint i \<noteq> build then [claim_id @ '': stale evidence''] else []) @
          (if ec_source_line_end i < ec_source_line_start i
           then [claim_id @ '': invalid source line range''] else []))"

definition claim_errors ::
  "authenticated_principal \<Rightarrow> string \<Rightarrow> evidence_map \<Rightarrow> grounded_claim \<Rightarrow> string list" where
  "claim_errors p build mapping c =
     (if gc_factual c \<and> gc_supporting_evidence_ids c = []
      then [gc_claim_id c @ '': factual claim has no citation''] else []) @
     concat (map (\<lambda>m. citation_errors p build (gc_claim_id c) (map_of mapping m))
       (gc_supporting_evidence_ids c))"

definition used_evidence :: "evidence_map \<Rightarrow> grounded_claim list \<Rightarrow> string list" where
  "used_evidence mapping claims =
     unique_first (filter (\<lambda>m. m \<in> set (dict_keys mapping)) (concat (map gc_supporting_evidence_ids claims)))"

text \<open>The fingerprint of the current build is read from the manifest after the check for duplicates; \<open>None\<close> as
  argument is a manifest that cannot be read, is not JSON or has no fingerprint, and \<open>None\<close> as result is
  the exception this raises.\<close>

definition validate_draft_citations ::
  "answer_draft \<Rightarrow> context_item list \<Rightarrow> authenticated_principal \<Rightarrow> nat \<Rightarrow> string option \<Rightarrow>
   citation_validation option" where
  "validate_draft_citations draft context p maximum_citations manifest =
     (let mapping = context_map context in
      if length mapping \<noteq> length context
      then Some \<lparr> cv_valid = False, cv_errors = [''duplicate model evidence ID''], cv_citations = [] \<rparr>
      else map_option (\<lambda>expected_build.
        let used = used_evidence mapping (dr_claims draft);
            errors = concat (map (claim_errors p expected_build mapping) (dr_claims draft)) @
              (if maximum_citations < length used then [''citation limit exceeded''] else []) in
        \<lparr> cv_valid = (errors = []), cv_errors = errors,
          cv_citations = map citation_from_context (List.map_filter (map_of mapping) used) \<rparr>) manifest)"

section \<open>Alignment with requested identifiers\<close>

type_synonym requirement = "string \<times> string list"

definition requirement_errors :: "string list \<Rightarrow> requirement \<Rightarrow> string list" where
  "requirement_errors cited r =
     (case r of (identifier, model_ids) \<Rightarrow>
        if model_ids = []
        then [''entity_alignment_validation_failed: no authorized evidence for '' @ identifier]
        else if set cited \<inter> set model_ids = {}
        then [''entity_alignment_validation_failed: requested identifier '' @ identifier @ '' is uncited'']
        else [])"

definition off_target :: "string list \<Rightarrow> evidence_map \<Rightarrow> grounded_claim \<Rightarrow> bool" where
  "off_target allowed mapping c =
     (gc_factual c \<and>
      list_ex (\<lambda>m. m \<notin> set allowed \<or> m \<notin> set (dict_keys mapping)) (gc_supporting_evidence_ids c))"

definition validate_identifier_alignment ::
  "answer_draft \<Rightarrow> citation_validation \<Rightarrow> context_item list \<Rightarrow> requirement list \<Rightarrow> citation_validation" where
  "validate_identifier_alignment draft v context requirements =
     (if requirements = [] then v
      else
        let cited = map vc_marker (cv_citations v); allowed = concat (map snd requirements);
            errors = cv_errors v @ concat (map (requirement_errors cited) requirements) @
              map (\<lambda>c. gc_claim_id c @ '': entity_alignment_validation_failed: off-target evidence'')
                (filter (off_target allowed (context_map context)) (dr_claims draft)) in
        v\<lparr> cv_valid := (errors = []), cv_errors := errors \<rparr>)"

section \<open>Identifiers in generated text\<close>

abbreviation separator_atoms :: "catom list" where "separator_atoms \<equiv> [COne CHR ''-'', CSpace]"

definition INCIDENT_LIKE :: rx where
  "INCIDENT_LIKE =
     seqs [NotBehind alnum_upper, Lit ''INC'', rx_some (Cls False separator_atoms),
       Rep 2 (Some 12) True (Cls False alnum_upper), rx_some (Cls False separator_atoms),
       lits [''19'', ''20''], Rep 2 (Some 2) True (Cls False [CDigit]),
       Rep 1 (Some 6) True (Seq (rx_some (Cls False separator_atoms)) (Rep 1 (Some 6) True (Cls False [CDigit]))),
       NotAhead (alnum_upper @ [COne CHR ''-''])]"

text \<open>The groups of a match.  Domain, year and every part of the serial are runs without separators, and a
  separator stands between any two of them, so splitting the matched text at the separators gives
  \<open>INC\<close>, the domain, the year and the parts that \<open>re.findall\<close> finds in the serial.\<close>

fun separated :: "string \<Rightarrow> string \<Rightarrow> string list" where
  "separated w [] = (if w = [] then [] else [w])"
| "separated w (c # s) =
     (if c = CHR ''-'' \<or> is_space c then (if w = [] then separated [] s else w # separated [] s)
      else separated (w @ [c]) s)"

record incident_match =
  im_domain :: string
  im_year :: string
  im_serial_parts :: "string list"

definition incident_groups :: "string \<Rightarrow> incident_match" where
  "incident_groups raw = (let fields = separated [] raw in
     \<lparr> im_domain = fields ! 1, im_year = fields ! 2, im_serial_parts = drop 3 fields \<rparr>)"

definition canonical_candidate :: "incident_match \<Rightarrow> string" where
  "canonical_candidate m =
     (case im_serial_parts m of
        [part] \<Rightarrow> ''INC-'' @ upper_text (im_domain m) @ ''-'' @ im_year m @ ''-'' @ part
      | _ \<Rightarrow> [])"

type_synonym signature = "string \<times> string \<times> string"

definition match_signature :: "incident_match \<Rightarrow> signature" where
  "match_signature m =
     (let serial = dropWhile (\<lambda>c. c = CHR ''0'') (concat (im_serial_parts m)) in
      (upper_text (im_domain m), im_year m, if serial = [] then ''0'' else serial))"

definition allowed_signatures :: "string list \<Rightarrow> (signature, string list) dict" where
  "allowed_signatures identifiers =
     fold (\<lambda>i d.
        if \<not> rx_fullmatch True INCIDENT_LIKE i then d
        else (let key = match_signature (incident_groups i) in
          dict_set key ((case map_of d key of None \<Rightarrow> [] | Some known \<Rightarrow> known) @ [i]) d))
       (sort (unique_first identifiers)) []"

record repair =
  rp_text :: string
  rp_identifiers :: "string list"
  rp_errors :: "string list"
  rp_count :: nat

definition replace_match :: "string list \<Rightarrow> (signature, string list) dict \<Rightarrow> string \<Rightarrow> repair" where
  "replace_match allowed signatures raw =
     (let m = incident_groups raw; canonical = canonical_candidate m in
      if raw \<in> set allowed
      then \<lparr> rp_text = raw, rp_identifiers = [raw], rp_errors = [], rp_count = 0 \<rparr>
      else if canonical \<in> set allowed
      then \<lparr> rp_text = canonical, rp_identifiers = [canonical], rp_errors = [], rp_count = 1 \<rparr>
      else case map_of signatures (match_signature m) of
        Some [i] \<Rightarrow> \<lparr> rp_text = i, rp_identifiers = [i], rp_errors = [], rp_count = 1 \<rparr>
      | _ \<Rightarrow> \<lparr> rp_text = raw, rp_identifiers = [],
          rp_errors = [''entity_identifier_validation_failed: unapproved identifier-like token''], rp_count = 0 \<rparr>)"

fun repair_pieces :: "(string \<Rightarrow> repair) \<Rightarrow> (string \<times> string) list \<Rightarrow> string \<Rightarrow> repair" where
  "repair_pieces f [] rest = \<lparr> rp_text = rest, rp_identifiers = [], rp_errors = [], rp_count = 0 \<rparr>"
| "repair_pieces f ((before, raw) # pieces) rest =
     (let r = f raw; rs = repair_pieces f pieces rest in
      \<lparr> rp_text = before @ rp_text r @ rp_text rs, rp_identifiers = rp_identifiers r @ rp_identifiers rs,
        rp_errors = rp_errors r @ rp_errors rs, rp_count = rp_count r + rp_count rs \<rparr>)"

definition repair_text :: "string \<Rightarrow> string list \<Rightarrow> (signature, string list) dict \<Rightarrow> repair" where
  "repair_text text allowed signatures =
     (case rx_pieces True INCIDENT_LIKE text of
        (pieces, rest) \<Rightarrow> repair_pieces (replace_match allowed signatures) pieces rest)"

record identifier_validation =
  iv_draft :: answer_draft
  iv_errors :: "string list"
  iv_repair_count :: nat

definition claim_alignment :: "(string, string list) dict \<Rightarrow> grounded_claim \<Rightarrow> string list \<Rightarrow> string list" where
  "claim_alignment evidence c identifiers =
     (let aligned = map fst (filter (\<lambda>(_, model_ids).
            set (gc_supporting_evidence_ids c) \<inter> set model_ids \<noteq> {}) evidence) in
      if set identifiers \<subseteq> set aligned then []
      else [''entity_identifier_validation_failed: claim identifier is off-target''])"

definition missing_prefix :: "string list \<Rightarrow> string" where
  "missing_prefix missing =
     ''Requested enterprise identifier'' @ (if 1 < length missing then ''s'' else []) @ '': '' @
     join_text '', '' missing @ ''.''"

definition validate_and_repair_response_identifiers ::
  "answer_draft \<Rightarrow> requirement list \<Rightarrow> identifier_validation" where
  "validate_and_repair_response_identifiers draft requirements =
     (if requirements = [] then \<lparr> iv_draft = draft, iv_errors = [], iv_repair_count = 0 \<rparr>
      else
        let evidence = fold (\<lambda>(i, ms). dict_set i ms) requirements [];
            supported = map fst (filter (\<lambda>(_, ms). ms \<noteq> []) evidence);
            signatures = allowed_signatures supported;
            summary = repair_text (dr_answer_summary draft) supported signatures;
            claims = map (\<lambda>c. (c, repair_text (gc_text c) supported signatures)) (dr_claims draft);
            missing = sort (filter (\<lambda>i. i \<notin> set (rp_identifiers summary)) supported);
            fits = length (missing_prefix missing) + 1 + length (rp_text summary) \<le> 8000 in
        \<lparr> iv_draft = draft
            \<lparr> dr_answer_summary := (if missing \<noteq> [] \<and> fits
                then missing_prefix missing @ '' '' @ rp_text summary else rp_text summary),
              dr_claims := map (\<lambda>(c, r). c\<lparr> gc_text := rp_text r \<rparr>) claims \<rparr>,
          iv_errors = unique_first
            (rp_errors summary @
             concat (map (\<lambda>(c, r). rp_errors r @ claim_alignment evidence c (rp_identifiers r)) claims) @
             (if missing \<noteq> [] \<and> \<not> fits
              then [''entity_identifier_validation_failed: supported requested identifier is absent''] else [])),
          iv_repair_count = rp_count summary + sum_list (map (rp_count \<circ> snd) claims) +
            (if missing \<noteq> [] \<and> fits then length missing else 0) \<rparr>)"

end
