(* ===== verification/Extractive_Fallback.thy ===== *)
theory Extractive_Fallback
  imports Grounding Research_Plan
begin

text \<open>
  The deterministic answer extracted from evidence when no generated answer can be used
  (llm/extractive_fallback.py): the concepts of the question, the candidate passages, their ranking
  and the selection of complementary passages.  A frozen set of tokens is a set of texts.
\<close>

section \<open>Tokens\<close>

definition SPECIAL_CONCEPT_BOUNDARY :: rx where
  "SPECIAL_CONCEPT_BOUNDARY = seqs [rx_many space,
     alts [Seq (Lit '';'') (rx_many space), seqs [Lit '','', rx_many space, Lit ''plus'', rx_some space],
       seqs [Boundary, Lit ''as'', rx_some space, Lit ''well'', rx_some space, Lit ''as'', Boundary],
       seqs [Boundary, Lit ''plus'', Boundary], seqs [Boundary, Lit ''versus'', Boundary],
       seqs [Boundary, Lit ''vs'', rx_opt (Lit ''.''), Boundary]],
     rx_many space]"

definition AND_BOUNDARY :: rx where
  "AND_BOUNDARY = seqs [rx_some space, Boundary, Lit ''and'', Boundary, rx_some space]"

definition BOTH :: rx where "BOTH = seqs [Boundary, Lit ''both'', rx_some space]"

definition QUESTION_CUE :: rx where
  "QUESTION_CUE = seqs [Boundary, lits [''for'', ''about'', ''regarding'', ''covering''], Boundary]"

definition PASSAGE_BOUNDARY :: rx where
  "PASSAGE_BOUNDARY = Alt (Seq (Behind [COne CHR ''.'', COne CHR ''!'', COne CHR ''?'']) (rx_some space))
     (rx_some (Cls False [COne (CHR 10)]))"

definition HEADING :: rx where
  "HEADING = seqs [AtStart, rx_opt (Seq (Rep 1 (Some 6) True (Lit ''#'')) (rx_many space)),
     Cls False [CRange CHR ''A'' CHR ''Z''],
     Rep 2 None True (Cls False [CRange CHR ''A'' CHR ''Z'', CRange CHR ''0'' CHR ''9'', COne CHR '' '',
       COne CHR ''/'', COne CHR ''&'', COne CHR ''_'', COne CHR ''-'']),
     rx_opt (Lit '':''), AtEnd]"

definition OPERATIONAL_CUE :: rx where
  "OPERATIONAL_CUE = seqs [Boundary,
     alts (map Lit [''before'', ''after'', ''when'', ''if'', ''until'', ''unless'', ''only'', ''must'', ''should'',
       ''required'', ''stop'', ''pause'', ''halt'', ''limit'', ''bound'', ''threshold'', ''exceed'', ''breach'',
       ''worsen'', ''verify'', ''validate'', ''check'', ''confirm'', ''compare'', ''reconcile'', ''monitor'',
       ''rollback'', ''quarantine'', ''prevent'', ''record'', ''use'', ''proceed'', ''process''] @
       [seqs [Lit ''fail'', rx_some space, Lit ''over'']]),
     Boundary]"

definition SUMMARY :: string where
  "SUMMARY = ''A degraded deterministic answer was extracted from authorized evidence.''"

definition NO_SUPPORT :: string where
  "NO_SUPPORT = ''The authorized evidence did not contain enough detail to answer the request without guessing.''"

definition CONTENT_STOP_WORDS :: "string list" where
  "CONTENT_STOP_WORDS = [''a'', ''an'', ''and'', ''are'', ''as'', ''at'', ''be'', ''both'', ''by'', ''can'', ''could'',
     ''describe'', ''do'', ''does'', ''explain'', ''for'', ''from'', ''give'', ''how'', ''i'', ''in'', ''include'', ''is'',
     ''it'', ''me'', ''of'', ''on'', ''or'', ''please'', ''provide'', ''should'', ''show'', ''summarize'', ''tell'',
     ''that'', ''the'', ''their'', ''this'', ''to'', ''use'', ''what'', ''when'', ''where'', ''which'', ''who'', ''why'',
     ''with'', ''would'', ''you'']"

definition SEMANTIC_GROUPS :: "string set list" where
  "SEMANTIC_GROUPS =
     [{''control'', ''bound'', ''limit'', ''threshold'', ''pause'', ''stop'', ''halt'', ''rollback'', ''worsen'', ''health''},
      {''drain'', ''backlog'', ''queue'', ''batch'', ''process'', ''throughput'', ''work''},
      {''idempotency'', ''idempotent'', ''duplicate'', ''retry'', ''replay'', ''resubmit'', ''transaction''},
      {''verification'', ''verify'', ''check'', ''validate'', ''confirm'', ''compare'', ''reconcile'', ''agreement'',
       ''audit'', ''test''}]"

definition TOKEN_FAMILIES :: "(string \<times> string) list" where
  "TOKEN_FAMILIES = [(''verif'', ''verify''), (''validat'', ''validate''), (''reconcil'', ''reconcile''),
     (''resubmit'', ''resubmit''), (''process'', ''process''), (''control'', ''control''),
     (''duplicat'', ''duplicate''), (''idempoten'', ''idempotency'')]"

definition normalize_token :: "string \<Rightarrow> string" where
  "normalize_token token =
     (case List.find (\<lambda>(front, _). prefix front token) TOKEN_FAMILIES of
        Some (_, normalized) \<Rightarrow> normalized
      | None \<Rightarrow>
          (let cut = (\<lambda>n. take (length token - n) token) in
           if suffix ''ies'' token \<and> 4 < length token then cut 3 @ ''y''
           else if suffix ''ing'' token \<and> 5 < length token then cut 3
           else if suffix ''ed'' token \<and> 4 < length token then cut 2
           else if suffix ''s'' token \<and> 3 < length token then cut 1
           else token))"

definition content_tokens :: "string \<Rightarrow> string set" where
  "content_tokens s =
     set (filter (\<lambda>t. t \<notin> set CONTENT_STOP_WORDS \<and> 1 < length t)
       (map normalize_token (rx_findall False TOKENS (casefold s))))"

definition expand_semantics :: "string set \<Rightarrow> string set" where
  "expand_semantics tokens = tokens \<union> \<Union> (set (filter (\<lambda>g. tokens \<inter> g \<noteq> {}) SEMANTIC_GROUPS))"

section \<open>The concepts of a question\<close>

record concept =
  cn_label :: string
  cn_tokens :: "string set"
  cn_expanded_tokens :: "string set"

abbreviation trim :: "string \<Rightarrow> string" where "trim \<equiv> strip_chars '' ,.?''"

definition and_halves :: "string \<Rightarrow> (string \<times> string) option" where
  "and_halves s =
     (case rx_find True AND_BOUNDARY None s of
        None \<Rightarrow> None
      | Some (p, q) \<Rightarrow>
          (let left = trim (take (length s - length (snd p)) s); right = trim (snd q) in
           if card (content_tokens left) < 2 \<or> card (content_tokens right) < 2 then None
           else Some (left, right)))"

lemma length_strip_chars: "length (strip_chars cs s) \<le> length s"
  using length_dropWhile_le [of "\<lambda>c. c \<in> set cs" s]
    length_dropWhile_le [of "\<lambda>c. c \<in> set cs" "rev (dropWhile (\<lambda>c. c \<in> set cs) s)"]
  by (simp add: strip_chars_def)

lemma content_tokens_Nil: "content_tokens [] = {}"
  by code_simp

lemma and_halves_shorter:
  assumes "and_halves s = Some (left, right)"
  shows "length left < length s" "length right < length s"
proof -
  obtain p q where pq: "rx_find True AND_BOUNDARY None s = Some (p, q)"
    and left: "left = trim (take (length s - length (snd p)) s)" and right: "right = trim (snd q)"
    and many: "\<not> card (content_tokens left) < 2" "\<not> card (content_tokens right) < 2"
    using assms by (auto simp: and_halves_def Let_def split: option.splits if_splits)
  have ne: "left \<noteq> []" "right \<noteq> []" using many content_tokens_Nil by auto
  have suf: "suffix (snd p) s" "suffix (snd q) (snd p)" using rx_find_suffix [OF pq] by auto
  have "length left \<le> length (take (length s - length (snd p)) s)" unfolding left by (rule length_strip_chars)
  then have "length left \<le> length s - length (snd p)" by simp
  moreover have "length right \<le> length (snd q)" unfolding right by (rule length_strip_chars)
  moreover have "0 < length left" "0 < length right" using ne by simp_all
  moreover have "length (snd q) \<le> length (snd p)" "length (snd p) \<le> length s"
    using suf by (simp_all add: suffix_length_le)
  ultimately show "length left < length s" "length right < length s" by linarith+
qed

function split_balanced_and :: "string \<Rightarrow> string list" where
  "split_balanced_and s =
     (case and_halves s of
        None \<Rightarrow> [s]
      | Some (left, right) \<Rightarrow> split_balanced_and left @ split_balanced_and right)"
  by pat_completeness auto

termination
  by (relation "measure length") (auto dest: and_halves_shorter)

declare split_balanced_and.simps [simp del]

definition focus_concept_phrase :: "string \<Rightarrow> string" where
  "focus_concept_phrase s =
     (case rx_pieces True QUESTION_CUE s of
        (pieces, rest) \<Rightarrow>
          (if pieces \<noteq> [] \<and> 2 \<le> card (content_tokens (trim rest)) then trim rest else trim s))"

definition capitalize :: "string \<Rightarrow> string" where
  "capitalize s = (case s of [] \<Rightarrow> [] | c # t \<Rightarrow> upper_char c # t)"

definition safe_concept_label :: "string \<Rightarrow> nat \<Rightarrow> string" where
  "safe_concept_label s index =
     (let label = strip_chars '' :;,.-'' (squeeze s) in
      if label = [] \<or> 80 < length label \<or> contains_untrusted_instruction label \<or>
         response_policy_violations label \<noteq> []
      then ''requested aspect '' @ show_nat (index + 1)
      else capitalize label)"

definition concept_parts :: "string \<Rightarrow> string list" where
  "concept_parts question =
     (let cleaned = rx_sub True BOTH [] (strip question) in
      concat (map split_balanced_and
        (filter (\<lambda>part. part \<noteq> []) (map trim (rx_split True SPECIAL_CONCEPT_BOUNDARY cleaned)))))"

definition concept_of :: "string \<Rightarrow> nat \<Rightarrow> concept" where
  "concept_of focused index =
     (let tokens = content_tokens focused in
      \<lparr> cn_label = safe_concept_label focused index, cn_tokens = tokens,
        cn_expanded_tokens = expand_semantics tokens \<rparr>)"

fun concepts_of :: "(nat \<times> string) list \<Rightarrow> string set list \<Rightarrow> concept list" where
  "concepts_of [] seen = []"
| "concepts_of ((index, part) # parts) seen =
     (let focused = focus_concept_phrase part; tokens = content_tokens focused in
      if tokens = {} \<or> tokens \<in> set seen then concepts_of parts seen
      else concept_of focused index # concepts_of parts (tokens # seen))"

definition question_concepts :: "string \<Rightarrow> concept list" where
  "question_concepts question =
     (let concepts = concepts_of (enumerate 0 (concept_parts question)) [];
          tokens = content_tokens question;
          general = (if tokens = {} then {''request''} else tokens) in
      if concepts \<noteq> [] then take 4 concepts
      else [\<lparr> cn_label = ''requested information'', cn_tokens = general,
              cn_expanded_tokens = expand_semantics general \<rparr>])"

section \<open>Candidate passages\<close>

record candidate =
  pc_text :: string
  pc_evidence_id :: string
  pc_document_id :: uuid
  pc_evidence_rank :: nat
  pc_passage_rank :: nat
  pc_tokens :: "string set"
  pc_operational_score :: nat

type_synonym passage_id = "string \<times> uuid"

definition split_passages :: "string \<Rightarrow> string list" where
  "split_passages text = filter (\<lambda>part. strip part \<noteq> []) (rx_split False PASSAGE_BOUNDARY text)"

definition normalized_passage :: "string \<Rightarrow> string" where
  "normalized_passage passage = strip_chars '' -*'' (squeeze passage)"

definition passage_usable :: "string \<Rightarrow> bool" where
  "passage_usable s =
     (24 \<le> length s \<and> length s \<le> 700 \<and> \<not> rx_fullmatch False HEADING s \<and>
      \<not> contains_untrusted_instruction s \<and> response_policy_violations s = [] \<and> content_tokens s \<noteq> {})"

fun passage_candidates ::
  "(nat \<times> nat \<times> string \<times> context_item) list \<Rightarrow> passage_id list \<Rightarrow> candidate list" where
  "passage_candidates [] seen = []"
| "passage_candidates ((evidence_rank, passage_rank, passage, item) # rest) seen =
     (let s = normalized_passage passage; key = (casefold s, ec_document_id item) in
      if key \<in> set seen \<or> \<not> passage_usable s then passage_candidates rest seen
      else
        \<lparr> pc_text = s, pc_evidence_id = ec_model_id item, pc_document_id = ec_document_id item,
          pc_evidence_rank = evidence_rank, pc_passage_rank = passage_rank,
          pc_tokens = content_tokens s,
          pc_operational_score = length (rx_findall True OPERATIONAL_CUE s) \<rparr> #
        passage_candidates rest (key # seen))"

definition candidates :: "context_item list \<Rightarrow> candidate list" where
  "candidates contexts =
     passage_candidates (concat (map (\<lambda>(evidence_rank, item).
         map (\<lambda>(passage_rank, passage). (evidence_rank, passage_rank, passage, item))
           (enumerate 0 (split_passages (ec_text item))))
       (enumerate 0 contexts))) []"

section \<open>Ranking and selection\<close>

definition passage_score :: "concept \<Rightarrow> string set \<Rightarrow> candidate \<Rightarrow> nat list option" where
  "passage_score c question_tokens x =
     (let semantic = card (cn_expanded_tokens c \<inter> pc_tokens x); direct = card (cn_tokens c \<inter> pc_tokens x);
          novel = card (pc_tokens x - question_tokens);
          ratio = 100 * novel div max 1 (card (pc_tokens x)) in
      if semantic < 1 \<or> novel < 1 \<or> ratio < 30 then None
      else if pc_operational_score x < 1 \<and> \<not> (2 \<le> semantic \<and> 2 \<le> novel) then None
      else Some [if 2 \<le> semantic then 1 else 0, pc_operational_score x, semantic, min novel 12, ratio, direct])"

definition rank_order :: "candidate \<times> nat list \<Rightarrow> int list \<times> nat \<times> nat \<times> string" where
  "rank_order r = (map (\<lambda>n. - int n) (snd r), pc_evidence_rank (fst r), pc_passage_rank (fst r),
     casefold (pc_text (fst r)))"

definition rank_candidates :: "candidate list \<Rightarrow> concept \<Rightarrow> string set \<Rightarrow> candidate list" where
  "rank_candidates cs c question_tokens =
     map fst (sort_key rank_order
       (List.map_filter (\<lambda>x. map_option (Pair x) (passage_score c question_tokens x)) cs))"

record selection =
  sl_selected :: "(nat \<times> candidate) list"
  sl_used :: "passage_id list"
  sl_concept_tokens :: "string set list"

definition passage_key :: "candidate \<Rightarrow> passage_id" where
  "passage_key x = (casefold (pc_text x), pc_document_id x)"

text \<open>The loop over the ranked passages of a concept takes the first one that is new.\<close>

definition select_passage :: "bool \<Rightarrow> nat \<times> candidate list \<Rightarrow> selection \<Rightarrow> selection" where
  "select_passage second concept_ranked s =
     (case concept_ranked of (i, ranked) \<Rightarrow>
        (case List.find (\<lambda>x. passage_key x \<notin> set (sl_used s) \<and>
                (second \<longrightarrow> 2 \<le> card (pc_tokens x - sl_concept_tokens s ! i))) ranked of
           None \<Rightarrow> s
         | Some x \<Rightarrow> \<lparr> sl_selected = sl_selected s @ [(i, x)], sl_used = passage_key x # sl_used s,
             sl_concept_tokens = (sl_concept_tokens s)[i := sl_concept_tokens s ! i \<union> pc_tokens x] \<rparr>))"

fun select_loop :: "nat \<Rightarrow> (bool \<times> nat \<times> candidate list) list \<Rightarrow> selection \<Rightarrow> selection" where
  "select_loop maximum [] s = s"
| "select_loop maximum ((second, r) # rs) s =
     (if maximum \<le> length (sl_selected s) then s else select_loop maximum rs (select_passage second r s))"

definition select_complementary_passages :: "candidate list list \<Rightarrow> nat \<Rightarrow> (nat \<times> candidate) list" where
  "select_complementary_passages ranked maximum =
     sl_selected (select_loop maximum
       (map (Pair False) (enumerate 0 ranked) @ map (Pair True) (enumerate 0 ranked))
       \<lparr> sl_selected = [], sl_used = [], sl_concept_tokens = replicate (length ranked) {} \<rparr>)"

section \<open>The answer\<close>

definition answer_summary :: "concept list \<Rightarrow> nat list \<Rightarrow> string" where
  "answer_summary concepts supported =
     (let unsupported = map (cn_label \<circ> snd) (filter (\<lambda>(i, _). i \<notin> set supported) (enumerate 0 concepts)) in
      if supported = [] then NO_SUPPORT
      else if unsupported = [] then SUMMARY
      else SUMMARY @ '' The authorized evidence did not establish: '' @ join_text ''; '' unsupported @ ''.'')"

definition draft_length :: "string \<Rightarrow> grounded_claim list \<Rightarrow> nat" where
  "draft_length summary claims = length summary + sum_list (map (length \<circ> gc_text) claims)"

definition extracted_claim :: "concept list \<Rightarrow> nat \<times> nat \<times> candidate \<Rightarrow> grounded_claim" where
  "extracted_claim concepts numbered =
     (case numbered of (number, i, x) \<Rightarrow>
        \<lparr> gc_claim_id = ''C'' @ show_nat number, gc_text = cn_label (concepts ! i) @ '': '' @ pc_text x,
          gc_supporting_evidence_ids = [pc_evidence_id x], gc_factual = True,
          gc_confidence = Confidence_medium, gc_qualification = None \<rparr>)"

text \<open>The while loop drops the last claim until the draft fits.\<close>

function fit_claims :: "concept list \<Rightarrow> nat \<Rightarrow> grounded_claim list \<Rightarrow> nat list \<Rightarrow> grounded_claim list \<times> nat list"
where
  "fit_claims concepts maximum claims indexes =
     (if claims \<noteq> [] \<and> maximum < draft_length (answer_summary concepts indexes) claims
      then fit_claims concepts maximum (butlast claims) (butlast indexes)
      else (claims, indexes))"
  by pat_completeness auto

termination
  by (relation "measure (\<lambda>(_, _, claims, _). length claims)") auto

declare fit_claims.simps [simp del]

record extraction =
  xt_draft :: answer_draft
  xt_selected_passage_count :: nat
  xt_supported_concept_count :: nat
  xt_requested_concept_count :: nat

text \<open>A claim or a draft outside its field bounds would raise a validation error.\<close>

definition build_extractive_fallback :: "string \<Rightarrow> context_item list \<Rightarrow> nat \<Rightarrow> nat \<Rightarrow> (unit, extraction) result"
where
  "build_extractive_fallback question contexts maximum_passages maximum_answer_characters =
     (let concepts = question_concepts question; question_tokens = content_tokens question;
          cs = candidates contexts; ranked = map (\<lambda>c. rank_candidates cs c question_tokens) concepts;
          selections = select_complementary_passages ranked (max 1 maximum_passages);
          all_claims = map (extracted_claim concepts) (enumerate 1 selections) in
      if \<not> list_all grounded_claim_ok all_claims then Raise ()
      else case fit_claims concepts maximum_answer_characters all_claims (map fst selections) of
        (claims, indexes) \<Rightarrow>
          (let draft = \<lparr> dr_answer_summary = (if claims = [] then NO_SUPPORT else answer_summary concepts indexes),
                 dr_claims = claims, dr_warnings = [], dr_insufficient_evidence = (claims = []),
                 dr_clarification_needed = False \<rparr> in
           if \<not> answer_draft_ok draft then Raise ()
           else Return \<lparr> xt_draft = draft, xt_selected_passage_count = length claims,
             xt_supported_concept_count = card (set indexes), xt_requested_concept_count = length concepts \<rparr>))"

end
