(* ===== verification/Claim_Assignment.thy ===== *)
theory Claim_Assignment
  imports Py_Prelude
begin

text \<open>
  The assignment of distinct claims to the dimensions of a comparison (\<open>_assign_distinct_claims\<close> of
  llm/response_service.py): augmenting paths over the candidate claims of every dimension.  The
  recursion depth is bounded by the number of candidates; the lemmas show that the bound is never met,
  that an assignment is found exactly when one exists, and give the set of claims that proves the
  contrary.
\<close>

section \<open>Augmenting paths\<close>

type_synonym assignment = "(nat, nat) dict"

text \<open>The body of the inner function for dimension \<open>d\<close>, from the claims it has still to try; the result
  is the set of visited claims and the assignments, which a failing call leaves as they were.\<close>

fun try_claims ::
  "nat list list \<Rightarrow> nat \<Rightarrow> nat \<Rightarrow> nat list \<Rightarrow> nat list \<Rightarrow> assignment \<Rightarrow> nat list \<times> assignment option"
where
  "try_claims cs fuel d [] visited m = (visited, None)"
| "try_claims cs fuel d (c # rest) visited m =
     (if c \<in> set visited then try_claims cs fuel d rest visited m
      else
        case map_of m c of
          None \<Rightarrow> (c # visited, Some (dict_set c d m))
        | Some previous \<Rightarrow>
            (case fuel of
               0 \<Rightarrow> (c # visited, None)
             | Suc k \<Rightarrow>
                 (case try_claims cs k previous (cs ! previous) (c # visited) m of
                    (seen, Some m') \<Rightarrow> (seen, Some (dict_set c d m'))
                  | (seen, None) \<Rightarrow> try_claims cs fuel d rest seen m)))"

definition augment :: "nat list list \<Rightarrow> nat \<Rightarrow> assignment \<Rightarrow> nat list \<times> assignment option" where
  "augment cs d m = try_claims cs (length (concat cs)) d (cs ! d) [] m"

fun cover :: "nat list list \<Rightarrow> nat list \<Rightarrow> assignment \<Rightarrow> nat list" where
  "cover cs [] m = []"
| "cover cs (d # ds) m =
     (case snd (augment cs d m) of
        None \<Rightarrow> cover cs ds m
      | Some m' \<Rightarrow> d # cover cs ds m')"

definition assign_distinct_claims :: "nat list list \<Rightarrow> nat list" where
  "assign_distinct_claims candidates = cover candidates [0..<length candidates] []"

section \<open>A successful call extends the assignment\<close>

definition along :: "nat list list \<Rightarrow> assignment \<Rightarrow> bool" where
  "along cs m = (\<forall>c d. map_of m c = Some d \<longrightarrow> d < length cs \<and> c \<in> set (cs ! d))"

definition single :: "assignment \<Rightarrow> nat set \<Rightarrow> bool" where
  "single m ds = (\<forall>c c' d. map_of m c = Some d \<longrightarrow> map_of m c' = Some d \<longrightarrow> d \<in> ds \<longrightarrow> c = c')"

definition extends :: "nat list list \<Rightarrow> nat \<Rightarrow> nat set \<Rightarrow> assignment \<Rightarrow> assignment \<Rightarrow> bool" where
  "extends cs d visited m m' =
     (along cs m' \<and> (\<forall>c \<in> visited. map_of m' c = map_of m c) \<and>
      (\<exists>c. c \<notin> visited \<and> map_of m' c = Some d \<and> (\<forall>c'. c' \<notin> visited \<longrightarrow> map_of m' c' = Some d \<longrightarrow> c' = c)) \<and>
      single m' (- {d}) \<and> (\<forall>e. e \<noteq> d \<longrightarrow> (e \<in> ran (map_of m') \<longleftrightarrow> e \<in> ran (map_of m))))"

lemma ran_set_other:
  "e \<noteq> d \<Longrightarrow> e \<in> ran (map_of (dict_set c d m)) \<longleftrightarrow> (\<exists>x. x \<noteq> c \<and> map_of m x = Some e)"
  by (auto simp: ran_def dict_simps)

lemma visited_grows: "set visited \<subseteq> set (fst (try_claims cs fuel d xs visited m))"
proof (induction cs fuel d xs visited m rule: try_claims.induct)
  case (1 cs fuel d visited m)
  then show ?case by simp
next
  case (2 cs fuel d c rest visited m)
  then show ?case
    by (cases fuel) (fastforce split: option.splits prod.splits)+
qed

lemma extends_free:
  assumes "along cs m" "single m UNIV" "d < length cs" "c \<in> set (cs ! d)" "c \<notin> V" "map_of m c = None"
    "\<forall>x. map_of m x = Some d \<longrightarrow> x \<in> V"
  shows "extends cs d V m (dict_set c d m)"
proof -
  have "along cs (dict_set c d m)" using assms(1,3,4) by (auto simp: along_def dict_simps)
  moreover have "\<forall>x \<in> V. map_of (dict_set c d m) x = map_of m x" using assms(5) by (auto simp: dict_simps)
  moreover have "\<exists>x. x \<notin> V \<and> map_of (dict_set c d m) x = Some d \<and>
      (\<forall>c'. c' \<notin> V \<longrightarrow> map_of (dict_set c d m) c' = Some d \<longrightarrow> c' = x)"
    using assms(5,7) by (intro exI [of _ c]) (auto simp: dict_simps)
  moreover have "single (dict_set c d m) (- {d})"
    using assms(2) by (auto simp: single_def dict_simps)
  moreover have "e \<in> ran (map_of (dict_set c d m)) \<longleftrightarrow> e \<in> ran (map_of m)" if "e \<noteq> d" for e
    unfolding ran_set_other [OF that] using assms(6) by (auto simp: ran_def) (metis option.distinct(1))
  ultimately show ?thesis unfolding extends_def by blast
qed

lemma extends_weaken:
  assumes "extends cs d W m m'" "V \<subseteq> W" "\<forall>x. map_of m x = Some d \<longrightarrow> x \<in> V"
  shows "extends cs d V m m'"
proof -
  obtain c where c: "c \<notin> W" "map_of m' c = Some d" "\<And>y. y \<notin> W \<Longrightarrow> map_of m' y = Some d \<Longrightarrow> y = c"
    using assms(1) unfolding extends_def by blast
  have agree: "map_of m' x = map_of m x" if "x \<in> W" for x using assms(1) that by (auto simp: extends_def)
  have "y = c" if "y \<notin> V" "map_of m' y = Some d" for y
    using that c(3) agree assms(3) by metis
  then have "\<exists>c. c \<notin> V \<and> map_of m' c = Some d \<and> (\<forall>c'. c' \<notin> V \<longrightarrow> map_of m' c' = Some d \<longrightarrow> c' = c)"
    using c assms(2) by blast
  then show ?thesis using assms(1,2) unfolding extends_def by blast
qed

lemma extends_shift:
  assumes m: "along cs m" "single m UNIV" "d < length cs" and c: "c \<in> set (cs ! d)" "c \<notin> V"
    and p: "map_of m c = Some p" and old: "\<forall>x. map_of m x = Some d \<longrightarrow> x \<in> V"
    and m1: "extends cs p (insert c V) m m1"
  shows "extends cs d V m (dict_set c d m1)"
proof -
  have pd: "p \<noteq> d" using p old c(2) by auto
  have agree: "map_of m1 x = map_of m x" if "x \<in> insert c V" for x using m1 that by (auto simp: extends_def)
  obtain x where x: "x \<notin> insert c V" "map_of m1 x = Some p"
    "\<And>y. y \<notin> insert c V \<Longrightarrow> map_of m1 y = Some p \<Longrightarrow> y = x" using m1 unfolding extends_def by blast
  have sing: "single m1 (- {p})" and ran1: "\<And>e. e \<noteq> p \<Longrightarrow> e \<in> ran (map_of m1) \<longleftrightarrow> e \<in> ran (map_of m)"
    using m1 by (auto simp: extends_def)
  have no_d: "map_of m1 y \<noteq> Some d" if y: "y \<notin> V" for y
  proof
    assume d1: "map_of m1 y = Some d"
    then have "d \<in> ran (map_of m1)" by (auto simp: ran_def)
    then obtain z where z: "map_of m z = Some d" using ran1 pd by (auto simp: ran_def)
    then have "z \<in> V" using old by blast
    then have "map_of m1 z = Some d" using agree z by simp
    then show False using sing d1 pd y \<open>z \<in> V\<close> unfolding single_def by (metis ComplI singletonD)
  qed
  have p_only: "y = x" if "y \<noteq> c" "map_of m1 y = Some p" for y
  proof -
    have "y \<notin> V" using agree [of y] that m(2) p unfolding single_def by (metis UNIV_I insertI2)
    then show ?thesis using x(3) that by simp
  qed
  have "along cs (dict_set c d m1)" using m1 m(3) c(1) by (auto simp: extends_def along_def dict_simps)
  moreover have "\<forall>y \<in> V. map_of (dict_set c d m1) y = map_of m y" using agree c(2) by (auto simp: dict_simps)
  moreover have "\<exists>y. y \<notin> V \<and> map_of (dict_set c d m1) y = Some d \<and>
      (\<forall>c'. c' \<notin> V \<longrightarrow> map_of (dict_set c d m1) c' = Some d \<longrightarrow> c' = y)"
    using c(2) no_d by (intro exI [of _ c]) (auto simp: dict_simps)
  moreover have "single (dict_set c d m1) (- {d})"
    unfolding single_def
  proof (intro allI impI)
    fix a b e
    assume a: "map_of (dict_set c d m1) a = Some e" and b: "map_of (dict_set c d m1) b = Some e"
      and e: "e \<in> - {d}"
    then have ab: "a \<noteq> c" "b \<noteq> c" "map_of m1 a = Some e" "map_of m1 b = Some e"
      by (auto simp: dict_simps split: if_splits)
    show "a = b"
    proof (cases "e = p")
      case True
      then show ?thesis using p_only [of a] p_only [of b] ab by simp
    next
      case False
      then show ?thesis using sing ab unfolding single_def by (metis ComplI singletonD)
    qed
  qed
  moreover have "e \<in> ran (map_of (dict_set c d m1)) \<longleftrightarrow> e \<in> ran (map_of m)" if e: "e \<noteq> d" for e
  proof (cases "e = p")
    case True
    have "map_of (dict_set c d m1) x = Some p" using x(1,2) by (simp add: dict_get_set)
    then show ?thesis using True p by (meson ranI)
  next
    case False
    have "map_of m1 c \<noteq> Some e" using agree [of c] p False by simp
    then have "(\<exists>x. x \<noteq> c \<and> map_of m1 x = Some e) \<longleftrightarrow> e \<in> ran (map_of m1)" by (auto simp: ran_def)
    then show ?thesis unfolding ran_set_other [OF e] using ran1 [OF False] by simp
  qed
  ultimately show ?thesis unfolding extends_def by blast
qed

lemma try_claims_some:
  assumes "try_claims cs fuel d xs visited m = (seen, Some m')" "along cs m" "single m UNIV"
    "d < length cs" "set xs \<subseteq> set (cs ! d)" "\<forall>c. map_of m c = Some d \<longrightarrow> c \<in> set visited"
  shows "extends cs d (set visited) m m'"
  using assms
proof (induction cs fuel d xs visited m arbitrary: seen m' rule: try_claims.induct)
  case (1 cs fuel d visited m)
  then show ?case by simp
next
  case (2 cs fuel d c rest visited m)
  show ?case
  proof (cases "c \<in> set visited")
    case True
    then show ?thesis using 2 by simp
  next
    case new: False
    show ?thesis
    proof (cases "map_of m c")
      case None
      then show ?thesis using 2(4-) new by (auto intro: extends_free)
    next
      case (Some p)
      obtain k where k: "fuel = Suc k" using 2(4) new Some by (cases fuel) auto
      obtain seen1 r where call: "try_claims cs k p (cs ! p) (c # visited) m = (seen1, r)" by fastforce
      have pl: "p < length cs" using 2(5) Some by (auto simp: along_def)
      have pv: "\<forall>x. map_of m x = Some p \<longrightarrow> x \<in> set (c # visited)"
        using 2(6) Some by (auto simp: single_def)
      show ?thesis
      proof (cases r)
        case None
        have rest: "try_claims cs fuel d rest seen1 m = (seen, Some m')"
          using 2(4) new Some k call None by simp
        have sub: "set visited \<subseteq> set seen1"
          using visited_grows [of "c # visited" cs k p "cs ! p" m] call by simp
        have "extends cs d (set seen1) m m'"
          by (rule 2(3) [OF new \<open>map_of m c = Some p\<close> k _ None rest])
            (use call None 2(5-) sub in auto)
        then show ?thesis using sub 2(9) by (rule extends_weaken)
      next
        case (Some m1)
        have "extends cs p (set (c # visited)) m m1"
          using 2(2) [OF new \<open>map_of m c = Some p\<close> k] call Some 2(5,6) pl pv by simp
        moreover have "m' = dict_set c d m1" using 2(4) new \<open>map_of m c = Some p\<close> k call Some by simp
        ultimately show ?thesis using extends_shift [of cs m d c "set visited" p m1] 2(5-) new \<open>map_of m c = Some p\<close>
          by simp
      qed
    qed
  qed
qed

section \<open>A failing call leaves a closed set of claims\<close>

lemma candidates_in_all: "p < length cs \<Longrightarrow> set (cs ! p) \<subseteq> set (concat cs)"
  by (metis UN_upper nth_mem set_concat)

lemma try_claims_none:
  assumes "try_claims cs fuel d xs visited m = (seen, None)" "card (set (concat cs) - set visited) \<le> fuel"
    "set xs \<subseteq> set (concat cs)" "along cs m"
  shows "set xs \<subseteq> set seen \<and> (\<forall>c \<in> set seen - set visited. \<exists>p. map_of m c = Some p \<and> set (cs ! p) \<subseteq> set seen)"
  using assms
proof (induction cs fuel d xs visited m arbitrary: seen rule: try_claims.induct)
  case (1 cs fuel d visited m)
  then show ?case by simp
next
  case (2 cs fuel d c rest visited m)
  let ?all = "set (concat cs)"
  show ?case
  proof (cases "c \<in> set visited")
    case True
    have "try_claims cs fuel d rest visited m = (seen, None)" using 2(4) True by simp
    moreover from this have "c \<in> set seen" using visited_grows [of visited cs fuel d rest m] True by auto
    ultimately show ?thesis using 2(1) [OF True _ 2(5) _ 2(7)] 2(6) by simp
  next
    case new: False
    then obtain p where p: "map_of m c = Some p" using 2(4) by (cases "map_of m c") auto
    have pl: "set (cs ! p) \<subseteq> ?all" using p 2(7) unfolding along_def by (metis candidates_in_all)
    have "c \<in> ?all - set visited" using 2(6) new by simp
    then have less: "card (?all - set (c # visited)) < card (?all - set visited)"
      by (intro psubset_card_mono) auto
    then have "0 < fuel" using 2(5) by linarith
    then obtain k where k: "fuel = Suc k" by (cases fuel) simp_all
    obtain w r where call: "try_claims cs k p (cs ! p) (c # visited) m = (w, r)" by fastforce
    have none: "r = None" and rest: "try_claims cs fuel d rest w m = (seen, None)"
      using 2(4) new p k call by (auto split: option.splits)
    have inner: "set (cs ! p) \<subseteq> set w \<and>
        (\<forall>x \<in> set w - set (c # visited). \<exists>p. map_of m x = Some p \<and> set (cs ! p) \<subseteq> set w)"
      using 2(2) [OF new p k] call none less k 2(5,7) pl by simp
    have sub: "set (c # visited) \<subseteq> set w" "set w \<subseteq> set seen"
      using visited_grows [of "c # visited" cs k p "cs ! p" m] visited_grows [of w cs fuel d rest m] call rest
      by simp_all
    have "card (?all - set w) \<le> fuel" using card_mono [of "?all - set visited" "?all - set w"] sub(1) 2(5) by fastforce
    then have outer: "set rest \<subseteq> set seen \<and>
        (\<forall>x \<in> set seen - set w. \<exists>p. map_of m x = Some p \<and> set (cs ! p) \<subseteq> set seen)"
      using 2(3) [OF new p k _ none rest] call none 2(6,7) by simp
    have "\<exists>q. map_of m x = Some q \<and> set (cs ! q) \<subseteq> set seen" if x: "x \<in> set seen - set visited" for x
    proof (cases "x \<in> set w")
      case True
      then show ?thesis using inner p x sub(2) by (cases "x = c") (auto, blast)
    next
      case False
      then show ?thesis using outer x by blast
    qed
    then show ?thesis using outer sub by auto
  qed
qed

text \<open>A system of distinct claims: one candidate for every dimension, no claim twice.\<close>

definition distinct_claims :: "nat list list \<Rightarrow> (nat \<Rightarrow> nat) \<Rightarrow> bool" where
  "distinct_claims cs f = (inj_on f {..<length cs} \<and> (\<forall>d < length cs. f d \<in> set (cs ! d)))"

lemma augment_none:
  assumes "snd (augment cs d m) = None" "along cs m" "single m UNIV" "d < length cs" "d \<notin> ran (map_of m)"
  shows "\<not> distinct_claims cs f"
proof
  assume f: "distinct_claims cs f"
  obtain w where w: "try_claims cs (length (concat cs)) d (cs ! d) [] m = (w, None)"
    using assms(1) unfolding augment_def by (metis prod.collapse)
  have "set (cs ! d) \<subseteq> set (concat cs)" by (rule candidates_in_all) fact
  then have closed: "set (cs ! d) \<subseteq> set w" "\<forall>c \<in> set w. \<exists>p. map_of m c = Some p \<and> set (cs ! p) \<subseteq> set w"
    using try_claims_none [OF w _ _ assms(2)] card_length [of "concat cs"] by auto
  define partner where "partner c = the (map_of m c)" for c
  have partner: "map_of m c = Some (partner c)" "set (cs ! partner c) \<subseteq> set w" if "c \<in> set w" for c
    using closed(2) that unfolding partner_def by fastforce+
  let ?ds = "insert d (partner ` set w)"
  have "inj_on partner (set w)"
  proof (rule inj_onI)
    fix a b assume "a \<in> set w" "b \<in> set w" "partner a = partner b"
    then show "a = b" using partner(1) [of a] partner(1) [of b] assms(3) unfolding single_def by auto
  qed
  moreover have "d \<notin> partner ` set w"
  proof
    assume "d \<in> partner ` set w"
    then obtain c where "map_of m c = Some d" using partner(1) by auto
    then show False using assms(5) by (auto simp: ran_def)
  qed
  ultimately have card: "card ?ds = Suc (card (set w))" by (simp add: card_image)
  have lt: "?ds \<subseteq> {..<length cs}" using assms(2,4) partner(1) by (auto simp: along_def)
  have "f ` ?ds \<subseteq> set w"
  proof
    fix x assume "x \<in> f ` ?ds"
    then obtain e where e: "e \<in> ?ds" "x = f e" by blast
    then have "x \<in> set (cs ! e)" using f lt unfolding distinct_claims_def by auto
    then show "x \<in> set w" using e(1) closed(1) partner(2) by auto
  qed
  moreover have "card (f ` ?ds) = card ?ds"
    using f lt unfolding distinct_claims_def by (meson card_image inj_on_subset)
  ultimately show False using card card_mono [of "set w" "f ` ?ds"] by simp
qed

lemma augment_some:
  assumes "snd (augment cs d m) = Some m'" "along cs m" "single m UNIV" "d < length cs" "d \<notin> ran (map_of m)"
  shows "along cs m'" "single m' UNIV" "ran (map_of m') = insert d (ran (map_of m))"
proof -
  obtain w where w: "try_claims cs (length (concat cs)) d (cs ! d) [] m = (w, Some m')"
    using assms(1) unfolding augment_def by (metis prod.collapse)
  have e: "extends cs d {} m m'"
    using try_claims_some [OF w assms(2,3,4)] assms(5) by (auto simp: ran_def)
  then show "along cs m'" by (simp add: extends_def)
  obtain c where c: "map_of m' c = Some d" "\<And>y. map_of m' y = Some d \<Longrightarrow> y = c"
    using e unfolding extends_def by blast
  show "single m' UNIV"
    unfolding single_def
  proof (intro allI impI)
    fix a b q assume ab: "map_of m' a = Some q" "map_of m' b = Some q"
    show "a = b"
    proof (cases "q = d")
      case True
      then show ?thesis using c(2) ab by metis
    next
      case False
      then show ?thesis using e ab unfolding extends_def single_def by (metis ComplI singletonD)
    qed
  qed
  show "ran (map_of m') = insert d (ran (map_of m))"
    using e c(1) unfolding extends_def by (auto intro: ranI)
qed

section \<open>Every dimension is covered exactly when distinct claims exist\<close>

lemma cover_complete:
  assumes "distinct_claims cs f" "along cs m" "single m UNIV" "distinct ds" "set ds \<subseteq> {..<length cs}"
    "set ds \<inter> ran (map_of m) = {}"
  shows "cover cs ds m = ds"
  using assms
proof (induction ds arbitrary: m)
  case (Cons d ds)
  have d: "d < length cs" "d \<notin> ran (map_of m)" using Cons.prems by auto
  obtain m' where m': "snd (augment cs d m) = Some m'"
    using augment_none [OF _ Cons.prems(2,3) d] Cons.prems(1) by (cases "snd (augment cs d m)") auto
  show ?case
    using Cons.IH [OF Cons.prems(1) augment_some(1,2) [OF m' Cons.prems(2,3) d]] Cons.prems(4-) m'
      augment_some(3) [OF m' Cons.prems(2,3) d] by auto
qed simp

lemma cover_subset: "set (cover cs ds m) \<subseteq> set ds"
  by (induction ds arbitrary: m) (auto split: option.splits)

lemma cover_sound:
  assumes "set ds \<subseteq> set (cover cs ds m)" "along cs m" "single m UNIV" "distinct ds" "set ds \<subseteq> {..<length cs}"
    "set ds \<inter> ran (map_of m) = {}"
  shows "\<exists>m'. along cs m' \<and> single m' UNIV \<and> ran (map_of m') = ran (map_of m) \<union> set ds"
  using assms
proof (induction ds arbitrary: m)
  case Nil
  then show ?case by auto
next
  case (Cons d ds)
  have d: "d < length cs" "d \<notin> ran (map_of m)" using Cons.prems by auto
  obtain m' where m': "snd (augment cs d m) = Some m'"
    using Cons.prems(1,4) cover_subset [of cs ds m] by (cases "snd (augment cs d m)") auto
  note a = augment_some [OF m' Cons.prems(2,3) d]
  have "set ds \<subseteq> set (cover cs ds m')" using Cons.prems(1,4) m' by auto
  then obtain m2 where "along cs m2" "single m2 UNIV" "ran (map_of m2) = ran (map_of m') \<union> set ds"
    using Cons.IH [OF _ a(1,2)] Cons.prems(4-) a(3) by auto
  then show ?case using a(3) by auto
qed

lemma assign_distinct_claims_exact:
  "(\<forall>d < length cs. d \<in> set (assign_distinct_claims cs)) \<longleftrightarrow> (\<exists>f. distinct_claims cs f)"
proof
  assume "\<forall>d < length cs. d \<in> set (assign_distinct_claims cs)"
  then have "set [0..<length cs] \<subseteq> set (cover cs [0..<length cs] [])" by (auto simp: assign_distinct_claims_def)
  then have "\<exists>m. along cs m \<and> single m UNIV \<and> ran (map_of m) = ran (map_of ([] :: assignment)) \<union> set [0..<length cs]"
    by (rule cover_sound) (auto simp: along_def single_def)
  then obtain m where m: "along cs m" "single m UNIV" "ran (map_of m) = {..<length cs}"
    by (auto simp: atLeast0LessThan)
  have "\<exists>c. map_of m c = Some d" if "d < length cs" for d using m(3) that by (auto simp: ran_def)
  then obtain f where f: "\<And>d. d < length cs \<Longrightarrow> map_of m (f d) = Some d" by metis
  have "inj_on f {..<length cs}" using f by (intro inj_onI) (metis lessThan_iff option.inject)
  moreover have "\<forall>d < length cs. f d \<in> set (cs ! d)" using f m(1) by (auto simp: along_def)
  ultimately show "\<exists>f. distinct_claims cs f" unfolding distinct_claims_def by blast
next
  assume "\<exists>f. distinct_claims cs f"
  then obtain f where f: "distinct_claims cs f" ..
  have "cover cs [0..<length cs] [] = [0..<length cs]"
    by (rule cover_complete [OF f]) (auto simp: along_def single_def)
  then show "\<forall>d < length cs. d \<in> set (assign_distinct_claims cs)" by (simp add: assign_distinct_claims_def)
qed

end
