(* ===== verification/Response_Checks.thy ===== *)
theory Response_Checks
  imports Response_Prompts Extractive_Fallback Claim_Assignment Sparse_Index Research_Rounds
begin

text \<open>
  The parts of the grounded response service (llm/response_service.py) that need no language model: the
  failures of a provider and what they lead to, the rendering of drafts and of typed analysis results, and
  the checks of a draft, with the coverage of the dimensions of a comparison.
\<close>

section \<open>The language model\<close>

text \<open>The exceptions of llm/exceptions.py a call can end with, \<open>TimeoutError\<close> and \<open>ValidationError\<close>, and any
  other exception.\<close>

datatype llm_failure = LLM_dependency_unavailable | LLM_timeout | LLM_http_status nat
  | LLM_invalid_response string | LLM_refusal | LLM_validation_error | LLM_provider_error | LLM_other

record llm_metadata =
  lm_provider :: string
  lm_model :: string
  lm_response_id :: "string option"

record llm_usage =
  lu_input_tokens :: "nat option"
  lu_output_tokens :: "nat option"

record llm_generation =
  lg_draft :: answer_draft
  lg_metadata :: llm_metadata
  lg_usage :: llm_usage

fun provider_fallback_reason :: "llm_failure \<Rightarrow> fallback_reason" where
  "provider_fallback_reason LLM_dependency_unavailable = FR_provider_unavailable"
| "provider_fallback_reason LLM_timeout = FR_provider_timeout"
| "provider_fallback_reason (LLM_http_status _) = FR_provider_http_error"
| "provider_fallback_reason (LLM_invalid_response category) =
     (if category = ''prohibited_reasoning'' then FR_prohibited_reasoning else FR_invalid_structured_output)"
| "provider_fallback_reason LLM_refusal = FR_invalid_structured_output"
| "provider_fallback_reason LLM_validation_error = FR_invalid_structured_output"
| "provider_fallback_reason LLM_provider_error = FR_unknown_provider_failure"
| "provider_fallback_reason LLM_other = FR_unknown_provider_failure"

section \<open>Rendering\<close>

definition rstrip :: "string \<Rightarrow> string" where
  "rstrip s = rev (dropWhile is_space (rev s))"

definition render_claim :: "grounded_claim \<Rightarrow> string" where
  "render_claim c =
     rstrip (gc_text c @ '' '' @
       concat (map (\<lambda>i. ''['' @ i @ '']'') (unique_first (gc_supporting_evidence_ids c))))"

definition render_draft :: "answer_draft \<Rightarrow> string" where
  "render_draft d = join_text (nl @ nl) (dr_answer_summary d # map render_claim (dr_claims d))"

definition replace_char :: "char \<Rightarrow> string \<Rightarrow> string \<Rightarrow> string" where
  "replace_char c t s = concat (map (\<lambda>x. if x = c then t else [x]) s)"

definition markdown_cell :: "string \<Rightarrow> string" where
  "markdown_cell s =
     replace_char (CHR 10) '' '' (replace_char (CHR 13) '' '' (replace_char CHR ''|'' [CHR 0x5C, CHR ''|''] s))"

text \<open>The em dash of an empty cell is the one character outside ASCII; code 151 stands for it.  How Python
  writes a float is the argument \<open>number_text\<close>.\<close>

definition EM_DASH :: string where "EM_DASH = [CHR 0x97]"

definition item_row :: "analysis_item \<Rightarrow> string" where
  "item_row i =
     (let incidents = join_text '', '' (map markdown_cell (ai_incident_ids i)) in
      ''| '' @ markdown_cell (ai_key i) @ '' | '' @ show_nat (ai_count i) @ '' | '' @
      (if incidents = [] then EM_DASH else incidents) @ '' |'')"

definition result_section :: "(real \<Rightarrow> string) \<Rightarrow> analysis_result \<Rightarrow> string list" where
  "result_section number_text a =
     (if an_items a \<noteq> [] then
        (let label = (if an_operation a = AO_recurring_root_causes then ''Root cause'' else ''Category'') in
         [join_text nl ([''| '' @ label @ '' | Count | Supporting incidents |'', ''|---|---:|---|''] @
            map item_row (an_items a))])
      else case an_scalar_value a of
        Some x \<Rightarrow> [''Result: '' @ number_text x]
      | None \<Rightarrow>
          (if an_statistics a = [] then []
           else [join_text nl ([''| Statistic | Value |'', ''|---|---:|''] @
             map (\<lambda>(name, x). ''| '' @ markdown_cell name @ '' | '' @ number_text x @ '' |'') (an_statistics a))]))"

definition provenance_section :: "analysis_result \<Rightarrow> string" where
  "provenance_section a =
     ''Provenance'' @ nl @ join_text nl
       ([''- Operation: `'' @ operation_text (an_operation a) @ ''`'',
         ''- Authorized rows considered: '' @ show_nat (an_row_count_considered a),
         ''- Rows excluded: '' @ show_nat (an_row_count_excluded a),
         ''- Algorithm version: `'' @ markdown_cell (ap_algorithm_version (an_provenance a)) @ ''`''] @
        (case ap_taxonomy_version (an_provenance a) of
           None \<Rightarrow> []
         | Some v \<Rightarrow> [''- Taxonomy version: `'' @ markdown_cell v @ ''`'']))"

definition render_analysis_result :: "(real \<Rightarrow> string) \<Rightarrow> analysis_result \<Rightarrow> string" where
  "render_analysis_result number_text a =
     join_text (nl @ nl) ([an_summary a] @ result_section number_text a @ [provenance_section a])"

definition deterministic_response :: "string \<Rightarrow> string \<Rightarrow> string \<Rightarrow> grounded_response" where
  "deterministic_response answer model prompt_version =
     \<lparr> gr_answer_text = answer, gr_citations = [], gr_provider = ''deterministic'', gr_model = model,
       gr_prompt_version = prompt_version, gr_deterministic_fallback_used = False,
       gr_deterministic_analysis_rendering_used = False, gr_fallback_reason = None,
       gr_insufficient_evidence = False, gr_uncertainty = None \<rparr>"

section \<open>Checks of a draft\<close>

definition require_citations :: "citation_validation \<Rightarrow> string list \<Rightarrow> citation_validation" where
  "require_citations v required =
     (if \<not> cv_valid v \<or> required = [] then v
      else if set required \<subseteq> set (map vc_marker (cv_citations v)) then v
      else v\<lparr> cv_valid := False, cv_errors := cv_errors v @
        [''citation_validation_failed: required comparison dimension is uncited''] \<rparr>)"

definition append_validation_errors :: "citation_validation \<Rightarrow> string list \<Rightarrow> citation_validation" where
  "append_validation_errors v errors =
     (if errors = [] then v
      else v\<lparr> cv_valid := False, cv_errors := unique_first (cv_errors v @ errors) \<rparr>)"

definition hyphens_to_spaces :: "string \<Rightarrow> string" where
  "hyphens_to_spaces = replace_char CHR ''-'' '' ''"

definition is_temporal :: "string \<Rightarrow> bool" where
  "is_temporal term =
     (term \<in> set (map casefold month_names) \<or> (term \<noteq> [] \<and> list_all is_digit term))"

definition claim_mentions_dimension :: "string \<Rightarrow> string \<Rightarrow> bool" where
  "claim_mentions_dimension text dimension =
     (let claim = hyphens_to_spaces (casefold text);
          terms = rx_findall False TOKENS (hyphens_to_spaces (casefold dimension));
          temporal = filter is_temporal terms;
          subject = filter (\<lambda>t. \<not> is_temporal t \<and> t \<notin> {''in'', ''the'', ''of'', ''for''}) terms in
      list_all (\<lambda>t. contains_text t claim) temporal \<and>
      (subject = [] \<or> list_ex (\<lambda>t. contains_text t claim) subject))"

definition plain_words :: "string \<Rightarrow> string" where
  "plain_words s = hyphens_to_spaces (replace_char CHR ''_'' '' '' (casefold s))"

definition text_supports_facet :: "string \<Rightarrow> string \<Rightarrow> bool" where
  "text_supports_facet text facet =
     (if plain_words facet = ''message accumulation'' then contains_text ''accumulat'' (plain_words text)
      else contains_text (plain_words facet) (plain_words text))"

abbreviation absence_filler :: rx where
  "absence_filler \<equiv> Rep 0 (Some 40) True (Cls False [CWord, COne CHR '' '', COne CHR ''-''])"

definition FALSE_EVIDENCE_ABSENCE :: rx where
  "FALSE_EVIDENCE_ABSENCE = Alt
     (seqs [Boundary, lits [''no'', ''without'', ''missing'', ''absent'', ''unsupported'', ''insufficient''], Boundary,
       absence_filler, Boundary, lits [''evidence'', ''source'', ''record'', ''document''], rx_opt (Lit ''s''), Boundary])
     (seqs [Boundary, lits [''evidence'', ''source'', ''record'', ''document''], rx_opt (Lit ''s''), Boundary,
       absence_filler, Boundary, lits [''missing'', ''absent'', ''unavailable'', ''not found''], Boundary])"

text \<open>The claims that can cover a dimension: they cite required evidence and mention the dimension.\<close>

definition covers_dimension :: "grounded_claim \<Rightarrow> requirement \<Rightarrow> bool" where
  "covers_dimension c r =
     (set (gc_supporting_evidence_ids c) \<inter> set (snd r) \<noteq> {} \<and> claim_mentions_dimension (gc_text c) (fst r))"

definition factual_claims :: "answer_draft \<Rightarrow> grounded_claim list" where
  "factual_claims d = filter gc_factual (dr_claims d)"

definition dimension_candidates :: "grounded_claim list \<Rightarrow> requirement list \<Rightarrow> nat list list" where
  "dimension_candidates claims requirements =
     map (\<lambda>r. map fst (filter (\<lambda>(_, c). covers_dimension c r) (enumerate 0 claims))) requirements"

definition uncovered_dimensions :: "answer_draft \<Rightarrow> requirement list \<Rightarrow> string list" where
  "uncovered_dimensions d requirements =
     (let assigned = assign_distinct_claims (dimension_candidates (factual_claims d) requirements) in
      map (fst \<circ> snd) (filter (\<lambda>(i, _). i \<notin> set assigned) (enumerate 0 requirements)))"

definition falsely_unsupported :: "answer_draft \<Rightarrow> bool" where
  "falsely_unsupported d =
     (dr_insufficient_evidence d \<or> dr_clarification_needed d \<or>
      rx_search True FALSE_EVIDENCE_ABSENCE
        (join_text '' '' ([dr_answer_summary d] @ map gc_text (dr_claims d) @ dr_warnings d)))"

definition comparison_claim_valid :: "answer_draft \<Rightarrow> requirement list \<Rightarrow> string list \<Rightarrow> bool" where
  "comparison_claim_valid d requirements shared_facets =
     (shared_facets = [] \<or>
      list_ex (\<lambda>c. list_all (\<lambda>r. set (gc_supporting_evidence_ids c) \<inter> set (snd r) \<noteq> {}) requirements \<and>
        list_all (text_supports_facet (gc_text c)) shared_facets) (factual_claims d))"

definition validate_comparison_draft ::
  "answer_draft \<Rightarrow> citation_validation \<Rightarrow> requirement list \<Rightarrow> string list \<Rightarrow> citation_validation \<times> string list"
where
  "validate_comparison_draft d v requirements shared_facets =
     (if requirements = [] then (v, [])
      else
        let missing = uncovered_dimensions d requirements;
            errors = cv_errors v @
              (if missing \<noteq> [] then [''research_dimension_validation_failed: comparison dimension is uncovered''] else []) @
              (if falsely_unsupported d
               then [''research_dimension_validation_failed: supplied evidence was described as absent''] else []) @
              (if \<not> comparison_claim_valid d requirements shared_facets
               then [''research_dimension_validation_failed: shared comparison facets are uncovered''] else []) in
        if errors = [] then (v, [])
        else (v\<lparr> cv_valid := False, cv_errors := errors \<rparr>,
          if missing \<noteq> [] then missing
          else if \<not> comparison_claim_valid d requirements shared_facets then [''shared comparison conclusion'']
          else map fst requirements))"

end
