(* ===== verification/Response_Service.thy ===== *)
theory Response_Service
  imports Response_Checks
begin

text \<open>
  The grounded response service (llm/response_service.py): generation, bounded repair, the deterministic
  fallback, and the answers to a retrieval and to a research.  The language model is a field of the
  environment: what it answers to the n-th request of a response.  So is the build fingerprint of the ingestion
  manifest, \<open>None\<close> when it cannot be read; it does not change while a response is generated.  The operations that call it also return
  the requests they sent, in order.
\<close>

record response_environment =
  env_settings :: retrieval_settings
  env_build :: "ingestion_build option"
  env_fingerprint :: "string option"
  env_provider :: "nat \<Rightarrow> llm_request \<Rightarrow> (llm_failure, llm_generation) result"

datatype response_error =
  Provider_failed llm_failure | Chunks_unreadable retrieval_error | Manifest_unreadable | Draft_rejected

type_synonym reply = "grounded_response \<times> answer_draft \<times> citation_validation \<times> nat"

text \<open>\<open>_generate\<close>: a draft that violates its contract is a validation error.\<close>

definition generate ::
  "response_environment \<Rightarrow> nat \<Rightarrow> llm_request \<Rightarrow> (llm_failure, llm_generation) result" where
  "generate env n request =
     bind_result (env_provider env n request)
       (\<lambda>g. if answer_draft_ok (lg_draft g) then Return g else Raise LLM_validation_error)"

section \<open>Answers to an analysis\<close>

definition analysis_response ::
  "response_environment \<Rightarrow> (real \<Rightarrow> string) \<Rightarrow> string \<Rightarrow> analysis_result \<Rightarrow> grounded_response" where
  "analysis_response env number_text question a =
     (deterministic_response
        (take (llm_max_answer_characters (env_settings env)) (render_analysis_result number_text a))
        ''typed-analysis'' ''analysis-1.0'')
       \<lparr> gr_deterministic_analysis_rendering_used := True \<rparr>"

section \<open>One response\<close>

record response_options =
  op_maximum_calls :: "nat option"
  op_require_all_evidence_ids :: bool
  op_context_override :: "context_item list"
  op_dimensions :: "string list"
  op_comparison_ids :: "requirement list"
  op_shared_facets :: "string list"

definition default_options :: response_options where
  "default_options = \<lparr> op_maximum_calls = None, op_require_all_evidence_ids = False, op_context_override = [],
     op_dimensions = [], op_comparison_ids = [], op_shared_facets = [] \<rparr>"

text \<open>What stays fixed while a response is generated.\<close>

record response_case =
  qc_question :: string
  qc_context :: "context_item list"
  qc_principal :: authenticated_principal
  qc_options :: response_options
  qc_identifiers :: "string list"
  qc_requirements :: "requirement list"
  qc_request :: llm_request

definition requested_documents ::
  "response_environment \<Rightarrow> enterprise_identifier list \<Rightarrow> (response_error, (string \<times> uuid set) list) result" where
  "requested_documents env identifiers =
     (if identifiers = [] then Return []
      else case load_current_chunks (env_build env) of
        Inl e \<Rightarrow> Raise (Chunks_unreadable e)
      | Inr b \<Rightarrow> Return (identifier_document_ids (ib_chunks b) identifiers))"

definition response_context ::
  "response_environment \<Rightarrow> hybrid_evidence list \<Rightarrow> response_options \<Rightarrow> enterprise_identifier list \<Rightarrow>
   (string \<times> uuid set) list \<Rightarrow> context_item list" where
  "response_context env evidence opts identifiers documents =
     (let context = (if op_context_override opts \<noteq> [] then op_context_override opts
            else build_evidence_context evidence (env_settings env) None) in
      if identifiers = [] then context
      else filter (\<lambda>i. ec_document_id i \<in> \<Union> (set (map snd documents))) context)"

definition identifier_requirements ::
  "context_item list \<Rightarrow> enterprise_identifier list \<Rightarrow> (string \<times> uuid set) list \<Rightarrow> requirement list" where
  "identifier_requirements context identifiers documents =
     map (\<lambda>i. (eid_normalized i, map ec_model_id (filter (\<lambda>c. ec_document_id c \<in>
         (case map_of documents (eid_normalized i) of None \<Rightarrow> {} | Some ds \<Rightarrow> ds)) context))) identifiers"

definition IDENTIFIER_INSTRUCTIONS :: string where
  "IDENTIFIER_INSTRUCTIONS =
     '' Answer only the requested normalized enterprise identifiers. '' @
     ''Every factual claim must cite evidence belonging to a requested '' @
     ''identifier; do not substitute a semantically similar record.''"

definition identifier_request :: "retrieval_settings \<Rightarrow> string list \<Rightarrow> llm_request \<Rightarrow> llm_request" where
  "identifier_request s identifiers request =
     (if identifiers = [] then request
      else request
        \<lparr> lq_instructions := lq_instructions request @ IDENTIFIER_INSTRUCTIONS,
          lq_input_text := append_prompt_section (lq_input_text request)
            (nl @ nl @ ''REQUESTED NORMALIZED IDENTIFIERS:'' @ nl @ json_strings identifiers)
            (llm_max_prompt_characters s) \<rparr>)"

definition prepare ::
  "response_environment \<Rightarrow> string \<Rightarrow> hybrid_evidence list \<Rightarrow> authenticated_principal \<Rightarrow> response_options \<Rightarrow>
   (response_error, response_case) result" where
  "prepare env question evidence p opts =
     (let s = env_settings env; identifiers = extract_enterprise_identifiers question in
      bind_result (requested_documents env identifiers) (\<lambda>documents.
        let context = response_context env evidence opts identifiers documents;
            names = map eid_normalized identifiers;
            request = (if op_dimensions opts \<noteq> []
              then research_synthesis_request question context (op_dimensions opts) (op_shared_facets opts) s
              else grounded_request question context s) in
        Return \<lparr> qc_question = question, qc_context = context, qc_principal = p, qc_options = opts,
          qc_identifiers = names, qc_requirements = identifier_requirements context identifiers documents,
          qc_request = identifier_request s names request \<rparr>))"

section \<open>Fallbacks\<close>

definition checked_citations ::
  "response_environment \<Rightarrow> response_case \<Rightarrow> answer_draft \<Rightarrow> (response_error, citation_validation) result" where
  "checked_citations env c d =
     (case validate_draft_citations d (qc_context c) (qc_principal c) (llm_max_citations (env_settings env))
             (env_fingerprint env) of
        None \<Rightarrow> Raise Manifest_unreadable
      | Some v \<Rightarrow> Return v)"

text \<open>Identifiers are repaired first; what cannot be repaired is an error of the citations.\<close>

definition repaired_draft ::
  "response_environment \<Rightarrow> response_case \<Rightarrow> answer_draft \<Rightarrow>
   (response_error, answer_draft \<times> citation_validation) result" where
  "repaired_draft env c d =
     (let v = validate_and_repair_response_identifiers d (qc_requirements c) in
      bind_result (checked_citations env c (iv_draft v)) (\<lambda>checked.
        Return (iv_draft v, append_validation_errors checked (iv_errors v))))"

definition unverifiable_draft :: answer_draft where
  "unverifiable_draft =
     \<lparr> dr_answer_summary = ''The authorized evidence could not be rendered with verified citations.'',
       dr_claims = [], dr_warnings = [], dr_insufficient_evidence = True, dr_clarification_needed = False \<rparr>"

definition fallback_response ::
  "response_environment \<Rightarrow> response_case \<Rightarrow> fallback_reason \<Rightarrow>
   (response_error, grounded_response \<times> answer_draft \<times> citation_validation) result" where
  "fallback_response env c reason =
     (let s = env_settings env in
      case build_extractive_fallback (qc_question c) (qc_context c) (min 4 (llm_max_citations s))
             (llm_max_answer_characters s) of
        Inl _ \<Rightarrow> Raise Draft_rejected
      | Inr x \<Rightarrow>
          bind_result (repaired_draft env c (xt_draft x)) (\<lambda>(d, checked).
            let aligned = validate_identifier_alignment d checked (qc_context c) (qc_requirements c);
                final = (if cv_valid aligned then d else unverifiable_draft) in
            bind_result (if cv_valid aligned then Return aligned else checked_citations env c unverifiable_draft) (\<lambda>v.
              Return
                ((deterministic_response (take (llm_max_answer_characters s) (render_draft final)) ''none''
                    ''extractive-1.0'')
                   \<lparr> gr_citations := cv_citations v, gr_deterministic_fallback_used := True,
                     gr_fallback_reason := Some reason,
                     gr_insufficient_evidence := dr_insufficient_evidence final,
                     gr_uncertainty := Some ''degraded_deterministic_rendering'' \<rparr>,
                 final, v))))"

definition comparison_fallback_response ::
  "response_environment \<Rightarrow> context_item list \<Rightarrow> string list \<Rightarrow> grounded_response" where
  "comparison_fallback_response env context unvalidated =
     (let labels = join_text ''; '' (unique_first unvalidated);
          answer = ''Authorized evidence was supplied for the requested comparison, but a complete '' @
            ''grounded comparison could not be validated.'' @
            (if labels = [] then [] else '' Unvalidated response dimensions: '' @ labels @ ''.'') in
      (deterministic_response (take (llm_max_answer_characters (env_settings env)) answer) ''none'' ''research-1.0'')
        \<lparr> gr_citations := map citation_from_context context, gr_deterministic_fallback_used := True,
          gr_fallback_reason := Some FR_research_dimension_validation_failed, gr_insufficient_evidence := True,
          gr_uncertainty := Some ''generated_comparison_not_validated'' \<rparr>)"

definition no_evidence_reply :: reply where
  "no_evidence_reply =
     (let answer = ''No sufficient authorized evidence was found for this request.'' in
      ((deterministic_response answer ''none'' ''1.0'')
         \<lparr> gr_deterministic_fallback_used := True, gr_insufficient_evidence := True,
           gr_uncertainty := Some ''insufficient_evidence'' \<rparr>,
       unverifiable_draft\<lparr> dr_answer_summary := answer \<rparr>,
       \<lparr> cv_valid = True, cv_errors = [], cv_citations = [] \<rparr>, 0))"

section \<open>Generation, validation and repair\<close>

record assessment =
  as_draft :: answer_draft
  as_validation :: citation_validation
  as_missing :: "string list"

definition assess ::
  "response_environment \<Rightarrow> response_case \<Rightarrow> answer_draft \<Rightarrow> (response_error, assessment) result" where
  "assess env c generated =
     bind_result (repaired_draft env c generated) (\<lambda>(d, checked).
       case validate_comparison_draft d checked (op_comparison_ids (qc_options c))
              (op_shared_facets (qc_options c)) of
         (compared, missing) \<Rightarrow>
           let required = (if op_require_all_evidence_ids (qc_options c)
                 then lq_allowed_evidence_ids (qc_request c) else []) in
           Return \<lparr> as_draft = d,
             as_validation = validate_identifier_alignment d (require_citations compared required)
               (qc_context c) (qc_requirements c),
             as_missing = missing \<rparr>)"

definition may_repair :: "response_environment \<Rightarrow> response_case \<Rightarrow> nat \<Rightarrow> bool" where
  "may_repair env c repairs =
     (repairs < llm_citation_repair_attempts (env_settings env) \<and>
      (case op_maximum_calls (qc_options c) of None \<Rightarrow> True | Some n \<Rightarrow> repairs + 1 < n))"

definition REPAIR_INSTRUCTIONS :: string where
  "REPAIR_INSTRUCTIONS =
     '' Grounding validation failed. Return corrected claims and citations '' @
     ''using only the explicitly allowed evidence IDs. Cover every listed '' @
     ''missing comparison dimension with its own factual claim when dimensions '' @
     ''are listed. Do not include reasoning fields or think markup.''"

definition grounding_repair_request ::
  "response_environment \<Rightarrow> llm_request \<Rightarrow> string list \<Rightarrow> string \<Rightarrow> string list \<Rightarrow> llm_request" where
  "grounding_repair_request env request missing category identifiers =
     request
       \<lparr> lq_instructions := lq_instructions request @ REPAIR_INSTRUCTIONS,
         lq_input_text := append_prompt_section (lq_input_text request)
           (nl @ nl @ ''BOUNDED GROUNDING REPAIR:'' @ nl @ ''validation_category='' @ category @ nl @
            ''allowed_evidence_ids='' @ json_strings (lq_allowed_evidence_ids request) @ nl @
            ''requested_identifiers='' @ json_strings identifiers @ nl @
            ''missing_comparison_dimensions='' @ json_strings missing)
           (llm_max_prompt_characters (env_settings env)) \<rparr>"

fun is_invalid_response :: "llm_failure \<Rightarrow> bool" where
  "is_invalid_response (LLM_invalid_response _) = True"
| "is_invalid_response _ = False"

text \<open>The first generation, with the repair of a comparison whose output was rejected: the requests sent, the
  number of repairs, and the generation or the exception.\<close>

definition first_generation ::
  "response_environment \<Rightarrow> response_case \<Rightarrow> llm_request list \<times> nat \<times> (llm_failure, llm_generation) result" where
  "first_generation env c =
     (let request = qc_request c; dimensions = op_dimensions (qc_options c) in
      case generate env 0 request of
        Inr g \<Rightarrow> ([request], 0, Return g)
      | Inl e \<Rightarrow>
          (if dimensions \<noteq> [] \<and> is_invalid_response e \<and> may_repair env c 0
           then (let again = grounding_repair_request env request dimensions ''provider_output_rejected'' [] in
             ([request, again], 1, generate env 1 again))
           else ([request], 0, Raise e)))"

definition repair_category :: "response_case \<Rightarrow> string" where
  "repair_category c =
     (if qc_identifiers c \<noteq> [] then ''entity_alignment_validation_failed'' else ''grounding_validation_failed'')"

text \<open>The while loop: one repair request per round, until the draft is valid, the attempts or the calls are
  used up, a call fails (\<open>None\<close>) or the check of the new draft raises.  Request number \<open>n\<close> is the n-th
  repair.\<close>

function repair_loop ::
  "response_environment \<Rightarrow> response_case \<Rightarrow> nat \<Rightarrow> assessment \<Rightarrow>
   llm_request list \<times> nat \<times> (response_error, assessment option) result"
where
  "repair_loop env c repairs a =
     (if cv_valid (as_validation a) \<or> \<not> may_repair env c repairs then ([], repairs, Return (Some a))
      else
        let n = Suc repairs;
            request = grounding_repair_request env (qc_request c) (as_missing a) (repair_category c)
              (qc_identifiers c) in
        case generate env n request of
          Inl _ \<Rightarrow> ([request], n, Return None)
        | Inr g \<Rightarrow>
            (case assess env c (lg_draft g) of
               Inl e \<Rightarrow> ([request], n, Raise e)
             | Inr next_assessment \<Rightarrow>
                 (case repair_loop env c n next_assessment of
                    (sent, m, final) \<Rightarrow> (request # sent, m, final))))"
  by pat_completeness auto

termination
  by (relation "measure (\<lambda>(env, _, n, _). llm_citation_repair_attempts (env_settings env) - n)")
    (auto simp: may_repair_def)

declare repair_loop.simps [simp del]

definition with_repairs ::
  "nat \<Rightarrow> (response_error, grounded_response \<times> answer_draft \<times> citation_validation) result \<Rightarrow>
   (response_error, reply) result" where
  "with_repairs n r = bind_result r (\<lambda>(g, d, v). Return (g, d, v, n))"

definition finish_response ::
  "response_environment \<Rightarrow> response_case \<Rightarrow> llm_generation \<Rightarrow> nat \<Rightarrow> assessment option \<Rightarrow>
   (response_error, reply) result" where
  "finish_response env c g n outcome =
     (let s = env_settings env; dimensions = op_dimensions (qc_options c) in
      case outcome of
        None \<Rightarrow> with_repairs n (fallback_response env c FR_citation_validation_failed)
      | Some a \<Rightarrow>
          (let d = as_draft a; v = as_validation a; answer = render_draft d in
           if \<not> cv_valid v then
             (if dimensions \<noteq> []
              then Return (comparison_fallback_response env (qc_context c)
                  (if as_missing a \<noteq> [] then as_missing a else dimensions), d, v, n)
              else with_repairs n (fallback_response env c
                (if qc_identifiers c \<noteq> [] then FR_entity_alignment_validation_failed
                 else FR_citation_validation_failed)))
           else if response_policy_violations answer \<noteq> []
           then with_repairs n (fallback_response env c FR_response_policy_rejected)
           else Return
             ((deterministic_response (take (llm_max_answer_characters s) answer) (lm_model (lg_metadata g)) ''1.0'')
                \<lparr> gr_citations := cv_citations v, gr_provider := lm_provider (lg_metadata g),
                  gr_insufficient_evidence := dr_insufficient_evidence d \<rparr>,
              d, v, n)))"

definition respond ::
  "response_environment \<Rightarrow> response_case \<Rightarrow> llm_request list \<times> (response_error, reply) result" where
  "respond env c =
     (if qc_context c = [] then ([], Return no_evidence_reply)
      else if op_maximum_calls (qc_options c) = Some 0
      then ([], with_repairs 0 (fallback_response env c FR_provider_call_budget_exhausted))
      else case first_generation env c of
        (sent, repairs, Inl e) \<Rightarrow>
          (sent, if \<not> llm_allow_deterministic_fallback (env_settings env) then Raise (Provider_failed e)
            else with_repairs repairs (fallback_response env c (provider_fallback_reason e)))
      | (sent, repairs, Inr g) \<Rightarrow>
          (case assess env c (lg_draft g) of
             Inl e \<Rightarrow> (sent, Raise e)
           | Inr a \<Rightarrow>
               (case repair_loop env c repairs a of
                  (again, n, outcome) \<Rightarrow> (sent @ again, bind_result outcome (finish_response env c g n)))))"

definition retrieval_response ::
  "response_environment \<Rightarrow> string \<Rightarrow> hybrid_evidence list \<Rightarrow> authenticated_principal \<Rightarrow> response_options \<Rightarrow>
   llm_request list \<times> (response_error, reply) result" where
  "retrieval_response env question evidence p opts =
     (case prepare env question evidence p opts of
        Inl e \<Rightarrow> ([], Raise e)
      | Inr c \<Rightarrow> respond env c)"

section \<open>Answers to a research\<close>

definition same_document :: "hybrid_evidence \<Rightarrow> hybrid_evidence \<Rightarrow> bool" where
  "same_document a b = (de_document_id (he_evidence a) = de_document_id (he_evidence b))"

definition dimension_evidence :: "worker_result list \<Rightarrow> string \<Rightarrow> hybrid_evidence list" where
  "dimension_evidence results dimension =
     concat (map wr_evidence (filter (\<lambda>r. wr_comparison_dimension r = Some dimension) results))"

text \<open>The loop over the dimensions: the best evidence of a document not yet seen, else the best; a dimension
  without evidence leaves the comparison without a selection.\<close>

fun select_synthesis ::
  "worker_result list \<Rightarrow> uuid set \<Rightarrow> string list \<Rightarrow> uuid list \<Rightarrow> hybrid_evidence list \<Rightarrow> hybrid_evidence list"
where
  "select_synthesis results available [] seen selected = selected"
| "select_synthesis results available (dimension # dimensions) seen selected =
     (let cs = sort_key context_order
            (filter (\<lambda>h. de_chunk_id (he_evidence h) \<in> available) (dimension_evidence results dimension)) in
      case cs of
        [] \<Rightarrow> []
      | best # _ \<Rightarrow>
          (let choice = (case List.find (\<lambda>h. de_document_id (he_evidence h) \<notin> set seen) cs of
                 None \<Rightarrow> best | Some h \<Rightarrow> h) in
           select_synthesis results available dimensions (de_document_id (he_evidence choice) # seen)
             (if list_all (\<lambda>h. \<not> same_document h choice) selected then selected @ [choice] else selected)))"

definition comparison_synthesis_evidence :: "research_result \<Rightarrow> hybrid_evidence list \<Rightarrow> hybrid_evidence list" where
  "comparison_synthesis_evidence r evidence =
     (let dimensions = pl_required_comparison_dimensions (rs_plan r) in
      if dimensions = [] \<or> ca_status (rs_coverage r) \<noteq> Cov_sufficient then []
      else select_synthesis (rs_worker_results r) (set (map (de_chunk_id \<circ> he_evidence) evidence)) dimensions [] [])"

definition evidence_model_id :: "context_item list \<Rightarrow> hybrid_evidence \<Rightarrow> string option" where
  "evidence_model_id context h =
     (let by_chunk = fold (\<lambda>i. dict_set (ec_chunk_id i) (ec_model_id i)) context [];
          by_document = fold (\<lambda>i. dict_set (ec_document_id i) (ec_model_id i)) context [] in
      case map_of by_chunk (de_chunk_id (he_evidence h)) of
        Some m \<Rightarrow> (if m = [] then map_of by_document (de_document_id (he_evidence h)) else Some m)
      | None \<Rightarrow> map_of by_document (de_document_id (he_evidence h)))"

definition comparison_evidence_ids :: "research_result \<Rightarrow> context_item list \<Rightarrow> requirement list" where
  "comparison_evidence_ids r context =
     filter (\<lambda>q. snd q \<noteq> []) (map (\<lambda>dimension.
         (dimension, unique_first (List.map_filter (evidence_model_id context)
            (dimension_evidence (rs_worker_results r) dimension))))
       (pl_required_comparison_dimensions (rs_plan r)))"

abbreviation label_chars :: "catom list" where
  "label_chars \<equiv> [CRange CHR ''a'' CHR ''z'', CRange CHR ''0'' CHR ''9'']"

definition CATEGORY_LABEL :: rx where
  "CATEGORY_LABEL = seqs [Cls False [CRange CHR ''a'' CHR ''z''], rx_many (Cls False (label_chars @ [COne CHR ''_''])),
     Rep 2 None True (Seq (Lit ''_'') (rx_some (Cls False label_chars)))]"

definition ROOT_PREFIX :: rx where
  "ROOT_PREFIX = Seq (Lit ''root'') (Rep 0 (Some 180) False (Cls True []))"

definition in_all :: "string list list \<Rightarrow> string list" where
  "in_all xss = (case xss of [] \<Rightarrow> [] | xs # rest \<Rightarrow> filter (\<lambda>x. list_all (\<lambda>ys. x \<in> set ys) rest) (unique_first xs))"

definition shared_causes :: "string list \<Rightarrow> string list" where
  "shared_causes texts =
     (let root_causes = map (rx_groups False ROOT_PREFIX CATEGORY_LABEL) texts;
          labels = map (rx_findall False (seqs [Boundary, CATEGORY_LABEL, Boundary])) texts;
          causes = (if list_all (\<lambda>cs. cs \<noteq> []) root_causes then in_all root_causes else []) in
      if causes = [] then in_all labels else causes)"

definition comparison_shared_facets :: "research_result \<Rightarrow> hybrid_evidence list \<Rightarrow> string list" where
  "comparison_shared_facets r evidence =
     (if pl_required_comparison_dimensions (rs_plan r) = [] \<or> length evidence < 2 then []
      else
        let texts = map (casefold \<circ> de_text \<circ> he_evidence) evidence;
            in_every = (\<lambda>w. list_all (contains_text w) texts) in
        unique_first (take 2 (sort (filter (\<lambda>c. length c \<le> 80) (shared_causes texts))) @
          (if in_every ''throughput'' then [''throughput''] else []) @
          (if in_every ''ingress'' then [''ingress''] else []) @
          (if in_every ''accumulat'' then [''message accumulation''] else [])))"

definition select_relevant_analyses :: "string \<Rightarrow> analysis_result list \<Rightarrow> analysis_result list" where
  "select_relevant_analyses question analyses = (if analysis_requested (casefold question) then analyses else [])"

definition research_options ::
  "response_environment \<Rightarrow> research_result \<Rightarrow> hybrid_evidence list \<Rightarrow> response_options" where
  "research_options env r evidence =
     (let s = env_settings env; synthesis = comparison_synthesis_evidence r evidence;
          context = (if synthesis = [] then []
            else build_evidence_context synthesis s (Some (max (llm_max_evidence_items s) (length synthesis)))) in
      \<lparr> op_maximum_calls = Some (research_max_llm_calls s - bu_llm_calls (rs_budget_usage r)),
        op_require_all_evidence_ids = (synthesis \<noteq> []), op_context_override = context,
        op_dimensions = (if context = [] then [] else pl_required_comparison_dimensions (rs_plan r)),
        op_comparison_ids = comparison_evidence_ids r context,
        op_shared_facets = comparison_shared_facets r synthesis \<rparr>)"

text \<open>The sections after the answer; the section on structured conflicts is left out, because no service sets
  that field of a research result.\<close>

definition research_sections :: "string \<Rightarrow> research_result \<Rightarrow> string list" where
  "research_sections question r =
     (let analyses = select_relevant_analyses question (rs_analysis_results r) in
      (if analyses \<noteq> []
       then [''Analysis (calculated from authorized structured rows):'' @ nl @ join_text nl (map an_summary analyses)]
       else []) @
      (if rs_conflicts r \<noteq> []
       then [''Material conflicts:'' @ nl @ join_text nl (map rc_description (rs_conflicts r))] else []) @
      (if rs_gaps r \<noteq> [] then [''Limitations:'' @ nl @ join_text nl (map rg_dimension (rs_gaps r))] else []) @
      (if bu_exhausted (rs_budget_usage r)
       then [''Limitations:'' @ nl @ ''The server-owned research budget was exhausted.''] else []))"

definition research_response ::
  "response_environment \<Rightarrow> string \<Rightarrow> hybrid_evidence list \<Rightarrow> authenticated_principal \<Rightarrow> research_result \<Rightarrow>
   llm_request list \<times> (response_error, grounded_response \<times> answer_draft \<times> citation_validation \<times> nat \<times> nat) result"
where
  "research_response env question evidence p r =
     (let s = env_settings env; synthesis = comparison_synthesis_evidence r evidence;
          opts = research_options env r evidence in
      case retrieval_response env question (if synthesis = [] then evidence else synthesis) p opts of
        (sent, outcome) \<Rightarrow>
          (sent, bind_result outcome (\<lambda>(g, d, v, repairs).
             let calls = (if op_maximum_calls opts = Some 0 then 0 else 1 + repairs);
                 answer = join_text (nl @ nl) (gr_answer_text g # research_sections question r) in
             Return (g\<lparr> gr_answer_text := take (llm_max_answer_characters s) answer \<rparr>, d, v, repairs, calls))))"

end
