(* ===== verification/Extractive_Properties.thy ===== *)
theory Extractive_Properties
  imports Extractive_Fallback
begin

text \<open>
  The extractive fallback never fails: its claims quote usable passages of the context, and the draft
  satisfies its contract and the bounds on passages and characters.
\<close>

section \<open>Numbered identifiers\<close>

lemma digit_char: "(m :: nat) < 10 \<Longrightarrow> is_digit (char_of (48 + m))"
  by (simp add: is_digit_def text_simps)

lemma nonzero_digit_char: "0 < (m :: nat) \<Longrightarrow> m < 10 \<Longrightarrow> char_of (48 + m) \<noteq> CHR ''0''"
proof
  assume m: "0 < m" "m < 10" and eq: "char_of (48 + m) = CHR ''0''"
  have "code_point (char_of (48 + m)) = 48 + m" using m by (simp add: text_simps)
  moreover have "code_point CHR ''0'' = 48" by code_simp
  ultimately show False using eq m by simp
qed

lemma show_nat_step:
  "n < 10 \<Longrightarrow> show_nat n = [char_of (48 + n)]"
  "10 \<le> n \<Longrightarrow> show_nat n = show_nat (n div 10) @ [char_of (48 + n mod 10)]"
  by (simp_all add: show_nat.simps [of n])

lemma indexed_id_show_nat:
  assumes "1 \<le> n" "n \<le> 999"
  shows "indexed_id letter (letter # show_nat n)"
proof -
  consider "n < 10" | "10 \<le> n" "n < 100" | "100 \<le> n" by linarith
  then show ?thesis
  proof cases
    case 1
    then show ?thesis using assms digit_char [of n] nonzero_digit_char [of n]
      by (simp add: show_nat_step indexed_id_def)
  next
    case 2
    then show ?thesis
      using digit_char [of "n div 10"] nonzero_digit_char [of "n div 10"] digit_char [of "n mod 10"]
      by (simp add: show_nat_step indexed_id_def)
  next
    case 3
    then have "n div 10 div 10 < 10" "0 < n div 10 div 10" "10 \<le> n div 10" using assms by auto
    then show ?thesis using 3
      using digit_char [of "n div 10 div 10"] nonzero_digit_char [of "n div 10 div 10"]
        digit_char [of "n div 10 mod 10"] digit_char [of "n mod 10"]
      by (simp add: show_nat_step indexed_id_def)
  qed
qed

lemma length_show_nat: "n < 10 ^ k \<Longrightarrow> 0 < k \<Longrightarrow> length (show_nat n) \<le> k"
proof (induction k arbitrary: n)
  case (Suc k)
  show ?case
  proof (cases "n < 10")
    case False
    then have "n div 10 < 10 ^ k" "0 < k" using Suc.prems by (auto simp: less_mult_imp_div_less intro: gr0I)
    then show ?thesis using Suc.IH [of "n div 10"] False by (simp add: show_nat_step(2))
  qed (simp add: show_nat_step)
qed simp

lemma show_nat_nonempty: "show_nat n \<noteq> []"
  by (subst show_nat.simps) simp

section \<open>How many concepts a question has\<close>

lemma rx_split_length: "length (rx_split_fuel n ci r prev s) \<le> Suc n"
proof (induction n arbitrary: prev s)
  case (Suc n)
  then show ?case by (auto split: option.splits)
qed simp

lemma rx_split_parts: "part \<in> set (rx_split_fuel n ci r prev s) \<Longrightarrow> length part \<le> length s"
proof (induction n arbitrary: prev s)
  case (Suc n)
  show ?case
  proof (cases "rx_find ci r prev s")
    case None
    then show ?thesis using Suc.prems by simp
  next
    case (Some pq)
    obtain p q where pq: "pq = (p, q)" by (cases pq)
    have "length (snd q) \<le> length s"
      using rx_find_suffix [of ci r prev s p q] Some pq suffix_length_le suffix_order.trans by blast
    then show ?thesis using Suc.prems Some pq Suc.IH [of "fst q" "snd q"] by auto
  qed
qed simp

lemma rx_sub_shorter: "length (rx_sub_fuel n ci r [] prev s) \<le> length s"
proof (induction n arbitrary: prev s)
  case (Suc n)
  show ?case
  proof (cases "rx_find ci r prev s")
    case (Some pq)
    obtain p q where pq: "pq = (p, q)" by (cases pq)
    have "length (snd q) \<le> length (snd p)" "length (snd p) \<le> length s"
      using rx_find_suffix [of ci r prev s p q] Some pq suffix_length_le by blast+
    then show ?thesis using Some pq Suc.IH [of "fst q" "snd q"] by auto
  qed simp
qed simp

lemma and_halves_sum:
  assumes "and_halves s = Some (left, right)"
  shows "left \<noteq> []" "right \<noteq> []" "length left + length right \<le> length s"
proof -
  obtain p q where pq: "rx_find True AND_BOUNDARY None s = Some (p, q)"
    and left: "left = trim (take (length s - length (snd p)) s)" and right: "right = trim (snd q)"
    and many: "\<not> card (content_tokens left) < 2" "\<not> card (content_tokens right) < 2"
    using assms by (auto simp: and_halves_def Let_def split: option.splits if_splits)
  show "left \<noteq> []" "right \<noteq> []" using many content_tokens_Nil by auto
  have "length (snd q) \<le> length (snd p)" "length (snd p) \<le> length s"
    using rx_find_suffix [OF pq] by (simp_all add: suffix_length_le)
  moreover have "length left \<le> length (take (length s - length (snd p)) s)"
    unfolding left by (rule length_strip_chars)
  moreover have "length right \<le> length (snd q)" unfolding right by (rule length_strip_chars)
  ultimately show "length left + length right \<le> length s" by simp
qed

lemma split_balanced_length: "length (split_balanced_and s) \<le> max 1 (length s)"
proof (induction s rule: split_balanced_and.induct)
  case (1 s)
  show ?case
  proof (cases "and_halves s")
    case None
    then show ?thesis by (simp add: split_balanced_and.simps [of s])
  next
    case (Some lr)
    obtain l r where lr: "lr = (l, r)" by fastforce
    note h = and_halves_sum [OF Some [unfolded lr]]
    have "length (split_balanced_and l) \<le> length l" "length (split_balanced_and r) \<le> length r"
      using 1(1) [OF Some lr [symmetric]] 1(2) [OF Some lr [symmetric]] h(1,2) by (cases l; cases r; simp)+
    then show ?thesis using h(3) Some lr by (simp add: split_balanced_and.simps [of s])
  qed
qed

lemma length_strip: "length (strip s) \<le> length s"
  unfolding strip_def by (metis length_dropWhile_le length_rev le_trans)

lemma concat_length_le: "(\<And>x. x \<in> set xs \<Longrightarrow> length (f x) \<le> n) \<Longrightarrow> length (concat (map f xs)) \<le> length xs * n"
  by (induction xs) (auto intro: add_mono)

lemma concept_parts_length:
  assumes "length question \<le> n" "0 < n"
  shows "length (concept_parts question) \<le> Suc (Suc n) * n"
proof -
  let ?c = "rx_sub True BOTH [] (strip question)"
  let ?ps = "filter (\<lambda>part. part \<noteq> []) (map trim (rx_split True SPECIAL_CONCEPT_BOUNDARY ?c))"
  have "length ?c \<le> length (strip question)" unfolding rx_sub_def by (rule rx_sub_shorter)
  then have c: "length ?c \<le> n" using length_strip [of question] assms by simp
  have "length (rx_split True SPECIAL_CONCEPT_BOUNDARY ?c) \<le> Suc (Suc (length ?c))"
    unfolding rx_split_def by (rule rx_split_length)
  moreover have "length ?ps \<le> length (rx_split True SPECIAL_CONCEPT_BOUNDARY ?c)"
    by (rule le_trans [OF length_filter_le]) simp
  ultimately have "length ?ps \<le> Suc (Suc n)" using c by linarith
  moreover have "length (split_balanced_and x) \<le> n" if x: "x \<in> set ?ps" for x
  proof -
    obtain y where "x = trim y" "y \<in> set (rx_split True SPECIAL_CONCEPT_BOUNDARY ?c)" using x by auto
    then have "length x \<le> n"
      using length_strip_chars [of "'' ,.?''" y] rx_split_parts c unfolding rx_split_def by fastforce
    then show ?thesis using split_balanced_length [of x] assms(2) by simp
  qed
  then have "length (concat (map split_balanced_and ?ps)) \<le> length ?ps * n" by (rule concat_length_le)
  ultimately show ?thesis unfolding concept_parts_def Let_def by (meson le_trans mult_le_mono1)
qed


section \<open>Labels\<close>

lemma length_capitalize [simp]: "length (capitalize s) = length s"
  by (simp add: capitalize_def split: list.splits)

lemma capitalize_nonempty: "s \<noteq> [] \<Longrightarrow> capitalize s \<noteq> []"
  by (simp add: capitalize_def split: list.splits)

definition label_ok :: "string \<Rightarrow> bool" where "label_ok s = in_range 1 (length s) 80"

lemma safe_concept_label_ok:
  assumes "index + 1 < 10 ^ 60"
  shows "label_ok (safe_concept_label s index)"
proof -
  have "length (show_nat (index + 1)) \<le> 60" using assms by (intro length_show_nat) simp_all
  then have "label_ok (''requested aspect '' @ show_nat (index + 1))" by (simp add: label_ok_def)
  then show ?thesis
    by (auto simp: safe_concept_label_def label_ok_def Let_def Suc_le_eq capitalize_nonempty)
qed

lemma concepts_of_labels:
  "c \<in> set (concepts_of ps seen) \<Longrightarrow> \<exists>(i, s) \<in> set ps. cn_label c = safe_concept_label (focus_concept_phrase s) i"
  by (induction ps seen rule: concepts_of.induct)
    (auto simp: concept_of_def Let_def split: if_splits)

lemma question_concepts_ok:
  assumes "length question \<le> 10 ^ 20"
  shows "length (question_concepts question) \<le> 4" "question_concepts question \<noteq> []"
    "\<forall>c \<in> set (question_concepts question). label_ok (cn_label c)"
proof -
  let ?ps = "concept_parts question"
  show "length (question_concepts question) \<le> 4" "question_concepts question \<noteq> []"
    by (simp_all add: question_concepts_def Let_def)
  have "length ?ps \<le> Suc (Suc (10 ^ 20)) * 10 ^ 20" using assms by (intro concept_parts_length) simp_all
  then have few: "length ?ps < 10 ^ 59" by simp
  have "label_ok (cn_label c)" if c: "c \<in> set (concepts_of (enumerate 0 ?ps) [])" for c
  proof -
    obtain i s where i: "(i, s) \<in> set (enumerate 0 ?ps)" "cn_label c = safe_concept_label (focus_concept_phrase s) i"
      using concepts_of_labels [OF c] by auto
    then have "i < length ?ps" by (simp add: in_set_enumerate_eq)
    then have "i + 1 < 10 ^ 60" using few by simp
    then show ?thesis unfolding i(2) by (rule safe_concept_label_ok)
  qed
  moreover have "label_ok ''requested information''" by (simp add: label_ok_def)
  ultimately show "\<forall>c \<in> set (question_concepts question). label_ok (cn_label c)"
    by (auto simp: question_concepts_def Let_def dest: in_set_takeD)
qed

section \<open>Candidates and their selection\<close>

text \<open>A candidate quotes a usable passage of an item of the context.\<close>

definition quotes :: "context_item list \<Rightarrow> candidate \<Rightarrow> bool" where
  "quotes contexts x =
     (\<exists>i \<in> set contexts. \<exists>passage \<in> set (split_passages (ec_text i)). pc_text x = normalized_passage passage \<and>
        passage_usable (pc_text x) \<and> pc_evidence_id x = ec_model_id i)"

lemma passage_candidates_quote:
  "x \<in> set (passage_candidates ps seen) \<Longrightarrow>
   \<exists>(a, b, passage, item) \<in> set ps. pc_text x = normalized_passage passage \<and> passage_usable (pc_text x) \<and>
     pc_evidence_id x = ec_model_id item"
proof (induction ps seen rule: passage_candidates.induct)
  case (2 evidence_rank passage_rank passage item rest seen)
  then show ?case by (auto simp: Let_def split: if_splits)
qed simp

lemma candidates_quote:
  assumes "x \<in> set (candidates contexts)"
  shows "quotes contexts x"
proof -
  let ?l = "concat (map (\<lambda>(evidence_rank, item).
         map (\<lambda>(passage_rank, passage). (evidence_rank, passage_rank, passage, item))
           (enumerate 0 (split_passages (ec_text item)))) (enumerate 0 contexts))"
  obtain y where y: "y \<in> set ?l" "case y of (a, b, passage, i) \<Rightarrow> pc_text x = normalized_passage passage \<and>
      passage_usable (pc_text x) \<and> pc_evidence_id x = ec_model_id i"
    using passage_candidates_quote [OF assms [unfolded candidates_def]] by blast
  obtain a b passage i where e: "y = (a, b, passage, i)" by (cases y)
  have "i \<in> set contexts" "passage \<in> set (split_passages (ec_text i))"
    using y(1) unfolding e by (auto simp: in_set_enumerate_eq)
  then show ?thesis using y(2) unfolding e quotes_def by auto
qed

lemma set_rank_candidates: "set (rank_candidates cs c q) \<subseteq> set cs"
  by (auto simp: rank_candidates_def map_filter_def)

definition selection_ok :: "nat \<Rightarrow> candidate list list \<Rightarrow> selection \<Rightarrow> bool" where
  "selection_ok n ranked s =
     (length (sl_selected s) \<le> n \<and>
      (\<forall>(i, x) \<in> set (sl_selected s). i < length ranked \<and> x \<in> set (ranked ! i)) \<and>
      map (passage_key \<circ> snd) (sl_selected s) = rev (sl_used s) \<and> distinct (sl_used s))"

lemma select_passage_ok:
  assumes "selection_ok n ranked s" "length (sl_selected s) < n" "i < length ranked"
  shows "selection_ok n ranked (select_passage second (i, ranked ! i) s)"
proof (cases "List.find (\<lambda>x. passage_key x \<notin> set (sl_used s) \<and>
    (second \<longrightarrow> 2 \<le> card (pc_tokens x - sl_concept_tokens s ! i))) (ranked ! i)")
  case None
  then show ?thesis using assms(1) by (simp add: select_passage_def)
next
  case (Some x)
  then have "x \<in> set (ranked ! i)" "passage_key x \<notin> set (sl_used s)" using find_Some_set by fast+
  then show ?thesis using assms Some by (auto simp: select_passage_def selection_ok_def)
qed

lemma select_loop_ok:
  "selection_ok n ranked s \<Longrightarrow> \<forall>(b, i, r) \<in> set rs. i < length ranked \<and> r = ranked ! i \<Longrightarrow>
   selection_ok n ranked (select_loop n rs s)"
proof (induction n rs s rule: select_loop.induct)
  case (2 n second r rs s)
  show ?case
  proof (cases "n \<le> length (sl_selected s)")
    case False
    then show ?thesis using 2 select_passage_ok [of n ranked s "fst r" second] by (cases r) auto
  qed (use 2 in simp)
qed simp

lemma selections_ok:
  "(i, x) \<in> set (select_complementary_passages ranked n) \<Longrightarrow> i < length ranked \<and> x \<in> set (ranked ! i)"
  "length (select_complementary_passages ranked n) \<le> n"
  "distinct (map (passage_key \<circ> snd) (select_complementary_passages ranked n))"
proof -
  let ?s = "select_loop n (map (Pair False) (enumerate 0 ranked) @ map (Pair True) (enumerate 0 ranked))
    \<lparr> sl_selected = [], sl_used = [], sl_concept_tokens = replicate (length ranked) {} \<rparr>"
  have ok: "selection_ok n ranked ?s"
    by (rule select_loop_ok) (auto simp: selection_ok_def in_set_enumerate_eq)
  show "length (select_complementary_passages ranked n) \<le> n"
    "distinct (map (passage_key \<circ> snd) (select_complementary_passages ranked n))"
    using ok by (simp_all add: selection_ok_def select_complementary_passages_def)
  assume "(i, x) \<in> set (select_complementary_passages ranked n)"
  then show "i < length ranked \<and> x \<in> set (ranked ! i)"
    using ok by (auto simp: selection_ok_def select_complementary_passages_def)
qed

section \<open>The draft\<close>

lemma enumerated: "(a, y) \<in> set (enumerate n xs) \<Longrightarrow> y \<in> set xs \<and> n \<le> a \<and> a < n + length xs"
  using nth_mem [of "a - n" xs] by (auto simp: in_set_enumerate_eq)

lemma answer_summary_bound:
  assumes "length concepts \<le> 4" "\<forall>c \<in> set concepts. label_ok (cn_label c)"
  shows "in_range 1 (length (answer_summary concepts is)) 8000"
proof -
  let ?labels = "map (cn_label \<circ> snd) (filter (\<lambda>(i, _). i \<notin> set is) (enumerate 0 concepts))"
  have join: "length (join_text ''; '' xs) \<le> length xs * 82" if "\<forall>x \<in> set xs. length x \<le> 80" for xs
    using that by (induction "''; ''" xs rule: join_text.induct) auto
  have "\<forall>x \<in> set ?labels. length x \<le> 80" using assms(2) by (auto simp: label_ok_def in_set_enumerate_eq)
  moreover have "length ?labels \<le> 4"
    using assms(1) length_filter_le [of "\<lambda>(i, _). i \<notin> set is" "enumerate 0 concepts"] by simp
  ultimately have "length (join_text ''; '' ?labels) \<le> 4 * 82"
    using join [of ?labels] by (meson le_trans mult_le_mono1)
  then show ?thesis by (auto simp: answer_summary_def Let_def NO_SUPPORT_def SUMMARY_def)
qed

lemma fit_claims_prefix:
  "fit_claims concepts n claims is = (claims', is') \<Longrightarrow> length claims = length is \<Longrightarrow>
   prefix claims' claims \<and> length claims' = length is' \<and>
   (claims' = [] \<or> draft_length (answer_summary concepts is') claims' \<le> n)"
proof (induction concepts n claims "is" rule: fit_claims.induct)
  case (1 concepts n claims "is")
  show ?case
  proof (cases "claims \<noteq> [] \<and> n < draft_length (answer_summary concepts is) claims")
    case True
    then have "fit_claims concepts n (butlast claims) (butlast is) = (claims', is')"
      using 1(2) by (simp add: fit_claims.simps [of concepts n claims])
    then have "prefix claims' (butlast claims) \<and> length claims' = length is' \<and>
        (claims' = [] \<or> draft_length (answer_summary concepts is') claims' \<le> n)"
      using 1(1) [OF True] 1(3) by simp
    then show ?thesis using prefixeq_butlast prefix_order.trans by blast
  next
    case False
    then show ?thesis using 1(2,3) by (auto simp: fit_claims.simps [of concepts n claims])
  qed
qed

definition quoted_claim :: "context_item list \<Rightarrow> grounded_claim \<Rightarrow> bool" where
  "quoted_claim contexts k =
     (\<exists>i \<in> set contexts. \<exists>passage \<in> set (split_passages (ec_text i)).
        suffix ('': '' @ normalized_passage passage) (gc_text k) \<and> passage_usable (normalized_passage passage) \<and>
        gc_supporting_evidence_ids k = [ec_model_id i])"

lemma extracted_claim_ok:
  assumes x: "quotes contexts x" and label: "label_ok (cn_label (concepts ! i))" and n: "1 \<le> n" "n \<le> 999"
    and ids: "\<forall>i \<in> set contexts. indexed_id CHR ''E'' (ec_model_id i)"
  shows "grounded_claim_ok (extracted_claim concepts (n, i, x)) \<and>
    quoted_claim contexts (extracted_claim concepts (n, i, x))"
proof -
  obtain j passage where j: "j \<in> set contexts" "passage \<in> set (split_passages (ec_text j))"
    "pc_text x = normalized_passage passage" "passage_usable (pc_text x)" "pc_evidence_id x = ec_model_id j"
    using x unfolding quotes_def by blast
  have "length (pc_text x) \<le> 700" using j(4) by (simp add: passage_usable_def)
  then have "grounded_claim_ok (extracted_claim concepts (n, i, x))"
    using label n ids j(1,5) indexed_id_show_nat [of n "CHR ''C''"]
    by (simp add: grounded_claim_ok_def extracted_claim_def label_ok_def optional_length_def)
  moreover have "quoted_claim contexts (extracted_claim concepts (n, i, x))"
    unfolding quoted_claim_def using j
    by (intro bexI [of _ j] bexI [of _ passage]) (auto simp: extracted_claim_def suffix_def)
  ultimately show ?thesis by blast
qed

text \<open>The fallback never raises.\<close>

lemma build_extractive_fallback_facts:
  assumes ids: "\<forall>i \<in> set contexts. indexed_id CHR ''E'' (ec_model_id i)"
    and q: "length question \<le> 10 ^ 20" and n: "n \<le> 20"
  shows "\<exists>x. build_extractive_fallback question contexts n m = Inr x \<and> answer_draft_ok (xt_draft x) \<and>
    length (dr_claims (xt_draft x)) \<le> max 1 n \<and>
    (dr_claims (xt_draft x) = [] \<or> draft_length (dr_answer_summary (xt_draft x)) (dr_claims (xt_draft x)) \<le> m) \<and>
    list_all (quoted_claim contexts) (dr_claims (xt_draft x)) \<and>
    (dr_insufficient_evidence (xt_draft x) \<longleftrightarrow> dr_claims (xt_draft x) = [])"
proof -
  let ?concepts = "question_concepts question"
  let ?ranked = "map (\<lambda>c. rank_candidates (candidates contexts) c (content_tokens question)) ?concepts"
  let ?sel = "select_complementary_passages ?ranked (max 1 n)"
  let ?claims = "map (extracted_claim ?concepts) (enumerate 1 ?sel)"
  note concepts = question_concepts_ok [OF q]
  have few: "length ?sel \<le> max 1 n" by (rule selections_ok)
  have claim: "grounded_claim_ok k \<and> quoted_claim contexts k" if k: "k \<in> set ?claims" for k
  proof -
    obtain a i x where a: "(a, i, x) \<in> set (enumerate 1 ?sel)" "k = extracted_claim ?concepts (a, i, x)"
      using k by auto
    then have "(i, x) \<in> set ?sel" "1 \<le> a" "a < 1 + length ?sel" using enumerated [OF a(1)] by blast+
    moreover from this have "i < length ?concepts" "x \<in> set (candidates contexts)"
      using selections_ok(1) [of i x ?ranked "max 1 n"] set_rank_candidates by fastforce+
    ultimately show ?thesis
      unfolding a(2) using few n concepts(3) candidates_quote ids
      by (intro extracted_claim_ok) (auto simp: max_def split: if_splits)
  qed
  obtain claims "is" where fit: "fit_claims ?concepts m ?claims (map fst ?sel) = (claims, is)" by fastforce
  have p: "prefix claims ?claims" "claims = [] \<or> draft_length (answer_summary ?concepts is) claims \<le> m"
    using fit_claims_prefix [OF fit] by simp_all
  have sub: "set claims \<subseteq> set ?claims" "length claims \<le> length ?sel"
    using set_mono_prefix [OF p(1)] prefix_length_le [OF p(1)] by simp_all
  then have all: "list_all grounded_claim_ok claims" "list_all (quoted_claim contexts) claims"
    using claim unfolding list_all_iff by blast+
  let ?draft = "\<lparr> dr_answer_summary = (if claims = [] then NO_SUPPORT else answer_summary ?concepts is),
    dr_claims = claims, dr_warnings = [], dr_insufficient_evidence = (claims = []), dr_clarification_needed = False \<rparr>"
  have "in_range 1 (length (dr_answer_summary ?draft)) 8000"
    using answer_summary_bound [OF concepts(1,3)] by (simp add: NO_SUPPORT_def)
  then have "answer_draft_ok ?draft" using all(1) sub(2) few n by (simp add: answer_draft_ok_def max_def split: if_splits)
  moreover have "list_all grounded_claim_ok ?claims" using claim by (simp add: list_all_iff)
  ultimately have "build_extractive_fallback question contexts n m = Inr \<lparr> xt_draft = ?draft,
      xt_selected_passage_count = length claims, xt_supported_concept_count = card (set is),
      xt_requested_concept_count = length ?concepts \<rparr>"
    unfolding build_extractive_fallback_def Let_def using fit by simp
  moreover have "length (dr_claims ?draft) \<le> max 1 n" using sub(2) few by simp
  moreover have "dr_claims ?draft = [] \<or> draft_length (dr_answer_summary ?draft) (dr_claims ?draft) \<le> m"
    using p(2) by auto
  ultimately show ?thesis using \<open>answer_draft_ok ?draft\<close> all(2)
    by (intro exI [of _ "\<lparr> xt_draft = ?draft, xt_selected_passage_count = length claims,
        xt_supported_concept_count = card (set is), xt_requested_concept_count = length ?concepts \<rparr>"])
      (simp only: extraction.simps answer_draft.simps simp_thms)
qed

end
