(* ===== verification/Response_Properties.thy ===== *)
theory Response_Properties
  imports Response_Service Extractive_Properties
begin

text \<open>
  Lemmas on the grounded response service: what a valid citation check guarantees and that the later
  checks keep it, how many calls a response makes and what it sends, and which response it ends with.
\<close>

section \<open>The evidence map\<close>

lemma context_map_fold:
  "map_of (fold (\<lambda>i. dict_set (ec_model_id i) i) items m) k = Some i \<Longrightarrow>
   map_of m k = Some i \<or> (i \<in> set items \<and> ec_model_id i = k)"
proof (induction items arbitrary: m)
  case (Cons x xs)
  show ?case using Cons.IH [of "dict_set (ec_model_id x) x m"] Cons.prems
    by (auto simp: dict_simps split: if_splits)
qed simp

lemma context_map_Some: "map_of (context_map context) k = Some i \<Longrightarrow> i \<in> set context \<and> ec_model_id i = k"
  by (auto simp: context_map_def dest: context_map_fold)

lemma context_map_keys: "k \<in> set (dict_keys (context_map context)) \<longleftrightarrow> (\<exists>i. map_of (context_map context) k = Some i)"
  by (metis domIff dom_map_of_conv_image_fst image_set not_Some_eq)

section \<open>Valid citations\<close>

text \<open>What the citations of a draft are checked for.\<close>

definition cited_by ::
  "response_environment \<Rightarrow> response_case \<Rightarrow> answer_draft \<Rightarrow> verified_citation list \<Rightarrow> bool" where
  "cited_by env c d cs =
     ((\<forall>x \<in> set cs. \<exists>i \<in> set (qc_context c). x = citation_from_context i \<and>
         ec_access_level i \<in> allowed_access_levels (qc_principal c) \<and>
         Some (ec_build_fingerprint i) = env_fingerprint env \<and> ec_source_line_start i \<le> ec_source_line_end i) \<and>
      distinct (map vc_marker cs) \<and> length cs \<le> llm_max_citations (env_settings env) \<and>
      (\<forall>k \<in> set (dr_claims d). (gc_factual k \<longrightarrow> gc_supporting_evidence_ids k \<noteq> []) \<and>
         set (gc_supporting_evidence_ids k) \<subseteq> set (map vc_marker cs)))"

definition coherent :: "citation_validation \<Rightarrow> bool" where
  "coherent v = (cv_valid v \<longleftrightarrow> cv_errors v = [])"

lemma citation_errors_none:
  "citation_errors p build k item = [] \<longleftrightarrow>
   (\<exists>i. item = Some i \<and> ec_access_level i \<in> allowed_access_levels p \<and> ec_build_fingerprint i = build \<and>
      ec_source_line_start i \<le> ec_source_line_end i)"
  by (auto simp: citation_errors_def split: option.splits)

lemma claim_errors_none:
  "claim_errors p build m k = [] \<longleftrightarrow>
   (gc_factual k \<longrightarrow> gc_supporting_evidence_ids k \<noteq> []) \<and>
   (\<forall>e \<in> set (gc_supporting_evidence_ids k). citation_errors p build (gc_claim_id k) (map_of m e) = [])"
  by (auto simp: claim_errors_def)

lemma validate_draft_coherent: "validate_draft_citations d context p n manifest = Some v \<Longrightarrow> coherent v"
  by (auto simp: validate_draft_citations_def coherent_def Let_def split: if_splits)

lemma checked_citations_Inr:
  "checked_citations env c d = Inr v \<longleftrightarrow>
   validate_draft_citations d (qc_context c) (qc_principal c) (llm_max_citations (env_settings env))
     (env_fingerprint env) = Some v"
  by (simp add: checked_citations_def split: option.splits)

lemma checked_citations_given: "env_fingerprint env = Some build \<Longrightarrow> \<exists>v. checked_citations env c d = Inr v"
  by (simp add: checked_citations_Inr validate_draft_citations_def Let_def)

lemma markers_of_used:
  assumes "\<forall>k \<in> set ks. k \<in> set (dict_keys (context_map context))"
  shows "map vc_marker (map citation_from_context (List.map_filter (map_of (context_map context)) ks)) = ks"
  using assms
proof (induction ks)
  case (Cons k ks)
  then obtain i where "map_of (context_map context) k = Some i" using context_map_keys by auto
  then show ?case using Cons context_map_Some by (auto simp: citation_from_context_def split: option.splits)
qed simp

lemma valid_draft_cited:
  assumes checked: "checked_citations env c d = Inr v" and valid: "cv_valid v"
  shows "cited_by env c d (cv_citations v)"
proof -
  let ?m = "context_map (qc_context c)"
  let ?used = "used_evidence ?m (dr_claims d)"
  let ?cs = "map citation_from_context (List.map_filter (map_of ?m) ?used)"
  obtain build where build: "env_fingerprint env = Some build"
    and errors: "concat (map (claim_errors (qc_principal c) build ?m) (dr_claims d)) = []"
    and few: "length ?used \<le> llm_max_citations (env_settings env)"
    and cs: "cv_citations v = ?cs"
    using checked valid
    by (auto simp: checked_citations_Inr validate_draft_citations_def Let_def split: if_splits)
  have known: "\<forall>k \<in> set ?used. k \<in> set (dict_keys ?m)" by (simp add: used_evidence_def)
  note markers = markers_of_used [OF known]
  have claim: "claim_errors (qc_principal c) build ?m k = []" if "k \<in> set (dr_claims d)" for k
    using errors that by auto
  have source: "\<exists>i \<in> set (qc_context c). x = citation_from_context i \<and>
      ec_access_level i \<in> allowed_access_levels (qc_principal c) \<and>
      Some (ec_build_fingerprint i) = env_fingerprint env \<and> ec_source_line_start i \<le> ec_source_line_end i"
    if x: "x \<in> set ?cs" for x
  proof -
    obtain e i where e: "e \<in> set ?used" "map_of ?m e = Some i" "x = citation_from_context i"
      using x by (auto simp: map_filter_def)
    then obtain k where "k \<in> set (dr_claims d)" "e \<in> set (gc_supporting_evidence_ids k)"
      by (auto simp: used_evidence_def)
    then have "citation_errors (qc_principal c) build (gc_claim_id k) (map_of ?m e) = []"
      using claim claim_errors_none by blast
    then show ?thesis using e context_map_Some [OF e(2)] by (auto simp: citation_errors_none build)
  qed
  have "set (gc_supporting_evidence_ids k) \<subseteq> set ?used" if k: "k \<in> set (dr_claims d)" for k
  proof
    fix e assume e: "e \<in> set (gc_supporting_evidence_ids k)"
    then have "citation_errors (qc_principal c) build (gc_claim_id k) (map_of ?m e) = []"
      using claim [OF k] claim_errors_none by blast
    then have "e \<in> set (dict_keys ?m)" unfolding citation_errors_none context_map_keys by blast
    then show "e \<in> set ?used" using e k by (auto simp: used_evidence_def)
  qed
  moreover have "gc_factual k \<longrightarrow> gc_supporting_evidence_ids k \<noteq> []" if "k \<in> set (dr_claims d)" for k
    using claim [OF that] by (simp add: claim_errors_none)
  moreover have "length ?cs = length ?used" using arg_cong [OF markers, of length] by simp
  moreover have "distinct ?used" by (simp add: used_evidence_def)
  ultimately show ?thesis using source few unfolding cs cited_by_def markers by auto
qed

section \<open>The later checks only add errors\<close>

lemma append_errors_simps [simp]:
  "cv_citations (append_validation_errors v es) = cv_citations v"
  "cv_valid (append_validation_errors v es) \<longleftrightarrow> cv_valid v \<and> es = []"
  by (auto simp: append_validation_errors_def)

lemma append_errors_coherent: "coherent v \<Longrightarrow> coherent (append_validation_errors v es)"
  by (metis append_is_Nil_conv append_validation_errors_def citation_validation.select_convs(1,2)
      citation_validation.surjective citation_validation.update_convs(1,2) coherent_def set_empty set_unique_first)

lemma require_citations_simps [simp]:
  "cv_citations (require_citations v required) = cv_citations v"
  "cv_valid (require_citations v required) \<longleftrightarrow>
   cv_valid v \<and> set required \<subseteq> set (map vc_marker (cv_citations v))"
  by (auto simp: require_citations_def)

lemma require_citations_coherent: "coherent v \<Longrightarrow> coherent (require_citations v required)"
  by (auto simp: require_citations_def coherent_def)

lemma comparison_citations [simp]: "cv_citations (fst (validate_comparison_draft d v rs fs)) = cv_citations v"
  by (simp add: validate_comparison_draft_def Let_def)

lemma comparison_coherent: "coherent v \<Longrightarrow> coherent (fst (validate_comparison_draft d v rs fs))"
  by (auto simp: validate_comparison_draft_def coherent_def Let_def)

lemma comparison_valid:
  "coherent v \<Longrightarrow> rs \<noteq> [] \<Longrightarrow>
   cv_valid (fst (validate_comparison_draft d v rs fs)) \<longleftrightarrow>
   cv_valid v \<and> uncovered_dimensions d rs = [] \<and> \<not> falsely_unsupported d \<and> comparison_claim_valid d rs fs"
  by (auto simp: validate_comparison_draft_def coherent_def Let_def)

lemma comparison_valid_only: "coherent v \<Longrightarrow> cv_valid (fst (validate_comparison_draft d v rs fs)) \<Longrightarrow> cv_valid v"
  by (cases "rs = []") (simp_all add: comparison_valid, simp add: validate_comparison_draft_def)

lemma alignment_citations [simp]: "cv_citations (validate_identifier_alignment d v context rs) = cv_citations v"
  by (simp add: validate_identifier_alignment_def Let_def)

lemma alignment_valid_only:
  "coherent v \<Longrightarrow> cv_valid (validate_identifier_alignment d v context rs) \<Longrightarrow> cv_valid v"
  by (auto simp: validate_identifier_alignment_def coherent_def Let_def split: if_splits)

section \<open>Assessed drafts and fallbacks\<close>

lemma repaired_draft_valid:
  assumes "repaired_draft env c d0 = Inr (d, v)"
  shows "coherent v" "cv_valid v \<Longrightarrow> cited_by env c d (cv_citations v)"
  using assms valid_draft_cited [of env c d] validate_draft_coherent
  by (auto simp: repaired_draft_def checked_citations_Inr Let_def intro!: append_errors_coherent)

lemma assessed_cited:
  assumes "assess env c d0 = Inr a" "cv_valid (as_validation a)"
  shows "cited_by env c (as_draft a) (cv_citations (as_validation a))"
proof -
  obtain d v where dv: "repaired_draft env c d0 = Inr (d, v)" using assms(1) by (auto simp: assess_def)
  obtain w m where w: "validate_comparison_draft d v (op_comparison_ids (qc_options c))
      (op_shared_facets (qc_options c)) = (w, m)" by fastforce
  have co: "coherent w" "cv_citations w = cv_citations v"
    using comparison_coherent [OF repaired_draft_valid(1) [OF dv]] comparison_citations w by (metis fst_conv)+
  let ?r = "require_citations w (if op_require_all_evidence_ids (qc_options c)
      then lq_allowed_evidence_ids (qc_request c) else [])"
  have a: "as_draft a = d" "as_validation a = validate_identifier_alignment d ?r (qc_context c) (qc_requirements c)"
    using assms(1) by (auto simp: assess_def dv w Let_def)
  then have "cv_valid ?r"
    using alignment_valid_only [OF require_citations_coherent [OF co(1)]] assms(2) by metis
  then have "cv_valid w" by simp
  then have "cv_valid v" using comparison_valid_only [OF repaired_draft_valid(1) [OF dv]] w by (metis fst_conv)
  then show ?thesis using repaired_draft_valid(2) [OF dv] co(2) by (simp add: a)
qed

lemma no_claims_cited: "dr_claims d = [] \<Longrightarrow> cited_by env c d []"
  by (simp add: cited_by_def)

lemma unverifiable_citations: "checked_citations env c unverifiable_draft = Inr v \<Longrightarrow> cv_citations v = []"
  by (auto simp: checked_citations_Inr validate_draft_citations_def unverifiable_draft_def used_evidence_def
      unique_first_def Let_def split: if_splits)

lemma fallback_cited:
  assumes "fallback_response env c reason = Inr (g, d, v)"
  shows "cited_by env c d (gr_citations g)" "gr_fallback_reason g = Some reason"
proof -
  let ?s = "env_settings env"
  obtain x where x: "build_extractive_fallback (qc_question c) (qc_context c) (min 4 (llm_max_citations ?s))
      (llm_max_answer_characters ?s) = Inr x"
    using assms by (auto simp: fallback_response_def Let_def split: sum.splits)
  obtain d1 checked where r: "repaired_draft env c (xt_draft x) = Inr (d1, checked)"
    using assms by (auto simp: fallback_response_def Let_def x)
  let ?a = "validate_identifier_alignment d1 checked (qc_context c) (qc_requirements c)"
  obtain w where w: "(if cv_valid ?a then Return ?a else checked_citations env c unverifiable_draft) = Inr w"
    and d: "d = (if cv_valid ?a then d1 else unverifiable_draft)" and g: "gr_citations g = cv_citations w"
    and "gr_fallback_reason g = Some reason"
    using assms by (auto simp: fallback_response_def Let_def x r)
  then show "gr_fallback_reason g = Some reason" by simp
  show "cited_by env c d (gr_citations g)"
  proof (cases "cv_valid ?a")
    case True
    then have "cv_valid checked" by (rule alignment_valid_only [OF repaired_draft_valid(1) [OF r]])
    then show ?thesis using repaired_draft_valid(2) [OF r] True d g w by auto
  next
    case False
    then have "gr_citations g = []" "dr_claims d = []"
      using d g w unverifiable_citations by (simp_all add: unverifiable_draft_def)
    then show ?thesis by (simp add: no_claims_cited)
  qed
qed

lemma with_repairs_Inr [simp]:
  "with_repairs n r = Inr (g, d, v, m) \<longleftrightarrow> r = Inr (g, d, v) \<and> m = n"
  by (auto simp: with_repairs_def split: prod.splits)


section \<open>The reply\<close>

lemma finish_cited:
  assumes "finish_response env c gen k outcome = Inr (g, d, v, n)"
    "\<And>a. outcome = Some a \<Longrightarrow> \<exists>d0. assess env c d0 = Inr a"
    "gr_fallback_reason g \<noteq> Some FR_research_dimension_validation_failed"
  shows "cited_by env c d (gr_citations g)"
proof (cases outcome)
  case None
  then show ?thesis using assms(1) by (auto simp: finish_response_def Let_def dest: fallback_cited)
next
  case (Some a)
  then obtain d0 where a: "assess env c d0 = Inr a" using assms(2) by blast
  consider "\<not> cv_valid (as_validation a)" | "cv_valid (as_validation a)" "response_policy_violations (render_draft (as_draft a)) \<noteq> []"
    | "cv_valid (as_validation a)" "response_policy_violations (render_draft (as_draft a)) = []" by blast
  then show ?thesis
  proof cases
    case 1
    then show ?thesis using assms(1,3) Some
      by (auto simp: finish_response_def comparison_fallback_response_def Let_def dest: fallback_cited split: if_splits)
  next
    case 2
    then show ?thesis using assms(1) Some by (auto simp: finish_response_def Let_def dest: fallback_cited)
  next
    case 3
    then show ?thesis using assms(1) Some assessed_cited [OF a] by (auto simp: finish_response_def Let_def)
  qed
qed

lemma repair_loop_assessed:
  "repair_loop env c n a = (sent, m, Inr (Some a')) \<Longrightarrow> (\<exists>d. assess env c d = Inr a) \<Longrightarrow> \<exists>d. assess env c d = Inr a'"
proof (induction env c n a arbitrary: sent rule: repair_loop.induct)
  case (1 env c n a)
  show ?case
  proof (cases "cv_valid (as_validation a) \<or> \<not> may_repair env c n")
    case True
    then show ?thesis using 1(2,3) by (simp add: repair_loop.simps [of env c n a])
  next
    case False
    let ?r = "grounding_repair_request env (qc_request c) (as_missing a) (repair_category c) (qc_identifiers c)"
    obtain g where g: "generate env (Suc n) ?r = Inr g"
      using 1(2) False by (cases "generate env (Suc n) ?r") (simp_all add: repair_loop.simps [of env c n a] Let_def)
    obtain b where b: "assess env c (lg_draft g) = Inr b"
      using 1(2) False g by (cases "assess env c (lg_draft g)") (simp_all add: repair_loop.simps [of env c n a] Let_def)
    then obtain s' where "repair_loop env c (Suc n) b = (s', m, Inr (Some a'))"
      using 1(2) False g by (auto simp: repair_loop.simps [of env c n a] Let_def split: prod.splits)
    then show ?thesis using 1(1) [OF False refl refl g b] b by blast
  qed
qed

lemma no_evidence_cited:
  "no_evidence_reply = (g, d, v, n) \<Longrightarrow> cited_by env c d (gr_citations g)"
  by (auto simp: no_evidence_reply_def deterministic_response_def unverifiable_draft_def Let_def cited_by_def)

lemma respond_cited:
  assumes "respond env c = (sent, Inr (g, d, v, n))"
    "gr_fallback_reason g \<noteq> Some FR_research_dimension_validation_failed"
  shows "cited_by env c d (gr_citations g)"
proof -
  consider "qc_context c = []" | "qc_context c \<noteq> []" "op_maximum_calls (qc_options c) = Some 0"
    | "qc_context c \<noteq> []" "op_maximum_calls (qc_options c) \<noteq> Some 0" by blast
  then show ?thesis
  proof cases
    case 1
    then show ?thesis using assms(1) by (auto simp: respond_def intro: no_evidence_cited)
  next
    case 2
    then show ?thesis using assms(1) by (auto simp: respond_def dest: fallback_cited)
  next
    case 3
    obtain s1 r o1 where f: "first_generation env c = (s1, r, o1)" by (cases "first_generation env c") auto
    show ?thesis
    proof (cases o1)
      case (Inl e)
      then show ?thesis using assms(1) 3 f by (auto simp: respond_def dest: fallback_cited split: if_splits)
    next
      case (Inr gen)
      obtain a where a: "assess env c (lg_draft gen) = Inr a"
        using assms(1) 3 f Inr by (auto simp: respond_def split: sum.splits)
      obtain s2 m o2 where l: "repair_loop env c r a = (s2, m, o2)" by (cases "repair_loop env c r a") auto
      obtain outcome where o: "o2 = Inr outcome" "finish_response env c gen m outcome = Inr (g, d, v, n)"
        using assms(1) 3 f Inr l a by (auto simp: respond_def)
      show ?thesis
      proof (rule finish_cited [OF o(2) _ assms(2)])
        fix b
        assume "outcome = Some b"
        then have "repair_loop env c r a = (s2, m, Inr (Some b))" using l o(1) by simp
        from repair_loop_assessed [OF this] a show "\<exists>d0. assess env c d0 = Inr b" by blast
      qed
    qed
  qed
qed

lemma prepare_simps:
  assumes "requested_documents env (extract_enterprise_identifiers question) = Inr documents"
  shows "\<exists>c. prepare env question evidence p opts = Inr c \<and> qc_question c = question \<and> qc_principal c = p \<and>
    qc_options c = opts \<and>
    qc_context c = response_context env evidence opts (extract_enterprise_identifiers question) documents \<and>
    lq_allowed_evidence_ids (qc_request c) = map ec_model_id (qc_context c) \<and>
    prompt_bounded (env_settings env) (qc_request c)"
  using assms by (auto simp: prepare_def Let_def identifier_request_def prompt_bounded_def append_prompt_section_bound
      request_bounds [unfolded prompt_bounded_def])

lemma retrieval_cited:
  assumes "retrieval_response env question evidence p opts = (sent, Inr (g, d, v, n))"
    "gr_fallback_reason g \<noteq> Some FR_research_dimension_validation_failed"
    "requested_documents env (extract_enterprise_identifiers question) = Inr documents"
  shows "\<exists>c. prepare env question evidence p opts = Inr c \<and> cited_by env c d (gr_citations g)"
  using assms prepare_simps [OF assms(3), of evidence p opts] respond_cited
  by (auto simp: retrieval_response_def)

section \<open>Calls\<close>

text \<open>What every request of a response satisfies: it is within the prompt bound and offers only the context.\<close>

definition request_ok :: "response_environment \<Rightarrow> response_case \<Rightarrow> llm_request \<Rightarrow> bool" where
  "request_ok env c r =
     (prompt_bounded (env_settings env) r \<and> lq_allowed_evidence_ids r = lq_allowed_evidence_ids (qc_request c))"

lemma repair_request_ok:
  "request_ok env c (grounding_repair_request env (qc_request c) missing category ids)"
  by (simp add: request_ok_def grounding_repair_request_def prompt_bounded_def append_prompt_section_bound)

definition within_calls :: "response_environment \<Rightarrow> response_case \<Rightarrow> nat \<Rightarrow> bool" where
  "within_calls env c n =
     (n \<le> llm_citation_repair_attempts (env_settings env) \<and>
      (case op_maximum_calls (qc_options c) of None \<Rightarrow> True | Some m \<Rightarrow> n + 1 \<le> m))"

lemma may_repair_within: "may_repair env c n \<Longrightarrow> within_calls env c (Suc n)"
  by (auto simp: may_repair_def within_calls_def split: option.splits)

lemma repair_loop_calls:
  "repair_loop env c n a = (sent, m, r) \<Longrightarrow> within_calls env c n \<Longrightarrow>
   within_calls env c m \<and> m = n + length sent \<and> list_all (request_ok env c) sent"
proof (induction env c n a arbitrary: sent rule: repair_loop.induct)
  case (1 env c n a)
  show ?case
  proof (cases "cv_valid (as_validation a) \<or> \<not> may_repair env c n")
    case True
    then show ?thesis using 1(2,3) by (subst (asm) repair_loop.simps) simp
  next
    case False
    let ?r = "grounding_repair_request env (qc_request c) (as_missing a) (repair_category c) (qc_identifiers c)"
    have w: "within_calls env c (Suc n)" using False by (simp add: may_repair_within)
    show ?thesis
    proof (cases "generate env (Suc n) ?r")
      case (Inl e)
      then have "sent = [?r]" "m = Suc n" using 1(2) False by (simp_all add: repair_loop.simps [of env c n a] Let_def)
      then show ?thesis using w repair_request_ok by simp
    next
      case (Inr g)
      show ?thesis
      proof (cases "assess env c (lg_draft g)")
        case (Inl e)
        then have "sent = [?r]" "m = Suc n"
          using 1(2) False \<open>generate env (Suc n) ?r = Inr g\<close> by (simp_all add: repair_loop.simps [of env c n a] Let_def)
        then show ?thesis using w repair_request_ok by simp
      next
        case b: (Inr b)
        obtain s' where s': "repair_loop env c (Suc n) b = (s', m, r)" "sent = ?r # s'"
          using 1(2) False Inr b by (auto simp: repair_loop.simps [of env c n a] Let_def split: prod.splits)
        then show ?thesis using 1(1) [OF False refl refl Inr b s'(1) w] repair_request_ok by auto
      qed
    qed
  qed
qed

lemma first_generation_calls:
  assumes "first_generation env c = (sent, n, r)" "op_maximum_calls (qc_options c) \<noteq> Some 0"
    "prompt_bounded (env_settings env) (qc_request c)"
  shows "within_calls env c n \<and> length sent = Suc n \<and> list_all (request_ok env c) sent"
proof -
  have "request_ok env c (qc_request c)" using assms(3) by (simp add: request_ok_def)
  moreover have "within_calls env c 0" using assms(2) by (auto simp: within_calls_def split: option.splits)
  ultimately show ?thesis
    using assms(1) may_repair_within [of env c 0] repair_request_ok
    by (auto simp: first_generation_def Let_def split: sum.splits if_splits)
qed

lemma finish_repairs: "finish_response env c gen n outcome = Inr (g, d, v, m) \<Longrightarrow> m = n"
  by (auto simp: finish_response_def Let_def split: option.splits if_splits)

lemma respond_calls:
  assumes "respond env c = (sent, outcome)" "prompt_bounded (env_settings env) (qc_request c)"
  shows "list_all (request_ok env c) sent" "sent \<noteq> [] \<Longrightarrow> within_calls env c (length sent - 1)"
    "outcome = Inr (g, d, v, n) \<Longrightarrow> n = length sent - 1"
    "sent = [] \<longleftrightarrow> qc_context c = [] \<or> op_maximum_calls (qc_options c) = Some 0"
proof -
  have "list_all (request_ok env c) sent \<and> (sent \<noteq> [] \<longrightarrow> within_calls env c (length sent - 1)) \<and>
    (\<forall>g d v n. outcome = Inr (g, d, v, n) \<longrightarrow> n = length sent - 1) \<and>
    (sent = [] \<longleftrightarrow> qc_context c = [] \<or> op_maximum_calls (qc_options c) = Some 0)"
  proof (cases "qc_context c = [] \<or> op_maximum_calls (qc_options c) = Some 0")
    case True
    then show ?thesis using assms(1)
      by (auto simp: respond_def no_evidence_reply_def Let_def split: if_splits)
  next
    case False
    obtain s1 r o1 where f: "first_generation env c = (s1, r, o1)" by (cases "first_generation env c") auto
    note first = first_generation_calls [OF f _ assms(2)]
    show ?thesis
    proof (cases o1)
      case (Inl e)
      then show ?thesis using assms(1) False f first by (auto simp: respond_def split: if_splits)
    next
      case (Inr gen)
      show ?thesis
      proof (cases "assess env c (lg_draft gen)")
        case (Inl e)
        then have "sent = s1" "outcome = Inl e" using assms(1) False f Inr by (simp_all add: respond_def)
        then show ?thesis using first False by auto
      next
        case a: (Inr a)
        obtain s2 m q where l: "repair_loop env c r a = (s2, m, q)" by (cases "repair_loop env c r a") auto
        have "sent = s1 @ s2" "outcome = bind_result q (finish_response env c gen m)"
          using assms(1) False f Inr l a by (simp_all add: respond_def)
        then show ?thesis using repair_loop_calls [OF l] first False finish_repairs by (cases q) fastforce+
      qed
    qed
  qed
  then show "list_all (request_ok env c) sent" "sent \<noteq> [] \<Longrightarrow> within_calls env c (length sent - 1)"
    "outcome = Inr (g, d, v, n) \<Longrightarrow> n = length sent - 1"
    "sent = [] \<longleftrightarrow> qc_context c = [] \<or> op_maximum_calls (qc_options c) = Some 0" by blast+
qed


section \<open>Coverage of a comparison\<close>

lemma dimension_candidates_nth:
  "i < length rs \<Longrightarrow> k \<in> set (dimension_candidates claims rs ! i) \<longleftrightarrow>
   k < length claims \<and> covers_dimension (claims ! k) (rs ! i)"
  by (force simp: dimension_candidates_def in_set_enumerate_eq)

lemma length_dimension_candidates [simp]: "length (dimension_candidates claims rs) = length rs"
  by (simp add: dimension_candidates_def)

lemma uncovered_none:
  "uncovered_dimensions d rs = [] \<longleftrightarrow>
   (\<forall>i < length rs. i \<in> set (assign_distinct_claims (dimension_candidates (factual_claims d) rs)))"
  by (force simp: uncovered_dimensions_def Let_def filter_empty_conv in_set_enumerate_eq)

lemma uncovered_exact:
  "uncovered_dimensions d rs = [] \<longleftrightarrow>
   (\<exists>f. inj_on f {..<length rs} \<and> (\<forall>i < length rs. f i < length (factual_claims d) \<and>
      covers_dimension (factual_claims d ! f i) (rs ! i)))"
  using assign_distinct_claims_exact [of "dimension_candidates (factual_claims d) rs"]
  unfolding uncovered_none distinct_claims_def by (simp add: dimension_candidates_nth)


section \<open>A response is always given\<close>

lemma context_items_ids:
  "i \<in> set (context_items a b e n index hs) \<Longrightarrow>
   \<exists>k. index \<le> k \<and> k < index + length hs \<and> ec_model_id i = ''E'' @ show_nat k"
proof (induction a b e n index hs rule: context_items.induct)
  case (2 a b e n index h hs)
  then show ?case
    by (auto simp: Let_def context_item_of_def split: if_splits)
      (metis Suc_leD add_Suc less_add_Suc1 less_SucI)+
qed simp

lemma evidence_context_ids:
  assumes "llm_fields_ok s" "i \<in> set (build_evidence_context evidence s maximum)"
  shows "indexed_id CHR ''E'' (ec_model_id i)"
proof -
  obtain k where k: "1 \<le> k" "k < 1 + length (take (context_limit s maximum) (sort_key context_order evidence))"
    "ec_model_id i = ''E'' @ show_nat k"
    using context_items_ids assms(2) unfolding build_evidence_context_def Let_def by blast
  have "context_limit s maximum \<le> 100" using assms(1) by (auto simp: context_limit_def llm_fields_ok_def)
  then have "k \<le> 999" using k(2) by simp
  then show ?thesis using indexed_id_show_nat [of k "CHR ''E''"] k(1,3) by simp
qed

definition context_ids_ok :: "response_case \<Rightarrow> bool" where
  "context_ids_ok c = (\<forall>i \<in> set (qc_context c). indexed_id CHR ''E'' (ec_model_id i))"

lemma fallback_given:
  assumes "context_ids_ok c" "length (qc_question c) \<le> 10 ^ 20" "env_fingerprint env = Some build"
  shows "\<exists>g d v. fallback_response env c reason = Inr (g, d, v)"
proof -
  let ?s = "env_settings env"
  obtain x where "build_extractive_fallback (qc_question c) (qc_context c) (min 4 (llm_max_citations ?s))
      (llm_max_answer_characters ?s) = Inr x"
    using build_extractive_fallback_facts [OF _ assms(2)] assms(1) unfolding context_ids_ok_def
    by (metis min.coboundedI1 numeral_le_iff semiring_norm(68,71,72,79))
  moreover obtain v where "checked_citations env c
      (iv_draft (validate_and_repair_response_identifiers (xt_draft x) (qc_requirements c))) = Inr v"
    using checked_citations_given [OF assms(3)] by blast
  moreover obtain w where "checked_citations env c unverifiable_draft = Inr w"
    using checked_citations_given [OF assms(3)] by blast
  ultimately show ?thesis by (simp add: fallback_response_def repaired_draft_def Let_def)
qed

lemma assess_given:
  assumes "env_fingerprint env = Some build"
  shows "\<exists>a. assess env c d = Inr a"
proof -
  let ?v = "validate_and_repair_response_identifiers d (qc_requirements c)"
  obtain v where v: "checked_citations env c (iv_draft ?v) = Inr v" using checked_citations_given [OF assms] by blast
  obtain w m where "validate_comparison_draft (iv_draft ?v) (append_validation_errors v (iv_errors ?v))
      (op_comparison_ids (qc_options c)) (op_shared_facets (qc_options c)) = (w, m)" by fastforce
  then show ?thesis by (simp add: assess_def repaired_draft_def v Let_def)
qed

lemma repair_loop_given:
  "env_fingerprint env = Some build \<Longrightarrow> \<exists>sent m q. repair_loop env c n a = (sent, m, Inr q)"
proof (induction env c n a rule: repair_loop.induct)
  case (1 env c n a)
  let ?r = "grounding_repair_request env (qc_request c) (as_missing a) (repair_category c) (qc_identifiers c)"
  show ?case
  proof (cases "cv_valid (as_validation a) \<or> \<not> may_repair env c n")
    case False
    show ?thesis
    proof (cases "generate env (Suc n) ?r")
      case (Inr g)
      obtain b where b: "assess env c (lg_draft g) = Inr b" using assess_given [OF 1(2)] by blast
      obtain sent m q where "repair_loop env c (Suc n) b = (sent, m, Inr q)"
        using 1(1) [OF False refl refl Inr b 1(2)] by blast
      then show ?thesis using False Inr b by (simp add: repair_loop.simps [of env c n a] Let_def)
    qed (use False in \<open>simp add: repair_loop.simps [of env c n a] Let_def\<close>)
  qed (simp add: repair_loop.simps [of env c n a])
qed

lemma respond_given:
  assumes "context_ids_ok c" "length (qc_question c) \<le> 10 ^ 20"
    "llm_allow_deterministic_fallback (env_settings env)" "env_fingerprint env = Some build"
  shows "\<exists>g d v n. snd (respond env c) = Inr (g, d, v, n)"
proof -
  have fb: "\<exists>g d v. fallback_response env c reason = Inr (g, d, v)" for reason
    by (rule fallback_given [OF assms(1,2,4)])
  have fin: "\<exists>g d v m. finish_response env c gen n outcome = Inr (g, d, v, m)" for gen n outcome
    by (cases outcome) (auto simp: finish_response_def Let_def fb)
  obtain s1 r o1 where f: "first_generation env c = (s1, r, o1)" by (cases "first_generation env c") auto
  show ?thesis
  proof (cases o1)
    case (Inl e)
    then show ?thesis using f fb assms(3) by (auto simp: respond_def no_evidence_reply_def Let_def)
  next
    case (Inr gen)
    obtain a where a: "assess env c (lg_draft gen) = Inr a" using assess_given [OF assms(4)] by blast
    obtain s2 m q where "repair_loop env c r a = (s2, m, Inr q)" using repair_loop_given [OF assms(4)] by blast
    then show ?thesis using f Inr a fb fin by (auto simp: respond_def no_evidence_reply_def Let_def)
  qed
qed

lemma retrieval_given:
  assumes "llm_fields_ok (env_settings env)" "length question \<le> 10 ^ 20"
    "llm_allow_deterministic_fallback (env_settings env)" "env_fingerprint env = Some build"
    "requested_documents env (extract_enterprise_identifiers question) = Inr documents"
    "\<forall>i \<in> set (op_context_override opts). indexed_id CHR ''E'' (ec_model_id i)"
  shows "\<exists>g d v n. snd (retrieval_response env question evidence p opts) = Inr (g, d, v, n)"
proof -
  obtain c where c: "prepare env question evidence p opts = Inr c" "qc_question c = question"
    "qc_context c = response_context env evidence opts (extract_enterprise_identifiers question) documents"
    using prepare_simps [OF assms(5)] by blast
  have "context_ids_ok c"
    unfolding context_ids_ok_def c(3) response_context_def Let_def
    using assms(6) evidence_context_ids [OF assms(1)] by auto
  then show ?thesis using respond_given [of c env build] c(1,2) assms(2-4) by (simp add: retrieval_response_def)
qed

lemma research_given:
  assumes "llm_fields_ok (env_settings env)" "length question \<le> 10 ^ 20"
    "llm_allow_deterministic_fallback (env_settings env)" "env_fingerprint env = Some build"
    "requested_documents env (extract_enterprise_identifiers question) = Inr documents"
  shows "\<exists>g d v n k. snd (research_response env question evidence p r) = Inr (g, d, v, n, k)"
proof -
  have "\<forall>i \<in> set (op_context_override (research_options env r evidence)). indexed_id CHR ''E'' (ec_model_id i)"
    by (auto simp: research_options_def Let_def evidence_context_ids [OF assms(1)])
  then obtain g d v n where "snd (retrieval_response env question
      (if comparison_synthesis_evidence r evidence = [] then evidence else comparison_synthesis_evidence r evidence)
      p (research_options env r evidence)) = Inr (g, d, v, n)"
    using retrieval_given [OF assms] by blast
  then show ?thesis by (auto simp: research_response_def Let_def split: prod.splits)
qed

text \<open>The calls a research reports: one for the answer even when no request was sent for want of context.\<close>

lemma research_calls_reported:
  assumes "research_response env question evidence p r = (sent, Inr (g, d, v, n, calls))"
  shows "calls = length sent \<or> (sent = [] \<and> calls = 1)"
proof -
  let ?o = "research_options env r evidence"
  let ?e = "if comparison_synthesis_evidence r evidence = [] then evidence else comparison_synthesis_evidence r evidence"
  obtain g' where rr: "retrieval_response env question ?e p ?o = (sent, Inr (g', d, v, n))"
    and calls: "calls = (if op_maximum_calls ?o = Some 0 then 0 else 1 + n)"
    using assms by (cases "snd (retrieval_response env question ?e p ?o)")
      (auto simp: research_response_def Let_def split: prod.splits)
  obtain c where c: "prepare env question ?e p ?o = Inr c" "respond env c = (sent, Inr (g', d, v, n))"
    using rr by (auto simp: retrieval_response_def split: sum.splits)
  then obtain documents where "requested_documents env (extract_enterprise_identifiers question) = Inr documents"
    by (auto simp: prepare_def Let_def)
  from prepare_simps [OF this, of ?e p ?o] c(1)
  have o: "qc_options c = ?o" and b: "prompt_bounded (env_settings env) (qc_request c)" by auto
  note calls' = respond_calls(3,4) [OF c(2) b]
  show ?thesis
  proof (cases "sent = []")
    case True
    then show ?thesis using calls'(1) calls by (auto split: if_splits)
  next
    case False
    then have "op_maximum_calls ?o \<noteq> Some 0" using calls'(2) o by simp
    then show ?thesis using calls'(1) calls False by (cases sent) simp_all
  qed
qed

end
