(* ===== verification/Response_Claims.thy ===== *)
theory Response_Claims
  imports Response_Properties Research_Samples
begin

text \<open>
  The properties of the grounded response service, with a concrete response in which the model first
  cites unknown evidence and then repairs its draft.
\<close>

section \<open>A concrete response\<close>

definition demo_hybrid :: hybrid_evidence where
  "demo_hybrid = \<lparr> he_evidence = \<lparr> de_record_id = ''r'', de_dense_score = 0, de_chunk_id = 5, de_evidence_id = 6,
       de_document_id = 7, de_title = ''Runbook'', de_source = ''s'', de_source_file = ''f.md'', de_section = ''Intro'',
       de_section_path = [''Intro''], de_source_line_start = 1, de_source_line_end = 4, de_version = ''1'',
       de_updated_date = 0, de_access_level = INTERNAL, de_allowed_roles = {VIEWER, ANALYST, ADMINISTRATOR},
       de_document_type = DT_runbook, de_department = ''Ops'', de_status = ''approved'', de_text = ''a'',
       de_chunk_content_hash = ''h'', de_build_fingerprint = ''b'' \<rparr>,
     he_raw_dense_score = None, he_raw_sparse_score = Some 1, he_normalized_dense_score = 0,
     he_normalized_sparse_score = 1, he_hybrid_score = 1, he_dense_rank = None, he_sparse_rank = Some 1,
     he_final_rank = 1, he_retrieval_modes = {''sparse''} \<rparr>"

definition demo_draft :: "string \<Rightarrow> answer_draft" where
  "demo_draft marker = \<lparr> dr_answer_summary = ''s'',
     dr_claims = [\<lparr> gc_claim_id = ''C1'', gc_text = ''t'', gc_supporting_evidence_ids = [marker], gc_factual = True,
       gc_confidence = Confidence_high, gc_qualification = None \<rparr>],
     dr_warnings = [], dr_insufficient_evidence = False, dr_clarification_needed = False \<rparr>"

definition demo_generation :: "string \<Rightarrow> llm_generation" where
  "demo_generation marker = \<lparr> lg_draft = demo_draft marker,
     lg_metadata = \<lparr> lm_provider = ''fake'', lm_model = ''m'', lm_response_id = None \<rparr>,
     lg_usage = \<lparr> lu_input_tokens = None, lu_output_tokens = None \<rparr> \<rparr>"

definition demo_environment :: response_environment where
  "demo_environment = \<lparr> env_settings = default_settings, env_build = None, env_fingerprint = Some ''b'',
     env_provider = (\<lambda>n _. Return (demo_generation (if n = 0 then ''E9'' else ''E1''))) \<rparr>"

abbreviation "demo_principal \<equiv> sample_principal 2 VIEWER"

abbreviation "demo_response \<equiv> retrieval_response demo_environment ''q'' [demo_hybrid] demo_principal default_options"

definition demo_item :: context_item where "demo_item = context_item_of 1 (he_evidence demo_hybrid) ''a''"

lemma demo_names: "''E'' @ show_nat 1 = ''E1''" "extract_enterprise_identifiers ''q'' = []"
  "contains_untrusted_instruction ''a'' = False"
  by code_simp+

lemma demo_policy: "response_policy_violations (render_draft (demo_draft ''E1'')) = []"
  by code_simp

lemma demo_drafts_ok: "answer_draft_ok (demo_draft ''E9'')" "answer_draft_ok (demo_draft ''E1'')"
  by code_simp+

lemma demo_item_fields [simp]:
  "ec_model_id demo_item = ''E1''" "ec_access_level demo_item = INTERNAL" "ec_build_fingerprint demo_item = ''b''"
  "ec_source_line_start demo_item = 1" "ec_source_line_end demo_item = 4"
  using demo_names(1) by (simp_all add: demo_item_def context_item_of_def demo_hybrid_def)

lemma demo_context: "build_evidence_context [demo_hybrid] default_settings None = [demo_item]"
  by (simp add: build_evidence_context_def context_limit_def demo_names(3) Let_def bounded_excerpt_def
      demo_item_def default_settings_def demo_hybrid_def del: One_nat_def)

lemma demo_prepare:
  "\<exists>c. prepare demo_environment ''q'' [demo_hybrid] demo_principal default_options = Inr c \<and>
     qc_context c = [demo_item] \<and> qc_principal c = demo_principal \<and> qc_options c = default_options \<and>
     qc_identifiers c = [] \<and> qc_requirements c = []"
  by (simp add: prepare_def requested_documents_def demo_names(2) response_context_def default_options_def
      identifier_requirements_def demo_environment_def demo_context Let_def)

definition assessed :: "string \<Rightarrow> assessment" where
  "assessed m =
     \<lparr> as_draft = demo_draft m,
       as_validation = (if m = ''E1'' then \<lparr> cv_valid = True, cv_errors = [], cv_citations = [citation_from_context demo_item] \<rparr>
         else \<lparr> cv_valid = False, cv_errors = [''C1: unknown evidence ID''], cv_citations = [] \<rparr>),
       as_missing = [] \<rparr>"

lemma demo_checked:
  assumes "qc_context c = [demo_item]" "qc_principal c = demo_principal" "qc_options c = default_options" "qc_requirements c = []"
  shows "assess demo_environment c (demo_draft m) = Inr (assessed m)"
proof -
  have i: "INTERNAL \<in> allowed_access_levels demo_principal" by code_simp
  have "checked_citations demo_environment c (demo_draft m) = Inr
     (if m = ''E1'' then \<lparr> cv_valid = True, cv_errors = [], cv_citations = [citation_from_context demo_item] \<rparr>
         else \<lparr> cv_valid = False, cv_errors = [''C1: unknown evidence ID''], cv_citations = [] \<rparr>)"
    by (simp add: checked_citations_Inr validate_draft_citations_def context_map_def assms demo_draft_def
        used_evidence_def unique_first_def claim_errors_def citation_errors_def demo_environment_def i
        default_settings_def Let_def)
  then show ?thesis using assms
    by (simp add: assessed_def assess_def repaired_draft_def validate_and_repair_response_identifiers_def
        append_validation_errors_def validate_comparison_draft_def default_options_def require_citations_def
        validate_identifier_alignment_def Let_def)
qed

lemma demo_reply:
  "\<exists>sent g v. demo_response = (sent, Inr (g, demo_draft ''E1'', v, 1)) \<and> length sent = 2 \<and>
     gr_fallback_reason g = None \<and> gr_citations g = [citation_from_context demo_item]"
proof -
  obtain c where p: "prepare demo_environment ''q'' [demo_hybrid] demo_principal default_options = Inr c"
    and c: "qc_context c = [demo_item]" "qc_principal c = demo_principal" "qc_options c = default_options"
      "qc_requirements c = []" "qc_identifiers c = []"
    using demo_prepare by blast
  note a = demo_checked [OF c(1-4)]
  have g: "generate demo_environment n r = Inr (demo_generation (if n = 0 then ''E9'' else ''E1''))" for n r
    using demo_drafts_ok by (simp add: generate_def demo_environment_def demo_generation_def)
  have first: "first_generation demo_environment c = ([qc_request c], 0, Inr (demo_generation ''E9''))"
    by (simp add: first_generation_def g Let_def)
  have may: "may_repair demo_environment c 0"
    by (simp add: may_repair_def c default_options_def demo_environment_def default_settings_def)
  have draft: "lg_draft (demo_generation m) = demo_draft m" for m by (simp add: demo_generation_def)
  have valid: "cv_valid (as_validation (assessed ''E1''))" "\<not> cv_valid (as_validation (assessed ''E9''))"
    by (simp_all add: assessed_def)
  have stop: "repair_loop demo_environment c 1 (assessed ''E1'') = ([], 1, Inr (Some (assessed ''E1'')))"
    using valid by (subst repair_loop.simps) simp
  have loop: "\<exists>r. repair_loop demo_environment c 0 (assessed ''E9'') = ([r], 1, Inr (Some (assessed ''E1'')))"
    using stop valid by (subst repair_loop.simps) (simp add: a may g draft Let_def)
  then show ?thesis
    using p first by (auto simp: retrieval_response_def respond_def c finish_response_def a draft demo_policy assessed_def
        default_options_def deterministic_response_def Let_def)
qed


section \<open>Properties\<close>

text \<open>C31: Whatever the model generates, every citation of a response is made from an item of the context of the
  question, whose access level the caller may read, which belongs to the current build and has a proper line
  range; citations are distinct and bounded in number, and every claim of the draft cites only them, a factual
  claim at least one.  This excludes the fallback of a comparison, which cites its whole context unchecked.
  The validator checks the access level alone, not the list of roles of a document.\<close>

theorem response_citations_sound:
  assumes "retrieval_response env question evidence p opts = (sent, Inr (g, d, v, n))"
    and "gr_fallback_reason g \<noteq> Some FR_research_dimension_validation_failed"
  shows "(\<forall>x \<in> set (gr_citations g). \<exists>i documents.
        requested_documents env (extract_enterprise_identifiers question) = Inr documents \<and>
        i \<in> set (response_context env evidence opts (extract_enterprise_identifiers question) documents) \<and>
        x = citation_from_context i \<and> ec_access_level i \<in> allowed_access_levels p \<and>
        Some (ec_build_fingerprint i) = env_fingerprint env \<and> ec_source_line_start i \<le> ec_source_line_end i) \<and>
      distinct (map vc_marker (gr_citations g)) \<and> length (gr_citations g) \<le> llm_max_citations (env_settings env) \<and>
      (\<forall>k \<in> set (dr_claims d). (gc_factual k \<longrightarrow> gc_supporting_evidence_ids k \<noteq> []) \<and>
         set (gc_supporting_evidence_ids k) \<subseteq> set (map vc_marker (gr_citations g)))"
proof -
  obtain documents where documents: "requested_documents env (extract_enterprise_identifiers question) = Inr documents"
    using assms(1) by (auto simp: retrieval_response_def prepare_def Let_def split: sum.splits)
  obtain c where "prepare env question evidence p opts = Inr c" "cited_by env c d (gr_citations g)"
    using retrieval_cited [OF assms documents] by blast
  then show ?thesis
    using prepare_simps [OF documents, of evidence p opts] documents unfolding cited_by_def by auto
qed

lemma response_citations_sound_witness:
  "\<exists>sent g v. demo_response = (sent, Inr (g, demo_draft ''E1'', v, 1)) \<and> gr_citations g \<noteq> [] \<and>
     (\<forall>x \<in> set (gr_citations g). \<exists>i documents.
        requested_documents demo_environment (extract_enterprise_identifiers ''q'') = Inr documents \<and>
        i \<in> set (response_context demo_environment [demo_hybrid] default_options (extract_enterprise_identifiers ''q'') documents) \<and>
        x = citation_from_context i \<and> ec_access_level i \<in> allowed_access_levels demo_principal \<and>
        Some (ec_build_fingerprint i) = env_fingerprint demo_environment)"
proof -
  obtain sent g v where r: "demo_response = (sent, Inr (g, demo_draft ''E1'', v, 1))"
    and g: "gr_fallback_reason g = None" "gr_citations g = [citation_from_context demo_item]"
    using demo_reply by blast
  then show ?thesis using response_citations_sound [OF r] by fastforce
qed

text \<open>C32: The check of a comparison accepts a draft whose citations are valid exactly when distinct factual
  claims can be assigned to all required dimensions, each citing evidence of its dimension and mentioning it, no
  supplied evidence is described as absent, and some factual claim covers the shared facets for every dimension.\<close>

theorem comparison_accepted_exactly:
  assumes "requirements \<noteq> []" "cv_valid v" "cv_errors v = []"
  shows "cv_valid (fst (validate_comparison_draft d v requirements facets)) \<longleftrightarrow>
     (\<exists>f. inj_on f {..<length requirements} \<and> (\<forall>i < length requirements. f i < length (factual_claims d) \<and>
        set (gc_supporting_evidence_ids (factual_claims d ! f i)) \<inter> set (snd (requirements ! i)) \<noteq> {} \<and>
        claim_mentions_dimension (gc_text (factual_claims d ! f i)) (fst (requirements ! i)))) \<and>
     \<not> falsely_unsupported d \<and> comparison_claim_valid d requirements facets"
  using comparison_valid [of v requirements d facets] assms
  by (simp add: coherent_def uncovered_exact covers_dimension_def)

text \<open>One claim for two dimensions is not enough.\<close>

lemma comparison_accepted_exactly_witness:
  "\<not> cv_valid (fst (validate_comparison_draft (demo_draft ''E1'') \<lparr> cv_valid = True, cv_errors = [], cv_citations = [] \<rparr>
     [(''t'', [''E1'']), (''t'', [''E1''])] []))"
proof
  let ?rs = "[(''t'', [''E1'']), (''t'', [''E1''])]"
  assume "cv_valid (fst (validate_comparison_draft (demo_draft ''E1'')
      \<lparr> cv_valid = True, cv_errors = [], cv_citations = [] \<rparr> ?rs []))"
  then obtain f where f: "inj_on f {..<length ?rs}" "\<forall>i < length ?rs. f i < length (factual_claims (demo_draft ''E1''))"
    by (subst (asm) comparison_accepted_exactly) (simp, simp, simp, blast)
  moreover have "length (factual_claims (demo_draft ''E1'')) = 1" by (simp add: factual_claims_def demo_draft_def)
  ultimately have "f 0 = 0" "f 1 = 0" by simp_all
  then show False using inj_onD [OF f(1), of 0 1] by simp
qed

text \<open>C33: A response sends at most one request more than the repair attempts and never more than the calls it
  was given; each request is within the prompt bound and offers exactly the evidence of the context; and the
  number of repairs it reports is the number of requests after the first.\<close>

theorem response_calls_bounded:
  assumes "retrieval_response env question evidence p opts = (sent, outcome)"
    and "requested_documents env (extract_enterprise_identifiers question) = Inr documents"
  shows "length sent \<le> 1 + llm_citation_repair_attempts (env_settings env) \<and>
     (case op_maximum_calls opts of None \<Rightarrow> True | Some m \<Rightarrow> length sent \<le> m) \<and>
     list_all (\<lambda>r. length (lq_input_text r) \<le> llm_max_prompt_characters (env_settings env) \<and>
        lq_allowed_evidence_ids r = map ec_model_id
          (response_context env evidence opts (extract_enterprise_identifiers question) documents)) sent \<and>
     (case outcome of Inl _ \<Rightarrow> True | Inr (_, _, _, repairs) \<Rightarrow> repairs = length sent - 1)"
proof -
  obtain c where c: "prepare env question evidence p opts = Inr c" "qc_options c = opts"
    "qc_context c = response_context env evidence opts (extract_enterprise_identifiers question) documents"
    "lq_allowed_evidence_ids (qc_request c) = map ec_model_id (qc_context c)"
    and b: "prompt_bounded (env_settings env) (qc_request c)"
    using prepare_simps [OF assms(2), of evidence p opts] by blast
  have r: "respond env c = (sent, outcome)" using assms(1) c(1) by (simp add: retrieval_response_def)
  note calls = respond_calls [OF r b]
  have "length sent \<le> 1 + llm_citation_repair_attempts (env_settings env) \<and>
     (case op_maximum_calls opts of None \<Rightarrow> True | Some m \<Rightarrow> length sent \<le> m)"
    using calls(2) c(2) by (cases sent) (auto simp: within_calls_def split: option.splits)
  moreover have "list_all (\<lambda>r. length (lq_input_text r) \<le> llm_max_prompt_characters (env_settings env) \<and>
        lq_allowed_evidence_ids r = map ec_model_id
          (response_context env evidence opts (extract_enterprise_identifiers question) documents)) sent"
    using calls(1) c(3,4) by (auto simp: list_all_iff request_ok_def prompt_bounded_def)
  ultimately show ?thesis using calls(3) by (auto split: sum.splits)
qed

lemma response_calls_bounded_witness:
  "length (fst demo_response) = 2 \<and> length (fst demo_response) \<le> 1 + llm_citation_repair_attempts default_settings"
proof -
  obtain sent g v where r: "demo_response = (sent, Inr (g, demo_draft ''E1'', v, 1))" and n: "length sent = 2"
    using demo_reply by blast
  have "requested_documents demo_environment (extract_enterprise_identifiers ''q'') = Inr []"
    by (simp add: requested_documents_def demo_names(2))
  then show ?thesis using response_calls_bounded [OF r] n r by (simp add: demo_environment_def)
qed

text \<open>C35: The extractive fallback never fails: for a question and evidence within their contracts it yields a draft
  that satisfies its own contract, with at most the given number of claims and characters, each claim quoting a
  usable passage of the item of the context that it cites.\<close>

theorem extractive_draft_well_formed:
  assumes "\<forall>i \<in> set contexts. indexed_id CHR ''E'' (ec_model_id i)"
    and "length question \<le> 10 ^ 20" and "maximum_passages \<le> 20"
  shows "\<exists>x. build_extractive_fallback question contexts maximum_passages characters = Inr x \<and>
    answer_draft_ok (xt_draft x) \<and> length (dr_claims (xt_draft x)) \<le> max 1 maximum_passages \<and>
    (dr_claims (xt_draft x) = [] \<or>
      draft_length (dr_answer_summary (xt_draft x)) (dr_claims (xt_draft x)) \<le> characters) \<and>
    (\<forall>k \<in> set (dr_claims (xt_draft x)). \<exists>i \<in> set contexts. \<exists>passage \<in> set (split_passages (ec_text i)).
       suffix ('': '' @ normalized_passage passage) (gc_text k) \<and> passage_usable (normalized_passage passage) \<and>
       gc_supporting_evidence_ids k = [ec_model_id i]) \<and>
    (dr_insufficient_evidence (xt_draft x) \<longleftrightarrow> dr_claims (xt_draft x) = [])"
  using build_extractive_fallback_facts [OF assms, of characters] unfolding list_all_iff quoted_claim_def by blast

lemma extractive_draft_well_formed_witness:
  "\<exists>x. build_extractive_fallback ''q'' [demo_item] 4 8000 = Inr x \<and> answer_draft_ok (xt_draft x)"
proof -
  have "indexed_id CHR ''E'' ''E1''" by code_simp
  then show ?thesis using extractive_draft_well_formed [of "[demo_item]" "''q''" 4 8000] by auto
qed

text \<open>C34: With the deterministic fallback allowed and the ingestion manifest readable, a question is always
  answered, with and without research: no answer, failure or timeout of the model and no evidence makes the
  service raise, provided the current chunks can be read when the question names an identifier.\<close>

theorem response_always_given:
  assumes "llm_fields_ok (env_settings env)" and "llm_allow_deterministic_fallback (env_settings env)"
    and "length question \<le> 10 ^ 20"
    and "extract_enterprise_identifiers question = [] \<or> load_current_chunks (env_build env) = Inr b"
    and "env_fingerprint env = Some build"
  shows "(\<exists>g d v n. snd (retrieval_response env question evidence p default_options) = Inr (g, d, v, n)) \<and>
    (\<exists>g d v n calls. snd (research_response env question evidence p r) = Inr (g, d, v, n, calls))"
proof -
  obtain documents where "requested_documents env (extract_enterprise_identifiers question) = Inr documents"
    using assms(4) by (cases "extract_enterprise_identifiers question = []") (auto simp: requested_documents_def)
  then show ?thesis
    using retrieval_given [OF assms(1,3,2,5), of documents default_options]
      research_given [OF assms(1,3,2,5), of documents]
    by (simp add: default_options_def)
qed

lemma response_always_given_witness:
  "\<exists>g d v n. snd (retrieval_response (demo_environment\<lparr> env_provider := \<lambda>_ _. Raise LLM_timeout \<rparr>) ''q''
     [demo_hybrid] demo_principal default_options) = Inr (g, d, v, n)"
proof -
  have "llm_fields_ok default_settings" using default_settings_ok by (simp add: settings_ok_def)
  moreover have "llm_allow_deterministic_fallback default_settings" by (simp add: default_settings_def)
  ultimately show ?thesis
    using response_always_given [of "demo_environment\<lparr> env_provider := \<lambda>_ _. Raise LLM_timeout \<rparr>" "''q''" undefined "''b''"
        "[demo_hybrid]" demo_principal sample_answer] demo_names(2)
    by (simp add: demo_environment_def)
qed

end
