(* ===== verification/Analysis_Data.thy ===== *)
theory Analysis_Data
  imports Result_Models
begin

text \<open>
  The rows of a structured analysis: the root-cause taxonomy (tools/python_analysis/taxonomy.py) and the
  authorized extraction of incidents from the sample corpus (tools/python_analysis/datasets.py).  The files
  are an argument: the manifest's entries, the text of a document, YAML, SHA-256 and the reading of an ISO
  timestamp are what the reader of the corpus answers.
\<close>

section \<open>Root causes\<close>

definition ROOT_CAUSE_RULES :: "(string \<times> string list) list" where
  "ROOT_CAUSE_RULES =
     [(''connection_pool_exhaustion'', [''connection pool'', ''connection slots'']),
      (''certificate_lifecycle_failure'', [''certificate'']),
      (''message_queue_backlog'', [''queue backlog'', ''queue age'']),
      (''third_party_gateway_timeout'', [''third party'', ''provider timeout'', ''gateway timeout'']),
      (''configuration_drift'', [''configuration drift'']),
      (''retry_storm'', [''retry storm'', ''retry amplification'']),
      (''database_lock_contention'', [''lock contention'', ''database lock'']),
      (''dns_service_discovery_failure'', [''dns'', ''service discovery'']),
      (''capacity_planning_error'', [''capacity planning'', ''capacity shortfall'']),
      (''monitoring_gap'', [''monitoring gap'', ''missing alert'']),
      (''deployment_regression'', [''deployment regression'']),
      (''manual_operational_error'', [''manual error'', ''operator error''])]"

definition ROOT_CAUSE_CATEGORIES :: "string list" where
  "ROOT_CAUSE_CATEGORIES = map fst ROOT_CAUSE_RULES @ [''other'', ''unknown'']"

definition classify_root_cause :: "string option \<Rightarrow> string" where
  "classify_root_cause text =
     (case text of
        None \<Rightarrow> ''unknown''
      | Some s \<Rightarrow>
          (if s = [] then ''unknown''
           else case List.find (\<lambda>(_, phrases). list_ex (\<lambda>w. contains_text w (casefold s)) phrases) ROOT_CAUSE_RULES of
             Some (category, _) \<Rightarrow> category
           | None \<Rightarrow> ''other''))"

lemma classify_root_cause_known: "classify_root_cause text \<in> set ROOT_CAUSE_CATEGORIES"
proof -
  have "a \<in> fst ` set ROOT_CAUSE_RULES" if "List.find f ROOT_CAUSE_RULES = Some (a, b)" for a b f
    using find_Some_set [OF that] by force
  then show ?thesis by (auto simp: classify_root_cause_def ROOT_CAUSE_CATEGORIES_def split: option.splits)
qed

section \<open>Reading a document\<close>

text \<open>\<open>s.split(sep, 1)\<close>: the parts before and after the first separator.\<close>

fun split_at_text :: "string \<Rightarrow> string \<Rightarrow> (string \<times> string) option" where
  "split_at_text sep [] = (if sep = [] then Some ([], []) else None)"
| "split_at_text sep (c # s) =
     (if prefix sep (c # s) then Some ([], drop (length sep) (c # s))
      else map_option (\<lambda>(a, b). (c # a, b)) (split_at_text sep s))"

text \<open>A section ends before the next heading of its level or with the text.\<close>

fun until_heading :: "string \<Rightarrow> string" where
  "until_heading [] = []"
| "until_heading (c # s) = (if prefix (CHR 10 # ''## '') (c # s) then [] else c # until_heading s)"

definition section_of :: "string \<Rightarrow> string \<Rightarrow> string option" where
  "section_of body heading =
     (case rx_find False (Seq (Lit (''## '' @ heading)) (Rep 1 None True (Cls False [CSpace]))) None body of
        None \<Rightarrow> None
      | Some (_, q) \<Rightarrow> Some (strip (until_heading (snd q))))"

definition field_value :: "string \<Rightarrow> string \<Rightarrow> string option" where
  "field_value label body =
     (case rx_find_group False (Seq (Lit (''**'' @ label @ '':**'')) (rx_many (Cls False [CSpace])))
             (rx_some (Cls True [COne (CHR 10)])) None body of
        None \<Rightarrow> None
      | Some (m, q) \<Rightarrow> Some (strip (take (length (snd m) - length (snd q)) (snd m))))"

definition affected_services :: "string \<Rightarrow> string list" where
  "affected_services body =
     (case field_value ''Affected services'' body of None \<Rightarrow> [] | Some s \<Rightarrow> map strip (split_on CHR '','' s))"

definition corrective_action_status :: "string \<Rightarrow> string option" where
  "corrective_action_status body =
     (case section_of body ''Owners and follow-up status'' of
        None \<Rightarrow> None
      | Some followup \<Rightarrow>
          (case split_at_text ''status is **'' followup of
             None \<Rightarrow> None
           | Some (_, rest) \<Rightarrow> Some (case split_at_text ''**'' rest of None \<Rightarrow> rest | Some (s, _) \<Rightarrow> s)))"

section \<open>Times\<close>

definition local_date :: "py_datetime \<Rightarrow> date" where
  "local_date t = (case t of Naive w \<Rightarrow> w | Aware w _ \<Rightarrow> w) div 86400000000"

text \<open>\<open>end - start\<close> in microseconds; mixing naive and aware times raises.\<close>

fun elapsed :: "py_datetime \<Rightarrow> py_datetime \<Rightarrow> int option" where
  "elapsed (Naive a) (Naive b) = Some (b - a)"
| "elapsed (Aware a p) (Aware b q) = Some ((b - q) - (a - p))"
| "elapsed _ _ = None"

section \<open>The authorized incidents\<close>

datatype analysis_error = AnalysisAuthorizationError | AnalysisValidationError | AnalysisDatasetError
  | AnalysisLimitError | Analysis_other_error

text \<open>An entry of the manifest; \<open>None\<close> for the metadata means that a field is missing or has a wrong value.\<close>

record incident_entry =
  me_document_type :: string
  me_file_path :: string
  me_content_hash :: string
  me_metadata :: "document_metadata option"
  me_root_cause_category :: "string option"

record corpus_files =
  fs_manifest :: "incident_entry list option"
  fs_in_incidents :: "string \<Rightarrow> bool"
  fs_read :: "string \<Rightarrow> string option"
  fs_yaml_status :: "string \<Rightarrow> (unit, string option) result"
  fs_sha :: "string \<Rightarrow> string"
  fs_datetime :: "string \<Rightarrow> py_datetime option"

definition optional_time :: "corpus_files \<Rightarrow> string option \<Rightarrow> (analysis_error, py_datetime option) result" where
  "optional_time files s =
     (case s of
        None \<Rightarrow> Return None
      | Some t \<Rightarrow> (case fs_datetime files t of None \<Rightarrow> Raise Analysis_other_error | Some d \<Rightarrow> Return (Some d)))"

definition duration_of ::
  "py_datetime option \<Rightarrow> py_datetime option \<Rightarrow> (analysis_error, real option) result" where
  "duration_of start end' =
     (case (start, end') of
        (Some a, Some b) \<Rightarrow>
          (case elapsed a b of
             None \<Rightarrow> Raise Analysis_other_error
           | Some n \<Rightarrow> if n < 0 then Raise AnalysisDatasetError else Return (Some (of_int n / 60000000)))
      | _ \<Rightarrow> Return None)"

definition incident_row_of ::
  "corpus_files \<Rightarrow> incident_entry \<Rightarrow> document_metadata \<Rightarrow> string option \<Rightarrow> string \<Rightarrow>
   (analysis_error, incident_row) result" where
  "incident_row_of files entry meta status body =
     bind_result (optional_time files (field_value ''Start'' body)) (\<lambda>start.
     bind_result (optional_time files (field_value ''End'' body)) (\<lambda>end'.
     bind_result (duration_of start end') (\<lambda>duration.
       case status of
         None \<Rightarrow> Raise Analysis_other_error
       | Some st \<Rightarrow>
           Return \<lparr> ir_document_id = dm_document_id meta, ir_incident_id = field_value ''Incident ID'' body,
             ir_title = dm_title meta, ir_department = dm_department meta,
             ir_access_level = dm_access_level meta, ir_allowed_roles = dm_allowed_roles meta, ir_status = st,
             ir_created_date = dm_created_date meta, ir_source_file = me_file_path entry,
             ir_severity = field_value ''Severity'' body, ir_start_time = start, ir_end_time = end',
             ir_duration_minutes = duration, ir_affected_services = affected_services body,
             ir_root_cause_category = (case me_root_cause_category entry of
                 Some (c # cs) \<Rightarrow> c # cs
               | _ \<Rightarrow> classify_root_cause (section_of body ''Technical root cause'')),
             ir_corrective_action_status = corrective_action_status body \<rparr>)))"

text \<open>One entry: \<open>None\<close> when the caller may not read it.\<close>

definition load_incident ::
  "corpus_files \<Rightarrow> authenticated_principal \<Rightarrow> incident_entry \<Rightarrow> (analysis_error, incident_row option) result" where
  "load_incident files p entry =
     (if \<not> fs_in_incidents files (me_file_path entry) then Raise AnalysisDatasetError
      else case fs_read files (me_file_path entry) of
        None \<Rightarrow> Raise Analysis_other_error
      | Some text \<Rightarrow>
          (case split_at_text (CHR 10 # ''---'' @ [CHR 10]) (drop 4 text) of
             None \<Rightarrow> Raise AnalysisDatasetError
           | Some (raw_yaml, body) \<Rightarrow>
               (case fs_yaml_status files raw_yaml of
                  Inl _ \<Rightarrow> Raise AnalysisDatasetError
                | Inr status \<Rightarrow>
                    (if fs_sha files body \<noteq> me_content_hash entry then Raise AnalysisDatasetError
                     else case me_metadata entry of
                       None \<Rightarrow> Raise Analysis_other_error
                     | Some meta \<Rightarrow>
                         (if \<not> document_metadata_ok meta then Raise Analysis_other_error
                          else if \<not> is_document_authorized p (Some meta) then Return None
                          else map_sum id Some (incident_row_of files entry meta status body))))))"

fun load_incidents ::
  "corpus_files \<Rightarrow> authenticated_principal \<Rightarrow> incident_entry list \<Rightarrow> (analysis_error, incident_row list \<times> nat) result"
where
  "load_incidents files p [] = Return ([], 0)"
| "load_incidents files p (entry # entries) =
     (if me_document_type entry \<noteq> ''incident'' then load_incidents files p entries
      else bind_result (load_incident files p entry) (\<lambda>row.
        bind_result (load_incidents files p entries) (\<lambda>(rows, excluded).
          Return (case row of None \<Rightarrow> (rows, Suc excluded) | Some r \<Rightarrow> (r # rows, excluded)))))"

definition load_authorized_incidents ::
  "corpus_files \<Rightarrow> authenticated_principal \<Rightarrow> (analysis_error, incident_row list \<times> nat) result" where
  "load_authorized_incidents files p =
     (case fs_manifest files of None \<Rightarrow> Raise Analysis_other_error | Some entries \<Rightarrow> load_incidents files p entries)"

end
