(* ===== verification/Analysis_Engine.thy ===== *)
theory Analysis_Engine
  imports Analysis_Data Enterprise_Tools
begin

text \<open>
  The structured analysis: the aggregate operations (tools/python_analysis/engine.py) and the authorized
  service around them (tools/python_analysis/service.py).  The wall-clock limit of a run is left out.
\<close>

section \<open>Selecting rows\<close>

definition admits :: "'a list \<Rightarrow> 'a \<Rightarrow> bool" where "admits allowed x = (allowed = [] \<or> x \<in> set allowed)"

definition row_selected :: "analysis_filters \<Rightarrow> incident_row \<Rightarrow> bool" where
  "row_selected f r =
     (admits (af_document_ids f) (ir_document_id r) \<and> admits (af_departments f) (ir_department r) \<and>
      admits (af_statuses f) (ir_status r) \<and>
      (af_severities f = [] \<or> (\<exists>s \<in> set (af_severities f). ir_severity r = Some s)) \<and>
      admits (af_root_cause_categories f) (ir_root_cause_category r) \<and>
      (case af_affected_service f of None \<Rightarrow> True | Some s \<Rightarrow> s = [] \<or> s \<in> set (ir_affected_services r)) \<and>
      (case af_start_date f of None \<Rightarrow> True
       | Some d \<Rightarrow> (case ir_start_time r of None \<Rightarrow> False | Some t \<Rightarrow> d \<le> local_date t)) \<and>
      (case af_end_date f of None \<Rightarrow> True
       | Some d \<Rightarrow> (case ir_end_time r of None \<Rightarrow> False | Some t \<Rightarrow> local_date t \<le> d)))"

section \<open>Grouping\<close>

definition row_field :: "string \<Rightarrow> (incident_row \<Rightarrow> string option) option" where
  "row_field name = map_of
     [(''department'', Some \<circ> ir_department), (''document_type'', \<lambda>_. Some (document_type_text DT_incident)),
      (''severity'', ir_severity), (''status'', Some \<circ> ir_status),
      (''root_cause_category'', Some \<circ> ir_root_cause_category),
      (''corrective_action_status'', ir_corrective_action_status)] name"

fun fixed_field :: "analysis_operation \<Rightarrow> string option" where
  "fixed_field AO_severity_distribution = Some ''severity''"
| "fixed_field AO_status_distribution = Some ''status''"
| "fixed_field AO_department_distribution = Some ''department''"
| "fixed_field AO_document_type_distribution = Some ''document_type''"
| "fixed_field AO_recurring_root_causes = Some ''root_cause_category''"
| "fixed_field AO_corrective_action_summary = Some ''corrective_action_status''"
| "fixed_field AO_missing_value_summary = Some ''severity''"
| "fixed_field _ = None"

definition or_text :: "string option \<Rightarrow> string \<Rightarrow> string" where
  "or_text x y = (case x of Some (c # s) \<Rightarrow> c # s | _ \<Rightarrow> y)"

definition operation_field :: "analysis_request \<Rightarrow> string" where
  "operation_field r = or_text (fixed_field (ar_operation r)) (or_text (ar_group_by r) (or_text (ar_field r) []))"

definition group_key :: "(incident_row \<Rightarrow> string option) \<Rightarrow> incident_row \<Rightarrow> string" where
  "group_key accessor r = or_text (accessor r) ''missing''"

definition rows_with :: "(incident_row \<Rightarrow> string) \<Rightarrow> incident_row list \<Rightarrow> string \<Rightarrow> incident_row list" where
  "rows_with key rows k = filter (\<lambda>r. key r = k) rows"

definition grouped :: "(incident_row \<Rightarrow> string) \<Rightarrow> incident_row list \<Rightarrow> (string \<times> incident_row list) list" where
  "grouped key rows = map (\<lambda>k. (k, rows_with key rows k)) (unique_first (map key rows))"

definition incident_ids :: "incident_row list \<Rightarrow> string list" where
  "incident_ids rows = sort (filter (\<lambda>i. i \<noteq> []) (List.map_filter ir_incident_id rows))"

definition group_order :: "string \<times> incident_row list \<Rightarrow> int \<times> string" where
  "group_order g = (- int (length (snd g)), fst g)"

definition group_item :: "analysis_request \<Rightarrow> string \<times> incident_row list \<Rightarrow> analysis_item" where
  "group_item r g = \<lparr> ai_key = fst g, ai_count = length (snd g), ai_incident_ids = take (ar_limit r) (incident_ids (snd g)) \<rparr>"

definition group_items ::
  "analysis_request \<Rightarrow> (incident_row \<Rightarrow> string) \<Rightarrow> nat \<Rightarrow> nat \<Rightarrow> incident_row list \<Rightarrow>
   (analysis_error, analysis_item list) result" where
  "group_items r key maximum_groups maximum_distinct rows =
     (let gs = grouped key rows in
      if maximum_distinct < length gs then Raise AnalysisLimitError
      else Return (map (group_item r) (filter (\<lambda>g. ar_minimum_count r \<le> length (snd g))
        (take (min (ar_limit r) maximum_groups) (sort_key group_order gs)))))"

section \<open>Histograms and durations\<close>

fun date_key :: "date_interval \<Rightarrow> date \<Rightarrow> string" where
  "date_key Interval_day d = date_text d"
| "date_key Interval_year d = (case civil_from_days d of (y, _, _) \<Rightarrow> show_nat (nat y))"
| "date_key Interval_quarter d =
     (case civil_from_days d of (y, m, _) \<Rightarrow> show_nat (nat y) @ ''-Q'' @ show_nat (nat ((m - 1) div 3 + 1)))"
| "date_key Interval_month d =
     (case civil_from_days d of (y, m, _) \<Rightarrow> show_nat (nat y) @ ''-'' @ pad_digits 2 m)"

definition row_date :: "incident_row \<Rightarrow> date" where
  "row_date r = (case ir_start_time r of None \<Rightarrow> ir_created_date r | Some t \<Rightarrow> local_date t)"

definition histogram_items :: "analysis_request \<Rightarrow> incident_row list \<Rightarrow> analysis_item list" where
  "histogram_items r rows =
     (let key = date_key (ar_interval r) \<circ> row_date in
      take (ar_limit r) (map (\<lambda>k. \<lparr> ai_key = k, ai_count = length (rows_with key rows k), ai_incident_ids = [] \<rparr>)
        (sort (unique_first (map key rows)))))"

definition median :: "real list \<Rightarrow> real" where
  "median xs =
     (let ys = sort xs; n = length ys in
      if n mod 2 = 1 then ys ! (n div 2) else (ys ! (n div 2 - 1) + ys ! (n div 2)) / 2)"

definition duration_statistics :: "incident_row list \<Rightarrow> (string, real) dict" where
  "duration_statistics rows =
     (let xs = List.map_filter ir_duration_minutes rows in
      if xs = [] then []
      else [(''minimum'', Min (set xs)), (''maximum'', Max (set xs)),
        (''mean'', sum_list xs / real (length xs)), (''median'', median xs)])"

section \<open>The analysis\<close>

record analysis_parts =
  pt_items :: "analysis_item list"
  pt_scalar :: "nat option"
  pt_statistics :: "(string, real) dict"
  pt_formula :: string

definition no_parts :: analysis_parts where
  "no_parts = \<lparr> pt_items = [], pt_scalar = None, pt_statistics = [],
     pt_formula = ''authorized rows after typed narrowing filters'' \<rparr>"

definition analysis_parts_of ::
  "analysis_request \<Rightarrow> nat \<Rightarrow> nat \<Rightarrow> incident_row list \<Rightarrow> (analysis_error, analysis_parts) result" where
  "analysis_parts_of r maximum_groups maximum_distinct selected =
     (case ar_operation r of
        AO_count_records \<Rightarrow> Return (no_parts\<lparr> pt_scalar := Some (length selected) \<rparr>)
      | AO_duration_statistics \<Rightarrow>
          Return (no_parts\<lparr> pt_statistics := duration_statistics selected,
            pt_formula := ''standard-library min, max, arithmetic mean, and median over valid durations'' \<rparr>)
      | AO_date_histogram \<Rightarrow> Return (no_parts\<lparr> pt_items := histogram_items r selected \<rparr>)
      | _ \<Rightarrow>
          (case row_field (operation_field r) of
             None \<Rightarrow> Raise AnalysisValidationError
           | Some accessor \<Rightarrow>
               bind_result (group_items r (group_key accessor) maximum_groups maximum_distinct selected)
                 (\<lambda>items. Return (no_parts\<lparr> pt_items := items \<rparr>))))"

definition analysis_summary :: "analysis_operation \<Rightarrow> nat \<Rightarrow> analysis_parts \<Rightarrow> string" where
  "analysis_summary op' considered parts =
     (case pt_scalar parts of
        Some n \<Rightarrow> ''The authorized dataset contains '' @ show_nat n @ '' incident records.''
      | None \<Rightarrow>
          (if pt_statistics parts \<noteq> []
           then ''Duration statistics were calculated across '' @ show_nat considered @
             '' authorized incidents with valid values.''
           else case pt_items parts of
             [] \<Rightarrow> ''The authorized dataset produced no result items for the requested operation.''
           | i # _ \<Rightarrow>
               ''The leading '' @ operation_text op' @ '' category is '' @ ai_key i @ '', appearing in '' @
               show_nat (ai_count i) @ '' authorized incidents.'' @
               (if op' = AO_recurring_root_causes \<and> ai_incident_ids i \<noteq> []
                then '' Supporting incidents for this category: '' @ join_text '', '' (ai_incident_ids i) @ ''.''
                else [])))"

definition ALGORITHM_VERSION :: string where "ALGORITHM_VERSION = ''structured-python-1.0''"
definition TAXONOMY_VERSION :: string where "TAXONOMY_VERSION = ''1.0''"

definition execute_analysis ::
  "analysis_request \<Rightarrow> incident_row list \<Rightarrow> uuid \<Rightarrow> uuid \<Rightarrow> nat \<Rightarrow> nat \<Rightarrow> (analysis_error, analysis_result) result" where
  "execute_analysis r rows request_id trace_id maximum_groups maximum_distinct =
     (let selected = filter (row_selected (ar_filters r)) rows in
      bind_result (analysis_parts_of r maximum_groups maximum_distinct selected) (\<lambda>parts.
        Return \<lparr> an_operation = ar_operation r, an_row_count_considered = length selected,
          an_row_count_excluded = length rows - length selected, an_items = pt_items parts,
          an_scalar_value = map_option real (pt_scalar parts), an_statistics = pt_statistics parts,
          an_summary = analysis_summary (ar_operation r) (length selected) parts,
          an_provenance = \<lparr> ap_source_document_ids = sort (unique_first (map ir_document_id selected)),
            ap_supporting_incident_ids = incident_ids selected, ap_formula = pt_formula parts,
            ap_taxonomy_version = (if ar_operation r = AO_recurring_root_causes then Some TAXONOMY_VERSION else None),
            ap_algorithm_version = ALGORITHM_VERSION \<rparr>,
          an_warnings = [], an_request_id = request_id, an_trace_id = trace_id \<rparr>))"

section \<open>The service\<close>

definition filters_within :: "retrieval_settings \<Rightarrow> analysis_filters \<Rightarrow> bool" where
  "filters_within s f =
     list_all (\<lambda>n. n \<le> python_analysis_max_filter_values s)
       [length (af_document_ids f), length (af_departments f), length (af_statuses f),
        length (af_severities f), length (af_root_cause_categories f)]"

definition run_analysis ::
  "retrieval_settings \<Rightarrow> corpus_files \<Rightarrow> authenticated_principal \<Rightarrow> analysis_request \<Rightarrow> uuid \<Rightarrow> uuid \<Rightarrow>
   (analysis_error, analysis_result) result" where
  "run_analysis s files p r request_id trace_id =
     (if \<not> analysis_permitted s p then Raise AnalysisAuthorizationError
      else if \<not> filters_within s (ar_filters r) then Raise AnalysisLimitError
      else bind_result (load_authorized_incidents files p) (\<lambda>(rows, excluded).
        if \<not> analysis_permitted s p then Raise AnalysisAuthorizationError
        else if python_analysis_max_rows s < length rows then Raise AnalysisLimitError
        else map_sum id (\<lambda>a. a\<lparr> an_row_count_excluded := an_row_count_excluded a + excluded \<rparr>)
          (execute_analysis r rows request_id trace_id (python_analysis_max_groups s)
            (python_analysis_max_distinct_values s))))"

end
