(* ===== verification/Analysis_Claims.thy ===== *)
theory Analysis_Claims
  imports Analysis_Engine
begin

text \<open>
  Properties of the structured analysis: its result depends on readable incidents only, and its groups are
  counted exactly.
\<close>

section \<open>Only readable incidents matter\<close>

definition readable_incident :: "authenticated_principal \<Rightarrow> incident_entry \<Rightarrow> bool" where
  "readable_incident p e =
     (me_document_type e = ''incident'' \<and> (\<exists>m. me_metadata e = Some m \<and> is_document_authorized p (Some m)))"

lemma load_incident_readable:
  assumes "load_incident files p e = Inr row" "me_document_type e = ''incident''"
  shows "row \<noteq> None \<longleftrightarrow> readable_incident p e"
  using assms
  by (auto simp: load_incident_def readable_incident_def map_sum_def
      split: if_splits option.splits sum.splits prod.splits)

lemma load_incidents_rows:
  "load_incidents files p entries = Inr (rows, n) \<Longrightarrow>
   map (Inr \<circ> Some) rows = map (load_incident files p) (filter (readable_incident p) entries)"
proof (induction entries arbitrary: rows n)
  case (Cons e es)
  show ?case
  proof (cases "me_document_type e = ''incident''")
    case False
    then show ?thesis using Cons by (simp add: readable_incident_def)
  next
    case True
    obtain row rows' n' where e: "load_incident files p e = Inr row"
      and es: "load_incidents files p es = Inr (rows', n')"
      and rows: "rows = (case row of None \<Rightarrow> rows' | Some r \<Rightarrow> r # rows')"
      using Cons.prems True by (auto split: option.splits)
    show ?thesis
      using load_incident_readable [OF e True] Cons.IH [OF es] e rows by (cases row) auto
  qed
qed simp

text \<open>Two corpora that agree on the incidents a caller may read.\<close>

definition same_for :: "authenticated_principal \<Rightarrow> corpus_files \<Rightarrow> corpus_files \<Rightarrow> bool" where
  "same_for p f g =
     (map_option (filter (readable_incident p)) (fs_manifest f) = map_option (filter (readable_incident p)) (fs_manifest g) \<and>
      (\<forall>es e. fs_manifest f = Some es \<longrightarrow> e \<in> set es \<longrightarrow> readable_incident p e \<longrightarrow>
         fs_in_incidents f (me_file_path e) = fs_in_incidents g (me_file_path e) \<and>
         fs_read f (me_file_path e) = fs_read g (me_file_path e)) \<and>
      fs_yaml_status f = fs_yaml_status g \<and> fs_sha f = fs_sha g \<and> fs_datetime f = fs_datetime g)"

lemma load_incident_same:
  assumes same: "same_for p f g" and e: "fs_manifest f = Some es" "e \<in> set es" "readable_incident p e"
  shows "load_incident f p e = load_incident g p e"
proof -
  have "fs_in_incidents f (me_file_path e) = fs_in_incidents g (me_file_path e)"
      "fs_read f (me_file_path e) = fs_read g (me_file_path e)"
      "fs_yaml_status f = fs_yaml_status g" "fs_sha f = fs_sha g"
    using same e by (simp_all add: same_for_def)
  moreover have "fs_datetime f = fs_datetime g"
    using same by (simp add: same_for_def)
  then have "optional_time f = optional_time g"
    by (intro ext) (simp only: optional_time_def)
  then have "incident_row_of f = incident_row_of g"
    by (simp add: fun_eq_iff incident_row_of_def)
  ultimately show ?thesis by (simp only: load_incident_def)
qed

lemma load_rows_same:
  assumes "same_for p f g" "load_authorized_incidents f p = Inr (rows, n)" "load_authorized_incidents g p = Inr (rows', n')"
  shows "rows = rows'"
proof -
  obtain xs ys where xs: "fs_manifest f = Some xs" "load_incidents f p xs = Inr (rows, n)"
    and ys: "fs_manifest g = Some ys" "load_incidents g p ys = Inr (rows', n')"
    using assms(2,3) by (auto simp: load_authorized_incidents_def split: option.splits)
  have "filter (readable_incident p) xs = filter (readable_incident p) ys"
    using assms(1) xs(1) ys(1) by (simp add: same_for_def)
  moreover have "map (load_incident f p) (filter (readable_incident p) xs) = map (load_incident g p) (filter (readable_incident p) xs)"
    using load_incident_same [OF assms(1) xs(1)] by simp
  ultimately have "map (Inr \<circ> Some) rows = (map (Inr \<circ> Some) rows' :: (analysis_error, incident_row option) result list)"
    using load_incidents_rows [OF xs(2)] load_incidents_rows [OF ys(2)] by simp
  then show ?thesis by (simp add: inj_map_eq_map inj_def)
qed

text \<open>C36: The result of an analysis depends only on the incidents its caller may read: two corpora that agree on
  them give the same result, but for the count of excluded rows.\<close>

theorem analysis_noninterference:
  assumes "run_analysis s f p r request_id trace_id = Inr a"
    and "run_analysis s g p r request_id trace_id = Inr b"
    and "same_for p f g"
  shows "a\<lparr> an_row_count_excluded := 0 \<rparr> = b\<lparr> an_row_count_excluded := 0 \<rparr>"
proof -
  obtain rows n where f: "load_authorized_incidents f p = Inr (rows, n)" "\<not> python_analysis_max_rows s < length rows"
    and a: "map_sum id (\<lambda>x. x\<lparr> an_row_count_excluded := an_row_count_excluded x + n \<rparr>)
      (execute_analysis r rows request_id trace_id (python_analysis_max_groups s) (python_analysis_max_distinct_values s)) = Inr a"
    using assms(1) by (auto simp: run_analysis_def split: if_splits)
  obtain rows' n' where g: "load_authorized_incidents g p = Inr (rows', n')"
    and b: "map_sum id (\<lambda>x. x\<lparr> an_row_count_excluded := an_row_count_excluded x + n' \<rparr>)
      (execute_analysis r rows' request_id trace_id (python_analysis_max_groups s) (python_analysis_max_distinct_values s)) = Inr b"
    using assms(2) by (auto simp: run_analysis_def split: if_splits)
  have "rows = rows'" by (rule load_rows_same [OF assms(3) f(1) g])
  then show ?thesis using a b
    by (cases "execute_analysis r rows request_id trace_id (python_analysis_max_groups s) (python_analysis_max_distinct_values s)")
      auto
qed

section \<open>Groups are counted exactly\<close>

lemma length_rows_with: "length (rows_with key rows k) = count (mset (map key rows)) k"
  by (induction rows) (auto simp: rows_with_def)

text \<open>The place of an item: the larger groups first, then by key.\<close>

definition item_rank :: "analysis_item \<Rightarrow> int \<times> string" where
  "item_rank i = (- int (ai_count i), ai_key i)"

definition row_count :: "(incident_row \<Rightarrow> string) \<Rightarrow> incident_row list \<Rightarrow> string \<Rightarrow> nat" where
  "row_count key rows k = length (rows_with key rows k)"

lemma item_rank_group: "item_rank (group_item r g) = group_order g"
  by (simp add: item_rank_def group_item_def group_order_def)

lemma grouped_in: "g \<in> set (grouped key rows) \<longleftrightarrow> fst g \<in> key ` set rows \<and> snd g = rows_with key rows (fst g)"
  by (cases g) (auto simp: grouped_def)

lemma grouped_keys: "map fst (grouped key rows) = unique_first (map key rows)"
  by (simp add: grouped_def comp_def)

lemma sorted_take_before:
  assumes "sorted (map f xs)" "x \<in> set xs" "x \<notin> set (take n xs)" "y \<in> set (take n xs)"
  shows "f y \<le> f x"
proof -
  have "x \<in> set (drop n xs)" using assms(2,3) by (metis Un_iff append_take_drop_id set_append)
  moreover have "sorted (map f (take n xs @ drop n xs))" using assms(1) by simp
  ultimately show ?thesis using assms(4) by (simp only: map_append sorted_append) auto
qed

definition kept_groups ::
  "analysis_request \<Rightarrow> (incident_row \<Rightarrow> string) \<Rightarrow> nat \<Rightarrow> incident_row list \<Rightarrow> (string \<times> incident_row list) list" where
  "kept_groups r key groups rows = filter (\<lambda>g. ar_minimum_count r \<le> length (snd g))
    (take (min (ar_limit r) groups) (sort_key group_order (grouped key rows)))"

lemma group_items_simps:
  assumes "group_items r key groups maximum_distinct rows = Inr items"
  shows "items = map (group_item r) (kept_groups r key groups rows)"
  using assms by (auto simp: group_items_def kept_groups_def Let_def split: if_splits)

lemma kept_in: "g \<in> set (kept_groups r key groups rows) \<Longrightarrow> g \<in> set (grouped key rows) \<and> ar_minimum_count r \<le> length (snd g)"
  by (auto simp: kept_groups_def dest: in_set_takeD)

lemma kept_ordered: "sorted (map group_order (kept_groups r key groups rows))"
  unfolding kept_groups_def by (intro sorted_filter) (simp add: take_map [symmetric] sorted_wrt_take)

lemma kept_distinct: "distinct (map fst (kept_groups r key groups rows))"
proof -
  have "distinct (map fst (grouped key rows))" by (simp only: grouped_keys distinct_unique_first)
  then have "distinct (map fst (sort_key group_order (grouped key rows)))" by (simp add: distinct_map)
  then show ?thesis unfolding kept_groups_def
    by (intro distinct_map_filter) (simp add: take_map [symmetric])
qed

lemma kept_missing:
  assumes g: "g \<in> set (grouped key rows)" and enough: "ar_minimum_count r \<le> length (snd g)"
    and missing: "g \<notin> set (kept_groups r key groups rows)"
  shows "length (kept_groups r key groups rows) = min (ar_limit r) groups \<and>
    (\<forall>h \<in> set (kept_groups r key groups rows). group_order h \<le> group_order g)"
proof -
  let ?sorted = "sort_key group_order (grouped key rows)" and ?n = "min (ar_limit r) groups"
  have out: "g \<notin> set (take ?n ?sorted)" using missing enough by (simp add: kept_groups_def)
  have before: "group_order h \<le> group_order g" if "h \<in> set (take ?n ?sorted)" for h
    using sorted_take_before [of group_order ?sorted g ?n h] g out that by simp
  have "ar_minimum_count r \<le> length (snd h)" if "h \<in> set (take ?n ?sorted)" for h
    using before [OF that] enough by (auto simp: group_order_def less_eq_prod_def)
  then have all_kept: "kept_groups r key groups rows = take ?n ?sorted" by (simp add: kept_groups_def)
  have "?n < length ?sorted"
  proof (rule ccontr)
    assume "\<not> ?n < length ?sorted"
    then have "take ?n ?sorted = ?sorted" by (intro take_all) (simp only: not_less)
    then show False using out g by (metis set_sort)
  qed
  then show ?thesis using all_kept before by simp
qed

lemma kept_sum: "sum_list (map (length \<circ> snd) (kept_groups r key groups rows)) \<le> length rows"
proof -
  let ?kept = "kept_groups r key groups rows"
  have "map (length \<circ> snd) ?kept = map (row_count key rows) (map fst ?kept)"
    using kept_in [of _ r key groups rows] by (auto simp: grouped_in row_count_def)
  then have "sum_list (map (length \<circ> snd) ?kept) = (\<Sum>k \<in> fst ` set ?kept. row_count key rows k)"
    using kept_distinct [of r key groups rows]
    by (metis (no_types) image_set sum_list_distinct_conv_sum_set)
  also have "\<dots> \<le> (\<Sum>k \<in> key ` set rows. row_count key rows k)"
    using kept_in [of _ r key groups rows] by (intro sum_mono2) (auto simp: grouped_in)
  also have "\<dots> = length rows"
    using size_multiset_overloaded_eq [of "mset (map key rows)"] by (simp add: row_count_def length_rows_with)
  finally show ?thesis .
qed

section \<open>Every incident is accounted for\<close>

lemma load_incidents_count:
  "load_incidents files p entries = Inr (rows, n) \<Longrightarrow>
   length rows + n = length (filter (\<lambda>e. me_document_type e = ''incident'') entries)"
proof (induction entries arbitrary: rows n)
  case (Cons e es)
  then show ?case by (auto split: if_splits option.splits)
qed simp

lemma run_analysis_parts:
  assumes "run_analysis s files p r request_id trace_id = Inr a"
  obtains rows excluded parts where "load_authorized_incidents files p = Inr (rows, excluded)"
    "analysis_parts_of r (python_analysis_max_groups s) (python_analysis_max_distinct_values s)
       (filter (row_selected (ar_filters r)) rows) = Inr parts"
    "an_items a = pt_items parts"
    "an_summary a = analysis_summary (ar_operation r) (length (filter (row_selected (ar_filters r)) rows)) parts"
    "an_row_count_considered a = length (filter (row_selected (ar_filters r)) rows)"
    "an_row_count_considered a + an_row_count_excluded a = length rows + excluded"
proof -
  obtain rows excluded where rows: "load_authorized_incidents files p = Inr (rows, excluded)"
    and a: "map_sum id (\<lambda>x. x\<lparr> an_row_count_excluded := an_row_count_excluded x + excluded \<rparr>)
      (execute_analysis r rows request_id trace_id (python_analysis_max_groups s) (python_analysis_max_distinct_values s)) = Inr a"
    using assms by (auto simp: run_analysis_def split: if_splits)
  then obtain parts where parts: "analysis_parts_of r (python_analysis_max_groups s) (python_analysis_max_distinct_values s)
       (filter (row_selected (ar_filters r)) rows) = Inr parts"
    by (cases "analysis_parts_of r (python_analysis_max_groups s) (python_analysis_max_distinct_values s)
       (filter (row_selected (ar_filters r)) rows)") (auto simp: execute_analysis_def Let_def)
  then show ?thesis using a
    by (intro that [OF rows parts])
      (auto simp: execute_analysis_def Let_def le_add_diff_inverse [OF trans_le_add1 [OF length_filter_le]])
qed

definition grouping_operation :: "analysis_operation \<Rightarrow> bool" where
  "grouping_operation op' \<longleftrightarrow> op' \<notin> {AO_count_records, AO_duration_statistics, AO_date_histogram}"

lemma grouping_parts:
  assumes "analysis_parts_of r groups maximum_distinct rows = Inr parts" "grouping_operation (ar_operation r)"
  obtains accessor where "row_field (operation_field r) = Some accessor"
    "pt_items parts = map (group_item r) (kept_groups r (group_key accessor) groups rows)"
  using assms group_items_simps
  by (cases "ar_operation r") (auto simp: analysis_parts_of_def grouping_operation_def split: option.splits)

text \<open>The contract of a grouping: \<open>items\<close> for \<open>rows\<close>, of which at most \<open>n\<close> are given.\<close>

definition groups_reported :: "nat \<Rightarrow> nat \<Rightarrow> (incident_row \<Rightarrow> string) \<Rightarrow> incident_row list \<Rightarrow> analysis_item list \<Rightarrow> bool" where
  "groups_reported n least key rows items \<longleftrightarrow>
     sorted (map item_rank items) \<and> distinct (map ai_key items) \<and> length items \<le> n \<and>
     (\<forall>i \<in> set items. ai_count i = row_count key rows (ai_key i) \<and> least \<le> ai_count i) \<and>
     sum_list (map ai_count items) \<le> length rows \<and>
     (\<forall>row \<in> set rows. least \<le> row_count key rows (key row) \<longrightarrow> key row \<notin> ai_key ` set items \<longrightarrow>
        length items = n \<and> (\<forall>i \<in> set items. item_rank i < (- int (row_count key rows (key row)), key row)))"

lemma kept_reported:
  "groups_reported (min (ar_limit r) groups) (ar_minimum_count r) key rows
     (map (group_item r) (kept_groups r key groups rows))"
proof -
  let ?kept = "kept_groups r key groups rows" and ?n = "min (ar_limit r) groups"
  let ?items = "map (group_item r) ?kept"
  have keys: "map ai_key ?items = map fst ?kept" "map ai_count ?items = map (length \<circ> snd) ?kept"
    by (simp_all add: group_item_def)
  have "length ?kept \<le> ?n" unfolding kept_groups_def
    by (rule order_trans [OF length_filter_le]) (simp only: length_take min.cobounded2)
  moreover have "length ?items = ?n \<and> (\<forall>i \<in> set ?items. item_rank i < (- int (row_count key rows (key row)), key row))"
    if row: "row \<in> set rows" "ar_minimum_count r \<le> row_count key rows (key row)" "key row \<notin> ai_key ` set ?items" for row
  proof -
    let ?g = "(key row, rows_with key rows (key row))"
    have new: "fst h \<noteq> key row" if "h \<in> set ?kept" for h
      using row(3) that by (auto simp: group_item_def image_iff)
    have "length ?kept = ?n \<and> (\<forall>h \<in> set ?kept. group_order h \<le> group_order ?g)"
      using row(1,2) new [of ?g] by (intro kept_missing) (auto simp: grouped_in row_count_def)
    moreover have "group_order ?g = (- int (row_count key rows (key row)), key row)"
      by (simp add: group_order_def row_count_def)
    moreover have "group_order h \<noteq> (- int (row_count key rows (key row)), key row)" if "h \<in> set ?kept" for h
      using new [OF that] by (simp add: group_order_def)
    ultimately show ?thesis by (auto simp: item_rank_group order_less_le)
  qed
  moreover have "ai_count i = row_count key rows (ai_key i) \<and> ar_minimum_count r \<le> ai_count i" if i: "i \<in> set ?items" for i
  proof -
    obtain h where h: "h \<in> set ?kept" "i = group_item r h" using i by auto
    then show ?thesis using kept_in [OF h(1)] by (auto simp: grouped_in row_count_def group_item_def)
  qed
  moreover have "map item_rank ?items = map group_order ?kept" by (simp add: item_rank_group)
  ultimately show ?thesis
    unfolding groups_reported_def using kept_ordered kept_distinct kept_sum keys by (metis (no_types, lifting) length_map)
qed

text \<open>C37: A grouping analysis counts exactly: its items carry distinct keys, the largest group first, each with the
  number of selected rows of its key; a group of the required size is left out only when the places are
  taken by groups that go before it, and the rows considered and excluded are the incidents of the manifest.\<close>

theorem analysis_groups_exact:
  assumes "run_analysis s files p r request_id trace_id = Inr a" and "grouping_operation (ar_operation r)"
  shows "\<exists>rows excluded accessor entries.
    load_authorized_incidents files p = Inr (rows, excluded) \<and> row_field (operation_field r) = Some accessor \<and>
    groups_reported (min (ar_limit r) (python_analysis_max_groups s)) (ar_minimum_count r) (group_key accessor)
      (filter (row_selected (ar_filters r)) rows) (an_items a) \<and>
    an_row_count_considered a = length (filter (row_selected (ar_filters r)) rows) \<and>
    fs_manifest files = Some entries \<and>
    an_row_count_considered a + an_row_count_excluded a = length (filter (\<lambda>e. me_document_type e = ''incident'') entries)"
proof -
  obtain rows excluded parts where run: "load_authorized_incidents files p = Inr (rows, excluded)"
    "analysis_parts_of r (python_analysis_max_groups s) (python_analysis_max_distinct_values s)
       (filter (row_selected (ar_filters r)) rows) = Inr parts" "an_items a = pt_items parts"
    "an_row_count_considered a = length (filter (row_selected (ar_filters r)) rows)"
    "an_row_count_considered a + an_row_count_excluded a = length rows + excluded"
    using assms(1) by (elim run_analysis_parts)
  obtain accessor where accessor: "row_field (operation_field r) = Some accessor"
    "pt_items parts = map (group_item r) (kept_groups r (group_key accessor) (python_analysis_max_groups s)
       (filter (row_selected (ar_filters r)) rows))"
    using grouping_parts [OF run(2) assms(2)] by blast
  obtain entries where entries: "fs_manifest files = Some entries" "load_incidents files p entries = Inr (rows, excluded)"
    using run(1) by (auto simp: load_authorized_incidents_def split: option.splits)
  show ?thesis
    using run accessor entries kept_reported load_incidents_count [OF entries(2)] by (intro exI conjI) auto
qed

section \<open>The duration summary\<close>

text \<open>The summary of the duration statistics counts every selected incident, those without a duration too.\<close>

lemma duration_summary_counts_all:
  assumes "run_analysis s files p r request_id trace_id = Inr a" "ar_operation r = AO_duration_statistics" "an_statistics a \<noteq> []"
  shows "an_summary a = ''Duration statistics were calculated across '' @ show_nat (an_row_count_considered a) @
    '' authorized incidents with valid values.''"
  using assms
  by (auto simp: run_analysis_def execute_analysis_def analysis_parts_of_def no_parts_def analysis_summary_def Let_def
      split: if_splits)

section \<open>Witnesses\<close>

definition sample_document :: "nat \<Rightarrow> user_role set \<Rightarrow> document_metadata" where
  "sample_document i roles = \<lparr> dm_document_id = i, dm_title = ''T'', dm_source = ''S'', dm_department = ''it'',
     dm_document_type = DT_incident, dm_access_level = INTERNAL, dm_allowed_roles = roles, dm_created_date = 0,
     dm_updated_date = 0, dm_version = ''1'', dm_content_hash = replicate 64 CHR ''a'' \<rparr>"

definition sample_entry :: "nat \<Rightarrow> user_role set \<Rightarrow> incident_entry" where
  "sample_entry i roles = \<lparr> me_document_type = ''incident'', me_file_path = ''f'', me_content_hash = ''h'',
     me_metadata = Some (sample_document i roles), me_root_cause_category = Some ''dns'' \<rparr>"

definition sample_files :: "incident_entry list \<Rightarrow> corpus_files" where
  "sample_files entries = \<lparr> fs_manifest = Some entries, fs_in_incidents = (\<lambda>_. True),
     fs_read = (\<lambda>_. Some (''---'' @ [CHR 10] @ ''s'' @ [CHR 10] @ ''---'' @ [CHR 10] @ ''x'')),
     fs_yaml_status = (\<lambda>_. Inr (Some ''closed'')), fs_sha = (\<lambda>_. ''h''), fs_datetime = (\<lambda>_. None) \<rparr>"

definition status_request :: analysis_request where
  "status_request = \<lparr> ar_operation = AO_status_distribution, ar_filters = no_analysis_filters, ar_group_by = None,
     ar_field = None, ar_limit = 10, ar_minimum_count = 1, ar_interval = Interval_month, ar_left_value = None,
     ar_right_value = None \<rparr>"

definition sample_row :: "nat \<Rightarrow> user_role set \<Rightarrow> incident_row" where
  "sample_row i roles = \<lparr> ir_document_id = i, ir_incident_id = None, ir_title = ''T'', ir_department = ''it'',
     ir_access_level = INTERNAL, ir_allowed_roles = roles, ir_status = ''closed'', ir_created_date = 0,
     ir_source_file = ''f'', ir_severity = None, ir_start_time = None, ir_end_time = None, ir_duration_minutes = None,
     ir_affected_services = [], ir_root_cause_category = ''dns'', ir_corrective_action_status = None \<rparr>"

lemma sample_body:
  "field_value ''Start'' ''x'' = None" "field_value ''End'' ''x'' = None" "field_value ''Severity'' ''x'' = None"
  "field_value ''Incident ID'' ''x'' = None" "affected_services ''x'' = []" "corrective_action_status ''x'' = None"
  by code_simp+

lemma sample_text:
  "split_at_text (CHR 10 # ''---'' @ [CHR 10]) (drop 4 (''---'' @ [CHR 10] @ ''s'' @ [CHR 10] @ ''---'' @ [CHR 10] @ ''x'')) = Some (''s'', ''x'')"
  by code_simp

lemma analysis_document_ok: "roles \<noteq> {} \<Longrightarrow> document_metadata_ok (sample_document i roles)"
proof -
  have "content_hash_ok (replicate 64 CHR ''a'')" "text_ok 2048 ''T''" "text_ok 2048 ''S''" "text_ok 2048 ''it''" "text_ok 2048 ''1''"
    by code_simp+
  then show "roles \<noteq> {} \<Longrightarrow> ?thesis" by (simp add: document_metadata_ok_def sample_document_def)
qed

lemma load_sample:
  "roles \<noteq> {} \<Longrightarrow> load_incident (sample_files es) (sample_principal 7 ANALYST) (sample_entry i roles) =
     Inr (if ANALYST \<in> roles then Some (sample_row i roles) else None)"
  using sample_text analysis_document_ok [of roles i] sample_body
  by (simp add: load_incident_def sample_files_def sample_entry_def incident_row_of_def optional_time_def
      duration_of_def is_document_authorized_def allowed_access_levels_def sample_row_def)
    (simp add: sample_document_def)

lemma load_sample_corpus:
  "load_authorized_incidents (sample_files (sample_entry 1 {ANALYST} # replicate n (sample_entry 2 {VIEWER}))) (sample_principal 7 ANALYST) =
     Inr ([sample_row 1 {ANALYST}], n)"
proof -
  have hidden: "load_incidents (sample_files es) (sample_principal 7 ANALYST) (replicate n (sample_entry 2 {VIEWER})) = Inr ([], n)" for es
  proof (induction n)
    case (Suc n)
    then show ?case using load_sample [of "{VIEWER}" es 2] by (simp add: sample_entry_def)
  qed simp
  show ?thesis using load_sample [of "{ANALYST}" _ 1] hidden
    by (simp add: load_authorized_incidents_def sample_files_def sample_entry_def)
qed

lemma run_sample:
  "\<exists>a. run_analysis default_settings (sample_files (sample_entry 1 {ANALYST} # replicate n (sample_entry 2 {VIEWER})))
       (sample_principal 7 ANALYST) status_request 1 2 = Inr a \<and>
     an_items a = [\<lparr> ai_key = ''closed'', ai_count = 1, ai_incident_ids = [] \<rparr>] \<and>
     an_row_count_considered a = 1 \<and> an_row_count_excluded a = n"
proof -
  have permitted: "analysis_permitted default_settings (sample_principal 7 ANALYST)"
    by (simp add: analysis_permitted_def default_settings_def has_permission_def permissions_for_role_def)
  have selected: "row_selected no_analysis_filters (sample_row 1 {ANALYST})"
    by (simp add: row_selected_def no_analysis_filters_def admits_def)
  have parts: "analysis_parts_of status_request 100 500 [sample_row 1 {ANALYST}] =
      Inr (no_parts\<lparr> pt_items := [\<lparr> ai_key = ''closed'', ai_count = 1, ai_incident_ids = [] \<rparr>] \<rparr>)"
    by (simp add: analysis_parts_of_def status_request_def operation_field_def row_field_def or_text_def group_items_def
        grouped_def group_key_def rows_with_def unique_first_def group_item_def incident_ids_def sample_row_def
        List.map_filter_def)
  have limits: "python_analysis_max_rows default_settings = 1000" "python_analysis_max_groups default_settings = 100"
    "python_analysis_max_distinct_values default_settings = 500" "filters_within default_settings no_analysis_filters"
    "ar_filters status_request = no_analysis_filters"
    by (simp_all add: default_settings_def filters_within_def no_analysis_filters_def status_request_def)
  show ?thesis
    by (simp add: run_analysis_def permitted load_sample_corpus execute_analysis_def limits selected parts Let_def no_parts_def
        del: One_nat_def)
qed

theorem analysis_noninterference_witness:
  "\<exists>a b. run_analysis default_settings (sample_files [sample_entry 1 {ANALYST}]) (sample_principal 7 ANALYST) status_request 1 2 = Inr a \<and>
     run_analysis default_settings (sample_files [sample_entry 1 {ANALYST}, sample_entry 2 {VIEWER}]) (sample_principal 7 ANALYST)
       status_request 1 2 = Inr b \<and>
     an_row_count_excluded a = 0 \<and> an_row_count_excluded b = 1 \<and> a\<lparr> an_row_count_excluded := 0 \<rparr> = b\<lparr> an_row_count_excluded := 0 \<rparr>"
proof -
  obtain a where a: "run_analysis default_settings (sample_files [sample_entry 1 {ANALYST}]) (sample_principal 7 ANALYST) status_request 1 2 = Inr a"
    "an_row_count_excluded a = 0"
    using run_sample [of 0] by auto
  obtain b where b: "run_analysis default_settings (sample_files [sample_entry 1 {ANALYST}, sample_entry 2 {VIEWER}]) (sample_principal 7 ANALYST)
       status_request 1 2 = Inr b" "an_row_count_excluded b = 1"
    using run_sample [of 1] by auto
  have "same_for (sample_principal 7 ANALYST) (sample_files [sample_entry 1 {ANALYST}]) (sample_files [sample_entry 1 {ANALYST}, sample_entry 2 {VIEWER}])"
    by (simp add: same_for_def sample_files_def readable_incident_def sample_entry_def sample_document_def is_document_authorized_def)
  from analysis_noninterference [OF a(1) b(1) this] show ?thesis using a b by blast
qed

theorem analysis_groups_exact_witness:
  "\<exists>a. run_analysis default_settings (sample_files [sample_entry 1 {ANALYST}, sample_entry 2 {VIEWER}]) (sample_principal 7 ANALYST)
       status_request 1 2 = Inr a \<and> an_items a = [\<lparr> ai_key = ''closed'', ai_count = 1, ai_incident_ids = [] \<rparr>] \<and>
     an_row_count_considered a + an_row_count_excluded a = 2"
proof -
  obtain a where a: "run_analysis default_settings (sample_files [sample_entry 1 {ANALYST}, sample_entry 2 {VIEWER}]) (sample_principal 7 ANALYST)
       status_request 1 2 = Inr a" "an_items a = [\<lparr> ai_key = ''closed'', ai_count = 1, ai_incident_ids = [] \<rparr>]"
    using run_sample [of 1] by auto
  have "grouping_operation (ar_operation status_request)" by (simp add: grouping_operation_def status_request_def)
  from analysis_groups_exact [OF a(1) this]
  have "an_row_count_considered a + an_row_count_excluded a = 2"
    by (auto simp: sample_files_def sample_entry_def)
  then show ?thesis using a by blast
qed

end
