(* ===== verification/Event_Stream.thy ===== *)
theory Event_Stream
  imports Graph_Terminal
begin

text \<open>
  The public stream of a chat request (api/sse.py) with its envelopes and errors (api/schemas.py,
  api/errors.py).  The iterator over the graph is the list of what each await of it gives; the identifiers
  and times of the envelopes are arguments, the value for the envelope of each sequence number.
\<close>

section \<open>Contracts\<close>

record public_api_error =
  pe_code :: string
  pe_message :: string
  pe_request_id :: uuid
  pe_retryable :: bool

record chat_envelope =
  ce_event_id :: uuid
  ce_sequence :: nat
  ce_request_id :: uuid
  ce_trace_id :: uuid
  ce_session_id :: uuid
  ce_event_type :: string
  ce_timestamp :: instant
  ce_agent_event :: "agent_event option"
  ce_response :: "graph_output option"
  ce_error :: "public_api_error option"

fun event_type_text :: "event_type \<Rightarrow> string" where
  "event_type_text Ev_request_accepted = ''request.accepted''"
| "event_type_text Ev_graph_started = ''graph.started''"
| "event_type_text Ev_node_started = ''node.started''"
| "event_type_text Ev_node_completed = ''node.completed''"
| "event_type_text Ev_node_failed = ''node.failed''"
| "event_type_text Ev_route_selected = ''route.selected''"
| "event_type_text Ev_retrieval_started = ''retrieval.started''"
| "event_type_text Ev_retrieval_completed = ''retrieval.completed''"
| "event_type_text Ev_tool_authorization_started = ''tool.authorization_started''"
| "event_type_text Ev_tool_authorized = ''tool.authorized''"
| "event_type_text Ev_tool_denied = ''tool.denied''"
| "event_type_text Ev_tool_started = ''tool.started''"
| "event_type_text Ev_tool_completed = ''tool.completed''"
| "event_type_text Ev_tool_failed = ''tool.failed''"
| "event_type_text Ev_mcp_started = ''mcp.started''"
| "event_type_text Ev_mcp_tool_selected = ''mcp.tool_selected''"
| "event_type_text Ev_mcp_completed = ''mcp.completed''"
| "event_type_text Ev_mcp_denied = ''mcp.denied''"
| "event_type_text Ev_mcp_failed = ''mcp.failed''"
| "event_type_text Ev_research_batch_started = ''research.batch_started''"
| "event_type_text Ev_research_batch_completed = ''research.batch_completed''"
| "event_type_text Ev_research_started = ''research.started''"
| "event_type_text Ev_research_catalog_completed = ''research.catalog_completed''"
| "event_type_text Ev_research_planning_started = ''research.planning_started''"
| "event_type_text Ev_research_plan_created = ''research.plan_created''"
| "event_type_text Ev_research_plan_validated = ''research.plan_validated''"
| "event_type_text Ev_research_worker_dispatched = ''research.worker_dispatched''"
| "event_type_text Ev_research_worker_started = ''research.worker_started''"
| "event_type_text Ev_research_retrieval_completed = ''research.retrieval_completed''"
| "event_type_text Ev_research_analysis_completed = ''research.analysis_completed''"
| "event_type_text Ev_research_worker_completed = ''research.worker_completed''"
| "event_type_text Ev_research_worker_failed = ''research.worker_failed''"
| "event_type_text Ev_research_round_completed = ''research.round_completed''"
| "event_type_text Ev_research_coverage_assessed = ''research.coverage_assessed''"
| "event_type_text Ev_research_child_tasks_created = ''research.child_tasks_created''"
| "event_type_text Ev_research_aggregation_completed = ''research.aggregation_completed''"
| "event_type_text Ev_research_partial = ''research.partial''"
| "event_type_text Ev_research_budget_exhausted = ''research.budget_exhausted''"
| "event_type_text Ev_research_completed = ''research.completed''"
| "event_type_text Ev_research_failed = ''research.failed''"
| "event_type_text Ev_validation_completed = ''validation.completed''"
| "event_type_text Ev_memory_updated = ''memory.updated''"
| "event_type_text Ev_memory_load_started = ''memory.load_started''"
| "event_type_text Ev_memory_loaded = ''memory.loaded''"
| "event_type_text Ev_memory_context_resolved = ''memory.context_resolved''"
| "event_type_text Ev_memory_update_started = ''memory.update_started''"
| "event_type_text Ev_memory_evicted = ''memory.evicted''"
| "event_type_text Ev_memory_failed = ''memory.failed''"
| "event_type_text Ev_response_token = ''response.token''"
| "event_type_text Ev_response_completed = ''response.completed''"
| "event_type_text Ev_response_failed = ''response.failed''"
| "event_type_text Ev_response_generation_started = ''response.generation_started''"
| "event_type_text Ev_response_generation_completed = ''response.generation_completed''"
| "event_type_text Ev_response_generation_failed = ''response.generation_failed''"
| "event_type_text Ev_citation_validation_started = ''citation.validation_started''"
| "event_type_text Ev_citation_validation_completed = ''citation.validation_completed''"
| "event_type_text Ev_citation_validation_failed = ''citation.validation_failed''"
| "event_type_text Ev_response_repair_started = ''response.repair_started''"
| "event_type_text Ev_response_repair_completed = ''response.repair_completed''"
| "event_type_text Ev_response_fallback_used = ''response.fallback_used''"

section \<open>Errors\<close>

text \<open>The exceptions the translation tells apart; \<open>Unexpected\<close> is every other one.\<close>

datatype chat_failure = Session_ownership | Memory_ownership | Timed_out
  | Chat_api_error nat string string bool | Unexpected

fun public_error :: "uuid \<Rightarrow> chat_failure \<Rightarrow> public_api_error" where
  "public_error request_id Timed_out =
     \<lparr> pe_code = ''timeout.graph'', pe_message = ''The assistant did not complete within the allowed time.'',
       pe_request_id = request_id, pe_retryable = True \<rparr>"
| "public_error request_id (Chat_api_error _ code message retryable) =
     \<lparr> pe_code = code, pe_message = message, pe_request_id = request_id, pe_retryable = retryable \<rparr>"
| "public_error request_id Unexpected =
     \<lparr> pe_code = ''internal.unexpected'', pe_message = ''The request could not be completed safely.'',
       pe_request_id = request_id, pe_retryable = True \<rparr>"
| "public_error request_id _ =
     \<lparr> pe_code = ''session.ownership_conflict'', pe_message = ''The session cannot be used for this request.'',
       pe_request_id = request_id, pe_retryable = False \<rparr>"

fun exception_status :: "chat_failure \<Rightarrow> nat" where
  "exception_status Timed_out = 504"
| "exception_status (Chat_api_error status _ _ _) = status"
| "exception_status Unexpected = 500"
| "exception_status _ = 409"

text \<open>The error a failed JSON request is answered with.\<close>

definition chat_failure_of :: "uuid \<Rightarrow> chat_failure \<Rightarrow> chat_failure" where
  "chat_failure_of request_id e =
     (let safe = public_error request_id e in
      Chat_api_error (exception_status e) (pe_code safe) (pe_message safe) (pe_retryable safe))"

section \<open>The stream\<close>

record stream_context =
  sx_request_id :: uuid
  sx_trace_id :: uuid
  sx_session_id :: uuid
  sx_event_id :: "nat \<Rightarrow> uuid"
  sx_timestamp :: "nat \<Rightarrow> instant"

definition envelope ::
  "stream_context \<Rightarrow> nat \<Rightarrow> string \<Rightarrow> agent_event option \<Rightarrow> graph_output option \<Rightarrow> public_api_error option \<Rightarrow>
   chat_envelope" where
  "envelope x n type event response error =
     \<lparr> ce_event_id = sx_event_id x n, ce_sequence = n, ce_request_id = sx_request_id x,
       ce_trace_id = sx_trace_id x, ce_session_id = sx_session_id x, ce_event_type = type,
       ce_timestamp = sx_timestamp x n, ce_agent_event = event, ce_response = response, ce_error = error \<rparr>"

text \<open>A message: an envelope, whose type and identifier are the event and the id, or a comment.\<close>

datatype stream_message = Sent chat_envelope | Comment string

text \<open>What waiting for the next item gives: the item, the time to send a comment (or to notice that the
  client is gone), a cancellation, or an exception; the list ends with the iterator.\<close>

datatype iterator_step = Next_item stream_item | Ping bool | Cancelled | Raised chat_failure

datatype stream_close = Closed | Cancelled_stream

fun chat_events ::
  "stream_context \<Rightarrow> nat \<Rightarrow> agent_event option \<Rightarrow> iterator_step list \<Rightarrow> stream_message list \<times> stream_close" where
  "chat_events x n terminal [] =
     ([Sent (envelope x n ''stream.error'' None None (Some (public_error (sx_request_id x) Unexpected)))], Closed)"
| "chat_events x n terminal (Next_item (Item_event e) # steps) =
     (if terminal_event e then chat_events x n (Some e) steps
      else let (ms, close) = chat_events x (Suc n) terminal steps in
        (Sent (envelope x n (event_type_text (ae_event_type e)) (Some e) None None) # ms, close))"
| "chat_events x n terminal (Next_item (Item_output out) # steps) =
     ([Sent (envelope x n (event_type_text (case terminal of None \<Rightarrow> Ev_response_completed | Some e \<Rightarrow> ae_event_type e))
        terminal (Some out) None)], Closed)"
| "chat_events x n terminal (Ping disconnected # steps) =
     (if disconnected then ([], Cancelled_stream)
      else let (ms, close) = chat_events x n terminal steps in (Comment ''keepalive'' # ms, close))"
| "chat_events x n terminal (Cancelled # steps) = ([], Cancelled_stream)"
| "chat_events x n terminal (Raised e # steps) =
     ([Sent (envelope x n ''stream.error'' None None (Some (public_error (sx_request_id x) e)))], Closed)"

definition chat_event_stream :: "stream_context \<Rightarrow> iterator_step list \<Rightarrow> stream_message list \<times> stream_close" where
  "chat_event_stream x steps =
     (let (ms, close) = chat_events x 1 None steps in
      (Sent (envelope x 0 ''stream.started'' None None None) # ms, close))"

fun envelopes :: "stream_message list \<Rightarrow> chat_envelope list" where
  "envelopes [] = []"
| "envelopes (Sent v # ms) = v # envelopes ms"
| "envelopes (Comment c # ms) = envelopes ms"

section \<open>The stream of an uninterrupted iterator\<close>

text \<open>The iterator over the items of an invocation, with any pings in between.\<close>

inductive interleaved :: "stream_item list \<Rightarrow> iterator_step list \<Rightarrow> bool" where
  interleaved_end: "interleaved [] []"
| interleaved_item: "interleaved items steps \<Longrightarrow> interleaved (item # items) (Next_item item # steps)"
| interleaved_ping: "interleaved items steps \<Longrightarrow> interleaved items (Ping False # steps)"

inductive_simps interleaved_simps [simp]:
  "interleaved items []" "interleaved items (Next_item item # steps)" "interleaved items (Ping gone # steps)"
  "interleaved items (Cancelled # steps)" "interleaved items (Raised e # steps)"

definition event_envelopes :: "stream_context \<Rightarrow> nat \<Rightarrow> agent_event list \<Rightarrow> chat_envelope list" where
  "event_envelopes x n es =
     map (\<lambda>(k, e). envelope x k (event_type_text (ae_event_type e)) (Some e) None None) (enumerate n es)"

definition closing_envelope :: "stream_context \<Rightarrow> nat \<Rightarrow> agent_event \<Rightarrow> graph_output \<Rightarrow> chat_envelope" where
  "closing_envelope x n e out = envelope x n (event_type_text (ae_event_type e)) (Some e) (Some out) None"

lemma chat_events_closing:
  "interleaved [Item_output out] steps \<Longrightarrow>
   envelopes (fst (chat_events x n (Some e) steps)) = [closing_envelope x n e out] \<and>
   snd (chat_events x n (Some e) steps) = Closed"
proof (induction steps)
  case (Cons s steps)
  then show ?case by (cases s) (auto simp: split_beta closing_envelope_def)
qed simp

lemma chat_events_finished:
  assumes "terminal_event e"
  shows "interleaved (map Item_event (es @ [e]) @ [Item_output out]) steps \<Longrightarrow> list_all (\<lambda>e. \<not> terminal_event e) es \<Longrightarrow>
    envelopes (fst (chat_events x n t steps)) = event_envelopes x n es @ [closing_envelope x (n + length es) e out] \<and>
    snd (chat_events x n t steps) = Closed"
proof (induction steps arbitrary: es n)
  case (Cons s steps)
  show ?case
  proof (cases s)
    case (Next_item item)
    show ?thesis
    proof (cases es)
      case Nil
      then have "item = Item_event e" "interleaved [Item_output out] steps" using Cons.prems(1) Next_item by auto
      then show ?thesis
        using chat_events_closing [of out steps x n e] assms by (simp add: Next_item Nil event_envelopes_def)
    next
      case es: (Cons e' es')
      have s: "item = Item_event e'" "interleaved (map Item_event (es' @ [e]) @ [Item_output out]) steps"
        "\<not> terminal_event e'" "list_all (\<lambda>e. \<not> terminal_event e) es'"
        using Cons.prems Next_item es by auto
      show ?thesis using Cons.IH [OF s(2,4), of "Suc n"] s(1,3)
        by (simp add: Next_item es split_beta event_envelopes_def)
    qed
  next
    case (Ping gone)
    then show ?thesis using Cons.IH [of es n] Cons.prems by (simp add: split_beta)
  qed (use Cons.prems in auto)
qed simp

end
