(* ===== verification/Stream_Client.thy ===== *)
theory Stream_Client
  imports Event_Stream
begin

text \<open>
  The client of the stream: the parser of server-sent events and the validator of the stream's contract
  (frontend sse.py), the errors it shows (errors.py) and the HTTP client (api_client.py).  A chunk of the
  response is ASCII text, so decoding UTF-8 is the identity and counting bytes is counting characters.
  What decodes JSON and the contracts is an argument, as is what httpx delivers.
\<close>

section \<open>Errors\<close>

record frontend_error =
  fe_public_message :: string
  fe_code :: string
  fe_retryable :: bool
  fe_retry_after_seconds :: "int option"
  fe_expired :: bool

definition frontend_error_of :: "string \<Rightarrow> string \<Rightarrow> bool \<Rightarrow> frontend_error" where
  "frontend_error_of message code retryable =
     \<lparr> fe_public_message = message, fe_code = code, fe_retryable = retryable, fe_retry_after_seconds = None,
       fe_expired = False \<rparr>"

definition authentication_expired :: frontend_error where
  "authentication_expired =
     (frontend_error_of ''Your session has expired. Please sign in again.'' ''authentication.expired'' False)
       \<lparr> fe_expired := True \<rparr>"

definition protocol_error :: "string \<Rightarrow> frontend_error" where
  "protocol_error message = frontend_error_of message ''stream.protocol_error'' True"

definition invalid_stream :: frontend_error where
  "invalid_stream = protocol_error ''The activity stream was invalid or incomplete.''"

definition too_large :: frontend_error where
  "too_large = protocol_error ''An activity event exceeded the safe size limit.''"

section \<open>The parser\<close>

definition DEFAULT_MAX_EVENT_BYTES :: nat where "DEFAULT_MAX_EVENT_BYTES = 256000"

record raw_event =
  re_event :: string
  re_event_id :: string
  re_data :: string

record sse_parser =
  sp_buffer :: string
  sp_event :: string
  sp_event_id :: string
  sp_data :: "string list"
  sp_frame_size :: nat

definition new_parser :: sse_parser where
  "new_parser = \<lparr> sp_buffer = [], sp_event = [], sp_event_id = [], sp_data = [], sp_frame_size = 0 \<rparr>"

definition newline :: char where "newline = CHR 10"

text \<open>\<open>s.split(c, 1)\<close> at a character; \<open>None\<close> when it does not occur.\<close>

fun cut_at :: "char \<Rightarrow> string \<Rightarrow> (string \<times> string) option" where
  "cut_at c [] = None"
| "cut_at c (x # s) = (if x = c then Some ([], s) else map_option (\<lambda>(a, b). (x # a, b)) (cut_at c s))"

definition drop_return :: "string \<Rightarrow> string" where
  "drop_return line = (if line \<noteq> [] \<and> last line = CHR 13 then butlast line else line)"

definition field_line :: "string \<Rightarrow> string \<times> string" where
  "field_line line =
     (case cut_at CHR '':'' line of
        None \<Rightarrow> (line, [])
      | Some (name, value) \<Rightarrow> (name, case value of c # rest \<Rightarrow> if c = CHR '' '' then rest else value | [] \<Rightarrow> value))"

definition parse_line :: "nat \<Rightarrow> sse_parser \<Rightarrow> string \<Rightarrow> (frontend_error, sse_parser \<times> raw_event option) result" where
  "parse_line maximum p line =
     (let frame = sp_frame_size p + length line + 1; p = p\<lparr> sp_frame_size := frame \<rparr> in
      if maximum < frame then Raise too_large
      else if line = [] then
        (if sp_event p = [] \<and> sp_event_id p = [] \<and> sp_data p = [] then Return (p\<lparr> sp_frame_size := 0 \<rparr>, None)
         else Return (p\<lparr> sp_event := [], sp_event_id := [], sp_data := [], sp_frame_size := 0 \<rparr>,
           Some \<lparr> re_event = (if sp_event p = [] then ''message'' else sp_event p), re_event_id = sp_event_id p,
             re_data = join_text [newline] (sp_data p) \<rparr>))
      else if hd line = CHR '':'' then Return (p, None)
      else let (name, value) = field_line line in
        if name = ''event'' then Return (p\<lparr> sp_event := value \<rparr>, None)
        else if name = ''id'' then
          (if CHR 0x00 \<in> set value then Raise invalid_stream else Return (p\<lparr> sp_event_id := value \<rparr>, None))
        else if name = ''data'' then Return (p\<lparr> sp_data := sp_data p @ [value] \<rparr>, None)
        else Return (p, None))"

lemma cut_at_length: "cut_at c s = Some (a, b) \<Longrightarrow> length b < length s"
  by (induction s arbitrary: a) (auto split: if_splits)

text \<open>The loop over the complete lines of the buffer; what is left of it is the third part.\<close>

function parse_lines ::
  "nat \<Rightarrow> sse_parser \<Rightarrow> string \<Rightarrow> (frontend_error, sse_parser \<times> raw_event list \<times> string) result" where
  "parse_lines maximum p buffer =
     (case cut_at newline buffer of
        None \<Rightarrow> Return (p, [], buffer)
      | Some (line, rest) \<Rightarrow>
          bind_result (parse_line maximum p (drop_return line)) (\<lambda>(p, item).
          bind_result (parse_lines maximum p rest) (\<lambda>(p, items, left).
            Return (p, (case item of None \<Rightarrow> [] | Some e \<Rightarrow> [e]) @ items, left))))"
  by pat_completeness auto
termination by (relation "measure (\<lambda>(_, _, s). length s)") (auto dest: cut_at_length)

declare parse_lines.simps [simp del]

definition feed :: "nat \<Rightarrow> sse_parser \<Rightarrow> string \<Rightarrow> (frontend_error, sse_parser \<times> raw_event list) result" where
  "feed maximum p chunk =
     bind_result (parse_lines maximum p (sp_buffer p @ chunk)) (\<lambda>(p, events, left).
       if maximum < sp_frame_size p + length left then Raise too_large
       else Return (p\<lparr> sp_buffer := left \<rparr>, events))"

definition finish_parser :: "sse_parser \<Rightarrow> (frontend_error, unit) result" where
  "finish_parser p =
     (if sp_buffer p \<noteq> [] \<or> sp_event p \<noteq> [] \<or> sp_event_id p \<noteq> [] \<or> sp_data p \<noteq> []
      then Raise (protocol_error ''The activity stream ended with an incomplete event.'') else Return ())"

section \<open>Envelopes\<close>

record decoders =
  dc_envelope :: "string \<Rightarrow> chat_envelope option"
  dc_uuid_text :: "uuid \<Rightarrow> string"

definition decode_envelope :: "decoders \<Rightarrow> raw_event \<Rightarrow> (frontend_error, chat_envelope) result" where
  "decode_envelope d e =
     (case dc_envelope d (re_data e) of
        None \<Rightarrow> Raise invalid_stream
      | Some v \<Rightarrow>
          (if re_event e \<noteq> ce_event_type v \<or> re_event_id e \<noteq> dc_uuid_text d (ce_event_id v) then Raise invalid_stream
           else Return v))"

section \<open>The contract of the stream\<close>

definition TERMINAL_EVENTS :: "string list" where
  "TERMINAL_EVENTS = [''response.completed'', ''response.failed'', ''stream.error'']"

record stream_validator =
  va_expected_sequence :: nat
  va_event_ids :: "uuid set"
  va_ids :: "(uuid \<times> uuid \<times> uuid) option"
  va_terminal_event :: "string option"

definition new_validator :: stream_validator where
  "new_validator = \<lparr> va_expected_sequence = 0, va_event_ids = {}, va_ids = None, va_terminal_event = None \<rparr>"

definition envelope_ids :: "chat_envelope \<Rightarrow> uuid \<times> uuid \<times> uuid" where
  "envelope_ids v = (ce_request_id v, ce_trace_id v, ce_session_id v)"

definition event_matches :: "chat_envelope \<Rightarrow> bool" where
  "event_matches v =
     (case ce_agent_event v of None \<Rightarrow> True
      | Some e \<Rightarrow> event_type_text (ae_event_type e) = ce_event_type v \<and>
          (ae_request_id e, ae_trace_id e, ae_session_id e) = envelope_ids v)"

definition response_matches :: "chat_envelope \<Rightarrow> bool" where
  "response_matches v =
     (case ce_response v of None \<Rightarrow> True
      | Some out \<Rightarrow> (go_request_id out, go_trace_id out, go_session_id out) = envelope_ids v)"

definition terminal_fault :: "chat_envelope \<Rightarrow> frontend_error option" where
  "terminal_fault v =
     (if ce_event_type v = ''response.completed'' \<and> ce_response v = None
      then Some (protocol_error ''The completed stream did not contain a final response.'')
      else if ce_event_type v = ''response.failed'' then
        (case ce_response v of
           None \<Rightarrow> Some (protocol_error ''The failed stream did not contain a final response.'')
         | Some out \<Rightarrow>
             (if go_completion_status out \<noteq> PS_failed \<or> go_selected_route out \<noteq> Route_failure
              then Some (protocol_error ''The failed stream contained an inconsistent response.'') else None))
      else if ce_event_type v = ''stream.error'' \<and> ce_error v = None then Some invalid_stream
      else None)"

definition accept :: "stream_validator \<Rightarrow> chat_envelope \<Rightarrow> (frontend_error, stream_validator) result" where
  "accept a v =
     (if va_terminal_event a \<noteq> None then Raise (protocol_error ''The activity stream continued after completion.'')
      else if ce_sequence v \<noteq> va_expected_sequence a \<or> ce_event_id v \<in> va_event_ids a then Raise invalid_stream
      else if (case va_ids a of None \<Rightarrow> False | Some ids \<Rightarrow> ids \<noteq> envelope_ids v) then Raise invalid_stream
      else if \<not> event_matches v \<or> \<not> response_matches v then Raise invalid_stream
      else
        let a = a\<lparr> va_expected_sequence := Suc (va_expected_sequence a),
          va_event_ids := insert (ce_event_id v) (va_event_ids a), va_ids := Some (envelope_ids v) \<rparr> in
        if ce_event_type v \<in> set TERMINAL_EVENTS then
          (case terminal_fault v of
             Some e \<Rightarrow> Raise e
           | None \<Rightarrow> Return (a\<lparr> va_terminal_event := Some (ce_event_type v) \<rparr>))
        else Return a)"

definition finish_validator :: "stream_validator \<Rightarrow> (frontend_error, unit) result" where
  "finish_validator a =
     (if va_terminal_event a = None then Raise (protocol_error ''The activity stream ended before a final event.'')
      else Return ())"

section \<open>The HTTP client\<close>

text \<open>A response as httpx delivers it; the body ends early when the connection is lost.\<close>

record http_response =
  hr_status :: nat
  hr_content_type :: string
  hr_retry_after :: "string option"
  hr_chunks :: "string list"
  hr_interrupted :: bool

datatype json_value = Json_null | Json_bool bool | Json_number real | Json_string string
  | Json_array "json_value list" | Json_object "(string \<times> json_value) list"

definition MAXIMUM_ERROR_BODY_BYTES :: nat where "MAXIMUM_ERROR_BODY_BYTES = 32000"

fun bounded_body :: "string \<Rightarrow> string list \<Rightarrow> string option" where
  "bounded_body content [] = Some content"
| "bounded_body content (chunk # chunks) =
     (if MAXIMUM_ERROR_BODY_BYTES < length (content @ chunk) then None else bounded_body (content @ chunk) chunks)"

definition error_fields :: "(string \<times> json_value) list \<Rightarrow> (string \<times> string \<times> bool) option" where
  "error_fields e =
     (case (map_of e ''code'', map_of e ''message'', case map_of e ''retryable'' of None \<Rightarrow> Json_bool False | Some v \<Rightarrow> v) of
        (Some (Json_string code), Some (Json_string message), Json_bool retryable) \<Rightarrow>
          if length code \<le> 100 \<and> length message \<le> 500 then Some (code, message, retryable) else None
      | _ \<Rightarrow> None)"

definition safe_error_fields :: "(string \<Rightarrow> json_value option) \<Rightarrow> string \<Rightarrow> (string \<times> string \<times> bool) option" where
  "safe_error_fields loads body =
     (case loads body of
        Some (Json_object o') \<Rightarrow> (case map_of o' ''error'' of Some (Json_object e) \<Rightarrow> error_fields e | _ \<Rightarrow> None)
      | _ \<Rightarrow> None)"

text \<open>\<open>int(s)\<close>: surrounding white space, a sign, and digits with single underscores between them.\<close>

fun digits_after :: "nat \<Rightarrow> bool \<Rightarrow> string \<Rightarrow> nat option" where
  "digits_after n digit [] = (if digit then Some n else None)"
| "digits_after n digit (c # s) =
     (if is_digit c then digits_after (10 * n + (code_point c - 48)) True s
      else if c = CHR ''_'' \<and> digit then digits_after n False s else None)"

definition python_int :: "string \<Rightarrow> int option" where
  "python_int s =
     (case strip s of
        [] \<Rightarrow> None
      | c # rest \<Rightarrow>
          (if c = CHR ''-'' then map_option (\<lambda>n. - int n) (digits_after 0 False rest)
           else map_option int (digits_after 0 False (if c = CHR ''+'' then rest else c # rest))))"

definition retry_after :: "string option \<Rightarrow> int option" where
  "retry_after value =
     (case value of None \<Rightarrow> None
      | Some s \<Rightarrow> (case python_int s of None \<Rightarrow> None | Some n \<Rightarrow> if 1 \<le> n \<and> n \<le> 86400 then Some n else None))"

definition default_message :: "nat \<Rightarrow> string" where
  "default_message status = (case map_of
     [(400, ''The request was invalid.''), (401, ''Your session has expired. Please sign in again.''),
      (409, ''This conversation cannot be continued. Start a new conversation.''),
      (422, ''The message could not be accepted.''), (429, ''Too many requests. Please wait before trying again.''),
      (500, ''The assistant could not complete the request safely.''),
      (503, ''A required service is temporarily unavailable.''),
      (504, ''The assistant timed out before completing the request.'')] status of
     Some message \<Rightarrow> message | None \<Rightarrow> ''The request could not be completed.'')"

definition http_error :: "(string \<Rightarrow> json_value option) \<Rightarrow> http_response \<Rightarrow> string option \<Rightarrow> frontend_error" where
  "http_error loads r body =
     (if hr_status r = 401 then authentication_expired
      else
        let fallback = (''http.'' @ show_nat (hr_status r), default_message (hr_status r), hr_status r \<in> {429, 500, 503, 504});
          (code, message, retryable) = (case Option.bind body (safe_error_fields loads) of None \<Rightarrow> fallback | Some p \<Rightarrow> p) in
        (frontend_error_of message code retryable)\<lparr> fe_retry_after_seconds := retry_after (hr_retry_after r) \<rparr>)"

definition stream_interrupted :: frontend_error where
  "stream_interrupted = frontend_error_of ''The activity stream was interrupted.'' ''frontend.stream_interrupted'' True"

text \<open>Consuming the events of a chunk: the envelopes yielded before an error, and what it leads to.\<close>

fun consume_events ::
  "decoders \<Rightarrow> stream_validator \<Rightarrow> raw_event list \<Rightarrow> chat_envelope list \<times> (frontend_error, stream_validator) result" where
  "consume_events d a [] = ([], Return a)"
| "consume_events d a (e # es) =
     (case bind_result (decode_envelope d e) (\<lambda>v. map_sum id (Pair v) (accept a v)) of
        Inl err \<Rightarrow> ([], Raise err)
      | Inr (v, a) \<Rightarrow> (let (vs, r) = consume_events d a es in (v # vs, r)))"

fun read_stream ::
  "nat \<Rightarrow> decoders \<Rightarrow> sse_parser \<Rightarrow> stream_validator \<Rightarrow> string list \<Rightarrow> bool \<Rightarrow>
   chat_envelope list \<times> (frontend_error, unit) result" where
  "read_stream maximum d p a [] interrupted =
     ([], if interrupted then Raise stream_interrupted
          else bind_result (finish_parser p) (\<lambda>_. finish_validator a))"
| "read_stream maximum d p a (chunk # chunks) interrupted =
     (case feed maximum p chunk of
        Inl e \<Rightarrow> ([], Raise e)
      | Inr (p, events) \<Rightarrow>
          (case consume_events d a events of
             (vs, Inl e) \<Rightarrow> (vs, Raise e)
           | (vs, Inr a) \<Rightarrow> (let (ws, r) = read_stream maximum d p a chunks interrupted in (vs @ ws, r))))"

definition stream_chat ::
  "decoders \<Rightarrow> (string \<Rightarrow> json_value option) \<Rightarrow> http_response option \<Rightarrow>
   chat_envelope list \<times> (frontend_error, unit) result" where
  "stream_chat d loads response =
     (case response of
        None \<Rightarrow> ([], Raise stream_interrupted)
      | Some r \<Rightarrow>
          (if hr_status r \<noteq> 200 then
             ([], Raise (case bounded_body [] (hr_chunks r) of
                None \<Rightarrow> http_error loads r None
              | Some body \<Rightarrow> if hr_interrupted r then stream_interrupted else http_error loads r (Some body)))
           else if \<not> prefix ''text/event-stream'' (hr_content_type r) then ([], Raise invalid_stream)
           else read_stream DEFAULT_MAX_EVENT_BYTES d new_parser new_validator (hr_chunks r) (hr_interrupted r)))"

end
