(* ===== verification/Stream_Properties.thy ===== *)
theory Stream_Properties
  imports Stream_Client
begin

text \<open>
  Lemmas on the client of the stream: the parser does not depend on how the text is cut into chunks and reads
  back the frames of the standard, and the validator accepts the envelopes of a finished invocation.
\<close>

section \<open>Chunks\<close>

lemma cut_at_append: "cut_at c s = Some (a, b) \<Longrightarrow> cut_at c (s @ t) = Some (a, b @ t)"
  by (induction s arbitrary: a) (auto split: if_splits)

lemma cut_at_None: "cut_at c s = None \<longleftrightarrow> c \<notin> set s"
  by (induction s) auto

lemma cut_at_longer: "c \<notin> set s \<Longrightarrow> cut_at c (s @ t) = map_option (\<lambda>(a, b). (s @ a, b)) (cut_at c t)"
  by (induction s) (cases "cut_at c t"; auto)+

lemma bind_result_assoc: "bind_result (bind_result x f) g = bind_result x (\<lambda>y. bind_result (f y) g)"
  by (cases x) simp_all

lemma parse_lines_append:
  "parse_lines maximum p (a @ b) =
     bind_result (parse_lines maximum p a) (\<lambda>(p, items, left).
     bind_result (parse_lines maximum p (left @ b)) (\<lambda>(p, items', left). Return (p, items @ items', left)))"
proof (induction maximum p a rule: parse_lines.induct)
  case (1 maximum p a)
  show ?case
  proof (cases "cut_at newline a")
    case None
    then show ?thesis
      by (subst (2) parse_lines.simps) (cases "parse_lines maximum p (a @ b)", auto simp: split_beta)
  next
    case (Some pq)
    obtain line rest where pq: "pq = (line, rest)" by (cases pq)
    note cut = Some [unfolded pq] and longer = cut_at_append [OF Some [unfolded pq], of b]
    show ?thesis
    proof (cases "parse_line maximum p (drop_return line)")
      case (Inl e)
      then show ?thesis by (simp add: parse_lines.simps [of maximum p a] parse_lines.simps [of maximum p "a @ b"] cut longer)
    next
      case (Inr r)
      obtain p' item where r: "r = (p', item)" by (cases r)
      have "parse_lines maximum p' (rest @ b) =
          bind_result (parse_lines maximum p' rest) (\<lambda>(p, items, left).
          bind_result (parse_lines maximum p (left @ b)) (\<lambda>(p, items', left). Return (p, items @ items', left)))"
        using 1 Some pq r Inr by blast
      then show ?thesis
        by (simp add: parse_lines.simps [of maximum p a] parse_lines.simps [of maximum p "a @ b"] cut longer Inr r
            bind_result_assoc split_beta)
    qed
  qed
qed

lemma parse_line_buffer:
  "parse_line maximum (p\<lparr> sp_buffer := x \<rparr>) line = map_sum id (\<lambda>(q, item). (q\<lparr> sp_buffer := x \<rparr>, item)) (parse_line maximum p line)"
  by (simp add: parse_line_def Let_def split_beta)

lemma parse_lines_buffer:
  "parse_lines maximum (p\<lparr> sp_buffer := x \<rparr>) s =
     map_sum id (\<lambda>(q, items, left). (q\<lparr> sp_buffer := x \<rparr>, items, left)) (parse_lines maximum p s)"
proof (induction maximum p s rule: parse_lines.induct)
  case (1 maximum p s)
  show ?case
  proof (cases "cut_at newline s")
    case None
    then show ?thesis by (simp add: parse_lines.simps [of maximum _ s])
  next
    case (Some pq)
    obtain line rest where pq: "pq = (line, rest)" by (cases pq)
    show ?thesis
    proof (cases "parse_line maximum p (drop_return line)")
      case (Inl e)
      then show ?thesis by (simp add: parse_lines.simps [of maximum _ s] Some pq parse_line_buffer)
    next
      case (Inr r)
      obtain p' item where r: "r = (p', item)" by (cases r)
      have "parse_lines maximum (p'\<lparr> sp_buffer := x \<rparr>) rest =
          map_sum id (\<lambda>(q, items, left). (q\<lparr> sp_buffer := x \<rparr>, items, left)) (parse_lines maximum p' rest)"
        using 1 Some pq r Inr by blast
      then show ?thesis
        by (cases "parse_lines maximum p' rest")
          (auto simp: parse_lines.simps [of maximum _ s] Some pq parse_line_buffer Inr r)
    qed
  qed
qed

lemma parse_lines_left: "parse_lines maximum p s = Inr (q, items, left) \<Longrightarrow> newline \<notin> set left"
proof (induction maximum p s arbitrary: items rule: parse_lines.induct)
  case (1 maximum p s)
  show ?case
  proof (cases "cut_at newline s")
    case None
    then have "left = s" using 1(2) by (simp add: parse_lines.simps [of maximum p s])
    then show ?thesis using None by (simp add: cut_at_None)
  next
    case (Some pq)
    obtain line rest where pq: "pq = (line, rest)" by (cases pq)
    obtain p' item items' where "parse_line maximum p (drop_return line) = Inr (p', item)"
      "parse_lines maximum p' rest = Inr (q, items', left)"
      using 1(2) by (auto simp: parse_lines.simps [of maximum p s] Some pq split: option.splits)
    then show ?thesis using 1(1) Some pq by blast
  qed
qed

lemma parse_line_size: "parse_line maximum p line = Inr r \<Longrightarrow> sp_frame_size p + length line + 1 \<le> maximum"
  by (auto simp: parse_line_def Let_def not_less split: if_splits)

lemma length_drop_return: "length s \<le> length (drop_return s) + 1"
  by (simp add: drop_return_def)

text \<open>What is kept of an incomplete line never exceeds the limit when the rest of the text does not.\<close>

lemma left_within_limit:
  assumes "newline \<notin> set left" "parse_lines maximum p (left @ b) = Inr (q, items, left')"
    "sp_frame_size q + length left' \<le> maximum"
  shows "sp_frame_size p + length left \<le> maximum"
proof (cases "cut_at newline (left @ b)")
  case None
  then show ?thesis using assms(2,3) by (auto simp: parse_lines.simps [of maximum p "left @ b"])
next
  case (Some pq)
  then obtain line rest where cut: "cut_at newline (left @ b) = Some (left @ line, rest)"
    using assms(1) by (auto simp: cut_at_longer)
  then obtain r where "parse_line maximum p (drop_return (left @ line)) = Inr r"
    using assms(2) by (auto simp: parse_lines.simps [of maximum p "left @ b"])
  from parse_line_size [OF this] length_drop_return [of "left @ line"] show ?thesis by simp
qed

lemma feed_append:
  "feed maximum p (a @ b) = Inr (r, es) \<longleftrightarrow>
   (\<exists>q es1 es2. feed maximum p a = Inr (q, es1) \<and> feed maximum q b = Inr (r, es2) \<and> es = es1 @ es2)"
proof (cases "parse_lines maximum p (sp_buffer p @ a)")
  case (Inl e)
  then have "parse_lines maximum p (sp_buffer p @ a @ b) = Inl e"
    using parse_lines_append [of maximum p "sp_buffer p @ a" b] by simp
  with Inl show ?thesis by (simp add: feed_def)
next
  case (Inr x)
  obtain q es1 left where x: "x = (q, es1, left)" by (cases x)
  have left: "newline \<notin> set left" using parse_lines_left Inr x by blast
  have whole: "parse_lines maximum p (sp_buffer p @ a @ b) =
      bind_result (parse_lines maximum q (left @ b)) (\<lambda>(p, items', left). Return (p, es1 @ items', left))"
    using parse_lines_append [of maximum p "sp_buffer p @ a" b] Inr x by simp
  show ?thesis
  proof (cases "parse_lines maximum q (left @ b)")
    case (Inl e)
    then show ?thesis using whole Inr x parse_lines_buffer [where maximum = maximum and p = q and x = left and s = "left @ b"]
      by (auto simp: feed_def split: if_splits)
  next
    case y: (Inr y)
    obtain q' es2 left' where y': "y = (q', es2, left')" by (cases y)
    have limit: "sp_frame_size q' + length left' \<le> maximum \<Longrightarrow> sp_frame_size q + length left \<le> maximum"
      using left_within_limit [OF left] y y' by blast
    show ?thesis using whole Inr x y y' limit parse_lines_buffer [where maximum = maximum and p = q and x = left and s = "left @ b"]
      by (auto simp: feed_def not_less split: if_splits)
  qed
qed

fun feed_all :: "nat \<Rightarrow> sse_parser \<Rightarrow> string list \<Rightarrow> (frontend_error, sse_parser \<times> raw_event list) result" where
  "feed_all maximum p [] = Return (p, [])"
| "feed_all maximum p (chunk # chunks) =
     bind_result (feed maximum p chunk) (\<lambda>(p, es).
     bind_result (feed_all maximum p chunks) (\<lambda>(p, es'). Return (p, es @ es')))"

lemma feed_all_Cons:
  "feed_all maximum p (chunk # chunks) = Inr (r, es) \<longleftrightarrow>
   (\<exists>q es1 es2. feed maximum p chunk = Inr (q, es1) \<and> feed_all maximum q chunks = Inr (r, es2) \<and> es = es1 @ es2)"
  by auto

lemma feed_all_concat:
  "chunks \<noteq> [] \<Longrightarrow> feed_all maximum p chunks = Inr (r, es) \<longleftrightarrow> feed maximum p (concat chunks) = Inr (r, es)"
proof (induction chunks arbitrary: p es)
  case (Cons chunk chunks)
  show ?case
  proof (cases "chunks = []")
    case True
    then show ?thesis by auto
  next
    case False
    then show ?thesis
      by (simp only: feed_all_Cons Cons.IH [OF False] concat.simps feed_append)
  qed
qed simp

section \<open>Frames of the standard\<close>

text \<open>The text of an event as the standard on server-sent events writes it: one field in a line, one line for each
  line of the data, and an empty line.\<close>

definition text_of_lines :: "string list \<Rightarrow> string" where
  "text_of_lines ls = concat (map (\<lambda>l. l @ [newline]) ls)"

definition frame_lines :: "raw_event \<Rightarrow> string list" where
  "frame_lines e = [''event: '' @ re_event e, ''id: '' @ re_event_id e] @
     map (\<lambda>l. ''data: '' @ l) (split_on newline (re_data e)) @ [[]]"

definition frame_text :: "raw_event \<Rightarrow> string" where "frame_text e = text_of_lines (frame_lines e)"

definition comment_text :: "string \<Rightarrow> string" where "comment_text c = text_of_lines ['': '' @ c, []]"

definition plain_text :: "string \<Rightarrow> bool" where "plain_text s = (newline \<notin> set s \<and> CHR 13 \<notin> set s \<and> CHR 0x00 \<notin> set s)"

definition frame_ok :: "nat \<Rightarrow> raw_event \<Rightarrow> bool" where
  "frame_ok maximum e = (re_event e \<noteq> [] \<and> plain_text (re_event e) \<and> plain_text (re_event_id e) \<and>
     CHR 13 \<notin> set (re_data e) \<and> length (frame_text e) \<le> maximum)"

fun parse_each :: "nat \<Rightarrow> sse_parser \<Rightarrow> string list \<Rightarrow> (frontend_error, sse_parser \<times> raw_event list) result" where
  "parse_each maximum p [] = Return (p, [])"
| "parse_each maximum p (l # ls) =
     bind_result (parse_line maximum p (drop_return l)) (\<lambda>(p, item).
     bind_result (parse_each maximum p ls) (\<lambda>(p, items). Return (p, (case item of None \<Rightarrow> [] | Some e \<Rightarrow> [e]) @ items)))"

lemma cut_at_here: "c \<notin> set s \<Longrightarrow> cut_at c (s @ c # t) = Some (s, t)"
  by (simp add: cut_at_longer)

lemma parse_lines_text:
  "\<forall>l \<in> set ls. newline \<notin> set l \<Longrightarrow>
   parse_lines maximum p (text_of_lines ls) = bind_result (parse_each maximum p ls) (\<lambda>(p, items). Return (p, items, []))"
proof (induction ls arbitrary: p)
  case (Cons l ls)
  have "text_of_lines (l # ls) = l @ newline # text_of_lines ls" by (simp add: text_of_lines_def)
  then show ?case using Cons
    by (simp add: parse_lines.simps [of maximum p "l @ newline # text_of_lines ls"] cut_at_here bind_result_assoc case_prod_beta')
qed (simp add: text_of_lines_def parse_lines.simps [of maximum _ "[]"])

lemma parse_each_append:
  "parse_each maximum p (ls @ ms) =
     bind_result (parse_each maximum p ls) (\<lambda>(p, items).
     bind_result (parse_each maximum p ms) (\<lambda>(p, items'). Return (p, items @ items')))"
proof (induction ls arbitrary: p)
  case Nil
  show ?case by (cases "parse_each maximum p ms") auto
qed (simp add: bind_result_assoc case_prod_beta')

lemma plain_drop_return: "CHR 13 \<notin> set s \<Longrightarrow> drop_return s = s"
  by (auto simp: drop_return_def dest: last_in_set)

lemma field_lines:
  "field_line (''event: '' @ v) = (''event'', v)" "field_line (''id: '' @ v) = (''id'', v)"
  "field_line (''data: '' @ v) = (''data'', v)"
  by (simp_all add: field_line_def)

lemma parse_data_lines:
  "\<forall>l \<in> set ds. CHR 13 \<notin> set l \<Longrightarrow> sp_frame_size p + length (text_of_lines (map (\<lambda>l. ''data: '' @ l) ds)) \<le> maximum \<Longrightarrow>
   parse_each maximum p (map (\<lambda>l. ''data: '' @ l) ds) =
     Inr (p\<lparr> sp_data := sp_data p @ ds, sp_frame_size := sp_frame_size p + length (text_of_lines (map (\<lambda>l. ''data: '' @ l) ds)) \<rparr>, [])"
proof (induction ds arbitrary: p)
  case (Cons d ds)
  have d: "drop_return (''data: '' @ d) = ''data: '' @ d" using Cons.prems(1) by (intro plain_drop_return) auto
  then show ?case using Cons field_lines(3) [of d]
    by (simp add: parse_line_def Let_def text_of_lines_def not_less)
qed (simp add: text_of_lines_def)

lemma join_split_on: "join_text [c] (split_on c s) = s"
proof (induction s)
  case (Cons x s)
  then show ?case by (cases "split_on c s" rule: list.exhaust; cases "tl (split_on c s)") auto
qed simp

lemma split_on_parts: "l \<in> set (split_on c s) \<Longrightarrow> c \<notin> set l \<and> set l \<subseteq> set s"
proof (induction s arbitrary: l)
  case (Cons x s)
  then show ?case by (cases "split_on c s") (fastforce split: if_splits)+
qed simp

lemma split_on_nonempty: "split_on c s \<noteq> []"
  by (induction s) (auto split: list.splits)

lemma split_on_length: "length (text_of_lines (split_on c s)) = length s + 1"
proof (induction s)
  case (Cons x s)
  then show ?case by (cases "split_on c s") (auto simp: text_of_lines_def)
qed (simp add: text_of_lines_def)

lemma text_of_lines_append: "text_of_lines (ls @ ms) = text_of_lines ls @ text_of_lines ms"
  by (simp add: text_of_lines_def)

lemma parse_field_line:
  "CHR 13 \<notin> set v \<Longrightarrow> sp_frame_size p + length v + 8 \<le> maximum \<Longrightarrow>
   parse_line maximum p (drop_return (''event: '' @ v)) = Inr (p\<lparr> sp_event := v, sp_frame_size := sp_frame_size p + length v + 8 \<rparr>, None)"
  using field_lines(1) [of v] plain_drop_return [of "''event: '' @ v"] by (simp add: parse_line_def Let_def not_less)

lemma parse_id_line:
  "CHR 13 \<notin> set v \<Longrightarrow> CHR 0x00 \<notin> set v \<Longrightarrow> sp_frame_size p + length v + 5 \<le> maximum \<Longrightarrow>
   parse_line maximum p (drop_return (''id: '' @ v)) = Inr (p\<lparr> sp_event_id := v, sp_frame_size := sp_frame_size p + length v + 5 \<rparr>, None)"
  using field_lines(2) [of v] plain_drop_return [of "''id: '' @ v"] by (simp add: parse_line_def Let_def not_less)

lemma parse_frame:
  assumes ok: "frame_ok maximum e"
  shows "parse_each maximum new_parser (frame_lines e) = Inr (new_parser, [e])"
proof -
  let ?ds = "split_on newline (re_data e)"
  let ?data = "text_of_lines (map (\<lambda>l. ''data: '' @ l) ?ds)"
  have size: "length (re_event e) + length (re_event_id e) + 13 + length ?data + 1 \<le> maximum"
    using ok by (simp add: frame_ok_def frame_text_def frame_lines_def text_of_lines_append) (simp add: text_of_lines_def)
  have cr: "\<forall>l \<in> set ?ds. CHR 13 \<notin> set l" using ok split_on_parts [of _ newline "re_data e"] by (auto simp: frame_ok_def)
  have plain: "CHR 13 \<notin> set (re_event e)" "CHR 13 \<notin> set (re_event_id e)" "CHR 0x00 \<notin> set (re_event_id e)" "re_event e \<noteq> []"
    using ok by (simp_all add: frame_ok_def plain_text_def)
  define p where "p = new_parser\<lparr> sp_event := re_event e, sp_event_id := re_event_id e,
    sp_frame_size := length (re_event e) + 8 + length (re_event_id e) + 5 \<rparr>"
  have front: "parse_each maximum new_parser [''event: '' @ re_event e, ''id: '' @ re_event_id e] = Inr (p, [])"
    using parse_field_line [of "re_event e" new_parser maximum] plain size
      parse_id_line [of "re_event_id e" "new_parser\<lparr> sp_event := re_event e, sp_frame_size := length (re_event e) + 8 \<rparr>" maximum]
    by (simp add: p_def new_parser_def)
  have data: "parse_each maximum p (map (\<lambda>l. ''data: '' @ l) ?ds) =
      Inr (p\<lparr> sp_data := ?ds, sp_frame_size := sp_frame_size p + length ?data \<rparr>, [])"
    using parse_data_lines [OF cr, of p maximum] size by (simp add: p_def new_parser_def)
  have end': "parse_each maximum (p\<lparr> sp_data := ?ds, sp_frame_size := sp_frame_size p + length ?data \<rparr>) [[]] = Inr (new_parser, [e])"
    using size plain(4) split_on_nonempty [of newline "re_data e"]
    by (simp add: parse_line_def Let_def drop_return_def p_def new_parser_def join_split_on not_less)
  show ?thesis
    by (simp only: frame_lines_def parse_each_append front data end' bind_result.simps prod.case append_Nil)
qed

lemma frame_lines_plain: "frame_ok maximum e \<Longrightarrow> \<forall>l \<in> set (frame_lines e). newline \<notin> set l"
  using split_on_parts [of _ newline "re_data e"]
  by (auto simp: frame_ok_def frame_lines_def plain_text_def newline_def)

lemma feed_frame: "frame_ok maximum e \<Longrightarrow> feed maximum new_parser (frame_text e) = Inr (new_parser, [e])"
  using parse_lines_text [OF frame_lines_plain, of maximum e maximum new_parser] parse_frame [of maximum e]
  by (simp add: feed_def frame_text_def new_parser_def)

lemma feed_comment:
  assumes "newline \<notin> set c" "length c + 4 \<le> maximum"
  shows "feed maximum new_parser (comment_text c) = Inr (new_parser, [])"
proof -
  have "length (drop_return ('': '' @ c)) \<le> length c + 2" by (simp add: drop_return_def)
  moreover have "hd (drop_return ('': '' @ c)) = CHR '':''" "drop_return ('': '' @ c) \<noteq> []"
    by (auto simp: drop_return_def butlast_append)
  ultimately have lines: "parse_each maximum new_parser ['': '' @ c, []] = Inr (new_parser, [])"
    using assms(2) by (simp add: parse_line_def Let_def new_parser_def drop_return_def [of "[]"] not_less)
  have "parse_lines maximum new_parser (comment_text c) = Inr (new_parser, [], [])"
    using parse_lines_text [of "['': '' @ c, []]" maximum new_parser] assms(1) unfolding lines
    by (simp add: comment_text_def newline_def)
  then show ?thesis by (simp add: feed_def new_parser_def)
qed

section \<open>The messages of a stream\<close>

definition raw_event_of :: "decoders \<Rightarrow> (chat_envelope \<Rightarrow> string) \<Rightarrow> chat_envelope \<Rightarrow> raw_event" where
  "raw_event_of d encode v =
     \<lparr> re_event = ce_event_type v, re_event_id = dc_uuid_text d (ce_event_id v), re_data = encode v \<rparr>"

fun message_text :: "decoders \<Rightarrow> (chat_envelope \<Rightarrow> string) \<Rightarrow> stream_message \<Rightarrow> string" where
  "message_text d encode (Sent v) = frame_text (raw_event_of d encode v)"
| "message_text d encode (Comment c) = comment_text c"

definition message_ok :: "nat \<Rightarrow> decoders \<Rightarrow> (chat_envelope \<Rightarrow> string) \<Rightarrow> stream_message \<Rightarrow> bool" where
  "message_ok maximum d encode m =
     (case m of Sent v \<Rightarrow> frame_ok maximum (raw_event_of d encode v) | Comment c \<Rightarrow> newline \<notin> set c \<and> length c + 4 \<le> maximum)"

lemma feed_messages:
  "list_all (message_ok maximum d encode) ms \<Longrightarrow>
   feed_all maximum new_parser (map (message_text d encode) ms) = Inr (new_parser, map (raw_event_of d encode) (envelopes ms))"
proof (induction ms)
  case (Cons m ms)
  then show ?case using feed_frame feed_comment by (cases m) (auto simp: message_ok_def)
qed simp

text \<open>However the text of the messages is cut into chunks, the parser reads the envelopes back.\<close>

lemma feed_stream:
  assumes ok: "list_all (message_ok maximum d encode) ms" "ms \<noteq> []"
    and wire: "concat chunks = concat (map (message_text d encode) ms)" "chunks \<noteq> []"
  shows "feed_all maximum new_parser chunks = Inr (new_parser, map (raw_event_of d encode) (envelopes ms))"
proof -
  have "feed_all maximum new_parser (map (message_text d encode) ms) = Inr (new_parser, map (raw_event_of d encode) (envelopes ms))"
    by (rule feed_messages [OF ok(1)])
  then have "feed maximum new_parser (concat chunks) = Inr (new_parser, map (raw_event_of d encode) (envelopes ms))"
    unfolding wire(1) using feed_all_concat ok(2) by (metis (no_types, lifting) map_is_Nil_conv)
  then show ?thesis using feed_all_concat wire(2) by blast
qed

section \<open>Reading a response\<close>

lemma consume_append:
  "consume_events d a (es1 @ es2) = (vs, Inr b) \<longleftrightarrow>
   (\<exists>vs1 vs2 a'. consume_events d a es1 = (vs1, Inr a') \<and> consume_events d a' es2 = (vs2, Inr b) \<and> vs = vs1 @ vs2)"
proof (induction es1 arbitrary: a vs)
  case (Cons e es1)
  show ?case
  proof (cases "bind_result (decode_envelope d e) (\<lambda>v. map_sum id (Pair v) (accept a v))")
    case (Inr r)
    obtain v a' where r: "r = (v, a')" by (cases r)
    note IH = Cons.IH [of a']
    show ?thesis
    proof (cases "consume_events d a' es1")
      case (Pair ws x)
      then show ?thesis using IH Inr r
        by (cases "consume_events d a' (es1 @ es2)") (fastforce simp: split_beta)
    qed
  qed simp
qed simp

lemma read_stream_all:
  "feed_all maximum p chunks = Inr (q, es) \<Longrightarrow> consume_events d a es = (vs, Inr b) \<Longrightarrow>
   read_stream maximum d p a chunks False = (vs, bind_result (finish_parser q) (\<lambda>_. finish_validator b))"
proof (induction chunks arbitrary: p a es vs)
  case (Cons chunk chunks)
  from Cons.prems(1) obtain p' es1 es2 where f: "feed maximum p chunk = Inr (p', es1)"
    "feed_all maximum p' chunks = Inr (q, es2)" "es = es1 @ es2" by (auto simp: feed_all_Cons)
  from Cons.prems(2) obtain vs1 vs2 a' where c: "consume_events d a es1 = (vs1, Inr a')" "consume_events d a' es2 = (vs2, Inr b)"
    "vs = vs1 @ vs2" unfolding f(3) consume_append by blast
  show ?case using Cons.IH [OF f(2) c(2)] f(1) c by simp
qed simp

section \<open>The validator\<close>

fun accept_all :: "stream_validator \<Rightarrow> chat_envelope list \<Rightarrow> (frontend_error, stream_validator) result" where
  "accept_all a [] = Return a"
| "accept_all a (v # vs) = bind_result (accept a v) (\<lambda>a. accept_all a vs)"

lemma accept_all_append: "accept_all a (vs @ ws) = bind_result (accept_all a vs) (\<lambda>a. accept_all a ws)"
  by (induction vs arbitrary: a) (simp_all add: bind_result_assoc)

lemma consume_accepted:
  assumes "\<forall>v \<in> set vs. dc_envelope d (encode v) = Some v"
  shows "accept_all a vs = Inr b \<Longrightarrow> consume_events d a (map (raw_event_of d encode) vs) = (vs, Inr b)"
  using assms
proof (induction vs arbitrary: a)
  case (Cons v vs)
  then show ?case by (auto simp: decode_envelope_def raw_event_of_def)
qed simp

text \<open>The validator after the first \<open>n\<close> envelopes of a stream.\<close>

definition validated :: "stream_context \<Rightarrow> nat \<Rightarrow> stream_validator" where
  "validated x n = \<lparr> va_expected_sequence = n, va_event_ids = sx_event_id x ` {..<n},
     va_ids = (if n = 0 then None else Some (sx_request_id x, sx_trace_id x, sx_session_id x)), va_terminal_event = None \<rparr>"

definition open_envelope :: "stream_context \<Rightarrow> nat \<Rightarrow> chat_envelope \<Rightarrow> bool" where
  "open_envelope x n v =
     (ce_event_id v = sx_event_id x n \<and> ce_sequence v = n \<and>
      envelope_ids v = (sx_request_id x, sx_trace_id x, sx_session_id x) \<and> event_matches v \<and> response_matches v)"

lemma accept_open:
  assumes "inj (sx_event_id x)" "open_envelope x n v" "ce_event_type v \<notin> set TERMINAL_EVENTS"
  shows "accept (validated x n) v = Inr (validated x (Suc n))"
proof -
  have "sx_event_id x n \<notin> sx_event_id x ` {..<n}" using assms(1) by (auto simp: inj_eq)
  then show ?thesis using assms(2,3)
    by (auto simp: accept_def validated_def open_envelope_def lessThan_Suc Let_def)
qed

lemma accept_closing:
  assumes "inj (sx_event_id x)" "open_envelope x n v" "ce_event_type v \<in> set TERMINAL_EVENTS" "terminal_fault v = None"
  shows "accept (validated x n) v = Inr ((validated x (Suc n))\<lparr> va_terminal_event := Some (ce_event_type v) \<rparr>)"
proof -
  have "sx_event_id x n \<notin> sx_event_id x ` {..<n}" using assms(1) by (auto simp: inj_eq)
  then show ?thesis using assms(2-4)
    by (auto simp: accept_def validated_def open_envelope_def lessThan_Suc Let_def)
qed

end
