(* ===== verification/Client_State.thy ===== *)
theory Client_State
  imports Stream_Client
begin

text \<open>
  The client's presentation state and its turns: models.py, state.py, activity.py and turns.py of the frontend,
  and the part of app.py that sends a prompt.  The keys of the session state are the fields of a record, which
  \<open>initialize\<close> sets; drawing the page is left out.  New identifiers and the time are arguments.
\<close>

section \<open>Models\<close>

record frontend_user =
  fu_username :: string
  fu_display_name :: string
  fu_role :: user_role

record chat_message =
  cm_message_id :: uuid
  cm_role :: string
  cm_content :: string
  cm_created_at :: instant
  cm_completion_status :: "processing_status option"
  cm_selected_route :: "route option"
  cm_request_id :: "uuid option"
  cm_citations :: "verified_citation list"
  cm_mcp_provenance :: "mcp_provenance option"
  cm_analysis_operation :: "string option"
  cm_insufficient_evidence :: bool
  cm_deterministic_fallback_used :: bool
  cm_deterministic_analysis_rendering_used :: bool
  cm_fallback_reason :: "fallback_reason option"
  cm_analysis_result :: "analysis_result option"

definition chat_message_ok :: "chat_message \<Rightarrow> bool" where
  "chat_message_ok m = (cm_role m \<in> {''user'', ''assistant''} \<and> 1 \<le> length (cm_content m) \<and> length (cm_content m) \<le> 32000 \<and>
     (case cm_analysis_operation m of None \<Rightarrow> True | Some s \<Rightarrow> length s \<le> 100))"

text \<open>The status is one of the event statuses, of which the literals of the class are three.\<close>

record activity_item =
  at_event_id :: uuid
  at_sequence :: nat
  at_timestamp :: instant
  at_event_type :: string
  at_label :: string
  at_status :: event_status
  at_detail :: "string option"

definition activity_item_ok :: "activity_item \<Rightarrow> bool" where
  "activity_item_ok i = (1 \<le> length (at_event_type i) \<and> length (at_event_type i) \<le> 100 \<and>
     1 \<le> length (at_label i) \<and> length (at_label i) \<le> 200 \<and>
     (case at_detail i of None \<Rightarrow> True | Some s \<Rightarrow> length s \<le> 300))"

record request_metadata =
  rq_request_id :: uuid
  rq_trace_id :: uuid
  rq_session_id :: uuid

section \<open>Activity\<close>

definition LABELS :: "(string \<times> string) list" where
  "LABELS =
     [(''stream.started'', ''Connecting to assistant''),
      (''request.accepted'', ''Request accepted''),
      (''graph.started'', ''Assistant workflow started''),
      (''node.started'', ''Workflow step started''),
      (''node.completed'', ''Workflow step completed''),
      (''node.failed'', ''Workflow step failed''),
      (''route.selected'', ''Supervisor selected a route''),
      (''retrieval.started'', ''Knowledge retrieval started''),
      (''retrieval.completed'', ''Knowledge retrieval completed''),
      (''tool.authorization_started'', ''Tool authorization started''),
      (''tool.authorized'', ''Tool authorized''),
      (''tool.denied'', ''Tool denied''),
      (''research.started'', ''Recursive research started''),
      (''research.batch_started'', ''Research batch started''),
      (''research.batch_completed'', ''Research batch completed''),
      (''research.catalog_completed'', ''Research catalog prepared''),
      (''research.planning_started'', ''Research planning started''),
      (''research.plan_created'', ''Research plan created''),
      (''research.plan_validated'', ''Research plan validated''),
      (''research.worker_dispatched'', ''Research worker dispatched''),
      (''research.worker_started'', ''Research worker started''),
      (''research.retrieval_completed'', ''Research retrieval completed''),
      (''research.analysis_completed'', ''Research analysis completed''),
      (''research.worker_completed'', ''Research worker completed''),
      (''research.worker_failed'', ''Research worker failed''),
      (''research.round_completed'', ''Research round completed''),
      (''research.coverage_assessed'', ''Research coverage assessed''),
      (''research.child_tasks_created'', ''Follow-up research tasks created''),
      (''research.aggregation_completed'', ''Research evidence aggregated''),
      (''research.partial'', ''Research completed with gaps''),
      (''research.budget_exhausted'', ''Research budget exhausted''),
      (''research.completed'', ''Recursive research completed''),
      (''research.failed'', ''Recursive research failed''),
      (''mcp.started'', ''Enterprise data lookup started''),
      (''mcp.tool_selected'', ''Enterprise data tool selected''),
      (''mcp.completed'', ''Enterprise data lookup completed''),
      (''mcp.denied'', ''Enterprise data lookup denied''),
      (''mcp.failed'', ''Enterprise data lookup failed''),
      (''tool.started'', ''Analysis tool started''),
      (''tool.completed'', ''Analysis tool completed''),
      (''tool.failed'', ''Analysis tool failed''),
      (''response.generation_started'', ''Response generation started''),
      (''response.generation_completed'', ''Response generation completed''),
      (''response.generation_failed'', ''Response generation failed''),
      (''citation.validation_started'', ''Citation validation started''),
      (''citation.validation_completed'', ''Citation validation completed''),
      (''citation.validation_failed'', ''Citation validation failed''),
      (''response.repair_started'', ''Response repair started''),
      (''response.repair_completed'', ''Response repair completed''),
      (''response.fallback_used'', ''Safe fallback response used''),
      (''validation.completed'', ''Evidence validation completed''),
      (''memory.load_started'', ''Conversation context loading''),
      (''memory.loaded'', ''Conversation context loaded''),
      (''memory.context_resolved'', ''Conversation context resolved''),
      (''memory.update_started'', ''Conversation memory update started''),
      (''memory.updated'', ''Conversation memory updated''),
      (''memory.evicted'', ''Older conversation context evicted''),
      (''memory.failed'', ''Conversation memory unavailable''),
      (''response.completed'', ''Response completed''),
      (''response.failed'', ''Response failed''),
      (''stream.error'', ''Activity stream failed'')]"

text \<open>The middle dot between the parts of a detail.\<close>

definition dot :: string where "dot = '' '' @ [CHR 0xB7] @ '' ''"

fun tool_name_text :: "tool_name \<Rightarrow> string" where
  "tool_name_text Tool_knowledge_search = ''knowledge_search''"
| "tool_name_text Tool_python_analysis = ''python_analysis''"
| "tool_name_text Tool_employee_directory = ''employee_directory''"
| "tool_name_text Tool_service_catalog = ''service_catalog''"
| "tool_name_text Tool_incident_records = ''incident_records''"
| "tool_name_text Tool_administrative_ingestion = ''administrative_ingestion''"

definition payload_values :: "event_payload \<Rightarrow> (string \<times> string option) list" where
  "payload_values p =
     [(''Route'', map_option route_text (ep_route p)),
      (''Tool'', case ep_mcp_tool_name p of Some t \<Rightarrow> Some (mcp_tool_text t) | None \<Rightarrow> map_option tool_name_text (ep_tool_name p)),
      (''Results'', map_option show_nat (ep_result_count p)), (''Evidence'', map_option show_nat (ep_evidence_count p)),
      (''Round'', map_option show_nat (ep_round_number p)), (''Reason'', ep_error_code p)]"

definition payload_detail :: "event_payload \<Rightarrow> string" where
  "payload_detail p = join_text dot
     (List.map_filter (\<lambda>(label, value). map_option (\<lambda>v. label @ '': '' @ v) value) (payload_values p))"

definition activity_status :: "chat_envelope \<Rightarrow> event_status" where
  "activity_status v =
     (case ce_agent_event v of
        Some e \<Rightarrow> ae_status e
      | None \<Rightarrow>
          (if ce_event_type v \<in> {''response.failed'', ''stream.error''} then ES_failed
           else if ce_event_type v = ''response.completed'' then ES_completed else ES_started))"

definition activity_label :: "chat_envelope \<Rightarrow> string" where
  "activity_label v =
     (if (case ce_agent_event v of None \<Rightarrow> False | Some e \<Rightarrow> ae_node e = Some ''handle_failure'')
      then if ce_event_type v = ''node.completed'' then ''Failure handled safely'' else ''Safe failure handling started''
      else case map_of LABELS (ce_event_type v) of Some label \<Rightarrow> label | None \<Rightarrow> ''Agent activity'')"

definition activity_from_envelope :: "chat_envelope \<Rightarrow> activity_item" where
  "activity_from_envelope v =
     \<lparr> at_event_id = ce_event_id v, at_sequence = ce_sequence v, at_timestamp = ce_timestamp v,
       at_event_type = ce_event_type v, at_label = activity_label v, at_status = activity_status v,
       at_detail = (case ce_agent_event v of None \<Rightarrow> None
         | Some e \<Rightarrow> (case payload_detail (ae_payload e) of [] \<Rightarrow> None | c # s \<Rightarrow> Some (c # s))) \<rparr>"

section \<open>State\<close>

record frontend_state =
  st_access_token :: "string option"
  st_user :: "frontend_user option"
  st_session_id :: "uuid option"
  st_messages :: "chat_message list"
  st_activity :: "activity_item list"
  st_last_response :: "graph_output option"
  st_pending :: bool
  st_last_error :: "string option"
  st_request_metadata :: "request_metadata option"

definition blank_frontend :: frontend_state where
  "blank_frontend = \<lparr> st_access_token = None, st_user = None, st_session_id = None, st_messages = [], st_activity = [],
     st_last_response = None, st_pending = False, st_last_error = None, st_request_metadata = None \<rparr>"

definition clear_all :: "frontend_state \<Rightarrow> frontend_state" where "clear_all s = blank_frontend"

definition authenticate :: "frontend_state \<Rightarrow> string \<Rightarrow> frontend_user \<Rightarrow> frontend_state" where
  "authenticate s token user = (clear_all s)\<lparr> st_access_token := Some token, st_user := Some user \<rparr>"

definition new_conversation :: "frontend_state \<Rightarrow> frontend_state" where
  "new_conversation s = s\<lparr> st_session_id := None, st_messages := [], st_activity := [], st_last_response := None,
     st_pending := False, st_last_error := None, st_request_metadata := None \<rparr>"

definition user_message :: "uuid \<Rightarrow> instant \<Rightarrow> string \<Rightarrow> chat_message" where
  "user_message i now content = \<lparr> cm_message_id = i, cm_role = ''user'', cm_content = content, cm_created_at = now,
     cm_completion_status = None, cm_selected_route = None, cm_request_id = None, cm_citations = [],
     cm_mcp_provenance = None, cm_analysis_operation = None, cm_insufficient_evidence = False,
     cm_deterministic_fallback_used = False, cm_deterministic_analysis_rendering_used = False,
     cm_fallback_reason = None, cm_analysis_result = None \<rparr>"

text \<open>What leaves an operation: an error the page shows, or a contract that refuses its values.\<close>

datatype client_fault = Shown frontend_error | Contract_fault

definition add_user_message ::
  "frontend_state \<Rightarrow> uuid \<Rightarrow> instant \<Rightarrow> string \<Rightarrow> (client_fault, frontend_state) result" where
  "add_user_message s i now content =
     (if \<not> chat_message_ok (user_message i now content) then Raise Contract_fault
      else Return (s\<lparr> st_messages := st_messages s @ [user_message i now content] \<rparr>))"

definition add_activity :: "frontend_state \<Rightarrow> activity_item \<Rightarrow> nat \<Rightarrow> frontend_state" where
  "add_activity s item maximum_items =
     (if list_ex (\<lambda>c. at_event_id c = at_event_id item) (st_activity s) then s
      else s\<lparr> st_activity := (if maximum_items = 0 then st_activity s @ [item]
        else last_n maximum_items (st_activity s @ [item])) \<rparr>)"

definition assistant_message :: "uuid \<Rightarrow> instant \<Rightarrow> graph_output \<Rightarrow> chat_message" where
  "assistant_message i now out = \<lparr> cm_message_id = i, cm_role = ''assistant'', cm_content = go_response_text out,
     cm_created_at = now, cm_completion_status = Some (go_completion_status out),
     cm_selected_route = Some (go_selected_route out), cm_request_id = Some (go_request_id out),
     cm_citations = go_citations out, cm_mcp_provenance = map_option mx_provenance (go_mcp_execution out),
     cm_analysis_operation = map_option (\<lambda>a. operation_text (an_operation a)) (go_analysis_result out),
     cm_insufficient_evidence = go_insufficient_evidence out,
     cm_deterministic_fallback_used = go_deterministic_fallback_used out,
     cm_deterministic_analysis_rendering_used = go_deterministic_analysis_rendering_used out,
     cm_fallback_reason = go_fallback_reason out, cm_analysis_result = go_analysis_result out \<rparr>"

definition answers_request :: "uuid \<Rightarrow> chat_message \<Rightarrow> bool" where
  "answers_request i m = (cm_role m = ''assistant'' \<and> cm_request_id m = Some i)"

definition complete ::
  "frontend_state \<Rightarrow> uuid \<Rightarrow> instant \<Rightarrow> graph_output \<Rightarrow> (client_fault, frontend_state) result" where
  "complete s i now out =
     (if list_ex (answers_request (go_request_id out)) (st_messages s) then Return s
      else if \<not> chat_message_ok (assistant_message i now out) then Raise Contract_fault
      else Return (s\<lparr> st_messages := st_messages s @ [assistant_message i now out],
        st_session_id := Some (go_session_id out), st_last_response := Some out,
        st_request_metadata := Some \<lparr> rq_request_id = go_request_id out, rq_trace_id = go_trace_id out,
          rq_session_id = go_session_id out \<rparr>,
        st_pending := False, st_last_error := None \<rparr>))"

definition record_error :: "frontend_state \<Rightarrow> string \<Rightarrow> frontend_state" where
  "record_error s message = s\<lparr> st_pending := False, st_last_error := Some message \<rparr>"

section \<open>Turns\<close>

text \<open>An envelope changes the state even when it raises: the activity is recorded first.\<close>

definition commit ::
  "frontend_state \<Rightarrow> uuid \<Rightarrow> instant \<Rightarrow> graph_output option \<Rightarrow> string \<Rightarrow> frontend_state \<times> (client_fault, bool) result" where
  "commit s i now response missing =
     (case response of
        None \<Rightarrow> (s, Raise (Shown (protocol_error missing)))
      | Some out \<Rightarrow> (case complete s i now out of Inl e \<Rightarrow> (s, Raise e) | Inr s' \<Rightarrow> (s', Return True)))"

definition handle_envelope ::
  "nat \<Rightarrow> uuid \<Rightarrow> instant \<Rightarrow> frontend_state \<Rightarrow> chat_envelope \<Rightarrow> frontend_state \<times> (client_fault, bool) result" where
  "handle_envelope maximum i now s v =
     (if \<not> activity_item_ok (activity_from_envelope v) then (s, Raise Contract_fault)
      else let s = add_activity s (activity_from_envelope v) maximum in
        if ce_event_type v = ''stream.error'' then
          (case ce_error v of
             None \<Rightarrow> (s, Raise (Shown invalid_stream))
           | Some e \<Rightarrow> (record_error s (pe_message e), Raise (Shown (frontend_error_of (pe_message e) (pe_code e) (pe_retryable e)))))
        else if ce_event_type v = ''response.failed''
        then commit s i now (ce_response v) ''The failed stream did not contain a final response.''
        else if ce_event_type v = ''response.completed''
        then commit s i now (ce_response v) ''The completed stream did not contain a final response.''
        else (s, Return False))"

text \<open>The loop over a stream, which ends in the stream's own error if no envelope raised before.\<close>

fun handle_stream ::
  "nat \<Rightarrow> uuid \<Rightarrow> instant \<Rightarrow> frontend_state \<Rightarrow> chat_envelope list \<Rightarrow> (frontend_error, unit) result \<Rightarrow>
   frontend_state \<times> (client_fault, unit) result" where
  "handle_stream maximum i now s [] end' = (s, map_sum Shown id end')"
| "handle_stream maximum i now s (v # vs) end' =
     (case handle_envelope maximum i now s v of
        (s, Inl e) \<Rightarrow> (s, Raise e)
      | (s, Inr _) \<Rightarrow> handle_stream maximum i now s vs end')"

definition shown_message :: "frontend_error \<Rightarrow> string" where
  "shown_message e = fe_public_message e @
     (case fe_retry_after_seconds e of None \<Rightarrow> []
      | Some n \<Rightarrow> '' Try again in '' @ show_nat (nat n) @ '' seconds.'')"

text \<open>A refused contract (a pydantic ValidationError) is not caught: it leaves the turn where it stands.\<close>

definition end_turn :: "frontend_state \<times> (client_fault, unit) result \<Rightarrow> frontend_state \<times> (client_fault, unit) result" where
  "end_turn t =
     (case t of
        (s, Inl (Shown e)) \<Rightarrow>
          (if fe_expired e then (clear_all s)\<lparr> st_last_error := Some (fe_public_message e) \<rparr>
           else record_error s (shown_message e), Return ())
      | (s, Inl Contract_fault) \<Rightarrow> (s, Raise Contract_fault)
      | (s, Inr _) \<Rightarrow> (s, Return ()))"

text \<open>Sending a prompt: \<open>stream\<close> is what the HTTP client yields for it.  A pending request disables the input.\<close>

definition MAXIMUM_PROMPT :: nat where "MAXIMUM_PROMPT = 4000"

definition run_turn ::
  "nat \<Rightarrow> uuid \<Rightarrow> uuid \<Rightarrow> instant \<Rightarrow> frontend_state \<Rightarrow> string option \<Rightarrow>
   chat_envelope list \<times> (frontend_error, unit) result \<Rightarrow> frontend_state \<times> (client_fault, unit) result" where
  "run_turn maximum user_id assistant_id now s prompt stream =
     (if st_access_token s = None \<or> st_pending s then (s, Return ())
      else case prompt of
        None \<Rightarrow> (s, Return ())
      | Some p \<Rightarrow>
          (if strip p = [] then (s, Return ())
           else case add_user_message s user_id now (strip p) of
             Inl e \<Rightarrow> (s, Raise e)
           | Inr s \<Rightarrow>
               end_turn (handle_stream maximum assistant_id now
                 (s\<lparr> st_pending := True, st_last_error := None, st_activity := [] \<rparr>) (fst stream) (snd stream))))"

end
