(* ===== verification/Stream_Claims.thy ===== *)
theory Stream_Claims
  imports Stream_Properties Client_State
begin

text \<open>
  Properties of the public stream from the graph to the page: its contract holds for every finished invocation,
  its text is read back however it is cut, and every turn of the page settles.
\<close>

section \<open>The contract of the stream\<close>

lemma event_type_text_terminal:
  "event_type_text t \<in> set TERMINAL_EVENTS \<longleftrightarrow> t \<in> {Ev_response_completed, Ev_response_failed}"
  by (cases t) (simp_all add: TERMINAL_EVENTS_def)

lemma event_type_text_failed: "event_type_text t = ''response.failed'' \<longleftrightarrow> t = Ev_response_failed"
  by (cases t) simp_all

lemma event_type_text_not_error: "event_type_text t \<noteq> ''stream.error''"
  by (cases t) simp_all

definition context_for :: "graph_input \<Rightarrow> stream_context \<Rightarrow> bool" where
  "context_for i x = (sx_request_id x = gi_request_id i \<and> sx_trace_id x = gi_trace_id i \<and> sx_session_id x = gi_session_id i)"

lemma open_started: "open_envelope x 0 (envelope x 0 ''stream.started'' None None None)"
  by (simp add: open_envelope_def envelope_def envelope_ids_def event_matches_def response_matches_def)

lemma open_event:
  assumes "context_for i x" "ae_request_id e = gi_request_id i" "ae_trace_id e = gi_trace_id i" "ae_session_id e = gi_session_id i"
  shows "open_envelope x n (envelope x n (event_type_text (ae_event_type e)) (Some e) None None)"
  using assms by (simp add: open_envelope_def envelope_def envelope_ids_def event_matches_def response_matches_def context_for_def)

lemma accept_events:
  assumes "inj (sx_event_id x)" "context_for i x"
  shows "list_all (\<lambda>e. ae_request_id e = gi_request_id i \<and> ae_trace_id e = gi_trace_id i \<and> ae_session_id e = gi_session_id i \<and>
      \<not> terminal_event e) es \<Longrightarrow>
    accept_all (validated x n) (event_envelopes x n es) = Inr (validated x (n + length es))"
proof (induction es arbitrary: n)
  case (Cons e es)
  have "accept (validated x n) (envelope x n (event_type_text (ae_event_type e)) (Some e) None None) = Inr (validated x (Suc n))"
    using Cons.prems by (intro accept_open [OF assms(1)] open_event [OF assms(2)])
      (auto simp: envelope_def terminal_event_def event_type_text_terminal)
  then show ?case using Cons.IH [of "Suc n"] Cons.prems by (simp add: event_envelopes_def)
qed (simp add: event_envelopes_def)

lemma event_envelopes_sequence: "map ce_sequence (event_envelopes x n es) = [n ..< n + length es]"
  by (induction es arbitrary: n) (simp_all add: event_envelopes_def envelope_def upt_conv_Cons del: upt_Suc)

text \<open>C38: However pings interrupt it, the stream of a finished invocation is accepted by the client's validator
  as a complete stream: numbered from zero with the request's identifiers, its last envelope, and no other, is
  terminal, and carries the final output of the invocation.\<close>

theorem stream_contract_kept:
  assumes "responses_ok sv" "checkpoint_ok chk" "invoke_graph sv i chk m = Finished c"
    and "interleaved (stream_items i 0 False False (ex_parts c)) steps"
    and "context_for i x" "inj (sx_event_id x)"
  shows "\<exists>ms vs v a. chat_event_stream x steps = (ms, Closed) \<and> envelopes ms = vs @ [v] \<and>
    accept_all new_validator (envelopes ms) = Inr a \<and> finish_validator a = Inr () \<and>
    map ce_sequence (envelopes ms) = [0 ..< length (envelopes ms)] \<and>
    list_all (\<lambda>v. ce_event_type v \<notin> set TERMINAL_EVENTS) vs \<and> va_terminal_event a = Some (ce_event_type v) \<and>
    ce_response v = gs_final_output (ex_state c) \<and> ce_response v \<noteq> None"
proof -
  from finished_items [OF assms(1-3)] obtain es e out where
    out: "gs_final_output (ex_state c) = Some out" and
    items: "stream_items i 0 False False (ex_parts c) = map Item_event (es @ [e]) @ [Item_output out]" and
    ids: "list_all (\<lambda>x. ae_request_id x = gi_request_id i \<and> ae_trace_id x = gi_trace_id i \<and>
      ae_session_id x = gi_session_id i) (es @ [e])" and
    oid: "go_request_id out = gi_request_id i" "go_trace_id out = gi_trace_id i" "go_session_id out = gi_session_id i" and
    t: "terminal_event e" "list_all (\<lambda>x. \<not> terminal_event x) es" and
    failed: "(ae_event_type e = Ev_response_failed) = (go_completion_status out = PS_failed)"
    by (elim exE conjE) (rule that)
  let ?n = "Suc (length es)"
  let ?started = "envelope x 0 ''stream.started'' None None None" and ?last = "closing_envelope x ?n e out"
  obtain ms where ms: "chat_events x 1 None steps = (ms, Closed)"
    "envelopes ms = event_envelopes x 1 es @ [closing_envelope x (1 + length es) e out]"
    using chat_events_finished [OF t(1) assms(4) [unfolded items] t(2), of x 1 None] by (metis prod.collapse)
  have stream: "chat_event_stream x steps = (Sent ?started # ms, Closed)"
    "envelopes (Sent ?started # ms) = (?started # event_envelopes x 1 es) @ [?last]"
    using ms by (simp_all add: chat_event_stream_def)
  have new: "new_validator = validated x 0" by (simp add: new_validator_def validated_def)
  have first: "accept (validated x 0) ?started = Inr (validated x 1)"
    using accept_open [OF assms(6) open_started] by (simp add: envelope_def TERMINAL_EVENTS_def)
  have events: "accept_all (validated x 1) (event_envelopes x 1 es) = Inr (validated x ?n)"
    using accept_events [OF assms(6,5), of es 1] ids t(2) by (simp add: list_all_iff)
  have op: "open_envelope x ?n ?last"
    using ids oid assms(5) by (simp add: open_envelope_def closing_envelope_def envelope_def envelope_ids_def
        event_matches_def response_matches_def context_for_def)
  have fault: "terminal_fault ?last = None"
    using failed failed_output_route [OF assms(1-3) out] event_type_text_not_error
    by (auto simp: terminal_fault_def closing_envelope_def envelope_def event_type_text_failed)
  have type: "ce_event_type ?last \<in> set TERMINAL_EVENTS"
    using t(1) by (simp add: closing_envelope_def envelope_def event_type_text_terminal terminal_event_def)
  let ?a = "(validated x (Suc ?n))\<lparr> va_terminal_event := Some (ce_event_type ?last) \<rparr>"
  have accepted: "accept_all new_validator (envelopes (Sent ?started # ms)) = Inr ?a"
    unfolding stream(2) accept_all_append using first events accept_closing [OF assms(6) op type fault] by (simp add: new)
  have sequence: "map ce_sequence (envelopes (Sent ?started # ms)) = [0 ..< length (envelopes (Sent ?started # ms))]"
  proof -
    have "length (event_envelopes x 1 es) = length es" by (simp add: event_envelopes_def)
    moreover have "[0 ..< length es + 2] = 0 # [1 ..< 1 + length es] @ [1 + length es]"
      using upt_conv_Cons [of 0 "1 + length es"] by simp
    moreover have "ce_sequence ?started = 0" "ce_sequence ?last = 1 + length es"
      by (simp_all add: closing_envelope_def envelope_def)
    ultimately show ?thesis unfolding stream(2) using event_envelopes_sequence [of x 1 es] by simp
  qed
  have quiet: "list_all (\<lambda>v. ce_event_type v \<notin> set TERMINAL_EVENTS) (?started # event_envelopes x 1 es)"
    using t(2) by (auto simp: list_all_iff event_envelopes_def envelope_def event_type_text_terminal terminal_event_def
        in_set_enumerate_eq dest: nth_mem) (simp add: TERMINAL_EVENTS_def)
  show ?thesis
    by (rule exI [of _ "Sent ?started # ms"], rule exI [of _ "?started # event_envelopes x 1 es"], rule exI [of _ ?last],
        rule exI [of _ ?a], intro conjI)
      (use stream accepted sequence quiet out in \<open>simp_all add: finish_validator_def closing_envelope_def envelope_def\<close>)
qed

theorem stream_contract_kept_witness:
  "\<exists>c ms a. invoke_graph sample_services (sample_input ''hello'' VIEWER) None 0 = Finished c \<and>
     chat_event_stream \<lparr> sx_request_id = 11, sx_trace_id = 12, sx_session_id = 13, sx_event_id = id, sx_timestamp = int \<rparr>
       (Ping False # map Next_item (stream_items (sample_input ''hello'' VIEWER) 0 False False (ex_parts c))) = (ms, Closed) \<and>
     accept_all new_validator (envelopes ms) = Inr a \<and> finish_validator a = Inr ()"
proof -
  obtain c where c: "invoke_graph sample_services (sample_input ''hello'' VIEWER) None 0 = Finished c"
    by (rule sample_invocation)
  have n: "checkpoint_ok None" by (simp add: checkpoint_ok_def)
  let ?x = "\<lparr> sx_request_id = 11, sx_trace_id = 12, sx_session_id = 13, sx_event_id = id, sx_timestamp = int \<rparr>"
  have x: "context_for (sample_input ''hello'' VIEWER) ?x" "inj (sx_event_id ?x)"
    by (simp_all add: context_for_def sample_input_def)
  have steps: "interleaved items (Ping False # map Next_item items)" for items
    by (induction items) (auto intro: interleaved.intros)
  from stream_contract_kept [OF sample_services_ok n c steps x] c show ?thesis by blast
qed

section \<open>The text of the stream\<close>

lemma message_text_nonempty: "message_text d encode m \<noteq> []"
  by (cases m) (simp_all add: frame_text_def comment_text_def text_of_lines_def frame_lines_def)

text \<open>C39: A stream of messages written in the frames of the standard is read back exactly, however the connection
  cuts its text into chunks: the parser yields the messages' events and the client their envelopes, followed by
  the validator's judgement of the end.\<close>

theorem stream_read_back:
  assumes "list_all (message_ok maximum d encode) ms" "ms \<noteq> []"
    and "concat chunks = concat (map (message_text d encode) ms)"
    and "\<forall>v \<in> set (envelopes ms). dc_envelope d (encode v) = Some v"
  shows "feed_all maximum new_parser chunks = Inr (new_parser, map (raw_event_of d encode) (envelopes ms)) \<and>
    (\<forall>a. accept_all new_validator (envelopes ms) = Inr a \<longrightarrow>
       read_stream maximum d new_parser new_validator chunks False = (envelopes ms, finish_validator a))"
proof -
  have "chunks \<noteq> []" using assms(2,3) message_text_nonempty by (cases ms) auto
  from feed_stream [OF assms(1-3) this]
  have feed: "feed_all maximum new_parser chunks = Inr (new_parser, map (raw_event_of d encode) (envelopes ms))" .
  moreover have "finish_parser new_parser = Inr ()" by (simp add: finish_parser_def new_parser_def)
  ultimately show ?thesis
    using read_stream_all [OF feed consume_accepted [OF assms(4)]] by simp
qed

definition sample_output :: graph_output where
  "sample_output = \<lparr> go_request_id = 11, go_trace_id = 12, go_session_id = 13, go_completion_status = PS_completed,
     go_selected_route = Route_direct_response, go_intent = Intent_knowledge_lookup, go_evidence = [], go_warnings = [],
     go_response_text = ''ok'', go_validation_reports = [], go_memory_used = False, go_context_resolved = False,
     go_turn_sequence = None, go_memory_update_status = ''disabled'', go_analysis_result = None, go_citations = [],
     go_deterministic_fallback_used = False, go_deterministic_analysis_rendering_used = False,
     go_fallback_reason = None, go_insufficient_evidence = False, go_mcp_execution = None \<rparr>"

definition sample_envelope :: chat_envelope where
  "sample_envelope = \<lparr> ce_event_id = 0, ce_sequence = 0, ce_request_id = 11, ce_trace_id = 12, ce_session_id = 13,
     ce_event_type = ''response.completed'', ce_timestamp = 0, ce_agent_event = None, ce_response = Some sample_output,
     ce_error = None \<rparr>"

definition sample_decoders :: decoders where
  "sample_decoders = \<lparr> dc_envelope = (\<lambda>s. if s = ''v'' then Some sample_envelope else None), dc_uuid_text = (\<lambda>_. ''u'') \<rparr>"

lemma sample_messages_ok:
  "list_all (message_ok 256000 sample_decoders (\<lambda>_. ''v'')) [Comment ''keepalive'', Sent sample_envelope]"
  by (simp add: message_ok_def frame_ok_def raw_event_of_def sample_envelope_def sample_decoders_def plain_text_def newline_def
      frame_text_def frame_lines_def text_of_lines_def)

lemma sample_accepted: "\<exists>a. accept_all new_validator [sample_envelope] = Inr a \<and> finish_validator a = Inr ()"
  by (simp add: accept_def new_validator_def sample_envelope_def sample_output_def envelope_ids_def event_matches_def
      response_matches_def TERMINAL_EVENTS_def terminal_fault_def finish_validator_def Let_def)

text \<open>The text of the two messages, cut after its first character.\<close>

definition sample_chunks :: "string list" where
  "sample_chunks = ['':'', drop 1 (concat (map (message_text sample_decoders (\<lambda>_. ''v'')) [Comment ''keepalive'', Sent sample_envelope]))]"

lemma concat_sample_chunks:
  "concat sample_chunks = concat (map (message_text sample_decoders (\<lambda>_. ''v'')) [Comment ''keepalive'', Sent sample_envelope])"
  by (simp add: sample_chunks_def comment_text_def text_of_lines_def)

theorem stream_read_back_witness:
  "read_stream 256000 sample_decoders new_parser new_validator sample_chunks False = ([sample_envelope], Inr ())"
proof -
  let ?ms = "[Comment ''keepalive'', Sent sample_envelope]"
  have "\<forall>v \<in> set (envelopes ?ms). dc_envelope sample_decoders ''v'' = Some v" by (simp add: sample_decoders_def)
  then show ?thesis
    using stream_read_back [OF sample_messages_ok _ concat_sample_chunks] sample_accepted by fastforce
qed

section \<open>Turns settle\<close>

lemma consume_accept_all: "consume_events d a es = (vs, Inr b) \<Longrightarrow> accept_all a vs = Inr b"
proof (induction es arbitrary: a vs)
  case (Cons e es)
  show ?case
  proof (cases "bind_result (decode_envelope d e) (\<lambda>v. map_sum id (Pair v) (accept a v))")
    case (Inl err)
    then show ?thesis using Cons.prems by simp
  next
    case (Inr r)
    obtain v a' where r: "r = (v, a')" by (cases r)
    have "accept a v = Inr a'" using Inr r by (cases "decode_envelope d e"; cases "accept a v") (auto simp: map_sum_def split: sum.splits)
    moreover obtain ws where "consume_events d a' es = (ws, Inr b)" "vs = v # ws"
      using Cons.prems Inr r by (cases "consume_events d a' es") auto
    ultimately show ?thesis using Cons.IH by simp
  qed
qed simp

lemma read_stream_done:
  "read_stream maximum d p a chunks interrupted = (vs, Inr ()) \<Longrightarrow> \<exists>b. accept_all a vs = Inr b \<and> va_terminal_event b \<noteq> None"
proof (induction chunks arbitrary: p a vs)
  case Nil
  then show ?case by (auto simp: finish_validator_def split: if_splits)
next
  case (Cons chunk chunks)
  from Cons.prems obtain p' es vs1 a1 vs2 where f: "feed maximum p chunk = Inr (p', es)" "consume_events d a es = (vs1, Inr a1)"
    "read_stream maximum d p' a1 chunks interrupted = (vs2, Inr ())" "vs = vs1 @ vs2"
    by (auto split: sum.splits prod.splits)
  then show ?case using Cons.IH [OF f(3)] consume_accept_all [OF f(2)] by (auto simp: accept_all_append)
qed

lemma accept_terminal:
  "accept a v = Inr b \<Longrightarrow> va_terminal_event a = None \<and> response_matches v \<and>
   (if ce_event_type v \<in> set TERMINAL_EVENTS then terminal_fault v = None else va_terminal_event b = None)"
  by (auto simp: accept_def Let_def split: if_splits option.splits)

lemma accept_all_terminal:
  "accept_all a vs = Inr b \<Longrightarrow> va_terminal_event a = None \<Longrightarrow> va_terminal_event b \<noteq> None \<Longrightarrow>
   \<exists>us v. vs = us @ [v] \<and> (\<forall>u \<in> set us. ce_event_type u \<notin> set TERMINAL_EVENTS) \<and>
     ce_event_type v \<in> set TERMINAL_EVENTS \<and> terminal_fault v = None \<and> response_matches v"
proof (induction vs arbitrary: a)
  case (Cons v vs)
  from Cons.prems(1) obtain a1 where a1: "accept a v = Inr a1" "accept_all a1 vs = Inr b" by auto
  show ?case
  proof (cases "ce_event_type v \<in> set TERMINAL_EVENTS")
    case True
    have "vs = []"
    proof (cases vs)
      case (Cons w ws)
      then obtain a2 where "accept a1 w = Inr a2" using a1(2) by auto
      moreover have "va_terminal_event a1 \<noteq> None" using a1(1) True
        by (auto simp: accept_def Let_def split: if_splits option.splits)
      ultimately show ?thesis using accept_terminal [of a1 w a2] by simp
    qed simp
    then show ?thesis using accept_terminal [OF a1(1)] True by auto
  next
    case False
    then obtain us w where "vs = us @ [w]" "\<forall>u \<in> set us. ce_event_type u \<notin> set TERMINAL_EVENTS"
      "ce_event_type w \<in> set TERMINAL_EVENTS" "terminal_fault w = None" "response_matches w"
      using Cons.IH [OF a1(2) _ Cons.prems(3)] accept_terminal [OF a1(1)] by auto
    then show ?thesis using False by (intro exI [of _ "v # us"] exI [of _ w]) auto
  qed
qed simp

lemma handle_quiet:
  assumes "handle_envelope maximum i now s v = (s', Inr b)" "ce_event_type v \<notin> set TERMINAL_EVENTS"
  shows "\<exists>act. s' = s\<lparr> st_activity := act \<rparr>"
proof -
  have "s' = add_activity s (activity_from_envelope v) maximum"
    using assms by (auto simp: handle_envelope_def TERMINAL_EVENTS_def Let_def split: if_splits)
  then show ?thesis by (auto simp: add_activity_def intro: exI [of _ "st_activity s"])
qed

lemma handle_stream_quiet:
  "handle_stream maximum i now s (us @ ws) r = (s2, Inr ()) \<Longrightarrow> \<forall>u \<in> set us. ce_event_type u \<notin> set TERMINAL_EVENTS \<Longrightarrow>
   \<exists>act. handle_stream maximum i now (s\<lparr> st_activity := act \<rparr>) ws r = (s2, Inr ())"
proof (induction us arbitrary: s)
  case Nil
  then show ?case by (auto intro: exI [of _ "st_activity s"])
next
  case (Cons u us)
  from Cons.prems(1) obtain s1 b where h: "handle_envelope maximum i now s u = (s1, Inr b)"
    "handle_stream maximum i now s1 (us @ ws) r = (s2, Inr ())" by (auto split: prod.splits sum.splits)
  obtain act where s1: "s1 = s\<lparr> st_activity := act \<rparr>" using handle_quiet [OF h(1)] Cons.prems(2) by auto
  show ?case using Cons.IH [OF h(2)] Cons.prems(2) by (auto simp: s1)
qed

lemma handle_stream_end: "handle_stream maximum i now s vs r = (s2, Inr ()) \<Longrightarrow> r = Inr ()"
  by (induction vs arbitrary: s) (auto split: prod.splits sum.splits simp: map_sum_def)

lemma handle_closing:
  assumes "handle_stream maximum i now s [v] (Inr ()) = (s2, Inr ())" "ce_event_type v \<in> set TERMINAL_EVENTS"
    and "\<forall>out. ce_response v = Some out \<longrightarrow> \<not> list_ex (answers_request (go_request_id out)) (st_messages s)"
  shows "\<exists>out. ce_response v = Some out \<and> \<not> st_pending s2 \<and> st_last_error s2 = None \<and>
    st_session_id s2 = Some (go_session_id out) \<and> st_messages s2 = st_messages s @ [assistant_message i now out]"
proof -
  let ?s = "add_activity s (activity_from_envelope v) maximum"
  have keep: "st_messages ?s = st_messages s" by (simp add: add_activity_def)
  obtain missing where "handle_envelope maximum i now s v = commit ?s i now (ce_response v) missing"
    using assms(1,2) by (auto simp: handle_envelope_def TERMINAL_EVENTS_def Let_def split: if_splits option.splits)
  then show ?thesis using assms(1,3) keep
    by (auto simp: commit_def complete_def split: option.splits if_splits sum.splits)
qed

text \<open>What the client yields was accepted, so only its last envelope can be terminal.\<close>

lemma accept_all_shape:
  "accept_all a vs = Inr b \<Longrightarrow>
   list_all response_matches vs \<and> list_all (\<lambda>v. ce_event_type v \<notin> set TERMINAL_EVENTS) (butlast vs)"
proof (induction vs arbitrary: a)
  case (Cons v vs)
  from Cons.prems obtain a1 where a1: "accept a v = Inr a1" "accept_all a1 vs = Inr b" by auto
  have "ce_event_type v \<notin> set TERMINAL_EVENTS" if ne: "vs \<noteq> []"
  proof -
    obtain w ws where w: "vs = w # ws" using ne by (cases vs) auto
    then obtain a2 where "accept a1 w = Inr a2" using a1(2) by auto
    then have "va_terminal_event a1 = None" using accept_terminal by blast
    then show ?thesis using a1(1) by (auto simp: accept_def Let_def split: if_splits option.splits)
  qed
  then show ?case using Cons.IH [OF a1(2)] accept_terminal [OF a1(1)] by simp
qed simp

lemma consume_accepted_prefix: "consume_events d a es = (vs, r) \<Longrightarrow> \<exists>b. accept_all a vs = Inr b"
proof (induction es arbitrary: a vs)
  case (Cons e es)
  show ?case
  proof (cases "bind_result (decode_envelope d e) (\<lambda>v. map_sum id (Pair v) (accept a v))")
    case (Inl err)
    then show ?thesis using Cons.prems by auto
  next
    case (Inr q)
    obtain v a' where q: "q = (v, a')" by (cases q)
    have "accept a v = Inr a'" using Inr q by (cases "decode_envelope d e"; cases "accept a v") (auto simp: map_sum_def split: sum.splits)
    moreover obtain ws where "consume_events d a' es = (ws, r)" "vs = v # ws"
      using Cons.prems Inr q by (cases "consume_events d a' es") auto
    ultimately show ?thesis using Cons.IH by simp
  qed
qed auto

lemma read_stream_prefix: "read_stream maximum d p a chunks interrupted = (vs, r) \<Longrightarrow> \<exists>b. accept_all a vs = Inr b"
proof (induction chunks arbitrary: p a vs)
  case (Cons chunk chunks)
  show ?case
  proof (cases "feed maximum p chunk")
    case (Inl e)
    then show ?thesis using Cons.prems by auto
  next
    case (Inr f)
    obtain q es where f: "f = (q, es)" by (cases f)
    obtain us o' where c: "consume_events d a es = (us, o')" by (cases "consume_events d a es")
    show ?thesis
    proof (cases o')
      case (Inl e)
      then show ?thesis using Cons.prems Inr f c consume_accepted_prefix [OF c] by auto
    next
      case o': (Inr a1)
      obtain ws where "read_stream maximum d q a1 chunks interrupted = (ws, r)" "vs = us @ ws"
        using Cons.prems Inr f c o' by (cases "read_stream maximum d q a1 chunks interrupted") auto
      then show ?thesis using Cons.IH consume_accept_all [OF c [unfolded o']] by (auto simp: accept_all_append)
    qed
  qed
qed auto

lemma stream_chat_prefix: "stream_chat d loads response = (vs, r) \<Longrightarrow> \<exists>b. accept_all new_validator vs = Inr b"
  by (auto simp: stream_chat_def split: option.splits if_splits dest: read_stream_prefix)

text \<open>The envelopes the page's own contracts refuse: an answer without text or of more than 32000 characters, and an
  activity whose type or detail is out of its bounds.  Every other field of the two records is in bounds.\<close>

definition refused_answer :: "graph_output \<Rightarrow> bool" where
  "refused_answer out = (go_response_text out = [] \<or> 32000 < length (go_response_text out))"

definition refused_envelope :: "chat_envelope \<Rightarrow> bool" where
  "refused_envelope v =
     (ce_event_type v = [] \<or> 100 < length (ce_event_type v) \<or>
      (case ce_agent_event v of None \<Rightarrow> False | Some e \<Rightarrow> 300 < length (payload_detail (ae_payload e))) \<or>
      (ce_event_type v \<in> {''response.completed'', ''response.failed''} \<and>
       (case ce_response v of None \<Rightarrow> False | Some out \<Rightarrow> refused_answer out)))"

lemma labels_bounded: "\<forall>l \<in> snd ` set LABELS. 1 \<le> length l \<and> length l \<le> 200"
  by (simp add: LABELS_def)

lemma activity_label_bounded: "1 \<le> length (activity_label v)" "length (activity_label v) \<le> 200"
proof -
  have known: "1 \<le> length l \<and> length l \<le> 200" if m: "map_of LABELS t = Some l" for t l
  proof -
    have "l \<in> snd ` set LABELS" by (rule image_eqI [OF _ map_of_SomeD [OF m]]) simp
    then show ?thesis using labels_bounded by blast
  qed
  then show "1 \<le> length (activity_label v)" "length (activity_label v) \<le> 200"
    by (simp_all add: activity_label_def split: option.split)
qed

lemma activity_refused:
  "activity_item_ok (activity_from_envelope v) \<longleftrightarrow> \<not> (ce_event_type v = [] \<or> 100 < length (ce_event_type v) \<or>
     (case ce_agent_event v of None \<Rightarrow> False | Some e \<Rightarrow> 300 < length (payload_detail (ae_payload e))))"
  using activity_label_bounded [of v]
  by (auto simp: activity_item_ok_def activity_from_envelope_def Suc_le_eq split: option.splits list.splits)

lemma answer_refused: "chat_message_ok (assistant_message i now out) \<longleftrightarrow> \<not> refused_answer out"
proof -
  have "length (operation_text x) \<le> 100" for x by (cases x) simp_all
  then show ?thesis
    by (auto simp: chat_message_ok_def assistant_message_def refused_answer_def Suc_le_eq not_less split: option.splits)
qed

lemma handle_envelope_refused:
  assumes "\<forall>out. ce_response v = Some out \<longrightarrow> \<not> list_ex (answers_request (go_request_id out)) (st_messages s)"
    "handle_envelope maximum i now s v = (s', e)"
  shows "e = Inl Contract_fault \<longleftrightarrow> refused_envelope v"
    "refused_envelope v \<Longrightarrow> st_pending s' = st_pending s \<and> st_messages s' = st_messages s"
proof -
  let ?s = "add_activity s (activity_from_envelope v) maximum"
  have keep: "st_messages ?s = st_messages s" "st_pending ?s = st_pending s" by (simp_all add: add_activity_def)
  have "(e = Inl Contract_fault \<longleftrightarrow> refused_envelope v) \<and>
     (refused_envelope v \<longrightarrow> st_pending s' = st_pending s \<and> st_messages s' = st_messages s)"
  proof (cases "activity_item_ok (activity_from_envelope v)")
    case False
    then show ?thesis using assms(2) unfolding activity_refused by (auto simp: handle_envelope_def activity_refused refused_envelope_def)
  next
    case True
    then have "refused_envelope v \<longleftrightarrow> ce_event_type v \<in> {''response.completed'', ''response.failed''} \<and>
       (case ce_response v of None \<Rightarrow> False | Some out \<Rightarrow> refused_answer out)"
      unfolding activity_refused refused_envelope_def by blast
    then show ?thesis
      using assms keep True
      by (auto simp: handle_envelope_def commit_def complete_def answer_refused Let_def split: if_splits option.splits)
  qed
  then show "e = Inl Contract_fault \<longleftrightarrow> refused_envelope v"
    "refused_envelope v \<Longrightarrow> st_pending s' = st_pending s \<and> st_messages s' = st_messages s" by blast+
qed

lemma handle_stream_refused:
  "list_all (\<lambda>v. ce_event_type v \<notin> set TERMINAL_EVENTS) (butlast vs) \<Longrightarrow>
   \<forall>v \<in> set vs. \<forall>out. ce_response v = Some out \<longrightarrow> \<not> list_ex (answers_request (go_request_id out)) (st_messages s) \<Longrightarrow>
   handle_stream maximum i now s vs r = (s', e) \<Longrightarrow>
   (e = Inl Contract_fault \<longleftrightarrow> list_ex refused_envelope vs) \<and>
   (e = Inl Contract_fault \<longrightarrow> st_pending s' = st_pending s \<and> st_messages s' = st_messages s)"
proof (induction vs arbitrary: s)
  case Nil
  then show ?case by (cases r) auto
next
  case (Cons v vs)
  obtain s1 e1 where h: "handle_envelope maximum i now s v = (s1, e1)" by (cases "handle_envelope maximum i now s v")
  have fresh: "\<forall>out. ce_response v = Some out \<longrightarrow> \<not> list_ex (answers_request (go_request_id out)) (st_messages s)"
    using Cons.prems(2) by simp
  note v = handle_envelope_refused [OF fresh h]
  show ?case
  proof (cases "vs = []")
    case True
    then show ?thesis using Cons.prems(3) h v by (cases e1; cases r) auto
  next
    case False
    then have quiet: "ce_event_type v \<notin> set TERMINAL_EVENTS" "list_all (\<lambda>v. ce_event_type v \<notin> set TERMINAL_EVENTS) (butlast vs)"
      using Cons.prems(1) by auto
    show ?thesis
    proof (cases e1)
      case (Inl f)
      then have "f = Contract_fault" using h quiet(1)
        by (auto simp: handle_envelope_def TERMINAL_EVENTS_def Let_def split: if_splits)
      then show ?thesis using Cons.prems(3) h v Inl by auto
    next
      case (Inr b)
      obtain act where s1: "s1 = s\<lparr> st_activity := act \<rparr>" using handle_quiet [OF h [unfolded Inr] quiet(1)] by blast
      have "handle_stream maximum i now s1 vs r = (s', e)" using Cons.prems(3) h Inr by simp
      from Cons.IH [OF quiet(2) _ this] Cons.prems(2) s1 v(1) Inr show ?thesis by simp
    qed
  qed
qed

text \<open>A prompt within the limit of the input is a message the page takes.\<close>

lemma prompt_taken:
  assumes "strip p \<noteq> []" "length p \<le> MAXIMUM_PROMPT"
  shows "chat_message_ok (user_message u now (strip p))"
proof -
  have "length (strip p) \<le> length p"
    unfolding strip_def length_rev using length_dropWhile_le order_trans by (metis length_rev)
  then show ?thesis using assms by (simp add: chat_message_ok_def user_message_def MAXIMUM_PROMPT_def Suc_le_eq)
qed

text \<open>C40: Whatever the server answers to a prompt, the turn of the page settles exactly when the page's own contracts
  take every envelope of the stream: then no request stays pending, and unless an error is shown, the page has
  gained the user's message and the answer of an envelope of the stream.  Otherwise, for an answer without text, one
  of more than 32000 characters, or an activity out of its bounds, the uncaught exception leaves the request pending
  and the prompt unanswered.  It is assumed that no earlier message answered the same request, and the input
  limits the prompt to 4000 characters.\<close>

theorem turn_settles:
  assumes "st_access_token s \<noteq> None" "\<not> st_pending s" "strip p \<noteq> []" "length p \<le> MAXIMUM_PROMPT"
    and "\<forall>v \<in> set (fst (stream_chat d loads response)). \<not> list_ex (answers_request (ce_request_id v)) (st_messages s)"
  shows "case run_turn maximum u i now s (Some p) (stream_chat d loads response) of (s', outcome) \<Rightarrow>
    (outcome = Inr () \<longleftrightarrow> \<not> list_ex refused_envelope (fst (stream_chat d loads response))) \<and>
    (case outcome of
       Inl f \<Rightarrow> f = Contract_fault \<and> st_pending s' \<and> st_messages s' = st_messages s @ [user_message u now (strip p)]
     | Inr _ \<Rightarrow> \<not> st_pending s' \<and> (st_last_error s' = None \<longrightarrow>
         (\<exists>v out. v \<in> set (fst (stream_chat d loads response)) \<and> ce_response v = Some out \<and>
            st_messages s' = st_messages s @ [user_message u now (strip p), assistant_message i now out] \<and>
            st_session_id s' = Some (go_session_id out))))"
proof -
  obtain vs r where stream: "stream_chat d loads response = (vs, r)" by (cases "stream_chat d loads response")
  obtain b where b: "accept_all new_validator vs = Inr b" using stream_chat_prefix [OF stream] by blast
  note shape = accept_all_shape [OF b]
  define s0 where "s0 = s\<lparr> st_messages := st_messages s @ [user_message u now (strip p)], st_pending := True,
    st_last_error := None, st_activity := [] \<rparr>"
  note ok = prompt_taken [OF assms(3,4)]
  obtain s2 e where h: "handle_stream maximum i now s0 vs r = (s2, e)" by (cases "handle_stream maximum i now s0 vs r")
  have turn: "run_turn maximum u i now s (Some p) (stream_chat d loads response) = end_turn (s2, e)"
    using assms(1-3) ok stream h by (auto simp: run_turn_def add_user_message_def s0_def)
  have fresh: "\<forall>v \<in> set vs. \<forall>out. ce_response v = Some out \<longrightarrow> \<not> list_ex (answers_request (go_request_id out)) (st_messages s0)"
    using assms(5) stream shape
    by (auto simp: s0_def answers_request_def user_message_def response_matches_def envelope_ids_def list_all_iff list_ex_iff
        split: option.splits)
  note refused = handle_stream_refused [OF shape [THEN conjunct2] fresh h]
  show ?thesis
  proof (cases e)
    case (Inl f)
    then show ?thesis using refused unfolding turn
      by (cases f) (auto simp: end_turn_def record_error_def clear_all_def blank_frontend_def stream s0_def)
  next
    case (Inr unit)
    have settled: "handle_stream maximum i now s0 vs r = (s2, Inr ())" using h Inr by simp
    have r: "r = Inr ()" by (rule handle_stream_end [OF settled])
    then obtain x :: http_response where "read_stream DEFAULT_MAX_EVENT_BYTES d new_parser new_validator (hr_chunks x) (hr_interrupted x) = (vs, Inr ())"
      using stream by (auto simp: stream_chat_def split: option.splits if_splits)
    from read_stream_done [OF this] obtain b where "accept_all new_validator vs = Inr b" "va_terminal_event b \<noteq> None"
      by blast
    then obtain us v where v: "vs = us @ [v]" "\<forall>u \<in> set us. ce_event_type u \<notin> set TERMINAL_EVENTS"
      "ce_event_type v \<in> set TERMINAL_EVENTS"
      using accept_all_terminal [of new_validator vs b] by (auto simp: new_validator_def)
    obtain act where last: "handle_stream maximum i now (s0\<lparr> st_activity := act \<rparr>) [v] (Inr ()) = (s2, Inr ())"
      using handle_stream_quiet settled v(1,2) r by blast
    from handle_closing [OF last v(3)] fresh v(1)
    have "\<exists>out. ce_response v = Some out \<and> \<not> st_pending s2 \<and> st_last_error s2 = None \<and>
        st_session_id s2 = Some (go_session_id out) \<and> st_messages s2 = st_messages s0 @ [assistant_message i now out]"
      by simp
    then show ?thesis unfolding turn using refused Inr v(1) by (auto simp: end_turn_def stream s0_def)
  qed
qed

lemma sample_stream:
  "stream_chat sample_decoders loads (Some \<lparr> hr_status = 200, hr_content_type = ''text/event-stream'', hr_retry_after = None,
     hr_chunks = sample_chunks, hr_interrupted = False \<rparr>) = ([sample_envelope], Inr ())"
proof -
  have feed: "feed_all 256000 new_parser sample_chunks =
      Inr (new_parser, map (raw_event_of sample_decoders (\<lambda>_. ''v'')) (envelopes [Comment ''keepalive'', Sent sample_envelope]))"
    by (rule feed_stream [OF sample_messages_ok _ concat_sample_chunks]) (simp_all add: sample_chunks_def)
  obtain a where a: "accept_all new_validator [sample_envelope] = Inr a" "finish_validator a = Inr ()"
    using sample_accepted by blast
  have "\<forall>v \<in> set [sample_envelope]. dc_envelope sample_decoders ((\<lambda>_. ''v'') v) = Some v" by (simp add: sample_decoders_def)
  from consume_accepted [OF this a(1)]
  have "consume_events sample_decoders new_validator (map (raw_event_of sample_decoders (\<lambda>_. ''v''))
      (envelopes [Comment ''keepalive'', Sent sample_envelope])) = ([sample_envelope], Inr a)" by simp
  from read_stream_all [OF feed this] show ?thesis
    using a(2) by (simp add: stream_chat_def DEFAULT_MAX_EVENT_BYTES_def finish_parser_def new_parser_def)
qed

theorem turn_settles_witness:
  "\<exists>s'. run_turn 10 1 2 0 (authenticate blank_frontend ''t'' \<lparr> fu_username = ''u'', fu_display_name = ''U'', fu_role = VIEWER \<rparr>) (Some '' hi '')
       (stream_chat sample_decoders (\<lambda>_. None) (Some \<lparr> hr_status = 200, hr_content_type = ''text/event-stream'', hr_retry_after = None,
          hr_chunks = sample_chunks, hr_interrupted = False \<rparr>)) = (s', Inr ()) \<and> \<not> st_pending s' \<and>
     map cm_content (st_messages s') = [''hi'', ''ok''] \<and> st_session_id s' = Some 13"
proof -
  let ?s = "authenticate blank_frontend ''t'' \<lparr> fu_username = ''u'', fu_display_name = ''U'', fu_role = VIEWER \<rparr>"
  let ?stream = "stream_chat sample_decoders (\<lambda>_. None) (Some \<lparr> hr_status = 200, hr_content_type = ''text/event-stream'',
    hr_retry_after = None, hr_chunks = sample_chunks, hr_interrupted = False \<rparr>)"
  have hi: "strip '' hi '' = ''hi''" by code_simp
  have s: "st_access_token ?s \<noteq> None" "\<not> st_pending ?s" "st_messages ?s = []"
    by (simp_all add: authenticate_def clear_all_def blank_frontend_def)
  obtain s' where s': "run_turn 10 1 2 0 ?s (Some '' hi '') ?stream = (s', Inr ())" "st_last_error s' = None"
    unfolding sample_stream
    by (simp add: run_turn_def hi s add_user_message_def user_message_def chat_message_ok_def handle_envelope_def
        activity_item_ok_def activity_from_envelope_def activity_label_def LABELS_def sample_envelope_def add_activity_def
        commit_def complete_def assistant_message_def sample_output_def answers_request_def end_turn_def Let_def)
  have "\<forall>v \<in> set (fst ?stream). \<not> list_ex (answers_request (ce_request_id v)) (st_messages ?s)" by (simp add: s)
  from turn_settles [where p = "'' hi ''" and maximum = 10 and u = 1 and i = 2 and now = 0, OF s(1,2) _ _ this] s' hi
  have "\<not> st_pending s' \<and> (\<exists>v out. v \<in> {sample_envelope} \<and> ce_response v = Some out \<and>
      st_messages s' = [user_message 1 0 ''hi'', assistant_message 2 0 out] \<and> st_session_id s' = Some (go_session_id out))"
    by (simp add: sample_stream s(3) MAXIMUM_PROMPT_def)
  then show ?thesis using s'(1)
    by (auto simp: sample_envelope_def sample_output_def user_message_def assistant_message_def)
qed

end
