(* ===== verification/Spec2Isabelle.thy ===== *)
theory Spec2Isabelle
  imports Graph_Terminal Rate_Properties Retrieval_Claims Research_Claims Response_Claims Analysis_Claims Stream_Claims
begin

text \<open>
  A verification development for the Enterprise AI Knowledge Assistant: a backend (package
  \<open>enterprise_ai\<close> under \<open>backend/src\<close>) that answers questions of an authenticated user from a corpus of
  documents with access levels.  A request is rate limited, then one invocation of a state graph decides
  a route: it refuses, retrieves and answers with citations, analyses incident rows, calls a read-only
  enterprise tool, or runs bounded recursive research over several workers; a memory per session supplies
  the context of follow-up questions.  The corpus itself comes from an ingestion package
  (\<open>enterprise_ai_ingestion\<close>), whose artifacts the retrieval branches index.

  Theories and what they model, in the order in which they are built:

  \<^item> \<open>Py_Prelude\<close>, \<open>Py_Regex\<close>: the Python the program uses (results, slices, insertion-ordered
    dictionaries, ASCII string methods, stable sort, a backtracking matcher for its regular expressions).
  \<^item> \<open>Contracts\<close>, \<open>Settings\<close>, \<open>Evidence\<close>, \<open>Result_Models\<close>: the Pydantic models (models/, retrieval/config.py,
    llm/models.py, research/models.py, mcp_tools/models.py, tools/python_analysis/models.py).  A class is a
    record, its validators are a predicate \<open>..._ok\<close>; constructing an object fails when the predicate does not hold.
  \<^item> \<open>Access_Control\<close>: security/policies.py and authorization.py, with the contract \<open>document_gate\<close>.
  \<^item> \<open>Text_Rules\<close>: the guardrail patterns, enterprise identifiers, intents and the supervisor's table.
  \<^item> \<open>Conversation_Context\<close>, \<open>Memory_Store\<close>, \<open>Memory_Service\<close>: memory/, with the contract
    \<open>conversation_store\<close> of memory/store.py interpreted on the in-memory store.
  \<^item> \<open>Enterprise_Tools\<close>: the planner of the analysis and the MCP tools.
  \<^item> \<open>Graph_State\<close>, \<open>Graph_Nodes\<close>, \<open>Graph_Driver\<close>, \<open>Graph_Flow\<close>: state, reducers, events, every node with its
    guard, the edges, and the runtime with its sessions and its stream (graph/).  \<open>Graph_Driver\<close> holds what is
    assumed of LangGraph, as a locale.
  \<^item> \<open>Graph_Frames\<close>, \<open>Graph_Properties\<close>, \<open>Graph_Claims\<close>: frame lemmas, the invariant of an invocation, its properties.
  \<^item> \<open>Rate_Limit\<close>, \<open>Rate_Properties\<close>: rate_limit/, with a bucket store as a contract over an abstract level.
  \<^item> \<open>Retrieval_Filters\<close>, \<open>Sparse_Index\<close>, \<open>Sparse_Retrieval\<close>, \<open>Dense_Retrieval\<close>, \<open>Hybrid_Retrieval\<close>: retrieval/, from the
    index and its artifacts over BM25, the vector provider and the retries to fusion; \<open>Sparse_Properties\<close>,
    \<open>Hybrid_Properties\<close>, \<open>Retrieval_Contract\<close>, \<open>Retrieval_Claims\<close> hold their lemmas and properties, the last but one
    with the contract \<open>knowledge_retriever\<close> that both retrievers of the graph fulfil.
  \<^item> \<open>Research_Plan\<close>, \<open>Research_Evidence\<close>, \<open>Research_Rounds\<close>: research/, from the planner and the plan compiler over the
    evidence ledger and the coverage to budget, workers, rounds and the service; \<open>Plan_Properties\<close>,
    \<open>Ledger_Properties\<close>, \<open>Round_Properties\<close>, \<open>Research_Run\<close>, \<open>Schedule_Independence\<close>, \<open>Research_Service\<close>, \<open>Research_Samples\<close>,
    \<open>Research_Claims\<close> hold their lemmas, the concrete run and the properties.
  \<^item> \<open>Grounding\<close>, \<open>Extractive_Fallback\<close>, \<open>Claim_Assignment\<close>, \<open>Response_Prompts\<close>, \<open>Response_Checks\<close>,
    \<open>Response_Service\<close>: llm/, the evidence context, the validation of citations and identifiers, the deterministic
    answer extracted from evidence, the assignment of claims to the dimensions of a comparison, the requests to the
    model, and the service with its repair loop and fallbacks; \<open>Extractive_Properties\<close>, \<open>Response_Properties\<close>,
    \<open>Response_Claims\<close> hold their lemmas and properties.
  \<^item> \<open>Analysis_Data\<close>, \<open>Analysis_Engine\<close>, \<open>Analysis_Claims\<close>: tools/python_analysis/, the taxonomy and the extraction
    of the incidents a caller may read, the aggregate operations and the service, and their properties.
  \<^item> \<open>Graph_Terminal\<close>, \<open>Event_Stream\<close>, \<open>Stream_Client\<close>, \<open>Client_State\<close>: api/sse.py with its envelopes and errors, and
    of the frontend the parser of server-sent events, the validator of the stream, the HTTP client, the session
    state and the turns of the page; \<open>Stream_Properties\<close>, \<open>Stream_Claims\<close> hold their lemmas and properties.

  How the program is translated.  State is passed explicitly: a store operation takes the store and returns it
  updated, a node returns the writes the reducers merge.  An exception is the left side of a result.  Code
  between two awaits is one step; where tasks run concurrently over shared state (the workers of a research
  round) a schedule, a list of worker numbers, is an argument, and the properties hold for every schedule.
  Collaborators whose code is not in the repository (the vector provider, the embedding and language models,
  LangGraph, the MCP transport, SHA-256, \<open>uuid5\<close>) are arguments or fields of a record of services.
  Natural numbers stand for UUIDs and for microseconds since the epoch, integers for days; a float is a real,
  so rounding, infinities and NaN do not occur; text is ASCII, where casefolding is lower-casing.

  Bounds and fuel.  \<open>drive\<close> of the graph and \<open>research_rounds\<close> take the recursion limits of the code as fuel;
  that the limits are never reached is proved (\<open>graph_always_answers\<close>, \<open>research_terminates\<close>), not assumed.
  The fuel of a regular expression's repetition is one more than the remaining characters, which each
  iteration shortens; the loops over texts (\<open>rx_findall\<close>, \<open>rx_sub\<close>, \<open>rx_split\<close>) likewise.

  What the lemmas show, by group: memory is bounded, private to its owner, returns what was written and, until
  the session expires, takes a repeated write as a duplicate; an invocation of the graph always ends with an answer, follows the decided route, calls tools only
  with permission and streams a complete log; rate limiting admits no more than the budget and its
  \<open>Retry-After\<close> suffices where every bucket fills within its idle time to live (the settings do not enforce this, and
  \<open>short_ttl_forgets_debt\<close> shows what happens otherwise); a build of the sparse artifacts whose calls may all fail,
  those of the rollback included, leaves the old or the new files but for one mixture; retrieval returns only authorized, current chunks that contain the query's
  salient terms, fusion takes the first of all candidates in the documented order, and the service fails or degrades as documented; a compiled plan is well formed and acyclic, and research stays
  within its budget, terminates, does not depend on the order of its workers and judges coverage soundly; an
  answer is always given while the manifest can be read and, but for the fallback of a comparison, cites only authorized and current evidence, accepts a comparison exactly when distinct
  claims cover its dimensions (the augmenting paths of the code find an assignment whenever there is one; their
  depth, bounded by the number of candidates, is never cut short), and keeps to its calls and prompt bound;
  a structured analysis depends on readable incidents only and counts its groups exactly; the client accepts the
  stream of every finished invocation, reads it back however its text is cut, and settles every turn whose
  envelopes the contracts of the page take (an answer they refuse leaves the request pending).

  Not modelled: the rest of the HTTP layer (api/, main.py), tokens and password hashes (security/token.py,
  security/authentication.py), logging and tracing (observability/), the command lines, the adapters of
  external services (Pinecone, embeddings, Ollama, OpenAI, the checkpointer), the views of the frontend, the scripts that
  generate and check sample documents, the ingestion pipeline (parser, chunker, validation), and the
  evaluation harnesses: input and output, third-party calls, or offline tooling around the core.  Wall-clock
  timeouts appear as outcomes of the call they bound.
\<close>

end
